(* ===== verification/Prelude.thy ===== *)
theory Prelude
  imports Main "HOL-Library.AList"
begin

text \<open>
  Shared vocabulary of the development: the exceptions the program raises, a small state and
  exception monad in which handlers keep the effects they committed before an exception, and
  Python dictionaries as association lists with insertion order.
\<close>

section \<open>Exceptions\<close>

text \<open>
  One constructor per exception class that the modelled code raises or catches, with the text
  that a handler reads.
\<close>

datatype exc =
    ValueError string
  | KeyError string
  | TypeError string
  | IntegrityError string
  | RuntimeError string
  | LeaseBusyError string
  | LeaseNotFoundError string
  | StaleLeaseError string
  | DeliveryError string
  | SupervisorError string
  | WorkerIsolationError string
  | OSError string
  | AttributeError string
  | CliRecordError string string
  | WorkerStartupFailure string string string
  | CleanupFailure string exc
  | CleanupGroup string "exc list"
  | PreflightError "string option" string string

section \<open>State and exceptions\<close>

text \<open>
  A statement of the program maps a world to its outcome and the world afterwards. The world
  is kept on the error branch, because every database statement commits on its own: what a
  handler wrote before it raised stays written.
\<close>

type_synonym ('w, 'a) io = "'w \<Rightarrow> (exc + 'a) \<times> 'w"

named_theorems io_defs

definition ret_io :: "'a \<Rightarrow> ('w, 'a) io" where
  [io_defs]: "ret_io x w = (Inr x, w)"

definition raise_io :: "exc \<Rightarrow> ('w, 'a) io" where
  [io_defs]: "raise_io e w = (Inl e, w)"

definition bind_io :: "('w, 'a) io \<Rightarrow> ('a \<Rightarrow> ('w, 'b) io) \<Rightarrow> ('w, 'b) io" where
  [io_defs]: "bind_io m k w = (case m w of (Inl e, w') \<Rightarrow> (Inl e, w') | (Inr x, w') \<Rightarrow> k x w')"

definition then_io :: "('w, 'a) io \<Rightarrow> ('w, 'b) io \<Rightarrow> ('w, 'b) io" where
  [io_defs]: "then_io m k = bind_io m (\<lambda>_. k)"

definition gets_io :: "('w \<Rightarrow> 'a) \<Rightarrow> ('w, 'a) io" where
  [io_defs]: "gets_io f w = (Inr (f w), w)"

definition modify_io :: "('w \<Rightarrow> 'w) \<Rightarrow> ('w, unit) io" where
  [io_defs]: "modify_io f w = (Inr (), f w)"

text \<open>\<open>try ... except\<close>: the handler chooses by the exception and runs in the world reached.\<close>

definition catch_io :: "('w, 'a) io \<Rightarrow> (exc \<Rightarrow> ('w, 'a) io) \<Rightarrow> ('w, 'a) io" where
  [io_defs]: "catch_io m h w = (case m w of (Inl e, w') \<Rightarrow> h e w' | (Inr x, w') \<Rightarrow> (Inr x, w'))"

text \<open>\<open>try ... finally\<close>: the clean-up runs on both outcomes; its own exception wins.\<close>

definition finally_io :: "('w, 'a) io \<Rightarrow> ('w, unit) io \<Rightarrow> ('w, 'a) io" where
  [io_defs]: "finally_io m c w =
    (case m w of (r, w') \<Rightarrow> (case c w' of (Inl e, w'') \<Rightarrow> (Inl e, w'') | (Inr _, w'') \<Rightarrow> (r, w'')))"

definition when_io :: "bool \<Rightarrow> ('w, unit) io \<Rightarrow> ('w, unit) io" where
  [io_defs]: "when_io b m = (if b then m else ret_io ())"

fun for_io :: "'b list \<Rightarrow> ('b \<Rightarrow> ('w, unit) io) \<Rightarrow> ('w, unit) io" where
  "for_io [] f = ret_io ()"
| "for_io (x # xs) f = then_io (f x) (for_io xs f)"

lemma bind_ret [simp]: "bind_io (ret_io x) k = k x"
  by (simp add: io_defs fun_eq_iff)

lemma bind_raise [simp]: "bind_io (raise_io e) k = raise_io e"
  by (simp add: io_defs fun_eq_iff)

lemma bind_io_Inr:
  "bind_io m k w = (Inr y, w') \<longleftrightarrow> (\<exists>x w1. m w = (Inr x, w1) \<and> k x w1 = (Inr y, w'))"
  by (auto simp: bind_io_def split: prod.splits sum.splits)

lemma bind_run: "m w = (Inr x, w1) \<Longrightarrow> bind_io m k w = k x w1"
  by (simp add: bind_io_def)

lemma bind_fail: "m w = (Inl e, w1) \<Longrightarrow> bind_io m k w = (Inl e, w1)"
  by (simp add: bind_io_def)

lemma bind_io_Inl:
  "bind_io m k w = (Inl e, w') \<longleftrightarrow>
    m w = (Inl e, w') \<or> (\<exists>x w1. m w = (Inr x, w1) \<and> k x w1 = (Inl e, w'))"
  by (auto simp: bind_io_def split: prod.splits sum.splits)

lemma ret_io_apply: "ret_io x w = (Inr x, w)"
  by (simp add: io_defs)

lemma raise_io_apply: "raise_io e w = (Inl e, w)"
  by (simp add: io_defs)

text \<open>
  A handler is evaluated by rewriting: the first statement of a sequence is run before the rest is
  looked at, so only the branch that is taken is unfolded.
\<close>

lemma run_first:
  "bind_io m k = bind_io m k" "then_io m n = then_io m n" "catch_io m h = catch_io m h"
  "finally_io m c = finally_io m c" "when_io b c' = when_io b c'"
  by (rule refl)+

lemma run_list: "xs = ys \<Longrightarrow> for_io xs f = for_io ys f"
  by simp

section \<open>What a statement may do to the world\<close>

text \<open>
  A contract on runs: a reflexive and transitive relation between the world before and the
  world after. A statement keeps it when every run is related, whether it returns or raises.
  The rules of the locale compose such facts along the structure of a handler.
\<close>

definition keeps :: "('w \<Rightarrow> 'w \<Rightarrow> bool) \<Rightarrow> ('w, 'a) io \<Rightarrow> bool" where
  "keeps R m \<longleftrightarrow> (\<forall>w. R w (snd (m w)))"

lemma keepsD: "keeps R m \<Longrightarrow> m w = (r, w') \<Longrightarrow> R w w'"
  by (metis keeps_def snd_conv)

locale io_contract =
  fixes R :: "'w \<Rightarrow> 'w \<Rightarrow> bool"
  assumes R_refl: "R w w"
    and R_trans: "R u v \<Longrightarrow> R v w \<Longrightarrow> R u w"
begin

lemma keeps_ret: "keeps R (ret_io x)"
  by (simp add: keeps_def R_refl ret_io_apply raise_io_apply)

lemma keeps_raise: "keeps R (raise_io e)"
  by (simp add: keeps_def R_refl ret_io_apply raise_io_apply)

lemma keeps_gets: "keeps R (gets_io f)"
  by (simp add: keeps_def gets_io_def R_refl)

lemma keeps_bind: "keeps R m \<Longrightarrow> (\<And>x. keeps R (k x)) \<Longrightarrow> keeps R (bind_io m k)"
  unfolding keeps_def bind_io_def
  by (auto split: prod.split sum.split) (metis R_trans snd_conv)+

lemma keeps_then: "keeps R m \<Longrightarrow> keeps R k \<Longrightarrow> keeps R (then_io m k)"
  by (simp add: then_io_def keeps_bind)

lemma keeps_catch: "keeps R m \<Longrightarrow> (\<And>e. keeps R (h e)) \<Longrightarrow> keeps R (catch_io m h)"
  unfolding keeps_def catch_io_def
  by (auto split: prod.split sum.split) (metis R_trans snd_conv)+

lemma keeps_finally: "keeps R m \<Longrightarrow> keeps R c \<Longrightarrow> keeps R (finally_io m c)"
  unfolding keeps_def finally_io_def
  by (auto split: prod.split sum.split) (metis R_trans snd_conv)+

lemma keeps_when: "keeps R m \<Longrightarrow> keeps R (when_io b m)"
  by (simp add: when_io_def keeps_ret)

lemma keeps_for: "(\<And>x. keeps R (f x)) \<Longrightarrow> keeps R (for_io xs f)"
  by (induction xs) (simp_all add: keeps_ret keeps_then)

lemma keeps_if: "(b \<Longrightarrow> keeps R m) \<Longrightarrow> (\<not> b \<Longrightarrow> keeps R n) \<Longrightarrow> keeps R (if b then m else n)"
  by simp

lemma keeps_option:
  "(v = None \<Longrightarrow> keeps R m) \<Longrightarrow> (\<And>x. v = Some x \<Longrightarrow> keeps R (k x)) \<Longrightarrow>
    keeps R (case v of None \<Rightarrow> m | Some x \<Rightarrow> k x)"
  by (simp split: option.split)

lemma keeps_sum:
  "(\<And>e. v = Inl e \<Longrightarrow> keeps R (m e)) \<Longrightarrow> (\<And>x. v = Inr x \<Longrightarrow> keeps R (k x)) \<Longrightarrow>
    keeps R (case v of Inl e \<Rightarrow> m e | Inr x \<Rightarrow> k x)"
  by (simp split: sum.split)

lemma keeps_prod: "(\<And>x y. v = (x, y) \<Longrightarrow> keeps R (k x y)) \<Longrightarrow> keeps R (case v of (x, y) \<Rightarrow> k x y)"
  by (simp split: prod.split)

lemmas keeps_rules = keeps_ret keeps_raise keeps_gets keeps_bind keeps_then keeps_catch
  keeps_finally keeps_when keeps_for keeps_if keeps_option keeps_sum keeps_prod

end

section \<open>Computations that may raise\<close>

definition bindE :: "exc + 'a \<Rightarrow> ('a \<Rightarrow> exc + 'b) \<Rightarrow> exc + 'b" where
  "bindE m k = (case m of Inl e \<Rightarrow> Inl e | Inr x \<Rightarrow> k x)"

lemma bindE_simps [simp]: "bindE (Inl e) k = Inl e" "bindE (Inr x) k = k x"
  by (simp_all add: bindE_def)

lemma bindE_Inr_iff: "bindE m k = Inr y \<longleftrightarrow> (\<exists>x. m = Inr x \<and> k x = Inr y)"
  by (cases m) simp_all

lemma bindE_Inl_iff: "bindE m k = Inl e \<longleftrightarrow> m = Inl e \<or> (\<exists>x. m = Inr x \<and> k x = Inl e)"
  by (cases m) simp_all

lemma case_sum_iff:
  "(case m of Inl a \<Rightarrow> f a | Inr b \<Rightarrow> g b) = y \<longleftrightarrow>
    (\<exists>a. m = Inl a \<and> f a = y) \<or> (\<exists>b. m = Inr b \<and> g b = y)"
  by (cases m) auto

lemma map_sum_Inr_iff: "map_sum id f m = Inr y \<longleftrightarrow> (\<exists>x. m = Inr x \<and> y = f x)"
  by (cases m) auto

lemma map_sum_Inl_iff: "map_sum id f m = Inl e \<longleftrightarrow> m = Inl e"
  by (cases m) auto

lemma if_Inr_iff: "(if b then Inl e else m) = Inr y \<longleftrightarrow> \<not> b \<and> m = Inr y"
  by simp

fun foldE :: "('e \<Rightarrow> 's \<Rightarrow> exc + 's) \<Rightarrow> 'e list \<Rightarrow> 's \<Rightarrow> exc + 's" where
  "foldE f [] s = Inr s"
| "foldE f (e # es) s = (case f e s of Inl x \<Rightarrow> Inl x | Inr s' \<Rightarrow> foldE f es s')"

lemma foldE_append:
  "foldE f (xs @ ys) s = (case foldE f xs s of Inl x \<Rightarrow> Inl x | Inr s' \<Rightarrow> foldE f ys s')"
  by (induction xs arbitrary: s) (auto split: sum.split)

lemma foldE_skip: "(\<And>e s. e \<in> set es \<Longrightarrow> f e s = Inr s) \<Longrightarrow> foldE f es s = Inr s"
  by (induction es) auto

text \<open>
  \<open>mapE\<close> is a list comprehension whose element expression may raise: the first exception, in
  list order, is the result.
\<close>

fun mapE :: "('a \<Rightarrow> exc + 'b) \<Rightarrow> 'a list \<Rightarrow> exc + 'b list" where
  "mapE f [] = Inr []"
| "mapE f (x # xs) =
    (case f x of Inl e \<Rightarrow> Inl e
     | Inr y \<Rightarrow> (case mapE f xs of Inl e \<Rightarrow> Inl e | Inr ys \<Rightarrow> Inr (y # ys)))"

lemma mapE_Inr: "mapE f xs = Inr ys \<Longrightarrow> list_all2 (\<lambda>x y. f x = Inr y) xs ys"
  by (induction xs arbitrary: ys) (auto split: sum.splits)

section \<open>Dictionaries\<close>

text \<open>
  A Python dictionary is an association list with distinct keys in insertion order.
  \<open>AList.update\<close> overwrites in place or appends, as the assignment \<open>d[k] = v\<close> does, and
  \<open>{**d, **e}\<close> is a fold of updates.
\<close>

type_synonym ('k, 'v) dict = "('k \<times> 'v) list"

definition dict_merge :: "('k, 'v) dict \<Rightarrow> ('k, 'v) dict \<Rightarrow> ('k, 'v) dict" where
  "dict_merge d e = fold (\<lambda>(k, v). AList.update k v) e d"

lemma map_of_dict_merge: "map_of (dict_merge d e) = map_of d ++ map_of (rev e)"
proof (induction e arbitrary: d)
  case Nil
  then show ?case by (simp add: dict_merge_def)
next
  case (Cons p e)
  obtain k v where p: "p = (k, v)" by (cases p)
  have "map_of (dict_merge d (p # e)) = map_of (dict_merge (AList.update k v d) e)"
    by (simp add: dict_merge_def p)
  also have "\<dots> = map_of (AList.update k v d) ++ map_of (rev e)"
    by (rule Cons.IH)
  also have "\<dots> = map_of d ++ map_of (rev (p # e))"
    by (auto simp: p fun_eq_iff map_add_def update_conv' map_of_append split: option.split)
  finally show ?case .
qed

lemma distinct_dict_merge: "distinct (map fst d) \<Longrightarrow> distinct (map fst (dict_merge d e))"
  unfolding dict_merge_def
  by (induction e arbitrary: d) (auto simp: distinct_update)

section \<open>Text\<close>

text \<open>The characters \<open>str.strip\<close> removes, among the code points below 256.\<close>

definition py_space :: "char \<Rightarrow> bool" where
  "py_space c = (of_char c \<in> {9, 10, 11, 12, 13, 28, 29, 30, 31, 32, 133, 160 :: nat})"

definition lstrip :: "string \<Rightarrow> string" where
  "lstrip s = dropWhile py_space s"

definition strip :: "string \<Rightarrow> string" where
  "strip s = rev (lstrip (rev (lstrip s)))"

text \<open>\<open>not s.strip()\<close>.\<close>

definition blank :: "string \<Rightarrow> bool" where
  "blank s = (strip s = [])"

lemma blank_iff: "blank s \<longleftrightarrow> list_all py_space s"
  by (auto simp: blank_def strip_def lstrip_def list_all_iff dropWhile_eq_Nil_conv)
     (metis set_dropWhileD set_rev set_takeWhileD takeWhile_dropWhile_id Un_iff set_append)+

text \<open>Python slices: an index below zero counts from the end.\<close>

definition py_index :: "nat \<Rightarrow> int \<Rightarrow> nat" where
  "py_index n i = (if i < 0 then nat (int n + i) else min n (nat i))"

definition py_slice :: "int \<Rightarrow> int \<Rightarrow> 'a list \<Rightarrow> 'a list" where
  "py_slice i j s = drop (py_index (length s) i) (take (py_index (length s) j) s)"

definition py_from :: "int \<Rightarrow> 'a list \<Rightarrow> 'a list" where
  "py_from i s = drop (py_index (length s) i) s"

text \<open>\<open>str.find\<close> and \<open>str.rfind\<close> of one character: \<open>-1\<close> when it is absent.\<close>

definition find_char :: "char \<Rightarrow> string \<Rightarrow> int" where
  "find_char c s = (if c \<in> set s then int (length (takeWhile (\<lambda>x. x \<noteq> c) s)) else -1)"

definition rfind_char :: "char \<Rightarrow> string \<Rightarrow> int" where
  "rfind_char c s = (if c \<in> set s
    then int (length s) - 1 - int (length (takeWhile (\<lambda>x. x \<noteq> c) (rev s))) else -1)"

definition strip_char :: "char \<Rightarrow> string \<Rightarrow> string" where
  "strip_char c s = rev (dropWhile (\<lambda>x. x = c) (rev (dropWhile (\<lambda>x. x = c) s)))"

section \<open>Lists\<close>

definition find_last :: "('a \<Rightarrow> bool) \<Rightarrow> 'a list \<Rightarrow> 'a option" where
  "find_last P xs = find P (rev xs)"

lemma find_Some_iff': "find P xs = Some x \<Longrightarrow> x \<in> set xs \<and> P x"
  by (induction xs) (auto split: if_splits)

lemma find_last_Some: "find_last P xs = Some x \<Longrightarrow> x \<in> set xs \<and> P x"
  unfolding find_last_def by (drule find_Some_iff') simp

lemma find_map_id:
  "(\<And>x. P (f x) = P x) \<Longrightarrow> find P (map f xs) = map_option f (find P xs)"
  by (induction xs) auto


lemma find_append_old: "find P xs = Some x \<Longrightarrow> find P (xs @ ys) = Some x"
  by (induction xs) (auto split: if_splits)

lemma find_map_other:
  "k' \<noteq> k \<Longrightarrow> key x = k' \<Longrightarrow>
    find (\<lambda>y. key y = k) (map (\<lambda>y. if key y = k' then x else y) xs) = find (\<lambda>y. key y = k) xs"
  by (induction xs) auto

lemma find_map_hit:
  "key x = k \<Longrightarrow> find (\<lambda>y. key y = k) xs = Some z \<Longrightarrow>
    find (\<lambda>y. key y = k) (map (\<lambda>y. if key y = k then x else y) xs) = Some x"
  by (induction xs) (auto split: if_splits)

text \<open>A table as a dictionary from its primary key, and the same table under an update.\<close>

definition keyed :: "('a \<Rightarrow> 'k) \<Rightarrow> 'a list \<Rightarrow> ('k, 'a) dict" where
  "keyed key xs = map (\<lambda>x. (key x, x)) xs"

lemma keyed_simps [simp]:
  "keyed key [] = []" "keyed key (x # xs) = (key x, x) # keyed key xs"
  "keyed key (xs @ ys) = keyed key xs @ keyed key ys"
  by (simp_all add: keyed_def)

lemma map_of_keyed: "map_of (keyed key xs) k = find (\<lambda>x. key x = k) xs"
  by (induction xs) auto

lemma find_None_key: "find (\<lambda>x. key x = k) xs = None \<longleftrightarrow> k \<notin> key ` set xs"
  by (induction xs) auto

lemma update_keyed_new: "k \<notin> key ` set xs \<Longrightarrow> key x = k \<Longrightarrow> AList.update k x (keyed key xs) = keyed key (xs @ [x])"
  by (induction xs) auto

lemma set_keyed_other: "k \<notin> key ` set xs \<Longrightarrow> map (\<lambda>y. if key y = k then x else y) xs = xs"
  by (induction xs) auto

lemma update_keyed_hit:
  "distinct (map key xs) \<Longrightarrow> find (\<lambda>y. key y = k) xs = Some y \<Longrightarrow> key x = k \<Longrightarrow>
    AList.update k x (keyed key xs) = keyed key (map (\<lambda>y. if key y = k then x else y) xs)"
  by (induction xs) (auto simp: set_keyed_other split: if_splits)

lemma find_distinct:
  "distinct (map key xs) \<Longrightarrow> x \<in> set xs \<Longrightarrow> find (\<lambda>y. key y = key x) xs = Some x"
  by (induction xs) auto

lemma map_key_const:
  "distinct (map key xs) \<Longrightarrow> find (\<lambda>y. key y = k) xs = Some x \<Longrightarrow>
    map (\<lambda>y. if key y = k then f y else y) xs = map (\<lambda>y. if key y = k then f x else y) xs"
proof -
  assume d: "distinct (map key xs)" and x: "find (\<lambda>y. key y = k) xs = Some x"
  have "y = x" if "y \<in> set xs" "key y = k" for y
    using find_distinct[OF d that(1)] x that(2) by simp
  then show ?thesis by (intro map_cong) auto
qed

lemma map_key_update: "key x = k \<Longrightarrow> map key (map (\<lambda>y. if key y = k then x else y) xs) = map key xs"
  by (induction xs) auto

section \<open>Assignments that commute\<close>

text \<open>
  A fold of column assignments does not depend on the order of the columns, when assignments to
  different columns commute. The database applies the columns in the order of the call, the
  replay in the order of its own table of columns.
\<close>

lemma foldE_bring_front:
  assumes comm: "\<And>a b s s1 s2. fst a \<noteq> fst b \<Longrightarrow> f a s = Inr s1 \<Longrightarrow> f b s1 = Inr s2 \<Longrightarrow>
      \<exists>t. f b s = Inr t \<and> f a t = Inr s2"
    and "b \<in> set xs" "distinct (map fst xs)" "foldE f xs s = Inr s'"
  shows "foldE f (b # remove1 b xs) s = Inr s'"
  using assms(2-)
proof (induction xs arbitrary: s)
  case Nil
  then show ?case by simp
next
  case (Cons a xs)
  show ?case
  proof (cases "a = b")
    case True
    then show ?thesis using Cons.prems by simp
  next
    case False
    obtain s1 where s1: "f a s = Inr s1" "foldE f xs s1 = Inr s'"
      using Cons.prems(3) by (auto split: sum.splits)
    have "foldE f (b # remove1 b xs) s1 = Inr s'"
      using False Cons.IH Cons.prems(1,2) s1(2) by auto
    then obtain s2 where s2: "f b s1 = Inr s2" "foldE f (remove1 b xs) s2 = Inr s'"
      by (auto split: sum.splits)
    have "fst a \<noteq> fst b"
      using False Cons.prems(1,2) by force
    then obtain t where "f b s = Inr t" "f a t = Inr s2"
      using comm s1(1) s2(1) by blast
    then show ?thesis using False s2(2) by simp
  qed
qed

lemma foldE_mset:
  assumes comm: "\<And>a b s s1 s2. fst a \<noteq> fst b \<Longrightarrow> f a s = Inr s1 \<Longrightarrow> f b s1 = Inr s2 \<Longrightarrow>
      \<exists>t. f b s = Inr t \<and> f a t = Inr s2"
    and "set xs = set ys" "distinct (map fst xs)" "distinct ys" "foldE f xs s = Inr s'"
  shows "foldE f ys s = Inr s'"
  using assms(2-)
proof (induction ys arbitrary: xs s)
  case Nil
  then show ?case by simp
next
  case (Cons y ys)
  have y: "y \<in> set xs" using Cons.prems(1) by auto
  have dx: "distinct xs" using Cons.prems(2) by (simp add: distinct_map)
  have "foldE f (y # remove1 y xs) s = Inr s'"
    by (rule foldE_bring_front[OF comm y Cons.prems(2,4)])
  then obtain s1 where s1: "f y s = Inr s1" "foldE f (remove1 y xs) s1 = Inr s'"
    by (auto split: sum.splits)
  have "set (remove1 y xs) = set ys"
    using Cons.prems(1,3) dx by auto
  moreover have "distinct (map fst (remove1 y xs))"
    using Cons.prems(2) by (metis distinct_map distinct_remove1 inj_on_subset set_remove1_subset)
  ultimately have "foldE f ys s1 = Inr s'"
    using Cons.IH s1(2) Cons.prems(3) by simp
  then show ?case using s1(1) by simp
qed

lemma foldE_invariant:
  "(\<And>e s s'. f e s = Inr s' \<Longrightarrow> g s' = g s) \<Longrightarrow> foldE f es s = Inr s' \<Longrightarrow> g s' = g s"
  by (induction es arbitrary: s) (auto split: sum.splits)

end
