(* ===== verification/Json.thy ===== *)
theory Json
  imports Prelude
begin

text \<open>
  JSON values and the text \<open>json.dumps\<close> writes for them. Event payloads and several task
  columns are such texts. A float is carried as the literal that is written for it: the program
  stores and forwards costs and durations and never computes with a stored one.
  Strings are sequences of code points below 256.
\<close>

datatype json =
    JNull
  | JBool bool
  | JInt int
  | JFloat string
  | JStr string
  | JList "json list"
  | JObj "(string \<times> json) list"

type_synonym payload = "(string, json) dict"

section \<open>Writing\<close>

text \<open>Decimal digits, most significant first; \<open>rev_digits\<close> has fuel for one digit per step.\<close>

fun rev_digits :: "nat \<Rightarrow> nat \<Rightarrow> string" where
  "rev_digits 0 n = []"
| "rev_digits (Suc k) n =
    char_of (48 + n mod 10) # (if n < 10 then [] else rev_digits k (n div 10))"

definition nat_text :: "nat \<Rightarrow> string" where
  "nat_text n = rev (rev_digits (Suc n) n)"

definition int_text :: "int \<Rightarrow> string" where
  "int_text i = (if i < 0 then CHR ''-'' # nat_text (nat (- i)) else nat_text (nat i))"

definition hex_digit :: "nat \<Rightarrow> char" where
  "hex_digit n = (if n < 10 then char_of (48 + n) else char_of (87 + n))"

text \<open>
  The escapes of \<open>ensure_ascii=True\<close>: the two-character forms, and \<open>\u00xx\<close> for every other
  character outside the printable ASCII range.
\<close>

definition esc_char :: "char \<Rightarrow> string" where
  "esc_char c = (let n = of_char c :: nat in
     if n = 34 then [char_of (92::nat), c]
     else if n = 92 then [c, c]
     else if n = 10 then [char_of (92::nat), CHR ''n'']
     else if n = 13 then [char_of (92::nat), CHR ''r'']
     else if n = 9 then [char_of (92::nat), CHR ''t'']
     else if n = 12 then [char_of (92::nat), CHR ''f'']
     else if n = 8 then [char_of (92::nat), CHR ''b'']
     else if 32 \<le> n \<and> n \<le> 126 then [c]
     else [char_of (92::nat), CHR ''u'', CHR ''0'', CHR ''0'', hex_digit (n div 16), hex_digit (n mod 16)])"

definition quote_text :: "string \<Rightarrow> string" where
  "quote_text s = CHR 0x22 # concat (map esc_char s) @ [CHR 0x22]"

fun join :: "string \<Rightarrow> string list \<Rightarrow> string" where
  "join sep [] = []"
| "join sep [s] = s"
| "join sep (s # t # ts) = s @ sep @ join sep (t # ts)"

fun json_dumps :: "json \<Rightarrow> string" where
  "json_dumps JNull = ''null''"
| "json_dumps (JBool b) = (if b then ''true'' else ''false'')"
| "json_dumps (JInt i) = int_text i"
| "json_dumps (JFloat lit) = lit"
| "json_dumps (JStr s) = quote_text s"
| "json_dumps (JList xs) = ''['' @ join '', '' (map json_dumps xs) @ '']''"
| "json_dumps (JObj kvs) =
    ''{'' @ join '', '' (map (\<lambda>(k, v). quote_text k @ '': '' @ json_dumps v) kvs) @ ''}''"

section \<open>Reading values in handlers\<close>

definition jopt :: "string option \<Rightarrow> json" where
  "jopt v = (case v of None \<Rightarrow> JNull | Some s \<Rightarrow> JStr s)"

definition jint_opt :: "int option \<Rightarrow> json" where
  "jint_opt v = (case v of None \<Rightarrow> JNull | Some i \<Rightarrow> JInt i)"

text \<open>\<open>d.get(k)\<close>: an absent key reads as \<open>None\<close>.\<close>

definition jget :: "string \<Rightarrow> payload \<Rightarrow> json" where
  "jget k d = (case map_of d k of None \<Rightarrow> JNull | Some v \<Rightarrow> v)"

text \<open>\<open>d.get(k, default)\<close>.\<close>

definition jget_default :: "string \<Rightarrow> json \<Rightarrow> payload \<Rightarrow> json" where
  "jget_default k v p = (case map_of p k of None \<Rightarrow> v | Some x \<Rightarrow> x)"

text \<open>\<open>d[k]\<close>: an absent key raises.\<close>

definition jkey :: "string \<Rightarrow> payload \<Rightarrow> exc + json" where
  "jkey k d = (case map_of d k of None \<Rightarrow> Inl (KeyError k) | Some v \<Rightarrow> Inr v)"

text \<open>Python's truth value.\<close>

fun truthy :: "json \<Rightarrow> bool" where
  "truthy JNull = False"
| "truthy (JBool b) = b"
| "truthy (JInt i) = (i \<noteq> 0)"
| "truthy (JFloat lit) = (lit \<noteq> ''0.0'' \<and> lit \<noteq> ''-0.0'')"
| "truthy (JStr s) = (s \<noteq> [])"
| "truthy (JList xs) = (xs \<noteq> [])"
| "truthy (JObj kvs) = (kvs \<noteq> [])"

text \<open>\<open>a or b\<close>.\<close>

definition json_or :: "json \<Rightarrow> json \<Rightarrow> json" where
  "json_or a b = (if truthy a then a else b)"

text \<open>Values read into a typed column.\<close>

fun as_text :: "json \<Rightarrow> exc + string" where
  "as_text (JStr s) = Inr s"
| "as_text _ = Inl (TypeError ''text expected'')"

fun as_text_opt :: "json \<Rightarrow> exc + string option" where
  "as_text_opt (JStr s) = Inr (Some s)"
| "as_text_opt JNull = Inr None"
| "as_text_opt _ = Inl (TypeError ''text expected'')"

fun as_int :: "json \<Rightarrow> exc + int" where
  "as_int (JInt i) = Inr i"
| "as_int _ = Inl (TypeError ''integer expected'')"

fun as_int_opt :: "json \<Rightarrow> exc + int option" where
  "as_int_opt (JInt i) = Inr (Some i)"
| "as_int_opt JNull = Inr None"
| "as_int_opt _ = Inl (TypeError ''integer expected'')"

text \<open>A set holds only hashable values; asking whether it contains another one raises too.\<close>

definition is_hashable :: "json \<Rightarrow> bool" where
  "is_hashable v = (case v of JList _ \<Rightarrow> False | JObj _ \<Rightarrow> False | _ \<Rightarrow> True)"

definition hash_all :: "json list \<Rightarrow> exc + json list" where
  "hash_all xs = (if list_all is_hashable xs then Inr xs else Inl (TypeError ''unhashable type''))"

lemma as_text_opt_jopt [simp]: "as_text_opt (jopt v) = Inr v"
  by (simp add: jopt_def split: option.split)

lemma as_int_opt_jint_opt [simp]: "as_int_opt (jint_opt v) = Inr v"
  by (simp add: jint_opt_def split: option.split)

lemma jkey_hit [simp]: "map_of d k = Some v \<Longrightarrow> jkey k d = Inr v"
  by (simp add: jkey_def)

lemma jget_hit [simp]: "map_of d k = Some v \<Longrightarrow> jget k d = v"
  by (simp add: jget_def)

section \<open>Parsing\<close>

text \<open>
  \<open>json.loads\<close>: \<open>None\<close> stands for its \<open>JSONDecodeError\<close>. A number with a fraction or an exponent
  is kept as its literal. A \<open>\u\<close> escape above 255 lies outside the modelled characters and is
  refused. The recursion has fuel; the length of the text is enough, since every level consumes a
  character.
\<close>

definition is_ws :: "char \<Rightarrow> bool" where
  "is_ws c = (of_char c \<in> {9, 10, 13, 32 :: nat})"

definition skip_ws :: "string \<Rightarrow> string" where
  "skip_ws s = dropWhile is_ws s"

definition is_digit :: "char \<Rightarrow> bool" where
  "is_digit c = (48 \<le> (of_char c :: nat) \<and> (of_char c :: nat) \<le> 57)"

definition digit_val :: "char \<Rightarrow> nat" where
  "digit_val c = of_char c - 48"

definition nat_of_digits :: "string \<Rightarrow> nat" where
  "nat_of_digits ds = foldl (\<lambda>n c. 10 * n + digit_val c) 0 ds"

definition hex_val :: "char \<Rightarrow> nat option" where
  "hex_val c = (let n = of_char c :: nat in
    if 48 \<le> n \<and> n \<le> 57 then Some (n - 48)
    else if 97 \<le> n \<and> n \<le> 102 then Some (n - 87)
    else if 65 \<le> n \<and> n \<le> 70 then Some (n - 55)
    else None)"

text \<open>The fraction and the exponent of a number: the literal text taken, and the rest.\<close>

definition take_frac :: "string \<Rightarrow> string \<times> string" where
  "take_frac s = (case s of
      c # r \<Rightarrow> if of_char c = (46::nat) \<and> takeWhile is_digit r \<noteq> []
        then (c # takeWhile is_digit r, dropWhile is_digit r) else ([], s)
    | [] \<Rightarrow> ([], s))"

definition take_exp :: "string \<Rightarrow> string \<times> string" where
  "take_exp s = (case s of
      c # r \<Rightarrow>
        (if of_char c \<in> {69, 101 :: nat} then
          (let sg = takeWhile (\<lambda>x. of_char x \<in> {43, 45 :: nat}) (take 1 r); q = drop (length sg) r in
           if takeWhile is_digit q \<noteq> []
             then (c # sg @ takeWhile is_digit q, dropWhile is_digit q) else ([], s))
         else ([], s))
    | [] \<Rightarrow> ([], s))"

definition parse_number :: "string \<Rightarrow> (json \<times> string) option" where
  "parse_number s =
    (let neg = (s \<noteq> [] \<and> of_char (hd s) = (45::nat));
         body = (if neg then tl s else s);
         ds = (case body of
            c # r \<Rightarrow> if of_char c = (48::nat) then [c] else takeWhile is_digit body
          | [] \<Rightarrow> []);
         rest = drop (length ds) body
     in if ds = [] then None
        else (case take_frac rest of (fr, r1) \<Rightarrow>
          (case take_exp r1 of (ex, r2) \<Rightarrow>
            if fr = [] \<and> ex = []
              then Some (JInt (if neg then - int (nat_of_digits ds) else int (nat_of_digits ds)), r2)
            else Some (JFloat ((if neg then ''-'' else []) @ ds @ fr @ ex), r2))))"

definition unescape :: "char \<Rightarrow> char option" where
  "unescape e = (let n = of_char e :: nat in
    if n \<in> {34, 92, 47} then Some e
    else if n = 98 then Some (char_of (8::nat))
    else if n = 102 then Some (char_of (12::nat))
    else if n = 110 then Some (char_of (10::nat))
    else if n = 114 then Some (char_of (13::nat))
    else if n = 116 then Some (char_of (9::nat))
    else None)"

definition hex4 :: "string \<Rightarrow> char option" where
  "hex4 hs = (case map hex_val hs of
      [Some a, Some b, Some c, Some d] \<Rightarrow>
        (let n = 4096 * a + 256 * b + 16 * c + d in if n < 256 then Some (char_of n) else None)
    | _ \<Rightarrow> None)"

text \<open>The characters of a string after its opening quote.\<close>

fun parse_string :: "nat \<Rightarrow> string \<Rightarrow> (string \<times> string) option" where
  "parse_string 0 s = None"
| "parse_string (Suc k) [] = None"
| "parse_string (Suc k) (c # cs) =
    (if of_char c = (34::nat) then Some ([], cs)
     else if of_char c = (92::nat) then
       (case cs of
          [] \<Rightarrow> None
        | e # r \<Rightarrow>
           (if of_char e = (117::nat) then
              (case hex4 (take 4 r) of
                 None \<Rightarrow> None
               | Some ch \<Rightarrow> map_option (\<lambda>(t, q). (ch # t, q)) (parse_string k (drop 4 r)))
            else
              (case unescape e of
                 None \<Rightarrow> None
               | Some ch \<Rightarrow> map_option (\<lambda>(t, q). (ch # t, q)) (parse_string k r))))
     else if (of_char c :: nat) < 32 then None
     else map_option (\<lambda>(t, q). (c # t, q)) (parse_string k cs))"

definition starts_with :: "string \<Rightarrow> string \<Rightarrow> bool" where
  "starts_with p s = (take (length p) s = p)"

fun parse_value :: "nat \<Rightarrow> string \<Rightarrow> (json \<times> string) option"
  and parse_elems :: "nat \<Rightarrow> json list \<Rightarrow> string \<Rightarrow> (json \<times> string) option"
  and parse_members :: "nat \<Rightarrow> payload \<Rightarrow> string \<Rightarrow> (json \<times> string) option"
where
  "parse_value 0 s = None"
| "parse_value (Suc k) s =
    (case s of
       [] \<Rightarrow> None
     | c # cs \<Rightarrow>
        (if of_char c = (34::nat) then
           map_option (\<lambda>(t, r). (JStr t, r)) (parse_string (length cs) cs)
         else if of_char c = (91::nat) then
           (case skip_ws cs of
              [] \<Rightarrow> None
            | d # r \<Rightarrow> if of_char d = (93::nat) then Some (JList [], r) else parse_elems k [] (d # r))
         else if of_char c = (123::nat) then
           (case skip_ws cs of
              [] \<Rightarrow> None
            | d # r \<Rightarrow> if of_char d = (125::nat) then Some (JObj [], r) else parse_members k [] (d # r))
         else if starts_with ''null'' s then Some (JNull, drop 4 s)
         else if starts_with ''true'' s then Some (JBool True, drop 4 s)
         else if starts_with ''false'' s then Some (JBool False, drop 5 s)
         else parse_number s))"
| "parse_elems 0 acc s = None"
| "parse_elems (Suc k) acc s =
    (case parse_value k s of
       None \<Rightarrow> None
     | Some (v, r) \<Rightarrow>
        (case skip_ws r of
           [] \<Rightarrow> None
         | d # q \<Rightarrow>
            (if of_char d = (93::nat) then Some (JList (acc @ [v]), q)
             else if of_char d = (44::nat) then parse_elems k (acc @ [v]) (skip_ws q)
             else None)))"
| "parse_members 0 acc s = None"
| "parse_members (Suc k) acc s =
    (case s of
       [] \<Rightarrow> None
     | c # cs \<Rightarrow>
        (if of_char c \<noteq> (34::nat) then None
         else case parse_string (length cs) cs of
           None \<Rightarrow> None
         | Some (key, r) \<Rightarrow>
            (case skip_ws r of
               [] \<Rightarrow> None
             | e # q \<Rightarrow>
                (if of_char e \<noteq> (58::nat) then None
                 else case parse_value k (skip_ws q) of
                   None \<Rightarrow> None
                 | Some (v, r2) \<Rightarrow>
                    (case skip_ws r2 of
                       [] \<Rightarrow> None
                     | d # q2 \<Rightarrow>
                        (if of_char d = (125::nat) then Some (JObj (AList.update key v acc), q2)
                         else if of_char d = (44::nat)
                           then parse_members k (AList.update key v acc) (skip_ws q2)
                         else None))))))"

definition json_loads :: "string \<Rightarrow> json option" where
  "json_loads s =
    (case parse_value (Suc (length s)) (skip_ws s) of
       None \<Rightarrow> None
     | Some (v, r) \<Rightarrow> if skip_ws r = [] then Some v else None)"

section \<open>Python text of a value\<close>

text \<open>\<open>repr\<close> of a string: single quotes unless the text has one and no double quote.\<close>

definition repr_str :: "string \<Rightarrow> string" where
  "repr_str s =
    (let q = (if CHR 0x27 \<in> set s \<and> CHR 0x22 \<notin> set s then CHR 0x22 else CHR 0x27) in
     q # concat (map (\<lambda>c. let n = of_char c :: nat in
        if c = q \<or> n = 92 then [CHR 0x5C, c]
        else if n = 10 then [CHR 0x5C, CHR ''n'']
        else if n = 13 then [CHR 0x5C, CHR ''r'']
        else if n = 9 then [CHR 0x5C, CHR ''t'']
        else if n < 32 \<or> 127 \<le> n \<and> n \<le> 160 \<or> n = 173
          then [CHR 0x5C, CHR ''x'', hex_digit (n div 16), hex_digit (n mod 16)]
        else [c]) s) @ [q])"

fun py_repr :: "json \<Rightarrow> string" where
  "py_repr JNull = ''None''"
| "py_repr (JBool b) = (if b then ''True'' else ''False'')"
| "py_repr (JInt i) = int_text i"
| "py_repr (JFloat lit) = lit"
| "py_repr (JStr s) = repr_str s"
| "py_repr (JList xs) = ''['' @ join '', '' (map py_repr xs) @ '']''"
| "py_repr (JObj kvs) =
    ''{'' @ join '', '' (map (\<lambda>(k, v). repr_str k @ '': '' @ py_repr v) kvs) @ ''}''"

text \<open>\<open>str\<close> of a value, as an f-string writes it.\<close>

definition py_str :: "json \<Rightarrow> string" where
  "py_str j = (case j of JStr s \<Rightarrow> s | _ \<Rightarrow> py_repr j)"

end
