(* ===== verification/Schema.thy ===== *)
theory Schema
  imports Json
begin

text \<open>
  The tables of \<open>store/schema.sql\<close>: one record per row type, with the columns in the order of
  the table, and one record for the database. A nullable column is an option. A timestamp is an
  instant, counted in microseconds. The columns with a closed \<open>CHECK\<close> are datatypes, so that a
  row that violates the check cannot be written down; \<open>delivery_mode\<close> comes from the caller and
  keeps its check as a guard of the insert.
\<close>

section \<open>Closed columns\<close>

datatype tstate =
    Blocked | Queued | Running | Verifying | Triage | NeedsHuman
  | Delivering | Delivered | Failed | Cancelled | DependencyBlocked

fun state_name :: "tstate \<Rightarrow> string" where
  "state_name Blocked = ''blocked''"
| "state_name Queued = ''queued''"
| "state_name Running = ''running''"
| "state_name Verifying = ''verifying''"
| "state_name Triage = ''triage''"
| "state_name NeedsHuman = ''needs_human''"
| "state_name Delivering = ''delivering''"
| "state_name Delivered = ''delivered''"
| "state_name Failed = ''failed''"
| "state_name Cancelled = ''cancelled''"
| "state_name DependencyBlocked = ''dependency_blocked''"

definition all_states :: "tstate list" where
  "all_states = [Blocked, Queued, Running, Verifying, Triage, NeedsHuman, Delivering, Delivered,
    Failed, Cancelled, DependencyBlocked]"

definition state_of_name :: "string \<Rightarrow> tstate option" where
  "state_of_name s = find (\<lambda>q. state_name q = s) all_states"

lemma state_of_name_name [simp]: "state_of_name (state_name q) = Some q"
  by (cases q) (simp_all add: state_of_name_def all_states_def)

lemma state_name_inject [simp]: "state_name q = state_name r \<longleftrightarrow> q = r"
  by (metis option.inject state_of_name_name)

lemma state_of_name_Some: "state_of_name s = Some q \<Longrightarrow> s = state_name q"
  unfolding state_of_name_def by (drule find_Some_iff') simp

datatype source =
    Src_scheduler | Src_worker | Src_watchdog | Src_verifier | Src_supervisor | Src_delivery
  | Src_human | Src_system

datatype lstatus = LActive | LReleased | LRecovered

fun lstatus_name :: "lstatus \<Rightarrow> string" where
  "lstatus_name LActive = ''active''"
| "lstatus_name LReleased = ''released''"
| "lstatus_name LRecovered = ''recovered''"

section \<open>Rows\<close>

record task_row =
  t_id :: string
  t_title :: string
  t_brief :: string
  t_repo :: string
  t_delivery_mode :: string
  t_verify_cmd :: "string option"
  t_output_artifacts :: "string option"
  t_output_schema :: "string option"
  t_input_contract :: "string option"
  t_node_verify_cmd :: "string option"
  t_repair_policy :: "string option"
  t_state :: tstate
  t_retries :: int
  t_max_retries :: int
  t_worktree :: "string option"
  t_session_id :: "string option"
  t_base_sha :: "string option"
  t_run_id :: "string option"
  t_current_attempt_id :: "string option"
  t_candidate_sha :: "string option"
  t_candidate_branch :: "string option"
  t_created_at :: int
  t_updated_at :: int

record event_row =
  e_seq :: int
  e_ts :: int
  e_task_id :: "string option"
  e_source :: source
  e_type :: string
  e_payload :: payload
  e_session_id :: "string option"
  e_tokens_in :: "int option"
  e_tokens_out :: "int option"
  e_cost_usd :: "string option"

record attempt_row =
  a_id :: string
  a_task_id :: string
  a_run_id :: string
  a_attempt_no :: int
  a_parent_attempt_id :: "string option"
  a_base_sha :: string
  a_candidate_sha :: "string option"
  a_candidate_branch :: string
  a_worker_dirty :: "string option"
  a_failure_cause :: "string option"
  a_failure_signature :: "string option"
  a_supervisor_feedback :: "string option"
  a_execution_contract :: string
  a_worker_started_at :: "int option"
  a_worker_ended_at :: "int option"
  a_verification_started_at :: "int option"
  a_verification_ended_at :: "int option"
  a_supervisor_started_at :: "int option"
  a_supervisor_ended_at :: "int option"
  a_disposition :: string
  a_created_at :: int
  a_updated_at :: int

record lease_row =
  l_lease_id :: string
  l_attempt_id :: string
  l_task_id :: string
  l_generation :: int
  l_owner_id :: string
  l_status :: lstatus
  l_acquired_at :: int
  l_renewed_at :: int
  l_expires_at :: "int option"
  l_released_at :: "int option"
  l_release_reason :: "string option"
  l_created_at :: int
  l_updated_at :: int

record intervention_row =
  i_id :: string
  i_task_id :: string
  i_source_attempt_id :: "string option"
  i_source_candidate_sha :: "string option"
  i_source_failure_signature :: "string option"
  i_action_type :: "string option"
  i_diagnosis_code :: "string option"
  i_worker_instruction :: "string option"
  i_target_attempt_id :: "string option"
  i_child_candidate_sha :: "string option"
  i_child_failure_signature :: "string option"
  i_eventual_delivery_outcome :: "string option"
  i_verification_recovery_outcome :: "string option"
  i_tokens_in :: "int option"
  i_tokens_out :: "int option"
  i_cost_usd :: "string option"
  i_started_at :: int
  i_ended_at :: "int option"
  i_created_at :: int
  i_updated_at :: int

section \<open>The database\<close>

text \<open>Tables are lists in insertion order; the event table is ordered by \<open>seq\<close>.\<close>

record db =
  d_tasks :: "task_row list"
  d_deps :: "(string \<times> string) list"
  d_events :: "event_row list"
  d_attempts :: "attempt_row list"
  d_leases :: "lease_row list"
  d_interventions :: "intervention_row list"

definition empty_db :: db where
  "empty_db = \<lparr>d_tasks = [], d_deps = [], d_events = [], d_attempts = [], d_leases = [],
    d_interventions = []\<rparr>"

text \<open>\<open>SELECT * ... WHERE id = ?\<close> on each table.\<close>

definition find_task :: "string \<Rightarrow> db \<Rightarrow> task_row option" where
  "find_task tid d = find (\<lambda>t. t_id t = tid) (d_tasks d)"

definition find_attempt :: "string \<Rightarrow> db \<Rightarrow> attempt_row option" where
  "find_attempt aid d = find (\<lambda>a. a_id a = aid) (d_attempts d)"

definition find_lease :: "string \<Rightarrow> db \<Rightarrow> lease_row option" where
  "find_lease lid d = find (\<lambda>l. l_lease_id l = lid) (d_leases d)"

definition find_intervention :: "string \<Rightarrow> db \<Rightarrow> intervention_row option" where
  "find_intervention iid d = find (\<lambda>i. i_id i = iid) (d_interventions d)"

definition deps_of :: "string \<Rightarrow> db \<Rightarrow> string list" where
  "deps_of tid d = map snd (filter (\<lambda>e. fst e = tid) (d_deps d))"

text \<open>\<open>UPDATE ... WHERE id = ?\<close>.\<close>

definition set_task :: "string \<Rightarrow> (task_row \<Rightarrow> task_row) \<Rightarrow> task_row list \<Rightarrow> task_row list" where
  "set_task tid f = map (\<lambda>t. if t_id t = tid then f t else t)"

definition set_attempt :: "string \<Rightarrow> (attempt_row \<Rightarrow> attempt_row) \<Rightarrow> attempt_row list \<Rightarrow> attempt_row list" where
  "set_attempt aid f = map (\<lambda>a. if a_id a = aid then f a else a)"

definition set_lease :: "string \<Rightarrow> (lease_row \<Rightarrow> lease_row) \<Rightarrow> lease_row list \<Rightarrow> lease_row list" where
  "set_lease lid f = map (\<lambda>l. if l_lease_id l = lid then f l else l)"

definition set_intervention ::
    "string \<Rightarrow> (intervention_row \<Rightarrow> intervention_row) \<Rightarrow> intervention_row list \<Rightarrow> intervention_row list" where
  "set_intervention iid f = map (\<lambda>i. if i_id i = iid then f i else i)"

lemma find_task_Some: "find_task tid d = Some t \<Longrightarrow> t \<in> set (d_tasks d) \<and> t_id t = tid"
  unfolding find_task_def by (rule find_Some_iff')

lemma find_attempt_Some: "find_attempt aid d = Some a \<Longrightarrow> a \<in> set (d_attempts d) \<and> a_id a = aid"
  unfolding find_attempt_def by (rule find_Some_iff')

lemma find_lease_Some: "find_lease lid d = Some l \<Longrightarrow> l \<in> set (d_leases d) \<and> l_lease_id l = lid"
  unfolding find_lease_def by (rule find_Some_iff')

end
