(* ===== verification/Store.thy ===== *)
theory Store
  imports Schema "HOL-Library.Word"
begin

text \<open>
  \<open>store/events.py\<close>: identifiers, the task state machine, the append-only event log, the write
  paths for tasks, attempts and interventions, and the replay of tasks. Every write path is a
  pure function on the database with the instant of the write as an argument; an exception
  leaves the database as it was, since each of them runs in one transaction.
\<close>

section \<open>Identifiers\<close>

unbundle bit_operations_syntax

definition crockford :: string where
  "crockford = ''0123456789ABCDEFGHJKMNPQRSTVWXYZ''"

text \<open>The 128-bit value: 48 bits of milliseconds above 80 random bits.\<close>

definition ulid_value :: "nat \<Rightarrow> nat \<Rightarrow> nat" where
  "ulid_value ms rnd = push_bit 80 ms OR rnd"

definition ulid_shifts :: "nat list" where
  "ulid_shifts = map (\<lambda>k. 125 - 5 * k) [0..<26]"

definition ulid :: "nat \<Rightarrow> nat \<Rightarrow> string" where
  "ulid ms rnd = map (\<lambda>shift. crockford ! (drop_bit shift (ulid_value ms rnd) AND 31)) ulid_shifts"

section \<open>The task state machine\<close>

definition terminal :: "tstate set" where
  "terminal = {Delivered, Failed, Cancelled, DependencyBlocked}"

definition transitions :: "(tstate \<times> tstate) set" where
  "transitions = {
    (Blocked, Queued),
    (Queued, Running),
    (Running, Verifying),
    (Running, Triage),
    (Verifying, Delivering),
    (Verifying, Triage),
    (Triage, Running),
    (Triage, NeedsHuman),
    (Triage, Failed),
    (NeedsHuman, Running),
    (NeedsHuman, Queued),
    (NeedsHuman, Delivering),
    (Delivering, Delivered),
    (Delivering, Triage),
    (Blocked, DependencyBlocked)}"

definition legal :: "tstate \<Rightarrow> tstate \<Rightarrow> bool" where
  "legal frm to =
    (if frm \<in> terminal then False
     else if to = Cancelled then True
     else (frm, to) \<in> transitions)"

definition updatable :: "string list" where
  "updatable = [''session_id'', ''worktree'', ''retries'', ''max_retries'', ''base_sha'', ''brief'',
    ''run_id'', ''current_attempt_id'', ''candidate_sha'', ''candidate_branch'']"

text \<open>One assignment \<open>column = value\<close> on a task row.\<close>

definition set_task_col :: "string \<times> json \<Rightarrow> task_row \<Rightarrow> exc + task_row" where
  "set_task_col cv t = (case cv of (c, v) \<Rightarrow>
    if c = ''session_id'' then map_sum id (\<lambda>x. t\<lparr>t_session_id := x\<rparr>) (as_text_opt v)
    else if c = ''worktree'' then map_sum id (\<lambda>x. t\<lparr>t_worktree := x\<rparr>) (as_text_opt v)
    else if c = ''retries'' then map_sum id (\<lambda>x. t\<lparr>t_retries := x\<rparr>) (as_int v)
    else if c = ''max_retries'' then map_sum id (\<lambda>x. t\<lparr>t_max_retries := x\<rparr>) (as_int v)
    else if c = ''base_sha'' then map_sum id (\<lambda>x. t\<lparr>t_base_sha := x\<rparr>) (as_text_opt v)
    else if c = ''brief'' then map_sum id (\<lambda>x. t\<lparr>t_brief := x\<rparr>) (as_text v)
    else if c = ''run_id'' then map_sum id (\<lambda>x. t\<lparr>t_run_id := x\<rparr>) (as_text_opt v)
    else if c = ''current_attempt_id'' then
      map_sum id (\<lambda>x. t\<lparr>t_current_attempt_id := x\<rparr>) (as_text_opt v)
    else if c = ''candidate_sha'' then map_sum id (\<lambda>x. t\<lparr>t_candidate_sha := x\<rparr>) (as_text_opt v)
    else if c = ''candidate_branch'' then
      map_sum id (\<lambda>x. t\<lparr>t_candidate_branch := x\<rparr>) (as_text_opt v)
    else Inl (KeyError c))"

section \<open>The event log\<close>

text \<open>The optional usage columns of an event.\<close>

record usage =
  u_session_id :: "string option"
  u_tokens_in :: "int option"
  u_tokens_out :: "int option"
  u_cost_usd :: "string option"

definition no_usage :: usage where
  "no_usage = \<lparr>u_session_id = None, u_tokens_in = None, u_tokens_out = None, u_cost_usd = None\<rparr>"

text \<open>\<open>AUTOINCREMENT\<close> on a table that is only ever appended to.\<close>

definition next_seq :: "event_row list \<Rightarrow> int" where
  "next_seq es = (if es = [] then 1 else e_seq (last es) + 1)"

definition insert_event ::
    "int \<Rightarrow> source \<Rightarrow> string \<Rightarrow> string option \<Rightarrow> payload \<Rightarrow> usage \<Rightarrow> db \<Rightarrow> int \<times> db" where
  "insert_event ts src typ tid p u d =
    (let s = next_seq (d_events d);
         e = \<lparr>e_seq = s, e_ts = ts, e_task_id = tid, e_source = src, e_type = typ, e_payload = p,
              e_session_id = u_session_id u, e_tokens_in = u_tokens_in u,
              e_tokens_out = u_tokens_out u, e_cost_usd = u_cost_usd u\<rparr>
     in (s, d\<lparr>d_events := d_events d @ [e]\<rparr>))"

definition append_event ::
    "int \<Rightarrow> source \<Rightarrow> string \<Rightarrow> string option \<Rightarrow> payload \<Rightarrow> usage \<Rightarrow> db \<Rightarrow> exc + int \<times> db" where
  "append_event ts src typ tid p u d = Inr (insert_event ts src typ tid p u d)"

section \<open>Creating a task\<close>

text \<open>The keyword arguments of \<open>create_task\<close>; \<open>JNull\<close> is an argument that is \<open>None\<close>.\<close>

record task_def =
  td_title :: string
  td_brief :: string
  td_repo :: string
  td_delivery_mode :: string
  td_verify_cmd :: "string option"
  td_max_retries :: int
  td_depends_on :: "string list"
  td_task_id :: "string option"
  td_output_artifacts :: json
  td_output_schema :: json
  td_input_contract :: json
  td_dependency_input_contract :: json
  td_node_verify_cmd :: "string option"
  td_repair_policy :: json

definition dumps_col :: "json \<Rightarrow> string option" where
  "dumps_col j = (if j = JNull then None else Some (json_dumps j))"

definition effective_input_contract :: "task_def \<Rightarrow> json" where
  "effective_input_contract a =
    (if td_input_contract a \<noteq> JNull then td_input_contract a else td_dependency_input_contract a)"

definition created_payload :: "task_def \<Rightarrow> payload" where
  "created_payload a = [
    (''title'', JStr (td_title a)),
    (''brief'', JStr (td_brief a)),
    (''repo'', JStr (td_repo a)),
    (''delivery_mode'', JStr (td_delivery_mode a)),
    (''verify_cmd'', jopt (td_verify_cmd a)),
    (''output_artifacts'', td_output_artifacts a),
    (''output_schema'', td_output_schema a),
    (''input_contract'', effective_input_contract a),
    (''node_verify_cmd'', jopt (td_node_verify_cmd a)),
    (''repair_policy'', td_repair_policy a),
    (''max_retries'', JInt (td_max_retries a)),
    (''depends_on'', JList (map JStr (td_depends_on a)))]"

definition new_task_row :: "string \<Rightarrow> int \<Rightarrow> task_def \<Rightarrow> task_row" where
  "new_task_row tid ts a = \<lparr>
    t_id = tid, t_title = td_title a, t_brief = td_brief a, t_repo = td_repo a,
    t_delivery_mode = td_delivery_mode a, t_verify_cmd = td_verify_cmd a,
    t_output_artifacts = dumps_col (td_output_artifacts a),
    t_output_schema = dumps_col (td_output_schema a),
    t_input_contract = dumps_col (effective_input_contract a),
    t_node_verify_cmd = td_node_verify_cmd a,
    t_repair_policy = dumps_col (td_repair_policy a),
    t_state = Blocked, t_retries = 0, t_max_retries = td_max_retries a,
    t_worktree = None, t_session_id = None, t_base_sha = None, t_run_id = None,
    t_current_attempt_id = None, t_candidate_sha = None, t_candidate_branch = None,
    t_created_at = ts, t_updated_at = ts\<rparr>"

definition insert_task :: "task_row \<Rightarrow> db \<Rightarrow> exc + db" where
  "insert_task t d =
    (if find_task (t_id t) d \<noteq> None then Inl (IntegrityError ''UNIQUE constraint failed: tasks.id'')
     else if t_delivery_mode t \<notin> {''pr'', ''local'', ''scout''}
       then Inl (IntegrityError ''CHECK constraint failed: delivery_mode'')
     else Inr (d\<lparr>d_tasks := d_tasks d @ [t]\<rparr>))"

definition insert_dep :: "string \<Rightarrow> string \<Rightarrow> db \<Rightarrow> exc + db" where
  "insert_dep tid dep d =
    (if (tid, dep) \<in> set (d_deps d) then Inl (IntegrityError ''UNIQUE constraint failed: task_deps'')
     else if find_task tid d = None \<or> find_task dep d = None
       then Inl (IntegrityError ''FOREIGN KEY constraint failed'')
     else Inr (d\<lparr>d_deps := d_deps d @ [(tid, dep)]\<rparr>))"

text \<open>\<open>task_id or ulid()\<close>: an empty identifier is replaced by the fresh one.\<close>

definition chosen_id :: "string option \<Rightarrow> string \<Rightarrow> string" where
  "chosen_id given fresh = (case given of None \<Rightarrow> fresh | Some s \<Rightarrow> if s = [] then fresh else s)"

definition create_task :: "string \<Rightarrow> int \<Rightarrow> task_def \<Rightarrow> db \<Rightarrow> exc + string \<times> db" where
  "create_task fresh ts a d =
    (let tid = chosen_id (td_task_id a) fresh in
     case insert_task (new_task_row tid ts a) d of
       Inl e \<Rightarrow> Inl e
     | Inr d1 \<Rightarrow>
         (case foldE (insert_dep tid) (td_depends_on a) d1 of
            Inl e \<Rightarrow> Inl e
          | Inr d2 \<Rightarrow>
              Inr (tid, snd (insert_event ts Src_scheduler ''task.created'' (Some tid)
                (created_payload a) no_usage d2))))"

section \<open>The privileged write of the state\<close>

definition transition_payload :: "tstate \<Rightarrow> tstate \<Rightarrow> int \<Rightarrow> payload \<Rightarrow> payload" where
  "transition_payload frm to cause kw = dict_merge
    [(''from'', JStr (state_name frm)), (''to'', JStr (state_name to)), (''cause_seq'', JInt cause)] kw"

definition transition ::
    "int \<Rightarrow> string \<Rightarrow> string \<Rightarrow> int \<Rightarrow> source \<Rightarrow> payload \<Rightarrow> db \<Rightarrow> exc + int \<times> db" where
  "transition ts tid to cause src kw d =
    (if \<not> distinct (map fst kw) then Inl (TypeError ''multiple values for keyword argument'')
     else case state_of_name to of
       None \<Rightarrow> Inl (ValueError ''unknown state'')
     | Some q \<Rightarrow>
        (if \<not> set (map fst kw) \<subseteq> set updatable
           then Inl (ValueError ''cannot set via transition'')
         else case find_task tid d of
           None \<Rightarrow> Inl (ValueError ''unknown task'')
         | Some t \<Rightarrow>
            (if \<not> legal (t_state t) q then Inl (ValueError ''illegal transition'')
             else case foldE set_task_col kw (t\<lparr>t_state := q, t_updated_at := ts\<rparr>) of
               Inl e \<Rightarrow> Inl e
             | Inr t' \<Rightarrow> Inr (insert_event ts src ''task.state_changed'' (Some tid)
                 (transition_payload (t_state t) q cause kw) no_usage
                 (d\<lparr>d_tasks := set_task tid (\<lambda>_. t') (d_tasks d)\<rparr>)))))"


section \<open>Replaying the log into tasks\<close>

definition replayed_text_col :: "string \<Rightarrow> payload \<Rightarrow> string option" where
  "replayed_text_col k p = (if jget k p \<noteq> JNull then Some (json_dumps (jget k p)) else None)"

text \<open>\<open>payload.get("max_retries", 2)\<close>.\<close>

definition replayed_max_retries :: "payload \<Rightarrow> exc + int" where
  "replayed_max_retries p = (case map_of p ''max_retries'' of None \<Rightarrow> Inr 2 | Some v \<Rightarrow> as_int v)"

definition replayed_row :: "string \<Rightarrow> int \<Rightarrow> payload \<Rightarrow> exc + task_row" where
  "replayed_row tid ts p =
    bindE (bindE (jkey ''title'' p) as_text) (\<lambda>title.
    bindE (bindE (jkey ''brief'' p) as_text) (\<lambda>brief.
    bindE (bindE (jkey ''repo'' p) as_text) (\<lambda>repo.
    bindE (bindE (jkey ''delivery_mode'' p) as_text) (\<lambda>mode.
    bindE (as_text_opt (jget ''verify_cmd'' p)) (\<lambda>vcmd.
    bindE (as_text_opt (jget ''node_verify_cmd'' p)) (\<lambda>ncmd.
    bindE (replayed_max_retries p) (\<lambda>maxr.
      Inr \<lparr>
        t_id = tid, t_title = title, t_brief = brief, t_repo = repo, t_delivery_mode = mode,
        t_verify_cmd = vcmd,
        t_output_artifacts = replayed_text_col ''output_artifacts'' p,
        t_output_schema = replayed_text_col ''output_schema'' p,
        t_input_contract = replayed_text_col ''input_contract'' p,
        t_node_verify_cmd = ncmd,
        t_repair_policy = replayed_text_col ''repair_policy'' p,
        t_state = Blocked, t_retries = 0, t_max_retries = maxr,
        t_worktree = None, t_session_id = None, t_base_sha = None, t_run_id = None,
        t_current_attempt_id = None, t_candidate_sha = None, t_candidate_branch = None,
        t_created_at = ts, t_updated_at = ts\<rparr>)))))))"

text \<open>\<open>for col in _UPDATABLE: if col in payload: t[col] = payload[col]\<close>.\<close>

definition replay_col :: "payload \<Rightarrow> string \<Rightarrow> task_row \<Rightarrow> exc + task_row" where
  "replay_col p c t = (case map_of p c of None \<Rightarrow> Inr t | Some v \<Rightarrow> set_task_col (c, v) t)"

definition as_state :: "json \<Rightarrow> exc + tstate" where
  "as_state v = bindE (as_text v) (\<lambda>s.
    case state_of_name s of None \<Rightarrow> Inl (ValueError ''unknown state'') | Some q \<Rightarrow> Inr q)"

definition replay_event :: "event_row \<Rightarrow> (string, task_row) dict \<Rightarrow> exc + (string, task_row) dict" where
  "replay_event e m =
    (if e_type e = ''task.created'' then
       (case e_task_id e of
          None \<Rightarrow> Inl (TypeError ''task.created without a task'')
        | Some tid \<Rightarrow> bindE (replayed_row tid (e_ts e) (e_payload e)) (\<lambda>t. Inr (AList.update tid t m)))
     else if e_type e = ''task.state_changed'' then
       (case e_task_id e of
          None \<Rightarrow> Inl (KeyError ''None'')
        | Some tid \<Rightarrow>
           (case map_of m tid of
              None \<Rightarrow> Inl (KeyError tid)
            | Some t \<Rightarrow>
                bindE (bindE (jkey ''to'' (e_payload e)) as_state) (\<lambda>q.
                bindE (foldE (replay_col (e_payload e)) updatable (t\<lparr>t_state := q, t_updated_at := e_ts e\<rparr>))
                  (\<lambda>t'. Inr (AList.update tid t' m)))))
     else Inr m)"

definition replay :: "event_row list \<Rightarrow> exc + (string, task_row) dict" where
  "replay es = foldE replay_event es []"

section \<open>Attempts\<close>

definition attempt_columns :: "string list" where
  "attempt_columns = [''candidate_sha'', ''worker_dirty'', ''failure_cause'', ''failure_signature'',
    ''supervisor_feedback'', ''execution_contract'', ''worker_started_at'', ''worker_ended_at'',
    ''verification_started_at'', ''verification_ended_at'', ''supervisor_started_at'',
    ''supervisor_ended_at'', ''disposition'', ''updated_at'']"

definition set_attempt_col :: "string \<times> json \<Rightarrow> attempt_row \<Rightarrow> exc + attempt_row" where
  "set_attempt_col cv a = (case cv of (c, v) \<Rightarrow>
    if c = ''candidate_sha'' then map_sum id (\<lambda>x. a\<lparr>a_candidate_sha := x\<rparr>) (as_text_opt v)
    else if c = ''worker_dirty'' then map_sum id (\<lambda>x. a\<lparr>a_worker_dirty := x\<rparr>) (as_text_opt v)
    else if c = ''failure_cause'' then map_sum id (\<lambda>x. a\<lparr>a_failure_cause := x\<rparr>) (as_text_opt v)
    else if c = ''failure_signature'' then
      map_sum id (\<lambda>x. a\<lparr>a_failure_signature := x\<rparr>) (as_text_opt v)
    else if c = ''supervisor_feedback'' then
      map_sum id (\<lambda>x. a\<lparr>a_supervisor_feedback := x\<rparr>) (as_text_opt v)
    else if c = ''execution_contract'' then
      map_sum id (\<lambda>x. a\<lparr>a_execution_contract := x\<rparr>) (as_text v)
    else if c = ''worker_started_at'' then
      map_sum id (\<lambda>x. a\<lparr>a_worker_started_at := x\<rparr>) (as_int_opt v)
    else if c = ''worker_ended_at'' then map_sum id (\<lambda>x. a\<lparr>a_worker_ended_at := x\<rparr>) (as_int_opt v)
    else if c = ''verification_started_at'' then
      map_sum id (\<lambda>x. a\<lparr>a_verification_started_at := x\<rparr>) (as_int_opt v)
    else if c = ''verification_ended_at'' then
      map_sum id (\<lambda>x. a\<lparr>a_verification_ended_at := x\<rparr>) (as_int_opt v)
    else if c = ''supervisor_started_at'' then
      map_sum id (\<lambda>x. a\<lparr>a_supervisor_started_at := x\<rparr>) (as_int_opt v)
    else if c = ''supervisor_ended_at'' then
      map_sum id (\<lambda>x. a\<lparr>a_supervisor_ended_at := x\<rparr>) (as_int_opt v)
    else if c = ''disposition'' then map_sum id (\<lambda>x. a\<lparr>a_disposition := x\<rparr>) (as_text v)
    else if c = ''updated_at'' then map_sum id (\<lambda>x. a\<lparr>a_updated_at := x\<rparr>) (as_int v)
    else Inl (KeyError c))"

text \<open>The keyword arguments of \<open>create_attempt\<close>.\<close>

record attempt_def =
  ad_task_id :: string
  ad_run_id :: string
  ad_attempt_no :: int
  ad_base_sha :: string
  ad_candidate_branch :: string
  ad_execution_contract :: string
  ad_parent_attempt_id :: "string option"
  ad_supervisor_feedback :: "string option"
  ad_attempt_id :: "string option"

definition new_attempt_row :: "string \<Rightarrow> int \<Rightarrow> attempt_def \<Rightarrow> attempt_row" where
  "new_attempt_row aid ts a = \<lparr>
    a_id = aid, a_task_id = ad_task_id a, a_run_id = ad_run_id a, a_attempt_no = ad_attempt_no a,
    a_parent_attempt_id = ad_parent_attempt_id a, a_base_sha = ad_base_sha a,
    a_candidate_sha = None, a_candidate_branch = ad_candidate_branch a, a_worker_dirty = None,
    a_failure_cause = None, a_failure_signature = None,
    a_supervisor_feedback = ad_supervisor_feedback a,
    a_execution_contract = ad_execution_contract a,
    a_worker_started_at = None, a_worker_ended_at = None, a_verification_started_at = None,
    a_verification_ended_at = None, a_supervisor_started_at = None, a_supervisor_ended_at = None,
    a_disposition = ''created'', a_created_at = ts, a_updated_at = ts\<rparr>"

definition attempt_payload :: "string \<Rightarrow> int \<Rightarrow> attempt_def \<Rightarrow> payload" where
  "attempt_payload aid ts a = [
    (''attempt_id'', JStr aid), (''task_id'', JStr (ad_task_id a)), (''run_id'', JStr (ad_run_id a)),
    (''attempt_no'', JInt (ad_attempt_no a)), (''parent_attempt_id'', jopt (ad_parent_attempt_id a)),
    (''base_sha'', JStr (ad_base_sha a)), (''candidate_branch'', JStr (ad_candidate_branch a)),
    (''execution_contract'', JStr (ad_execution_contract a)),
    (''supervisor_feedback'', jopt (ad_supervisor_feedback a)),
    (''disposition'', JStr ''created''), (''created_at'', JInt ts)]"

definition insert_attempt :: "attempt_row \<Rightarrow> db \<Rightarrow> exc + db" where
  "insert_attempt a d =
    (if find_attempt (a_id a) d \<noteq> None then Inl (IntegrityError ''UNIQUE constraint failed: attempts.id'')
     else if find (\<lambda>b. a_task_id b = a_task_id a \<and> a_attempt_no b = a_attempt_no a) (d_attempts d) \<noteq> None
       then Inl (IntegrityError ''UNIQUE constraint failed: attempts.task_id, attempts.attempt_no'')
     else if find_task (a_task_id a) d = None
       \<or> (case a_parent_attempt_id a of None \<Rightarrow> False
          | Some p \<Rightarrow> p \<noteq> a_id a \<and> find_attempt p d = None)
       then Inl (IntegrityError ''FOREIGN KEY constraint failed'')
     else Inr (d\<lparr>d_attempts := d_attempts d @ [a]\<rparr>))"

definition create_attempt :: "string \<Rightarrow> int \<Rightarrow> attempt_def \<Rightarrow> db \<Rightarrow> exc + string \<times> db" where
  "create_attempt fresh ts a d =
    (let aid = chosen_id (ad_attempt_id a) fresh in
     bindE (insert_attempt (new_attempt_row aid ts a) d) (\<lambda>d'.
       Inr (aid, snd (insert_event ts Src_scheduler ''attempt.created'' (Some (ad_task_id a))
         (attempt_payload aid ts a) no_usage d'))))"

definition update_attempt ::
    "int \<Rightarrow> string \<Rightarrow> source \<Rightarrow> string \<Rightarrow> payload \<Rightarrow> db \<Rightarrow> exc + int \<times> db" where
  "update_attempt ts aid src typ kw d =
    (if \<not> distinct (map fst kw) then Inl (TypeError ''multiple values for keyword argument'')
     else if \<not> set (map fst kw) \<subseteq> set attempt_columns
       then Inl (ValueError ''cannot update attempt columns'')
     else if kw = [] then Inl (ValueError ''attempt update requires at least one field'')
     else case find_attempt aid d of
       None \<Rightarrow> Inl (ValueError ''unknown attempt'')
     | Some a \<Rightarrow>
        (let kw' = AList.update ''updated_at'' (JInt ts) kw in
         bindE (foldE set_attempt_col kw' a) (\<lambda>a'.
           Inr (insert_event ts src typ (Some (a_task_id a)) (dict_merge [(''attempt_id'', JStr aid)] kw')
             no_usage (d\<lparr>d_attempts := set_attempt aid (\<lambda>_. a') (d_attempts d)\<rparr>)))))"

text \<open>\<open>ORDER BY attempt_no DESC LIMIT 1\<close>; \<open>(task_id, attempt_no)\<close> is unique.\<close>

definition latest_attempt :: "string \<Rightarrow> db \<Rightarrow> attempt_row option" where
  "latest_attempt tid d = foldl (\<lambda>best a.
      if a_task_id a \<noteq> tid then best
      else case best of None \<Rightarrow> Some a
        | Some b \<Rightarrow> if a_attempt_no b < a_attempt_no a then Some a else best) None (d_attempts d)"

section \<open>Supervisor interventions\<close>

definition intervention_columns :: "string list" where
  "intervention_columns = [''action_type'', ''diagnosis_code'', ''worker_instruction'',
    ''target_attempt_id'', ''child_candidate_sha'', ''child_failure_signature'',
    ''eventual_delivery_outcome'', ''verification_recovery_outcome'', ''tokens_in'', ''tokens_out'',
    ''cost_usd'', ''ended_at'', ''updated_at'']"

text \<open>A cost is stored as the literal it was given as.\<close>

fun as_real_opt :: "json \<Rightarrow> exc + string option" where
  "as_real_opt JNull = Inr None"
| "as_real_opt (JFloat lit) = Inr (Some lit)"
| "as_real_opt (JInt i) = Inr (Some (int_text i))"
| "as_real_opt _ = Inl (TypeError ''number expected'')"

text \<open>\<open>target_attempt_id\<close> is a foreign key into \<open>attempts\<close>.\<close>

definition set_intervention_col ::
    "db \<Rightarrow> string \<times> json \<Rightarrow> intervention_row \<Rightarrow> exc + intervention_row" where
  "set_intervention_col d cv i = (case cv of (c, v) \<Rightarrow>
    if c = ''action_type'' then map_sum id (\<lambda>x. i\<lparr>i_action_type := x\<rparr>) (as_text_opt v)
    else if c = ''diagnosis_code'' then map_sum id (\<lambda>x. i\<lparr>i_diagnosis_code := x\<rparr>) (as_text_opt v)
    else if c = ''worker_instruction'' then
      map_sum id (\<lambda>x. i\<lparr>i_worker_instruction := x\<rparr>) (as_text_opt v)
    else if c = ''target_attempt_id'' then
      bindE (as_text_opt v) (\<lambda>x.
        case x of None \<Rightarrow> Inr (i\<lparr>i_target_attempt_id := None\<rparr>)
        | Some aid \<Rightarrow> if find_attempt aid d = None
            then Inl (IntegrityError ''FOREIGN KEY constraint failed'')
            else Inr (i\<lparr>i_target_attempt_id := Some aid\<rparr>))
    else if c = ''child_candidate_sha'' then
      map_sum id (\<lambda>x. i\<lparr>i_child_candidate_sha := x\<rparr>) (as_text_opt v)
    else if c = ''child_failure_signature'' then
      map_sum id (\<lambda>x. i\<lparr>i_child_failure_signature := x\<rparr>) (as_text_opt v)
    else if c = ''eventual_delivery_outcome'' then
      map_sum id (\<lambda>x. i\<lparr>i_eventual_delivery_outcome := x\<rparr>) (as_text_opt v)
    else if c = ''verification_recovery_outcome'' then
      map_sum id (\<lambda>x. i\<lparr>i_verification_recovery_outcome := x\<rparr>) (as_text_opt v)
    else if c = ''tokens_in'' then map_sum id (\<lambda>x. i\<lparr>i_tokens_in := x\<rparr>) (as_int_opt v)
    else if c = ''tokens_out'' then map_sum id (\<lambda>x. i\<lparr>i_tokens_out := x\<rparr>) (as_int_opt v)
    else if c = ''cost_usd'' then map_sum id (\<lambda>x. i\<lparr>i_cost_usd := x\<rparr>) (as_real_opt v)
    else if c = ''ended_at'' then map_sum id (\<lambda>x. i\<lparr>i_ended_at := x\<rparr>) (as_int_opt v)
    else if c = ''updated_at'' then map_sum id (\<lambda>x. i\<lparr>i_updated_at := x\<rparr>) (as_int v)
    else Inl (KeyError c))"

definition new_intervention_row ::
    "string \<Rightarrow> int \<Rightarrow> string \<Rightarrow> string option \<Rightarrow> string option \<Rightarrow> string option \<Rightarrow> intervention_row" where
  "new_intervention_row iid ts tid aid sha sig = \<lparr>
    i_id = iid, i_task_id = tid, i_source_attempt_id = aid, i_source_candidate_sha = sha,
    i_source_failure_signature = sig, i_action_type = None, i_diagnosis_code = None,
    i_worker_instruction = None, i_target_attempt_id = None, i_child_candidate_sha = None,
    i_child_failure_signature = None, i_eventual_delivery_outcome = None,
    i_verification_recovery_outcome = None, i_tokens_in = None, i_tokens_out = None,
    i_cost_usd = None, i_started_at = ts, i_ended_at = None, i_created_at = ts, i_updated_at = ts\<rparr>"

definition create_intervention ::
    "string \<Rightarrow> int \<Rightarrow> string \<Rightarrow> string option \<Rightarrow> string option \<Rightarrow> string option
      \<Rightarrow> int option \<Rightarrow> string option \<Rightarrow> db \<Rightarrow> exc + string \<times> db" where
  "create_intervention fresh now tid aid sha sig started given d =
    (let iid = chosen_id given fresh;
         ts = (case started of None \<Rightarrow> now | Some s \<Rightarrow> s)
     in if find_intervention iid d \<noteq> None
       then Inl (IntegrityError ''UNIQUE constraint failed: supervisor_interventions.id'')
     else if find_task tid d = None
       \<or> (case aid of None \<Rightarrow> False | Some a \<Rightarrow> find_attempt a d = None)
       then Inl (IntegrityError ''FOREIGN KEY constraint failed'')
     else Inr (iid, snd (insert_event ts Src_supervisor ''supervisor.intervention_started'' (Some tid)
       [(''intervention_id'', JStr iid), (''source_attempt_id'', jopt aid),
        (''source_candidate_sha'', jopt sha), (''source_failure_signature'', jopt sig)] no_usage
       (d\<lparr>d_interventions := d_interventions d @ [new_intervention_row iid ts tid aid sha sig]\<rparr>))))"

definition update_intervention :: "int \<Rightarrow> string \<Rightarrow> payload \<Rightarrow> db \<Rightarrow> exc + int \<times> db" where
  "update_intervention ts iid kw d =
    (if \<not> distinct (map fst kw) then Inl (TypeError ''multiple values for keyword argument'')
     else if \<not> set (map fst kw) \<subseteq> set intervention_columns
       then Inl (ValueError ''cannot update intervention columns'')
     else if kw = [] then Inl (ValueError ''intervention update requires at least one field'')
     else case find_intervention iid d of
       None \<Rightarrow> Inl (ValueError ''unknown intervention'')
     | Some i \<Rightarrow>
        (let kw' = AList.update ''updated_at'' (JInt ts) kw in
         bindE (foldE (set_intervention_col d) kw' i) (\<lambda>i'.
           Inr (insert_event ts Src_supervisor ''supervisor.intervention_updated'' (Some (i_task_id i))
             (dict_merge [(''intervention_id'', JStr iid)] kw') no_usage
             (d\<lparr>d_interventions := set_intervention iid (\<lambda>_. i') (d_interventions d)\<rparr>)))))"

definition interventions_for_target :: "string \<Rightarrow> db \<Rightarrow> intervention_row list" where
  "interventions_for_target aid d =
    sort_key i_created_at (filter (\<lambda>i. i_target_attempt_id i = Some aid) (d_interventions d))"

end
