(* ===== verification/Lease.thy ===== *)
theory Lease
  imports Store
begin

text \<open>
  \<open>execution_lease.py\<close>: the fencing tokens of worker executions, and \<open>replay_leases\<close> of
  \<open>store/events.py\<close>. Each operation runs in one immediate transaction: on an exception the
  database is unchanged.
\<close>

section \<open>Arguments\<close>

definition require_owner :: "string \<Rightarrow> exc + string" where
  "require_owner owner =
    (if blank owner then Inl (ValueError ''owner_id must be a non-empty string'') else Inr owner)"

definition expiry :: "int \<Rightarrow> int option \<Rightarrow> exc + int option" where
  "expiry now ttl = (case ttl of
      None \<Rightarrow> Inr None
    | Some d \<Rightarrow> if d \<le> 0 then Inl (ValueError ''ttl_s must be a positive number or None'')
        else Inr (Some (now + d)))"

text \<open>A lease is named by the object a caller kept, or by its attempt.\<close>

datatype lease_ref = By_lease lease_row | By_attempt string

type_synonym identity = "string \<times> string \<times> int"

text \<open>The part of \<open>_identity\<close> that \<open>recover\<close> repeats: attempt, lease and generation.\<close>

definition identity3 :: "lease_ref \<Rightarrow> string option \<Rightarrow> int option \<Rightarrow> exc + identity" where
  "identity3 ref lid gen = (case ref of
      By_lease l \<Rightarrow>
        (if lid \<noteq> None \<and> lid \<noteq> Some (l_lease_id l)
           then Inl (ValueError ''lease_id conflicts with the lease object'')
         else if gen \<noteq> None \<and> gen \<noteq> Some (l_generation l)
           then Inl (ValueError ''generation conflicts with the lease object'')
         else Inr (l_attempt_id l, l_lease_id l, l_generation l))
    | By_attempt aid \<Rightarrow>
        (if aid = [] then Inl (ValueError ''attempt_id must be a non-empty string'')
         else case lid of
           None \<Rightarrow> Inl (ValueError ''lease_id is required'')
         | Some i \<Rightarrow>
            (if i = [] then Inl (ValueError ''lease_id is required'')
             else case gen of
               None \<Rightarrow> Inl (ValueError ''generation must be a positive integer'')
             | Some g \<Rightarrow>
                (if g \<le> 0 then Inl (ValueError ''generation must be a positive integer'')
                 else Inr (aid, i, g)))))"

definition lease_identity ::
    "lease_ref \<Rightarrow> string option \<Rightarrow> int option \<Rightarrow> string option \<Rightarrow> exc + identity \<times> string" where
  "lease_identity ref lid gen owner =
    bindE (identity3 ref lid gen) (\<lambda>idt.
      case ref of
        By_lease l \<Rightarrow>
          (case owner of None \<Rightarrow> Inr (idt, l_owner_id l)
           | Some w \<Rightarrow> bindE (require_owner w) (\<lambda>w'. Inr (idt, w')))
      | By_attempt _ \<Rightarrow>
          (case owner of None \<Rightarrow> Inl (ValueError ''owner_id must be a non-empty string'')
           | Some w \<Rightarrow> bindE (require_owner w) (\<lambda>w'. Inr (idt, w'))))"

section \<open>Looking a lease up\<close>

definition find_identity :: "identity \<Rightarrow> db \<Rightarrow> lease_row option" where
  "find_identity idt d = (case idt of (aid, lid, gen) \<Rightarrow>
    find (\<lambda>l. l_lease_id l = lid \<and> l_attempt_id l = aid \<and> l_generation l = gen) (d_leases d))"

definition row_for_identity :: "identity \<Rightarrow> string \<Rightarrow> db \<Rightarrow> exc + lease_row" where
  "row_for_identity idt owner d = (case find_identity idt d of
      None \<Rightarrow> Inl (LeaseNotFoundError ''unknown lease'')
    | Some l \<Rightarrow> if l_owner_id l \<noteq> owner
        then Inl (StaleLeaseError ''lease is owned by another execution'') else Inr l)"

definition expired :: "int \<Rightarrow> lease_row \<Rightarrow> bool" where
  "expired now l = (case l_expires_at l of None \<Rightarrow> False | Some x \<Rightarrow> x \<le> now)"

definition require_active :: "lease_row \<Rightarrow> int \<Rightarrow> exc + unit" where
  "require_active l now =
    (if l_status l \<noteq> LActive then Inl (StaleLeaseError ''lease is not active'')
     else if expired now l then Inl (StaleLeaseError ''lease has expired'')
     else Inr ())"

definition fetch_lease :: "string \<Rightarrow> db \<Rightarrow> exc + lease_row \<times> db" where
  "fetch_lease lid d = (case find_lease lid d of
      None \<Rightarrow> Inl (TypeError ''NoneType object is not subscriptable'')
    | Some l \<Rightarrow> Inr (l, d))"

section \<open>Operations\<close>

definition close_lease :: "lease_row \<Rightarrow> lstatus \<Rightarrow> string \<Rightarrow> int \<Rightarrow> source \<Rightarrow> db \<Rightarrow> db" where
  "close_lease l st reason now src d =
    snd (insert_event now src
      (if st = LRecovered then ''execution_lease.recovered'' else ''execution_lease.released'')
      (Some (l_task_id l))
      [(''lease_id'', JStr (l_lease_id l)), (''attempt_id'', JStr (l_attempt_id l)),
       (''task_id'', JStr (l_task_id l)), (''generation'', JInt (l_generation l)),
       (''owner_id'', JStr (l_owner_id l)), (''status'', JStr (lstatus_name st)),
       (''released_at'', JInt now), (''release_reason'', JStr reason)] no_usage
      (d\<lparr>d_leases := set_lease (l_lease_id l)
        (\<lambda>r. r\<lparr>l_status := st, l_released_at := Some now, l_release_reason := Some reason,
              l_updated_at := now\<rparr>) (d_leases d)\<rparr>))"

definition active_lease :: "string \<Rightarrow> db \<Rightarrow> lease_row option" where
  "active_lease aid d = find (\<lambda>l. l_attempt_id l = aid \<and> l_status l = LActive) (d_leases d)"

text \<open>\<open>COALESCE(MAX(generation), 0) + 1\<close>; generations are positive.\<close>

definition next_generation :: "string \<Rightarrow> db \<Rightarrow> int" where
  "next_generation aid d =
    foldl (\<lambda>g l. if l_attempt_id l = aid then max g (l_generation l) else g) 0 (d_leases d) + 1"

definition insert_lease :: "lease_row \<Rightarrow> db \<Rightarrow> exc + db" where
  "insert_lease l d =
    (if find_lease (l_lease_id l) d \<noteq> None
       then Inl (IntegrityError ''UNIQUE constraint failed: execution_leases.lease_id'')
     else if find (\<lambda>r. l_attempt_id r = l_attempt_id l \<and> l_generation r = l_generation l) (d_leases d) \<noteq> None
       then Inl (IntegrityError ''UNIQUE constraint failed: attempt_id, generation'')
     else if l_status l = LActive \<and> active_lease (l_attempt_id l) d \<noteq> None
       then Inl (IntegrityError ''UNIQUE constraint failed: idx_execution_leases_active'')
     else if l_generation l \<le> 0 then Inl (IntegrityError ''CHECK constraint failed: generation'')
     else if find_attempt (l_attempt_id l) d = None \<or> find_task (l_task_id l) d = None
       then Inl (IntegrityError ''FOREIGN KEY constraint failed'')
     else Inr (d\<lparr>d_leases := d_leases d @ [l]\<rparr>))"

definition new_lease_row :: "string \<Rightarrow> string \<Rightarrow> string \<Rightarrow> int \<Rightarrow> string \<Rightarrow> int \<Rightarrow> int option \<Rightarrow> lease_row" where
  "new_lease_row lid aid tid gen owner now exp = \<lparr>
    l_lease_id = lid, l_attempt_id = aid, l_task_id = tid, l_generation = gen, l_owner_id = owner,
    l_status = LActive, l_acquired_at = now, l_renewed_at = now, l_expires_at = exp,
    l_released_at = None, l_release_reason = None, l_created_at = now, l_updated_at = now\<rparr>"

definition acquired_payload :: "lease_row \<Rightarrow> payload" where
  "acquired_payload l = [
    (''lease_id'', JStr (l_lease_id l)), (''attempt_id'', JStr (l_attempt_id l)),
    (''task_id'', JStr (l_task_id l)), (''generation'', JInt (l_generation l)),
    (''owner_id'', JStr (l_owner_id l)), (''acquired_at'', JInt (l_acquired_at l)),
    (''renewed_at'', JInt (l_renewed_at l)), (''expires_at'', jint_opt (l_expires_at l)),
    (''created_at'', JInt (l_created_at l))]"

text \<open>The current holder is checked, and an expired one is recovered, before the new one enters.\<close>

definition clear_expired :: "string \<Rightarrow> int \<Rightarrow> db \<Rightarrow> exc + db" where
  "clear_expired aid now d = (case active_lease aid d of
      None \<Rightarrow> Inr d
    | Some cur \<Rightarrow>
        if \<not> expired now cur then Inl (LeaseBusyError ''attempt already has active lease'')
        else Inr (close_lease cur LRecovered ''expired_before_reacquire'' now Src_watchdog d))"

definition acquire ::
    "string \<Rightarrow> string \<Rightarrow> string \<Rightarrow> int option \<Rightarrow> int \<Rightarrow> string option \<Rightarrow> source \<Rightarrow> db
      \<Rightarrow> exc + lease_row \<times> db" where
  "acquire fresh aid owner ttl now given src d =
    (if aid = [] then Inl (ValueError ''attempt_id must be a non-empty string'')
     else bindE (require_owner owner) (\<lambda>owner'.
       bindE (expiry now ttl) (\<lambda>exp.
         (let lid = chosen_id given fresh in
          case find_attempt aid d of
            None \<Rightarrow> Inl (LeaseNotFoundError ''unknown attempt'')
          | Some a \<Rightarrow>
              bindE (clear_expired aid now d) (\<lambda>d1.
                let l = new_lease_row lid aid (a_task_id a) (next_generation aid d1) owner' now exp in
                bindE (insert_lease l d1) (\<lambda>d2.
                  fetch_lease lid (snd (insert_event now src ''execution_lease.acquired''
                    (Some (a_task_id a)) (acquired_payload l) no_usage d2))))))))"

definition validate ::
    "lease_ref \<Rightarrow> string option \<Rightarrow> int option \<Rightarrow> string option \<Rightarrow> int \<Rightarrow> db \<Rightarrow> exc + lease_row" where
  "validate ref lid gen owner now d =
    bindE (lease_identity ref lid gen owner) (\<lambda>(idt, w).
    bindE (row_for_identity idt w d) (\<lambda>l.
    bindE (require_active l now) (\<lambda>_. Inr l)))"

definition renew ::
    "lease_ref \<Rightarrow> string option \<Rightarrow> int option \<Rightarrow> string option \<Rightarrow> int option \<Rightarrow> int \<Rightarrow> source \<Rightarrow> db
      \<Rightarrow> exc + lease_row \<times> db" where
  "renew ref lid gen owner ttl now src d =
    bindE (lease_identity ref lid gen owner) (\<lambda>(idt, w).
    bindE (expiry now ttl) (\<lambda>exp.
    bindE (row_for_identity idt w d) (\<lambda>l.
    bindE (require_active l now) (\<lambda>_.
      case idt of (aid, i, g) \<Rightarrow>
      fetch_lease i (snd (insert_event now src ''execution_lease.renewed'' (Some (l_task_id l))
        [(''lease_id'', JStr i), (''attempt_id'', JStr aid), (''task_id'', JStr (l_task_id l)),
         (''generation'', JInt g), (''owner_id'', JStr w), (''renewed_at'', JInt now),
         (''expires_at'', jint_opt exp)] no_usage
        (d\<lparr>d_leases := set_lease i (\<lambda>r. r\<lparr>l_renewed_at := now, l_expires_at := exp,
          l_updated_at := now\<rparr>) (d_leases d)\<rparr>)))))))"

definition release ::
    "lease_ref \<Rightarrow> string option \<Rightarrow> int option \<Rightarrow> string option \<Rightarrow> string \<Rightarrow> int \<Rightarrow> source \<Rightarrow> db
      \<Rightarrow> exc + lease_row \<times> db" where
  "release ref lid gen owner reason now src d =
    bindE (lease_identity ref lid gen owner) (\<lambda>(idt, w).
      if blank reason then Inl (ValueError ''reason must be a non-empty string'')
      else bindE (row_for_identity idt w d) (\<lambda>l.
        if l_status l \<noteq> LActive then Inr (l, d)
        else bindE (require_active l now) (\<lambda>_.
          fetch_lease (l_lease_id l) (close_lease l LReleased reason now src d))))"

definition recover ::
    "lease_ref \<Rightarrow> string option \<Rightarrow> int option \<Rightarrow> string \<Rightarrow> int \<Rightarrow> source \<Rightarrow> db
      \<Rightarrow> exc + lease_row \<times> db" where
  "recover ref lid gen reason now src d =
    bindE (identity3 ref lid gen) (\<lambda>idt.
      if blank reason then Inl (ValueError ''reason must be a non-empty string'')
      else case find_identity idt d of
        None \<Rightarrow> Inl (LeaseNotFoundError ''unknown lease'')
      | Some l \<Rightarrow>
          if l_status l \<noteq> LActive then Inr (l, d)
          else fetch_lease (l_lease_id l) (close_lease l LRecovered reason now src d))"

section \<open>Replaying the log into leases\<close>

definition lease_event_types :: "string set" where
  "lease_event_types = {''execution_lease.acquired'', ''execution_lease.renewed'',
    ''execution_lease.released'', ''execution_lease.recovered''}"

definition as_lstatus :: "json \<Rightarrow> exc + lstatus" where
  "as_lstatus v = bindE (as_text v) (\<lambda>s.
    if s = ''active'' then Inr LActive else if s = ''released'' then Inr LReleased
    else if s = ''recovered'' then Inr LRecovered else Inl (ValueError ''unknown lease status''))"

definition replayed_lease :: "int \<Rightarrow> payload \<Rightarrow> exc + lease_row" where
  "replayed_lease ts p =
    bindE (bindE (jkey ''lease_id'' p) as_text) (\<lambda>lid.
    bindE (bindE (jkey ''attempt_id'' p) as_text) (\<lambda>aid.
    bindE (bindE (jkey ''task_id'' p) as_text) (\<lambda>tid.
    bindE (bindE (jkey ''generation'' p) as_int) (\<lambda>gen.
    bindE (bindE (jkey ''owner_id'' p) as_text) (\<lambda>owner.
    bindE (bindE (jkey ''acquired_at'' p) as_int) (\<lambda>acq.
    bindE (bindE (jkey ''renewed_at'' p) as_int) (\<lambda>ren.
    bindE (as_int_opt (jget ''expires_at'' p)) (\<lambda>exp.
    bindE (bindE (jkey ''created_at'' p) as_int) (\<lambda>cre.
      Inr \<lparr>l_lease_id = lid, l_attempt_id = aid, l_task_id = tid, l_generation = gen,
        l_owner_id = owner, l_status = LActive, l_acquired_at = acq, l_renewed_at = ren,
        l_expires_at = exp, l_released_at = None, l_release_reason = None, l_created_at = cre,
        l_updated_at = ts\<rparr>)))))))))"

definition stored_lease :: "string \<Rightarrow> (string, lease_row) dict \<Rightarrow> exc + lease_row" where
  "stored_lease lid m = (case map_of m lid of None \<Rightarrow> Inl (KeyError lid) | Some l \<Rightarrow> Inr l)"

definition replay_lease_event ::
    "event_row \<Rightarrow> (string, lease_row) dict \<Rightarrow> exc + (string, lease_row) dict" where
  "replay_lease_event e m =
    (if e_type e \<notin> lease_event_types then Inr m
     else bindE (bindE (jkey ''lease_id'' (e_payload e)) as_text) (\<lambda>lid.
       if e_type e = ''execution_lease.acquired'' then
         bindE (replayed_lease (e_ts e) (e_payload e)) (\<lambda>l. Inr (AList.update lid l m))
       else if e_type e = ''execution_lease.renewed'' then
         bindE (stored_lease lid m) (\<lambda>l.
         bindE (bindE (jkey ''renewed_at'' (e_payload e)) as_int) (\<lambda>ren.
         bindE (as_int_opt (jget ''expires_at'' (e_payload e))) (\<lambda>exp.
           Inr (AList.update lid
             (l\<lparr>l_renewed_at := ren, l_expires_at := exp, l_updated_at := e_ts e\<rparr>) m))))
       else
         bindE (stored_lease lid m) (\<lambda>l.
         bindE (bindE (jkey ''status'' (e_payload e)) as_lstatus) (\<lambda>st.
         bindE (bindE (jkey ''released_at'' (e_payload e)) as_int_opt) (\<lambda>rel.
         bindE (as_text_opt (jget ''release_reason'' (e_payload e))) (\<lambda>rsn.
           Inr (AList.update lid
             (l\<lparr>l_status := st, l_released_at := rel, l_release_reason := rsn,
               l_updated_at := e_ts e\<rparr>) m)))))))"

definition replay_leases :: "event_row list \<Rightarrow> exc + (string, lease_row) dict" where
  "replay_leases es = foldE replay_lease_event es []"

end
