(* ===== verification/Store_Laws.thy ===== *)
theory Store_Laws
  imports Store
begin

text \<open>
  What each write path of \<open>store/events.py\<close> does when it returns, and that the event it appends
  replays to the row it wrote.
\<close>

section \<open>Columns\<close>

lemma set_task_col_keeps:
  assumes "set_task_col cv t = Inr t'"
  shows "t_id t' = t_id t \<and> t_state t' = t_state t \<and> t_created_at t' = t_created_at t \<and>
    t_updated_at t' = t_updated_at t \<and> t_delivery_mode t' = t_delivery_mode t"
  using assms by (cases cv) (auto simp: set_task_col_def map_sum_Inr_iff split: if_splits)

lemma set_task_cols_keep:
  "foldE set_task_col kw t = Inr t' \<Longrightarrow>
    t_id t' = t_id t \<and> t_state t' = t_state t \<and> t_created_at t' = t_created_at t \<and>
    t_updated_at t' = t_updated_at t \<and> t_delivery_mode t' = t_delivery_mode t"
  using foldE_invariant[of set_task_col
      "\<lambda>t. (t_id t, t_state t, t_created_at t, t_updated_at t, t_delivery_mode t)" kw t t']
    set_task_col_keeps by fastforce

text \<open>A column assignment as an update that does not look at the row.\<close>

lemma set_task_col_Inr:
  "set_task_col (c, v) t = Inr t' \<longleftrightarrow>
    (c = ''session_id'' \<and> (\<exists>x. as_text_opt v = Inr x \<and> t' = t\<lparr>t_session_id := x\<rparr>)) \<or>
    (c = ''worktree'' \<and> (\<exists>x. as_text_opt v = Inr x \<and> t' = t\<lparr>t_worktree := x\<rparr>)) \<or>
    (c = ''retries'' \<and> (\<exists>x. as_int v = Inr x \<and> t' = t\<lparr>t_retries := x\<rparr>)) \<or>
    (c = ''max_retries'' \<and> (\<exists>x. as_int v = Inr x \<and> t' = t\<lparr>t_max_retries := x\<rparr>)) \<or>
    (c = ''base_sha'' \<and> (\<exists>x. as_text_opt v = Inr x \<and> t' = t\<lparr>t_base_sha := x\<rparr>)) \<or>
    (c = ''brief'' \<and> (\<exists>x. as_text v = Inr x \<and> t' = t\<lparr>t_brief := x\<rparr>)) \<or>
    (c = ''run_id'' \<and> (\<exists>x. as_text_opt v = Inr x \<and> t' = t\<lparr>t_run_id := x\<rparr>)) \<or>
    (c = ''current_attempt_id'' \<and> (\<exists>x. as_text_opt v = Inr x \<and> t' = t\<lparr>t_current_attempt_id := x\<rparr>)) \<or>
    (c = ''candidate_sha'' \<and> (\<exists>x. as_text_opt v = Inr x \<and> t' = t\<lparr>t_candidate_sha := x\<rparr>)) \<or>
    (c = ''candidate_branch'' \<and> (\<exists>x. as_text_opt v = Inr x \<and> t' = t\<lparr>t_candidate_branch := x\<rparr>))"
  by (auto simp: set_task_col_def map_sum_Inr_iff)

lemma set_task_col_commute:
  assumes "fst a \<noteq> fst b" "set_task_col a s = Inr s1" "set_task_col b s1 = Inr s2"
  shows "\<exists>t. set_task_col b s = Inr t \<and> set_task_col a t = Inr s2"
proof -
  obtain c v where a: "a = (c, v)" by (cases a)
  obtain c' v' where b: "b = (c', v')" by (cases b)
  have "c \<noteq> c'" using assms(1) by (simp add: a b)
  then show ?thesis
    using assms(2,3) unfolding a b set_task_col_Inr
    by (elim disjE conjE exE) simp_all
qed

lemma updatable_distinct: "distinct updatable"
  by (simp add: updatable_def)

section \<open>The event insert\<close>

definition new_event ::
    "db \<Rightarrow> int \<Rightarrow> source \<Rightarrow> string \<Rightarrow> string option \<Rightarrow> payload \<Rightarrow> usage \<Rightarrow> event_row" where
  "new_event d ts src typ tid p u = \<lparr>e_seq = next_seq (d_events d), e_ts = ts, e_task_id = tid,
    e_source = src, e_type = typ, e_payload = p, e_session_id = u_session_id u,
    e_tokens_in = u_tokens_in u, e_tokens_out = u_tokens_out u, e_cost_usd = u_cost_usd u\<rparr>"

lemma new_event_simps [simp]:
  "e_seq (new_event d ts src typ tid p u) = next_seq (d_events d)"
  "e_ts (new_event d ts src typ tid p u) = ts"
  "e_task_id (new_event d ts src typ tid p u) = tid"
  "e_source (new_event d ts src typ tid p u) = src"
  "e_type (new_event d ts src typ tid p u) = typ"
  "e_payload (new_event d ts src typ tid p u) = p"
  by (simp_all add: new_event_def)

lemma insert_event_eq:
  "insert_event ts src typ tid p u d =
    (next_seq (d_events d), d\<lparr>d_events := d_events d @ [new_event d ts src typ tid p u]\<rparr>)"
  by (simp add: insert_event_def new_event_def Let_def)

lemma new_event_cong [simp]:
  "new_event (d_tasks_update f d) = new_event d" "new_event (d_deps_update g d) = new_event d"
  "new_event (d_attempts_update h d) = new_event d" "new_event (d_leases_update i d) = new_event d"
  "new_event (d_interventions_update j d) = new_event d"
  by (simp_all add: new_event_def fun_eq_iff)

section \<open>Inversion of the write paths\<close>

lemma transition_Inr:
  assumes "transition ts tid to cause src kw d = Inr (s, d')"
  obtains t q t' where
    "find_task tid d = Some t" "state_of_name to = Some q" "legal (t_state t) q"
    "distinct (map fst kw)" "set (map fst kw) \<subseteq> set updatable"
    "foldE set_task_col kw (t\<lparr>t_state := q, t_updated_at := ts\<rparr>) = Inr t'"
    "s = next_seq (d_events d)"
    "d' = d\<lparr>d_tasks := set_task tid (\<lambda>_. t') (d_tasks d),
      d_events := d_events d @ [new_event d ts src ''task.state_changed'' (Some tid)
        (transition_payload (t_state t) q cause kw) no_usage]\<rparr>"
  using assms unfolding transition_def
  by (auto simp: insert_event_eq split: if_splits option.splits sum.splits)

lemma insert_deps_Inr:
  "foldE (insert_dep tid) deps d = Inr d' \<Longrightarrow>
    d' = d\<lparr>d_deps := d_deps d @ map (Pair tid) deps\<rparr> \<and>
    distinct deps \<and> (\<forall>dep \<in> set deps. (tid, dep) \<notin> set (d_deps d) \<and> find_task dep d \<noteq> None)"
proof (induction deps arbitrary: d)
  case Nil
  then show ?case by simp
next
  case (Cons dep deps)
  obtain d1 where d1: "insert_dep tid dep d = Inr d1" "foldE (insert_dep tid) deps d1 = Inr d'"
    using Cons.prems by (auto split: sum.splits)
  have e: "d1 = d\<lparr>d_deps := d_deps d @ [(tid, dep)]\<rparr>" "(tid, dep) \<notin> set (d_deps d)"
    "find_task dep d \<noteq> None"
    using d1(1) by (auto simp: insert_dep_def split: if_splits)
  show ?case
    using Cons.IH[OF d1(2)] e by (auto simp: find_task_def)
qed

lemma create_task_Inr:
  assumes "create_task fresh ts a d = Inr (tid, d')"
  shows "tid = chosen_id (td_task_id a) fresh" "find_task tid d = None"
    "t_delivery_mode (new_task_row tid ts a) \<in> {''pr'', ''local'', ''scout''}"
    "distinct (td_depends_on a)"
    "\<forall>dep \<in> set (td_depends_on a). dep = tid \<or> find_task dep d \<noteq> None"
    "d' = d\<lparr>d_tasks := d_tasks d @ [new_task_row tid ts a],
      d_deps := d_deps d @ map (Pair tid) (td_depends_on a),
      d_events := d_events d @ [new_event d ts Src_scheduler ''task.created'' (Some tid)
        (created_payload a) no_usage]\<rparr>"
proof -
  let ?row = "new_task_row tid ts a"
  obtain d1 d2 where *: "tid = chosen_id (td_task_id a) fresh" "insert_task ?row d = Inr d1"
    "foldE (insert_dep tid) (td_depends_on a) d1 = Inr d2"
    "d' = snd (insert_event ts Src_scheduler ''task.created'' (Some tid) (created_payload a) no_usage d2)"
    using assms unfolding create_task_def Let_def by (auto split: sum.splits)
  have d1: "d1 = d\<lparr>d_tasks := d_tasks d @ [?row]\<rparr>" "find_task tid d = None"
    "t_delivery_mode ?row \<in> {''pr'', ''local'', ''scout''}"
    using *(2) by (auto simp: insert_task_def new_task_row_def split: if_splits)
  note deps = insert_deps_Inr[OF *(3)]
  show "tid = chosen_id (td_task_id a) fresh" "find_task tid d = None"
    "t_delivery_mode ?row \<in> {''pr'', ''local'', ''scout''}"
    "distinct (td_depends_on a)"
    using * d1 deps by auto
  show "\<forall>dep \<in> set (td_depends_on a). dep = tid \<or> find_task dep d \<noteq> None"
    using deps unfolding d1(1) by (auto simp: find_task_def find_None_iff new_task_row_def)
  show "d' = d\<lparr>d_tasks := d_tasks d @ [?row], d_deps := d_deps d @ map (Pair tid) (td_depends_on a),
      d_events := d_events d @ [new_event d ts Src_scheduler ''task.created'' (Some tid)
        (created_payload a) no_usage]\<rparr>"
    using *(4) deps d1(1) by (simp add: insert_event_eq)
qed


lemma create_attempt_Inr:
  assumes "create_attempt fresh ts a d = Inr (aid, d')"
  shows "aid = chosen_id (ad_attempt_id a) fresh" "find_attempt aid d = None"
    "find (\<lambda>b. a_task_id b = ad_task_id a \<and> a_attempt_no b = ad_attempt_no a) (d_attempts d) = None"
    "find_task (ad_task_id a) d \<noteq> None"
    "d' = d\<lparr>d_attempts := d_attempts d @ [new_attempt_row aid ts a],
      d_events := d_events d @ [new_event d ts Src_scheduler ''attempt.created'' (Some (ad_task_id a))
        (attempt_payload aid ts a) no_usage]\<rparr>"
  using assms unfolding create_attempt_def Let_def insert_attempt_def
  by (auto simp: bindE_Inr_iff insert_event_eq new_attempt_row_def split: if_splits)

lemma set_attempt_col_keeps:
  assumes "set_attempt_col cv a = Inr a'"
  shows "a_id a' = a_id a \<and> a_task_id a' = a_task_id a \<and> a_attempt_no a' = a_attempt_no a \<and>
    a_run_id a' = a_run_id a \<and> a_base_sha a' = a_base_sha a \<and>
    a_parent_attempt_id a' = a_parent_attempt_id a \<and> a_candidate_branch a' = a_candidate_branch a"
  using assms by (cases cv) (auto simp: set_attempt_col_def map_sum_Inr_iff split: if_splits)

lemma set_attempt_cols_keep:
  "foldE set_attempt_col kw a = Inr a' \<Longrightarrow>
    a_id a' = a_id a \<and> a_task_id a' = a_task_id a \<and> a_attempt_no a' = a_attempt_no a \<and>
    a_run_id a' = a_run_id a \<and> a_base_sha a' = a_base_sha a \<and>
    a_parent_attempt_id a' = a_parent_attempt_id a \<and> a_candidate_branch a' = a_candidate_branch a"
  using foldE_invariant[of set_attempt_col
      "\<lambda>a. (a_id a, a_task_id a, a_attempt_no a, a_run_id a, a_base_sha a, a_parent_attempt_id a,
        a_candidate_branch a)" kw a a'] set_attempt_col_keeps by fastforce

lemma update_attempt_Inr:
  assumes "update_attempt ts aid src typ kw d = Inr (s, d')"
  obtains a a' p where
    "find_attempt aid d = Some a"
    "a_id a' = a_id a" "a_task_id a' = a_task_id a" "a_attempt_no a' = a_attempt_no a"
    "a_run_id a' = a_run_id a" "a_base_sha a' = a_base_sha a"
    "a_parent_attempt_id a' = a_parent_attempt_id a" "a_candidate_branch a' = a_candidate_branch a"
    "s = next_seq (d_events d)"
    "d' = d\<lparr>d_attempts := set_attempt aid (\<lambda>_. a') (d_attempts d),
      d_events := d_events d @ [new_event d ts src typ (Some (a_task_id a)) p no_usage]\<rparr>"
proof -
  let ?kw = "AList.update ''updated_at'' (JInt ts) kw"
  obtain a a' where *: "find_attempt aid d = Some a" "foldE set_attempt_col ?kw a = Inr a'"
    "(s, d') = insert_event ts src typ (Some (a_task_id a)) (dict_merge [(''attempt_id'', JStr aid)] ?kw)
       no_usage (d\<lparr>d_attempts := set_attempt aid (\<lambda>_. a') (d_attempts d)\<rparr>)"
    using assms unfolding update_attempt_def Let_def
    by (auto simp: bindE_Inr_iff split: if_splits option.splits)
  show ?thesis
    by (rule that[OF *(1)]) (use set_attempt_cols_keep[OF *(2)] *(3) in \<open>auto simp: insert_event_eq\<close>)
qed

lemma create_intervention_Inr:
  assumes "create_intervention fresh now tid aid sha sig started given d = Inr (iid, d')"
  obtains i p where "i_id i = iid" "find_intervention iid d = None"
    "d' = d\<lparr>d_interventions := d_interventions d @ [i],
      d_events := d_events d @ [new_event d (case started of None \<Rightarrow> now | Some s \<Rightarrow> s) Src_supervisor
        ''supervisor.intervention_started'' (Some tid) p no_usage]\<rparr>"
proof -
  let ?t = "case started of None \<Rightarrow> now | Some s \<Rightarrow> s"
  show ?thesis
    by (rule that[of "new_intervention_row (chosen_id given fresh) ?t tid aid sha sig"])
       (use assms in \<open>auto simp: create_intervention_def Let_def insert_event_eq new_intervention_row_def
          split: if_splits\<close>)
qed

lemma set_intervention_col_keeps:
  assumes "set_intervention_col d cv i = Inr i'"
  shows "i_id i' = i_id i \<and> i_task_id i' = i_task_id i"
  using assms
  by (cases cv)
     (auto simp: set_intervention_col_def map_sum_Inr_iff bindE_Inr_iff split: if_splits option.splits)

lemma set_intervention_cols_keep:
  "foldE (set_intervention_col d) kw i = Inr i' \<Longrightarrow> i_id i' = i_id i \<and> i_task_id i' = i_task_id i"
  using foldE_invariant[of "set_intervention_col d" "\<lambda>i. (i_id i, i_task_id i)" kw i i']
    set_intervention_col_keeps by fastforce

lemma update_intervention_Inr:
  assumes "update_intervention ts iid kw d = Inr (s, d')"
  obtains i i' p where
    "find_intervention iid d = Some i" "i_id i' = i_id i" "s = next_seq (d_events d)"
    "d' = d\<lparr>d_interventions := set_intervention iid (\<lambda>_. i') (d_interventions d),
      d_events := d_events d @ [new_event d ts Src_supervisor ''supervisor.intervention_updated''
        (Some (i_task_id i)) p no_usage]\<rparr>"
proof -
  let ?kw = "AList.update ''updated_at'' (JInt ts) kw"
  obtain i i' where *: "find_intervention iid d = Some i"
    "foldE (set_intervention_col d) ?kw i = Inr i'"
    "(s, d') = insert_event ts Src_supervisor ''supervisor.intervention_updated'' (Some (i_task_id i))
       (dict_merge [(''intervention_id'', JStr iid)] ?kw) no_usage
       (d\<lparr>d_interventions := set_intervention iid (\<lambda>_. i') (d_interventions d)\<rparr>)"
    using assms unfolding update_intervention_def Let_def
    by (auto simp: bindE_Inr_iff split: if_splits option.splits)
  show ?thesis
    by (rule that[OF *(1)]) (use set_intervention_cols_keep[OF *(2)] *(3) in \<open>auto simp: insert_event_eq\<close>)
qed

section \<open>Replay of the two task events\<close>

lemma replay_cols:
  assumes "distinct (map fst kw)" "set (map fst kw) \<subseteq> set updatable"
    and "\<And>c. c \<in> set updatable \<Longrightarrow> map_of p c = map_of kw c"
    and "foldE set_task_col kw t = Inr t'"
  shows "foldE (replay_col p) updatable t = Inr t'"
proof -
  let ?present = "\<lambda>cs. concat (map (\<lambda>c. case map_of kw c of None \<Rightarrow> [] | Some v \<Rightarrow> [(c, v)]) cs)"
  have skip: "set cs \<subseteq> set updatable \<Longrightarrow> foldE (replay_col p) cs u = foldE set_task_col (?present cs) u"
    for cs u
    by (induction cs arbitrary: u) (auto simp: replay_col_def assms(3) split: option.split sum.split)
  have dist: "distinct cs \<Longrightarrow> distinct (?present cs)" for cs
    by (induction cs) (auto split: option.split)
  have eq: "set kw = set (?present updatable)"
    using assms(1,2) by (force split: option.splits dest: map_of_SomeD)
  have "foldE set_task_col (?present updatable) t = Inr t'"
    by (rule foldE_mset[OF set_task_col_commute eq assms(1) dist[OF updatable_distinct] assms(4)])
  then show ?thesis by (simp add: skip)
qed


lemma map_of_kwargs:
  assumes "distinct (map fst kw)"
  shows "map_of (dict_merge base kw) c = (case map_of kw c of None \<Rightarrow> map_of base c | Some v \<Rightarrow> Some v)"
proof -
  have "map_of (rev kw) = map_of kw"
    using assms by (intro map_of_inject_set[THEN iffD2]) (auto simp: rev_map[symmetric])
  then show ?thesis
    by (simp add: map_of_dict_merge map_add_def)
qed

lemma transition_payload_col:
  assumes "distinct (map fst kw)" "set (map fst kw) \<subseteq> set updatable"
  shows "c \<in> set updatable \<Longrightarrow> map_of (transition_payload frm q cause kw) c = map_of kw c"
    "map_of (transition_payload frm q cause kw) ''to'' = Some (JStr (state_name q))"
    "map_of (transition_payload frm q cause kw) ''from'' = Some (JStr (state_name frm))"
    "map_of (transition_payload frm q cause kw) ''cause_seq'' = Some (JInt cause)"
proof -
  have none: "c \<notin> set updatable \<Longrightarrow> map_of kw c = None" for c
    using assms(2) by (auto simp: map_of_eq_None_iff)
  show "c \<in> set updatable \<Longrightarrow> map_of (transition_payload frm q cause kw) c = map_of kw c"
    unfolding transition_payload_def map_of_kwargs[OF assms(1)]
    by (auto simp: updatable_def split: option.split)
  show "map_of (transition_payload frm q cause kw) ''to'' = Some (JStr (state_name q))"
    "map_of (transition_payload frm q cause kw) ''from'' = Some (JStr (state_name frm))"
    "map_of (transition_payload frm q cause kw) ''cause_seq'' = Some (JInt cause)"
    unfolding transition_payload_def map_of_kwargs[OF assms(1)]
    using none[of "''to''"] none[of "''from''"] none[of "''cause_seq''"] by (simp_all add: updatable_def)
qed

lemma replay_transition:
  assumes ids: "distinct (map t_id (d_tasks d))"
    and "transition ts tid to cause src kw d = Inr (s, d')"
  shows "\<exists>e. d_events d' = d_events d @ [e] \<and>
    replay_event e (keyed t_id (d_tasks d)) = Inr (keyed t_id (d_tasks d'))"
  using assms(2)
proof (rule transition_Inr)
  fix t q t'
  assume t: "find_task tid d = Some t" and q: "state_of_name to = Some q"
    and kw: "distinct (map fst kw)" "set (map fst kw) \<subseteq> set updatable"
    and cols: "foldE set_task_col kw (t\<lparr>t_state := q, t_updated_at := ts\<rparr>) = Inr t'"
    and d': "d' = d\<lparr>d_tasks := set_task tid (\<lambda>_. t') (d_tasks d),
      d_events := d_events d @ [new_event d ts src ''task.state_changed'' (Some tid)
        (transition_payload (t_state t) q cause kw) no_usage]\<rparr>"
  let ?p = "transition_payload (t_state t) q cause kw"
  have rep: "foldE (replay_col ?p) updatable (t\<lparr>t_state := q, t_updated_at := ts\<rparr>) = Inr t'"
    by (rule replay_cols[OF kw _ cols]) (rule transition_payload_col(1)[OF kw])
  have found: "map_of (keyed t_id (d_tasks d)) tid = Some t"
    using t by (simp add: map_of_keyed find_task_def)
  have "t_id t' = tid"
    using set_task_cols_keep[OF cols] find_task_Some[OF t] by simp
  then have upd: "AList.update tid t' (keyed t_id (d_tasks d)) = keyed t_id (d_tasks d')"
    using update_keyed_hit[OF ids] t by (simp add: d' set_task_def find_task_def)
  show ?thesis
    by (simp add: d' replay_event_def found rep upd[simplified d', simplified] as_state_def
        transition_payload_col(2)[OF kw])
qed

lemma replay_create_task:
  assumes "create_task fresh ts a d = Inr (tid, d')"
  shows "\<exists>e. d_events d' = d_events d @ [e] \<and>
    replay_event e (keyed t_id (d_tasks d)) = Inr (keyed t_id (d_tasks d'))"
proof -
  note * = create_task_Inr[OF assms]
  have row: "replayed_row tid ts (created_payload a) = Inr (new_task_row tid ts a)"
    by (simp add: replayed_row_def created_payload_def jkey_def jget_def replayed_max_retries_def
        replayed_text_col_def dumps_col_def new_task_row_def)
  have new: "tid \<notin> t_id ` set (d_tasks d)"
    using *(2) by (simp add: find_task_def find_None_key)
  have "AList.update tid (new_task_row tid ts a) (keyed t_id (d_tasks d)) =
      keyed t_id (d_tasks d @ [new_task_row tid ts a])"
    by (rule update_keyed_new[OF new]) (simp add: new_task_row_def)
  then show ?thesis
    unfolding *(6) by (simp add: replay_event_def row)
qed

end
