(* ===== verification/Lease_Laws.thy ===== *)
theory Lease_Laws
  imports Lease Store_Laws
begin

text \<open>
  The invariant of the lease table, its preservation by every lease operation, and the replay of
  each lease event.
\<close>

section \<open>The invariant of the table\<close>

text \<open>
  Lease identifiers are unique, generations are positive and unique within an attempt, and an
  active lease has the greatest generation of its attempt: there is at most one, and every other
  lease of the attempt is older.
\<close>

definition lease_inv :: "lease_row list \<Rightarrow> bool" where
  "lease_inv ls \<longleftrightarrow>
    distinct (map l_lease_id ls) \<and>
    (\<forall>l \<in> set ls. 0 < l_generation l) \<and>
    distinct (map (\<lambda>l. (l_attempt_id l, l_generation l)) ls) \<and>
    (\<forall>l \<in> set ls. \<forall>r \<in> set ls. l_status l = LActive \<longrightarrow> l_attempt_id r = l_attempt_id l \<longrightarrow>
      l_lease_id r \<noteq> l_lease_id l \<longrightarrow> l_generation r < l_generation l)"

lemma lease_inv_set_lease:
  assumes inv: "lease_inv ls"
    and f: "\<And>r. l_lease_id (f r) = l_lease_id r" "\<And>r. l_attempt_id (f r) = l_attempt_id r"
      "\<And>r. l_generation (f r) = l_generation r" "\<And>r. l_status (f r) = LActive \<Longrightarrow> l_status r = LActive"
  shows "lease_inv (set_lease lid f ls)"
proof -
  let ?g = "\<lambda>l. if l_lease_id l = lid then f l else l"
  have g: "l_lease_id (?g r) = l_lease_id r" "l_attempt_id (?g r) = l_attempt_id r"
    "l_generation (?g r) = l_generation r" "l_status (?g r) = LActive \<Longrightarrow> l_status r = LActive" for r
    using f by (auto split: if_splits)
  have "map l_lease_id (map ?g ls) = map l_lease_id ls"
    "map (\<lambda>l. (l_attempt_id l, l_generation l)) (map ?g ls) = map (\<lambda>l. (l_attempt_id l, l_generation l)) ls"
    using g by (simp_all add: comp_def f)
  moreover have "\<forall>l \<in> set (map ?g ls). 0 < l_generation l"
    using inv by (auto simp: lease_inv_def f)
  moreover have "\<forall>l \<in> set (map ?g ls). \<forall>r \<in> set (map ?g ls). l_status l = LActive \<longrightarrow>
      l_attempt_id r = l_attempt_id l \<longrightarrow> l_lease_id r \<noteq> l_lease_id l \<longrightarrow> l_generation r < l_generation l"
    using inv g unfolding lease_inv_def set_map by (metis (no_types, lifting) imageE)
  ultimately show ?thesis
    using inv unfolding lease_inv_def set_lease_def by presburger
qed

lemma next_generation_max:
  "foldl (\<lambda>g l. if l_attempt_id l = aid then max g (l_generation l) else g) (g0::int) ls \<ge> g0 \<and>
   (\<forall>l \<in> set ls. l_attempt_id l = aid \<longrightarrow>
     l_generation l \<le> foldl (\<lambda>g l. if l_attempt_id l = aid then max g (l_generation l) else g) g0 ls)"
  by (induction ls arbitrary: g0) (auto, (smt (verit, best))+)

lemma next_generation_gt:
  "l \<in> set (d_leases d) \<Longrightarrow> l_attempt_id l = aid \<Longrightarrow> l_generation l < next_generation aid d"
  "0 < next_generation aid d"
  using next_generation_max[of 0 aid "d_leases d"] by (auto simp: next_generation_def)

lemma lease_inv_insert:
  assumes inv: "lease_inv (d_leases d)" and ins: "insert_lease l d = Inr d'"
    and gen: "l_generation l = next_generation (l_attempt_id l) d" and act: "l_status l = LActive"
  shows "lease_inv (d_leases d')" "d' = d\<lparr>d_leases := d_leases d @ [l]\<rparr>"
proof -
  have d': "d' = d\<lparr>d_leases := d_leases d @ [l]\<rparr>" "find_lease (l_lease_id l) d = None"
    "active_lease (l_attempt_id l) d = None" "0 < l_generation l"
    using ins act by (auto simp: insert_lease_def split: if_splits)
  have fresh: "l_lease_id l \<notin> l_lease_id ` set (d_leases d)"
    using d'(2) by (simp add: find_lease_def find_None_key)
  have noact: "r \<in> set (d_leases d) \<Longrightarrow> l_attempt_id r = l_attempt_id l \<Longrightarrow> l_status r \<noteq> LActive" for r
    using d'(3) by (auto simp: active_lease_def find_None_iff)
  have lt: "r \<in> set (d_leases d) \<Longrightarrow> l_attempt_id r = l_attempt_id l \<Longrightarrow> l_generation r < l_generation l" for r
    using next_generation_gt(1) gen by simp
  show "d' = d\<lparr>d_leases := d_leases d @ [l]\<rparr>" by (fact d'(1))
  show "lease_inv (d_leases d')"
    using inv fresh d'(4) noact lt unfolding d'(1) lease_inv_def by fastforce
qed

section \<open>Closing a lease\<close>

lemma set_lease_const:
  assumes "distinct (map l_lease_id ls)" "find (\<lambda>r. l_lease_id r = lid) ls = Some l"
  shows "set_lease lid f ls = set_lease lid (\<lambda>_. f l) ls"
  using map_key_const[OF assms] by (simp add: set_lease_def)

lemma keyed_set_lease:
  assumes "distinct (map l_lease_id ls)" "find (\<lambda>r. l_lease_id r = lid) ls = Some l"
    and "l_lease_id (f l) = lid"
  shows "AList.update lid (f l) (keyed l_lease_id ls) = keyed l_lease_id (set_lease lid f ls)"
proof -
  have "AList.update lid (f l) (keyed l_lease_id ls) = keyed l_lease_id (set_lease lid (\<lambda>_. f l) ls)"
    using update_keyed_hit[OF assms] by (simp add: set_lease_def)
  then show ?thesis by (simp only: set_lease_const[OF assms(1,2), of f])
qed

lemma as_lstatus_name [simp]: "as_lstatus (JStr (lstatus_name st)) = Inr st"
  by (cases st) (simp_all add: as_lstatus_def)

lemma close_lease_eq:
  "\<exists>e. close_lease l st reason now src d =
      d\<lparr>d_leases := set_lease (l_lease_id l)
        (\<lambda>r. r\<lparr>l_status := st, l_released_at := Some now, l_release_reason := Some reason,
              l_updated_at := now\<rparr>) (d_leases d),
        d_events := d_events d @ [e]\<rparr>
    \<and> e_type e \<in> {''execution_lease.recovered'', ''execution_lease.released''}
    \<and> e_seq e = next_seq (d_events d)
    \<and> (distinct (map l_lease_id (d_leases d)) \<longrightarrow> l \<in> set (d_leases d) \<longrightarrow>
        replay_lease_event e (keyed l_lease_id (d_leases d)) =
          Inr (keyed l_lease_id (d_leases (close_lease l st reason now src d))))"
proof -
  let ?f = "\<lambda>r. r\<lparr>l_status := st, l_released_at := Some now, l_release_reason := Some reason,
              l_updated_at := now\<rparr>"
  let ?p = "[(''lease_id'', JStr (l_lease_id l)), (''attempt_id'', JStr (l_attempt_id l)),
       (''task_id'', JStr (l_task_id l)), (''generation'', JInt (l_generation l)),
       (''owner_id'', JStr (l_owner_id l)), (''status'', JStr (lstatus_name st)),
       (''released_at'', JInt now), (''release_reason'', JStr reason)]"
  let ?e = "new_event d now src
      (if st = LRecovered then ''execution_lease.recovered'' else ''execution_lease.released'')
      (Some (l_task_id l)) ?p no_usage"
  have eq: "close_lease l st reason now src d =
      d\<lparr>d_leases := set_lease (l_lease_id l) ?f (d_leases d), d_events := d_events d @ [?e]\<rparr>"
    by (simp add: close_lease_def insert_event_eq)
  have "replay_lease_event ?e (keyed l_lease_id (d_leases d)) =
      Inr (keyed l_lease_id (set_lease (l_lease_id l) ?f (d_leases d)))"
    if "distinct (map l_lease_id (d_leases d))" "l \<in> set (d_leases d)"
  proof -
    have found: "find (\<lambda>r. l_lease_id r = l_lease_id l) (d_leases d) = Some l"
      by (rule find_distinct[OF that])
    have "AList.update (l_lease_id l) (?f l) (keyed l_lease_id (d_leases d)) =
        keyed l_lease_id (set_lease (l_lease_id l) ?f (d_leases d))"
      by (rule keyed_set_lease[OF that(1) found]) simp
    then show ?thesis
      by (simp add: replay_lease_event_def lease_event_types_def jkey_def jget_def stored_lease_def
          map_of_keyed found)
  qed
  then show ?thesis using eq by (intro exI[of _ ?e]) simp
qed


section \<open>The effect of an operation\<close>

text \<open>Sequence numbers count from 1 without a gap.\<close>

definition seq_ok :: "event_row list \<Rightarrow> bool" where
  "seq_ok es \<longleftrightarrow> map e_seq es = map (\<lambda>i. int i + 1) [0..<length es]"

lemma seq_ok_append: "seq_ok es \<Longrightarrow> e_seq e = next_seq es \<Longrightarrow> seq_ok (es @ [e])"
proof -
  assume ok: "seq_ok es" and e: "e_seq e = next_seq es"
  have "next_seq es = int (length es) + 1"
  proof (cases es rule: rev_cases)
    case (snoc xs x)
    then have "e_seq x = int (length xs) + 1" using ok by (simp add: seq_ok_def)
    then show ?thesis using snoc by (simp add: next_seq_def)
  qed (simp add: next_seq_def)
  then show ?thesis using ok e by (simp add: seq_ok_def)
qed

text \<open>
  What every lease operation does: it appends lease events and leaves the other tables alone, it
  keeps the invariant of the lease table, its events replay to the new table, and no lease that
  is not active is touched.
\<close>

definition other_tables_kept :: "db \<Rightarrow> db \<Rightarrow> bool" where
  "other_tables_kept d d' \<longleftrightarrow>
    d_tasks d' = d_tasks d \<and> d_deps d' = d_deps d \<and> d_attempts d' = d_attempts d \<and>
    d_interventions d' = d_interventions d"

definition lease_log :: "db \<Rightarrow> db \<Rightarrow> bool" where
  "lease_log d d' \<longleftrightarrow>
    (\<exists>es. d_events d' = d_events d @ es \<and> (\<forall>e \<in> set es. e_type e \<in> lease_event_types) \<and>
      (lease_inv (d_leases d) \<longrightarrow>
        foldE replay_lease_event es (keyed l_lease_id (d_leases d)) = Inr (keyed l_lease_id (d_leases d'))))"

definition closed_kept :: "db \<Rightarrow> db \<Rightarrow> bool" where
  "closed_kept d d' \<longleftrightarrow> (\<forall>l \<in> set (d_leases d). l_status l \<noteq> LActive \<longrightarrow> l \<in> set (d_leases d'))"

definition same_lease :: "lease_row \<Rightarrow> lease_row \<Rightarrow> bool" where
  "same_lease l r \<longleftrightarrow> l_lease_id r = l_lease_id l \<and> l_attempt_id r = l_attempt_id l \<and>
    l_generation r = l_generation l \<and> l_owner_id r = l_owner_id l"

definition identity_kept :: "db \<Rightarrow> db \<Rightarrow> bool" where
  "identity_kept d d' \<longleftrightarrow> (\<forall>l \<in> set (d_leases d). \<exists>r \<in> set (d_leases d'). same_lease l r)"

definition lease_effect :: "db \<Rightarrow> db \<Rightarrow> bool" where
  "lease_effect d d' \<longleftrightarrow>
    other_tables_kept d d' \<and> lease_log d d' \<and>
    (seq_ok (d_events d) \<longrightarrow> seq_ok (d_events d')) \<and>
    (lease_inv (d_leases d) \<longrightarrow> lease_inv (d_leases d')) \<and>
    closed_kept d d' \<and> identity_kept d d'"

lemma lease_effect_refl: "lease_effect d d"
  by (auto simp: lease_effect_def other_tables_kept_def lease_log_def closed_kept_def
      identity_kept_def same_lease_def)

lemma lease_log_trans:
  assumes "lease_log a b" "lease_log b c" "lease_inv (d_leases a) \<longrightarrow> lease_inv (d_leases b)"
  shows "lease_log a c"
proof -
  obtain es where es: "d_events b = d_events a @ es" "\<forall>e \<in> set es. e_type e \<in> lease_event_types"
    "lease_inv (d_leases a) \<longrightarrow>
      foldE replay_lease_event es (keyed l_lease_id (d_leases a)) = Inr (keyed l_lease_id (d_leases b))"
    using assms(1) unfolding lease_log_def by blast
  obtain fs where fs: "d_events c = d_events b @ fs" "\<forall>e \<in> set fs. e_type e \<in> lease_event_types"
    "lease_inv (d_leases b) \<longrightarrow>
      foldE replay_lease_event fs (keyed l_lease_id (d_leases b)) = Inr (keyed l_lease_id (d_leases c))"
    using assms(2) unfolding lease_log_def by blast
  show ?thesis
    unfolding lease_log_def
    using es fs assms(3) by (intro exI[of _ "es @ fs"]) (auto simp: foldE_append)
qed

lemma identity_kept_trans: "identity_kept a b \<Longrightarrow> identity_kept b c \<Longrightarrow> identity_kept a c"
  unfolding identity_kept_def same_lease_def by metis

lemma lease_effect_trans: "lease_effect a b \<Longrightarrow> lease_effect b c \<Longrightarrow> lease_effect a c"
  unfolding lease_effect_def
  by (intro conjI)
     (auto simp: other_tables_kept_def closed_kept_def elim: lease_log_trans identity_kept_trans)

lemma set_lease_in:
  "r \<in> set ls \<Longrightarrow> (if l_lease_id r = lid then f r else r) \<in> set (set_lease lid f ls)"
  by (force simp: set_lease_def)

lemma effect_set_lease:
  assumes d': "d' = d\<lparr>d_leases := set_lease lid f (d_leases d), d_events := d_events d @ [e]\<rparr>"
    and f: "\<And>r. l_lease_id (f r) = l_lease_id r \<and> l_attempt_id (f r) = l_attempt_id r \<and>
      l_generation (f r) = l_generation r \<and> l_owner_id (f r) = l_owner_id r"
      "\<And>r. l_status (f r) = LActive \<Longrightarrow> l_status r = LActive"
    and e: "e_seq e = next_seq (d_events d)" "e_type e \<in> lease_event_types"
    and rep: "lease_inv (d_leases d) \<Longrightarrow>
      replay_lease_event e (keyed l_lease_id (d_leases d)) = Inr (keyed l_lease_id (d_leases d'))"
    and act: "\<And>r. r \<in> set (d_leases d) \<Longrightarrow> l_lease_id r = lid \<Longrightarrow> l_status r = LActive"
  shows "lease_effect d d'"
proof -
  have "closed_kept d d'"
    unfolding closed_kept_def
  proof (intro ballI impI)
    fix l assume l: "l \<in> set (d_leases d)" "l_status l \<noteq> LActive"
    then show "l \<in> set (d_leases d')"
      using set_lease_in[OF l(1), of lid f] act by (force simp: d')
  qed
  moreover have "identity_kept d d'"
    unfolding identity_kept_def same_lease_def
  proof
    fix l assume l: "l \<in> set (d_leases d)"
    show "\<exists>r \<in> set (d_leases d'). l_lease_id r = l_lease_id l \<and> l_attempt_id r = l_attempt_id l \<and>
        l_generation r = l_generation l \<and> l_owner_id r = l_owner_id l"
      using set_lease_in[OF l, of lid f] f(1)
      by (intro bexI[of _ "if l_lease_id l = lid then f l else l"]) (auto simp: d')
  qed
  moreover have "lease_inv (d_leases d')" if "lease_inv (d_leases d)"
    using lease_inv_set_lease[OF that, of f lid] f by (simp add: d')
  moreover have "lease_log d d'"
    unfolding lease_log_def using e rep by (intro exI[of _ "[e]"]) (auto simp: d')
  moreover have "seq_ok (d_events d) \<longrightarrow> seq_ok (d_events d')"
    using e(1) by (simp add: d' seq_ok_append)
  ultimately show ?thesis
    unfolding lease_effect_def by (simp add: d' other_tables_kept_def)
qed

lemma effect_close:
  assumes "\<And>r. r \<in> set (d_leases d) \<Longrightarrow> l_lease_id r = l_lease_id l \<Longrightarrow> l_status r = LActive"
    and "l \<in> set (d_leases d)" "st \<noteq> LActive"
  shows "lease_effect d (close_lease l st reason now src d)"
  using close_lease_eq[of l st reason now src d] assms
  by (elim exE conjE) (rule effect_set_lease, assumption, auto simp: lease_event_types_def lease_inv_def)


section \<open>The operations\<close>

lemma lease_unique:
  assumes "lease_inv ls" "l \<in> set ls" "r \<in> set ls" "l_lease_id r = l_lease_id l"
  shows "r = l"
proof -
  have d: "distinct (map l_lease_id ls)" using assms(1) by (simp add: lease_inv_def)
  show ?thesis
    using find_distinct[OF d assms(2)] find_distinct[OF d assms(3)] assms(4) by simp
qed

lemma effect_close_active:
  assumes "lease_inv (d_leases d)" "l \<in> set (d_leases d)" "l_status l = LActive" "st \<noteq> LActive"
  shows "lease_effect d (close_lease l st reason now src d)"
  by (rule effect_close) (use assms lease_unique in auto)

lemma find_identity_Some:
  "find_identity (aid, lid, gen) d = Some l \<Longrightarrow>
    l \<in> set (d_leases d) \<and> l_lease_id l = lid \<and> l_attempt_id l = aid \<and> l_generation l = gen"
  unfolding find_identity_def prod.case by (drule find_Some_iff')

lemma row_for_identity_Inr:
  "row_for_identity idt w d = Inr l \<longleftrightarrow> find_identity idt d = Some l \<and> l_owner_id l = w"
  by (auto simp: row_for_identity_def split: option.splits if_splits)

lemma require_active_Inr:
  "require_active l now = Inr u \<longleftrightarrow> l_status l = LActive \<and> \<not> expired now l"
  by (auto simp: require_active_def)

lemma active_lease_Some:
  "active_lease aid d = Some l \<Longrightarrow> l \<in> set (d_leases d) \<and> l_attempt_id l = aid \<and> l_status l = LActive"
  unfolding active_lease_def by (drule find_Some_iff') simp

lemma fetch_lease_Inr: "fetch_lease lid d = Inr (l, d') \<longleftrightarrow> find_lease lid d = Some l \<and> d' = d"
  by (auto simp: fetch_lease_def split: option.splits)

lemma clear_expired_effect:
  assumes "lease_inv (d_leases d)" "clear_expired aid now d = Inr d1"
  shows "lease_effect d d1"
  using assms effect_close_active active_lease_Some lease_effect_refl
  by (auto simp: clear_expired_def split: option.splits if_splits)

lemma find_append_new: "find P xs = None \<Longrightarrow> P x \<Longrightarrow> find P (xs @ [x]) = Some x"
  by (induction xs) (auto split: if_splits)

text \<open>What a successful acquisition returns and leaves behind.\<close>

lemma acquire_Inr:
  assumes "acquire fresh aid owner ttl now given src d = Inr (l, d')"
  obtains a exp d1 e where
    "find_attempt aid d = Some a" "expiry now ttl = Inr exp" "\<not> blank owner" "aid \<noteq> []"
    "clear_expired aid now d = Inr d1"
    "l = new_lease_row (chosen_id given fresh) aid (a_task_id a) (next_generation aid d1) owner now exp"
    "insert_lease l d1 = Inr (d1\<lparr>d_leases := d_leases d1 @ [l]\<rparr>)"
    "e = new_event d1 now src ''execution_lease.acquired'' (Some (a_task_id a)) (acquired_payload l) no_usage"
    "d' = d1\<lparr>d_leases := d_leases d1 @ [l], d_events := d_events d1 @ [e]\<rparr>"
proof -
  let ?lid = "chosen_id given fresh"
  obtain a exp d1 d2 where *: "find_attempt aid d = Some a" "expiry now ttl = Inr exp"
    "\<not> blank owner" "aid \<noteq> []" "clear_expired aid now d = Inr d1"
    "insert_lease (new_lease_row ?lid aid (a_task_id a) (next_generation aid d1) owner now exp) d1 = Inr d2"
    "fetch_lease ?lid (snd (insert_event now src ''execution_lease.acquired'' (Some (a_task_id a))
      (acquired_payload (new_lease_row ?lid aid (a_task_id a) (next_generation aid d1) owner now exp))
      no_usage d2)) = Inr (l, d')"
    using assms unfolding acquire_def Let_def
    by (auto simp: bindE_Inr_iff require_owner_def split: if_splits option.splits)
  let ?l = "new_lease_row ?lid aid (a_task_id a) (next_generation aid d1) owner now exp"
  have d2: "d2 = d1\<lparr>d_leases := d_leases d1 @ [?l]\<rparr>" "find_lease (l_lease_id ?l) d1 = None"
    using *(6) by (auto simp: insert_lease_def split: if_splits)
  have "l = ?l"
    using *(7) find_append_new[of "\<lambda>r. l_lease_id r = ?lid" "d_leases d1" ?l] d2
    by (simp add: fetch_lease_Inr insert_event_eq find_lease_def new_lease_row_def)
  then show ?thesis
    using that[OF *(1-5)] * d2 by (simp add: fetch_lease_Inr insert_event_eq)
qed

lemma acquire_effect:
  assumes inv: "lease_inv (d_leases d)" and acq: "acquire fresh aid owner ttl now given src d = Inr (l, d')"
  shows "lease_effect d d'"
  using acq
proof (rule acquire_Inr)
  fix a exp d1 e
  assume clr: "clear_expired aid now d = Inr d1"
    and l: "l = new_lease_row (chosen_id given fresh) aid (a_task_id a) (next_generation aid d1) owner now exp"
    and ins: "insert_lease l d1 = Inr (d1\<lparr>d_leases := d_leases d1 @ [l]\<rparr>)"
    and e: "e = new_event d1 now src ''execution_lease.acquired'' (Some (a_task_id a)) (acquired_payload l) no_usage"
    and d': "d' = d1\<lparr>d_leases := d_leases d1 @ [l], d_events := d_events d1 @ [e]\<rparr>"
  have eff1: "lease_effect d d1" by (rule clear_expired_effect[OF inv clr])
  have fresh: "l_lease_id l \<notin> l_lease_id ` set (d_leases d1)"
    using ins by (auto simp: insert_lease_def find_lease_def find_None_key split: if_splits)
  have flds: "l_attempt_id l = aid" "l_generation l = next_generation aid d1" "l_status l = LActive"
    by (simp_all add: l new_lease_row_def)
  have inv': "lease_inv (d_leases d1) \<longrightarrow> lease_inv (d_leases d')"
    using lease_inv_insert(1)[OF _ ins] flds by (auto simp: d')
  have row: "replayed_lease now (acquired_payload l) = Inr l"
    unfolding l by (simp add: replayed_lease_def acquired_payload_def jkey_def jget_def new_lease_row_def)
  have "jkey ''lease_id'' (acquired_payload l) = Inr (JStr (l_lease_id l))"
    by (simp add: acquired_payload_def jkey_def)
  then have "replay_lease_event e (keyed l_lease_id (d_leases d1)) = Inr (keyed l_lease_id (d_leases d'))"
    using update_keyed_new[OF fresh, of l]
    by (simp add: e d' replay_lease_event_def lease_event_types_def row)
  then have "lease_log d1 d'"
    unfolding lease_log_def by (intro exI[of _ "[e]"]) (simp add: d' e lease_event_types_def)
  then have "lease_effect d1 d'"
    using inv' seq_ok_append[of "d_events d1" e]
    by (auto simp: lease_effect_def d' e other_tables_kept_def closed_kept_def identity_kept_def same_lease_def)
  then show ?thesis using eff1 lease_effect_trans by blast
qed

lemma renew_Inr:
  assumes "renew ref lid gen owner ttl now src d = Inr (l', d')"
  obtains aid i g w exp l where
    "lease_identity ref lid gen owner = Inr ((aid, i, g), w)" "expiry now ttl = Inr exp"
    "find_identity (aid, i, g) d = Some l" "l_owner_id l = w" "l_status l = LActive" "\<not> expired now l"
    "d' = d\<lparr>d_leases := set_lease i (\<lambda>r. r\<lparr>l_renewed_at := now, l_expires_at := exp, l_updated_at := now\<rparr>)
        (d_leases d),
      d_events := d_events d @ [new_event d now src ''execution_lease.renewed'' (Some (l_task_id l))
        [(''lease_id'', JStr i), (''attempt_id'', JStr aid), (''task_id'', JStr (l_task_id l)),
         (''generation'', JInt g), (''owner_id'', JStr w), (''renewed_at'', JInt now),
         (''expires_at'', jint_opt exp)] no_usage]\<rparr>"
    "find_lease i d' = Some l'"
  using assms unfolding renew_def
  by (auto simp: bindE_Inr_iff row_for_identity_Inr require_active_Inr fetch_lease_Inr insert_event_eq)

lemma renew_effect:
  assumes inv: "lease_inv (d_leases d)" and ren: "renew ref lid gen owner ttl now src d = Inr (l', d')"
  shows "lease_effect d d'"
  using ren
proof (rule renew_Inr)
  fix aid i g w exp and l :: lease_row
  let ?f = "\<lambda>r. r\<lparr>l_renewed_at := now, l_expires_at := exp, l_updated_at := now\<rparr>"
  let ?e = "new_event d now src ''execution_lease.renewed'' (Some (l_task_id l))
        [(''lease_id'', JStr i), (''attempt_id'', JStr aid), (''task_id'', JStr (l_task_id l)),
         (''generation'', JInt g), (''owner_id'', JStr w), (''renewed_at'', JInt now),
         (''expires_at'', jint_opt exp)] no_usage"
  assume l: "find_identity (aid, i, g) d = Some l" "l_status l = LActive"
    and d': "d' = d\<lparr>d_leases := set_lease i ?f (d_leases d), d_events := d_events d @ [?e]\<rparr>"
  have mem: "l \<in> set (d_leases d)" "l_lease_id l = i"
    using find_identity_Some[OF l(1)] by auto
  have dist: "distinct (map l_lease_id (d_leases d))" using inv by (simp add: lease_inv_def)
  have found: "find (\<lambda>r. l_lease_id r = i) (d_leases d) = Some l"
    using find_distinct[OF dist mem(1)] mem(2) by simp
  have "AList.update i (?f l) (keyed l_lease_id (d_leases d)) = keyed l_lease_id (set_lease i ?f (d_leases d))"
    by (rule keyed_set_lease[OF dist found]) (simp add: mem)
  then have rep: "replay_lease_event ?e (keyed l_lease_id (d_leases d)) = Inr (keyed l_lease_id (d_leases d'))"
    by (simp add: d' replay_lease_event_def lease_event_types_def jkey_def jget_def stored_lease_def
        map_of_keyed found)
  have act: "r \<in> set (d_leases d) \<Longrightarrow> l_lease_id r = i \<Longrightarrow> l_status r = LActive" for r
    using lease_unique[OF inv mem(1), of r] mem(2) l(2) by simp
  show ?thesis
    by (rule effect_set_lease[OF d']) (simp_all add: rep act lease_event_types_def)
qed

lemma release_effect:
  assumes inv: "lease_inv (d_leases d)" and rel: "release ref lid gen owner reason now src d = Inr (l', d')"
  shows "lease_effect d d'"
proof -
  obtain idt w l where *: "row_for_identity idt w d = Inr l"
    "d' = d \<or> l_status l = LActive \<and> d' = close_lease l LReleased reason now src d"
    using rel unfolding release_def
    by (auto simp: bindE_Inr_iff fetch_lease_Inr require_active_Inr split: if_splits)
  have "l \<in> set (d_leases d)"
    using *(1) find_identity_Some by (cases idt) (auto simp: row_for_identity_Inr)
  then show ?thesis
    using *(2) effect_close_active[OF inv] lease_effect_refl by auto
qed

lemma recover_effect:
  assumes inv: "lease_inv (d_leases d)" and rel: "recover ref lid gen reason now src d = Inr (l', d')"
  shows "lease_effect d d'"
proof -
  obtain idt l where *: "find_identity idt d = Some l"
    "d' = d \<or> l_status l = LActive \<and> d' = close_lease l LRecovered reason now src d"
    using rel unfolding recover_def
    by (auto simp: bindE_Inr_iff fetch_lease_Inr split: if_splits option.splits)
  have "l \<in> set (d_leases d)"
    using *(1) find_identity_Some by (cases idt) auto
  then show ?thesis
    using *(2) effect_close_active[OF inv] lease_effect_refl by auto
qed

end
