(* ===== verification/Ledger.thy ===== *)
theory Ledger
  imports Lease_Laws
begin

text \<open>
  The database as a state machine. A step is one committed write of the store or of the lease
  module; a trace is any interleaving of such steps, by any number of handlers and processes.
  The invariants of the tables, the two replay laws, the finality of terminal states and the
  fencing of leases hold along every trace.
\<close>

section \<open>Event-sourced tables\<close>

text \<open>
  The contract of a table that is a cache of the log: every step appends events, and folding them
  over the table before the step gives the table after it.
\<close>

locale event_sourced =
  fixes play :: "'e \<Rightarrow> 'm \<Rightarrow> exc + 'm"
    and log :: "'d \<Rightarrow> 'e list"
    and view :: "'d \<Rightarrow> 'm"
    and good :: "'d \<Rightarrow> bool"
    and step :: "'d \<Rightarrow> 'd \<Rightarrow> bool"
  assumes good_step: "good d \<Longrightarrow> step d d' \<Longrightarrow> good d'"
    and step_log: "good d \<Longrightarrow> step d d' \<Longrightarrow>
      \<exists>es. log d' = log d @ es \<and> foldE play es (view d) = Inr (view d')"
begin

lemma good_trace: "step\<^sup>*\<^sup>* d d' \<Longrightarrow> good d \<Longrightarrow> good d'"
  by (induction rule: rtranclp_induct) (auto intro: good_step)

lemma trace_log:
  assumes "step\<^sup>*\<^sup>* d d'" "good d"
  shows "\<exists>es. log d' = log d @ es \<and> foldE play es (view d) = Inr (view d')"
  using assms
proof (induction rule: rtranclp_induct)
  case base
  then show ?case by (intro exI[of _ "[]"]) simp
next
  case (step d1 d2)
  obtain es where es: "log d1 = log d @ es" "foldE play es (view d) = Inr (view d1)"
    using step by auto
  obtain fs where "log d2 = log d1 @ fs" "foldE play fs (view d1) = Inr (view d2)"
    using step_log[OF good_trace[OF step.hyps(1) step.prems] step.hyps(2)] by auto
  then show ?case using es by (intro exI[of _ "es @ fs"]) (simp add: foldE_append)
qed

lemma replays:
  assumes "step\<^sup>*\<^sup>* d d'" "good d" "foldE play (log d) m = Inr (view d)"
  shows "foldE play (log d') m = Inr (view d')"
  using trace_log[OF assms(1,2)] assms(3) by (auto simp: foldE_append)

end

section \<open>Steps\<close>

text \<open>The event types that the replays read. No other write path emits one of them.\<close>

definition ledger_types :: "string set" where
  "ledger_types = {''task.created'', ''task.state_changed''} \<union> lease_event_types"

inductive db_step :: "db \<Rightarrow> db \<Rightarrow> bool" where
  st_event: "typ \<notin> ledger_types \<Longrightarrow> append_event ts src typ tid p u d = Inr (s, d') \<Longrightarrow> db_step d d'"
| st_create_task: "create_task fresh ts a d = Inr (tid, d') \<Longrightarrow> db_step d d'"
| st_transition: "transition ts tid to cause src kw d = Inr (s, d') \<Longrightarrow> db_step d d'"
| st_create_attempt: "create_attempt fresh ts b d = Inr (aid, d') \<Longrightarrow> db_step d d'"
| st_update_attempt:
    "typ \<notin> ledger_types \<Longrightarrow> update_attempt ts aid src typ kw d = Inr (s, d') \<Longrightarrow> db_step d d'"
| st_create_intervention:
    "create_intervention fresh ts tid said sha sig started given d = Inr (iid, d') \<Longrightarrow> db_step d d'"
| st_update_intervention: "update_intervention ts iid kw d = Inr (s, d') \<Longrightarrow> db_step d d'"
| st_acquire: "acquire fresh aid owner ttl ts given src d = Inr (l, d') \<Longrightarrow> db_step d d'"
| st_renew: "renew ref lid gen own ttl ts src d = Inr (l, d') \<Longrightarrow> db_step d d'"
| st_release: "release ref lid gen own reason ts src d = Inr (l, d') \<Longrightarrow> db_step d d'"
| st_recover: "recover ref lid gen reason ts src d = Inr (l, d') \<Longrightarrow> db_step d d'"

abbreviation db_trace :: "db \<Rightarrow> db \<Rightarrow> bool" where
  "db_trace \<equiv> db_step\<^sup>*\<^sup>*"

section \<open>The invariant of the tables\<close>

definition db_wf :: "db \<Rightarrow> bool" where
  "db_wf d \<longleftrightarrow>
    seq_ok (d_events d) \<and>
    distinct (map t_id (d_tasks d)) \<and>
    distinct (map a_id (d_attempts d)) \<and>
    distinct (map (\<lambda>a. (a_task_id a, a_attempt_no a)) (d_attempts d)) \<and>
    lease_inv (d_leases d) \<and>
    (\<forall>(x, y) \<in> set (d_deps d). x \<in> t_id ` set (d_tasks d) \<and> y \<in> t_id ` set (d_tasks d))"

text \<open>
  The ways a step changes the tables: one for the event alone and for the intervention table, one
  per table otherwise. Every proof about steps is a case distinction over these.
\<close>

lemma step_cases:
  assumes "db_step d d'"
  obtains (event) e where "e_type e \<notin> ledger_types" "e_seq e = next_seq (d_events d)"
      "d_tasks d' = d_tasks d" "d_deps d' = d_deps d" "d_attempts d' = d_attempts d"
      "d_leases d' = d_leases d" "d_events d' = d_events d @ [e]"
  | (create) fresh ts a tid where "create_task fresh ts a d = Inr (tid, d')"
  | (change) ts tid to cause src kw s where "transition ts tid to cause src kw d = Inr (s, d')"
  | (attempt) e a where "e_type e \<notin> ledger_types" "e_seq e = next_seq (d_events d)"
      "find_attempt (a_id a) d = None"
      "find (\<lambda>b. a_task_id b = a_task_id a \<and> a_attempt_no b = a_attempt_no a) (d_attempts d) = None"
      "d' = d\<lparr>d_attempts := d_attempts d @ [a], d_events := d_events d @ [e]\<rparr>"
  | (attempt_row) e aid a a' where "e_type e \<notin> ledger_types" "e_seq e = next_seq (d_events d)"
      "find_attempt aid d = Some a" "a_id a' = a_id a" "a_task_id a' = a_task_id a"
      "a_attempt_no a' = a_attempt_no a"
      "d' = d\<lparr>d_attempts := set_attempt aid (\<lambda>_. a') (d_attempts d), d_events := d_events d @ [e]\<rparr>"
  | (lease) "lease_inv (d_leases d) \<Longrightarrow> lease_effect d d'"
  using assms
proof cases
  case (st_event ty ts src tid p u s)
  show thesis
    by (rule event[of "new_event d ts src ty tid p u"])
       (use st_event in \<open>auto simp: append_event_def insert_event_eq\<close>)
next
  case (st_create_task fresh ts a tid)
  then show thesis by (rule create)
next
  case (st_transition ts tid to cause src kw s)
  then show thesis by (rule change)
next
  case (st_create_attempt fresh ts b aid)
  note * = create_attempt_Inr[OF st_create_attempt]
  show thesis
    by (rule attempt[of "new_event d ts Src_scheduler ''attempt.created'' (Some (ad_task_id b))
        (attempt_payload aid ts b) no_usage" "new_attempt_row aid ts b"])
       (use * in \<open>auto simp: new_attempt_row_def ledger_types_def lease_event_types_def\<close>)
next
  case (st_update_attempt ty ts aid src kw s)
  from st_update_attempt(2) show thesis
  proof (rule update_attempt_Inr)
    fix a a' p
    assume "find_attempt aid d = Some a" "a_id a' = a_id a" "a_task_id a' = a_task_id a"
      "a_attempt_no a' = a_attempt_no a"
      "d' = d\<lparr>d_attempts := set_attempt aid (\<lambda>_. a') (d_attempts d),
        d_events := d_events d @ [new_event d ts src ty (Some (a_task_id a)) p no_usage]\<rparr>"
    then show thesis
      using attempt_row[of "new_event d ts src ty (Some (a_task_id a)) p no_usage"] st_update_attempt(1)
      by simp
  qed
next
  case (st_create_intervention fresh ts tid said sha sig started given iid)
  then show thesis
  proof (rule create_intervention_Inr)
    fix i p
    assume "d' = d\<lparr>d_interventions := d_interventions d @ [i],
      d_events := d_events d @ [new_event d (case started of None \<Rightarrow> ts | Some s \<Rightarrow> s) Src_supervisor
        ''supervisor.intervention_started'' (Some tid) p no_usage]\<rparr>"
    then show thesis
      by (intro event) (auto simp: ledger_types_def lease_event_types_def)
  qed
next
  case (st_update_intervention ts iid kw s)
  then show thesis
  proof (rule update_intervention_Inr)
    fix i i' p
    assume "d' = d\<lparr>d_interventions := set_intervention iid (\<lambda>_. i') (d_interventions d),
      d_events := d_events d @ [new_event d ts Src_supervisor ''supervisor.intervention_updated''
        (Some (i_task_id i)) p no_usage]\<rparr>"
    then show thesis
      by (intro event) (auto simp: ledger_types_def lease_event_types_def)
  qed
next
  case (st_acquire fresh aid owner ttl ts given src l)
  show thesis by (rule lease) (rule acquire_effect[OF _ st_acquire])
next
  case (st_renew ref lid gen own ttl ts src l)
  show thesis by (rule lease) (rule renew_effect[OF _ st_renew])
next
  case (st_release ref lid gen own reason ts src l)
  show thesis by (rule lease) (rule release_effect[OF _ st_release])
next
  case (st_recover ref lid gen reason ts src l)
  show thesis by (rule lease) (rule recover_effect[OF _ st_recover])
qed

lemma set_task_ids: "t_id t' = tid \<Longrightarrow> map t_id (set_task tid (\<lambda>_. t') ts) = map t_id ts"
  unfolding set_task_def by (rule map_key_update)

lemma transition_ids:
  assumes "transition ts tid to cause src kw d = Inr (s, d')"
  shows "map t_id (d_tasks d') = map t_id (d_tasks d)" "d_deps d' = d_deps d"
    "d_attempts d' = d_attempts d" "d_leases d' = d_leases d"
    "\<exists>e. d_events d' = d_events d @ [e] \<and> e_seq e = next_seq (d_events d) \<and> e_seq e = s \<and>
      e_type e = ''task.state_changed''"
proof -
  from assms obtain t q t' where t: "find_task tid d = Some t"
    and c: "foldE set_task_col kw (t\<lparr>t_state := q, t_updated_at := ts\<rparr>) = Inr t'"
    and d': "s = next_seq (d_events d)" "d' = d\<lparr>d_tasks := set_task tid (\<lambda>_. t') (d_tasks d),
      d_events := d_events d @ [new_event d ts src ''task.state_changed'' (Some tid)
        (transition_payload (t_state t) q cause kw) no_usage]\<rparr>"
    by (rule transition_Inr)
  have "t_id t' = tid" using set_task_cols_keep[OF c] find_task_Some[OF t] by simp
  then show "map t_id (d_tasks d') = map t_id (d_tasks d)"
    by (simp add: d' set_task_ids)
  show "d_deps d' = d_deps d" "d_attempts d' = d_attempts d" "d_leases d' = d_leases d"
    "\<exists>e. d_events d' = d_events d @ [e] \<and> e_seq e = next_seq (d_events d) \<and> e_seq e = s \<and>
      e_type e = ''task.state_changed''"
    by (simp_all add: d')
qed

lemma wf_step:
  assumes wf: "db_wf d" and st: "db_step d d'"
  shows "db_wf d'"
  using st
proof (cases rule: step_cases)
  case (event e)
  then show ?thesis using wf by (simp add: db_wf_def seq_ok_append)
next
  case (create fresh ts a tid)
  note * = create_task_Inr[OF create]
  have id: "t_id (new_task_row tid ts a) = tid" by (simp add: new_task_row_def)
  have "tid \<notin> t_id ` set (d_tasks d)"
    using *(2) by (simp add: find_task_def find_None_key)
  moreover have "dep \<in> t_id ` set (d_tasks d) \<or> dep = tid" if "dep \<in> set (td_depends_on a)" for dep
    using *(5) that by (auto dest: find_task_Some)
  ultimately show ?thesis
    using wf unfolding *(6) db_wf_def by (auto simp: seq_ok_append id)
next
  case (change ts tid to cause src kw s)
  note * = transition_ids[OF change]
  have "t_id ` set (d_tasks d') = t_id ` set (d_tasks d)"
    using *(1) by (metis set_map)
  then show ?thesis
    using wf * by (auto simp: db_wf_def seq_ok_append)
next
  case (attempt e a)
  then show ?thesis
    using wf by (auto simp: db_wf_def seq_ok_append find_attempt_def find_None_iff)
next
  case (attempt_row e aid a a')
  have "a_id a = aid" "a \<in> set (d_attempts d)" using find_attempt_Some[OF attempt_row(3)] by auto
  then have same: "a_id b = aid \<Longrightarrow> b = a" if "b \<in> set (d_attempts d)" for b
    using wf that find_distinct[of a_id "d_attempts d"] unfolding db_wf_def by (metis option.inject)
  have "map a_id (set_attempt aid (\<lambda>_. a') (d_attempts d)) = map a_id (d_attempts d)"
    using attempt_row(4) \<open>a_id a = aid\<close> unfolding set_attempt_def by (intro map_key_update) simp
  moreover have "map (\<lambda>a. (a_task_id a, a_attempt_no a)) (set_attempt aid (\<lambda>_. a') (d_attempts d)) =
      map (\<lambda>a. (a_task_id a, a_attempt_no a)) (d_attempts d)"
    using attempt_row(5,6) same by (auto simp: set_attempt_def)
  ultimately show ?thesis
    using wf attempt_row by (simp add: db_wf_def seq_ok_append)
next
  case lease
  then show ?thesis
    using wf by (auto simp: db_wf_def lease_effect_def other_tables_kept_def)
qed

lemma replay_event_other: "e_type e \<notin> {''task.created'', ''task.state_changed''} \<Longrightarrow> replay_event e m = Inr m"
  by (simp add: replay_event_def)

lemma step_tasks_log:
  assumes wf: "db_wf d" and st: "db_step d d'"
  shows "\<exists>es. d_events d' = d_events d @ es \<and>
    foldE replay_event es (keyed t_id (d_tasks d)) = Inr (keyed t_id (d_tasks d'))"
  using st
proof (cases rule: step_cases)
  case (event e)
  then show ?thesis
    by (intro exI[of _ "[e]"]) (simp add: replay_event_other ledger_types_def)
next
  case (create fresh ts a tid)
  from replay_create_task[OF create] obtain e where "d_events d' = d_events d @ [e]"
    "replay_event e (keyed t_id (d_tasks d)) = Inr (keyed t_id (d_tasks d'))" by blast
  then show ?thesis by (intro exI[of _ "[e]"]) simp
next
  case (change ts tid to cause src kw s)
  have "distinct (map t_id (d_tasks d))" using wf by (simp add: db_wf_def)
  from replay_transition[OF this change] obtain e where "d_events d' = d_events d @ [e]"
    "replay_event e (keyed t_id (d_tasks d)) = Inr (keyed t_id (d_tasks d'))" by blast
  then show ?thesis by (intro exI[of _ "[e]"]) simp
next
  case (attempt e a)
  then show ?thesis
    by (intro exI[of _ "[e]"]) (simp add: replay_event_other ledger_types_def)
next
  case (attempt_row e aid a a')
  then show ?thesis
    by (intro exI[of _ "[e]"]) (simp add: replay_event_other ledger_types_def)
next
  case lease
  then obtain es where es: "d_events d' = d_events d @ es" "\<forall>e \<in> set es. e_type e \<in> lease_event_types"
    "d_tasks d' = d_tasks d"
    using wf by (auto simp: db_wf_def lease_effect_def lease_log_def other_tables_kept_def)
  have "foldE replay_event es m = Inr m" for m
    by (rule foldE_skip) (use es(2) in \<open>auto intro!: replay_event_other simp: lease_event_types_def\<close>)
  then show ?thesis using es by auto
qed

lemma replay_lease_event_other: "e_type e \<notin> lease_event_types \<Longrightarrow> replay_lease_event e m = Inr m"
  by (simp add: replay_lease_event_def)

lemma step_leases_log:
  assumes wf: "db_wf d" and st: "db_step d d'"
  shows "\<exists>es. d_events d' = d_events d @ es \<and>
    foldE replay_lease_event es (keyed l_lease_id (d_leases d)) = Inr (keyed l_lease_id (d_leases d'))"
  using st
proof (cases rule: step_cases)
  case (event e)
  then show ?thesis
    by (intro exI[of _ "[e]"]) (simp add: replay_lease_event_other ledger_types_def)
next
  case (create fresh ts a tid)
  show ?thesis
    unfolding create_task_Inr(6)[OF create]
    by (rule exI, rule conjI, simp) (simp add: replay_lease_event_other lease_event_types_def)
next
  case (change ts tid to cause src kw s)
  obtain e where "d_events d' = d_events d @ [e]" "e_type e = ''task.state_changed''"
    using transition_ids(5)[OF change] by auto
  then show ?thesis
    using transition_ids(4)[OF change]
    by (intro exI[of _ "[e]"]) (simp add: replay_lease_event_other lease_event_types_def)
next
  case (attempt e a)
  then show ?thesis
    by (intro exI[of _ "[e]"]) (simp add: replay_lease_event_other ledger_types_def)
next
  case (attempt_row e aid a a')
  then show ?thesis
    by (intro exI[of _ "[e]"]) (simp add: replay_lease_event_other ledger_types_def)
next
  case lease
  then show ?thesis using wf by (auto simp: db_wf_def lease_effect_def lease_log_def)
qed

interpretation tasks: event_sourced replay_event d_events "\<lambda>d. keyed t_id (d_tasks d)" db_wf db_step
  by unfold_locales (use wf_step step_tasks_log in blast)+

interpretation leases: event_sourced replay_lease_event d_events "\<lambda>d. keyed l_lease_id (d_leases d)"
    db_wf db_step
  by unfold_locales (use wf_step step_leases_log in blast)+

lemma wf_empty: "db_wf empty_db"
  by (simp add: db_wf_def empty_db_def seq_ok_def lease_inv_def)

lemma wf_trace: "db_trace d d' \<Longrightarrow> db_wf d \<Longrightarrow> db_wf d'"
  by (rule tasks.good_trace)

lemma wf_reachable: "db_trace empty_db d \<Longrightarrow> db_wf d"
  by (rule wf_trace[OF _ wf_empty])

lemma replay_tables: "db_trace empty_db d \<Longrightarrow> replay (d_events d) = Inr (keyed t_id (d_tasks d))"
  unfolding replay_def using tasks.replays[OF _ wf_empty, of d] by (simp add: empty_db_def)

lemma trace_step: "db_trace d d1 \<Longrightarrow> db_step d1 d2 \<Longrightarrow> db_trace d d2"
  by (rule rtranclp.rtrancl_into_rtrancl)

lemma closed_kept_step: "db_wf d \<Longrightarrow> db_step d d' \<Longrightarrow> closed_kept d d'"
  by (erule step_cases)
     (auto simp: closed_kept_def transition_ids(4) lease_effect_def db_wf_def dest: create_task_Inr(6))

lemma closed_kept_trace: "db_trace d d' \<Longrightarrow> db_wf d \<Longrightarrow> closed_kept d d'"
proof (induction rule: rtranclp_induct)
  case base
  then show ?case by (simp add: closed_kept_def)
next
  case (step d1 d2)
  then show ?case
    using closed_kept_step wf_trace by (metis (no_types, lifting) closed_kept_def)
qed

lemma find_identity_mem:
  assumes "db_wf d" "l \<in> set (d_leases d)"
  shows "find_identity (l_attempt_id l, l_lease_id l, l_generation l) d = Some l"
proof -
  have inv: "lease_inv (d_leases d)" using assms(1) by (simp add: db_wf_def)
  have "find_identity (l_attempt_id l, l_lease_id l, l_generation l) d \<noteq> None"
    using assms(2) by (auto simp: find_identity_def find_None_iff)
  then obtain r where r: "find_identity (l_attempt_id l, l_lease_id l, l_generation l) d = Some r" by auto
  then show ?thesis
    using lease_unique[OF inv assms(2)] find_identity_Some by (metis prod.inject)
qed

lemma find_task_mem: "db_wf d \<Longrightarrow> t \<in> set (d_tasks d) \<Longrightarrow> find_task (t_id t) d = Some t"
  unfolding db_wf_def find_task_def by (intro find_distinct) auto

text \<open>A task row in a terminal state is never written again.\<close>

lemma terminal_step:
  assumes "db_wf d" "db_step d d'" "find_task tid d = Some t" "t_state t \<in> terminal"
  shows "find_task tid d' = Some t"
  using assms(2)
proof (cases rule: step_cases)
  case (create fresh ts a tid')
  then show ?thesis
    using assms(3) create_task_Inr[OF create] by (auto simp: find_task_def find_append_old)
next
  case (change ts tid' to cause src kw s)
  then show ?thesis
  proof (rule transition_Inr)
    fix u q t'
    assume u: "find_task tid' d = Some u" "legal (t_state u) q"
      and c: "foldE set_task_col kw (u\<lparr>t_state := q, t_updated_at := ts\<rparr>) = Inr t'"
      and d': "d' = d\<lparr>d_tasks := set_task tid' (\<lambda>_. t') (d_tasks d),
      d_events := d_events d @ [new_event d ts src ''task.state_changed'' (Some tid')
        (transition_payload (t_state u) q cause kw) no_usage]\<rparr>"
    have "tid' \<noteq> tid" using u assms(3,4) by (auto simp: legal_def)
    moreover have "t_id t' = tid'" using set_task_cols_keep[OF c] find_task_Some[OF u(1)] by simp
    ultimately show ?thesis
      using assms(3) by (simp add: d' find_task_def set_task_def find_map_other)
  qed
qed (use assms in \<open>auto simp: find_task_def lease_effect_def other_tables_kept_def db_wf_def\<close>)

lemma terminal_trace:
  "db_trace d d' \<Longrightarrow> db_wf d \<Longrightarrow> find_task tid d = Some t \<Longrightarrow> t_state t \<in> terminal \<Longrightarrow>
    find_task tid d' = Some t"
proof (induction rule: rtranclp_induct)
  case (step d1 d2)
  then show ?case using terminal_step[OF wf_trace] by blast
qed

section \<open>The history of a task\<close>

text \<open>The recorded changes of a task, oldest first, and the paths of the state machine.\<close>

definition task_changes :: "string \<Rightarrow> event_row list \<Rightarrow> (json \<times> json) list" where
  "task_changes tid es = map (\<lambda>e. (jget ''from'' (e_payload e), jget ''to'' (e_payload e)))
    (filter (\<lambda>e. e_type e = ''task.state_changed'' \<and> e_task_id e = Some tid) es)"

fun legal_path :: "tstate \<Rightarrow> (json \<times> json) list \<Rightarrow> tstate \<Rightarrow> bool" where
  "legal_path q [] r = (q = r)"
| "legal_path q ((f, t) # xs) r =
    (f = JStr (state_name q) \<and>
     (\<exists>q' \<in> set all_states. t = JStr (state_name q') \<and> legal q q' \<and> legal_path q' xs r))"

lemma all_states_all [simp]: "q \<in> set all_states"
  by (cases q) (simp_all add: all_states_def)

lemma legal_path_snoc:
  "legal_path q xs r \<Longrightarrow> legal r r' \<Longrightarrow> legal_path q (xs @ [(JStr (state_name r), JStr (state_name r'))]) r'"
  by (induction q xs r rule: legal_path.induct) auto

definition path_inv :: "db \<Rightarrow> bool" where
  "path_inv d \<longleftrightarrow>
    (\<forall>t \<in> set (d_tasks d). legal_path Blocked (task_changes (t_id t) (d_events d)) (t_state t)) \<and>
    (\<forall>tid. task_changes tid (d_events d) \<noteq> [] \<longrightarrow> tid \<in> t_id ` set (d_tasks d))"

lemma task_changes_append: "task_changes tid (es @ fs) = task_changes tid es @ task_changes tid fs"
  by (simp add: task_changes_def)

lemma task_changes_other:
  "\<forall>e \<in> set es. e_type e \<noteq> ''task.state_changed'' \<Longrightarrow> task_changes tid es = []"
  by (simp add: task_changes_def filter_empty_conv)

lemma path_inv_same:
  assumes "path_inv d" "d_tasks d' = d_tasks d" "d_events d' = d_events d @ es"
    "\<forall>e \<in> set es. e_type e \<noteq> ''task.state_changed''"
  shows "path_inv d'"
  using assms(1) task_changes_other[OF assms(4)] by (simp add: path_inv_def assms(2,3) task_changes_append)

lemma path_step:
  assumes wf: "db_wf d" and inv: "path_inv d" and st: "db_step d d'"
  shows "path_inv d'"
  using st
proof (cases rule: step_cases)
  case (create fresh ts a tid)
  note * = create_task_Inr[OF create]
  have "task_changes tid (d_events d) = []"
    using inv *(2) by (auto simp: path_inv_def find_task_def find_None_key)
  then show ?thesis
    using inv unfolding *(6) path_inv_def
    by (auto simp: task_changes_append task_changes_def[of _ "[_]"] new_task_row_def)
next
  case (change ts tid to cause src kw s)
  then show ?thesis
  proof (rule transition_Inr)
    fix t q t'
    assume t: "find_task tid d = Some t" "legal (t_state t) q"
      and kw: "distinct (map fst kw)" "set (map fst kw) \<subseteq> set updatable"
      and c: "foldE set_task_col kw (t\<lparr>t_state := q, t_updated_at := ts\<rparr>) = Inr t'"
      and d': "d' = d\<lparr>d_tasks := set_task tid (\<lambda>_. t') (d_tasks d),
      d_events := d_events d @ [new_event d ts src ''task.state_changed'' (Some tid)
        (transition_payload (t_state t) q cause kw) no_usage]\<rparr>"
    have t': "t_id t' = tid" "t_state t' = q" and tm: "t \<in> set (d_tasks d)" "t_id t = tid"
      using set_task_cols_keep[OF c] find_task_Some[OF t(1)] by auto
    have ch: "task_changes x (d_events d') = task_changes x (d_events d) @
        (if x = tid then [(JStr (state_name (t_state t)), JStr (state_name q))] else [])" for x
      by (simp add: d' task_changes_append task_changes_def[of _ "[_]"] jget_def
          transition_payload_col(2,3)[OF kw])
    have "legal_path Blocked (task_changes tid (d_events d)) (t_state t)"
      using inv tm by (auto simp: path_inv_def)
    then have new: "legal_path Blocked (task_changes tid (d_events d')) q"
      unfolding ch using legal_path_snoc t(2) by simp
    have mem: "u = t' \<or> u \<in> set (d_tasks d) \<and> t_id u \<noteq> tid" if "u \<in> set (d_tasks d')" for u
      using that by (auto simp: d' set_task_def split: if_splits)
    have "legal_path Blocked (task_changes (t_id u) (d_events d')) (t_state u)"
      if "u \<in> set (d_tasks d')" for u
      using mem[OF that] new t' inv ch by (auto simp: path_inv_def)
    moreover have ids: "t_id ` set (d_tasks d') = t_id ` set (d_tasks d)"
      using transition_ids(1)[OF change] by (metis set_map)
    have "x \<in> t_id ` set (d_tasks d')" if "task_changes x (d_events d') \<noteq> []" for x
    proof (cases "x = tid")
      case True
      then show ?thesis unfolding ids using tm by auto
    next
      case False
      then show ?thesis unfolding ids using that ch[of x] inv by (simp add: path_inv_def)
    qed
    ultimately show ?thesis by (simp add: path_inv_def)
  qed
next
  case lease
  then obtain es where "d_events d' = d_events d @ es" "\<forall>e \<in> set es. e_type e \<in> lease_event_types"
    "d_tasks d' = d_tasks d"
    using wf by (auto simp: db_wf_def lease_effect_def lease_log_def other_tables_kept_def)
  then show ?thesis
    by (intro path_inv_same[OF inv]) (auto simp: lease_event_types_def)
next
  case (event e)
  show ?thesis
    by (rule path_inv_same[OF inv, of _ "[e]"]) (use event in \<open>auto simp: ledger_types_def\<close>)
next
  case (attempt e a)
  show ?thesis
    by (rule path_inv_same[OF inv, of _ "[e]"]) (use attempt in \<open>auto simp: ledger_types_def\<close>)
next
  case (attempt_row e aid a a')
  show ?thesis
    by (rule path_inv_same[OF inv, of _ "[e]"]) (use attempt_row in \<open>auto simp: ledger_types_def\<close>)
qed

lemma path_reachable: "db_trace empty_db d \<Longrightarrow> path_inv d"
proof (induction rule: rtranclp_induct)
  case base
  then show ?case by (simp add: path_inv_def empty_db_def task_changes_def)
next
  case (step d1 d2)
  then show ?case using path_step wf_reachable by blast
qed

end
