(* ===== verification/Ledger_Properties.thy ===== *)
theory Ledger_Properties
  imports Ledger
begin

text \<open>
  The promises of the store and of the lease module, along every trace of committed writes, and a
  small database on which they are evaluated.
\<close>

section \<open>A small database\<close>

definition demo_def :: task_def where
  "demo_def = \<lparr>td_title = ''t'', td_brief = ''b'', td_repo = ''r'', td_delivery_mode = ''local'',
    td_verify_cmd = None, td_max_retries = 2, td_depends_on = [], td_task_id = Some ''A'',
    td_output_artifacts = JList [JStr ''out''], td_output_schema = JNull, td_input_contract = JNull,
    td_dependency_input_contract = JNull, td_node_verify_cmd = None, td_repair_policy = JNull\<rparr>"

definition demo_attempt :: attempt_def where
  "demo_attempt = \<lparr>ad_task_id = ''A'', ad_run_id = ''run'', ad_attempt_no = 1, ad_base_sha = ''sha'',
    ad_candidate_branch = ''br'', ad_execution_contract = ''{}'', ad_parent_attempt_id = None,
    ad_supervisor_feedback = None, ad_attempt_id = Some ''att''\<rparr>"

definition the_db :: "exc + 'a \<times> db \<Rightarrow> db" where
  "the_db r = (case r of Inl _ \<Rightarrow> empty_db | Inr (_, d) \<Rightarrow> d)"

definition demo1 :: db where
  "demo1 = the_db (create_task ''u'' 10 demo_def empty_db)"

definition demo2 :: db where
  "demo2 = the_db (transition 20 ''A'' ''queued'' 1 Src_scheduler [] demo1)"

definition demo3 :: db where
  "demo3 = the_db (create_attempt ''u'' 30 demo_attempt demo2)"

definition demo4 :: db where
  "demo4 = the_db (acquire ''L1'' ''att'' ''w'' (Some 300) 40 None Src_scheduler demo3)"

definition demo_lease :: lease_row where
  "demo_lease = new_lease_row ''L1'' ''att'' ''A'' 1 ''w'' 40 (Some 340)"

definition demo5 :: db where
  "demo5 = the_db (recover (By_lease demo_lease) None None ''gone'' 50 Src_watchdog demo4)"

lemma demo1_eq: "create_task ''u'' 10 demo_def empty_db = Inr (''A'', demo1)" by code_simp
lemma demo2_eq: "transition 20 ''A'' ''queued'' 1 Src_scheduler [] demo1 = Inr (2, demo2)" by code_simp
lemma demo3_eq: "create_attempt ''u'' 30 demo_attempt demo2 = Inr (''att'', demo3)" by code_simp
lemma demo4_eq:
  "acquire ''L1'' ''att'' ''w'' (Some 300) 40 None Src_scheduler demo3 = Inr (demo_lease, demo4)"
  by code_simp
lemma demo5_eq:
  "recover (By_lease demo_lease) None None ''gone'' 50 Src_watchdog demo4 =
    Inr (demo_lease\<lparr>l_status := LRecovered, l_released_at := Some 50, l_release_reason := Some ''gone'',
      l_updated_at := 50\<rparr>, demo5)"
  by code_simp

lemma demo1_trace: "db_trace empty_db demo1"
  by (rule trace_step[OF rtranclp.rtrancl_refl st_create_task[OF demo1_eq]])

lemma demo2_trace: "db_trace empty_db demo2"
  by (rule trace_step[OF demo1_trace st_transition[OF demo2_eq]])

lemma demo3_trace: "db_trace empty_db demo3"
  by (rule trace_step[OF demo2_trace st_create_attempt[OF demo3_eq]])

lemma demo4_trace: "db_trace empty_db demo4"
  by (rule trace_step[OF demo3_trace st_acquire[OF demo4_eq]])

lemma demo5_step: "db_step demo4 demo5"
  by (rule st_recover[OF demo5_eq])

lemma demo5_trace: "db_trace empty_db demo5"
  by (rule trace_step[OF demo4_trace demo5_step])

section \<open>Tasks\<close>

text \<open>
  C1. The tasks table is exactly the fold of the event log: after any interleaving of committed
  writes, \<open>replay\<close> of all events returns, and its rows are the rows of the table, column by
  column and in the same order.
\<close>

theorem replay_rebuilds_tasks:
  assumes "db_trace empty_db d"
  shows "replay (d_events d) = Inr (keyed t_id (d_tasks d))"
  by (rule replay_tables[OF assms])

theorem replay_rebuilds_tasks_witness:
  "replay (d_events demo5) = Inr (keyed t_id (d_tasks demo5)) \<and> length (d_tasks demo5) = 1"
  using replay_rebuilds_tasks[OF demo5_trace] by (intro conjI) (assumption, code_simp)

text \<open>
  C2. Terminal states are final: a task row that is delivered, failed, cancelled or
  dependency_blocked is never written again, by any operation, in any column.
\<close>

theorem terminal_rows_final:
  assumes "db_trace empty_db d" "db_trace d d'" "find_task tid d = Some t" "t_state t \<in> terminal"
  shows "find_task tid d' = Some t"
  by (rule terminal_trace[OF assms(2) wf_reachable[OF assms(1)] assms(3,4)])

definition demo_cancelled :: db where
  "demo_cancelled = the_db (transition 60 ''A'' ''cancelled'' 5 Src_human [] demo5)"

lemma demo_cancelled_eq:
  "transition 60 ''A'' ''cancelled'' 5 Src_human [] demo5 = Inr (6, demo_cancelled)"
  by code_simp

definition demo_after :: db where
  "demo_after = the_db (append_event 70 Src_human ''note'' (Some ''A'') [] no_usage demo_cancelled)"

lemma demo_after_eq:
  "append_event 70 Src_human ''note'' (Some ''A'') [] no_usage demo_cancelled = Inr (7, demo_after)"
  by code_simp

lemma demo_after_trace: "db_trace demo_cancelled demo_after"
  by (rule r_into_rtranclp, rule st_event[OF _ demo_after_eq])
     (simp add: ledger_types_def lease_event_types_def)

lemma demo_cancelled_trace: "db_trace empty_db demo_cancelled"
  by (rule trace_step[OF demo5_trace st_transition[OF demo_cancelled_eq]])

theorem terminal_rows_final_witness:
  "map_option t_state (find_task ''A'' demo_after) = Some Cancelled"
proof -
  have "map_option t_state (find_task ''A'' demo_cancelled) = Some Cancelled" by code_simp
  then obtain t where t: "find_task ''A'' demo_cancelled = Some t" "t_state t = Cancelled" by auto
  show ?thesis
    using terminal_rows_final[OF demo_cancelled_trace demo_after_trace t(1)] t(2)
    by (simp add: terminal_def)
qed

text \<open>
  C3. The log records a legal history: for every task of a reachable database, the from and to of
  its recorded changes form a path of the state machine from blocked to the state of the row.
\<close>

theorem recorded_history_legal:
  assumes "db_trace empty_db d" "find_task tid d = Some t"
  shows "legal_path Blocked (task_changes tid (d_events d)) (t_state t)"
  using path_reachable[OF assms(1)] find_task_Some[OF assms(2)] by (auto simp: path_inv_def)

theorem recorded_history_legal_witness:
  "legal_path Blocked (task_changes ''A'' (d_events demo_cancelled)) Cancelled \<and>
    length (task_changes ''A'' (d_events demo_cancelled)) = 2"
proof -
  have "map_option t_state (find_task ''A'' demo_cancelled) = Some Cancelled" by code_simp
  then obtain t where t: "find_task ''A'' demo_cancelled = Some t" "t_state t = Cancelled" by auto
  have "length (task_changes ''A'' (d_events demo_cancelled)) = 2" by code_simp
  then show ?thesis
    using recorded_history_legal[OF demo_cancelled_trace t(1)] t(2) by simp
qed

text \<open>
  The log is append-only and its sequence numbers count from 1 without a gap: every trace from
  a reachable database only adds events at the end.
\<close>

theorem log_append_only:
  assumes "db_trace empty_db d" "db_trace d d'"
  shows "\<exists>es. d_events d' = d_events d @ es \<and> seq_ok (d_events d')"
  using tasks.trace_log[OF assms(2) wf_reachable[OF assms(1)]]
    wf_trace[OF assms(2) wf_reachable[OF assms(1)]] by (auto simp: db_wf_def)

theorem log_append_only_witness:
  "\<exists>es. d_events demo_after = d_events demo_cancelled @ es \<and> seq_ok (d_events demo_after)"
  by (rule log_append_only[OF demo_cancelled_trace demo_after_trace])

text \<open>The row of a task as the values of its columns.\<close>

definition task_columns :: "task_row \<Rightarrow> payload" where
  "task_columns t =
    [(''id'', JStr (t_id t)), (''title'', JStr (t_title t)), (''brief'', JStr (t_brief t)),
     (''repo'', JStr (t_repo t)), (''delivery_mode'', JStr (t_delivery_mode t)),
     (''verify_cmd'', jopt (t_verify_cmd t)), (''output_artifacts'', jopt (t_output_artifacts t)),
     (''output_schema'', jopt (t_output_schema t)), (''input_contract'', jopt (t_input_contract t)),
     (''node_verify_cmd'', jopt (t_node_verify_cmd t)), (''repair_policy'', jopt (t_repair_policy t)),
     (''state'', JStr (state_name (t_state t))), (''retries'', JInt (t_retries t)),
     (''max_retries'', JInt (t_max_retries t)), (''worktree'', jopt (t_worktree t)),
     (''session_id'', jopt (t_session_id t)), (''base_sha'', jopt (t_base_sha t)),
     (''run_id'', jopt (t_run_id t)), (''current_attempt_id'', jopt (t_current_attempt_id t)),
     (''candidate_sha'', jopt (t_candidate_sha t)), (''candidate_branch'', jopt (t_candidate_branch t)),
     (''created_at'', JInt (t_created_at t)), (''updated_at'', JInt (t_updated_at t))]"

definition task_column :: "string \<Rightarrow> task_row \<Rightarrow> json option" where
  "task_column c t = map_of (task_columns t) c"

lemma as_text_opt_Inr: "as_text_opt v = Inr x \<longleftrightarrow> v = jopt x"
  by (cases v) (auto simp: jopt_def split: option.splits)

lemma as_text_Inr: "as_text v = Inr x \<longleftrightarrow> v = JStr x"
  by (cases v) auto

lemma as_int_Inr: "as_int v = Inr x \<longleftrightarrow> v = JInt x"
  by (cases v) auto

lemma set_task_col_column:
  assumes "set_task_col (k, v) t = Inr t'"
  shows "task_column c t' = (if c = k then Some v else task_column c t)"
  using assms unfolding set_task_col_Inr as_text_opt_Inr as_text_Inr as_int_Inr
  by (elim disjE conjE exE) (simp_all add: task_column_def task_columns_def)

lemma set_task_cols_column:
  assumes "foldE set_task_col kw t = Inr t'" "distinct (map fst kw)"
  shows "task_column c t' = (case map_of kw c of Some v \<Rightarrow> Some v | None \<Rightarrow> task_column c t)"
  using assms
proof (induction kw arbitrary: t)
  case (Cons kv kw)
  obtain k v where kv: "kv = (k, v)" by (cases kv)
  obtain t1 where t1: "set_task_col (k, v) t = Inr t1" "foldE set_task_col kw t1 = Inr t'"
    using Cons.prems(1) by (auto simp: kv split: sum.splits)
  have "map_of kw k = None" using Cons.prems(2) by (simp add: kv map_of_eq_None_iff)
  then show ?case
    using Cons.IH[OF t1(2)] Cons.prems(2) set_task_col_column[OF t1(1)]
    by (auto simp: kv split: option.splits)
qed simp

lemma task_column_moved:
  "task_column c (t\<lparr>t_state := q, t_updated_at := ts\<rparr>) =
    (if c = ''state'' then Some (JStr (state_name q)) else if c = ''updated_at'' then Some (JInt ts)
     else task_column c t)"
  by (simp add: task_column_def task_columns_def)

text \<open>
  C8. A successful transition is a legal edge and writes one row and one event. The task gets the
  new state, the instant of the write and the value given for each named column, and each other
  column of its row keeps its value; every other task and every other table is as before. The last
  event carries from, to, the cause and every column that was set.
\<close>

theorem transition_effect:
  assumes "transition ts tid to cause src kw d = Inr (s, d')"
  shows "\<exists>t t' e. find_task tid d = Some t \<and> find_task tid d' = Some t' \<and>
    state_name (t_state t') = to \<and> legal (t_state t) (t_state t') \<and> t_updated_at t' = ts \<and>
    (\<forall>c. task_column c t' =
      (if c = ''state'' then Some (JStr to) else if c = ''updated_at'' then Some (JInt ts)
       else case map_of kw c of Some v \<Rightarrow> Some v | None \<Rightarrow> task_column c t)) \<and>
    (\<forall>x. x \<noteq> tid \<longrightarrow> find_task x d' = find_task x d) \<and>
    d_deps d' = d_deps d \<and> d_attempts d' = d_attempts d \<and> d_leases d' = d_leases d \<and>
    d_interventions d' = d_interventions d \<and>
    d_events d' = d_events d @ [e] \<and> e_seq e = s \<and> e_type e = ''task.state_changed'' \<and>
    e_task_id e = Some tid \<and> e_source e = src \<and>
    map_of (e_payload e) ''from'' = Some (JStr (state_name (t_state t))) \<and>
    map_of (e_payload e) ''to'' = Some (JStr to) \<and>
    map_of (e_payload e) ''cause_seq'' = Some (JInt cause) \<and>
    (\<forall>c v. (c, v) \<in> set kw \<longrightarrow> c \<in> set updatable \<and> map_of (e_payload e) c = Some v)"
  using assms
proof (rule transition_Inr)
  fix t t' :: task_row and q
  let ?e = "new_event d ts src ''task.state_changed'' (Some tid)
        (transition_payload (t_state t) q cause kw) no_usage"
  assume t: "find_task tid d = Some t" "state_of_name to = Some q" "legal (t_state t) q"
    and kw: "distinct (map fst kw)" "set (map fst kw) \<subseteq> set updatable"
    and c: "foldE set_task_col kw (t\<lparr>t_state := q, t_updated_at := ts\<rparr>) = Inr t'"
    and s: "s = next_seq (d_events d)"
    and d': "d' = d\<lparr>d_tasks := set_task tid (\<lambda>_. t') (d_tasks d), d_events := d_events d @ [?e]\<rparr>"
  have t': "t_id t' = tid" "t_state t' = q" "t_updated_at t' = ts"
    using set_task_cols_keep[OF c] find_task_Some[OF t(1)] by auto
  have found: "find_task tid d' = Some t'"
    using find_map_hit[of t_id t' tid "d_tasks d"] t(1) t'(1) by (simp add: d' find_task_def set_task_def)
  have others: "x \<noteq> tid \<Longrightarrow> find_task x d' = find_task x d" for x
    using find_map_other[of tid x t_id t' "d_tasks d"] t'(1) by (simp add: d' find_task_def set_task_def)
  have cols: "(c, v) \<in> set kw \<Longrightarrow> c \<in> set updatable \<and>
      map_of (transition_payload (t_state t) q cause kw) c = Some v" for c v
    using transition_payload_col(1)[OF kw, of c] kw by (force simp: map_of_is_SomeI)
  have "map_of kw ''state'' = None" "map_of kw ''updated_at'' = None"
    using kw(2) by (auto simp: map_of_eq_None_iff updatable_def)
  then have row: "task_column c t' =
      (if c = ''state'' then Some (JStr to) else if c = ''updated_at'' then Some (JInt ts)
       else case map_of kw c of Some v \<Rightarrow> Some v | None \<Rightarrow> task_column c t)" for c
    using state_of_name_Some[OF t(2)]
    by (auto simp: set_task_cols_column[OF c kw(1)] task_column_moved split: option.split)
  show ?thesis
    by (intro exI[of _ t] exI[of _ t'] exI[of _ ?e] conjI allI impI)
       (use t t' s found others cols row state_of_name_Some[OF t(2)] in
         \<open>auto simp: d' transition_payload_col(2-4)[OF kw]\<close>)
qed

theorem transition_effect_witness:
  "\<exists>t t' e. find_task ''A'' demo1 = Some t \<and> find_task ''A'' demo2 = Some t' \<and>
    state_name (t_state t') = ''queued'' \<and> legal (t_state t) (t_state t') \<and>
    task_column ''brief'' t' = task_column ''brief'' t \<and> e_seq e = 2 \<and>
    d_events demo2 = d_events demo1 @ [e]"
proof -
  have none: "map_of [] ''brief'' = None" "''brief'' \<noteq> ''state''" "''brief'' \<noteq> ''updated_at''" by simp_all
  show ?thesis using transition_effect[OF demo2_eq] by (elim exE conjE) (simp add: none)
qed

section \<open>Leases\<close>

text \<open>
  C7. The lease table is exactly the fold of the lease events of the log, after any interleaving
  of committed writes.
\<close>

theorem replay_rebuilds_leases:
  assumes "db_trace empty_db d"
  shows "replay_leases (d_events d) = Inr (keyed l_lease_id (d_leases d))"
  unfolding replay_leases_def
  using leases.replays[OF assms wf_empty] by (simp add: empty_db_def)

theorem replay_rebuilds_leases_witness:
  "replay_leases (d_events demo5) = Inr (keyed l_lease_id (d_leases demo5)) \<and>
    map l_status (d_leases demo5) = [LRecovered]"
  using replay_rebuilds_leases[OF demo5_trace] by (intro conjI) (assumption, code_simp)

text \<open>
  C6. One holder: in a reachable database an active lease is the only active lease of its attempt,
  and it carries the greatest generation that the attempt ever had.
\<close>

theorem single_active_lease:
  assumes "db_trace empty_db d" "l \<in> set (d_leases d)" "l_status l = LActive"
    and "r \<in> set (d_leases d)" "l_attempt_id r = l_attempt_id l"
  shows "r = l \<or> l_status r \<noteq> LActive \<and> l_generation r < l_generation l"
proof -
  have inv: "lease_inv (d_leases d)" using wf_reachable[OF assms(1)] by (simp add: db_wf_def)
  show ?thesis
  proof (cases "l_lease_id r = l_lease_id l")
    case True
    then show ?thesis using lease_unique[OF inv assms(2,4)] by simp
  next
    case False
    then show ?thesis using inv assms(2-) unfolding lease_inv_def by (metis less_asym)
  qed
qed

definition demo6 :: db where
  "demo6 = the_db (acquire ''L2'' ''att'' ''w2'' (Some 300) 60 None Src_scheduler demo5)"

definition demo_lease2 :: lease_row where
  "demo_lease2 = new_lease_row ''L2'' ''att'' ''A'' 2 ''w2'' 60 (Some 360)"

definition demo_closed :: lease_row where
  "demo_closed = demo_lease\<lparr>l_status := LRecovered, l_released_at := Some 50,
    l_release_reason := Some ''gone'', l_updated_at := 50\<rparr>"

lemma demo6_eq:
  "acquire ''L2'' ''att'' ''w2'' (Some 300) 60 None Src_scheduler demo5 = Inr (demo_lease2, demo6)"
  by code_simp

lemma demo6_step: "db_step demo5 demo6" by (rule st_acquire[OF demo6_eq])

lemma demo6_trace: "db_trace empty_db demo6" by (rule trace_step[OF demo5_trace demo6_step])

lemma demo6_leases: "d_leases demo6 = [demo_closed, demo_lease2]" by code_simp
lemma demo5_leases: "d_leases demo5 = [demo_closed]" by code_simp

theorem single_active_lease_witness:
  "l_status demo_closed \<noteq> LActive \<and> l_generation demo_closed < l_generation demo_lease2"
proof -
  have "l_status demo_lease2 = LActive" "l_attempt_id demo_closed = l_attempt_id demo_lease2"
    "demo_closed \<noteq> demo_lease2"
    by code_simp+
  then show ?thesis
    using single_active_lease[OF demo6_trace, of demo_lease2 demo_closed] by (simp add: demo6_leases)
qed

text \<open>
  C4. Fencing: once a lease is released or recovered, no later trace makes it valid again. Every
  use of its identity, by any owner and at any instant, raises \<open>StaleLeaseError\<close> in \<open>validate\<close>, and
  in \<open>renew\<close> for every length of the renewal that the store accepts; no length at all makes
  \<open>renew\<close> return, so a late worker cannot become current.
\<close>

theorem closed_lease_fenced:
  assumes "db_trace empty_db d" "l \<in> set (d_leases d)" "l_status l \<noteq> LActive" "db_trace d d'"
    and "lease_identity ref lid gen owner = Inr ((l_attempt_id l, l_lease_id l, l_generation l), w)"
  shows "(\<exists>m. validate ref lid gen owner now d' = Inl (StaleLeaseError m)) \<and>
    (\<forall>ttl. case ttl of
        Some n \<Rightarrow> if 0 < n then \<exists>m. renew ref lid gen owner ttl now src d' = Inl (StaleLeaseError m)
          else \<exists>m. renew ref lid gen owner ttl now src d' = Inl (ValueError m)
      | None \<Rightarrow> \<exists>m. renew ref lid gen owner ttl now src d' = Inl (StaleLeaseError m))"
proof -
  have wf: "db_wf d" by (rule wf_reachable[OF assms(1)])
  have "l \<in> set (d_leases d')"
    using closed_kept_trace[OF assms(4) wf] assms(2,3) by (auto simp: closed_kept_def)
  then have "find_identity (l_attempt_id l, l_lease_id l, l_generation l) d' = Some l"
    by (rule find_identity_mem[OF wf_trace[OF assms(4) wf]])
  then have "row_for_identity (l_attempt_id l, l_lease_id l, l_generation l) w d' =
      (if l_owner_id l \<noteq> w then Inl (StaleLeaseError ''lease is owned by another execution'') else Inr l)"
    by (simp add: row_for_identity_def)
  then show ?thesis
    using assms(3)
    by (simp add: validate_def renew_def expiry_def assms(5) require_active_def split: option.split)
qed

theorem closed_lease_fenced_witness:
  "(\<exists>m. validate (By_lease demo_lease) None None None 61 demo6 = Inl (StaleLeaseError m)) \<and>
    (\<exists>m. renew (By_lease demo_lease) None None None (Some 300) 61 Src_scheduler demo6 = Inl (StaleLeaseError m))"
proof -
  have c: "demo_closed \<in> set (d_leases demo5)" "l_status demo_closed \<noteq> LActive"
    by (simp_all add: demo5_leases) code_simp
  have i: "lease_identity (By_lease demo_lease) None None None =
      Inr ((l_attempt_id demo_closed, l_lease_id demo_closed, l_generation demo_closed), ''w'')"
    by code_simp
  show ?thesis
    using closed_lease_fenced[OF demo5_trace c r_into_rtranclp[where r = db_step, OF demo6_step] i,
        of 61 Src_scheduler]
    by (auto dest!: spec[of _ "Some 300"])
qed

text \<open>
  C5. Acquisition: a live lease is never stolen (the attempt is busy and nothing is written), and
  otherwise the new lease is active, is newer than every earlier lease of the attempt, and
  validates exactly until its expiry. An expired holder is recovered before it.
\<close>

theorem acquire_effect_on_attempt:
  assumes "db_trace empty_db d"
  shows "case acquire fresh aid owner ttl now given src d of
      Inl e \<Rightarrow> (\<forall>cur. active_lease aid d = Some cur \<and> \<not> expired now cur \<and> aid \<noteq> [] \<and> \<not> blank owner \<and>
        (\<forall>t. ttl = Some t \<longrightarrow> 0 < t) \<and> find_attempt aid d \<noteq> None \<longrightarrow> (\<exists>m. e = LeaseBusyError m))
    | Inr (l, d') \<Rightarrow>
        (\<forall>cur. active_lease aid d = Some cur \<longrightarrow> expired now cur) \<and>
        l_attempt_id l = aid \<and> active_lease aid d' = Some l \<and>
        (\<forall>r \<in> set (d_leases d). l_attempt_id r = aid \<longrightarrow> l_generation r < l_generation l) \<and>
        (\<forall>t. validate (By_lease l) None None None t d' = Inr l \<longleftrightarrow> \<not> expired t l)"
proof (cases "acquire fresh aid owner ttl now given src d")
  case (Inl e)
  then show ?thesis
    by (auto simp: acquire_def require_owner_def expiry_def clear_expired_def bindE_def
        split: option.splits if_splits)
next
  case (Inr p)
  obtain l d' where p: "p = (l, d')" by (cases p)
  have acq: "acquire fresh aid owner ttl now given src d = Inr (l, d')" using Inr p by simp
  have wf: "db_wf d" by (rule wf_reachable[OF assms])
  have wf': "db_wf d'" by (rule wf_step[OF wf st_acquire[OF acq]])
  from acq obtain a :: attempt_row and exp d1 e where
    clr: "clear_expired aid now d = Inr d1" and
    l: "l = new_lease_row (chosen_id given fresh) aid (a_task_id a) (next_generation aid d1) owner now exp" and
    d': "d' = d1\<lparr>d_leases := d_leases d1 @ [l], d_events := d_events d1 @ [e]\<rparr>"
    by (rule acquire_Inr) (rule that, assumption+)
  have flds: "l_attempt_id l = aid" "l_status l = LActive" "l_generation l = next_generation aid d1"
    by (simp_all add: l new_lease_row_def)
  have mem: "l \<in> set (d_leases d')" by (simp add: d')
  have "lease_effect d d1"
    using clear_expired_effect[OF _ clr] wf by (simp add: db_wf_def)
  then have older: "l_generation r < l_generation l" if "r \<in> set (d_leases d)" "l_attempt_id r = aid" for r
    using that next_generation_gt(1)[of _ d1 aid] flds(3)
    unfolding lease_effect_def identity_kept_def same_lease_def by metis
  have "\<exists>r. active_lease aid d' = Some r"
    using mem flds by (auto simp: active_lease_def find_None_iff intro: ccontr)
  then have act: "active_lease aid d' = Some l"
    using active_lease_Some single_active_lease[OF trace_step[OF assms st_acquire[OF acq]] mem flds(2)] flds(1)
    by metis
  have exp: "active_lease aid d = Some cur \<Longrightarrow> expired now cur" for cur
    using clr by (auto simp: clear_expired_def split: if_splits)
  have "validate (By_lease l) None None None t d' = Inr l \<longleftrightarrow> \<not> expired t l" for t
    using find_identity_mem[OF wf' mem] flds(2)
    by (simp add: validate_def lease_identity_def identity3_def row_for_identity_def require_active_def)
  then show ?thesis using Inr p flds act older exp by simp
qed

lemma demo6_busy:
  "acquire ''L3'' ''att'' ''w3'' None 61 None Src_scheduler demo6 =
    Inl (LeaseBusyError ''attempt already has active lease'')"
  by code_simp

theorem acquire_effect_on_attempt_witness:
  "\<exists>m. acquire ''L3'' ''att'' ''w3'' None 61 None Src_scheduler demo6 = Inl (LeaseBusyError m)"
proof -
  have "acquire ''L3'' ''att'' ''w3'' None 61 None Src_scheduler demo6 \<noteq> Inr x" for x
    by (cases x) (simp add: demo6_busy)
  moreover have "active_lease ''att'' demo6 = Some demo_lease2" "\<not> expired 61 demo_lease2"
    "find_attempt ''att'' demo6 \<noteq> None" "\<not> blank ''w3''"
    by code_simp+
  ultimately show ?thesis
    using acquire_effect_on_attempt[OF demo6_trace, where fresh = "''L3''" and aid = "''att''"
        and owner = "''w3''" and ttl = None and now = 61 and given = None and src = Src_scheduler]
    by (auto split: sum.splits)
qed

text \<open>
  Release is idempotent: repeating a release that succeeded returns the same row, at any later
  instant and with any reason, and writes nothing.
\<close>

theorem release_idempotent:
  assumes "db_trace empty_db d" "release ref lid gen owner reason now src d = Inr (l, d')"
    and "\<not> blank reason'"
  shows "release ref lid gen owner reason' now' src' d' = Inr (l, d') \<and> l_status l \<noteq> LActive"
proof -
  have wf: "db_wf d" by (rule wf_reachable[OF assms(1)])
  have wf': "db_wf d'" by (rule wf_step[OF wf st_release[OF assms(2)]])
  obtain aid i g w r where *: "lease_identity ref lid gen owner = Inr ((aid, i, g), w)"
    "find_identity (aid, i, g) d = Some r" "l_owner_id r = w"
    "l_status r \<noteq> LActive \<and> l = r \<and> d' = d \<or> l_status r = LActive \<and>
      d' = close_lease r LReleased reason now src d \<and> find_lease (l_lease_id r) d' = Some l"
    using assms(2) unfolding release_def
    by (auto simp: bindE_Inr_iff row_for_identity_Inr fetch_lease_Inr split: if_splits)
  have r: "r \<in> set (d_leases d)" "l_lease_id r = i" "l_attempt_id r = aid" "l_generation r = g"
    using find_identity_Some[OF *(2)] by auto
  have "l \<in> set (d_leases d') \<and> l_lease_id l = i \<and> l_attempt_id l = aid \<and> l_generation l = g \<and>
      l_owner_id l = w \<and> l_status l \<noteq> LActive"
    using *(4)
  proof (elim disjE conjE)
    assume "l_status r \<noteq> LActive" "l = r" "d' = d"
    then show ?thesis using r *(3) by simp
  next
    assume c: "l_status r = LActive" "d' = close_lease r LReleased reason now src d"
      "find_lease (l_lease_id r) d' = Some l"
    obtain q where q: "q \<in> set (d_leases d)" "l_lease_id q = l_lease_id r"
      "l = q\<lparr>l_status := LReleased, l_released_at := Some now, l_release_reason := Some reason,
        l_updated_at := now\<rparr>"
      using c(2) find_lease_Some[OF c(3)] close_lease_eq[of r LReleased reason now src d]
      by (auto simp: set_lease_def split: if_splits)
    have "q = r" using lease_unique[OF _ r(1) q(1,2)] wf by (simp add: db_wf_def)
    then show ?thesis using q r *(3) find_lease_Some[OF c(3)] by simp
  qed
  then show ?thesis
    using find_identity_mem[OF wf', of l] assms(3)
    by (auto simp: release_def *(1) row_for_identity_def)
qed

definition demo7 :: db where
  "demo7 = the_db (release (By_lease demo_lease2) None None None ''done'' 70 Src_worker demo6)"

lemma demo7_eq: "release (By_lease demo_lease2) None None None ''done'' 70 Src_worker demo6 =
    Inr (demo_lease2\<lparr>l_status := LReleased, l_released_at := Some 70, l_release_reason := Some ''done'',
      l_updated_at := 70\<rparr>, demo7)"
  by code_simp

theorem release_idempotent_witness:
  "\<exists>l. release (By_lease demo_lease2) None None None ''again'' 9999 Src_worker demo7 = Inr (l, demo7)"
proof -
  have "\<not> blank ''again''" by code_simp
  then show ?thesis using release_idempotent[OF demo6_trace demo7_eq] by blast
qed

end
