(* ===== verification/Supervision.thy ===== *)
theory Supervision
  imports Schema
begin

text \<open>
  The supervisor package: the closed action vocabulary (\<open>supervisor/schema.py\<close>), the menu
  (\<open>actions.py\<close>), the triage packet (\<open>packet.py\<close>), and the single-shot call with one retry and the
  fallback to escalation (\<open>llm.py\<close>). The validation of a response by its pydantic model is the
  parameter \<open>mv\<close>; the model call is the parameter \<open>shot\<close>.
\<close>

section \<open>Actions\<close>

datatype action =
    Act_nudge string string string
  | Act_restart "string option" string "string option" string
  | Act_wait int string string
  | Act_escalate string string "string list" "int option" string string
  | Act_abandon string string

fun action_name :: "action \<Rightarrow> string" where
  "action_name (Act_nudge m r g) = ''nudge''"
| "action_name (Act_restart f r w g) = ''restart''"
| "action_name (Act_wait s r g) = ''wait''"
| "action_name (Act_escalate s q os rc r g) = ''escalate''"
| "action_name (Act_abandon r g) = ''abandon''"

fun action_reason :: "action \<Rightarrow> string" where
  "action_reason (Act_nudge m r g) = r"
| "action_reason (Act_restart f r w g) = r"
| "action_reason (Act_wait s r g) = r"
| "action_reason (Act_escalate s q os rc r g) = r"
| "action_reason (Act_abandon r g) = r"

fun action_diagnosis :: "action \<Rightarrow> string" where
  "action_diagnosis (Act_nudge m r g) = g"
| "action_diagnosis (Act_restart f r w g) = g"
| "action_diagnosis (Act_wait s r g) = g"
| "action_diagnosis (Act_escalate s q os rc r g) = g"
| "action_diagnosis (Act_abandon r g) = g"

text \<open>The declared field constraints.\<close>

fun action_valid :: "action \<Rightarrow> bool" where
  "action_valid (Act_nudge m r g) = (length m \<le> 2000)"
| "action_valid (Act_restart f r w g) = (case w of None \<Rightarrow> True | Some i \<Rightarrow> length i \<le> 2000)"
| "action_valid (Act_wait s r g) = (1 \<le> s \<and> s \<le> 1800)"
| "action_valid (Act_escalate s q os rc r g) = True"
| "action_valid (Act_abandon r g) = True"

definition canonical_action_types :: "(string \<times> string) list" where
  "canonical_action_types = [(''restart'', ''RETRY''), (''wait'', ''WAIT''),
    (''escalate'', ''ESCALATE_HUMAN''), (''abandon'', ''TERMINATE''), (''nudge'', ''NUDGE'')]"

definition to_upper :: "char \<Rightarrow> char" where
  "to_upper c = (if 97 \<le> (of_char c :: nat) \<and> (of_char c :: nat) \<le> 122
    then char_of (of_char c - 32 :: nat) else c)"

definition canonical_action_type :: "string \<Rightarrow> string" where
  "canonical_action_type a =
    (case map_of canonical_action_types a of Some c \<Rightarrow> c | None \<Rightarrow> map to_upper a)"

section \<open>The menu\<close>

definition compute_allowed_actions :: "string \<Rightarrow> int \<Rightarrow> int \<Rightarrow> bool \<Rightarrow> bool \<Rightarrow> string list" where
  "compute_allowed_actions trigger nudges retries yolo live =
    (if retries \<le> 0 then (if yolo then [''escalate'', ''abandon''] else [''escalate''])
     else [''restart'', ''escalate'']
       @ (if live then
            (if trigger = ''worker.stalled'' then [''wait'']
             else if trigger = ''worker.asked'' \<and> 0 < nudges then [''nudge''] else [])
          else [])
       @ (if yolo then [''abandon''] else []))"

section \<open>The packet\<close>

record history_row =
  h_seq :: int
  h_type :: string
  h_source :: source
  h_summary :: string

record packet =
  p_task_id :: string
  p_brief :: string
  p_repo :: string
  p_delivery_mode :: string
  p_verify_cmd :: "string option"
  p_trigger :: event_row
  p_verify_output :: "string option"
  p_event_history :: "history_row list"
  p_transcript_tail :: string
  p_allowed_actions :: "string list"
  p_nudges_remaining :: int
  p_retries_remaining :: int
  p_yolo :: bool

definition count_tool :: "json \<Rightarrow> (json, int) dict \<Rightarrow> (json, int) dict" where
  "count_tool t m = AList.update t ((case map_of m t of None \<Rightarrow> 0 | Some n \<Rightarrow> n) + 1) m"

text \<open>The names are the keys of a dictionary, so each must be hashable.\<close>

definition tool_counts :: "event_row list \<Rightarrow> exc + (json, int) dict" where
  "tool_counts run = bindE (hash_all (map (\<lambda>e. jget_default ''tool'' (JStr ''?'') (e_payload e)) run)) (\<lambda>names.
    Inr (fold count_tool names []))"

definition run_summary :: "event_row list \<Rightarrow> exc + string" where
  "run_summary run = bindE (tool_counts run) (\<lambda>counts.
    Inr (int_text (int (length run)) @ '' tool calls: '' @
      join '', '' (map (\<lambda>(name, n). int_text n @ '' '' @ py_str name) (sort_key (\<lambda>(name, n). - n) counts))))"

definition flush_run :: "event_row list \<Rightarrow> exc + history_row list" where
  "flush_run run = (if run = [] then Inr []
    else bindE (run_summary run) (\<lambda>s.
      Inr [\<lparr>h_seq = e_seq (last run), h_type = ''worker.tool_used'', h_source = Src_worker, h_summary = s\<rparr>]))"

text \<open>A text field that is absent, null or empty reads as the empty string.\<close>

definition text_or_empty :: "json \<Rightarrow> exc + string" where
  "text_or_empty v = (if truthy v then as_text v else Inr [])"

definition event_summary :: "event_row \<Rightarrow> exc + string" where
  "event_summary e = (let p = e_payload e in
    if e_type e = ''worker.messaged'' then map_sum id (take 200) (text_or_empty (jget ''text'' p))
    else if e_type e = ''worker.asked''
      then Inr (''asked: '' @ py_str (jget_default ''question'' (JStr []) p))
    else if e_type e = ''supervisor.acted''
      then Inr (''supervisor '' @ py_str (jget ''action'' p) @ '': '' @ py_str (jget_default ''reason'' (JStr []) p))
    else if e_type e = ''task.state_changed''
      then Inr (py_str (jget ''from'' p) @ '' -> '' @ py_str (jget ''to'' p))
    else Inr (take 200 (json_dumps (JObj p))))"

text \<open>\<open>run\<close> holds the pending tool events, oldest first.\<close>

fun compact_from :: "event_row list \<Rightarrow> event_row list \<Rightarrow> exc + history_row list" where
  "compact_from run [] = flush_run run"
| "compact_from run (e # es) =
    (if e_type e = ''worker.tool_used'' then compact_from (run @ [e]) es
     else bindE (flush_run run) (\<lambda>f. bindE (event_summary e) (\<lambda>s. bindE (compact_from [] es) (\<lambda>hs.
       Inr (f @ \<lparr>h_seq = e_seq e, h_type = e_type e, h_source = e_source e, h_summary = s\<rparr> # hs)))))"

definition compact_history :: "event_row list \<Rightarrow> exc + history_row list" where
  "compact_history es = compact_from [] es"

text \<open>\<open>s[-n:]\<close>: the last \<open>n\<close> characters, and the whole text when \<open>n\<close> is zero.\<close>

definition transcript_tail :: "event_row list \<Rightarrow> int \<Rightarrow> exc + string" where
  "transcript_tail es budget =
    bindE (mapE (\<lambda>e. text_or_empty (json_or (jget ''text'' (e_payload e)) (jget ''question'' (e_payload e))))
      (filter (\<lambda>e. e_type e \<in> {''worker.messaged'', ''worker.asked''}) es)) (\<lambda>ts.
    Inr (py_from (- budget) (join [CHR 0x0A] (filter (\<lambda>t. t \<noteq> []) ts))))"

definition find_event :: "int \<Rightarrow> db \<Rightarrow> event_row option" where
  "find_event s d = find (\<lambda>e. e_seq e = s) (d_events d)"

definition task_events :: "string \<Rightarrow> db \<Rightarrow> event_row list" where
  "task_events tid d = filter (\<lambda>e. e_task_id e = Some tid) (d_events d)"

definition nudges_used :: "event_row list \<Rightarrow> int" where
  "nudges_used es = int (length (filter (\<lambda>e. e_type e = ''supervisor.acted'' \<and>
    jget ''action'' (e_payload e) = JStr ''nudge'') es))"

definition build_packet ::
    "string \<Rightarrow> int \<Rightarrow> bool \<Rightarrow> bool \<Rightarrow> int \<Rightarrow> int \<Rightarrow> db \<Rightarrow> exc + packet" where
  "build_packet tid cause yolo live max_nudges tail_tokens d =
    (case find_task tid d of
       None \<Rightarrow> Inl (TypeError ''NoneType object is not iterable'')
     | Some t \<Rightarrow>
        (case find_event cause d of
           None \<Rightarrow> Inl (TypeError ''NoneType object is not iterable'')
         | Some trig \<Rightarrow>
            bindE (if e_type trig = ''verify.failed''
                then as_text_opt (jget ''output_tail'' (e_payload trig)) else Inr None) (\<lambda>vout.
            let rows = task_events tid d in
            bindE (compact_history rows) (\<lambda>hist.
            bindE (transcript_tail rows (tail_tokens * 4)) (\<lambda>tl.
            let nudges = max 0 (max_nudges - nudges_used rows);
                retries = max 0 (t_max_retries t - t_retries t)
            in Inr \<lparr>
              p_task_id = tid, p_brief = t_brief t, p_repo = t_repo t,
              p_delivery_mode = t_delivery_mode t, p_verify_cmd = t_verify_cmd t,
              p_trigger = trig, p_verify_output = vout, p_event_history = hist,
              p_transcript_tail = tl,
              p_allowed_actions = compute_allowed_actions (e_type trig) nudges retries yolo live,
              p_nudges_remaining = nudges, p_retries_remaining = retries, p_yolo = yolo\<rparr>)))))"

section \<open>The call\<close>

record sresult =
  r_action :: action
  r_ok :: bool
  r_tokens_in :: "int option"
  r_tokens_out :: "int option"
  r_cost_usd :: "string option"
  r_raw_text :: "string option"

definition backtick :: char where
  "backtick = CHR 0x60"

text \<open>The text between the first brace and the last one, without a Markdown fence.\<close>

definition response_text :: "string \<Rightarrow> string" where
  "response_text text =
    (let t = strip text;
         t1 = (if starts_with [backtick, backtick, backtick] t
               then (let u = strip_char backtick t in if starts_with ''json'' u then drop 4 u else u)
               else t)
     in py_slice (find_char (CHR 0x7B) t1) (rfind_char (CHR 0x7D) t1 + 1) t1)"

definition menu_error :: "json \<Rightarrow> string list \<Rightarrow> exc" where
  "menu_error v allowed = ValueError (''action '' @ py_repr v @ '' not in allowed_actions '' @
    py_repr (JList (map JStr allowed)))"

definition parse_response ::
    "(string \<Rightarrow> payload \<Rightarrow> exc + action) \<Rightarrow> string \<Rightarrow> string list \<Rightarrow> exc + action" where
  "parse_response mv text allowed =
    (case json_loads (response_text text) of
       None \<Rightarrow> Inl (ValueError ''invalid JSON'')
     | Some (JObj p) \<Rightarrow>
        (case jget ''action'' p of
           JStr name \<Rightarrow> if name \<in> set allowed then mv name p
             else Inl (menu_error (JStr name) allowed)
         | v \<Rightarrow> Inl (menu_error v allowed))
     | Some _ \<Rightarrow> Inl (TypeError ''object has no attribute get''))"

text \<open>One completed call: its text and usage, a timeout, or a transport failure.\<close>

datatype shot =
    Shot_text string "int option" "int option" "string option"
  | Shot_timeout string
  | Shot_error exc

text \<open>\<open>str\<close> of an exception. A group prints its title and the number of its members.\<close>

fun exc_text :: "exc \<Rightarrow> string" where
  "exc_text (ValueError s) = s"
| "exc_text (KeyError s) = repr_str s"
| "exc_text (TypeError s) = s"
| "exc_text (IntegrityError s) = s"
| "exc_text (RuntimeError s) = s"
| "exc_text (LeaseBusyError s) = s"
| "exc_text (LeaseNotFoundError s) = s"
| "exc_text (StaleLeaseError s) = s"
| "exc_text (DeliveryError s) = s"
| "exc_text (SupervisorError s) = s"
| "exc_text (WorkerIsolationError s) = s"
| "exc_text (OSError s) = s"
| "exc_text (AttributeError s) = s"
| "exc_text (CliRecordError s c) = s"
| "exc_text (WorkerStartupFailure t c r) = ''worker startup failed for '' @ t @ '': '' @ c @ '': '' @ r"
| "exc_text (CleanupFailure l e) = l @ '': '' @ exc_text e"
| "exc_text (CleanupGroup t es) = t @ '' ('' @ int_text (int (length es)) @
    (if length es = 1 then '' sub-exception)'' else '' sub-exceptions)'')"
| "exc_text (PreflightError n r m) = m"

definition fallback_escalate :: "packet \<Rightarrow> string \<Rightarrow> string option \<Rightarrow> sresult" where
  "fallback_escalate p err raw = \<lparr>
    r_action = Act_escalate ''supervisor failed to produce a valid action''
      (''Task hit '' @ e_type (p_trigger p) @
        '' and the supervisor's response was invalid twice: '' @ err)
      [''review manually'', ''abandon task''] None err ''human_review'',
    r_ok = False, r_tokens_in = None, r_tokens_out = None, r_cost_usd = None, r_raw_text = raw\<rparr>"

text \<open>
  The loop of \<open>invoke_supervisor\<close>: two calls at most. \<open>shot i\<close> is the outcome of call \<open>i\<close> and
  \<open>text\<close> the text of the last call that produced one.
\<close>

definition shot_text :: "shot \<Rightarrow> string option \<Rightarrow> string option" where
  "shot_text s old = (case s of Shot_text t ti to c \<Rightarrow> Some t | _ \<Rightarrow> old)"

definition judge_shot ::
    "(string \<Rightarrow> payload \<Rightarrow> exc + action) \<Rightarrow> packet \<Rightarrow> shot \<Rightarrow> string + sresult" where
  "judge_shot mv p s = (case s of
      Shot_timeout err \<Rightarrow> Inl err
    | Shot_error e \<Rightarrow> Inl (exc_text e)
    | Shot_text t ti to c \<Rightarrow>
        (case parse_response mv t (p_allowed_actions p) of
           Inl e \<Rightarrow> Inl (exc_text e)
         | Inr a \<Rightarrow> Inr \<lparr>r_action = a, r_ok = True, r_tokens_in = ti, r_tokens_out = to,
             r_cost_usd = c, r_raw_text = Some t\<rparr>))"

definition invoke_supervisor ::
    "(string \<Rightarrow> payload \<Rightarrow> exc + action) \<Rightarrow> (nat \<Rightarrow> shot) \<Rightarrow> packet \<Rightarrow> sresult" where
  "invoke_supervisor mv shot p =
    (case judge_shot mv p (shot 0) of
       Inr r \<Rightarrow> r
     | Inl _ \<Rightarrow>
        (case judge_shot mv p (shot 1) of
           Inr r \<Rightarrow> r
         | Inl err \<Rightarrow> fallback_escalate p err (shot_text (shot 1) (shot_text (shot 0) None))))"

text \<open>The supervisor that needs no model.\<close>

definition always_escalate :: "packet \<Rightarrow> sresult" where
  "always_escalate p = \<lparr>
    r_action = Act_escalate (''no supervisor configured; '' @ e_type (p_trigger p) @ '' needs a human'')
      ''how should this task proceed?'' [''review manually''] (Some 0)
      ''default (no-LLM) supervisor'' ''human_review'',
    r_ok = True, r_tokens_in = None, r_tokens_out = None, r_cost_usd = None, r_raw_text = None\<rparr>"

section \<open>Laws\<close>

text \<open>
  C13. The menu: escalation is always offered, abandoning only in unattended mode, a restart only
  while retries remain, and waiting or nudging only for a live session that is stalled or asked
  (a nudge also needs remaining nudges); no action is offered twice.
\<close>

theorem menu_exact:
  "set (compute_allowed_actions trigger nudges retries yolo live) =
    {''escalate''} \<union> (if yolo then {''abandon''} else {}) \<union>
    (if 0 < retries then {''restart''} else {}) \<union>
    (if 0 < retries \<and> live \<and> trigger = ''worker.stalled'' then {''wait''} else {}) \<union>
    (if 0 < retries \<and> live \<and> trigger = ''worker.asked'' \<and> 0 < nudges then {''nudge''} else {}) \<and>
    distinct (compute_allowed_actions trigger nudges retries yolo live)"
  by (auto simp: compute_allowed_actions_def)

lemma escalate_in_menu: "''escalate'' \<in> set (compute_allowed_actions trigger nudges retries yolo live)"
  by (simp add: compute_allowed_actions_def)

lemma build_packet_allowed:
  "build_packet tid cause yolo live mn tt d = Inr p \<Longrightarrow>
    \<exists>t trig. find_task tid d = Some t \<and> find_event cause d = Some trig \<and> p_trigger p = trig \<and>
      p_task_id p = tid \<and> p_yolo p = yolo \<and>
      p_nudges_remaining p = max 0 (mn - nudges_used (task_events tid d)) \<and>
      p_retries_remaining p = max 0 (t_max_retries t - t_retries t) \<and>
      p_allowed_actions p = compute_allowed_actions (e_type trig) (p_nudges_remaining p)
        (p_retries_remaining p) yolo live"
  by (auto simp: build_packet_def Let_def bindE_Inr_iff split: option.splits)

text \<open>What a pydantic model promises: its own action, within the declared constraints.\<close>

definition model_law :: "(string \<Rightarrow> payload \<Rightarrow> exc + action) \<Rightarrow> bool" where
  "model_law mv \<longleftrightarrow> (\<forall>name p a. mv name p = Inr a \<longrightarrow> action_name a = name \<and> action_valid a)"

lemma parse_response_menu:
  assumes "model_law mv" "parse_response mv text allowed = Inr a"
  shows "action_name a \<in> set allowed \<and> action_valid a"
  using assms by (auto simp: parse_response_def model_law_def split: option.splits json.splits if_splits)

lemma judge_shot_menu:
  assumes "model_law mv" "judge_shot mv p s = Inr r"
  shows "action_name (r_action r) \<in> set (p_allowed_actions p) \<and> action_valid (r_action r) \<and> r_ok r"
  using assms parse_response_menu[OF assms(1)]
  by (auto simp: judge_shot_def split: shot.splits sum.splits)

lemma fallback_simps [simp]:
  "action_name (r_action (fallback_escalate p e raw)) = ''escalate''"
  "action_valid (r_action (fallback_escalate p e raw))" "\<not> r_ok (fallback_escalate p e raw)"
  by (simp_all add: fallback_escalate_def)

text \<open>
  C14. The supervisor degrades to the human: whatever the model answers, in at most two calls, the
  call returns an action that satisfies its schema and was on the menu of the packet; with no
  retries left outside unattended mode it is an escalation.
\<close>

theorem supervisor_stays_on_menu:
  assumes "model_law mv" "build_packet tid cause yolo live mn tt d = Inr p"
  shows "action_name (r_action (invoke_supervisor mv shot p)) \<in> set (p_allowed_actions p) \<and>
    action_valid (r_action (invoke_supervisor mv shot p)) \<and>
    (p_retries_remaining p = 0 \<and> \<not> yolo \<longrightarrow>
      action_name (r_action (invoke_supervisor mv shot p)) = ''escalate'')"
proof -
  obtain trig :: event_row where al: "p_allowed_actions p =
      compute_allowed_actions (e_type trig) (p_nudges_remaining p) (p_retries_remaining p) yolo live"
    using build_packet_allowed[OF assms(2)] by blast
  have "''escalate'' \<in> set (p_allowed_actions p)"
    unfolding al by (rule escalate_in_menu)
  then have "action_name (r_action (invoke_supervisor mv shot p)) \<in> set (p_allowed_actions p) \<and>
      action_valid (r_action (invoke_supervisor mv shot p))"
    using judge_shot_menu[OF assms(1)] by (auto simp: invoke_supervisor_def split: sum.splits)
  then show ?thesis
    by (auto simp: al compute_allowed_actions_def)
qed

text \<open>A validation that accepts the abandon model with text fields, and nothing else.\<close>

definition demo_model :: "string \<Rightarrow> payload \<Rightarrow> exc + action" where
  "demo_model name p =
    (if name = ''abandon'' then bindE (as_text (jget ''reason'' p)) (\<lambda>r. Inr (Act_abandon r ''terminal_failure''))
     else Inl (ValueError ''unsupported model''))"

definition demo_task :: task_row where
  "demo_task = \<lparr>t_id = ''A'', t_title = ''t'', t_brief = ''b'', t_repo = ''r'', t_delivery_mode = ''local'',
    t_verify_cmd = None, t_output_artifacts = None, t_output_schema = None, t_input_contract = None,
    t_node_verify_cmd = None, t_repair_policy = None, t_state = Triage, t_retries = 2, t_max_retries = 2,
    t_worktree = None, t_session_id = None, t_base_sha = None, t_run_id = None,
    t_current_attempt_id = None, t_candidate_sha = None, t_candidate_branch = None,
    t_created_at = 1, t_updated_at = 1\<rparr>"

definition demo_event :: event_row where
  "demo_event = \<lparr>e_seq = 1, e_ts = 1, e_task_id = Some ''A'', e_source = Src_worker,
    e_type = ''worker.asked'', e_payload = [(''question'', JStr ''which?'')], e_session_id = None,
    e_tokens_in = None, e_tokens_out = None, e_cost_usd = None\<rparr>"

definition demo_triage_db :: db where
  "demo_triage_db = empty_db\<lparr>d_tasks := [demo_task], d_events := [demo_event]\<rparr>"

lemma demo_model_law: "model_law demo_model"
  by (auto simp: model_law_def demo_model_def bindE_Inr_iff split: if_splits)

theorem supervisor_stays_on_menu_witness:
  "\<exists>p. build_packet ''A'' 1 False True 2 100 demo_triage_db = Inr p \<and>
    action_name (r_action (invoke_supervisor demo_model
      (\<lambda>i. Shot_text ''{ not json }'' None None None) p)) = ''escalate''"
proof -
  have ok: "map_sum id p_retries_remaining (build_packet ''A'' 1 False True 2 100 demo_triage_db) = Inr 0"
    by code_simp
  then obtain p where p: "build_packet ''A'' 1 False True 2 100 demo_triage_db = Inr p" "p_retries_remaining p = 0"
    by (auto simp: map_sum_Inr_iff)
  show ?thesis
    using supervisor_stays_on_menu[OF demo_model_law p(1)] p by blast
qed

definition tool_free :: "history_row list \<Rightarrow> int list" where
  "tool_free hs = map h_seq (filter (\<lambda>h. h_type h \<noteq> ''worker.tool_used'') hs)"

fun no_adjacent :: "('a \<Rightarrow> bool) \<Rightarrow> 'a list \<Rightarrow> bool" where
  "no_adjacent P (x # y # zs) = (\<not> (P x \<and> P y) \<and> no_adjacent P (y # zs))"
| "no_adjacent P _ = True"

lemma flush_run_cases: "flush_run run = Inr f \<Longrightarrow> f = [] \<and> run = [] \<or>
    (\<exists>h. f = [h] \<and> h_type h = ''worker.tool_used'' \<and> run \<noteq> [])"
  by (auto simp: flush_run_def bindE_Inr_iff split: if_splits)

lemma compact_from_Inr:
  "compact_from run es = Inr hs \<Longrightarrow>
    tool_free hs = map e_seq (filter (\<lambda>e. e_type e \<noteq> ''worker.tool_used'') es) \<and>
    no_adjacent (\<lambda>h. h_type h = ''worker.tool_used'') hs \<and> length hs \<le> length run + length es"
proof (induction run es arbitrary: hs rule: compact_from.induct)
  case (1 run)
  then show ?case using flush_run_cases[of run hs] by (auto simp: tool_free_def Suc_le_eq)
next
  case (2 run e es)
  show ?case
  proof (cases "e_type e = ''worker.tool_used''")
    case True
    then show ?thesis using 2 by simp
  next
    case False
    then obtain f s hs' where f: "flush_run run = Inr f" and s: "event_summary e = Inr s"
      and hs': "compact_from [] es = Inr hs'"
      and hs: "hs = f @ \<lparr>h_seq = e_seq e, h_type = e_type e, h_source = e_source e, h_summary = s\<rparr> # hs'"
      using 2(3) by (auto simp: bindE_Inr_iff)
    have IH: "tool_free hs' = map e_seq (filter (\<lambda>e. e_type e \<noteq> ''worker.tool_used'') es)"
      "no_adjacent (\<lambda>h. h_type h = ''worker.tool_used'') hs'" "length hs' \<le> length es"
      using 2(2)[OF False hs'] by simp_all
    have adj: "no_adjacent P (x # zs)" if "\<not> P x" "no_adjacent P zs" for P :: "history_row \<Rightarrow> bool" and x zs
      using that by (cases zs) auto
    have len: "length f \<le> length run"
      using flush_run_cases[OF f] by (cases run) auto
    have "length hs \<le> length run + length (e # es)"
      using IH(3) len by (simp add: hs)
    then show ?thesis
      using flush_run_cases[OF f] IH(1,2) False adj unfolding hs
      by (auto simp: tool_free_def)
  qed
qed

text \<open>
  Compaction keeps the history: every event that is not a tool call stays, in order, with its
  sequence number; two counted rows are never adjacent; and the history never grows.
\<close>

theorem compaction_keeps_history:
  assumes "compact_history es = Inr hs"
  shows "tool_free hs = map e_seq (filter (\<lambda>e. e_type e \<noteq> ''worker.tool_used'') es) \<and>
    no_adjacent (\<lambda>h. h_type h = ''worker.tool_used'') hs \<and> length hs \<le> length es"
  using compact_from_Inr[of "[]" es hs] assms by (simp add: compact_history_def)

theorem compaction_keeps_history_witness:
  "\<exists>hs. compact_history [demo_event\<lparr>e_type := ''worker.tool_used''\<rparr>,
      demo_event\<lparr>e_type := ''worker.tool_used'', e_seq := 2\<rparr>, demo_event\<lparr>e_seq := 3\<rparr>] = Inr hs \<and>
    tool_free hs = [3] \<and> length hs \<le> 3"
proof -
  let ?es = "[demo_event\<lparr>e_type := ''worker.tool_used''\<rparr>,
      demo_event\<lparr>e_type := ''worker.tool_used'', e_seq := 2\<rparr>, demo_event\<lparr>e_seq := 3\<rparr>]"
  have "map_sum id length (compact_history ?es) = Inr 2" by code_simp
  then obtain hs where hs: "compact_history ?es = Inr hs" by (auto simp: map_sum_Inr_iff)
  have "map e_seq (filter (\<lambda>e. e_type e \<noteq> ''worker.tool_used'') ?es) = [3]" by code_simp
  then show ?thesis using compaction_keeps_history[OF hs] hs by simp
qed

end
