(* ===== verification/World.thy ===== *)
theory World
  imports Ledger
begin

text \<open>
  The world a handler runs in: the database, and counters into the answers of the clock, of the
  identifier generator and of the services outside the repository. The answers are arbitrary
  functions of the number of the call, so a theorem holds for every behaviour of them. The store
  operations are lifted to this world; each keeps the relation of traces of the ledger, so every
  handler built from them moves the database along a trace.
\<close>

record world =
  w_db :: db
  w_clock :: "nat \<Rightarrow> int"
  w_ids :: "nat \<Rightarrow> string"
  w_calls :: nat

type_synonym ('z, 'a) handler = "('z world_scheme, 'a) io"

section \<open>Primitive statements\<close>

text \<open>One answer of the outside: the clock, a fresh identifier, or a service \<open>f\<close>.\<close>

definition call_io :: "(nat \<Rightarrow> 'a) \<Rightarrow> ('z, 'a) handler" where
  [io_defs]: "call_io f w = (Inr (f (w_calls w)), w\<lparr>w_calls := Suc (w_calls w)\<rparr>)"

definition now_io :: "('z, int) handler" where
  [io_defs]: "now_io w = call_io (w_clock w) w"

definition fresh_io :: "('z, string) handler" where
  [io_defs]: "fresh_io w = call_io (w_ids w) w"

text \<open>A service that may raise.\<close>

definition try_call_io :: "(nat \<Rightarrow> exc + 'a) \<Rightarrow> ('z, 'a) handler" where
  [io_defs]: "try_call_io f w =
    (case call_io f w of (Inl e, w') \<Rightarrow> (Inl e, w') | (Inr r, w') \<Rightarrow> (r, w'))"

definition read_db :: "(db \<Rightarrow> 'a) \<Rightarrow> ('z, 'a) handler" where
  [io_defs]: "read_db f = gets_io (\<lambda>w. f (w_db w))"

text \<open>A write of the store: it commits, or raises and leaves the database as it was.\<close>

definition commit_io :: "(db \<Rightarrow> exc + 'a \<times> db) \<Rightarrow> ('z, 'a) handler" where
  [io_defs]: "commit_io f w = (case f (w_db w) of
      Inl e \<Rightarrow> (Inl e, w)
    | Inr (x, d) \<Rightarrow> (Inr x, w\<lparr>w_db := d\<rparr>))"

definition lift_exc :: "exc + 'a \<Rightarrow> ('z, 'a) handler" where
  [io_defs]: "lift_exc r w = (r, w)"

section \<open>The store operations with their instants\<close>

definition event_io :: "source \<Rightarrow> string \<Rightarrow> string option \<Rightarrow> payload \<Rightarrow> ('z, int) handler" where
  "event_io src typ tid p = bind_io now_io (\<lambda>ts. commit_io (append_event ts src typ tid p no_usage))"

definition usage_event_io ::
    "source \<Rightarrow> string \<Rightarrow> string option \<Rightarrow> payload \<Rightarrow> usage \<Rightarrow> ('z, int) handler" where
  "usage_event_io src typ tid p u = bind_io now_io (\<lambda>ts. commit_io (append_event ts src typ tid p u))"

definition transition_io :: "string \<Rightarrow> tstate \<Rightarrow> int \<Rightarrow> payload \<Rightarrow> ('z, int) handler" where
  "transition_io tid q cause kw =
    bind_io now_io (\<lambda>ts. commit_io (transition ts tid (state_name q) cause Src_scheduler kw))"

definition create_task_io :: "task_def \<Rightarrow> ('z, string) handler" where
  "create_task_io a = bind_io fresh_io (\<lambda>u. bind_io now_io (\<lambda>ts. commit_io (create_task u ts a)))"

definition create_attempt_io :: "attempt_def \<Rightarrow> ('z, string) handler" where
  "create_attempt_io a = bind_io fresh_io (\<lambda>u. bind_io now_io (\<lambda>ts. commit_io (create_attempt u ts a)))"

definition update_attempt_io :: "string \<Rightarrow> payload \<Rightarrow> ('z, int) handler" where
  "update_attempt_io aid kw =
    bind_io now_io (\<lambda>ts. commit_io (update_attempt ts aid Src_scheduler ''attempt.updated'' kw))"

definition create_intervention_io ::
    "string \<Rightarrow> string option \<Rightarrow> string option \<Rightarrow> string option \<Rightarrow> ('z, string) handler" where
  "create_intervention_io tid aid sha sig =
    bind_io fresh_io (\<lambda>u. bind_io now_io (\<lambda>ts. commit_io (create_intervention u ts tid aid sha sig None None)))"

definition update_intervention_io :: "string \<Rightarrow> payload \<Rightarrow> ('z, int) handler" where
  "update_intervention_io iid kw = bind_io now_io (\<lambda>ts. commit_io (update_intervention ts iid kw))"

text \<open>Lease calls of the scheduler: the default lifetime is 300 seconds.\<close>

definition lease_ttl :: int where
  "lease_ttl = 300000000"

definition acquire_io :: "string \<Rightarrow> string \<Rightarrow> ('z, lease_row) handler" where
  "acquire_io aid owner = bind_io now_io (\<lambda>ts. bind_io fresh_io (\<lambda>u.
    commit_io (acquire u aid owner (Some lease_ttl) ts None Src_scheduler)))"

definition validate_io :: "lease_row \<Rightarrow> ('z, lease_row) handler" where
  "validate_io l = bind_io now_io (\<lambda>ts. bind_io (read_db (validate (By_lease l) None None None ts)) lift_exc)"

definition renew_io :: "lease_row \<Rightarrow> ('z, lease_row) handler" where
  "renew_io l = bind_io now_io (\<lambda>ts.
    commit_io (renew (By_lease l) None None None (Some lease_ttl) ts Src_scheduler))"

definition release_io :: "lease_row \<Rightarrow> string \<Rightarrow> source \<Rightarrow> ('z, lease_row) handler" where
  "release_io l reason src = bind_io now_io (\<lambda>ts.
    commit_io (release (By_lease l) None None None reason ts src))"

definition recover_io :: "lease_row \<Rightarrow> string \<Rightarrow> source \<Rightarrow> ('z, lease_row) handler" where
  "recover_io l reason src = bind_io now_io (\<lambda>ts.
    commit_io (recover (By_lease l) None None reason ts src))"

section \<open>Every handler moves along a trace\<close>

definition world_trace :: "'z world_scheme \<Rightarrow> 'z world_scheme \<Rightarrow> bool" where
  "world_trace w w' \<longleftrightarrow> db_trace (w_db w) (w_db w')"

interpretation world: io_contract world_trace
  by unfold_locales (auto simp: world_trace_def)

abbreviation on_trace :: "('z, 'a) handler \<Rightarrow> bool" where
  "on_trace \<equiv> keeps world_trace"

lemma on_trace_call: "on_trace (call_io f)"
  by (simp add: keeps_def world_trace_def call_io_def)

lemma on_trace_now: "on_trace now_io"
  by (simp add: keeps_def world_trace_def now_io_def call_io_def)

lemma on_trace_fresh: "on_trace fresh_io"
  by (simp add: keeps_def world_trace_def fresh_io_def call_io_def)

lemma on_trace_try_call: "on_trace (try_call_io f)"
  by (simp add: keeps_def world_trace_def try_call_io_def call_io_def split: sum.split)

lemma on_trace_read: "on_trace (read_db f)"
  unfolding read_db_def by (rule world.keeps_gets)

lemma on_trace_lift_exc: "on_trace (lift_exc r)"
  by (simp add: keeps_def world_trace_def lift_exc_def)

lemma on_trace_modify: "(\<And>w. w_db (f w) = w_db w) \<Longrightarrow> on_trace (modify_io f)"
  by (simp add: keeps_def world_trace_def modify_io_def)

lemma on_trace_commit: "(\<And>d x d'. f d = Inr (x, d') \<Longrightarrow> db_step d d') \<Longrightarrow> on_trace (commit_io f)"
  by (auto simp: keeps_def world_trace_def commit_io_def split: sum.split prod.split)

lemma on_trace_event: "typ \<notin> ledger_types \<Longrightarrow> on_trace (event_io src typ tid p)"
  unfolding event_io_def
  by (intro world.keeps_bind on_trace_now on_trace_commit) (rule st_event)

lemma on_trace_usage_event: "typ \<notin> ledger_types \<Longrightarrow> on_trace (usage_event_io src typ tid p u)"
  unfolding usage_event_io_def
  by (intro world.keeps_bind on_trace_now on_trace_commit) (rule st_event)

lemma on_trace_transition: "on_trace (transition_io tid q cause kw)"
  unfolding transition_io_def
  by (intro world.keeps_bind on_trace_now on_trace_commit) (rule st_transition)

lemma on_trace_create_task: "on_trace (create_task_io a)"
  unfolding create_task_io_def
  by (intro world.keeps_bind on_trace_now on_trace_fresh on_trace_commit) (rule st_create_task)

lemma on_trace_create_attempt: "on_trace (create_attempt_io a)"
  unfolding create_attempt_io_def
  by (intro world.keeps_bind on_trace_now on_trace_fresh on_trace_commit) (rule st_create_attempt)

lemma on_trace_update_attempt: "on_trace (update_attempt_io aid kw)"
  unfolding update_attempt_io_def
  by (intro world.keeps_bind on_trace_now on_trace_commit)
     (rule st_update_attempt, simp_all add: ledger_types_def lease_event_types_def)

lemma on_trace_create_intervention: "on_trace (create_intervention_io tid aid sha sig)"
  unfolding create_intervention_io_def
  by (intro world.keeps_bind on_trace_now on_trace_fresh on_trace_commit) (rule st_create_intervention)

lemma on_trace_update_intervention: "on_trace (update_intervention_io iid kw)"
  unfolding update_intervention_io_def
  by (intro world.keeps_bind on_trace_now on_trace_commit) (rule st_update_intervention)

lemma on_trace_acquire: "on_trace (acquire_io aid owner)"
  unfolding acquire_io_def
  by (intro world.keeps_bind on_trace_now on_trace_fresh on_trace_commit) (rule st_acquire)

lemma on_trace_validate: "on_trace (validate_io l)"
  unfolding validate_io_def
  by (intro world.keeps_bind on_trace_now on_trace_read on_trace_lift_exc)

lemma on_trace_renew: "on_trace (renew_io l)"
  unfolding renew_io_def by (intro world.keeps_bind on_trace_now on_trace_commit) (rule st_renew)

lemma on_trace_release: "on_trace (release_io l reason src)"
  unfolding release_io_def by (intro world.keeps_bind on_trace_now on_trace_commit) (rule st_release)

lemma on_trace_recover: "on_trace (recover_io l reason src)"
  unfolding recover_io_def by (intro world.keeps_bind on_trace_now on_trace_commit) (rule st_recover)

lemmas on_trace_rules = world.keeps_rules on_trace_call on_trace_now on_trace_fresh on_trace_try_call
  on_trace_read on_trace_lift_exc on_trace_event on_trace_usage_event on_trace_transition
  on_trace_create_task on_trace_create_attempt on_trace_update_attempt on_trace_create_intervention
  on_trace_update_intervention on_trace_acquire on_trace_validate on_trace_renew on_trace_release
  on_trace_recover

lemmas ledger_type_simps = ledger_types_def lease_event_types_def

section \<open>Handlers that leave the tasks alone\<close>

text \<open>
  The second contract: the task and dependency tables are as before. Events, attempts, leases and
  interventions may be written.
\<close>

definition quiet_on :: "'z world_scheme \<Rightarrow> 'z world_scheme \<Rightarrow> bool" where
  "quiet_on w w' \<longleftrightarrow> d_tasks (w_db w') = d_tasks (w_db w) \<and> d_deps (w_db w') = d_deps (w_db w)"

interpretation quiet: io_contract quiet_on
  by unfold_locales (auto simp: quiet_on_def)

abbreviation is_quiet :: "('z, 'a) handler \<Rightarrow> bool" where
  "is_quiet \<equiv> keeps quiet_on"

lemma quiet_same: "(\<And>w. w_db (snd (m w)) = w_db w) \<Longrightarrow> is_quiet m"
  by (simp add: keeps_def quiet_on_def)

lemma quiet_call: "is_quiet (call_io f)" "is_quiet now_io" "is_quiet fresh_io" "is_quiet (try_call_io h)"
    "is_quiet (read_db g)" "is_quiet (lift_exc r)"
  by (simp_all add: keeps_def quiet_on_def io_defs split: sum.split)

lemma quiet_commit:
  "(\<And>d x d'. f d = Inr (x, d') \<Longrightarrow> d_tasks d' = d_tasks d \<and> d_deps d' = d_deps d) \<Longrightarrow> is_quiet (commit_io f)"
  by (auto simp: keeps_def quiet_on_def commit_io_def split: sum.split prod.split)

lemma quiet_event: "is_quiet (event_io src typ tid p)"
  unfolding event_io_def
  by (intro quiet.keeps_bind quiet_call quiet_commit) (auto simp: append_event_def insert_event_eq)

lemma quiet_usage_event: "is_quiet (usage_event_io src typ tid p u)"
  unfolding usage_event_io_def
  by (intro quiet.keeps_bind quiet_call quiet_commit) (auto simp: append_event_def insert_event_eq)

lemma quiet_create_attempt: "is_quiet (create_attempt_io a)"
  unfolding create_attempt_io_def
  by (intro quiet.keeps_bind quiet_call quiet_commit) (auto dest: create_attempt_Inr(5))

lemma quiet_update_attempt: "is_quiet (update_attempt_io aid kw)"
  unfolding update_attempt_io_def
  by (intro quiet.keeps_bind quiet_call quiet_commit) (auto elim!: update_attempt_Inr)

lemma quiet_create_intervention: "is_quiet (create_intervention_io tid aid sha sig)"
  unfolding create_intervention_io_def
  by (intro quiet.keeps_bind quiet_call quiet_commit) (auto elim!: create_intervention_Inr)

lemma quiet_update_intervention: "is_quiet (update_intervention_io iid kw)"
  unfolding update_intervention_io_def
  by (intro quiet.keeps_bind quiet_call quiet_commit) (auto elim!: update_intervention_Inr)

lemmas quiet_rules = quiet.keeps_rules quiet_call quiet_event quiet_usage_event quiet_create_attempt
  quiet_update_attempt quiet_create_intervention quiet_update_intervention

lemma quiet_find: "quiet_on w w' \<Longrightarrow> find_task tid (w_db w') = find_task tid (w_db w)"
  by (simp add: quiet_on_def find_task_def)

lemma quiet_deps: "quiet_on w w' \<Longrightarrow> deps_of tid (w_db w') = deps_of tid (w_db w)"
  by (simp add: quiet_on_def deps_of_def)

section \<open>Runs of the single statements\<close>

lemma event_io_run:
  "event_io src typ tid p w =
    (Inr (next_seq (d_events (w_db w))),
     w\<lparr>w_calls := Suc (w_calls w),
       w_db := (w_db w)\<lparr>d_events := d_events (w_db w) @
         [new_event (w_db w) (w_clock w (w_calls w)) src typ tid p no_usage]\<rparr>\<rparr>)"
  by (simp add: event_io_def bind_io_def now_io_def call_io_def commit_io_def append_event_def insert_event_eq)

lemma event_io_returns:
  obtains s w' where "event_io src typ tid p w = (Inr s, w')"
  by (rule that[OF event_io_run])

lemma transition_io_cases:
  assumes "transition_io tid q cause kw w = (r, w')"
  obtains (raised) e where "r = Inl e" "w_db w' = w_db w"
  | (moved) s ts where "r = Inr s"
      "transition ts tid (state_name q) cause Src_scheduler kw (w_db w) = Inr (s, w_db w')"
  using assms
  by (auto simp: transition_io_def bind_io_def now_io_def call_io_def commit_io_def split: sum.splits)

text \<open>One task took a legal edge; every other task and the dependencies are as before.\<close>

definition moved :: "string \<Rightarrow> tstate \<Rightarrow> db \<Rightarrow> db \<Rightarrow> bool" where
  "moved tid q d d' \<longleftrightarrow>
    (\<exists>t t'. find_task tid d = Some t \<and> find_task tid d' = Some t' \<and> legal (t_state t) q \<and> t_state t' = q) \<and>
    (\<forall>x. x \<noteq> tid \<longrightarrow> find_task x d' = find_task x d) \<and> (\<forall>x. deps_of x d' = deps_of x d)"

lemma transition_moves:
  assumes "transition ts tid (state_name q) cause src kw d = Inr (s, d')"
  shows "(\<exists>t t'. find_task tid d = Some t \<and> find_task tid d' = Some t' \<and> legal (t_state t) q \<and> t_state t' = q) \<and>
    (\<forall>x. x \<noteq> tid \<longrightarrow> find_task x d' = find_task x d) \<and> (\<forall>x. deps_of x d' = deps_of x d)"
  using assms
proof (rule transition_Inr)
  fix t t' :: task_row and q'
  assume t: "find_task tid d = Some t" "state_of_name (state_name q) = Some q'" "legal (t_state t) q'"
    and c: "foldE set_task_col kw (t\<lparr>t_state := q', t_updated_at := ts\<rparr>) = Inr t'"
    and d': "d' = d\<lparr>d_tasks := set_task tid (\<lambda>_. t') (d_tasks d), d_events := d_events d @
      [new_event d ts src ''task.state_changed'' (Some tid) (transition_payload (t_state t) q' cause kw) no_usage]\<rparr>"
  have t': "t_id t' = tid" "t_state t' = q"
    using set_task_cols_keep[OF c] find_task_Some[OF t(1)] t(2) by auto
  have "find_task tid d' = Some t'"
    using find_map_hit[of t_id t' tid "d_tasks d"] t(1) t'(1) by (simp add: d' find_task_def set_task_def)
  moreover have "x \<noteq> tid \<Longrightarrow> find_task x d' = find_task x d" for x
    using find_map_other[of tid x t_id t' "d_tasks d"] t'(1) by (simp add: d' find_task_def set_task_def)
  ultimately show ?thesis using t t' by (auto simp: d' deps_of_def)
qed

lemma transition_moved:
  "transition ts tid (state_name q) cause src kw d = Inr (s, d') \<Longrightarrow> moved tid q d d'"
  unfolding moved_def by (rule transition_moves)

lemma moved_quiet: "moved tid q (w_db w) d' \<Longrightarrow> quiet_on v w \<Longrightarrow> moved tid q (w_db v) d'"
  by (simp add: moved_def quiet_find quiet_deps)

lemma transition_io_moved:
  assumes "transition_io tid q cause kw w = (r, w')"
  shows "case r of Inl e \<Rightarrow> w_db w' = w_db w | Inr s \<Rightarrow> moved tid q (w_db w) (w_db w')"
  using assms by (rule transition_io_cases) (auto intro: transition_moved)

end
