(* ===== verification/Graph.thy ===== *)
theory Graph
  imports World "HOL-Library.List_Lexorder" "HOL-Library.Char_ord"
begin

text \<open>
  \<open>validate_dependency_graph\<close> of \<open>scheduler/core.py\<close>, and the contract of a topological peeling,
  shared with the preflight: an order in which every node follows its prerequisites and that
  cannot be extended covers the graph exactly when the graph has no cycle.
\<close>

section \<open>Peeling a graph\<close>

locale dep_graph =
  fixes nodes :: "'a set" and prereq :: "'a \<Rightarrow> 'a set"
  assumes finite_nodes: "finite nodes"
    and closed: "v \<in> nodes \<Longrightarrow> prereq v \<subseteq> nodes"
begin

text \<open>Every node of the list comes after its prerequisites, which are in the list.\<close>

definition peeled :: "'a list \<Rightarrow> bool" where
  "peeled ps \<longleftrightarrow> distinct ps \<and> set ps \<subseteq> nodes \<and>
    (\<forall>i < length ps. prereq (ps ! i) \<subseteq> set (take i ps))"

definition stuck :: "'a list \<Rightarrow> bool" where
  "stuck ps \<longleftrightarrow> (\<forall>v \<in> nodes. prereq v \<subseteq> set ps \<longrightarrow> v \<in> set ps)"

definition needs :: "('a \<times> 'a) set" where
  "needs = {(v, u). v \<in> nodes \<and> u \<in> prereq v}"

lemma peeled_Nil: "peeled []"
  by (simp add: peeled_def)

lemma peeled_snoc: "peeled ps \<Longrightarrow> v \<in> nodes \<Longrightarrow> v \<notin> set ps \<Longrightarrow> prereq v \<subseteq> set ps \<Longrightarrow> peeled (ps @ [v])"
  by (auto simp: peeled_def nth_append less_Suc_eq)

lemma peeled_prereq: "peeled ps \<Longrightarrow> v \<in> set ps \<Longrightarrow> prereq v \<subseteq> set ps"
  unfolding peeled_def by (metis in_set_conv_nth set_take_subset subset_trans)

lemma peeled_acyclic:
  assumes "peeled ps" "set ps = nodes"
  shows "acyclic needs"
proof -
  let ?rank = "\<lambda>v. THE i. i < length ps \<and> ps ! i = v"
  have rank: "i < length ps \<Longrightarrow> ?rank (ps ! i) = i" for i
    using assms(1) by (intro the_equality) (auto simp: peeled_def nth_eq_iff_index_eq)
  have "?rank u < ?rank v" if uv: "(v, u) \<in> needs" for u v
  proof -
    obtain i where i: "i < length ps" "ps ! i = v"
      using uv assms(2) by (auto simp: needs_def in_set_conv_nth)
    then have "u \<in> set (take i ps)"
      using uv assms(1) by (auto simp: needs_def peeled_def)
    then obtain j where "j < i" "ps ! j = u"
      using i(1) by (auto simp: in_set_conv_nth)
    then show ?thesis using i rank by (metis order.strict_trans)
  qed
  then have "needs\<inverse> \<subseteq> measure ?rank" by (auto simp: in_measure)
  then have "acyclic (needs\<inverse>)" using acyclic_subset wf_acyclic wf_measure by blast
  then show ?thesis by (simp add: acyclic_converse)
qed

lemma stuck_covers:
  assumes "acyclic needs" "stuck ps"
  shows "nodes \<subseteq> set ps"
proof
  have sub: "needs \<subseteq> nodes \<times> nodes" using closed by (auto simp: needs_def)
  have "finite needs" by (rule finite_subset[OF sub]) (simp add: finite_nodes)
  then have wf: "wf (needs\<inverse>)" using assms(1) by (intro finite_acyclic_wf) (auto simp: acyclic_converse)
  fix v assume "v \<in> nodes"
  then show "v \<in> set ps"
    using wf
  proof (induction v rule: wf_induct_rule[OF wf])
    case (1 v)
    have "prereq v \<subseteq> set ps"
      using 1 closed by (auto simp: needs_def)
    then show ?case using assms(2) 1(2) by (simp add: stuck_def)
  qed
qed

lemma covers_iff_acyclic:
  assumes "peeled ps" "stuck ps"
  shows "length ps = card nodes \<longleftrightarrow> acyclic needs"
proof -
  have d: "distinct ps" "set ps \<subseteq> nodes" using assms(1) by (auto simp: peeled_def)
  have "length ps = card nodes \<longleftrightarrow> set ps = nodes"
    using d finite_nodes by (metis card_subset_eq distinct_card)
  then show ?thesis
    using peeled_acyclic[OF assms(1)] stuck_covers[OF _ assms(2)] d(2) by blast
qed

end

section \<open>The scheduler's check\<close>

definition task_ids :: "db \<Rightarrow> string list" where
  "task_ids d = remdups (map t_id (d_tasks d))"

text \<open>\<open>ORDER BY task_id, depends_on\<close>.\<close>

definition edge_rows :: "db \<Rightarrow> (string \<times> string) list" where
  "edge_rows d = sort_key fst (sort_key snd (d_deps d))"

definition dependents :: "(string \<times> string) list \<Rightarrow> string \<Rightarrow> string list" where
  "dependents es v = map fst (filter (\<lambda>e. snd e = v) es)"

definition count_edge :: "string \<times> string \<Rightarrow> (string, int) dict \<Rightarrow> exc + (string, int) dict" where
  "count_edge e m = (case map_of m (fst e) of
      None \<Rightarrow> Inl (KeyError (fst e))
    | Some n \<Rightarrow> Inr (AList.update (fst e) (n + 1) m))"

definition degree :: "(string, int) dict \<Rightarrow> string \<Rightarrow> int" where
  "degree m v = (case map_of m v of None \<Rightarrow> 0 | Some n \<Rightarrow> n)"

text \<open>The inner loop: each dependent loses one prerequisite and is ready when none is left.\<close>

fun relax :: "string list \<Rightarrow> (string, int) dict \<Rightarrow> string list \<Rightarrow> (string, int) dict \<times> string list" where
  "relax [] m ready = (m, ready)"
| "relax (x # xs) m ready =
    (let n = degree m x - 1
     in relax xs (AList.update x n m) (if n = 0 then ready @ [x] else ready))"

definition positive :: "(string, int) dict \<Rightarrow> nat" where
  "positive m = card {v. 0 < degree m v}"

lemma degree_update: "degree (AList.update x n m) v = (if v = x then n else degree m v)"
  by (simp add: degree_def update_conv')

lemma finite_positive: "finite {v. 0 < degree m v}"
  by (rule finite_subset[of _ "fst ` set m"]) (auto simp: degree_def split: option.splits dest!: map_of_SomeD, force)

lemma positive_update:
  "positive (AList.update x (degree m x - 1) m) + (if degree m x - 1 = 0 then 1 else 0) \<le> positive m"
proof -
  let ?A = "{v. 0 < degree m v}" and ?B = "{v. 0 < degree (AList.update x (degree m x - 1) m) v}"
  have sub: "?B \<subseteq> ?A" by (auto simp: degree_update split: if_splits)
  show ?thesis
  proof (cases "degree m x - 1 = 0")
    case True
    then have "?B \<subseteq> ?A - {x}" using sub by (auto simp: degree_update)
    then have "card ?B \<le> card (?A - {x})"
      using finite_positive[of m] by (intro card_mono) auto
    moreover have "x \<in> ?A" using True by simp
    ultimately have "card ?B < card ?A"
      using finite_positive[of m] by (meson card_Diff1_less order.strict_trans1)
    then show ?thesis using True by (simp add: positive_def)
  next
    case False
    then show ?thesis using card_mono[OF finite_positive[of m] sub] by (simp add: positive_def)
  qed
qed

lemma relax_measure:
  "relax xs m ready = (m', ready') \<Longrightarrow> positive m' + length ready' \<le> positive m + length ready"
proof (induction xs arbitrary: m ready)
  case (Cons x xs)
  have "positive m' + length ready' \<le> positive (AList.update x (degree m x - 1) m) +
      length (if degree m x - 1 = 0 then ready @ [x] else ready)"
    using Cons.prems by (intro Cons.IH) (simp add: Let_def)
  then show ?case using positive_update[of x m] by (simp split: if_splits)
qed simp

text \<open>The outer loop; it ends because the ready nodes and the blocked ones decrease together.\<close>

function kahn :: "(string \<Rightarrow> string list) \<Rightarrow> (string, int) dict \<Rightarrow> string list \<Rightarrow> int \<Rightarrow> (string, int) dict \<times> int" where
  "kahn deps m [] visited = (m, visited)"
| "kahn deps m (v # ready) visited =
    (case relax (sort (deps v)) m ready of (m', ready') \<Rightarrow> kahn deps m' ready' (visited + 1))"
  by pat_completeness auto
termination
proof (relation "measure (\<lambda>(deps, m, ready, visited). positive m + length ready)", goal_cases)
  case (2 deps m v ready visited m1 ready1)
  then have "positive m1 + length ready1 \<le> positive m + length ready"
    by (metis relax_measure)
  then show ?case by simp
qed simp

definition validate_dependency_graph :: "db \<Rightarrow> exc + unit" where
  "validate_dependency_graph d =
    (let ids = task_ids d; es = edge_rows d;
         missing = sort (remdups (filter (\<lambda>u. u \<notin> set ids) (map snd es)))
     in if missing \<noteq> []
        then Inl (ValueError (''dependency graph references missing prerequisite(s): '' @ join '', '' missing))
        else bindE (foldE count_edge es (map (\<lambda>v. (v, 0)) ids)) (\<lambda>m.
          let ready = sort (filter (\<lambda>v. degree m v = 0) ids) in
          case kahn (dependents es) m ready 0 of (m', visited) \<Rightarrow>
            if visited \<noteq> int (length ids)
            then Inl (ValueError (''dependency graph contains a cycle involving: '' @
              join '', '' (sort (filter (\<lambda>v. degree m' v \<noteq> 0) ids))))
            else Inr ()))"

section \<open>Correctness of the check\<close>

definition dep_nodes :: "db \<Rightarrow> string set" where
  "dep_nodes d = t_id ` set (d_tasks d)"

definition dep_prereq :: "db \<Rightarrow> string \<Rightarrow> string set" where
  "dep_prereq d v = {u \<in> dep_nodes d. (v, u) \<in> set (d_deps d)}"

interpretation db_graph: dep_graph "dep_nodes d" "dep_prereq d" for d
  by unfold_locales (auto simp: dep_nodes_def dep_prereq_def)

text \<open>The loop state after peeling \<open>ps\<close>.\<close>

definition kahn_inv :: "db \<Rightarrow> string list \<Rightarrow> (string, int) dict \<Rightarrow> string list \<Rightarrow> bool" where
  "kahn_inv d ps m ready \<longleftrightarrow>
    db_graph.peeled d ps \<and>
    (\<forall>v \<in> dep_nodes d. degree m v = int (card (dep_prereq d v - set ps))) \<and>
    distinct ready \<and>
    set ready = {v \<in> dep_nodes d. v \<notin> set ps \<and> dep_prereq d v \<subseteq> set ps}"

lemma relax_result:
  "distinct xs \<Longrightarrow> relax xs m ready = (m', ready') \<Longrightarrow>
    (\<forall>y. degree m' y = degree m y - (if y \<in> set xs then 1 else 0)) \<and>
    ready' = ready @ filter (\<lambda>x. degree m x = 1) xs"
proof (induction xs arbitrary: m ready)
  case (Cons x xs)
  let ?m = "AList.update x (degree m x - 1) m"
  have "(\<forall>y. degree m' y = degree ?m y - (if y \<in> set xs then 1 else 0)) \<and>
      ready' = (if degree m x - 1 = 0 then ready @ [x] else ready) @ filter (\<lambda>y. degree ?m y = 1) xs"
    using Cons.prems by (intro Cons.IH) (simp_all add: Let_def)
  moreover have "filter (\<lambda>y. degree ?m y = 1) xs = filter (\<lambda>y. degree m y = 1) xs"
    using Cons.prems(1) by (intro filter_cong) (auto simp: degree_update)
  ultimately show ?case
    using Cons.prems(1) by (auto simp: degree_update)
qed simp

lemma distinct_dependents: "distinct es \<Longrightarrow> distinct (dependents es v)"
  by (induction es) (auto simp: dependents_def)

lemma set_dependents: "set (dependents es v) = {t. (t, v) \<in> set es}"
  by (force simp: dependents_def)

lemma finite_prereq [simp]: "finite (dep_prereq d v)"
  by (rule finite_subset[of _ "dep_nodes d"]) (auto simp: dep_prereq_def dep_nodes_def)

lemma kahn_inv_step:
  assumes es: "distinct es" "set es = set (d_deps d)" "\<forall>(t, u) \<in> set (d_deps d). t \<in> dep_nodes d \<and> u \<in> dep_nodes d"
    and inv: "kahn_inv d ps m (v # ready)"
    and rel: "relax (sort (dependents es v)) m ready = (m', ready')"
  shows "kahn_inv d (ps @ [v]) m' ready'"
proof -
  let ?xs = "sort (dependents es v)"
  have v: "v \<in> dep_nodes d" "v \<notin> set ps" "dep_prereq d v \<subseteq> set ps" and vr: "v \<notin> set ready"
    and peel: "db_graph.peeled d ps"
    and deg: "\<And>u. u \<in> dep_nodes d \<Longrightarrow> degree m u = int (card (dep_prereq d u - set ps))"
    and rd: "distinct ready" "insert v (set ready) = {v \<in> dep_nodes d. v \<notin> set ps \<and> dep_prereq d v \<subseteq> set ps}"
    using inv by (auto simp: kahn_inv_def)
  have xs: "distinct ?xs" "x \<in> set ?xs \<longleftrightarrow> x \<in> dep_nodes d \<and> v \<in> dep_prereq d x" for x
    using distinct_dependents[OF es(1)] es(2,3) v(1) by (auto simp: set_dependents dep_prereq_def)
  note res = relax_result[OF xs(1) rel]
  have card1: "card (dep_prereq d u - set (ps @ [v])) =
      card (dep_prereq d u - set ps) - (if v \<in> dep_prereq d u then 1 else 0)" for u
  proof -
    have "dep_prereq d u - set (ps @ [v]) = (dep_prereq d u - set ps) - {v}" by auto
    then show ?thesis using v(2) by (auto simp: card_Diff_singleton_if)
  qed
  have pos: "0 < card (dep_prereq d u - set ps)" if "v \<in> dep_prereq d u" for u
    using that v(2) by (subst card_gt_0_iff) auto
  have deg': "degree m' u = int (card (dep_prereq d u - set (ps @ [v])))" if "u \<in> dep_nodes d" for u
    using res deg[OF that] pos[of u] xs(2)[of u] that unfolding card1 by (auto simp: of_nat_diff)
  have fin: "dep_prereq d u \<subseteq> set (ps @ [v]) \<longleftrightarrow> card (dep_prereq d u - set (ps @ [v])) = 0" for u
    by (auto simp: card_eq_0_iff)
  have new: "x \<in> set ?xs \<and> degree m x = 1 \<longleftrightarrow>
      x \<in> dep_nodes d \<and> v \<in> dep_prereq d x \<and> dep_prereq d x \<subseteq> set (ps @ [v])" for x
    unfolding fin card1 using xs(2)[of x] deg[of x] pos[of x] by auto
  have notin: "x \<notin> set (ps @ [v])" if "x \<in> dep_nodes d" "v \<in> dep_prereq d x" for x
    using db_graph.peeled_prereq[OF peel, of x] that v by auto
  have "set ready' = {u \<in> dep_nodes d. u \<notin> set (ps @ [v]) \<and> dep_prereq d u \<subseteq> set (ps @ [v])}"
  proof (intro set_eqI iffI)
    fix u assume "u \<in> set ready'"
    then consider "u \<in> set ready" | "u \<in> set ?xs" "degree m u = 1" using res by auto
    then show "u \<in> {u \<in> dep_nodes d. u \<notin> set (ps @ [v]) \<and> dep_prereq d u \<subseteq> set (ps @ [v])}"
      using rd(2) vr new[of u] notin[of u] by cases auto
  next
    fix u assume u: "u \<in> {u \<in> dep_nodes d. u \<notin> set (ps @ [v]) \<and> dep_prereq d u \<subseteq> set (ps @ [v])}"
    show "u \<in> set ready'"
    proof (cases "v \<in> dep_prereq d u")
      case True
      then show ?thesis using new[of u] u res by auto
    next
      case False
      then have "u \<in> insert v (set ready)" unfolding rd(2) using u by auto
      then show ?thesis using u res by auto
    qed
  qed
  moreover have "distinct ready'"
  proof -
    have "x \<notin> set ready" if "x \<in> set ?xs" "degree m x = 1" for x
      using rd(2) new[of x] that v(2) by blast
    then show ?thesis using res rd(1) xs(1) by auto
  qed
  ultimately show ?thesis
    using db_graph.peeled_snoc[OF peel v] deg' by (simp add: kahn_inv_def)
qed

lemma kahn_result:
  assumes es: "distinct es" "set es = set (d_deps d)" "\<forall>(t, u) \<in> set (d_deps d). t \<in> dep_nodes d \<and> u \<in> dep_nodes d"
    and "kahn_inv d ps m ready" "visited = int (length ps)" "kahn (dependents es) m ready visited = (m', n)"
  shows "\<exists>ps'. kahn_inv d ps' m' [] \<and> n = int (length ps')"
  using assms(4-)
proof (induction "dependents es" m ready visited arbitrary: ps rule: kahn.induct)
  case (1 m visited)
  then show ?case by auto
next
  case (2 m v ready visited)
  obtain m1 ready1 where r: "relax (sort (dependents es v)) m ready = (m1, ready1)" by fastforce
  show ?case
    using 2(1)[OF r[symmetric] kahn_inv_step[OF es 2(2) r]] 2(3,4) r by simp
qed

lemma count_edges:
  assumes "\<forall>e \<in> set es. map_of m (fst e) \<noteq> None"
  shows "\<exists>m'. foldE count_edge es m = Inr m' \<and>
    (\<forall>v. degree m' v = degree m v + int (length (filter (\<lambda>e. fst e = v) es)))"
  using assms
proof (induction es arbitrary: m)
  case (Cons e es)
  obtain n where n: "map_of m (fst e) = Some n" using Cons.prems by auto
  have "\<forall>e' \<in> set es. map_of (AList.update (fst e) (n + 1) m) (fst e') \<noteq> None"
    using Cons.prems by (auto simp: update_conv')
  from Cons.IH[OF this] show ?case
    using n by (auto simp: count_edge_def degree_update) (auto simp: degree_def)
qed simp

lemma validate_dependency_graph_iff:
  assumes "distinct (d_deps d)" "\<forall>(t, u) \<in> set (d_deps d). t \<in> t_id ` set (d_tasks d)"
  shows "validate_dependency_graph d = Inr () \<longleftrightarrow>
    (\<forall>(t, u) \<in> set (d_deps d). u \<in> t_id ` set (d_tasks d)) \<and> acyclic (set (d_deps d))"
proof -
  let ?es = "edge_rows d" and ?ids = "task_ids d"
  have es: "distinct ?es" "set ?es = set (d_deps d)"
    using assms(1) by (simp_all add: edge_rows_def)
  have ids: "distinct ?ids" "set ?ids = dep_nodes d"
    by (simp_all add: task_ids_def dep_nodes_def)
  show ?thesis
  proof (cases "\<forall>(t, u) \<in> set (d_deps d). u \<in> dep_nodes d")
    case False
    then have "sort (remdups (filter (\<lambda>u. u \<notin> set ?ids) (map snd ?es))) \<noteq> []"
      using es(2) ids(2) by (force simp: filter_empty_conv simp flip: set_empty)
    then show ?thesis
      using False by (simp add: validate_dependency_graph_def Let_def dep_nodes_def)
  next
    case True
    then have closed: "\<forall>(t, u) \<in> set (d_deps d). t \<in> dep_nodes d \<and> u \<in> dep_nodes d"
      using assms(2) by (auto simp: dep_nodes_def)
    have nomiss: "sort (remdups (filter (\<lambda>u. u \<notin> set ?ids) (map snd ?es))) = []"
      using True es(2) ids(2) by (force simp: filter_empty_conv simp flip: set_empty)
    let ?m0 = "map (\<lambda>v. (v, 0::int)) ?ids"
    have m0: "map_of ?m0 v \<noteq> None \<longleftrightarrow> v \<in> set ?ids" for v
      by (force simp: map_of_eq_None_iff)
    have "\<forall>e \<in> set ?es. map_of ?m0 (fst e) \<noteq> None"
      using m0 es(2) ids(2) closed by auto
    then obtain m where m: "foldE count_edge ?es ?m0 = Inr m"
      "\<forall>v. degree m v = degree ?m0 v + int (length (filter (\<lambda>e. fst e = v) ?es))"
      using count_edges by blast
    have zero: "degree ?m0 v = 0" for v
      by (auto simp: degree_def dest!: map_of_SomeD split: option.split)
    have cnt: "degree m v = int (card (dep_prereq d v))" for v
    proof -
      have "dep_prereq d v = snd ` set (filter (\<lambda>e. fst e = v) ?es)"
        using es(2) closed by (force simp: dep_prereq_def)
      moreover have "inj_on snd (set (filter (\<lambda>e. fst e = v) ?es))"
        by (auto simp: inj_on_def)
      ultimately have "card (dep_prereq d v) = length (filter (\<lambda>e. fst e = v) ?es)"
        using distinct_card[OF distinct_filter[OF es(1), of "\<lambda>e. fst e = v"]] by (simp add: card_image)
      then show ?thesis using m(2) zero by simp
    qed
    let ?ready = "sort (filter (\<lambda>v. degree m v = 0) ?ids)"
    have inv: "kahn_inv d [] m ?ready"
      using cnt ids by (auto simp: kahn_inv_def db_graph.peeled_Nil card_eq_0_iff)
    obtain m' n where k: "kahn (dependents ?es) m ?ready 0 = (m', n)" by fastforce
    obtain ps where ps: "kahn_inv d ps m' []" "n = int (length ps)"
      using kahn_result[OF es closed inv _ k] by auto
    have "db_graph.stuck d ps"
      using ps(1) by (auto simp: kahn_inv_def db_graph.stuck_def)
    then have "length ps = card (dep_nodes d) \<longleftrightarrow> acyclic (db_graph.needs d)"
      using ps(1) by (intro db_graph.covers_iff_acyclic) (auto simp: kahn_inv_def)
    moreover have "db_graph.needs d = set (d_deps d)"
      using closed by (auto simp: db_graph.needs_def dep_prereq_def)
    moreover have "length ?ids = card (dep_nodes d)"
      using ids distinct_card by metis
    ultimately have "n \<noteq> int (length ?ids) \<longleftrightarrow> \<not> acyclic (set (d_deps d))"
      using ps(2) by simp
    then show ?thesis
      using True nomiss m(1) k
      by (simp add: validate_dependency_graph_def Let_def dep_nodes_def)
  qed
qed

lemma edge_rows_known:
  "\<forall>(t, u) \<in> set (d_deps d). t \<in> t_id ` set (d_tasks d) \<Longrightarrow>
    \<forall>e \<in> set (edge_rows d). map_of (map (\<lambda>v. (v, 0::int)) (task_ids d)) (fst e) \<noteq> None"
proof
  fix e assume "\<forall>(t, u) \<in> set (d_deps d). t \<in> t_id ` set (d_tasks d)" "e \<in> set (edge_rows d)"
  then have "fst e \<in> set (task_ids d)" by (cases e) (auto simp: edge_rows_def task_ids_def)
  then show "map_of (map (\<lambda>v. (v, 0::int)) (task_ids d)) (fst e) \<noteq> None"
    by (simp add: map_of_eq_None_iff image_image)
qed

lemma takeWhile_neq_less: "u \<in> set xs \<Longrightarrow> length (takeWhile (\<lambda>x. x \<noteq> u) xs) < length xs"
  by (induction xs) auto

definition demo_graph_def :: task_def where
  "demo_graph_def = \<lparr>td_title = ''t'', td_brief = ''b'', td_repo = ''r'', td_delivery_mode = ''local'',
    td_verify_cmd = None, td_max_retries = 2, td_depends_on = [], td_task_id = None,
    td_output_artifacts = JNull, td_output_schema = JNull, td_input_contract = JNull,
    td_dependency_input_contract = JNull, td_node_verify_cmd = None, td_repair_policy = JNull\<rparr>"

text \<open>
  C10. The startup check is exact: for edges without duplicates between known tasks it accepts
  precisely when every prerequisite exists and the dependency graph has no cycle; every other
  graph is rejected before a worker starts.
\<close>

theorem graph_check_exact:
  assumes "distinct (d_deps d)" "\<forall>(t, u) \<in> set (d_deps d). t \<in> t_id ` set (d_tasks d)"
  shows "if (\<forall>(t, u) \<in> set (d_deps d). u \<in> t_id ` set (d_tasks d)) \<and> acyclic (set (d_deps d))
    then validate_dependency_graph d = Inr ()
    else (\<exists>m. validate_dependency_graph d = Inl (ValueError m))"
proof -
  obtain m where "foldE count_edge (edge_rows d) (map (\<lambda>v. (v, 0)) (task_ids d)) = Inr m"
    using count_edges[OF edge_rows_known[OF assms(2)]] by blast
  moreover obtain m' n where
    "kahn (dependents (edge_rows d)) m (sort (filter (\<lambda>v. degree m v = 0) (task_ids d))) 0 = (m', n)"
    by fastforce
  ultimately have "validate_dependency_graph d = Inr () \<or>
      (\<exists>x. validate_dependency_graph d = Inl (ValueError x))"
    by (simp add: validate_dependency_graph_def Let_def)
  then show ?thesis
    using validate_dependency_graph_iff[OF assms] by auto
qed

definition cyclic_db :: db where
  "cyclic_db = empty_db\<lparr>d_tasks := [new_task_row ''A'' 1 demo_graph_def, new_task_row ''B'' 1 demo_graph_def],
    d_deps := [(''A'', ''B''), (''B'', ''A'')]\<rparr>"

theorem graph_check_exact_witness:
  "\<exists>m. validate_dependency_graph cyclic_db = Inl (ValueError m)"
proof -
  have d: "distinct (d_deps cyclic_db)"
    "\<forall>(t, u) \<in> set (d_deps cyclic_db). t \<in> t_id ` set (d_tasks cyclic_db)"
    by (simp_all add: cyclic_db_def empty_db_def new_task_row_def)
  have "(''A'', ''A'') \<in> (set (d_deps cyclic_db))\<^sup>+"
    by (rule trancl_into_trancl[OF r_into_trancl, of _ "''B''"]) (simp_all add: cyclic_db_def)
  then have "\<not> acyclic (set (d_deps cyclic_db))" by (auto simp: acyclic_def)
  then show ?thesis using graph_check_exact[OF d] by simp
qed

section \<open>Graphs built by the store\<close>

text \<open>A prerequisite is the task itself or was created before it.\<close>

definition dep_inv :: "db \<Rightarrow> bool" where
  "dep_inv d \<longleftrightarrow> distinct (d_deps d) \<and>
    (\<forall>(t, u) \<in> set (d_deps d). \<exists>xs ys. map t_id (d_tasks d) = xs @ t # ys \<and> (u = t \<or> u \<in> set xs))"

lemma dep_invD:
  "dep_inv d \<Longrightarrow> (t, u) \<in> set (d_deps d) \<Longrightarrow>
    \<exists>xs ys. map t_id (d_tasks d) = xs @ t # ys \<and> (u = t \<or> u \<in> set xs)"
  unfolding dep_inv_def by (drule conjunct2, drule (1) bspec, simp)

lemma dep_inv_step:
  assumes wf: "db_wf d" and inv: "dep_inv d" and st: "db_step d d'"
  shows "dep_inv d'"
  using st
proof (cases rule: step_cases)
  case (create fresh ts a tid)
  note * = create_task_Inr[OF create]
  have new: "tid \<notin> t_id ` set (d_tasks d)"
    using *(2) by (simp add: find_task_def find_None_key)
  have id: "t_id (new_task_row tid ts a) = tid" by (simp add: new_task_row_def)
  have old: "t \<noteq> tid" if e: "(t, u) \<in> set (d_deps d)" for t u
  proof -
    obtain xs ys where "map t_id (d_tasks d) = xs @ t # ys"
      using dep_invD[OF inv e] by blast
    then have "t \<in> set (map t_id (d_tasks d))" by simp
    then show ?thesis using new by auto
  qed
  have "distinct (d_deps d @ map (Pair tid) (td_depends_on a))"
    using inv *(4) old by (auto simp: dep_inv_def distinct_map inj_on_def)
  moreover have "\<exists>xs ys. map t_id (d_tasks d) @ [tid] = xs @ t # ys \<and> (u = t \<or> u \<in> set xs)"
    if e: "(t, u) \<in> set (d_deps d)" for t u
  proof -
    obtain xs ys where "map t_id (d_tasks d) = xs @ t # ys" "u = t \<or> u \<in> set xs"
      using dep_invD[OF inv e] by blast
    then show ?thesis by (intro exI[of _ xs] exI[of _ "ys @ [tid]"]) simp
  qed
  moreover have "\<exists>xs ys. map t_id (d_tasks d) @ [tid] = xs @ tid # ys \<and> (u = tid \<or> u \<in> set xs)"
    if "u \<in> set (td_depends_on a)" for u
  proof -
    have "u = tid \<or> u \<in> set (map t_id (d_tasks d))"
      using *(5) that by (auto dest: find_task_Some)
    then show ?thesis by (intro exI[of _ "map t_id (d_tasks d)"] exI[of _ "[]"]) simp
  qed
  ultimately show ?thesis
    unfolding *(6) dep_inv_def by (simp add: id ball_Un) blast
next
  case (change ts tid to cause src kw s)
  then show ?thesis using inv transition_ids(1,2)[OF change] by (simp add: dep_inv_def)
next
  case lease
  then show ?thesis
    using inv wf by (simp add: dep_inv_def db_wf_def lease_effect_def other_tables_kept_def)
qed (use inv in \<open>simp_all add: dep_inv_def\<close>)

lemma dep_inv_reachable: "db_trace empty_db d \<Longrightarrow> dep_inv d"
proof (induction rule: rtranclp_induct)
  case base
  then show ?case by (simp add: dep_inv_def empty_db_def)
next
  case (step d1 d2)
  then show ?case using dep_inv_step wf_reachable by blast
qed

text \<open>
  C11. A database that only the store wrote passes the startup check unless some task depends on
  itself, the one cycle that the foreign keys of the insert let through.
\<close>

theorem reachable_graph_accepted:
  assumes "db_trace empty_db d"
  shows "validate_dependency_graph d = Inr () \<longleftrightarrow> (\<forall>t. (t, t) \<notin> set (d_deps d))"
proof -
  have inv: "dep_inv d" and wf: "db_wf d"
    using dep_inv_reachable[OF assms] wf_reachable[OF assms] by auto
  have fk: "\<forall>(t, u) \<in> set (d_deps d). t \<in> t_id ` set (d_tasks d) \<and> u \<in> t_id ` set (d_tasks d)"
    using wf by (auto simp: db_wf_def)
  have "acyclic (set (d_deps d))" if noself: "\<forall>t. (t, t) \<notin> set (d_deps d)"
  proof -
    let ?L = "map t_id (d_tasks d)"
    let ?rank = "\<lambda>t. length (takeWhile (\<lambda>x. x \<noteq> t) ?L)"
    have dist: "distinct ?L" using wf by (simp add: db_wf_def)
    have "?rank u < ?rank t" if e: "(t, u) \<in> set (d_deps d)" for t u
    proof -
      obtain xs ys where L: "?L = xs @ t # ys" "u = t \<or> u \<in> set xs"
        using dep_invD[OF inv e] by blast
      have u: "u \<in> set xs" using L(2) noself e by auto
      have "t \<notin> set xs" using dist L(1) by auto
      then have "?rank t = length xs" unfolding L(1) by (subst takeWhile_append2) auto
      moreover have "?rank u < length xs"
        unfolding L(1) using takeWhile_append1[OF u, of "\<lambda>x. x \<noteq> u"] takeWhile_neq_less[OF u] by simp
      ultimately show ?thesis by simp
    qed
    then have "(set (d_deps d))\<inverse> \<subseteq> measure ?rank" by (auto simp: in_measure)
    then have "acyclic ((set (d_deps d))\<inverse>)" using acyclic_subset wf_acyclic wf_measure by blast
    then show ?thesis by (simp add: acyclic_converse)
  qed
  moreover have "\<not> acyclic (set (d_deps d))" if "(t, t) \<in> set (d_deps d)" for t
    using that by (auto simp: acyclic_def)
  moreover have "distinct (d_deps d)" using inv by (simp add: dep_inv_def)
  ultimately show ?thesis
    using validate_dependency_graph_iff[of d] fk by fastforce
qed

definition self_def :: task_def where
  "self_def = demo_graph_def\<lparr>td_task_id := Some ''S'', td_depends_on := [''S'']\<rparr>"

definition self_db :: db where
  "self_db = (case create_task ''u'' 1 self_def empty_db of Inl _ \<Rightarrow> empty_db | Inr (_, d) \<Rightarrow> d)"

lemma self_db_trace: "db_trace empty_db self_db"
proof -
  have "create_task ''u'' 1 self_def empty_db = Inr (''S'', self_db)" by code_simp
  then show ?thesis by (intro trace_step[OF rtranclp.rtrancl_refl]) (rule st_create_task)
qed

theorem reachable_graph_accepted_witness: "validate_dependency_graph self_db \<noteq> Inr ()"
proof -
  have "(''S'', ''S'') \<in> set (d_deps self_db)" by code_simp
  then show ?thesis using reachable_graph_accepted[OF self_db_trace] by blast
qed

end
