(* ===== verification/Interfaces.thy ===== *)
theory Interfaces
  imports World "HOL-Library.List_Lexorder" "HOL-Library.Char_ord"
begin

text \<open>
  \<open>interfaces.py\<close>: the declared outputs of a task, the inputs a dependent requires, and the
  node verification command. The file system and the subprocess are parameters: a file system
  resolves a declared path to the components of an absolute path, and tells what exists there.
\<close>

section \<open>Outside the repository\<close>

record filesystem =
  fs_root :: "string \<Rightarrow> string list"
  fs_resolve :: "string list \<Rightarrow> string \<Rightarrow> string list"
  fs_exists :: "string list \<Rightarrow> bool"
  fs_sha256 :: "string list \<Rightarrow> exc + string"

datatype proc_result = Proc_done int string | Proc_timeout

section \<open>Declarations\<close>

definition contract_json :: "json \<Rightarrow> exc + json" where
  "contract_json v =
    (if v \<in> {JNull, JStr [], JObj []} then Inr JNull
     else case v of
       JStr s \<Rightarrow> (case json_loads s of
           None \<Rightarrow> Inl (ValueError ''contract must contain valid JSON'')
         | Some j \<Rightarrow> Inr j)
     | _ \<Rightarrow> Inr v)"

definition spec_of_item :: "json \<Rightarrow> exc + payload" where
  "spec_of_item item = (case item of
      JStr s \<Rightarrow> Inr [(''path'', JStr s), (''required'', JBool True)]
    | JObj p \<Rightarrow>
        if truthy (jget ''path'' p) then Inr (dict_merge [(''required'', JBool True)] p)
        else Inl (ValueError ''each output artifact must declare a path'')
    | _ \<Rightarrow> Inl (ValueError ''each output artifact must declare a path''))"

definition spec_items :: "json \<Rightarrow> exc + json list" where
  "spec_items v =
    (let v1 = (case v of JObj p \<Rightarrow> (case map_of p ''artifacts'' of None \<Rightarrow> v | Some a \<Rightarrow> a) | _ \<Rightarrow> v)
     in case v1 of
       JStr s \<Rightarrow> Inr [JStr s]
     | JObj p \<Rightarrow> Inr (map (\<lambda>(k, item). JObj (dict_merge [(''path'', JStr k)]
         (case item of JObj q \<Rightarrow> q | _ \<Rightarrow> []))) p)
     | JList xs \<Rightarrow> Inr xs
     | _ \<Rightarrow> Inl (ValueError ''output_artifacts must be a list or path mapping''))"

definition artifact_specs :: "json \<Rightarrow> exc + payload list" where
  "artifact_specs value = bindE (contract_json value) (\<lambda>v.
    if v = JNull then Inr [] else bindE (spec_items v) (mapE spec_of_item))"

definition inside :: "string list \<Rightarrow> string list \<Rightarrow> bool" where
  "inside path root = (take (length root) path = root)"

definition relative_text :: "string list \<Rightarrow> string list \<Rightarrow> string" where
  "relative_text path root =
    (let r = drop (length root) path in if r = [] then ''.'' else join ''/'' r)"

text \<open>The elements that a \<open>for\<close> over the value yields.\<close>

fun iterate :: "json \<Rightarrow> exc + json list" where
  "iterate (JList xs) = Inr xs"
| "iterate (JStr s) = Inr (map (\<lambda>c. JStr [c]) s)"
| "iterate (JObj p) = Inr (map (\<lambda>(k, _). JStr k) p)"
| "iterate _ = Inl (TypeError ''object is not iterable'')"

section \<open>Outputs\<close>

text \<open>A check either goes on with the paths checked so far, or stops with a detail.\<close>

type_synonym verdict = "bool \<times> payload"

definition check_spec ::
    "filesystem \<Rightarrow> string list \<Rightarrow> payload \<Rightarrow> string list \<Rightarrow> exc + (payload + string list)" where
  "check_spec fs root spec checked =
    bindE (jkey ''path'' spec) (\<lambda>pv.
      let name = py_str pv; path = fs_resolve fs root name in
      if \<not> inside path root
        then Inr (Inl [(''reason'', JStr ''artifact_escapes_repository''), (''path'', JStr name)])
      else let ex = fs_exists fs path;
               checked' = checked @ [relative_text path root];
               seen = JList (map JStr checked') in
        if truthy (jget_default ''required'' (JBool True) spec) \<and> \<not> ex
          then Inr (Inl [(''reason'', JStr ''missing_output_artifact''), (''path'', JStr name),
            (''checked'', seen)])
        else if ex \<and> truthy (jget ''sha256'' spec) then
          bindE (fs_sha256 fs path) (\<lambda>digest.
            if JStr digest \<noteq> jget ''sha256'' spec
              then Inr (Inl [(''reason'', JStr ''artifact_digest_mismatch''), (''path'', JStr name),
                (''expected'', jget ''sha256'' spec), (''actual'', JStr digest), (''checked'', seen)])
            else Inr (Inr checked'))
        else Inr (Inr checked'))"

fun check_specs ::
    "filesystem \<Rightarrow> string list \<Rightarrow> payload list \<Rightarrow> string list \<Rightarrow> exc + (payload + string list)" where
  "check_specs fs root [] checked = Inr (Inr checked)"
| "check_specs fs root (s # ss) checked =
    bindE (check_spec fs root s checked) (\<lambda>r.
      case r of Inl bad \<Rightarrow> Inr (Inl bad) | Inr checked' \<Rightarrow> check_specs fs root ss checked')"

definition schema_missing :: "json \<Rightarrow> string list \<Rightarrow> exc + json list" where
  "schema_missing schema checked = (case schema of
      JObj p \<Rightarrow>
        if truthy (jget ''required'' p)
        then bindE (bindE (iterate (jget ''required'' p)) hash_all) (\<lambda>names.
          Inr (filter (\<lambda>n. n \<notin> JStr ` set checked) names))
        else Inr []
    | _ \<Rightarrow> Inr [])"

text \<open>A column as a value: \<open>None\<close> or text.\<close>

definition validate_output_artifacts :: "filesystem \<Rightarrow> task_row \<Rightarrow> exc + verdict" where
  "validate_output_artifacts fs t =
    (case artifact_specs (jopt (t_output_artifacts t)) of
       Inl (ValueError msg) \<Rightarrow>
         Inr (False, [(''reason'', JStr ''malformed_output_artifacts''), (''error'', JStr msg)])
     | Inl e \<Rightarrow> Inl e
     | Inr specs \<Rightarrow>
        (if specs = [] \<and> \<not> truthy (jopt (t_output_schema t)) then Inr (True, [(''checked'', JList [])])
         else bindE (check_specs fs (fs_root fs (t_repo t)) specs []) (\<lambda>r.
           case r of
             Inl bad \<Rightarrow> Inr (False, bad)
           | Inr checked \<Rightarrow>
               bindE (contract_json (jopt (t_output_schema t))) (\<lambda>schema.
               bindE (schema_missing schema checked) (\<lambda>missing.
                 if missing \<noteq> [] then Inr (False, [(''reason'', JStr ''output_schema_missing''),
                   (''missing'', JList missing), (''checked'', JList (map JStr checked))])
                 else Inr (True, [(''checked'', JList (map JStr checked))]))))))"

section \<open>Inputs\<close>

definition required_inputs :: "json \<Rightarrow> exc + string list" where
  "required_inputs value = bindE (contract_json value) (\<lambda>v.
    if \<not> truthy v then Inr []
    else case v of
      JList xs \<Rightarrow> Inr (map (\<lambda>item. py_str (case item of JObj p \<Rightarrow> jget ''path'' p | _ \<Rightarrow> item)) xs)
    | JObj p \<Rightarrow>
        bindE (iterate (json_or (json_or (jget ''required_artifacts'' p) (jget ''requires'' p)) (JList [])))
          (\<lambda>xs. Inr (map py_str xs))
    | _ \<Rightarrow> Inl (ValueError ''input contract must be a list or object''))"

text \<open>\<open>sorted\<close> of a set of texts.\<close>

definition sorted_texts :: "string list \<Rightarrow> string list" where
  "sorted_texts ss = sort (remdups ss)"

text \<open>
  \<open>sorted\<close> of a set of values. Texts are in their order and integers in theirs; values of several
  types are not ordered.
\<close>

definition sorted_values :: "json list \<Rightarrow> exc + json list" where
  "sorted_values vs =
    (let xs = remdups vs in
     if length xs \<le> 1 then Inr xs
     else case mapE as_text xs of
       Inr ts \<Rightarrow> Inr (map JStr (sort ts))
     | Inl _ \<Rightarrow> (case mapE as_int xs of
         Inr is \<Rightarrow> Inr (map JInt (sort is))
       | Inl _ \<Rightarrow> Inl (TypeError ''values of these types are not ordered'')))"

definition detail_row :: "string \<Rightarrow> bool \<Rightarrow> payload \<Rightarrow> json" where
  "detail_row tid ok detail = JObj (dict_merge [(''task_id'', JStr tid), (''ok'', JBool ok)] detail)"

text \<open>The loop over the prerequisites: available paths and details, or a failing verdict.\<close>

fun check_upstream ::
    "filesystem \<Rightarrow> db \<Rightarrow> string list \<Rightarrow> json list \<Rightarrow> json list \<Rightarrow> exc + (payload + json list \<times> json list)" where
  "check_upstream fs d [] avail ups = Inr (Inr (avail, ups))"
| "check_upstream fs d (dep # deps) avail ups =
    (case find_task dep d of
       None \<Rightarrow> Inr (Inl [(''reason'', JStr ''missing_prerequisite''), (''task_id'', JStr dep)])
     | Some t \<Rightarrow>
        bindE (validate_output_artifacts fs t) (\<lambda>(ok, detail).
          let ups' = ups @ [detail_row dep ok detail] in
          if \<not> ok then Inr (Inl [(''reason'', JStr ''upstream_artifact_invalid''), (''upstream'', JList ups')])
          else case artifact_specs (jopt (t_output_artifacts t)) of
            Inl (ValueError msg) \<Rightarrow> Inr (Inl [(''reason'', JStr ''malformed_output_artifacts''),
              (''task_id'', JStr dep), (''error'', JStr msg), (''upstream'', JList ups')])
          | Inl e \<Rightarrow> Inl e
          | Inr specs \<Rightarrow> bindE (hash_all (map (jget ''path'') specs)) (\<lambda>paths.
              check_upstream fs d deps (avail @ paths) ups')))"

definition validate_dependency_interfaces ::
    "filesystem \<Rightarrow> db \<Rightarrow> string \<Rightarrow> string list \<Rightarrow> exc + verdict" where
  "validate_dependency_interfaces fs d tid deps =
    (case find_task tid d of
       None \<Rightarrow> Inr (False, [(''reason'', JStr ''unknown_task'')])
     | Some t \<Rightarrow>
        bindE (check_upstream fs d deps [] []) (\<lambda>r.
          case r of
            Inl bad \<Rightarrow> Inr (False, bad)
          | Inr (avail, ups) \<Rightarrow>
              (case required_inputs (jopt (t_input_contract t)) of
                 Inl (ValueError msg) \<Rightarrow> Inr (False, [(''reason'', JStr ''malformed_input_contract''),
                   (''error'', JStr msg), (''upstream'', JList ups)])
               | Inl e \<Rightarrow> Inl e
               | Inr required \<Rightarrow>
                  (let missing = sorted_texts (filter (\<lambda>s. JStr s \<notin> set avail) required) in
                   bindE (sorted_values avail) (\<lambda>vs.
                   let shown = JList vs in
                   if missing \<noteq> [] then Inr (False, [(''reason'', JStr ''missing_dependency_inputs''),
                     (''missing'', JList (map JStr missing)), (''available'', shown), (''upstream'', JList ups)])
                   else Inr (True, [(''upstream'', JList ups), (''required'', JList (map JStr required)),
                     (''available'', shown)]))))))"

section \<open>Node verification\<close>

text \<open>The command ends or is late; a missing directory or an output that is not text raises.\<close>

definition run_node_verification ::
    "(string \<Rightarrow> string \<Rightarrow> exc + proc_result) \<Rightarrow> task_row \<Rightarrow> exc + verdict" where
  "run_node_verification run t =
    (case t_node_verify_cmd t of
       None \<Rightarrow> Inr (True, [(''skipped'', JBool True)])
     | Some cmd \<Rightarrow>
        if cmd = [] then Inr (True, [(''skipped'', JBool True)])
        else bindE (run cmd (t_repo t)) (\<lambda>res. case res of
          Proc_timeout \<Rightarrow> Inr (False, [(''reason'', JStr ''node_verification_timeout'')])
        | Proc_done code out \<Rightarrow>
            Inr (code = 0, [(''exit_code'', JInt code), (''output_tail'', JStr (py_from (-2000) out))])))"

section \<open>Laws\<close>

lemma mapE_mem: "mapE f xs = Inr ys \<Longrightarrow> y \<in> set ys \<Longrightarrow> \<exists>x \<in> set xs. f x = Inr y"
  by (induction xs arbitrary: ys) (auto split: sum.splits)

text \<open>What the check of one declared output has established when it goes on.\<close>

definition output_ok :: "filesystem \<Rightarrow> string list \<Rightarrow> payload \<Rightarrow> bool" where
  "output_ok fs root spec =
    (let path = fs_resolve fs root (py_str (jget ''path'' spec)) in
     inside path root \<and>
     (truthy (jget_default ''required'' (JBool True) spec) \<longrightarrow> fs_exists fs path) \<and>
     (fs_exists fs path \<and> truthy (jget ''sha256'' spec) \<longrightarrow>
       map_sum id JStr (fs_sha256 fs path) = Inr (jget ''sha256'' spec)))"

lemma check_spec_ok:
  assumes "check_spec fs root spec checked = Inr (Inr checked')"
  shows "output_ok fs root spec \<and>
    checked' = checked @ [relative_text (fs_resolve fs root (py_str (jget ''path'' spec))) root]"
proof -
  obtain pv where pv: "map_of spec ''path'' = Some pv"
    using assms by (auto simp: check_spec_def bindE_Inr_iff jkey_def split: option.splits)
  then show ?thesis
    using assms
    by (auto simp: check_spec_def Let_def bindE_Inr_iff output_ok_def map_sum_Inr_iff split: if_splits)
qed

lemma check_specs_ok:
  "check_specs fs root specs checked = Inr (Inr checked') \<Longrightarrow>
    (\<forall>s \<in> set specs. output_ok fs root s) \<and>
    checked' = checked @ map (\<lambda>s. relative_text (fs_resolve fs root (py_str (jget ''path'' s))) root) specs"
proof (induction specs arbitrary: checked)
  case (Cons s specs)
  obtain c1 where c1: "check_spec fs root s checked = Inr (Inr c1)"
    "check_specs fs root specs c1 = Inr (Inr checked')"
    using Cons.prems by (auto simp: bindE_Inr_iff case_sum_iff)
  then show ?case using check_spec_ok[OF c1(1)] Cons.IH[OF c1(2)] by simp
qed simp

text \<open>The names that a declared output schema requires.\<close>

definition schema_names :: "json \<Rightarrow> exc + json list" where
  "schema_names schema = (case schema of
      JObj p \<Rightarrow> if truthy (jget ''required'' p) then bindE (iterate (jget ''required'' p)) hash_all else Inr []
    | _ \<Rightarrow> Inr [])"

lemma schema_missing_names:
  "schema_missing schema checked =
    map_sum id (filter (\<lambda>n. n \<notin> JStr ` set checked)) (schema_names schema)"
  by (auto simp: schema_missing_def schema_names_def bindE_def split: json.splits sum.splits)

lemma schema_of_nothing:
  "\<not> truthy (jopt c) \<Longrightarrow> contract_json (jopt c) = Inr JNull"
  by (auto simp: jopt_def contract_json_def split: option.splits)

text \<open>
  C15. Output validation is sound: when it accepts, the declaration parses and every declared
  output resolves inside the repository, exists if it is required, and has the declared digest if
  it exists. The verdict lists exactly the declared outputs by their relative paths, and the output
  schema parses and requires only names of that list.
\<close>

theorem accepted_outputs_sound:
  assumes "validate_output_artifacts fs t = Inr (True, detail)"
  shows "\<exists>specs checked schema names.
    artifact_specs (jopt (t_output_artifacts t)) = Inr specs \<and>
    (\<forall>s \<in> set specs. output_ok fs (fs_root fs (t_repo t)) s) \<and>
    checked = map (\<lambda>s. relative_text (fs_resolve fs (fs_root fs (t_repo t)) (py_str (jget ''path'' s)))
      (fs_root fs (t_repo t))) specs \<and>
    detail = [(''checked'', JList (map JStr checked))] \<and>
    contract_json (jopt (t_output_schema t)) = Inr schema \<and>
    schema_names schema = Inr names \<and> set names \<subseteq> JStr ` set checked"
proof (cases "artifact_specs (jopt (t_output_artifacts t))")
  case (Inl e)
  then show ?thesis using assms by (simp add: validate_output_artifacts_def split: exc.splits)
next
  case (Inr specs)
  let ?root = "fs_root fs (t_repo t)"
  show ?thesis
  proof (cases "specs = [] \<and> \<not> truthy (jopt (t_output_schema t))")
    case True
    then have "contract_json (jopt (t_output_schema t)) = Inr JNull" using schema_of_nothing by blast
    moreover have "detail = [(''checked'', JList [])]"
      using assms Inr True by (simp add: validate_output_artifacts_def)
    ultimately show ?thesis using Inr True by (simp add: schema_names_def)
  next
    case False
    then obtain checked schema where c: "check_specs fs ?root specs [] = Inr (Inr checked)"
      and s: "contract_json (jopt (t_output_schema t)) = Inr schema" "schema_missing schema checked = Inr []"
      and det: "detail = [(''checked'', JList (map JStr checked))]"
      using assms Inr
      by (auto simp: validate_output_artifacts_def bindE_Inr_iff case_sum_iff split: if_splits)
    obtain names where n: "schema_names schema = Inr names" "set names \<subseteq> JStr ` set checked"
      using s(2) by (auto simp: schema_missing_names map_sum_Inr_iff filter_empty_conv subset_eq dest!: sym[of "[]"])
    show ?thesis using Inr check_specs_ok[OF c] s(1) det n by simp
  qed
qed

definition demo_fs :: filesystem where
  "demo_fs = \<lparr>fs_root = (\<lambda>r. [''home'', r]),
    fs_resolve = (\<lambda>root name. if name = ''../x'' then butlast root @ [''x''] else root @ [name]),
    fs_exists = (\<lambda>p. p = [''home'', ''r'', ''out'']), fs_sha256 = (\<lambda>p. Inr ''00'')\<rparr>"

definition producer :: task_row where
  "producer = \<lparr>t_id = ''P'', t_title = ''t'', t_brief = ''b'', t_repo = ''r'', t_delivery_mode = ''local'',
    t_verify_cmd = None, t_output_artifacts = dumps_col (JList [JStr ''out'']), t_output_schema = None,
    t_input_contract = None, t_node_verify_cmd = None, t_repair_policy = None, t_state = Delivered,
    t_retries = 0, t_max_retries = 2, t_worktree = None, t_session_id = None, t_base_sha = None,
    t_run_id = None, t_current_attempt_id = None, t_candidate_sha = None, t_candidate_branch = None,
    t_created_at = 1, t_updated_at = 1\<rparr>"

definition consumer :: task_row where
  "consumer = producer\<lparr>t_id := ''C'', t_output_artifacts := None, t_state := Blocked,
    t_input_contract := dumps_col (JObj [(''requires'', JList [JStr ''out''])]), t_created_at := 2\<rparr>"

definition interface_db :: db where
  "interface_db = empty_db\<lparr>d_tasks := [producer, consumer], d_deps := [(''C'', ''P'')]\<rparr>"

definition strict_producer :: task_row where
  "strict_producer = producer\<lparr>t_output_schema := dumps_col (JObj [(''required'', JList [JStr ''out''])])\<rparr>"

lemma strict_producer_schema:
  "contract_json (jopt (t_output_schema strict_producer)) = Inr (JObj [(''required'', JList [JStr ''out''])])"
  by code_simp

theorem accepted_outputs_sound_witness:
  "\<exists>specs names. artifact_specs (jopt (t_output_artifacts strict_producer)) = Inr specs \<and>
    (\<forall>s \<in> set specs. output_ok demo_fs (fs_root demo_fs (t_repo strict_producer)) s) \<and>
    schema_names (JObj [(''required'', JList [JStr ''out''])]) = Inr names \<and> set names \<subseteq> {JStr ''out''}"
proof -
  have "validate_output_artifacts demo_fs strict_producer =
      Inr (True, [(''checked'', JList [JStr ''out''])])"
    by code_simp
  from accepted_outputs_sound[OF this] show ?thesis
    by (fastforce simp: strict_producer_schema)
qed

lemma check_upstream_ok:
  "check_upstream fs d deps avail ups = Inr (Inr (avail', ups')) \<Longrightarrow>
    (\<forall>dep \<in> set deps. \<exists>u det. find_task dep d = Some u \<and> validate_output_artifacts fs u = Inr (True, det)) \<and>
    (\<forall>p \<in> set avail'. p \<in> set avail \<or> (\<exists>dep \<in> set deps. \<exists>u specs. find_task dep d = Some u \<and>
      artifact_specs (jopt (t_output_artifacts u)) = Inr specs \<and> p \<in> jget ''path'' ` set specs))"
proof (induction deps arbitrary: avail ups)
  case (Cons dep deps)
  obtain u where u: "find_task dep d = Some u"
    using Cons.prems by (auto split: option.splits)
  obtain ok det where v: "validate_output_artifacts fs u = Inr (ok, det)"
    using Cons.prems u by (auto simp: bindE_Inr_iff)
  have ok: ok using Cons.prems u v by (auto simp: Let_def split: if_splits)
  obtain specs where sp: "artifact_specs (jopt (t_output_artifacts u)) = Inr specs"
    using Cons.prems u v ok by (auto simp: Let_def split: sum.splits exc.splits)
  have "check_upstream fs d deps (avail @ map (jget ''path'') specs) (ups @ [detail_row dep ok det]) =
      Inr (Inr (avail', ups'))"
    using Cons.prems u v ok sp by (auto simp: bindE_Inr_iff hash_all_def split: if_splits)
  from Cons.IH[OF this] show ?case using u v ok sp by fastforce
qed auto

text \<open>
  C16. Interface validation is sound: when a dependent is accepted, every prerequisite exists and
  passed its own output validation, and every input the dependent requires is a path that some
  prerequisite declares.
\<close>

theorem accepted_interface_sound:
  assumes "validate_dependency_interfaces fs d tid deps = Inr (True, detail)"
  shows "\<exists>t required. find_task tid d = Some t \<and> required_inputs (jopt (t_input_contract t)) = Inr required \<and>
    (\<forall>dep \<in> set deps. \<exists>u det. find_task dep d = Some u \<and> validate_output_artifacts fs u = Inr (True, det)) \<and>
    (\<forall>r \<in> set required. \<exists>dep \<in> set deps. \<exists>u specs. find_task dep d = Some u \<and>
      artifact_specs (jopt (t_output_artifacts u)) = Inr specs \<and> JStr r \<in> jget ''path'' ` set specs)"
proof -
  obtain t where t: "find_task tid d = Some t"
    using assms by (auto simp: validate_dependency_interfaces_def split: option.splits)
  obtain avail ups where up: "check_upstream fs d deps [] [] = Inr (Inr (avail, ups))"
    using assms t by (auto simp: validate_dependency_interfaces_def bindE_Inr_iff case_sum_iff)
  obtain req where req: "required_inputs (jopt (t_input_contract t)) = Inr req"
  proof (cases "required_inputs (jopt (t_input_contract t))")
    case (Inl e)
    then show ?thesis using assms t up by (cases e) (simp_all add: validate_dependency_interfaces_def)
  qed
  have "sorted_texts (filter (\<lambda>s. JStr s \<notin> set avail) req) = []"
    using assms t up req
    by (auto simp: validate_dependency_interfaces_def Let_def bindE_Inr_iff split: if_splits)
  then have "filter (\<lambda>s. JStr s \<notin> set avail) req = []"
    by (metis remdups_eq_nil_iff set_empty set_sort sorted_texts_def)
  then have "\<forall>r \<in> set req. JStr r \<in> set avail"
    by (simp add: filter_empty_conv)
  then show ?thesis
    using t req check_upstream_ok[OF up] by fastforce
qed

theorem accepted_interface_sound_witness:
  "\<exists>t required. find_task ''C'' interface_db = Some t \<and>
    required_inputs (jopt (t_input_contract t)) = Inr required \<and>
    (\<forall>r \<in> set required. \<exists>dep \<in> {''P''}. \<exists>u specs. find_task dep interface_db = Some u \<and>
      artifact_specs (jopt (t_output_artifacts u)) = Inr specs \<and> JStr r \<in> jget ''path'' ` set specs)"
proof -
  have "map_sum id fst (validate_dependency_interfaces demo_fs interface_db ''C'' [''P'']) = Inr True"
    by code_simp
  then obtain det where "validate_dependency_interfaces demo_fs interface_db ''C'' [''P''] = Inr (True, det)"
    by (auto simp: map_sum_Inr_iff)
  from accepted_interface_sound[OF this] show ?thesis by fastforce
qed

end
