(* ===== verification/Deps.thy ===== *)
theory Deps
  imports Graph Interfaces "HOL-Library.Multiset"
begin

text \<open>
  \<open>advance_dependency_states\<close> of \<open>scheduler/core.py\<close>: blocked tasks move to queued or to
  dependency_blocked, pass by pass, until a pass changes nothing. The loop has fuel: every pass
  that changes something takes a task out of blocked or needs_human, so one pass more than there
  are such tasks is enough.
\<close>

section \<open>The handler\<close>

text \<open>The file system and the subprocess at each call.\<close>

record env =
  env_fs :: "nat \<Rightarrow> filesystem"
  env_run :: "nat \<Rightarrow> string \<Rightarrow> string \<Rightarrow> exc + proc_result"

definition dependency_blocking :: "tstate set" where
  "dependency_blocking = {Failed, Cancelled, DependencyBlocked}"

definition blocked_ids :: "db \<Rightarrow> string list" where
  "blocked_ids d = map t_id
    (sort_key t_created_at (sort_key t_id (filter (\<lambda>t. t_state t = Blocked) (d_tasks d))))"

definition dep_states :: "db \<Rightarrow> string list \<Rightarrow> exc + (string \<times> tstate) list" where
  "dep_states d deps = mapE (\<lambda>dep. case find_task dep d of
      None \<Rightarrow> Inl (ValueError ''missing prerequisite'')
    | Some t \<Rightarrow> Inr (dep, t_state t)) deps"

definition blocking_rows :: "bool \<Rightarrow> (string \<times> tstate) list \<Rightarrow> (string \<times> tstate) list" where
  "blocking_rows block_human rows = filter (\<lambda>(dep, q). q \<in> dependency_blocking \<or>
    (block_human \<and> q = NeedsHuman)) rows"

text \<open>\<open>detail.setdefault("node_verification", {})[dep] = node_detail\<close>.\<close>

definition put_node_detail :: "string \<Rightarrow> payload \<Rightarrow> payload \<Rightarrow> payload" where
  "put_node_detail dep nd detail =
    (let old = (case map_of detail ''node_verification'' of Some (JObj p) \<Rightarrow> p | _ \<Rightarrow> [])
     in AList.update ''node_verification'' (JObj (AList.update dep (JObj nd) old)) detail)"

fun verify_nodes :: "env \<Rightarrow> string list \<Rightarrow> verdict \<Rightarrow> ('z, verdict) handler" where
  "verify_nodes E [] v = ret_io v"
| "verify_nodes E (dep # deps) v =
    bind_io (read_db (find_task dep)) (\<lambda>row.
      case row of
        None \<Rightarrow> verify_nodes E deps v
      | Some up \<Rightarrow>
          if fst v then
            bind_io (try_call_io (\<lambda>i. run_node_verification (env_run E i) up)) (\<lambda>nv.
              let detail = put_node_detail dep (snd nv) (snd v) in
              if \<not> fst nv then ret_io (False, AList.update ''failed_task_id'' (JStr dep)
                (AList.update ''reason'' (JStr ''node_verification_failed'') detail))
              else verify_nodes E deps (True, detail))
          else verify_nodes E deps v)"

definition check_interfaces :: "env \<Rightarrow> string \<Rightarrow> string list \<Rightarrow> ('z, verdict) handler" where
  "check_interfaces E tid deps =
    bind_io (read_db (\<lambda>d. d)) (\<lambda>d.
    bind_io (try_call_io (\<lambda>i. validate_dependency_interfaces (env_fs E i) d tid deps)) (\<lambda>v.
      verify_nodes E deps v))"

definition settle_blocked :: "string \<Rightarrow> string \<Rightarrow> payload \<Rightarrow> ('z, bool) handler" where
  "settle_blocked run tid p =
    bind_io (event_io Src_scheduler ''dep.blocked'' (Some tid) p) (\<lambda>cause.
    bind_io (transition_io tid DependencyBlocked cause []) (\<lambda>_. ret_io True))"

definition settle_queued :: "string \<Rightarrow> payload \<Rightarrow> ('z, bool) handler" where
  "settle_queued tid p =
    bind_io (event_io Src_scheduler ''dep.satisfied'' (Some tid) p) (\<lambda>cause.
    bind_io (transition_io tid Queued cause []) (\<lambda>_. ret_io True))"

text \<open>One row of a pass; the result tells whether it changed something.\<close>

definition advance_task :: "env \<Rightarrow> string \<Rightarrow> bool \<Rightarrow> string \<Rightarrow> ('z, bool) handler" where
  "advance_task E run block_human tid =
    bind_io (read_db (\<lambda>d. sort (deps_of tid d))) (\<lambda>deps.
      if deps = [] then settle_queued tid [(''run_id'', JStr run)]
      else
        bind_io (bind_io (read_db (\<lambda>d. dep_states d deps)) lift_exc) (\<lambda>rows.
          if blocking_rows block_human rows \<noteq> [] then
            settle_blocked run tid
              [(''run_id'', JStr run), (''blocked_task_id'', JStr tid),
               (''blocking_prerequisites'', JList (map (\<lambda>(dep, q).
                  JObj [(''task_id'', JStr dep), (''state'', JStr (state_name q))])
                  (blocking_rows block_human rows))),
               (''reason'', JStr ''required prerequisite cannot succeed in this run'')]
          else if list_all (\<lambda>(dep, q). q = Delivered) rows then
            bind_io (check_interfaces E tid deps) (\<lambda>v.
            bind_io (event_io Src_verifier
                (if fst v then ''interface.validation_passed'' else ''interface.validation_failed'') (Some tid)
                (dict_merge [(''run_id'', JStr run), (''task_id'', JStr tid),
                  (''dependencies'', JList (map JStr deps))] (snd v))) (\<lambda>vseq.
              if \<not> fst v then
                settle_blocked run tid
                  [(''run_id'', JStr run), (''blocked_task_id'', JStr tid),
                   (''blocking_prerequisites'', JList (map (\<lambda>dep.
                      JObj [(''task_id'', JStr dep), (''state'', JStr ''interface_failed'')]) deps)),
                   (''reason'', jget_default ''reason'' (JStr ''dependency interface failed'') (snd v)),
                   (''validation_seq'', JInt vseq)]
              else settle_queued tid [(''run_id'', JStr run), (''interface_validation_seq'', JInt vseq)]))
          else ret_io False))"

fun advance_pass :: "env \<Rightarrow> string \<Rightarrow> bool \<Rightarrow> string list \<Rightarrow> bool \<Rightarrow> ('z, bool) handler" where
  "advance_pass E run block_human [] ch = ret_io ch"
| "advance_pass E run block_human (tid # tids) ch =
    bind_io (advance_task E run block_human tid) (\<lambda>c. advance_pass E run block_human tids (ch \<or> c))"

text \<open>\<open>None\<close> is the end of the fuel.\<close>

fun advance_loop :: "env \<Rightarrow> string \<Rightarrow> bool \<Rightarrow> nat \<Rightarrow> bool \<Rightarrow> ('z, bool option) handler" where
  "advance_loop E run block_human 0 ch = ret_io None"
| "advance_loop E run block_human (Suc k) ch =
    bind_io (read_db blocked_ids) (\<lambda>tids.
    bind_io (advance_pass E run block_human tids False) (\<lambda>c.
      if c then advance_loop E run block_human k True else ret_io (Some ch)))"

definition waiting_tasks :: "db \<Rightarrow> nat" where
  "waiting_tasks d = length (filter (\<lambda>t. t_state t \<in> {Blocked, NeedsHuman}) (d_tasks d))"

definition advance_dependency_states :: "env \<Rightarrow> string \<Rightarrow> bool \<Rightarrow> ('z, bool option) handler" where
  "advance_dependency_states E run block_human =
    bind_io (read_db waiting_tasks) (\<lambda>n. advance_loop E run block_human (Suc n) False)"

section \<open>Its writes\<close>

lemma quiet_verify_nodes: "is_quiet (verify_nodes E deps v)"
  by (induction E deps v rule: verify_nodes.induct)
     (simp_all only: verify_nodes.simps Let_def, intro quiet_rules, auto intro!: quiet_rules)

lemma quiet_check_interfaces: "is_quiet (check_interfaces E tid deps)"
  unfolding check_interfaces_def by (intro quiet_rules quiet_verify_nodes)

lemma on_trace_verify_nodes: "on_trace (verify_nodes E deps v)"
  by (induction E deps v rule: verify_nodes.induct)
     (simp_all only: verify_nodes.simps Let_def, intro on_trace_rules, auto intro!: on_trace_rules)

lemma on_trace_check_interfaces: "on_trace (check_interfaces E tid deps)"
  unfolding check_interfaces_def by (intro on_trace_rules on_trace_verify_nodes)

lemma on_trace_settle: "on_trace (settle_blocked run tid p)" "on_trace (settle_queued tid p)"
  unfolding settle_blocked_def settle_queued_def
  by (intro on_trace_rules; simp add: ledger_type_simps)+

lemma on_trace_advance_task: "on_trace (advance_task E run bh tid)"
  unfolding advance_task_def
  by (intro on_trace_rules on_trace_settle on_trace_check_interfaces) (simp add: ledger_type_simps)

lemma on_trace_advance_pass: "on_trace (advance_pass E run bh tids ch)"
  by (induction tids arbitrary: ch) (auto intro!: on_trace_rules on_trace_advance_task)

lemma on_trace_advance_loop: "on_trace (advance_loop E run bh k ch)"
  by (induction k arbitrary: ch) (auto intro!: on_trace_rules on_trace_advance_pass)

lemma on_trace_advance: "on_trace (advance_dependency_states E run bh)"
  unfolding advance_dependency_states_def by (intro on_trace_rules on_trace_advance_loop)

section \<open>One row\<close>

definition task_state :: "string \<Rightarrow> db \<Rightarrow> tstate option" where
  "task_state tid d = map_option t_state (find_task tid d)"

definition all_delivered :: "string \<Rightarrow> db \<Rightarrow> bool" where
  "all_delivered tid d \<longleftrightarrow> (\<forall>dep \<in> set (deps_of tid d). task_state dep d = Some Delivered)"

text \<open>
  Why a blocked task may be settled: some prerequisite can no longer be delivered, or all are
  delivered and the interface check, run on its prerequisites, gave the verdict \<open>ok\<close>, which was
  recorded in an event that the log did not have before.
\<close>

definition blocked_by :: "bool \<Rightarrow> string \<Rightarrow> db \<Rightarrow> bool" where
  "blocked_by bh tid d \<longleftrightarrow> (\<exists>dep \<in> set (deps_of tid d). \<exists>q. task_state dep d = Some q \<and>
    (q \<in> dependency_blocking \<or> bh \<and> q = NeedsHuman))"

definition interface_event :: "string \<Rightarrow> string \<Rightarrow> string list \<Rightarrow> verdict \<Rightarrow> event_row \<Rightarrow> bool" where
  "interface_event run tid deps v e \<longleftrightarrow>
    e_type e = (if fst v then ''interface.validation_passed'' else ''interface.validation_failed'') \<and>
    e_task_id e = Some tid \<and> e_source e = Src_verifier \<and>
    e_payload e = dict_merge [(''run_id'', JStr run), (''task_id'', JStr tid),
      (''dependencies'', JList (map JStr deps))] (snd v)"

definition interface_verdict :: "env \<Rightarrow> string \<Rightarrow> string list \<Rightarrow> db \<Rightarrow> bool \<Rightarrow> bool" where
  "interface_verdict E tid deps d ok \<longleftrightarrow>
    (if ok then (\<exists>i det. validate_dependency_interfaces (env_fs E i) d tid deps = Inr (True, det)) \<and>
      (\<forall>dep \<in> set deps. \<forall>up. find_task dep d = Some up \<longrightarrow>
        (\<exists>j det. run_node_verification (env_run E j) up = Inr (True, det)))
     else (\<exists>i det. validate_dependency_interfaces (env_fs E i) d tid deps = Inr (False, det)) \<or>
      (\<exists>dep \<in> set deps. \<exists>up j det. find_task dep d = Some up \<and>
        run_node_verification (env_run E j) up = Inr (False, det)))"

definition interface_checked :: "env \<Rightarrow> string \<Rightarrow> string \<Rightarrow> bool \<Rightarrow> db \<Rightarrow> db \<Rightarrow> bool" where
  "interface_checked E run tid ok d d' \<longleftrightarrow>
    (let deps = sort (deps_of tid d) in
     \<exists>d0 detail e. interface_verdict E tid deps d0 ok \<and> find_task tid d0 = find_task tid d \<and>
      (\<forall>dep \<in> set deps. find_task dep d0 = find_task dep d') \<and>
      e \<in> set (d_events d') - set (d_events d) \<and> interface_event run tid deps (ok, detail) e)"

text \<open>The rules, on the prerequisites as \<open>d1\<close> has them, for a settlement between \<open>d\<close> and \<open>d'\<close>.\<close>

definition settled :: "env \<Rightarrow> string \<Rightarrow> bool \<Rightarrow> tstate \<Rightarrow> string \<Rightarrow> db \<Rightarrow> db \<Rightarrow> db \<Rightarrow> bool" where
  "settled E run bh q tid d1 d d' \<longleftrightarrow>
    q = Queued \<and> all_delivered tid d1 \<and> (deps_of tid d = [] \<or> interface_checked E run tid True d d') \<or>
    q = DependencyBlocked \<and> (blocked_by bh tid d1 \<or>
      deps_of tid d \<noteq> [] \<and> all_delivered tid d1 \<and> interface_checked E run tid False d d')"

text \<open>A blocked task on which a pass has nothing to do.\<close>

definition must_wait :: "bool \<Rightarrow> string \<Rightarrow> db \<Rightarrow> bool" where
  "must_wait bh tid d \<longleftrightarrow>
    (\<forall>dep \<in> set (deps_of tid d). \<exists>q. task_state dep d = Some q \<and> q \<notin> dependency_blocking \<and>
      \<not> (bh \<and> q = NeedsHuman)) \<and> \<not> all_delivered tid d"

lemma dep_states_Inr:
  "dep_states d deps = Inr rows \<Longrightarrow> map fst rows = deps \<and> (\<forall>(dep, q) \<in> set rows. task_state dep d = Some q)"
proof (induction deps arbitrary: rows)
  case Nil
  then show ?case by (simp add: dep_states_def)
next
  case (Cons dep deps)
  obtain t rows' where "find_task dep d = Some t" "dep_states d deps = Inr rows'" "rows = (dep, t_state t) # rows'"
    using Cons.prems unfolding dep_states_def by (auto split: sum.splits option.splits)
  then show ?case using Cons.IH by (auto simp: task_state_def)
qed

lemma settle_run:
  assumes "bind_io (event_io src typ (Some tid) p) (\<lambda>cause.
    bind_io (transition_io tid q cause []) (\<lambda>_. ret_io True)) w = (r, w')"
  shows "case r of Inl e \<Rightarrow> quiet_on w w' | Inr c \<Rightarrow> c \<and> moved tid q (w_db w) (w_db w')"
proof -
  obtain s w1 where e: "event_io src typ (Some tid) p w = (Inr s, w1)"
    by (rule event_io_returns)
  have q1: "quiet_on w w1" by (rule keepsD[OF quiet_event e])
  obtain r2 w2 where t: "transition_io tid q s [] w1 = (r2, w2)" by fastforce
  show ?thesis
  proof (cases r2)
    case (Inl x)
    then have "w_db w2 = w_db w1" using transition_io_moved[OF t] by simp
    then show ?thesis using assms e t Inl q1 by (auto simp: bind_io_def quiet_on_def)
  next
    case (Inr y)
    then have "moved tid q (w_db w1) (w_db w2)" using transition_io_moved[OF t] by simp
    then show ?thesis
      using assms e t Inr moved_quiet[OF _ q1] by (auto simp: bind_io_def ret_io_apply)
  qed
qed

lemma read_db_bind: "bind_io (read_db f) k w = k (f (w_db w)) w"
  by (simp add: bind_io_def read_db_def gets_io_def)

lemma lift_exc_bind: "bind_io (bind_io (read_db f) lift_exc) k w =
    (case f (w_db w) of Inl e \<Rightarrow> (Inl e, w) | Inr x \<Rightarrow> k x w)"
  by (simp add: bind_io_def read_db_def gets_io_def lift_exc_def)

lemma wf_run: "on_trace m \<Longrightarrow> m w = (r, w') \<Longrightarrow> db_wf (w_db w) \<Longrightarrow> db_wf (w_db w')"
  using keepsD wf_trace by (metis world_trace_def)

text \<open>The log only grows, and a new event is one that it did not hold.\<close>

lemma events_grow:
  assumes "on_trace m" "m w = (r, w')" "db_wf (w_db w)"
  shows "set (d_events (w_db w)) \<subseteq> set (d_events (w_db w'))"
proof -
  have "db_trace (w_db w) (w_db w')" using keepsD[OF assms(1,2)] by (simp add: world_trace_def)
  from tasks.trace_log[OF this assms(3)] show ?thesis by auto
qed

lemma event_is_new:
  assumes "db_wf d" "e_seq e = next_seq (d_events d)"
  shows "e \<notin> set (d_events d)"
proof -
  have "seq_ok (d_events d @ [e])" using assms by (intro seq_ok_append) (simp_all add: db_wf_def)
  then have "map e_seq (d_events d @ [e]) = map (\<lambda>i. int i + 1) [0..<length (d_events d @ [e])]"
    by (simp add: seq_ok_def)
  moreover have "distinct (map (\<lambda>i. int i + 1) [0..<n])" for n :: nat
    by (simp add: distinct_map inj_on_def)
  ultimately have "distinct (map e_seq (d_events d @ [e]))" by metis
  then show ?thesis by auto
qed

lemma verify_nodes_verdict:
  fixes w :: "'z world_scheme"
  shows "verify_nodes E deps v w = (Inr v', w') \<Longrightarrow>
    (fst v' \<longrightarrow> fst v \<and> (\<forall>dep \<in> set deps. \<forall>up. find_task dep (w_db w) = Some up \<longrightarrow>
      (\<exists>j det. run_node_verification (env_run E j) up = Inr (True, det)))) \<and>
    (\<not> fst v' \<longrightarrow> \<not> fst v \<or> (\<exists>dep \<in> set deps. \<exists>up j det. find_task dep (w_db w) = Some up \<and>
      run_node_verification (env_run E j) up = Inr (False, det)))"
proof (induction deps arbitrary: v w)
  case Nil
  then show ?case by (auto simp: ret_io_apply)
next
  case (Cons dep deps)
  consider (gone) "find_task dep (w_db w) = None" | (failed) "find_task dep (w_db w) \<noteq> None" "\<not> fst v"
    | (check) up where "find_task dep (w_db w) = Some up" "fst v" by fastforce
  then show ?case
  proof cases
    case gone
    then have "verify_nodes E deps v w = (Inr v', w')" using Cons.prems by (simp add: read_db_bind)
    from Cons.IH[OF this] gone show ?thesis by auto
  next
    case failed
    then have "verify_nodes E deps v w = (Inr v', w')" using Cons.prems by (auto simp: read_db_bind)
    from Cons.IH[OF this] failed show ?thesis by auto
  next
    case check
    let ?i = "w_calls w" and ?w = "w\<lparr>w_calls := Suc (w_calls w)\<rparr>"
    obtain ok nd where nv: "run_node_verification (env_run E ?i) up = Inr (ok, nd)"
      using Cons.prems check
      by (cases "run_node_verification (env_run E ?i) up")
         (auto simp: read_db_bind bind_io_def[of "try_call_io _"] try_call_io_def call_io_def)
    have eff: "try_call_io (\<lambda>i. run_node_verification (env_run E i) up) w = (Inr (ok, nd), ?w)"
      by (simp add: try_call_io_def call_io_def nv)
    have step: "bind_io (try_call_io (\<lambda>i. run_node_verification (env_run E i) up)) k w = k (ok, nd) ?w"
      for k :: "verdict \<Rightarrow> ('z, verdict) handler" using eff by (rule bind_run)
    show ?thesis
    proof (cases ok)
      case True
      then have "verify_nodes E deps (True, put_node_detail dep nd (snd v)) ?w = (Inr v', w')"
        using Cons.prems check by (simp add: read_db_bind step Let_def)
      from Cons.IH[OF this] check nv True show ?thesis by auto
    next
      case False
      then have "\<not> fst v'"
        using Cons.prems check by (auto simp: read_db_bind step Let_def ret_io_apply)
      then show ?thesis using check nv False by auto
    qed
  qed
qed

lemma check_interfaces_verdict:
  fixes w :: "'z world_scheme"
  assumes "check_interfaces E tid deps w = (Inr v, w')"
  shows "interface_verdict E tid deps (w_db w) (fst v)"
proof -
  let ?i = "w_calls w" and ?w = "w\<lparr>w_calls := Suc (w_calls w)\<rparr>"
  obtain v0 where v0: "validate_dependency_interfaces (env_fs E ?i) (w_db w) tid deps = Inr v0"
    using assms
    by (cases "validate_dependency_interfaces (env_fs E ?i) (w_db w) tid deps")
       (auto simp: check_interfaces_def read_db_bind bind_io_def[of "try_call_io _"] try_call_io_def call_io_def)
  have eff: "try_call_io (\<lambda>i. validate_dependency_interfaces (env_fs E i) (w_db w) tid deps) w = (Inr v0, ?w)"
    by (simp add: try_call_io_def call_io_def v0)
  have step: "bind_io (try_call_io (\<lambda>i. validate_dependency_interfaces (env_fs E i) (w_db w) tid deps)) k w =
      k v0 ?w" for k :: "verdict \<Rightarrow> ('z, verdict) handler" using eff by (rule bind_run)
  have "verify_nodes E deps v0 ?w = (Inr v, w')"
    using assms by (simp add: check_interfaces_def read_db_bind step)
  from verify_nodes_verdict[OF this] show ?thesis
    using v0 unfolding interface_verdict_def by (cases v0) (auto; blast)
qed

lemma advance_task_run:
  assumes "advance_task E run bh tid w = (r, w')" "db_wf (w_db w)"
  shows "case r of
      Inl e \<Rightarrow> quiet_on w w'
    | Inr True \<Rightarrow> \<exists>q. moved tid q (w_db w) (w_db w') \<and> settled E run bh q tid (w_db w) (w_db w) (w_db w')
    | Inr False \<Rightarrow> w' = w \<and> must_wait bh tid (w_db w)"
proof -
  let ?d = "w_db w"
  let ?deps = "sort (deps_of tid ?d)"
  show ?thesis
  proof (cases "?deps = []")
    case True
    then have "deps_of tid ?d = []" by (metis set_empty set_sort)
    moreover have "case r of Inl e \<Rightarrow> quiet_on w w' | Inr c \<Rightarrow> c \<and> moved tid Queued ?d (w_db w')"
      using assms True by (intro settle_run) (simp add: advance_task_def read_db_bind settle_queued_def)
    ultimately show ?thesis
      by (auto simp: all_delivered_def settled_def split: sum.splits)
  next
    case False
    note nonempty = this
    show ?thesis
    proof (cases "dep_states ?d ?deps")
      case (Inl e)
      then show ?thesis
        using assms False by (auto simp: advance_task_def read_db_bind lift_exc_bind quiet_on_def)
    next
      case (Inr rows)
      have rows: "map fst rows = ?deps" "\<forall>(dep, q) \<in> set rows. task_state dep ?d = Some q"
        using dep_states_Inr[OF Inr] by auto
      have st: "dep \<in> set (deps_of tid ?d) \<longleftrightarrow> (\<exists>q. (dep, q) \<in> set rows)" for dep
        using rows by (metis (no_types, lifting) fst_conv image_iff list.set_map prod.collapse set_sort)
      show ?thesis
      proof (cases "blocking_rows bh rows = []")
        case False
        have "case r of Inl e \<Rightarrow> quiet_on w w' | Inr c \<Rightarrow> c \<and> moved tid DependencyBlocked ?d (w_db w')"
          using assms nonempty Inr False
          by (intro settle_run) (simp add: advance_task_def read_db_bind lift_exc_bind settle_blocked_def)
        moreover have "blocked_by bh tid ?d"
        proof -
          obtain dep q where "(dep, q) \<in> set rows" "q \<in> dependency_blocking \<or> bh \<and> q = NeedsHuman"
            using False by (auto simp: blocking_rows_def filter_empty_conv)
          then show ?thesis using rows(2) st unfolding blocked_by_def by fast
        qed
        ultimately show ?thesis by (auto simp: settled_def split: sum.splits)
      next
        case True
        show ?thesis
        proof (cases "list_all (\<lambda>(dep, q). q = Delivered) rows")
          case False
          have nb: "q \<notin> dependency_blocking \<and> \<not> (bh \<and> q = NeedsHuman)" if "(dep, q) \<in> set rows" for dep q
            using True that by (auto simp: blocking_rows_def filter_empty_conv)
          have val: "task_state dep ?d = Some q" if "(dep, q) \<in> set rows" for dep q
            using rows(2) that by auto
          obtain dep0 q0 where d0: "(dep0, q0) \<in> set rows" "q0 \<noteq> Delivered"
            using False by (auto simp: list_all_iff)
          have "\<not> all_delivered tid ?d"
            using d0 val[OF d0(1)] st by (auto simp: all_delivered_def intro!: bexI[of _ dep0])
          then have "must_wait bh tid ?d"
            using st nb val unfolding must_wait_def by blast
          then show ?thesis
            using assms nonempty Inr True False
            by (auto simp: advance_task_def read_db_bind lift_exc_bind ret_io_apply)
        next
          case deliv: True
          have del: "all_delivered tid ?d"
            unfolding all_delivered_def
          proof
            fix dep assume "dep \<in> set (deps_of tid ?d)"
            then obtain q where "(dep, q) \<in> set rows" using st by auto
            then show "task_state dep ?d = Some Delivered" using rows(2) deliv by (auto simp: list_all_iff)
          qed
          obtain c w1 where c: "check_interfaces E tid ?deps w = (c, w1)" by fastforce
          have q1: "quiet_on w w1" by (rule keepsD[OF quiet_check_interfaces c])
          show ?thesis
          proof (cases c)
            case (Inl e)
            then show ?thesis
              using assms nonempty Inr True deliv c q1
              by (auto simp: advance_task_def read_db_bind lift_exc_bind bind_io_def[of "check_interfaces E tid ?deps"])
          next
            case c': (Inr v)
            let ?ty = "if fst v then ''interface.validation_passed'' else ''interface.validation_failed''"
            let ?p = "dict_merge [(''run_id'', JStr run), (''task_id'', JStr tid),
              (''dependencies'', JList (map JStr ?deps))] (snd v)"
            obtain s w2 where e: "event_io Src_verifier ?ty (Some tid) ?p w1 = (Inr s, w2)"
              by (rule event_io_returns)
            have q2: "quiet_on w w2" using quiet.R_trans[OF q1 keepsD[OF quiet_event e]] .
            have cc: "check_interfaces E tid ?deps w = (Inr v, w1)" using c c' by simp
            have bc: "bind_io (check_interfaces E tid ?deps) k w = k v w1"
              for k :: "verdict \<Rightarrow> ('a, bool) handler" using cc by (rule bind_run)
            note run = assms nonempty Inr True deliv
            obtain ps where settle: "(if fst v then settle_queued tid ps else settle_blocked run tid ps) w2 = (r, w')"
            proof (cases "fst v")
              case v: True
              then have e1: "event_io Src_verifier ''interface.validation_passed'' (Some tid) ?p w1 = (Inr s, w2)"
                using e by simp
              have be: "bind_io (event_io Src_verifier ''interface.validation_passed'' (Some tid) ?p) k w1 = k s w2"
                for k :: "int \<Rightarrow> ('a, bool) handler" using e1 by (rule bind_run)
              have "settle_queued tid [(''run_id'', JStr run), (''interface_validation_seq'', JInt s)] w2 = (r, w')"
                using run v by (simp add: advance_task_def read_db_bind lift_exc_bind bc be)
              then show ?thesis using that v by simp
            next
              case v: False
              then have e1: "event_io Src_verifier ''interface.validation_failed'' (Some tid) ?p w1 = (Inr s, w2)"
                using e by simp
              have be: "bind_io (event_io Src_verifier ''interface.validation_failed'' (Some tid) ?p) k w1 = k s w2"
                for k :: "int \<Rightarrow> ('a, bool) handler" using e1 by (rule bind_run)
              obtain p where "settle_blocked run tid p w2 = (r, w')"
                using run v by (simp add: advance_task_def read_db_bind lift_exc_bind bc be)
              then show ?thesis using that v by simp
            qed
            have out: "case r of Inl e \<Rightarrow> quiet_on w2 w'
                | Inr k \<Rightarrow> k \<and> moved tid (if fst v then Queued else DependencyBlocked) (w_db w2) (w_db w')"
              using settle settle_run
              by (cases "fst v") (simp_all add: settle_queued_def settle_blocked_def)
            have wf1: "db_wf (w_db w1)" by (rule wf_run[OF on_trace_check_interfaces c run(2)])
            have "on_trace (event_io Src_verifier ?ty (Some tid) ?p)"
              by (rule on_trace_event) (simp add: ledger_type_simps)
            from wf_run[OF this, of w1] have wf2: "db_wf (w_db w2)" using e wf1 by blast
            have "on_trace (if fst v then settle_queued tid ps else settle_blocked run tid ps)"
              by (cases "fst v") (simp_all only: if_True if_False on_trace_settle)
            from events_grow[OF this, of w2] have grow: "set (d_events (w_db w2)) \<subseteq> set (d_events (w_db w'))"
              using settle wf2 by blast
            have "interface_checked E run tid (fst v) ?d (w_db w')"
              if m: "moved tid q (w_db w) (w_db w')" for q
            proof -
              let ?e = "new_event (w_db w1) (w_clock w1 (w_calls w1)) Src_verifier ?ty (Some tid) ?p no_usage"
              have "?e \<notin> set (d_events ?d)"
                using event_is_new[OF wf1, of ?e] events_grow[OF on_trace_check_interfaces c assms(2)] by auto
              moreover have "?e \<in> set (d_events (w_db w2))"
                using e by (auto simp: event_io_run)
              moreover note grow
              moreover have "find_task dep (w_db w') = find_task dep ?d" if "dep \<in> set (deps_of tid ?d)" for dep
              proof -
                have "task_state dep ?d = Some Delivered" using del that by (simp add: all_delivered_def)
                then have "dep \<noteq> tid"
                  using m by (auto simp: moved_def task_state_def legal_def terminal_def)
                then show ?thesis using m by (simp add: moved_def)
              qed
              moreover have "interface_event run tid ?deps (fst v, snd v) ?e"
                by (simp add: interface_event_def)
              ultimately show ?thesis
                using check_interfaces_verdict[OF cc]
                unfolding interface_checked_def Let_def
                by (intro exI[of _ ?d] exI[of _ "snd v"] exI[of _ ?e]) auto
            qed
            then show ?thesis
              using del False out moved_quiet[OF _ q2] quiet.R_trans[OF q2]
              by (fastforce simp: settled_def split: sum.splits if_splits)
          qed
        qed
      qed
    qed
  qed
qed

section \<open>A pass and the fixpoint\<close>

text \<open>
  What the loop does to the tasks: a row stays as it is, or a blocked task is settled by the rules.
\<close>

definition advanced :: "env \<Rightarrow> string \<Rightarrow> bool \<Rightarrow> db \<Rightarrow> db \<Rightarrow> bool" where
  "advanced E run bh d d' \<longleftrightarrow>
    (\<forall>x. deps_of x d' = deps_of x d) \<and> set (d_events d) \<subseteq> set (d_events d') \<and>
    (\<forall>x. find_task x d' = find_task x d \<or> task_state x d = Some Blocked \<and>
      (\<exists>q. task_state x d' = Some q \<and> settled E run bh q x d' d d'))"

lemma advanced_refl: "advanced E run bh d d"
  by (simp add: advanced_def)

lemma advanced_row:
  "advanced E run bh d d' \<Longrightarrow> task_state x d \<noteq> Some Blocked \<Longrightarrow> find_task x d' = find_task x d"
  unfolding advanced_def by blast

lemma advanced_row_back:
  "advanced E run bh d d' \<Longrightarrow> task_state x d' = Some Blocked \<Longrightarrow> find_task x d' = find_task x d"
  unfolding advanced_def settled_def by fastforce

lemma settled_state: "settled E run bh q x d1 d d' \<Longrightarrow> q = Queued \<or> q = DependencyBlocked"
  by (auto simp: settled_def)

text \<open>The reasons for a settlement stay true while the prerequisites that decided keep their rows.\<close>

lemma settled_mono:
  assumes s: "settled E run bh q x d1 d d'"
    and d: "deps_of x c = deps_of x d" "deps_of x b = deps_of x d" "deps_of x d1 = deps_of x d"
    and rows: "\<forall>dep \<in> set (deps_of x d). task_state dep d1 \<noteq> Some Blocked \<longrightarrow>
      task_state dep b = task_state dep d1 \<and> find_task dep b' = find_task dep d'"
    and own: "find_task x c = find_task x d"
    and ev: "set (d_events c) \<subseteq> set (d_events d)" "set (d_events d') \<subseteq> set (d_events b')"
  shows "settled E run bh q x b c b'"
proof -
  have del: "all_delivered x b" if "all_delivered x d1"
    using that rows d by (auto simp: all_delivered_def)
  have blk: "blocked_by bh x b" if b1: "blocked_by bh x d1"
  proof -
    obtain dep q' where dq: "dep \<in> set (deps_of x d)" "task_state dep d1 = Some q'"
      "q' \<in> dependency_blocking \<or> bh \<and> q' = NeedsHuman"
      using b1 d(3) by (auto simp: blocked_by_def)
    then have "task_state dep d1 \<noteq> Some Blocked" by (auto simp: dependency_blocking_def)
    then have "task_state dep b = Some q'" using rows dq(1,2) by simp
    then show ?thesis using dq(1,3) d(2) unfolding blocked_by_def by auto
  qed
  have chk: "interface_checked E run x ok c b'" if "interface_checked E run x ok d d'" "all_delivered x d1" for ok
  proof -
    have "find_task dep b' = find_task dep d'" if "dep \<in> set (deps_of x d)" for dep
      using rows that \<open>all_delivered x d1\<close> d(3) by (simp add: all_delivered_def)
    then show ?thesis
      using that(1) own ev unfolding interface_checked_def Let_def d(1) by (fastforce simp: set_sort)
  qed
  show ?thesis using s del blk chk d(1) unfolding settled_def by auto
qed

lemma advanced_trans:
  assumes "advanced E run bh a b" "advanced E run bh b c"
  shows "advanced E run bh a c"
  unfolding advanced_def
proof (intro conjI allI)
  fix x
  have deps: "deps_of y b = deps_of y a" "deps_of y c = deps_of y b" for y
    using assms by (simp_all add: advanced_def)
  have ev: "set (d_events a) \<subseteq> set (d_events b)" "set (d_events b) \<subseteq> set (d_events c)"
    using assms by (simp_all add: advanced_def)
  show "deps_of x c = deps_of x a" "set (d_events a) \<subseteq> set (d_events c)" using deps ev by auto
  have keep: "task_state y b \<noteq> Some Blocked \<Longrightarrow> find_task y c = find_task y b" for y
    by (rule advanced_row[OF assms(2)])
  show "find_task x c = find_task x a \<or> task_state x a = Some Blocked \<and>
      (\<exists>q. task_state x c = Some q \<and> settled E run bh q x c a c)"
  proof (cases "find_task x b = find_task x a")
    case same: True
    show ?thesis
    proof (cases "find_task x c = find_task x b")
      case False
      then obtain q where q: "task_state x b = Some Blocked" "task_state x c = Some q" "settled E run bh q x c b c"
        using assms(2) unfolding advanced_def by blast
      have "settled E run bh q x c a c"
        by (rule settled_mono[OF q(3)]) (use deps same ev in simp_all)
      moreover have "task_state x a = Some Blocked" using q(1) same by (simp add: task_state_def)
      ultimately show ?thesis using q(2) by blast
    qed (use same in simp)
  next
    case False
    then obtain q where q: "task_state x a = Some Blocked" "task_state x b = Some q" "settled E run bh q x b a b"
      using assms(1) unfolding advanced_def by blast
    have "settled E run bh q x c a c"
      by (rule settled_mono[OF q(3)]) (use deps ev keep in \<open>simp_all add: task_state_def\<close>)
    moreover have "find_task x c = find_task x b" using keep settled_state[OF q(3)] q(2) by auto
    then have "task_state x c = Some q" using q(2) by (simp add: task_state_def)
    ultimately show ?thesis using q(1) by blast
  qed
qed

lemma advanced_quiet:
  "quiet_on w w' \<Longrightarrow> set (d_events (w_db w)) \<subseteq> set (d_events (w_db w')) \<Longrightarrow>
    advanced E run bh (w_db w) (w_db w')"
  by (simp add: advanced_def quiet_find quiet_deps)

lemma advanced_moved:
  assumes "moved tid q d d'" "task_state tid d = Some Blocked" "settled E run bh q tid d d d'"
    and "set (d_events d) \<subseteq> set (d_events d')"
  shows "advanced E run bh d d'"
proof -
  have others: "x \<noteq> tid \<Longrightarrow> find_task x d' = find_task x d" for x
    using assms(1) by (simp add: moved_def)
  have self: "task_state tid d' = Some q" and deps: "deps_of x d' = deps_of x d" for x
    using assms(1) by (auto simp: moved_def task_state_def)
  have "settled E run bh q tid d' d d'"
  proof (rule settled_mono[OF assms(3)])
    show "\<forall>dep \<in> set (deps_of tid d). task_state dep d \<noteq> Some Blocked \<longrightarrow>
        task_state dep d' = task_state dep d \<and> find_task dep d' = find_task dep d'"
      using others assms(2) unfolding task_state_def by metis
  qed (simp_all add: deps)
  then show ?thesis
    using others self deps assms(2,4) unfolding advanced_def by metis
qed

definition waiting_ids :: "db \<Rightarrow> string set" where
  "waiting_ids d = {x. task_state x d \<in> {Some Blocked, Some NeedsHuman}}"

lemma waiting_card:
  assumes "db_wf d"
  shows "waiting_tasks d = card (waiting_ids d)" "finite (waiting_ids d)"
proof -
  let ?ts = "filter (\<lambda>t. t_state t \<in> {Blocked, NeedsHuman}) (d_tasks d)"
  have "waiting_ids d = t_id ` set ?ts"
  proof (intro set_eqI iffI)
    fix x assume "x \<in> waiting_ids d"
    then obtain t where "find_task x d = Some t" "t_state t \<in> {Blocked, NeedsHuman}"
      by (auto simp: waiting_ids_def task_state_def)
    then show "x \<in> t_id ` set ?ts" using find_task_Some by force
  next
    fix x assume "x \<in> t_id ` set ?ts"
    then obtain t where "t \<in> set (d_tasks d)" "t_id t = x" "t_state t \<in> {Blocked, NeedsHuman}" by auto
    then show "x \<in> waiting_ids d"
      using find_task_mem[OF assms] by (auto simp: waiting_ids_def task_state_def)
  qed
  moreover have "distinct (map t_id ?ts)"
    using assms by (simp add: db_wf_def distinct_map_filter)
  ultimately show "waiting_tasks d = card (waiting_ids d)" "finite (waiting_ids d)"
    using distinct_card[of "map t_id ?ts"] by (simp_all add: waiting_tasks_def)
qed

lemma waiting_advanced:
  assumes "advanced E run bh d d'"
  shows "waiting_ids d' \<subseteq> waiting_ids d"
proof
  fix x assume x: "x \<in> waiting_ids d'"
  show "x \<in> waiting_ids d"
  proof (cases "find_task x d' = find_task x d")
    case True
    then show ?thesis using x by (simp add: waiting_ids_def task_state_def)
  next
    case False
    then show ?thesis using assms settled_state x by (fastforce simp: advanced_def waiting_ids_def)
  qed
qed

lemma legal_into_waiting:
  "legal q r \<Longrightarrow> r = Queued \<or> r = DependencyBlocked \<Longrightarrow> q = Blocked \<or> q = NeedsHuman"
  by (cases q) (auto simp: legal_def transitions_def terminal_def)

lemma moved_waits:
  assumes "moved tid q d d'" "q = Queued \<or> q = DependencyBlocked"
  shows "tid \<in> waiting_ids d" "tid \<notin> waiting_ids d'"
proof -
  obtain t t' where "find_task tid d = Some t" "find_task tid d' = Some t'" "legal (t_state t) q" "t_state t' = q"
    using assms(1) by (auto simp: moved_def)
  then show "tid \<in> waiting_ids d" "tid \<notin> waiting_ids d'"
    using assms(2) legal_into_waiting[of "t_state t" q] by (auto simp: waiting_ids_def task_state_def)
qed

lemma advance_task_effect:
  assumes run: "advance_task E run bh tid w = (r, w')" and b: "task_state tid (w_db w) = Some Blocked"
    and wf: "db_wf (w_db w)"
  shows "advanced E run bh (w_db w) (w_db w')"
    "r = Inr True \<Longrightarrow> tid \<in> waiting_ids (w_db w) \<and> tid \<notin> waiting_ids (w_db w')"
    "r = Inr False \<Longrightarrow> w' = w \<and> must_wait bh tid (w_db w)"
    "x \<noteq> tid \<Longrightarrow> task_state x (w_db w') = task_state x (w_db w)"
proof -
  consider (raise) e where "r = Inl e" "quiet_on w w'"
    | (moved) q where "r = Inr True" "moved tid q (w_db w) (w_db w')"
        "settled E run bh q tid (w_db w) (w_db w) (w_db w')"
    | (wait) "r = Inr False" "w' = w" "must_wait bh tid (w_db w)"
    using advance_task_run[OF run wf] by (auto split: sum.splits bool.splits)
  note cs = this
  note grow = events_grow[OF on_trace_advance_task run wf]
  show "advanced E run bh (w_db w) (w_db w')"
    using cs by cases (auto intro: advanced_quiet[OF _ grow] advanced_moved[OF _ b _ grow] advanced_refl)
  show "r = Inr True \<Longrightarrow> tid \<in> waiting_ids (w_db w) \<and> tid \<notin> waiting_ids (w_db w')"
    using cs by cases (use moved_waits settled_state in blast)+
  show "r = Inr False \<Longrightarrow> w' = w \<and> must_wait bh tid (w_db w)"
    using cs by cases auto
  show "x \<noteq> tid \<Longrightarrow> task_state x (w_db w') = task_state x (w_db w)"
    using cs by cases (auto simp: moved_def task_state_def quiet_find)
qed

lemma advance_pass_effect:
  assumes "advance_pass E run bh tids ch w = (r, w')" "distinct tids"
    and "\<forall>tid \<in> set tids. task_state tid (w_db w) = Some Blocked" "db_wf (w_db w)"
  shows "advanced E run bh (w_db w) (w_db w') \<and>
    (r = Inr True \<longrightarrow> ch \<or> waiting_ids (w_db w') \<subset> waiting_ids (w_db w)) \<and>
    (r = Inr False \<longrightarrow> \<not> ch \<and> w' = w \<and> (\<forall>tid \<in> set tids. must_wait bh tid (w_db w)))"
  using assms
proof (induction tids arbitrary: ch w)
  case Nil
  then show ?case by (auto simp: ret_io_apply advanced_refl)
next
  case (Cons tid tids)
  obtain c w1 where c: "advance_task E run bh tid w = (c, w1)" by fastforce
  have b: "task_state tid (w_db w) = Some Blocked" using Cons.prems(3) by simp
  note eff = advance_task_effect[OF c b Cons.prems(4)]
  show ?case
  proof (cases c)
    case (Inl e)
    then show ?thesis using Cons.prems(1) eff(1) c by (auto simp: bind_io_def)
  next
    case (Inr k)
    have rest: "advance_pass E run bh tids (ch \<or> k) w1 = (r, w')"
      using Cons.prems(1) c Inr by (simp add: bind_io_def)
    have b1: "\<forall>x \<in> set tids. task_state x (w_db w1) = Some Blocked"
    proof
      fix x assume x: "x \<in> set tids"
      then have "x \<noteq> tid" using Cons.prems(2) by auto
      then show "task_state x (w_db w1) = Some Blocked" using eff(4)[of x] Cons.prems(3) x by simp
    qed
    note IH = Cons.IH[OF rest _ b1 wf_run[OF on_trace_advance_task c Cons.prems(4)]]
    have adv: "advanced E run bh (w_db w) (w_db w')"
      using IH Cons.prems(2) advanced_trans[OF eff(1)] by simp
    have sub: "waiting_ids (w_db w1) \<subseteq> waiting_ids (w_db w)" "waiting_ids (w_db w') \<subseteq> waiting_ids (w_db w1)"
      using waiting_advanced[OF eff(1)] waiting_advanced[OF conjunct1[OF IH]] Cons.prems(2) by simp_all
    have less: "k \<Longrightarrow> waiting_ids (w_db w') \<subset> waiting_ids (w_db w)"
      using eff(2) Inr sub by auto
    have same: "\<not> k \<Longrightarrow> w1 = w \<and> must_wait bh tid (w_db w)"
      using eff(3) Inr by simp
    show ?thesis
      using adv less same IH Cons.prems(2) by (cases k) auto
  qed
qed

lemma blocked_ids_state:
  assumes "db_wf d"
  shows "distinct (blocked_ids d)" "x \<in> set (blocked_ids d) \<longleftrightarrow> task_state x d = Some Blocked"
proof -
  let ?ts = "filter (\<lambda>t. t_state t = Blocked) (d_tasks d)"
  have perm: "mset (blocked_ids d) = mset (map t_id ?ts)"
    by (simp add: blocked_ids_def)
  have "distinct (map t_id ?ts)" using assms by (simp add: db_wf_def distinct_map_filter)
  then show "distinct (blocked_ids d)" using mset_eq_imp_distinct_iff[OF perm] by simp
  have "set (blocked_ids d) = t_id ` set ?ts" using mset_eq_setD[OF perm] by simp
  moreover have "x \<in> t_id ` set ?ts \<longleftrightarrow> task_state x d = Some Blocked"
  proof
    assume "x \<in> t_id ` set ?ts"
    then obtain t where "t \<in> set (d_tasks d)" "t_id t = x" "t_state t = Blocked" by auto
    then show "task_state x d = Some Blocked" using find_task_mem[OF assms] by (auto simp: task_state_def)
  next
    assume "task_state x d = Some Blocked"
    then obtain t where "find_task x d = Some t" "t_state t = Blocked" by (auto simp: task_state_def)
    then show "x \<in> t_id ` set ?ts" using find_task_Some by force
  qed
  ultimately show "x \<in> set (blocked_ids d) \<longleftrightarrow> task_state x d = Some Blocked" by simp
qed

lemma advance_loop_effect:
  assumes "advance_loop E run bh k ch w = (r, w')" "db_wf (w_db w)" "card (waiting_ids (w_db w)) < k"
  shows "advanced E run bh (w_db w) (w_db w') \<and> r \<noteq> Inr None \<and>
    (\<forall>c. r = Inr (Some c) \<longrightarrow> (\<forall>tid. task_state tid (w_db w') = Some Blocked \<longrightarrow> must_wait bh tid (w_db w')) \<and>
      (\<not> c \<longrightarrow> \<not> ch \<and> w' = w))"
  using assms
proof (induction k arbitrary: ch w)
  case 0
  then show ?case by simp
next
  case (Suc k)
  let ?ids = "blocked_ids (w_db w)"
  obtain c w1 where c: "advance_pass E run bh ?ids False w = (c, w1)" by fastforce
  have blocked: "\<forall>tid \<in> set ?ids. task_state tid (w_db w) = Some Blocked"
    using blocked_ids_state(2)[OF Suc.prems(2)] by simp
  note eff = advance_pass_effect[OF c blocked_ids_state(1)[OF Suc.prems(2)] blocked Suc.prems(2)]
  have wf1: "db_wf (w_db w1)" by (rule wf_run[OF on_trace_advance_pass c Suc.prems(2)])
  have body: "bind_io (advance_pass E run bh ?ids False)
      (\<lambda>c. if c then advance_loop E run bh k True else ret_io (Some ch)) w = (r, w')"
    using Suc.prems(1) by (simp add: read_db_bind)
  show ?case
  proof (cases c)
    case (Inl e)
    then show ?thesis using body c eff by (auto simp: bind_io_def)
  next
    case (Inr b)
    show ?thesis
    proof (cases b)
      case True
      have rest: "advance_loop E run bh k True w1 = (r, w')"
        using body c Inr True by (simp add: bind_io_def)
      have "waiting_ids (w_db w1) \<subset> waiting_ids (w_db w)" using eff Inr True by simp
      then have "card (waiting_ids (w_db w1)) < k"
        using psubset_card_mono[OF waiting_card(2)[OF Suc.prems(2)]] Suc.prems(3)
        by (meson less_Suc_eq_le order_less_le_trans)
      from Suc.IH[OF rest wf1 this] show ?thesis
        using eff advanced_trans by blast
    next
      case False
      then have "w1 = w" "\<forall>tid \<in> set ?ids. must_wait bh tid (w_db w)" using eff Inr by auto
      then show ?thesis
        using body c Inr False blocked_ids_state(2)[OF Suc.prems(2)] advanced_refl
        by (auto simp: bind_io_def ret_io_apply)
    qed
  qed
qed

text \<open>
  C9. Dependency promotion ends at a fixpoint, whatever the file system and the verification
  commands answer. The loop returns or raises, never runs out of passes. Every row stays as it is,
  except that a blocked task may be settled. It is queued only when all its prerequisites are
  delivered and, if it has any, the interface check of just these rows accepted them. It is
  dependency_blocked only when some prerequisite has failed, was cancelled or is blocked itself (or
  waits for a human where that counts), or when the prerequisites are all delivered and the check
  rejected them. Each verdict of the check is a new event of the log. When the loop returns, every
  task still blocked has to wait: all its prerequisites exist, none of them has failed, and some are
  not delivered yet.
\<close>

theorem advance_reaches_fixpoint:
  assumes "db_wf (w_db w)" "advance_dependency_states E run bh w = (r, w')"
  shows "r \<noteq> Inr None \<and>
    (\<forall>tid. find_task tid (w_db w') = find_task tid (w_db w) \<or>
      task_state tid (w_db w) = Some Blocked \<and>
      (task_state tid (w_db w') = Some Queued \<and> all_delivered tid (w_db w') \<and>
        (deps_of tid (w_db w) = [] \<or> interface_checked E run tid True (w_db w) (w_db w')) \<or>
       task_state tid (w_db w') = Some DependencyBlocked \<and>
        (blocked_by bh tid (w_db w') \<or> deps_of tid (w_db w) \<noteq> [] \<and> all_delivered tid (w_db w') \<and>
          interface_checked E run tid False (w_db w) (w_db w')))) \<and>
    (\<forall>c. r = Inr (Some c) \<longrightarrow>
      (\<forall>tid. task_state tid (w_db w') = Some Blocked \<longrightarrow> must_wait bh tid (w_db w')) \<and>
      (\<not> c \<longrightarrow> w' = w))"
proof -
  have "advance_loop E run bh (Suc (waiting_tasks (w_db w))) False w = (r, w')"
    using assms(2) by (simp add: advance_dependency_states_def read_db_bind)
  from advance_loop_effect[OF this assms(1)] show ?thesis
    using waiting_card(1)[OF assms(1)] by (auto simp: advanced_def settled_def)
qed

definition demo_env :: env where
  "demo_env = \<lparr>env_fs = (\<lambda>_. demo_fs), env_run = (\<lambda>_ _ _. Inr (Proc_done 0 []))\<rparr>"

definition demo_world :: "db \<Rightarrow> world" where
  "demo_world d = \<lparr>w_db = d, w_clock = (\<lambda>n. 100 + int n), w_ids = (\<lambda>n. ''id'' @ nat_text n), w_calls = 0\<rparr>"

theorem advance_reaches_fixpoint_witness:
  "task_state ''C'' (w_db (snd (advance_dependency_states demo_env ''run'' True (demo_world interface_db)))) =
      Some Queued \<and>
   interface_checked demo_env ''run'' ''C'' True interface_db
     (w_db (snd (advance_dependency_states demo_env ''run'' True (demo_world interface_db))))"
proof -
  have wf: "db_wf (w_db (demo_world interface_db))"
    by (simp add: db_wf_def demo_world_def interface_db_def empty_db_def consumer_def producer_def
        seq_ok_def lease_inv_def)
  obtain r w' where run: "advance_dependency_states demo_env ''run'' True (demo_world interface_db) = (r, w')"
    by fastforce
  have q: "task_state ''C'' (w_db (snd (advance_dependency_states demo_env ''run'' True (demo_world interface_db)))) =
      Some Queued"
    by code_simp
  then have s: "task_state ''C'' (w_db w') = Some Queued" by (simp add: run)
  have b: "task_state ''C'' (w_db (demo_world interface_db)) = Some Blocked"
    "deps_of ''C'' (w_db (demo_world interface_db)) \<noteq> []" by code_simp+
  have "find_task ''C'' (w_db w') \<noteq> find_task ''C'' (w_db (demo_world interface_db))"
    using s b(1) by (auto simp: task_state_def)
  then have "interface_checked demo_env ''run'' ''C'' True (w_db (demo_world interface_db)) (w_db w')"
    using advance_reaches_fixpoint[OF wf run] s b(2) by auto
  then show ?thesis using q unfolding run by (simp add: demo_world_def)
qed

end
