(* ===== verification/Sched.thy ===== *)
theory Sched
  imports Supervision Deps
begin

text \<open>
  The scheduler object of \<open>scheduler/core.py\<close>: its dictionaries, its configuration, the services it
  calls, and the helpers that its handlers share. A handler runs to its end before the next one
  starts; durations are integers of microseconds.
\<close>

section \<open>State\<close>

text \<open>
  A process object: \<open>pr_obj\<close> is its identity (the number of the call that made it), \<open>pr_pid\<close> what
  the operating system calls it.
\<close>

record proc =
  pr_obj :: nat
  pr_pid :: int

definition session_of :: "proc \<Rightarrow> string" where
  "session_of p = int_text (pr_pid p)"

record sched = world +
  m_procs :: "(string, proc) dict"
  m_slots :: "(string, string) dict"
  m_reaped :: "string list"
  m_worktrees :: "(string, string) dict"
  m_last_event :: "(string, int) dict"
  m_started :: "(string, int) dict"
  m_wait_grace :: "(string, int) dict"
  m_infra :: "exc option"
  m_leases :: "(string, lease_row) dict"
  m_heartbeat :: "(string, int) dict"
  m_failures :: "(string \<times> exc) list"
  m_nudges :: "(proc \<times> string) list"

type_synonym 'a act = "(sched, 'a) io"

record config =
  c_run_id :: string
  c_base_branch :: string
  c_worktree_root :: string
  c_max_concurrency :: int
  c_stall :: int
  c_worker_timeout :: "int option"
  c_verify_timeout :: int
  c_max_nudges :: int
  c_wait_ceiling :: int
  c_tail_tokens :: int
  c_yolo :: bool
  c_artifact_root :: "string option"
  c_repeated_threshold :: int
  c_deterministic_crash :: bool
  c_adaptive :: bool
  c_protocol_v2 :: bool
  c_deterministic :: bool
  c_evidence_ladder :: bool
  c_plan :: payload

text \<open>What \<open>_launch\<close> hands to the worker, and what a fault-injecting worker writes into it.\<close>

record launch_task =
  q_task :: task_row
  q_scenario :: "string option"
  q_feedback :: "string option"
  q_intervention :: "string option"

record verify_request =
  v_task_id :: string
  v_worktree :: "string option"
  v_base_sha :: "string option"
  v_verify_cmd :: string
  v_timeout :: int
  v_repo :: string
  v_candidate_sha :: "string option"
  v_worker_dirty :: "string option"
  v_artifact_root :: "string option"
  v_allow_empty_diff :: bool
  v_protocol_result :: json
  v_output_artifacts :: "string option"
  v_output_schema :: "string option"
  v_targeted :: "string list option"

record verify_result =
  vr_passed :: bool
  vr_cause :: "string option"
  vr_exit_code :: "int option"
  vr_duration :: string
  vr_flaky :: bool
  vr_output_tail :: string
  vr_diff_stat :: string
  vr_tests_modified :: json
  vr_output_path :: "string option"
  vr_patch_path :: "string option"
  vr_failure_signature :: "string option"
  vr_evidence :: "payload option"

text \<open>The event that a completed delivery is recorded as, one per mode.\<close>

datatype delivery_kind = Pr_opened | Merged_local | Report_written

fun delivery_type :: "delivery_kind \<Rightarrow> string" where
  "delivery_type Pr_opened = ''delivery.pr_opened''"
| "delivery_type Merged_local = ''delivery.merged_local''"
| "delivery_type Report_written = ''delivery.report_written''"

text \<open>
  The services; the first argument of each is the number of the call, so that answers may differ.
  \<open>s_spawn\<close> answers with the process id and the fault fields it wrote into the task, if any.
\<close>

record services =
  s_mono :: "nat \<Rightarrow> int"
  s_resolve_ref :: "nat \<Rightarrow> string \<Rightarrow> exc + string"
  s_pool_acquire :: "nat \<Rightarrow> string \<Rightarrow> string \<Rightarrow> string \<Rightarrow> string \<Rightarrow> exc + (string \<times> string)"
  s_pool_release :: "nat \<Rightarrow> string \<Rightarrow> exc + unit"
  s_head :: "nat \<Rightarrow> string \<Rightarrow> exc + string"
  s_git_status :: "nat \<Rightarrow> string \<Rightarrow> exc + (int \<times> string)"
  s_rev_parse :: "nat \<Rightarrow> string \<Rightarrow> string \<Rightarrow> exc + (int \<times> string)"
  s_spawn :: "nat \<Rightarrow> launch_task \<Rightarrow> string \<Rightarrow> string \<Rightarrow> exc + (int \<times> payload option)"
  s_reap :: "nat \<Rightarrow> proc \<Rightarrow> bool \<Rightarrow> exc + unit"
  s_returncode :: "nat \<Rightarrow> proc \<Rightarrow> int option"
  s_wait :: "nat \<Rightarrow> proc \<Rightarrow> int"
  s_exit_watcher :: "nat \<Rightarrow> string \<Rightarrow> exc option"
  s_transport_close :: "nat \<Rightarrow> proc \<Rightarrow> exc + unit"
  s_git_diff :: "nat \<Rightarrow> string \<Rightarrow> string \<Rightarrow> string \<Rightarrow> int"
  s_supervisor :: "nat \<Rightarrow> packet \<Rightarrow> exc + sresult"
  s_action_model :: "string \<Rightarrow> payload \<Rightarrow> exc + action"
  s_verify :: "nat \<Rightarrow> verify_request \<Rightarrow> exc + verify_result"
  s_deliver :: "nat \<Rightarrow> task_row \<Rightarrow> string option \<Rightarrow> exc + (delivery_kind \<times> payload)"
  s_env :: env
  s_pid_alive :: "nat \<Rightarrow> string option \<Rightarrow> bool"
  s_pool_open :: "nat \<Rightarrow> exc + unit"
  s_pool_close :: "nat \<Rightarrow> exc + unit"

text \<open>States in which nothing is left for the scheduler to drive.\<close>

definition settled_states :: "tstate list" where
  "settled_states = [NeedsHuman, Delivered, Failed, Cancelled, DependencyBlocked]"

definition team_settled :: "db \<Rightarrow> bool" where
  "team_settled d = (filter (\<lambda>t. t_state t \<notin> set settled_states) (d_tasks d) = [])"

section \<open>Small statements\<close>

definition mono_io :: "services \<Rightarrow> int act" where
  "mono_io S = call_io (s_mono S)"

text \<open>\<open>d[k] = v\<close> and \<open>d.pop(k, None)\<close> on a dictionary of the scheduler.\<close>

definition drop_key :: "string \<Rightarrow> (string, 'v) dict \<Rightarrow> (string, 'v) dict" where
  "drop_key k d = AList.delete k d"

definition with_session :: "string option \<Rightarrow> usage" where
  "with_session s = \<lparr>u_session_id = s, u_tokens_in = None, u_tokens_out = None, u_cost_usd = None\<rparr>"

definition attempt_id_json :: "attempt_row option \<Rightarrow> json" where
  "attempt_id_json a = (case a of None \<Rightarrow> JNull | Some r \<Rightarrow> JStr (a_id r))"

text \<open>\<open>a or b\<close> on optional text.\<close>

definition text_or :: "string option \<Rightarrow> string option \<Rightarrow> string option" where
  "text_or a b = (case a of None \<Rightarrow> b | Some s \<Rightarrow> if s = [] then b else Some s)"

definition given :: "string option \<Rightarrow> bool" where
  "given a = (case a of None \<Rightarrow> False | Some s \<Rightarrow> s \<noteq> [])"

text \<open>
  Rounded decimals as Python prints them: \<open>round_div a b\<close> is the integer nearest to \<open>a / b\<close>, ties to
  even, and \<open>decimal_text k n\<close> is \<open>n / 10^k\<close> with its shortest fraction of at least one digit.
\<close>

definition round_div :: "int \<Rightarrow> int \<Rightarrow> int" where
  "round_div a b = (let q = a div b; r = 2 * (a mod b) in
    if r < b \<or> r = b \<and> even q then q else q + 1)"

definition pad_left :: "nat \<Rightarrow> string \<Rightarrow> string" where
  "pad_left k s = replicate (k - length s) (CHR ''0'') @ s"

definition decimal_text :: "nat \<Rightarrow> int \<Rightarrow> string" where
  "decimal_text k n =
    (let m = nat \<bar>n\<bar>;
         fr = rev (dropWhile (\<lambda>c. c = CHR ''0'') (rev (pad_left k (nat_text (m mod 10 ^ k)))))
     in (if n < 0 then ''-'' else []) @ nat_text (m div 10 ^ k) @ ''.'' @ (if fr = [] then ''0'' else fr))"

definition timing_event ::
    "config \<Rightarrow> string \<Rightarrow> string \<Rightarrow> string option \<Rightarrow> string option \<Rightarrow> payload \<Rightarrow> int act" where
  "timing_event C tid typ aid session p =
    bind_io (read_db (\<lambda>d. if given aid then find_attempt (the aid) d else None)) (\<lambda>a.
      usage_event_io Src_scheduler typ (Some tid)
        (dict_merge [(''attempt_id'', jopt aid),
          (''run_id'', JStr (case a of None \<Rightarrow> c_run_id C | Some r \<Rightarrow> a_run_id r))] p)
        (with_session session))"

definition reject_worker_event ::
    "string \<Rightarrow> string option \<Rightarrow> lease_row option \<Rightarrow> json \<Rightarrow> string \<Rightarrow> string option \<Rightarrow> unit act" where
  "reject_worker_event tid aid lease etype reason session =
    bind_io (read_db (find_task tid)) (\<lambda>current.
    bind_io (usage_event_io Src_watchdog ''worker.event_rejected'' (Some tid)
      [(''attempt_id'', jopt aid),
       (''lease_id'', jopt (map_option l_lease_id lease)),
       (''generation'', jint_opt (map_option l_generation lease)),
       (''event_type'', etype),
       (''reason'', JStr reason),
       (''current_attempt_id'', jopt (Option.bind current t_current_attempt_id)),
       (''current_session_id'', jopt (Option.bind current t_session_id))]
      (with_session session)) (\<lambda>_. ret_io ()))"

text \<open>The lease errors that fencing catches.\<close>

fun is_lease_error :: "exc \<Rightarrow> bool" where
  "is_lease_error (LeaseBusyError s) = True"
| "is_lease_error (LeaseNotFoundError s) = True"
| "is_lease_error (StaleLeaseError s) = True"
| "is_lease_error e = False"

definition renewal_due :: "config \<Rightarrow> int \<Rightarrow> int \<Rightarrow> bool" where
  "renewal_due C now beat = (3 * (now - beat) \<ge> max 3000000 (c_stall C))"

text \<open>
  The watcher's fence: \<open>expected\<close> is the attempt and the lease it was started with.
\<close>

definition fence_mismatch :: "string \<Rightarrow> lease_row option \<Rightarrow> lease_row option \<Rightarrow> bool" where
  "fence_mismatch aid expected current = (case (expected, current) of
      (Some x, Some c) \<Rightarrow> l_attempt_id x \<noteq> aid \<or> l_lease_id c \<noteq> l_lease_id x \<or> l_generation c \<noteq> l_generation x
    | _ \<Rightarrow> True)"

definition check_lease :: "config \<Rightarrow> services \<Rightarrow> string \<Rightarrow> lease_row \<Rightarrow> bool act" where
  "check_lease C S tid lease =
    bind_io (validate_io lease) (\<lambda>_.
    bind_io (mono_io S) (\<lambda>now.
    bind_io (gets_io (\<lambda>w. case map_of (m_heartbeat w) tid of None \<Rightarrow> 0 | Some b \<Rightarrow> b)) (\<lambda>beat.
      if renewal_due C now beat then
        bind_io (renew_io lease) (\<lambda>l.
        bind_io (modify_io (\<lambda>w. w\<lparr>m_leases := AList.update tid l (m_leases w),
          m_heartbeat := AList.update tid now (m_heartbeat w)\<rparr>)) (\<lambda>_. ret_io True))
      else ret_io True)))"

definition validate_worker_lease ::
    "config \<Rightarrow> services \<Rightarrow> string \<Rightarrow> string option \<Rightarrow> lease_row option \<Rightarrow> json \<Rightarrow> string option \<Rightarrow> bool act" where
  "validate_worker_lease C S tid expected_aid expected etype session =
    bind_io (gets_io (\<lambda>w. map_of (m_leases w) tid)) (\<lambda>lease.
    bind_io (read_db (latest_attempt tid)) (\<lambda>attempt.
      let reject = (\<lambda>aid l reason.
        bind_io (reject_worker_event tid aid l etype reason session) (\<lambda>_. ret_io False))
      in
      if expected_aid \<noteq> None \<and> fence_mismatch (the expected_aid) expected lease
        then reject expected_aid expected ''worker attempt is no longer current''
      else case (lease, attempt) of
        (Some l, Some a) \<Rightarrow>
          if a_id a \<noteq> l_attempt_id l
            then reject (text_or expected_aid (Some (a_id a)))
              (case expected of None \<Rightarrow> lease | x \<Rightarrow> x) ''task has no current worker lease''
          else catch_io (check_lease C S tid l) (\<lambda>e.
            if is_lease_error e then reject (text_or expected_aid (Some (a_id a))) (Some l) (exc_text e)
            else raise_io e)
      | _ \<Rightarrow> reject (text_or expected_aid (map_option a_id attempt))
              (case expected of None \<Rightarrow> lease | x \<Rightarrow> x) ''task has no current worker lease''))"

text \<open>
  \<open>_capture_candidate\<close>: the head of the checkout and its uncommitted changes, when they can be
  read, are recorded on the attempt.
\<close>

fun is_read_error :: "exc \<Rightarrow> bool" where
  "is_read_error (OSError s) = True"
| "is_read_error (RuntimeError s) = True"
| "is_read_error (WorkerStartupFailure t c r) = True"
| "is_read_error (CleanupFailure l e) = True"
| "is_read_error (WorkerIsolationError s) = True"
| "is_read_error (LeaseBusyError s) = True"
| "is_read_error (LeaseNotFoundError s) = True"
| "is_read_error (StaleLeaseError s) = True"
| "is_read_error e = False"

definition read_checkout :: "services \<Rightarrow> string \<Rightarrow> (string option \<times> string option) act" where
  "read_checkout S wt =
    catch_io
      (bind_io (try_call_io (\<lambda>i. s_head S i wt)) (\<lambda>h.
        catch_io
          (bind_io (try_call_io (\<lambda>i. s_git_status S i wt)) (\<lambda>(code, out).
            ret_io (Some h, if blank out then None else Some out)))
          (\<lambda>e. if is_read_error e then ret_io (Some h, None) else raise_io e)))
      (\<lambda>e. if is_read_error e then ret_io (None, None) else raise_io e)"

definition capture_candidate ::
    "services \<Rightarrow> string \<Rightarrow> string \<Rightarrow> string option \<Rightarrow> string option act" where
  "capture_candidate S tid disposition failure_cause =
    bind_io (read_db (find_task tid)) (\<lambda>row.
      case Option.bind row t_current_attempt_id of
        None \<Rightarrow> ret_io None
      | Some aid \<Rightarrow>
          if aid = [] then ret_io None else
          bind_io (if given (Option.bind row t_worktree) then read_checkout S (the (Option.bind row t_worktree))
            else ret_io (None, None)) (\<lambda>(candidate, dirty).
          bind_io now_io (\<lambda>ended.
          bind_io (update_attempt_io aid
            ([(''disposition'', JStr disposition), (''worker_ended_at'', JInt ended)]
             @ (if given candidate then [(''candidate_sha'', jopt candidate)] else [])
             @ (if given dirty then [(''worker_dirty'', jopt dirty)] else [])
             @ (if given failure_cause then [(''failure_cause'', jopt failure_cause)] else []))) (\<lambda>_.
            ret_io (if given candidate then candidate else None)))))"

end
