(* ===== verification/Launch.thy ===== *)
theory Launch
  imports Sched
begin

text \<open>
  Starting and ending a worker: the public execution contract (\<open>worker/contract.py\<close>), the teardown
  of a process with its slot, lease and checkout, \<open>_launch\<close>, and the choice of the next task
  (\<open>_launch_ready\<close>, \<open>scheduler/adaptive.py\<close>). The asyncio tasks that watch a process and their locks are
  not part of the model; what one of them ended with and the closing of a transport are services.
\<close>

section \<open>The execution contract\<close>

definition rstrip :: "string \<Rightarrow> string" where
  "rstrip s = rev (lstrip (rev s))"

definition declaration_line :: "string \<Rightarrow> string option \<Rightarrow> string list" where
  "declaration_line label v = (if given v then [''- '' @ label @ '': '' @ the v] else [])"

definition build_execution_contract :: "task_row \<Rightarrow> string \<Rightarrow> string option \<Rightarrow> string" where
  "build_execution_contract t wt feedback = join [CHR 0x0A]
    ([''Execution contract:'',
      ''- Working directory: '' @ wt,
      ''- Visible verification command: '' @ the (text_or (t_verify_cmd t) (Some ''true'')),
      ''- Delivery mode: '' @ t_delivery_mode t,
      ''- Run the visible verification command in the working directory before claiming completion.'',
      ''- Commit the candidate changes in the working directory before claiming completion.'',
      ''- Submit the committed candidate according to the task's delivery mode.'']
     @ declaration_line ''Output artifacts'' (t_output_artifacts t)
     @ declaration_line ''Output schema'' (t_output_schema t)
     @ declaration_line ''Dependency input contract'' (t_input_contract t)
     @ declaration_line ''Node verification command'' (t_node_verify_cmd t)
     @ declaration_line ''Repair policy'' (t_repair_policy t)
     @ [[], ''Task brief:'', rstrip (t_brief t)]
     @ (if given feedback
        then [[], ''Recovery guidance from the previous attempt:'', rstrip (the feedback)] else []))
    @ [CHR 0x0A]"

section \<open>Teardown\<close>

definition reap_process :: "services \<Rightarrow> string \<Rightarrow> proc \<Rightarrow> unit act" where
  "reap_process S tid p =
    bind_io (gets_io (\<lambda>w. tid \<notin> set (m_reaped w))) (\<lambda>terminate.
    bind_io (try_call_io (\<lambda>i. s_reap S i p terminate)) (\<lambda>_.
      modify_io (\<lambda>w. w\<lparr>m_reaped := List.insert tid (m_reaped w)\<rparr>)))"

text \<open>The watcher of a process's exit: once it has exited, it is reaped.\<close>

definition watch_process_exit :: "services \<Rightarrow> string \<Rightarrow> proc \<Rightarrow> unit act" where
  "watch_process_exit S tid p = bind_io (call_io (\<lambda>i. s_wait S i p)) (\<lambda>_. reap_process S tid p)"

text \<open>A clean-up step: what it raises is kept under a label, and the next step runs.\<close>

definition collect_io :: "string \<Rightarrow> unit act \<Rightarrow> (string \<times> exc) list act" where
  "collect_io label m = catch_io (bind_io m (\<lambda>_. ret_io [])) (\<lambda>e. ret_io [(label, e)])"

text \<open>
  The task that watches the exit is cancelled and awaited, unless it is the one that tears down; what
  it ended with, when that is an error and not the cancellation, is a failure too.
\<close>

definition settle_exit_watcher :: "services \<Rightarrow> string \<Rightarrow> (string \<times> exc) list act" where
  "settle_exit_watcher S tid = call_io (\<lambda>i. case s_exit_watcher S i tid of
      None \<Rightarrow> [] | Some e \<Rightarrow> [(''exit watcher'', e)])"

definition stop_process :: "services \<Rightarrow> string \<Rightarrow> proc option \<Rightarrow> (string \<times> exc) list act" where
  "stop_process S tid p = (case p of
      None \<Rightarrow> ret_io []
    | Some pr \<Rightarrow>
        bind_io
          (bind_io (collect_io ''process reap'' (reap_process S tid pr)) (\<lambda>fs.
            if fs = [] then ret_io []
            else bind_io (call_io (\<lambda>i. s_returncode S i pr)) (\<lambda>code.
              if code \<noteq> None then ret_io fs
              else bind_io (collect_io ''process reap retry'' (try_call_io (\<lambda>i. s_reap S i pr True)))
                (\<lambda>more. ret_io (fs @ more)))))
          (\<lambda>fs. bind_io (modify_io (\<lambda>w. w\<lparr>m_reaped := removeAll tid (m_reaped w)\<rparr>)) (\<lambda>_.
            bind_io (collect_io ''process transport close'' (try_call_io (\<lambda>i. s_transport_close S i pr)))
              (\<lambda>gs. ret_io (fs @ gs)))))"

definition release_lease :: "lease_row option \<Rightarrow> (string \<times> exc) list act" where
  "release_lease l = (case l of
      None \<Rightarrow> ret_io []
    | Some lease \<Rightarrow>
        catch_io (bind_io (release_io lease ''scheduler_teardown'' Src_scheduler) (\<lambda>_. ret_io []))
          (\<lambda>e. case e of StaleLeaseError _ \<Rightarrow> ret_io [] | _ \<Rightarrow> ret_io [(''execution lease release'', e)]))"

definition slot_released :: "config \<Rightarrow> string \<Rightarrow> string \<Rightarrow> unit act" where
  "slot_released C tid slot =
    bind_io (read_db (latest_attempt tid)) (\<lambda>a.
    bind_io (gets_io (\<lambda>w. int (length (m_slots w)))) (\<lambda>n.
    bind_io (timing_event C tid ''worker.slot_released'' (map_option a_id a) None
      [(''slot'', JStr slot), (''occupancy'', JInt n), (''limit'', JInt (c_max_concurrency C))])
      (\<lambda>_. ret_io ())))"

definition release_checkout ::
    "config \<Rightarrow> services \<Rightarrow> string \<Rightarrow> string option \<Rightarrow> string option \<Rightarrow> (string \<times> exc) list act" where
  "release_checkout C S tid wt slot = (case wt of
      Some path \<Rightarrow>
        bind_io (collect_io ''worktree release'' (try_call_io (\<lambda>i. s_pool_release S i path))) (\<lambda>fs.
          if slot \<noteq> None \<and> fs = []
            then collect_io ''slot release event'' (slot_released C tid (the slot))
          else ret_io fs)
    | None \<Rightarrow>
        if slot \<noteq> None
          then ret_io [(''slot release'', RuntimeError (''worker slot '' @ tid @ '' has no worktree to release''))]
        else ret_io [])"

text \<open>The exception that stands for the collected failures.\<close>

definition cleanup_exc :: "string \<Rightarrow> (string \<times> exc) list \<Rightarrow> exc" where
  "cleanup_exc tid fs =
    (let label = (\<lambda>r. ''teardown '' @ tid @ '' / '' @ r) in
     case fs of
       [(r, e)] \<Rightarrow> CleanupFailure (label r) e
     | _ \<Rightarrow> CleanupGroup (''teardown for task '' @ tid @ '' failed'')
         (map (\<lambda>(r, e). CleanupFailure (label r) e) fs))"

text \<open>The entries of the task leave the dictionaries that the model keeps.\<close>

definition forget_task :: "string \<Rightarrow> sched \<Rightarrow> sched" where
  "forget_task tid w = w\<lparr>
    m_procs := drop_key tid (m_procs w),
    m_last_event := drop_key tid (m_last_event w),
    m_started := drop_key tid (m_started w),
    m_wait_grace := drop_key tid (m_wait_grace w)\<rparr>"

definition forget_slot :: "string \<Rightarrow> sched \<Rightarrow> sched" where
  "forget_slot tid w = w\<lparr>
    m_worktrees := drop_key tid (m_worktrees w),
    m_slots := drop_key tid (m_slots w),
    m_leases := drop_key tid (m_leases w),
    m_heartbeat := drop_key tid (m_heartbeat w)\<rparr>"

definition teardown_owned :: "config \<Rightarrow> services \<Rightarrow> string \<Rightarrow> proc option \<Rightarrow> unit act" where
  "teardown_owned C S tid expect =
    bind_io (gets_io (\<lambda>w. map_of (m_procs w) tid)) (\<lambda>p.
      if expect \<noteq> None \<and> p \<noteq> expect then ret_io ()
      else
        bind_io (modify_io (forget_task tid)) (\<lambda>_.
        bind_io (settle_exit_watcher S tid) (\<lambda>f0.
        bind_io (stop_process S tid p) (\<lambda>f1.
        bind_io (gets_io (\<lambda>w. (map_of (m_worktrees w) tid, map_of (m_slots w) tid, map_of (m_leases w) tid)))
          (\<lambda>(wt, slot, lease).
        bind_io (modify_io (forget_slot tid)) (\<lambda>_.
        bind_io (release_lease lease) (\<lambda>f2.
        bind_io (release_checkout C S tid wt slot) (\<lambda>f3.
          if f0 @ f1 @ f2 @ f3 = [] then ret_io () else raise_io (cleanup_exc tid (f0 @ f1 @ f2 @ f3))))))))))"

text \<open>What a teardown raises is also kept for the scheduler loop.\<close>

definition teardown :: "config \<Rightarrow> services \<Rightarrow> string \<Rightarrow> proc option \<Rightarrow> unit act" where
  "teardown C S tid expect =
    catch_io (teardown_owned C S tid expect) (\<lambda>e.
      bind_io (modify_io (\<lambda>w. w\<lparr>m_failures := m_failures w @ [(tid, e)]\<rparr>)) (\<lambda>_. raise_io e))"

section \<open>Launching\<close>

text \<open>
  A child attempt that a decision created before a crash, and that no worker has started: the
  target that the intervention names, or the latest attempt when it is a child of its source.
\<close>

definition resume_attempt :: "string option \<Rightarrow> string \<Rightarrow> db \<Rightarrow> attempt_row option" where
  "resume_attempt iid tid d =
    (if \<not> given iid then None
     else case find_intervention (the iid) d of
       None \<Rightarrow> None
     | Some iv \<Rightarrow>
        (let named = (if given (i_target_attempt_id iv)
            then (case find_attempt (the (i_target_attempt_id iv)) d of
                Some a \<Rightarrow> if a_task_id a = tid \<and> a_disposition a = ''created'' then Some a else None
              | None \<Rightarrow> None)
            else None)
         in case named of
           Some a \<Rightarrow> Some a
         | None \<Rightarrow>
            (case latest_attempt tid d of
               Some c \<Rightarrow> if a_disposition c = ''created'' \<and> a_parent_attempt_id c = i_source_attempt_id iv
                 then Some c else None
             | None \<Rightarrow> None)))"

text \<open>The identity of the attempt to run: id, branch, starting commit, number, run, and whether it is new.\<close>

record attempt_plan =
  ap_id :: string
  ap_branch :: string
  ap_start :: string
  ap_no :: int
  ap_run :: string

definition plan_attempt ::
    "config \<Rightarrow> services \<Rightarrow> task_row \<Rightarrow> attempt_row option \<Rightarrow> attempt_row option \<Rightarrow> attempt_plan act" where
  "plan_attempt C S t parent resume = (case resume of
      Some r \<Rightarrow> ret_io \<lparr>ap_id = a_id r, ap_branch = a_candidate_branch r, ap_start = a_base_sha r,
        ap_no = a_attempt_no r, ap_run = a_run_id r\<rparr>
    | None \<Rightarrow>
        bind_io (if given (Option.bind parent a_candidate_sha)
            then ret_io (the (Option.bind parent a_candidate_sha))
            else try_call_io (\<lambda>i. s_resolve_ref S i (c_base_branch C))) (\<lambda>start.
        bind_io fresh_io (\<lambda>aid.
          ret_io \<lparr>ap_id = aid, ap_branch = ''attempt/'' @ aid, ap_start = start,
            ap_no = (case parent of None \<Rightarrow> 1 | Some p \<Rightarrow> a_attempt_no p + 1),
            ap_run = (case parent of
                None \<Rightarrow> the (text_or (t_run_id t) (Some (c_run_id C)))
              | Some p \<Rightarrow> a_run_id p)\<rparr>)))"

definition forget_lease :: "string \<Rightarrow> sched \<Rightarrow> sched" where
  "forget_lease tid w = w\<lparr>m_leases := drop_key tid (m_leases w), m_heartbeat := drop_key tid (m_heartbeat w)\<rparr>"

text \<open>The lease is fenced when the step that needs it raises.\<close>

definition or_recover :: "string \<Rightarrow> lease_row \<Rightarrow> string \<Rightarrow> 'a act \<Rightarrow> 'a act" where
  "or_recover tid lease reason m = catch_io m (\<lambda>e.
    bind_io (recover_io lease reason Src_scheduler) (\<lambda>_.
    bind_io (modify_io (forget_lease tid)) (\<lambda>_. raise_io e)))"

definition fault_event :: "string \<Rightarrow> string \<Rightarrow> string \<Rightarrow> payload option \<Rightarrow> unit act" where
  "fault_event tid aid session fault = (case fault of
      None \<Rightarrow> ret_io ()
    | Some f \<Rightarrow>
        bind_io (usage_event_io Src_system ''fault_injection.target_reached'' (Some tid)
          [(''attempt_id'', JStr aid),
           (''target'', jget_default ''_fault_injection_target'' (JStr tid) f),
           (''attempt'', jget_default ''_fault_injection_attempt'' (JInt 1) f),
           (''mode'', jget_default ''_fault_injection_mode'' (JStr ''worker_exit'') f)]
          (with_session (Some session))) (\<lambda>_. ret_io ()))"

text \<open>The columns that the move to running sets.\<close>

definition running_fields ::
    "string \<Rightarrow> string \<Rightarrow> string \<Rightarrow> attempt_plan \<Rightarrow> int option \<Rightarrow> payload" where
  "running_fields session wt base ap retries =
    [(''session_id'', JStr session), (''worktree'', JStr wt), (''base_sha'', JStr base),
     (''run_id'', JStr (ap_run ap)), (''current_attempt_id'', JStr (ap_id ap)),
     (''candidate_sha'', JStr base), (''candidate_branch'', JStr (ap_branch ap))]
    @ (case retries of None \<Rightarrow> [] | Some n \<Rightarrow> [(''retries'', JInt n)])"

text \<open>The part of \<open>_launch\<close> that makes the attempt durable before anything runs.\<close>

definition persist_attempt ::
    "config \<Rightarrow> launch_task \<Rightarrow> attempt_row option \<Rightarrow> attempt_row option \<Rightarrow> attempt_plan \<Rightarrow> unit act" where
  "persist_attempt C q parent resume ap =
    (let t = q_task q; contract = build_execution_contract t (c_worktree_root C @ ''/pending'') (q_feedback q) in
     then_io
      (when_io (resume = None)
        (bind_io (create_attempt_io \<lparr>ad_task_id = t_id t, ad_run_id = ap_run ap, ad_attempt_no = ap_no ap,
            ad_base_sha = ap_start ap, ad_candidate_branch = ap_branch ap,
            ad_execution_contract = contract, ad_parent_attempt_id = map_option a_id parent,
            ad_supervisor_feedback = q_feedback q, ad_attempt_id = Some (ap_id ap)\<rparr>) (\<lambda>_. ret_io ())))
      (when_io (given (q_intervention q) \<and> resume = None)
        (bind_io (update_intervention_io (the (q_intervention q)) [(''target_attempt_id'', JStr (ap_id ap))])
          (\<lambda>_. ret_io ()))))"

text \<open>The part that starts the worker in its checkout, under its lease.\<close>

definition start_worker ::
    "config \<Rightarrow> services \<Rightarrow> launch_task \<Rightarrow> attempt_plan \<Rightarrow> lease_row \<Rightarrow> string \<Rightarrow> proc act" where
  "start_worker C S q ap lease wt =
    (let t = q_task q; tid = t_id t; contract = build_execution_contract t wt (q_feedback q) in
     bind_io (gets_io (\<lambda>w. int (length (m_slots w)))) (\<lambda>n.
     bind_io (timing_event C tid ''worker.slot_acquired'' (Some (ap_id ap)) None
       [(''slot'', JStr wt), (''occupancy'', JInt n), (''limit'', JInt (c_max_concurrency C))]) (\<lambda>_.
     bind_io (update_attempt_io (ap_id ap) [(''execution_contract'', JStr contract)]) (\<lambda>_.
     bind_io (gets_io w_calls) (\<lambda>obj.
     bind_io (or_recover tid lease ''worker_spawn_failed''
       (try_call_io (\<lambda>i. s_spawn S i (q\<lparr>q_scenario := Some (case q_scenario q of None \<Rightarrow> t_brief t | Some x \<Rightarrow> x)\<rparr>)
         contract wt))) (\<lambda>(pid, fault).
     bind_io (fault_event tid (ap_id ap) (int_text pid) fault) (\<lambda>_.
       ret_io \<lparr>pr_obj = obj, pr_pid = pid\<rparr>)))))))"

text \<open>The part that records the running worker.\<close>

definition register_worker ::
    "config \<Rightarrow> services \<Rightarrow> string \<Rightarrow> attempt_plan \<Rightarrow> int option \<Rightarrow> string \<Rightarrow> string \<Rightarrow> proc \<Rightarrow> unit act" where
  "register_worker C S tid ap retries wt base p =
    bind_io now_io (\<lambda>started.
    bind_io (update_attempt_io (ap_id ap)
      [(''worker_started_at'', JInt started), (''disposition'', JStr ''running'')]) (\<lambda>_.
    bind_io (usage_event_io Src_scheduler ''worker.spawned'' (Some tid)
      [(''attempt_id'', JStr (ap_id ap)), (''base_sha'', JStr base), (''candidate_branch'', JStr (ap_branch ap))]
      (with_session (Some (session_of p)))) (\<lambda>s.
    bind_io (transition_io tid Running s (running_fields (session_of p) wt base ap retries)) (\<lambda>_.
    bind_io (mono_io S) (\<lambda>now.
    bind_io (modify_io (\<lambda>w. w\<lparr>m_procs := AList.update tid p (m_procs w),
      m_worktrees := AList.update tid wt (m_worktrees w),
      m_last_event := AList.update tid now (m_last_event w),
      m_started := AList.update tid now (m_started w)\<rparr>)) (\<lambda>_.
    bind_io (timing_event C tid ''worker.started'' (Some (ap_id ap)) (Some (session_of p))
      [(''slot'', JStr wt)]) (\<lambda>_. ret_io ())))))))"

definition launch :: "config \<Rightarrow> services \<Rightarrow> launch_task \<Rightarrow> int option \<Rightarrow> string act" where
  "launch C S q retries =
    (let tid = t_id (q_task q) in
     bind_io (read_db (latest_attempt tid)) (\<lambda>parent.
     bind_io (read_db (resume_attempt (q_intervention q) tid)) (\<lambda>resume.
     bind_io (plan_attempt C S (q_task q) parent resume) (\<lambda>ap.
     bind_io (persist_attempt C q parent resume ap) (\<lambda>_.
     bind_io (acquire_io (ap_id ap) (''scheduler:'' @ c_run_id C @ '':'' @ ap_id ap)) (\<lambda>lease.
     bind_io (mono_io S) (\<lambda>beat.
     bind_io (modify_io (\<lambda>w. w\<lparr>m_leases := AList.update tid lease (m_leases w),
       m_heartbeat := AList.update tid beat (m_heartbeat w)\<rparr>)) (\<lambda>_.
     bind_io (or_recover tid lease ''worktree_acquire_failed''
       (try_call_io (\<lambda>i. s_pool_acquire S i tid (c_base_branch C) (ap_start ap) (ap_branch ap)))) (\<lambda>(wt, base).
     bind_io (modify_io (\<lambda>w. w\<lparr>m_slots := AList.update tid wt (m_slots w)\<rparr>)) (\<lambda>_.
     bind_io (start_worker C S q ap lease wt) (\<lambda>p.
     bind_io (register_worker C S tid ap retries wt base p) (\<lambda>_.
       ret_io (ap_id ap)))))))))))))"

section \<open>The next task\<close>

text \<open>Preflight groups of tasks that may write the same paths.\<close>

definition group_ids :: "json \<Rightarrow> json list" where
  "group_ids g = (case g of
      JObj p \<Rightarrow> (case jget_default ''task_ids'' (JList []) p of JList xs \<Rightarrow> xs | _ \<Rightarrow> [])
    | _ \<Rightarrow> [])"

definition conflict_groups :: "config \<Rightarrow> (json, json) dict" where
  "conflict_groups C =
    (case jget_default ''conflicts'' (JList []) (c_plan C) of
       JList gs \<Rightarrow> fold (\<lambda>g. fold (\<lambda>tid. AList.update tid g) (group_ids g)) gs []
     | _ \<Rightarrow> [])"

definition conflict_blocked :: "config \<Rightarrow> (string, string) dict \<Rightarrow> string \<Rightarrow> bool" where
  "conflict_blocked C slots tid =
    (case map_of (conflict_groups C) (JStr tid) of
       None \<Rightarrow> False
     | Some g \<Rightarrow> truthy g \<and>
        list_ex (\<lambda>other. other \<noteq> JStr tid \<and> other \<in> set (map (\<lambda>(k, _). JStr k) slots)) (group_ids g))"

text \<open>
  \<open>depth\<close> of \<open>adaptive.py\<close>, with fuel for the levels of the graph; \<open>None\<close> is a recursion that does
  not end within it.
\<close>

fun chain_depth :: "(string \<Rightarrow> string list) \<Rightarrow> nat \<Rightarrow> string \<Rightarrow> int option" where
  "chain_depth children 0 v = None"
| "chain_depth children (Suc k) v =
    map_option (\<lambda>ds. 1 + foldr max ds 0) (those (map (chain_depth children k) (children v)))"

record score_row =
  sc_depth :: int
  sc_downstream :: int
  sc_score :: int

definition task_score :: "db \<Rightarrow> string \<Rightarrow> score_row option" where
  "task_score d tid =
    (let children = dependents (d_deps d) in
     map_option (\<lambda>n. \<lparr>sc_depth = n, sc_downstream = int (length (children tid)),
       sc_score = n * 100 + int (length (children tid)) * 10\<rparr>)
     (chain_depth children (Suc (length (d_tasks d))) tid))"

definition task_scores :: "db \<Rightarrow> task_row list \<Rightarrow> (string \<times> score_row) list option" where
  "task_scores d rows = those (map (\<lambda>t. map_option (Pair (t_id t)) (task_score d (t_id t))) rows)"

definition score_of :: "(string \<times> score_row) list \<Rightarrow> task_row \<Rightarrow> int" where
  "score_of scores t = (case map_of scores (t_id t) of None \<Rightarrow> 0 | Some s \<Rightarrow> sc_score s)"

text \<open>\<open>min\<close> by the key \<open>(-score, created_at, id)\<close>: the first of the rows sorted by it.\<close>

definition choose_task :: "db \<Rightarrow> task_row list \<Rightarrow> (task_row \<times> (string \<times> score_row) list) option" where
  "choose_task d rows =
    map_option (\<lambda>scores.
      (hd (sort_key (\<lambda>t. - score_of scores t) (sort_key t_created_at (sort_key t_id rows))), scores))
    (task_scores d rows)"

definition recent_durations :: "db \<Rightarrow> int list" where
  "recent_durations d = map (\<lambda>a. the (a_worker_ended_at a) - the (a_worker_started_at a))
    (take 8 (sort_key (\<lambda>a. - a_attempt_no a)
      (filter (\<lambda>a. a_worker_started_at a \<noteq> None \<and> a_worker_ended_at a \<noteq> None) (d_attempts d))))"

text \<open>The limit, and the numbers it was decided from.\<close>

definition effective_limit :: "db \<Rightarrow> int \<Rightarrow> int \<Rightarrow> int \<times> payload" where
  "effective_limit d base active =
    (let ds = recent_durations d;
         total = sum_list (map (max 0) ds);
         n = int (length ds);
         limit = (if ds \<noteq> [] \<and> 60000000 * n < total \<and> 1 < base then max 1 (base - 1) else base)
     in (limit, [(''recent_worker_avg_s'', JFloat (decimal_text 3 (if ds = [] then 0 else round_div total (1000 * n)))),
        (''active_workers'', JInt active), (''base_limit'', JInt base), (''effective_limit'', JInt limit)]))"

definition score_json :: "string \<times> score_row \<Rightarrow> string \<times> json" where
  "score_json kv = (fst kv, JObj [(''critical_path_depth'', JInt (sc_depth (snd kv))),
    (''downstream_count'', JInt (sc_downstream (snd kv))), (''score'', JInt (sc_score (snd kv)))])"

definition queued_rows :: "db \<Rightarrow> task_row list" where
  "queued_rows d = sort_key t_created_at (sort_key t_id (filter (\<lambda>t. t_state t = Queued) (d_tasks d)))"

definition launch_limit :: "config \<Rightarrow> db \<Rightarrow> int \<Rightarrow> int \<times> payload" where
  "launch_limit C d active =
    (if c_adaptive C then effective_limit d (c_max_concurrency C) active
     else (c_max_concurrency C, [(''base_limit'', JInt (c_max_concurrency C)),
       (''effective_limit'', JInt (c_max_concurrency C)), (''active_workers'', JInt active)]))"

definition plain_launch :: "task_row \<Rightarrow> launch_task" where
  "plain_launch t = \<lparr>q_task = t, q_scenario = None, q_feedback = None, q_intervention = None\<rparr>"

text \<open>The row to launch among the candidates; the adaptive policy records its decision.\<close>

definition select_row :: "config \<Rightarrow> payload \<Rightarrow> task_row list \<Rightarrow> task_row act" where
  "select_row C inputs rows =
    (if c_adaptive C then
       bind_io (read_db (\<lambda>d. choose_task d rows)) (\<lambda>ch. case ch of
         None \<Rightarrow> raise_io (RuntimeError ''maximum recursion depth exceeded'')
       | Some (t, scores) \<Rightarrow>
           bind_io (timing_event C (t_id t) ''scheduler.decision'' None None
             [(''policy'', JStr ''adaptive''), (''selected_task'', JStr (t_id t)),
              (''inputs'', JObj inputs), (''candidate_scores'', JObj (map score_json scores))])
             (\<lambda>_. ret_io t))
     else ret_io (hd rows))"

text \<open>
  \<open>_launch_ready\<close>. Every turn that does not return takes a task out of queued, so one turn more
  than there are queued tasks is enough fuel; \<open>False\<close> is the end of the fuel.
\<close>

fun launch_loop :: "config \<Rightarrow> services \<Rightarrow> nat \<Rightarrow> bool act" where
  "launch_loop C S 0 = ret_io False"
| "launch_loop C S (Suc k) =
    bind_io (gets_io m_slots) (\<lambda>slots.
    bind_io (read_db (\<lambda>d. launch_limit C d (int (length slots)))) (\<lambda>(limit, inputs).
      if limit \<le> int (length slots) then ret_io True
      else
        bind_io (read_db (\<lambda>d. filter (\<lambda>t. \<not> conflict_blocked C slots (t_id t)) (queued_rows d))) (\<lambda>rows.
          if rows = [] then ret_io True
          else
            bind_io (select_row C inputs rows) (\<lambda>t.
            bind_io (launch C S (plain_launch t) None) (\<lambda>_. launch_loop C S k)))))"

definition launch_ready :: "config \<Rightarrow> services \<Rightarrow> bool act" where
  "launch_ready C S = bind_io (read_db (\<lambda>d. Suc (length (queued_rows d)))) (launch_loop C S)"

end
