(* ===== verification/Recovery.thy ===== *)
theory Recovery
  imports Json
begin

text \<open>\<open>recovery.py\<close>: failure classes, the bounded recovery decision and its payload.\<close>

datatype failure_class =
    WorkerCrash | ProtocolIncomplete | StartupFailure | SdkTimeout | TimeoutStall
  | UncommittedChanges | EmptyDiff | VisibleVerificationFailure | DeliveryFailure
  | RepeatedEquivalentFailure

fun class_value :: "failure_class \<Rightarrow> string" where
  "class_value WorkerCrash = ''worker_crash''"
| "class_value ProtocolIncomplete = ''protocol_incomplete''"
| "class_value StartupFailure = ''startup_authentication_failure''"
| "class_value SdkTimeout = ''sdk_timeout''"
| "class_value TimeoutStall = ''timeout_stall''"
| "class_value UncommittedChanges = ''uncommitted_changes''"
| "class_value EmptyDiff = ''empty_diff''"
| "class_value VisibleVerificationFailure = ''visible_verification_failure''"
| "class_value DeliveryFailure = ''delivery_failure''"
| "class_value RepeatedEquivalentFailure = ''repeated_equivalent_failure''"

definition all_classes :: "failure_class list" where
  "all_classes = [WorkerCrash, ProtocolIncomplete, StartupFailure, SdkTimeout, TimeoutStall,
    UncommittedChanges, EmptyDiff, VisibleVerificationFailure, DeliveryFailure,
    RepeatedEquivalentFailure]"

text \<open>\<open>FailureClass(text)\<close>: \<open>None\<close> stands for its \<open>ValueError\<close>.\<close>

definition class_of_value :: "string \<Rightarrow> failure_class option" where
  "class_of_value s = find (\<lambda>c. class_value c = s) all_classes"

datatype recovery_action =
    RetryRetainedCandidate | Repair | RerunVerification | Escalate | Terminate

fun action_value :: "recovery_action \<Rightarrow> string" where
  "action_value RetryRetainedCandidate = ''retry_retained_candidate''"
| "action_value Repair = ''repair''"
| "action_value RerunVerification = ''rerun_verification''"
| "action_value Escalate = ''escalate''"
| "action_value Terminate = ''terminate''"

record recovery_decision =
  rd_failure_class :: failure_class
  rd_action :: recovery_action
  rd_bounded :: bool
  rd_reason :: string

definition event_failures :: "(string \<times> failure_class) list" where
  "event_failures = [
    (''worker.exited'', WorkerCrash),
    (''worker.protocol_incomplete'', ProtocolIncomplete),
    (''worker.unclaimed'', ProtocolIncomplete),
    (''worker.stalled'', TimeoutStall),
    (''worker.timeout'', TimeoutStall),
    (''worker.startup_failed'', StartupFailure),
    (''worker.sdk_timeout'', SdkTimeout),
    (''verify.failed'', VisibleVerificationFailure),
    (''artifact.validation_failed'', VisibleVerificationFailure),
    (''interface.validation_failed'', VisibleVerificationFailure),
    (''delivery.failed'', DeliveryFailure)]"

text \<open>The class that a value names as text; no other value prints as a class.\<close>

definition explicit_class :: "json \<Rightarrow> failure_class option" where
  "explicit_class v = (case v of JStr s \<Rightarrow> class_of_value s | _ \<Rightarrow> None)"

definition classify_failure :: "string \<Rightarrow> payload \<Rightarrow> failure_class" where
  "classify_failure typ p =
    (case explicit_class (json_or (jget ''failure_class'' p) (jget ''category'' p)) of
       Some c \<Rightarrow> c
     | None \<Rightarrow>
        if typ = ''verify.failed'' \<and> jget ''cause'' p \<in> {JStr ''uncommitted_changes'', JStr ''dirty_worktree''}
          then UncommittedChanges
        else if typ = ''verify.failed'' \<and> jget ''cause'' p = JStr ''empty_diff'' then EmptyDiff
        else (case map_of event_failures typ of None \<Rightarrow> VisibleVerificationFailure | Some c \<Rightarrow> c))"

definition choose_recovery :: "failure_class \<Rightarrow> int \<Rightarrow> int \<Rightarrow> int \<Rightarrow> bool \<Rightarrow> recovery_decision" where
  "choose_recovery c retries max_retries protocol_retries equivalent =
    (let mk = (\<lambda>a r. \<lparr>rd_failure_class = c, rd_action = a, rd_bounded = True, rd_reason = r\<rparr>) in
     if equivalent then mk Escalate ''equivalent public failure repeated''
     else if c \<in> {StartupFailure, SdkTimeout}
       then mk Terminate ''SDK startup/turn timeouts are infrastructure-owned''
     else if c = DeliveryFailure
       then mk Escalate ''delivery requires an explicit policy or human decision''
     else if retries \<ge> max_retries then mk Escalate ''retry budget exhausted''
     else if c = ProtocolIncomplete then
       (if protocol_retries \<ge> 1 then mk Escalate ''bounded protocol repair already attempted''
        else mk Repair ''successful SDK result lacked terminal metadata'')
     else if c \<in> {WorkerCrash, UncommittedChanges, EmptyDiff}
       then mk RetryRetainedCandidate ''public worker/candidate evidence is unambiguous''
     else if c = TimeoutStall
       then mk Escalate ''watchdog evidence does not identify a safe repair''
     else if c = VisibleVerificationFailure
       then mk Repair ''visible verification output can guide one bounded repair''
     else mk Escalate ''no deterministic recovery rule matched'')"

definition recovery_payload ::
    "recovery_decision \<Rightarrow> int option \<Rightarrow> string option \<Rightarrow> payload \<Rightarrow> payload" where
  "recovery_payload r cause aid extra =
    dict_merge
      ([(''failure_class'', JStr (class_value (rd_failure_class r))),
        (''action'', JStr (action_value (rd_action r))),
        (''bounded'', JBool (rd_bounded r)),
        (''reason'', JStr (rd_reason r))]
       @ (case cause of None \<Rightarrow> [] | Some s \<Rightarrow> [(''cause_seq'', JInt s)])
       @ (case aid of None \<Rightarrow> [] | Some a \<Rightarrow> [(''attempt_id'', JStr a)]))
      extra"

section \<open>Laws\<close>

lemma class_of_value_value [simp]: "class_of_value (class_value c) = Some c"
  by (cases c) (simp_all add: class_of_value_def all_classes_def)

lemma choose_recovery_class [simp]: "rd_failure_class (choose_recovery c r m p e) = c"
  by (simp add: choose_recovery_def Let_def)

lemma choose_recovery_action:
  "rd_action (choose_recovery c r m p e) =
    (if e then Escalate
     else if c \<in> {StartupFailure, SdkTimeout} then Terminate
     else if c = DeliveryFailure \<or> m \<le> r then Escalate
     else if c = ProtocolIncomplete then (if 1 \<le> p then Escalate else Repair)
     else if c \<in> {WorkerCrash, UncommittedChanges, EmptyDiff} then RetryRetainedCandidate
     else if c = VisibleVerificationFailure then Repair else Escalate)"
  by (simp add: choose_recovery_def Let_def)

text \<open>
  C12. Recovery is bounded: an action that starts another worker is chosen only while retries are
  below the budget, never for an equivalent repeated failure, a startup or turn timeout of the
  infrastructure, a delivery failure or a stall, and for a protocol failure at most once. Whatever
  the evidence, one of the other actions is chosen instead.
\<close>

theorem recovery_bounded:
  "rd_action (choose_recovery c retries max_retries protocol_retries equivalent)
      \<in> {RetryRetainedCandidate, Repair} \<longleftrightarrow>
    \<not> equivalent \<and> retries < max_retries \<and>
    (c \<in> {WorkerCrash, UncommittedChanges, EmptyDiff, VisibleVerificationFailure} \<or>
     c = ProtocolIncomplete \<and> protocol_retries < 1)"
  by (cases c) (auto simp: choose_recovery_action)

text \<open>
  Classification is stable: a payload that a recovery decision wrote is classified, under any
  event type, as the class of that decision.
\<close>

theorem recovery_payload_classified:
  "map_of extra ''failure_class'' = None \<Longrightarrow>
    classify_failure typ (recovery_payload r cause aid extra) = rd_failure_class r"
proof -
  assume "map_of extra ''failure_class'' = None"
  then have "map_of (rev extra) ''failure_class'' = None"
    by (simp add: map_of_eq_None_iff)
  then have "jget ''failure_class'' (recovery_payload r cause aid extra) = JStr (class_value (rd_failure_class r))"
    by (simp add: jget_def recovery_payload_def map_of_dict_merge map_add_def)
  then show ?thesis
    by (cases "rd_failure_class r") (simp_all add: classify_failure_def json_or_def explicit_class_def
        class_of_value_def all_classes_def)
qed

theorem recovery_payload_classified_witness:
  "classify_failure ''worker.exited'' (recovery_payload (choose_recovery EmptyDiff 0 2 0 False) (Some 3)
    (Some ''att'') [(''note'', JInt 1)]) = EmptyDiff"
  using recovery_payload_classified[of "[(''note'', JInt 1)]" "''worker.exited''"
      "choose_recovery EmptyDiff 0 2 0 False" "Some 3" "Some ''att''"] by simp

end
