(* ===== verification/Triage.thy ===== *)
theory Triage
  imports Launch Recovery
begin

text \<open>
  Triage, from the failure signal to the decision that is carried out: the guard against stale and
  duplicate signals, the recoveries that need no supervisor, the deterministic policy, and the
  dispatch of the supervisor's action (\<open>_mark_running_failure\<close> to \<open>_handle_triage_inner\<close> of
  \<open>scheduler/core.py\<close>). A \<open>LIMIT 1\<close> without an order takes the first row in insertion order.
\<close>

section \<open>Failure signals\<close>

definition mark_running_failure ::
    "string \<Rightarrow> source \<Rightarrow> string \<Rightarrow> payload \<Rightarrow> string option \<Rightarrow> int option act" where
  "mark_running_failure tid src typ p session =
    bind_io (read_db (find_task tid)) (\<lambda>row. case row of
      None \<Rightarrow> ret_io None
    | Some t \<Rightarrow>
        if t_state t \<noteq> Running then ret_io None
        else
          bind_io (read_db (\<lambda>d. given (t_current_attempt_id t) \<and> typ \<in> {''worker.exited'', ''worker.stalled''} \<and>
            list_ex (\<lambda>e. e_task_id e = Some tid \<and> e_type e \<in> {''worker.exited'', ''worker.stalled''} \<and>
              jget ''attempt_id'' (e_payload e) = jopt (t_current_attempt_id t)) (d_events d))) (\<lambda>duplicate.
          bind_io (gets_io (\<lambda>w. typ = ''worker.stalled'' \<and> map_of (m_wait_grace w) tid \<noteq> None)) (\<lambda>new_window.
            if duplicate \<and> \<not> new_window then ret_io None
            else bind_io (usage_event_io src typ (Some tid)
              (if given (t_current_attempt_id t) \<and> map_of p ''attempt_id'' = None
                then p @ [(''attempt_id'', jopt (t_current_attempt_id t))] else p)
              (with_session session)) (\<lambda>s. ret_io (Some s)))))"

definition terminal_classification :: "string \<Rightarrow> string \<Rightarrow> int option \<Rightarrow> payload \<Rightarrow> int act" where
  "terminal_classification tid cls cause extra =
    event_io Src_system ''task.terminal_classified'' (Some tid)
      (dict_merge ([(''classification'', JStr cls)]
        @ (case cause of None \<Rightarrow> [] | Some s \<Rightarrow> [(''cause_seq'', JInt s)])) extra)"

section \<open>Recoveries without a supervisor\<close>

definition shas_of :: "attempt_row \<Rightarrow> string option" where
  "shas_of a = text_or (a_candidate_sha a) (Some (a_base_sha a))"

text \<open>\<open>int(v)\<close> of a JSON value; text is not modelled and raises.\<close>

fun py_int :: "json \<Rightarrow> exc + int" where
  "py_int (JInt i) = Inr i"
| "py_int (JBool b) = Inr (if b then 1 else 0)"
| "py_int _ = Inl (TypeError ''int() argument'')"

definition crash_feedback :: string where
  "crash_feedback = ''The previous worker process exited before completion. Continue from the retained candidate and finish the task.''"

definition retry_launch :: "config \<Rightarrow> services \<Rightarrow> launch_task \<Rightarrow> unit act" where
  "retry_launch C S q =
    bind_io (teardown C S (t_id (q_task q)) None) (\<lambda>_.
    bind_io (launch C S q (Some (t_retries (q_task q) + 1))) (\<lambda>_. ret_io ()))"

definition crash_retry :: "config \<Rightarrow> services \<Rightarrow> string \<Rightarrow> int \<Rightarrow> task_row \<Rightarrow> attempt_row \<Rightarrow> bool act" where
  "crash_retry C S tid cause t a =
    bind_io (event_io Src_system ''recovery.policy_applied'' (Some tid)
      [(''action_type'', JStr ''RESTART''),
       (''action'', JStr (action_value RetryRetainedCandidate)),
       (''failure_class'', JStr (class_value WorkerCrash)),
       (''diagnosis_code'', JStr ''worker_crash_retry''),
       (''cause_seq'', JInt cause), (''attempt_id'', JStr (a_id a)),
       (''previous_candidate_sha'', jopt (shas_of a)),
       (''reason'', JStr ''non-zero worker exit has no completion claim; retry within budget'')]) (\<lambda>_.
    bind_io (update_attempt_io (a_id a)
      [(''disposition'', JStr ''retry_requested''), (''supervisor_feedback'', JStr crash_feedback)]) (\<lambda>_.
    bind_io (retry_launch C S \<lparr>q_task = t\<lparr>t_brief := t_brief t @ [CHR 0x0A, CHR 0x0A] @ ''Recovery feedback:'' @ [CHR 0x0A] @ crash_feedback\<rparr>,
        q_scenario = Some (t_brief t), q_feedback = Some crash_feedback, q_intervention = None\<rparr>) (\<lambda>_.
    bind_io (event_io Src_system ''recovery.attempted'' (Some tid)
      [(''action'', JStr (action_value RetryRetainedCandidate)), (''failure_class'', JStr (class_value WorkerCrash)),
       (''cause_seq'', JInt cause), (''attempt_id'', JStr (a_id a))]) (\<lambda>_.
      ret_io True))))"

definition apply_crash_recovery :: "config \<Rightarrow> services \<Rightarrow> string \<Rightarrow> int \<Rightarrow> bool act" where
  "apply_crash_recovery C S tid cause =
    (if \<not> c_deterministic_crash C then ret_io False
     else bind_io (read_db (find_event cause)) (\<lambda>ev. case ev of
       None \<Rightarrow> ret_io False
     | Some e \<Rightarrow>
        if e_type e \<noteq> ''worker.exited'' then ret_io False
        else bind_io (lift_exc (py_int (jget_default ''exit_code'' (JInt 0) (e_payload e)))) (\<lambda>code.
          if code = 0 then ret_io False
          else bind_io (read_db (\<lambda>d. (latest_attempt tid d, find_task tid d))) (\<lambda>r. case r of
            (Some a, Some t) \<Rightarrow>
              if a_failure_cause a \<noteq> Some ''worker.exited'' \<or> t_max_retries t \<le> t_retries t then ret_io False
              else crash_retry C S tid cause t a
          | _ \<Rightarrow> ret_io False))))"

definition protocol_feedback :: string where
  "protocol_feedback = ''The previous SDK session completed without the optional terminal metadata. Inspect the candidate, run visible verification, commit the result, and end with exactly one DONE_CLAIM line.''"

definition prior_repairs :: "string \<Rightarrow> db \<Rightarrow> int" where
  "prior_repairs tid d = int (length (filter (\<lambda>e. e_task_id e = Some tid \<and> e_type e = ''recovery.policy_applied'' \<and>
    jget ''diagnosis_code'' (e_payload e) = JStr ''protocol_incomplete_repair'') (d_events d)))"

definition protocol_retry ::
    "config \<Rightarrow> services \<Rightarrow> string \<Rightarrow> int \<Rightarrow> task_row \<Rightarrow> attempt_row \<Rightarrow> recovery_decision \<Rightarrow> bool act" where
  "protocol_retry C S tid cause t a dec =
    bind_io (event_io Src_system ''recovery.policy_applied'' (Some tid)
      (recovery_payload dec (Some cause) (Some (a_id a))
        [(''diagnosis_code'', JStr ''protocol_incomplete_repair''), (''recovery_class'', JStr ''protocol_incomplete'')])) (\<lambda>ps.
    bind_io (update_attempt_io (a_id a)
      [(''disposition'', JStr ''retry_requested''), (''failure_cause'', JStr ''protocol_incomplete''),
       (''failure_signature'', JStr ''protocol_incomplete''), (''supervisor_feedback'', JStr protocol_feedback)]) (\<lambda>_.
    bind_io (retry_launch C S \<lparr>q_task = t, q_scenario = None, q_feedback = Some protocol_feedback,
        q_intervention = None\<rparr>) (\<lambda>_.
    bind_io (event_io Src_system ''recovery.attempted'' (Some tid)
      [(''action'', JStr (action_value (rd_action dec))), (''cause_seq'', JInt cause),
       (''policy_seq'', JInt ps), (''attempt_id'', JStr (a_id a))]) (\<lambda>_.
      ret_io True))))"

definition apply_protocol_recovery :: "config \<Rightarrow> services \<Rightarrow> string \<Rightarrow> int \<Rightarrow> bool act" where
  "apply_protocol_recovery C S tid cause =
    (if \<not> c_protocol_v2 C then ret_io False
     else bind_io (read_db (find_event cause)) (\<lambda>ev. case ev of
       None \<Rightarrow> ret_io False
     | Some e \<Rightarrow>
        if e_type e \<noteq> ''worker.protocol_incomplete'' then ret_io False
        else bind_io (read_db (\<lambda>d. (find_task tid d, latest_attempt tid d, prior_repairs tid d))) (\<lambda>r. case r of
          (Some t, Some a, prior) \<Rightarrow>
            if t_max_retries t \<le> t_retries t then ret_io False
            else let dec = choose_recovery ProtocolIncomplete (t_retries t) (t_max_retries t) prior False in
              if rd_action dec \<noteq> Repair then ret_io False
              else protocol_retry C S tid cause t a dec
        | _ \<Rightarrow> ret_io False)))"

definition public_feedback :: "payload \<Rightarrow> string" where
  "public_feedback p = take 2000 (py_str (json_or (json_or (jget ''output_tail'' p) (jget ''reason'' p))
    (JStr ''Repair the public candidate failure and rerun the visible verification.'')))"

definition public_retry ::
    "config \<Rightarrow> services \<Rightarrow> string \<Rightarrow> int \<Rightarrow> task_row \<Rightarrow> attempt_row \<Rightarrow> recovery_decision \<Rightarrow> string \<Rightarrow> bool act" where
  "public_retry C S tid cause t a dec feedback =
    bind_io (event_io Src_system ''recovery.policy_applied'' (Some tid)
      (recovery_payload dec (Some cause) (Some (a_id a))
        [(''diagnosis_code'', JStr (class_value (rd_failure_class dec)))])) (\<lambda>ps.
    bind_io (update_attempt_io (a_id a)
      [(''disposition'', JStr ''retry_requested''), (''supervisor_feedback'', JStr feedback)]) (\<lambda>_.
    bind_io (retry_launch C S \<lparr>q_task = t, q_scenario = None, q_feedback = Some feedback,
        q_intervention = None\<rparr>) (\<lambda>_.
    bind_io (event_io Src_system ''recovery.attempted'' (Some tid)
      [(''action'', JStr (action_value (rd_action dec))),
       (''failure_class'', JStr (class_value (rd_failure_class dec))), (''cause_seq'', JInt cause),
       (''policy_seq'', JInt ps), (''attempt_id'', JStr (a_id a))]) (\<lambda>_.
      ret_io True))))"

definition apply_public_recovery :: "config \<Rightarrow> services \<Rightarrow> string \<Rightarrow> int \<Rightarrow> bool act" where
  "apply_public_recovery C S tid cause =
    (if \<not> c_deterministic C then ret_io False
     else bind_io (read_db (find_event cause)) (\<lambda>ev. case ev of
       None \<Rightarrow> ret_io False
     | Some e \<Rightarrow>
        if e_type e \<notin> {''verify.failed'', ''artifact.validation_failed'', ''interface.validation_failed''}
          then ret_io False
        else bind_io (read_db (\<lambda>d. (find_task tid d, latest_attempt tid d))) (\<lambda>r. case r of
          (Some t, Some a) \<Rightarrow>
            let dec = choose_recovery (classify_failure (e_type e) (e_payload e)) (t_retries t) (t_max_retries t) 0 False in
            if rd_action dec \<notin> {Repair, RetryRetainedCandidate} then ret_io False
            else public_retry C S tid cause t a dec (public_feedback (e_payload e))
        | _ \<Rightarrow> ret_io False)))"

section \<open>The deterministic policy\<close>

text \<open>
  The ancestors of an attempt, nearest first, with fuel; \<open>None\<close> is a walk that does not end.
\<close>

fun lineage :: "db \<Rightarrow> nat \<Rightarrow> string option \<Rightarrow> attempt_row list option" where
  "lineage d k None = Some []"
| "lineage d 0 (Some pid) = (if pid = [] then Some [] else None)"
| "lineage d (Suc k) (Some pid) =
    (if pid = [] then Some []
     else case find_attempt pid d of
       None \<Rightarrow> Some []
     | Some p \<Rightarrow> map_option (Cons p) (lineage d k (a_parent_attempt_id p)))"

definition materially_changed ::
    "services \<Rightarrow> string \<Rightarrow> attempt_row option \<Rightarrow> attempt_row option \<Rightarrow> bool act" where
  "materially_changed S tid prev cur = (case (prev, cur) of
      (Some p, Some c) \<Rightarrow>
        let old = shas_of p; new = shas_of c in
        if \<not> given old \<or> \<not> given new \<or> old = new then ret_io False
        else bind_io (read_db (find_task tid)) (\<lambda>row. case row of
          None \<Rightarrow> ret_io True
        | Some t \<Rightarrow> bind_io (call_io (\<lambda>i. s_git_diff S i (t_repo t) (the old) (the new))) (\<lambda>code.
            ret_io (code \<noteq> 0)))
    | _ \<Rightarrow> ret_io False)"

record evaluation =
  ev_attempt_id :: string
  ev_previous_id :: "string option"
  ev_previous_signature :: "string option"
  ev_signature :: "string option"
  ev_changed :: bool
  ev_same_count :: int
  ev_retries :: int
  ev_budget :: int

definition evaluation_payload :: "evaluation \<Rightarrow> payload" where
  "evaluation_payload v = [
    (''attempt_id'', JStr (ev_attempt_id v)), (''previous_attempt_id'', jopt (ev_previous_id v)),
    (''previous_failure_signature'', jopt (ev_previous_signature v)),
    (''failure_signature'', jopt (ev_signature v)), (''candidate_changed'', JBool (ev_changed v)),
    (''same_signature_count'', JInt (ev_same_count v)), (''retry_count'', JInt (ev_retries v)),
    (''retry_budget'', JInt (ev_budget v))]"

text \<open>A walk that does not end is an exception of the model; chains of attempts are well founded.\<close>

definition failure_evaluation :: "services \<Rightarrow> string \<Rightarrow> attempt_row option \<Rightarrow> evaluation option act" where
  "failure_evaluation S tid attempt = (case attempt of
      None \<Rightarrow> ret_io None
    | Some a \<Rightarrow>
        if \<not> given (a_failure_signature a) then ret_io None
        else
          bind_io (read_db (\<lambda>d. (find_task tid d, lineage d (length (d_attempts d)) (a_parent_attempt_id a)))) (\<lambda>r.
            case r of
              (row, None) \<Rightarrow> raise_io (RuntimeError ''the lineage does not end'')
            | (row, Some anc) \<Rightarrow>
                let prev = (if anc = [] then None else Some (hd anc)) in
                bind_io (materially_changed S tid prev attempt) (\<lambda>changed.
                  case row of
                    None \<Rightarrow> raise_io (TypeError ''NoneType object is not subscriptable'')
                  | Some t \<Rightarrow> ret_io (Some \<lparr>
                      ev_attempt_id = a_id a, ev_previous_id = map_option a_id prev,
                      ev_previous_signature = Option.bind prev a_failure_signature,
                      ev_signature = a_failure_signature a, ev_changed = changed,
                      ev_same_count = int (length (filter (\<lambda>p. a_failure_signature p = a_failure_signature a) anc)),
                      ev_retries = t_retries t, ev_budget = t_max_retries t\<rparr>))))"

definition finish_interventions :: "string \<Rightarrow> string \<Rightarrow> string option \<Rightarrow> unit act" where
  "finish_interventions tid outcome recovery =
    bind_io (read_db (\<lambda>d. map i_id (filter (\<lambda>i. i_task_id i = tid \<and> i_eventual_delivery_outcome i = None)
      (d_interventions d)))) (\<lambda>ids.
      for_io ids (\<lambda>iid. bind_io (update_intervention_io iid
        ([(''eventual_delivery_outcome'', JStr outcome)]
          @ (if given recovery then [(''verification_recovery_outcome'', jopt recovery)] else [])))
        (\<lambda>_. ret_io ())))"

definition apply_policy :: "config \<Rightarrow> services \<Rightarrow> string \<Rightarrow> bool act" where
  "apply_policy C S tid =
    bind_io (read_db (latest_attempt tid)) (\<lambda>attempt.
    bind_io (failure_evaluation S tid attempt) (\<lambda>ev. case (ev, attempt) of
      (Some v, Some a) \<Rightarrow>
        bind_io (event_io Src_scheduler ''recovery.evaluated'' (Some tid) (evaluation_payload v)) (\<lambda>_.
          let repeated = (max 1 (c_repeated_threshold C) \<le> ev_same_count v \<and> \<not> ev_changed v);
              exhausted = (ev_budget v \<le> ev_retries v \<and> 1 < a_attempt_no a);
              code = (if repeated then ''repeated_identical_failure'' else ''retry_budget_exhausted'')
          in if \<not> repeated \<and> \<not> exhausted then ret_io False
          else
            bind_io (event_io Src_system ''recovery.policy_applied'' (Some tid)
              [(''action_type'', JStr ''ESCALATE_HUMAN''), (''diagnosis_code'', JStr code),
               (''attempt_id'', JStr (a_id a)), (''previous_attempt_id'', jopt (ev_previous_id v)),
               (''previous_failure_signature'', jopt (ev_previous_signature v)),
               (''failure_signature'', jopt (ev_signature v)),
               (''candidate_changed'', JBool (ev_changed v)),
               (''reason'', JStr (if repeated
                 then ''the retry produced the same normalized public failure and no material candidate change''
                 else ''the configured recovery retry budget is exhausted''))]) (\<lambda>s.
            bind_io (update_attempt_io (a_id a) [(''disposition'', JStr code)]) (\<lambda>_.
            bind_io (finish_interventions tid ''needs_human''
              (Some (if repeated then ''no_improvement'' else ''cannot_yet_evaluate''))) (\<lambda>_.
            bind_io (transition_io tid NeedsHuman s []) (\<lambda>_.
            bind_io (teardown C S tid None) (\<lambda>_. ret_io True))))))
    | _ \<Rightarrow> ret_io False))"

end
