(* ===== verification/Dispatch.thy ===== *)
theory Dispatch
  imports Triage
begin

text \<open>
  The supervised part of triage: \<open>_handle_triage_inner\<close> from the unfinished intervention to the
  action that is carried out, and \<open>_handle_triage\<close> around it.
\<close>

section \<open>Reading an action\<close>

text \<open>\<open>_worker_instruction\<close>: the explicit instruction, else the feedback, else the nudge itself.\<close>

fun raw_instruction :: "action \<Rightarrow> string option" where
  "raw_instruction (Act_nudge m r g) = Some m"
| "raw_instruction (Act_restart f r w g) = (case w of None \<Rightarrow> f | Some i \<Rightarrow> Some i)"
| "raw_instruction (Act_wait s r g) = None"
| "raw_instruction (Act_escalate s q os rc r g) = None"
| "raw_instruction (Act_abandon r g) = None"

definition worker_instruction :: "action \<Rightarrow> string option" where
  "worker_instruction a = (case raw_instruction a of
      None \<Rightarrow> None | Some i \<Rightarrow> if i = [] then None else Some (take 2000 i))"

definition diagnosis_code :: "action \<Rightarrow> packet \<Rightarrow> string" where
  "diagnosis_code a p =
    (let explicit = action_diagnosis a; trig = e_type (p_trigger p);
         fallback = (if explicit = [] then ''human_review'' else explicit) in
     if explicit \<noteq> [] \<and> explicit \<noteq> ''human_review'' then explicit
     else if action_name a = ''escalate'' then
       (if p_retries_remaining p \<le> 0 then ''retry_budget_exhausted''
        else if trig = ''verify.failed'' then ''public_failure_actionable''
        else if trig = ''worker.asked'' then ''missing_information_requires_person''
        else if trig = ''worker.exited'' then ''worker_terminal_failure''
        else if trig = ''worker.stalled'' then ''environment_tool_limit''
        else fallback)
     else fallback)"

text \<open>\<open>action.model_dump(exclude={"action"})\<close>.\<close>

fun action_fields :: "action \<Rightarrow> payload" where
  "action_fields (Act_nudge m r g) = [(''message'', JStr m), (''reason'', JStr r), (''diagnosis_code'', JStr g)]"
| "action_fields (Act_restart f r w g) = [(''feedback'', jopt f), (''reason'', JStr r),
    (''worker_instruction'', jopt w), (''diagnosis_code'', JStr g)]"
| "action_fields (Act_wait s r g) = [(''seconds'', JInt s), (''reason'', JStr r), (''diagnosis_code'', JStr g)]"
| "action_fields (Act_escalate s q os rc r g) = [(''summary'', JStr s), (''question'', JStr q),
    (''options'', JList (map JStr os)), (''recommended'', jint_opt rc), (''reason'', JStr r),
    (''diagnosis_code'', JStr g)]"
| "action_fields (Act_abandon r g) = [(''reason'', JStr r), (''diagnosis_code'', JStr g)]"

definition result_usage :: "sresult \<Rightarrow> usage" where
  "result_usage r = \<lparr>u_session_id = None, u_tokens_in = r_tokens_in r, u_tokens_out = r_tokens_out r,
    u_cost_usd = r_cost_usd r\<rparr>"

definition cost_json :: "string option \<Rightarrow> json" where
  "cost_json c = (case c of None \<Rightarrow> JNull | Some lit \<Rightarrow> JFloat lit)"

section \<open>Asking once\<close>

text \<open>The events that mark the signal as handled.\<close>

definition answers_cause :: "string \<Rightarrow> int \<Rightarrow> event_row \<Rightarrow> bool" where
  "answers_cause tid cause e \<longleftrightarrow> e_task_id e = Some tid \<and>
    (jget ''cause_seq'' (e_payload e) = JInt cause \<or>
     jget ''cause_seq'' (e_payload e) = JNull \<and> cause < e_seq e)"

definition persisted_action :: "string \<Rightarrow> int \<Rightarrow> db \<Rightarrow> event_row option" where
  "persisted_action tid cause d =
    find_last (\<lambda>e. e_type e = ''supervisor.acted'' \<and> answers_cause tid cause e) (d_events d)"

text \<open>
  \<open>ACTION_MODELS[payload["action"]].model_validate(payload)\<close>: \<open>None\<close> stands for the \<open>KeyError\<close> and
  \<open>ValueError\<close> that the handler catches.
\<close>

definition model_names :: "string list" where
  "model_names = [''nudge'', ''restart'', ''wait'', ''escalate'', ''abandon'']"

definition action_of_payload :: "services \<Rightarrow> payload \<Rightarrow> exc + action option" where
  "action_of_payload S p = (case jget ''action'' p of
      JStr name \<Rightarrow>
        if name \<in> set model_names then
          (case s_action_model S name p of
             Inl (ValueError m) \<Rightarrow> Inr None
           | Inl (KeyError m) \<Rightarrow> Inr None
           | Inl e \<Rightarrow> Inl e
           | Inr a \<Rightarrow> Inr (Some a))
        else Inr None
    | JList xs \<Rightarrow> Inl (TypeError ''unhashable type'')
    | JObj q \<Rightarrow> Inl (TypeError ''unhashable type'')
    | _ \<Rightarrow> Inr None)"

text \<open>What was decided: the action, the result it came with, the intervention, and the event of a
  decision made before a restart.\<close>

record decision =
  dc_action :: action
  dc_result :: sresult
  dc_intervention :: "string option"
  dc_persisted :: "event_row option"
  dc_source :: "string option"

definition transport_failure :: "packet \<Rightarrow> exc \<Rightarrow> sresult" where
  "transport_failure p e = \<lparr>
    r_action = Act_escalate ''supervisor invocation failed''
      (''Review task after '' @ e_type (p_trigger p) @ ''; supervisor error: '' @ exc_text e)
      [''review manually''] None ''supervisor transport failure'' ''environment_tool_limit'',
    r_ok = False, r_tokens_in = None, r_tokens_out = None, r_cost_usd = None, r_raw_text = None\<rparr>"

definition ask_supervisor :: "services \<Rightarrow> string \<Rightarrow> int \<Rightarrow> packet \<Rightarrow> decision act" where
  "ask_supervisor S tid cause p =
    bind_io (read_db (latest_attempt tid)) (\<lambda>attempt.
    bind_io (create_intervention_io tid (map_option a_id attempt) (Option.bind attempt shas_of)
      (Option.bind attempt a_failure_signature)) (\<lambda>iid.
    bind_io (case attempt of None \<Rightarrow> ret_io () | Some a \<Rightarrow>
      bind_io now_io (\<lambda>ts. bind_io (update_attempt_io (a_id a)
        [(''supervisor_started_at'', JInt ts), (''disposition'', JStr ''supervisor_running'')]) (\<lambda>_. ret_io ()))) (\<lambda>_.
    bind_io (event_io Src_supervisor ''supervisor.invoked'' (Some tid)
      [(''trigger'', JStr (e_type (p_trigger p))), (''cause_seq'', JInt cause),
       (''allowed_actions'', JList (map JStr (p_allowed_actions p))),
       (''attempt_id'', attempt_id_json attempt), (''intervention_id'', JStr iid)]) (\<lambda>_.
    bind_io (catch_io (try_call_io (\<lambda>i. s_supervisor S i p)) (\<lambda>e. ret_io (transport_failure p e))) (\<lambda>res.
    bind_io (case attempt of None \<Rightarrow> ret_io () | Some a \<Rightarrow>
      bind_io now_io (\<lambda>ts. bind_io (update_attempt_io (a_id a) [(''supervisor_ended_at'', JInt ts)])
        (\<lambda>_. ret_io ()))) (\<lambda>_.
      ret_io \<lparr>dc_action = r_action res, dc_result = res, dc_intervention = Some iid, dc_persisted = None,
        dc_source = map_option a_id attempt\<rparr>))))))"

definition reused_decision :: "event_row \<Rightarrow> action \<Rightarrow> exc + decision" where
  "reused_decision e a = map_sum id (\<lambda>iid. \<lparr>dc_action = a,
      dc_result = \<lparr>r_action = a, r_ok = True, r_tokens_in = Some 0, r_tokens_out = Some 0,
        r_cost_usd = Some ''0'', r_raw_text = None\<rparr>,
      dc_intervention = iid, dc_persisted = Some e, dc_source = None\<rparr>)
    (as_text_opt (jget ''intervention_id'' (e_payload e)))"

definition decide :: "services \<Rightarrow> string \<Rightarrow> int \<Rightarrow> packet \<Rightarrow> decision act" where
  "decide S tid cause p =
    bind_io (read_db (persisted_action tid cause)) (\<lambda>ev. case ev of
      None \<Rightarrow> ask_supervisor S tid cause p
    | Some e \<Rightarrow> bind_io (lift_exc (action_of_payload S (e_payload e))) (\<lambda>a. case a of
        None \<Rightarrow> ask_supervisor S tid cause p
      | Some act \<Rightarrow> lift_exc (reused_decision e act)))"

text \<open>An action outside the menu becomes an escalation.\<close>

definition enforce_menu :: "packet \<Rightarrow> decision \<Rightarrow> decision" where
  "enforce_menu p dc =
    (if action_name (dc_action dc) \<in> set (p_allowed_actions p) then dc
     else let name = repr_str (action_name (dc_action dc));
              a = Act_escalate ''supervisor returned an out-of-menu action''
                (''Task hit '' @ e_type (p_trigger p) @ ''; supervisor chose '' @ name @ '', not in '' @
                  py_repr (JList (map JStr (p_allowed_actions p))))
                [''review manually''] None (name @ '' not in allowed_actions'') ''human_review''
          in dc\<lparr>dc_action := a, dc_result := (dc_result dc)\<lparr>r_action := a, r_ok := False\<rparr>\<rparr>)"

section \<open>Recording the decision\<close>

definition acted_payload :: "int \<Rightarrow> packet \<Rightarrow> decision \<Rightarrow> payload" where
  "acted_payload cause p dc = dict_merge (action_fields (dc_action dc))
    [(''action'', JStr (action_name (dc_action dc))),
     (''action_type'', JStr (canonical_action_type (action_name (dc_action dc)))),
     (''cause_seq'', JInt cause), (''intervention_id'', jopt (dc_intervention dc)),
     (''source_attempt_id'', jopt (dc_source dc)),
     (''worker_instruction'', jopt (worker_instruction (dc_action dc))),
     (''diagnosis_code'', JStr (diagnosis_code (dc_action dc) p))]"

text \<open>The text kept on the attempt; an escalation without an instruction keeps its question.\<close>

fun escalation_text :: "action \<Rightarrow> string option" where
  "escalation_text (Act_escalate s q os rc r g) = Some (s @ [CHR 0x0A] @ q)"
| "escalation_text _ = None"

definition attempt_feedback :: "action \<Rightarrow> string option" where
  "attempt_feedback a = (case worker_instruction a of None \<Rightarrow> escalation_text a | Some i \<Rightarrow> Some i)"

definition record_event :: "string \<Rightarrow> int \<Rightarrow> packet \<Rightarrow> decision \<Rightarrow> int act" where
  "record_event tid cause p dc =
    then_io
      (when_io (\<not> r_ok (dc_result dc))
        (bind_io (usage_event_io Src_supervisor ''supervisor.failed'' (Some tid)
          [(''raw_text'', jopt (r_raw_text (dc_result dc)))] (result_usage (dc_result dc))) (\<lambda>_. ret_io ())))
      (case dc_persisted dc of
         Some e \<Rightarrow> ret_io (e_seq e)
       | None \<Rightarrow> usage_event_io Src_supervisor ''supervisor.acted'' (Some tid) (acted_payload cause p dc)
           (result_usage (dc_result dc)))"

definition record_attempt :: "action \<Rightarrow> attempt_row option \<Rightarrow> unit act" where
  "record_attempt act attempt = (case attempt of
      None \<Rightarrow> ret_io ()
    | Some a \<Rightarrow>
        bind_io now_io (\<lambda>ts. bind_io (update_attempt_io (a_id a)
          [(''supervisor_feedback'', jopt (attempt_feedback act)), (''supervisor_ended_at'', JInt ts),
           (''disposition'', JStr (if action_name act = ''restart'' then ''retry_requested'' else ''supervisor_acted''))])
          (\<lambda>_. ret_io ())))"

definition record_intervention :: "packet \<Rightarrow> decision \<Rightarrow> unit act" where
  "record_intervention p dc = (case (dc_persisted dc, dc_intervention dc) of
      (None, Some iid) \<Rightarrow>
        bind_io now_io (\<lambda>ts. bind_io (update_intervention_io iid
          [(''action_type'', JStr (canonical_action_type (action_name (dc_action dc)))),
           (''diagnosis_code'', JStr (diagnosis_code (dc_action dc) p)),
           (''worker_instruction'', jopt (worker_instruction (dc_action dc))),
           (''tokens_in'', jint_opt (r_tokens_in (dc_result dc))),
           (''tokens_out'', jint_opt (r_tokens_out (dc_result dc))),
           (''cost_usd'', cost_json (r_cost_usd (dc_result dc))), (''ended_at'', JInt ts)]) (\<lambda>_. ret_io ()))
    | _ \<Rightarrow> ret_io ())"

section \<open>Carrying it out\<close>

text \<open>The end of a task's automatic life: escalation to a human, or failure.\<close>

definition close_task ::
    "config \<Rightarrow> services \<Rightarrow> string \<Rightarrow> tstate \<Rightarrow> string \<Rightarrow> string \<Rightarrow> int \<Rightarrow> attempt_row option \<Rightarrow> bool act" where
  "close_task C S tid q disposition outcome s attempt =
    bind_io (case attempt of None \<Rightarrow> ret_io () | Some a \<Rightarrow>
      bind_io (update_attempt_io (a_id a) [(''disposition'', JStr disposition)]) (\<lambda>_. ret_io ())) (\<lambda>_.
    bind_io (finish_interventions tid outcome (Some ''cannot_yet_evaluate'')) (\<lambda>_.
    bind_io (transition_io tid q s []) (\<lambda>_.
    bind_io (teardown C S tid None) (\<lambda>_. ret_io False))))"

definition with_feedback :: "string \<Rightarrow> string option \<Rightarrow> string" where
  "with_feedback brief fb = (case fb of
      None \<Rightarrow> brief
    | Some f \<Rightarrow> brief @ [CHR 0x0A, CHR 0x0A] @ ''Feedback from a previous attempt:'' @ [CHR 0x0A] @ f)"

definition restart_task :: "config \<Rightarrow> services \<Rightarrow> string \<Rightarrow> action \<Rightarrow> string option \<Rightarrow> bool act" where
  "restart_task C S tid act iid =
    bind_io (read_db (find_task tid)) (\<lambda>row. case row of
      None \<Rightarrow> raise_io (TypeError ''NoneType object is not iterable'')
    | Some t \<Rightarrow>
        bind_io (retry_launch C S \<lparr>q_task = t\<lparr>t_brief := with_feedback (t_brief t) (worker_instruction act)\<rparr>,
          q_scenario = Some (t_brief t), q_feedback = worker_instruction act, q_intervention = iid\<rparr>)
          (\<lambda>_. ret_io False))"

definition carry_out ::
    "config \<Rightarrow> services \<Rightarrow> string \<Rightarrow> proc option \<Rightarrow> int \<Rightarrow> action \<Rightarrow> string option \<Rightarrow> attempt_row option \<Rightarrow> bool act" where
  "carry_out C S tid live s act iid attempt = (case act of
      Act_nudge m r g \<Rightarrow>
        (case live of
           None \<Rightarrow> raise_io (TypeError ''NoneType object has no attribute stdin'')
         | Some p \<Rightarrow>
            bind_io (modify_io (\<lambda>w. w\<lparr>m_nudges := m_nudges w @ [(p, m @ [CHR 0x0A])]\<rparr>)) (\<lambda>_.
            bind_io (transition_io tid Running s []) (\<lambda>_. ret_io True)))
    | Act_wait secs r g \<Rightarrow>
        bind_io (modify_io (\<lambda>w. w\<lparr>m_wait_grace :=
          AList.update tid (min (secs * 1000000) (c_wait_ceiling C)) (m_wait_grace w)\<rparr>)) (\<lambda>_.
        bind_io (transition_io tid Running s []) (\<lambda>_. ret_io True))
    | Act_restart f r w g \<Rightarrow> restart_task C S tid act iid
    | Act_escalate sm q os rc r g \<Rightarrow> close_task C S tid NeedsHuman ''escalated'' ''needs_human'' s attempt
    | Act_abandon r g \<Rightarrow> close_task C S tid Failed ''abandoned'' ''failed'' s attempt)"

definition dispatch ::
    "config \<Rightarrow> services \<Rightarrow> string \<Rightarrow> int \<Rightarrow> proc option \<Rightarrow> packet \<Rightarrow> decision \<Rightarrow> bool act" where
  "dispatch C S tid cause live p dc =
    bind_io (record_event tid cause p dc) (\<lambda>s.
    bind_io (read_db (latest_attempt tid)) (\<lambda>attempt.
    bind_io (record_attempt (dc_action dc) attempt) (\<lambda>_.
    bind_io (record_intervention p dc) (\<lambda>_.
      carry_out C S tid live s (dc_action dc) (dc_intervention dc) attempt))))"

section \<open>The interrupted call\<close>

text \<open>\<open>ORDER BY created_at DESC LIMIT 1\<close> among the interventions that never ended.\<close>

definition unfinished_intervention :: "string \<Rightarrow> db \<Rightarrow> intervention_row option" where
  "unfinished_intervention tid d = (case sort_key (\<lambda>i. - i_created_at i)
      (filter (\<lambda>i. i_task_id i = tid \<and> i_ended_at i = None) (d_interventions d)) of
      [] \<Rightarrow> None | i # _ \<Rightarrow> Some i)"

definition close_interrupted :: "config \<Rightarrow> services \<Rightarrow> string \<Rightarrow> intervention_row \<Rightarrow> bool act" where
  "close_interrupted C S tid iv =
    bind_io (read_db (latest_attempt tid)) (\<lambda>cur.
    bind_io (event_io Src_system ''recovery.policy_applied'' (Some tid)
      [(''action_type'', JStr ''ESCALATE_HUMAN''), (''diagnosis_code'', JStr ''environment_tool_limit''),
       (''attempt_id'', attempt_id_json cur), (''intervention_id'', JStr (i_id iv)),
       (''reason'', JStr ''supervisor intervention ended before its decision was persisted'')]) (\<lambda>s.
    bind_io now_io (\<lambda>ts.
    bind_io (update_intervention_io (i_id iv)
      [(''action_type'', JStr ''ESCALATE_HUMAN''), (''diagnosis_code'', JStr ''environment_tool_limit''),
       (''ended_at'', JInt ts), (''eventual_delivery_outcome'', JStr ''needs_human''),
       (''verification_recovery_outcome'', JStr ''cannot_yet_evaluate'')]) (\<lambda>_.
    bind_io (case cur of None \<Rightarrow> ret_io () | Some a \<Rightarrow>
      bind_io (update_attempt_io (a_id a) [(''disposition'', JStr ''supervisor_interrupted'')]) (\<lambda>_. ret_io ())) (\<lambda>_.
    bind_io (transition_io tid NeedsHuman s []) (\<lambda>_.
    bind_io (teardown C S tid None) (\<lambda>_. ret_io False)))))))"

section \<open>The handlers\<close>

definition supervise :: "config \<Rightarrow> services \<Rightarrow> string \<Rightarrow> int \<Rightarrow> proc option \<Rightarrow> bool act" where
  "supervise C S tid cause live =
    bind_io (bind_io (read_db (build_packet tid cause (c_yolo C) (live \<noteq> None) (c_max_nudges C)
      (c_tail_tokens C))) lift_exc) (\<lambda>p.
    bind_io (decide S tid cause p) (\<lambda>dc. dispatch C S tid cause live p (enforce_menu p dc)))"

text \<open>The result tells whether the caller goes on watching its live process.\<close>

definition handle_triage_inner :: "config \<Rightarrow> services \<Rightarrow> string \<Rightarrow> int \<Rightarrow> proc option \<Rightarrow> bool act" where
  "handle_triage_inner C S tid cause live =
    bind_io (apply_crash_recovery C S tid cause) (\<lambda>h1. if h1 then ret_io False else
    bind_io (apply_protocol_recovery C S tid cause) (\<lambda>h2. if h2 then ret_io False else
    bind_io (apply_public_recovery C S tid cause) (\<lambda>h3. if h3 then ret_io False else
    bind_io (apply_policy C S tid) (\<lambda>h4. if h4 then ret_io False else
    bind_io (read_db (unfinished_intervention tid)) (\<lambda>open. case open of
      Some iv \<Rightarrow> close_interrupted C S tid iv
    | None \<Rightarrow> supervise C S tid cause live)))))"

definition handled_event :: "string \<Rightarrow> int \<Rightarrow> db \<Rightarrow> event_row option" where
  "handled_event tid cause d =
    find (\<lambda>e. e_type e \<in> {''recovery.attempted'', ''supervisor.acted''} \<and> answers_cause tid cause e) (d_events d)"

text \<open>Whether the signal is stale: the task is settled or gone, or the signal was answered before.\<close>

definition stale_signal :: "string \<Rightarrow> int \<Rightarrow> db \<Rightarrow> bool" where
  "stale_signal tid cause d = (case find_task tid d of
      None \<Rightarrow> True
    | Some t \<Rightarrow> t_state t \<in> set settled_states \<or>
        (case handled_event tid cause d of
           None \<Rightarrow> False
         | Some e \<Rightarrow> \<not> (e_type e = ''supervisor.acted'' \<and> t_state t = Triage)))"

definition triage_started :: "string \<Rightarrow> int \<Rightarrow> db \<Rightarrow> bool" where
  "triage_started tid cause d = list_ex (\<lambda>e. e_task_id e = Some tid \<and> e_type e = ''triage.started'' \<and>
    jget ''cause_seq'' (e_payload e) = JInt cause) (d_events d)"

definition enter_triage :: "string \<Rightarrow> int \<Rightarrow> string option \<Rightarrow> unit act" where
  "enter_triage tid cause candidate =
    bind_io (read_db (find_task tid)) (\<lambda>row.
      if map_option t_state row = Some Triage then ret_io ()
      else bind_io (transition_io tid Triage cause
        (if given candidate then [(''candidate_sha'', jopt candidate)] else [])) (\<lambda>_. ret_io ()))"

definition handle_triage ::
    "config \<Rightarrow> services \<Rightarrow> string \<Rightarrow> int \<Rightarrow> proc option \<Rightarrow> string option \<Rightarrow> bool act" where
  "handle_triage C S tid cause live candidate =
    bind_io (read_db (stale_signal tid cause)) (\<lambda>stale.
      if stale then ret_io False
      else
        bind_io (enter_triage tid cause candidate) (\<lambda>_.
        bind_io (read_db (latest_attempt tid)) (\<lambda>attempt.
        bind_io (read_db (triage_started tid cause)) (\<lambda>started.
        bind_io (when_io (\<not> started) (bind_io (timing_event C tid ''triage.started'' (map_option a_id attempt) None
          [(''cause_seq'', JInt cause)]) (\<lambda>_. ret_io ()))) (\<lambda>_.
          finally_io (handle_triage_inner C S tid cause live)
            (bind_io (timing_event C tid ''triage.finished'' (map_option a_id attempt) None
              [(''cause_seq'', JInt cause)]) (\<lambda>_. ret_io ())))))))"

end
