(* ===== verification/Verify.thy ===== *)
theory Verify
  imports Dispatch
begin

text \<open>
  Verification and delivery of a candidate, and their resumption after a restart (\<open>_run_verify\<close>,
  \<open>_deliver\<close>, \<open>_resume_verifying\<close>, \<open>_resume_delivering\<close> of \<open>scheduler/core.py\<close>). The verification gate
  and the delivery modes are services here.
\<close>

section \<open>Outcome bookkeeping\<close>

definition row_or_raise :: "string \<Rightarrow> task_row act" where
  "row_or_raise tid = bind_io (read_db (find_task tid)) (\<lambda>row. case row of
      None \<Rightarrow> raise_io (TypeError ''NoneType object is not iterable'')
    | Some t \<Rightarrow> ret_io t)"

text \<open>\<open>update_attempt\<close> with an identifier that may be null.\<close>

definition update_current_attempt :: "string option \<Rightarrow> payload \<Rightarrow> unit act" where
  "update_current_attempt aid kw = (case aid of
      None \<Rightarrow> raise_io (ValueError ''unknown attempt'')
    | Some a \<Rightarrow> bind_io (update_attempt_io a kw) (\<lambda>_. ret_io ()))"

definition child_outcome :: "bool \<Rightarrow> attempt_row \<Rightarrow> intervention_row \<Rightarrow> string" where
  "child_outcome passed a i =
    (if passed then ''improved''
     else if a_failure_signature a = i_source_failure_signature i then ''no_improvement''
     else if given (i_source_failure_signature i) \<and> given (a_failure_signature a) then ''regressed_observed''
     else ''cannot_yet_evaluate'')"

definition update_child_interventions :: "attempt_row \<Rightarrow> bool \<Rightarrow> unit act" where
  "update_child_interventions a passed =
    bind_io (read_db (interventions_for_target (a_id a))) (\<lambda>rows.
      for_io rows (\<lambda>i. bind_io (update_intervention_io (i_id i)
        [(''child_candidate_sha'', jopt (a_candidate_sha a)),
         (''child_failure_signature'', jopt (a_failure_signature a)),
         (''verification_recovery_outcome'', JStr (child_outcome passed a i))]) (\<lambda>_. ret_io ())))"

text \<open>The earliest attempt before \<open>n\<close> that has a recorded verification failure.\<close>

definition failed_ancestor :: "string \<Rightarrow> int \<Rightarrow> db \<Rightarrow> attempt_row option" where
  "failed_ancestor tid n d = (case sort_key a_attempt_no (filter (\<lambda>a. a_task_id a = tid \<and> a_attempt_no a < n \<and>
      list_ex (\<lambda>e. e_task_id e = Some tid \<and> e_type e = ''verify.failed'' \<and>
        jget ''attempt_id'' (e_payload e) = JStr (a_id a)) (d_events d)) (d_attempts d)) of
      [] \<Rightarrow> None | a # _ \<Rightarrow> Some a)"

definition record_verification_recovery :: "string \<Rightarrow> unit act" where
  "record_verification_recovery tid =
    bind_io (read_db (\<lambda>d. list_ex (\<lambda>e. e_task_id e = Some tid \<and> e_type e = ''verification.recovered'') (d_events d)))
    (\<lambda>known. if known then ret_io () else
    bind_io (read_db (latest_attempt tid)) (\<lambda>cur. case cur of
      None \<Rightarrow> ret_io ()
    | Some c \<Rightarrow>
        if a_attempt_no c \<le> 1 then ret_io ()
        else bind_io (read_db (failed_ancestor tid (a_attempt_no c))) (\<lambda>f. case f of
          None \<Rightarrow> ret_io ()
        | Some a \<Rightarrow> bind_io (event_io Src_system ''verification.recovered'' (Some tid)
            [(''failed_attempt_id'', JStr (a_id a)), (''recovered_attempt_id'', JStr (a_id c))])
            (\<lambda>_. ret_io ()))))"

definition deliver_succeeded :: "string \<Rightarrow> int \<Rightarrow> unit act" where
  "deliver_succeeded tid s =
    bind_io (transition_io tid Delivered s []) (\<lambda>_.
    bind_io (read_db (\<lambda>d. Option.bind (find_task tid d) t_current_attempt_id)) (\<lambda>aid.
    bind_io (if given aid then bind_io (update_attempt_io (the aid) [(''disposition'', JStr ''delivered'')])
      (\<lambda>_. ret_io ()) else ret_io ()) (\<lambda>_.
    bind_io (finish_interventions tid ''delivered'' (Some ''improved'')) (\<lambda>_.
      record_verification_recovery tid))))"

section \<open>Delivery\<close>

definition task_artifact_root :: "config \<Rightarrow> string \<Rightarrow> string option" where
  "task_artifact_root C tid = (if given (c_artifact_root C) then Some (the (c_artifact_root C) @ ''/'' @ tid) else None)"

definition ignore_result :: "bool act \<Rightarrow> unit act" where
  "ignore_result m = bind_io m (\<lambda>_. ret_io ())"

text \<open>\<open>DeliveryError\<close> is the only exception of a delivery that is a task failure.\<close>

definition deliver_candidate :: "config \<Rightarrow> services \<Rightarrow> task_row \<Rightarrow> (string + delivery_kind \<times> payload) act" where
  "deliver_candidate C S t =
    catch_io (bind_io (try_call_io (\<lambda>i. s_deliver S i t (task_artifact_root C (t_id t)))) (\<lambda>r. ret_io (Inr r)))
      (\<lambda>e. case e of DeliveryError m \<Rightarrow> ret_io (Inl m) | _ \<Rightarrow> raise_io e)"

definition deliver_task :: "config \<Rightarrow> services \<Rightarrow> string \<Rightarrow> unit act" where
  "deliver_task C S tid =
    bind_io (row_or_raise tid) (\<lambda>t.
    bind_io (try_call_io (\<lambda>i. validate_output_artifacts (env_fs (s_env S) i) t)) (\<lambda>(ok, detail).
    bind_io (event_io Src_verifier (if ok then ''artifact.validation_passed'' else ''artifact.validation_failed'')
      (Some tid) (dict_merge [(''attempt_id'', jopt (t_current_attempt_id t))] detail)) (\<lambda>aseq.
      if \<not> ok then
        bind_io (read_db (latest_attempt tid)) (\<lambda>a.
        bind_io (case a of None \<Rightarrow> ret_io () | Some r \<Rightarrow>
          bind_io (update_attempt_io (a_id r) [(''failure_cause'', JStr ''artifact_validation_failed''),
            (''failure_signature'', JStr ''artifact_validation_failed''), (''disposition'', JStr ''artifact_failed'')])
            (\<lambda>_. ret_io ())) (\<lambda>_.
          ignore_result (handle_triage C S tid aseq None None)))
      else
        bind_io (deliver_candidate C S t) (\<lambda>r. case r of
          Inl msg \<Rightarrow>
            bind_io (event_io Src_delivery ''delivery.failed'' (Some tid)
              [(''attempt_id'', jopt (t_current_attempt_id t)), (''error'', JStr msg)]) (\<lambda>s.
              ignore_result (handle_triage C S tid s None None))
        | Inr (kind, p) \<Rightarrow>
            bind_io (event_io Src_delivery (delivery_type kind) (Some tid)
              (AList.update ''attempt_id'' (jopt (t_current_attempt_id t)) p)) (\<lambda>s.
              deliver_succeeded tid s)))))"

section \<open>Verification\<close>

definition enter_verifying :: "string \<Rightarrow> int \<Rightarrow> string option \<Rightarrow> unit act" where
  "enter_verifying tid cause candidate =
    bind_io (transition_io tid Verifying cause
      (if given candidate then [(''candidate_sha'', jopt candidate)] else [])) (\<lambda>_. ret_io ())"

text \<open>The first attempt's base: later attempts start from retained candidates.\<close>

definition origin_base :: "task_row \<Rightarrow> db \<Rightarrow> string option" where
  "origin_base t d = (case sort_key a_attempt_no (filter (\<lambda>a. a_task_id a = t_id t) (d_attempts d)) of
      [] \<Rightarrow> t_base_sha t | a # _ \<Rightarrow> Some (a_base_sha a))"

definition claimed_no_change :: "task_row \<Rightarrow> db \<Rightarrow> bool" where
  "claimed_no_change t d = (t_current_attempt_id t \<noteq> None \<and>
    list_ex (\<lambda>e. e_task_id e = Some (t_id t) \<and> e_type e = ''worker.no_change'' \<and>
      jget ''attempt_id'' (e_payload e) = jopt (t_current_attempt_id t)) (d_events d))"

definition claimed_protocol :: "task_row \<Rightarrow> db \<Rightarrow> json" where
  "claimed_protocol t d = (case find_last (\<lambda>e. e_task_id e = Some (t_id t) \<and>
      e_type e \<in> {''worker.done_claimed'', ''worker.no_change''}) (d_events d) of
      None \<Rightarrow> JNull | Some e \<Rightarrow> jget ''protocol_result'' (e_payload e))"

definition current_attempt :: "task_row \<Rightarrow> db \<Rightarrow> attempt_row option" where
  "current_attempt t d = Option.bind (t_current_attempt_id t) (\<lambda>aid. find_attempt aid d)"

definition verify_request_of :: "config \<Rightarrow> task_row \<Rightarrow> db \<Rightarrow> verify_request" where
  "verify_request_of C t d =
    (let a = current_attempt t d in
     \<lparr>v_task_id = t_id t, v_worktree = t_worktree t, v_base_sha = origin_base t d,
      v_verify_cmd = the (text_or (t_verify_cmd t) (Some ''true'')), v_timeout = c_verify_timeout C,
      v_repo = t_repo t, v_candidate_sha = text_or (t_candidate_sha t) (Option.bind a a_candidate_sha),
      v_worker_dirty = Option.bind a a_worker_dirty, v_artifact_root = task_artifact_root C (t_id t),
      v_allow_empty_diff = claimed_no_change t d, v_protocol_result = claimed_protocol t d,
      v_output_artifacts = t_output_artifacts t, v_output_schema = t_output_schema t,
      v_targeted = (if given (t_node_verify_cmd t) then Some [the (t_node_verify_cmd t)] else None)\<rparr>)"

definition evidence_events :: "string \<Rightarrow> string option \<Rightarrow> verify_result \<Rightarrow> unit act" where
  "evidence_events tid aid r = (case vr_evidence r of
      None \<Rightarrow> ret_io ()
    | Some ev \<Rightarrow>
        if ev = [] then ret_io ()
        else
          then_io
            (for_io (case jget_default ''stages'' (JList []) ev of JList xs \<Rightarrow> xs | _ \<Rightarrow> []) (\<lambda>st.
              bind_io (event_io Src_verifier ''verify.evidence_stage'' (Some tid)
                (dict_merge [(''attempt_id'', jopt aid)] (case st of JObj p \<Rightarrow> p | _ \<Rightarrow> []))) (\<lambda>_. ret_io ())))
            (bind_io (event_io Src_verifier ''verify.evidence_completed'' (Some tid)
              [(''attempt_id'', jopt aid), (''passed'', JBool (vr_passed r)),
               (''decisive_stage'', jget ''decisive_stage'' ev), (''cause'', jopt (vr_cause r))]) (\<lambda>_. ret_io ())))"

definition result_payload :: "string option \<Rightarrow> verify_result \<Rightarrow> payload" where
  "result_payload aid r = [
    (''cause'', jopt (vr_cause r)), (''exit_code'', jint_opt (vr_exit_code r)),
    (''duration_s'', JFloat (vr_duration r)), (''flaky'', JBool (vr_flaky r)),
    (''output_tail'', JStr (vr_output_tail r)), (''diff_stat'', JStr (vr_diff_stat r)),
    (''tests_modified'', vr_tests_modified r), (''output_path'', jopt (vr_output_path r)),
    (''patch_path'', jopt (vr_patch_path r)), (''failure_signature'', jopt (vr_failure_signature r)),
    (''attempt_id'', jopt aid)]"

definition later_attempt_event :: "string \<Rightarrow> attempt_row option \<Rightarrow> string \<Rightarrow> int \<Rightarrow> string \<Rightarrow> unit act" where
  "later_attempt_event tid a typ s outcome = (case a of
      None \<Rightarrow> ret_io ()
    | Some r \<Rightarrow> when_io (1 < a_attempt_no r) (bind_io (event_io Src_system typ (Some tid)
        [(''attempt_id'', JStr (a_id r)), (''cause_seq'', JInt s), (''outcome'', JStr outcome)]) (\<lambda>_. ret_io ())))"

definition verify_passed :: "config \<Rightarrow> services \<Rightarrow> string \<Rightarrow> string option \<Rightarrow> attempt_row option \<Rightarrow> payload \<Rightarrow> unit act" where
  "verify_passed C S tid aid a p =
    bind_io (event_io Src_verifier ''verify.passed'' (Some tid) p) (\<lambda>s.
    bind_io (terminal_classification tid ''completed'' (Some s) [(''attempt_id'', jopt aid)]) (\<lambda>_.
    bind_io (later_attempt_event tid a ''recovery.verified'' s ''verified'') (\<lambda>_.
    bind_io (transition_io tid Delivering s []) (\<lambda>_. deliver_task C S tid))))"

definition verify_failed :: "config \<Rightarrow> services \<Rightarrow> string \<Rightarrow> attempt_row option \<Rightarrow> payload \<Rightarrow> unit act" where
  "verify_failed C S tid a p =
    bind_io (event_io Src_verifier ''verify.failed'' (Some tid) p) (\<lambda>s.
    bind_io (later_attempt_event tid a ''recovery.failed'' s ''verification_failed'') (\<lambda>_.
      ignore_result (handle_triage C S tid s None None)))"

text \<open>What is recorded of a result before the task moves on.\<close>

definition record_result :: "string \<Rightarrow> string option \<Rightarrow> string option \<Rightarrow> verify_result \<Rightarrow> attempt_row option act" where
  "record_result tid aid candidate r =
    bind_io (evidence_events tid aid r) (\<lambda>_.
    bind_io now_io (\<lambda>ended.
    bind_io (update_current_attempt aid
      [(''verification_ended_at'', JInt ended), (''candidate_sha'', jopt candidate),
       (''failure_cause'', jopt (if vr_passed r then None else vr_cause r)),
       (''failure_signature'', jopt (vr_failure_signature r)),
       (''disposition'', JStr (if vr_passed r then ''verification_passed'' else ''verification_failed''))]) (\<lambda>_.
    bind_io (read_db (\<lambda>d. Option.bind aid (\<lambda>x. find_attempt x d))) (\<lambda>a.
    bind_io (case a of None \<Rightarrow> raise_io (TypeError ''NoneType object is not subscriptable'')
      | Some row \<Rightarrow> update_child_interventions row (vr_passed r)) (\<lambda>_. ret_io a)))))"

definition run_verify_task :: "config \<Rightarrow> services \<Rightarrow> string \<Rightarrow> unit act" where
  "run_verify_task C S tid =
    bind_io (row_or_raise tid) (\<lambda>t.
    bind_io (read_db (verify_request_of C t)) (\<lambda>req.
    bind_io now_io (\<lambda>started.
    bind_io (update_current_attempt (t_current_attempt_id t)
      [(''verification_started_at'', JInt started), (''disposition'', JStr ''verifying'')]) (\<lambda>_.
    bind_io (event_io Src_verifier ''verify.started'' (Some tid)
      [(''attempt_id'', jopt (t_current_attempt_id t))]) (\<lambda>_.
    bind_io (try_call_io (\<lambda>i. s_verify S i req)) (\<lambda>r.
    bind_io (record_result tid (t_current_attempt_id t) (v_candidate_sha req) r) (\<lambda>a.
      if vr_passed r then verify_passed C S tid (t_current_attempt_id t) a (result_payload (t_current_attempt_id t) r)
      else verify_failed C S tid a (result_payload (t_current_attempt_id t) r))))))))"

section \<open>Resumption\<close>

definition event_attempt_matches :: "string option \<Rightarrow> event_row \<Rightarrow> bool" where
  "event_attempt_matches aid e \<longleftrightarrow> jget ''attempt_id'' (e_payload e) = JNull \<or>
    jget ''attempt_id'' (e_payload e) = jopt aid"

definition latest_attempt_event :: "string \<Rightarrow> string option \<Rightarrow> string list \<Rightarrow> db \<Rightarrow> event_row option" where
  "latest_attempt_event tid aid types d =
    find_last (\<lambda>e. e_task_id e = Some tid \<and> e_type e \<in> set types \<and> event_attempt_matches aid e) (d_events d)"

definition resume_triage :: "config \<Rightarrow> services \<Rightarrow> string \<Rightarrow> int \<Rightarrow> unit act" where
  "resume_triage C S tid s =
    bind_io (row_or_raise tid) (\<lambda>t.
    bind_io (if t_state t \<noteq> Triage then bind_io (transition_io tid Triage s []) (\<lambda>_. ret_io ()) else ret_io ()) (\<lambda>_.
      ignore_result (handle_triage C S tid s None None)))"

definition resume_delivering :: "config \<Rightarrow> services \<Rightarrow> string \<Rightarrow> unit act" where
  "resume_delivering C S tid =
    bind_io (read_db (\<lambda>d. Option.bind (find_task tid d) t_current_attempt_id)) (\<lambda>aid.
    bind_io (read_db (latest_attempt_event tid aid
      (map delivery_type [Pr_opened, Merged_local, Report_written]))) (\<lambda>done_ev.
      case done_ev of
        Some e \<Rightarrow>
          bind_io (transition_io tid Delivered (e_seq e) []) (\<lambda>_.
          bind_io (if given aid then bind_io (update_attempt_io (the aid) [(''disposition'', JStr ''delivered'')])
            (\<lambda>_. ret_io ()) else ret_io ()) (\<lambda>_.
          bind_io (finish_interventions tid ''delivered'' (Some ''improved'')) (\<lambda>_.
            record_verification_recovery tid)))
      | None \<Rightarrow>
          bind_io (read_db (latest_attempt_event tid aid [''delivery.failed'', ''artifact.validation_failed'']))
            (\<lambda>bad. case bad of
              Some e \<Rightarrow> resume_triage C S tid (e_seq e)
            | None \<Rightarrow> deliver_task C S tid)))"

text \<open>The later one of the latest pass and the latest failure decides.\<close>

definition later_event :: "event_row option \<Rightarrow> event_row option \<Rightarrow> event_row option" where
  "later_event a b = (case (a, b) of
      (Some x, Some y) \<Rightarrow> if e_seq x < e_seq y then b else a
    | (None, _) \<Rightarrow> b | (_, None) \<Rightarrow> a)"

definition resume_verifying :: "config \<Rightarrow> services \<Rightarrow> string \<Rightarrow> unit act" where
  "resume_verifying C S tid =
    bind_io (read_db (\<lambda>d. Option.bind (find_task tid d) t_current_attempt_id)) (\<lambda>aid.
    bind_io (read_db (latest_attempt_event tid aid [''verify.passed''])) (\<lambda>passed.
    bind_io (read_db (latest_attempt_event tid aid [''verify.failed''])) (\<lambda>failed.
      case later_event passed failed of
        None \<Rightarrow> run_verify_task C S tid
      | Some e \<Rightarrow>
          if e_type e = ''verify.passed'' then
            bind_io (transition_io tid Delivering (e_seq e) []) (\<lambda>_. resume_delivering C S tid)
          else resume_triage C S tid (e_seq e))))"

end
