(* ===== verification/Watch.thy ===== *)
theory Watch
  imports Verify
begin

text \<open>
  The reader of a worker's event stream (\<open>_watch\<close>) and one round of the watchdog
  (\<open>_watchdog_loop\<close>) of \<open>scheduler/core.py\<close>. The stream is a list of lines; a line is handled to its
  end before anything else happens.
\<close>

section \<open>The stream\<close>

record watch_state =
  ws_sdk_ok :: bool
  ws_usage :: usage
  ws_incomplete :: bool

definition fresh_watch :: watch_state where
  "fresh_watch = \<lparr>ws_sdk_ok = False, ws_usage = no_usage, ws_incomplete = False\<rparr>"

text \<open>After a line: read on, or stop; the flag is \<open>claimed_or_triaged\<close>.\<close>

datatype watch_next = Read_on watch_state | Stop_with bool watch_state

definition as_payload :: "json \<Rightarrow> exc + payload" where
  "as_payload v = (case v of JObj p \<Rightarrow> Inr p | _ \<Rightarrow> Inl (TypeError ''object is not a mapping''))"

definition usage_of :: "payload \<Rightarrow> exc + usage" where
  "usage_of p =
    bindE (as_int_opt (jget ''tokens_in'' p)) (\<lambda>ti.
    bindE (as_int_opt (jget ''tokens_out'' p)) (\<lambda>to.
    bindE (as_real_opt (jget ''cost_usd'' p)) (\<lambda>c.
      Inr \<lparr>u_session_id = None, u_tokens_in = ti, u_tokens_out = to, u_cost_usd = c\<rparr>)))"

definition touch :: "services \<Rightarrow> string \<Rightarrow> unit act" where
  "touch S tid = bind_io (mono_io S) (\<lambda>now.
    modify_io (\<lambda>w. w\<lparr>m_last_event := AList.update tid now (m_last_event w)\<rparr>))"

definition worker_event :: "string \<Rightarrow> proc \<Rightarrow> string \<Rightarrow> payload \<Rightarrow> usage \<Rightarrow> int act" where
  "worker_event tid pr typ p u = usage_event_io Src_worker typ (Some tid) p (u\<lparr>u_session_id := Some (session_of pr)\<rparr>)"

definition protocol_fact :: "watch_state \<Rightarrow> payload \<Rightarrow> payload" where
  "protocol_fact st p = (if ws_sdk_ok st then AList.update ''protocol_result''
      (JObj [(''sdk_success'', JBool True), (''worker_exited'', JBool True), (''terminal_metadata_ok'', JBool True)]) p
    else p)"

text \<open>A claim: the worker is stopped, its candidate recorded, its slot freed, and then verified.\<close>

definition watch_claim ::
    "config \<Rightarrow> services \<Rightarrow> string \<Rightarrow> proc \<Rightarrow> watch_state \<Rightarrow> string \<Rightarrow> string \<Rightarrow> payload \<Rightarrow> watch_next act" where
  "watch_claim C S tid pr st typ disposition ep =
    bind_io (worker_event tid pr typ (protocol_fact st ep) (ws_usage st)) (\<lambda>s.
    bind_io (reap_process S tid pr) (\<lambda>_.
    bind_io (capture_candidate S tid disposition None) (\<lambda>candidate.
    bind_io (enter_verifying tid s candidate) (\<lambda>_.
    bind_io (teardown C S tid (Some pr)) (\<lambda>_.
    bind_io (run_verify_task C S tid) (\<lambda>_. ret_io (Stop_with True st)))))))"

definition watch_asked ::
    "config \<Rightarrow> services \<Rightarrow> string \<Rightarrow> proc \<Rightarrow> watch_state \<Rightarrow> payload \<Rightarrow> watch_next act" where
  "watch_asked C S tid pr st ep =
    bind_io (worker_event tid pr ''worker.asked'' ep (ws_usage st)) (\<lambda>s.
    bind_io (handle_triage C S tid s (Some pr) None) (\<lambda>keep.
      if keep then bind_io (touch S tid) (\<lambda>_. ret_io (Read_on st))
      else bind_io (terminal_classification tid ''asked'' (Some s) []) (\<lambda>_. ret_io (Stop_with True st))))"

definition watch_startup_failed ::
    "config \<Rightarrow> services \<Rightarrow> string \<Rightarrow> proc \<Rightarrow> watch_state \<Rightarrow> payload \<Rightarrow> payload \<Rightarrow> watch_next act" where
  "watch_startup_failed C S tid pr st p ep =
    (let category = py_str (json_or (jget ''category'' p) (JStr ''other_infrastructure_startup_failure''));
         reason = take 500 (py_str (json_or (json_or (jget ''reason'' p) (jget ''error'' p)) (JStr category))) in
     bind_io (worker_event tid pr ''worker.startup_failed''
       (AList.update ''reason'' (JStr reason) (AList.update ''category'' (JStr category) ep)) no_usage) (\<lambda>s.
     bind_io (terminal_classification tid ''startup_failure'' (Some s) [(''category'', JStr category)]) (\<lambda>_.
     bind_io (capture_candidate S tid ''startup_failed'' (Some category)) (\<lambda>_.
     bind_io (modify_io (\<lambda>w. w\<lparr>m_infra := Some (WorkerStartupFailure tid category reason)\<rparr>)) (\<lambda>_.
     bind_io (teardown C S tid (Some pr)) (\<lambda>_. ret_io (Stop_with True st)))))))"

text \<open>The branch does not mark the signal as handled before it breaks out of the loop.\<close>

definition watch_sdk_timeout ::
    "config \<Rightarrow> services \<Rightarrow> string \<Rightarrow> proc \<Rightarrow> watch_state \<Rightarrow> payload \<Rightarrow> payload \<Rightarrow> watch_next act" where
  "watch_sdk_timeout C S tid pr st p ep =
    (let reason = take 500 (py_str (json_or (jget ''reason'' p) (JStr ''SDK turn timed out''))) in
     bind_io (worker_event tid pr ''worker.sdk_timeout''
       (AList.update ''reason'' (JStr reason) (AList.update ''failure_class'' (JStr ''sdk_timeout'') ep)) no_usage) (\<lambda>s.
     bind_io (terminal_classification tid ''sdk_timeout'' (Some s) []) (\<lambda>_.
     bind_io (capture_candidate S tid ''sdk_timeout'' (Some ''sdk_timeout'')) (\<lambda>_.
     bind_io (modify_io (\<lambda>w. w\<lparr>m_infra := Some (WorkerStartupFailure tid ''sdk_timeout'' reason)\<rparr>)) (\<lambda>_.
     bind_io (teardown C S tid (Some pr)) (\<lambda>_. ret_io (Stop_with False st)))))))"

definition watch_sdk_failed ::
    "config \<Rightarrow> services \<Rightarrow> string \<Rightarrow> proc \<Rightarrow> watch_state \<Rightarrow> payload \<Rightarrow> payload \<Rightarrow> watch_next act" where
  "watch_sdk_failed C S tid pr st p ep =
    (let reason = take 500 (py_str (json_or (jget ''reason'' p) (JStr ''Claude Code returned an SDK error''))) in
     bind_io (worker_event tid pr ''worker.sdk_failure''
       (AList.update ''failure_class'' (JStr ''sdk_failure'') ep) no_usage) (\<lambda>s.
     bind_io (capture_candidate S tid ''sdk_failure'' (Some ''sdk_failure'')) (\<lambda>_.
     bind_io (terminal_classification tid ''sdk_failure'' (Some s) []) (\<lambda>_.
     bind_io (modify_io (\<lambda>w. w\<lparr>m_infra := Some (WorkerStartupFailure tid ''sdk_failure'' reason)\<rparr>)) (\<lambda>_.
     bind_io (teardown C S tid (Some pr)) (\<lambda>_. ret_io (Stop_with True st)))))))"

definition dispatch_record ::
    "config \<Rightarrow> services \<Rightarrow> string \<Rightarrow> proc \<Rightarrow> watch_state \<Rightarrow> usage \<Rightarrow> json \<Rightarrow> payload \<Rightarrow> payload \<Rightarrow> watch_next act" where
  "dispatch_record C S tid pr st u etype p ep =
    (if etype = JStr ''done_claimed'' then watch_claim C S tid pr st ''worker.done_claimed'' ''worker_ended'' ep
     else if etype = JStr ''asked'' then watch_asked C S tid pr st ep
     else if etype = JStr ''no_change'' then watch_claim C S tid pr st ''worker.no_change'' ''no_change'' ep
     else if etype = JStr ''startup_failed'' then watch_startup_failed C S tid pr st p ep
     else if etype = JStr ''sdk_timeout'' then watch_sdk_timeout C S tid pr st p ep
     else if etype = JStr ''sdk_failed'' then watch_sdk_failed C S tid pr st p ep
     else if etype = JStr ''unclaimed'' then
       bind_io (worker_event tid pr ''worker.protocol_incomplete''
         (AList.update ''failure_class'' (JStr ''protocol_incomplete'') ep) no_usage) (\<lambda>_.
         ret_io (Read_on (st\<lparr>ws_incomplete := True\<rparr>)))
     else bind_io (worker_event tid pr (''worker.'' @ py_str etype) ep u) (\<lambda>_. ret_io (Read_on st)))"

definition watch_line ::
    "config \<Rightarrow> services \<Rightarrow> string \<Rightarrow> proc \<Rightarrow> string \<Rightarrow> lease_row \<Rightarrow> watch_state \<Rightarrow> string \<Rightarrow> watch_next act" where
  "watch_line C S tid pr aid lease st line = (case json_loads line of
      None \<Rightarrow> ret_io (Read_on st)
    | Some parsed \<Rightarrow>
        bind_io (lift_exc (as_payload parsed)) (\<lambda>rec_p.
          let etype = jget ''type'' rec_p in
          bind_io (validate_worker_lease C S tid (Some aid) (Some lease) etype (Some (session_of pr))) (\<lambda>ok.
            if \<not> ok then ret_io (Stop_with False st)
            else
              bind_io (touch S tid) (\<lambda>_.
              bind_io (lift_exc (as_payload (jget_default ''payload'' (JObj []) rec_p))) (\<lambda>p.
              bind_io (if etype = JStr ''result'' then lift_exc (usage_of p) else ret_io (ws_usage st)) (\<lambda>u.
              bind_io (read_db (latest_attempt tid)) (\<lambda>a.
                let st' = (if etype = JStr ''result''
                    then st\<lparr>ws_sdk_ok := \<not> truthy (jget ''is_error'' p), ws_usage := u\<rparr> else st)
                in dispatch_record C S tid pr st' (if etype = JStr ''result'' then u else no_usage) etype p
                  (AList.update ''attempt_id'' (attempt_id_json a) p))))))))"

fun watch_lines ::
    "config \<Rightarrow> services \<Rightarrow> string \<Rightarrow> proc \<Rightarrow> string \<Rightarrow> lease_row \<Rightarrow> watch_state \<Rightarrow> string list \<Rightarrow> (bool \<times> watch_state) act" where
  "watch_lines C S tid pr aid lease st [] = ret_io (False, st)"
| "watch_lines C S tid pr aid lease st (line # ls) =
    bind_io (watch_line C S tid pr aid lease st line) (\<lambda>n. case n of
      Read_on st' \<Rightarrow> watch_lines C S tid pr aid lease st' ls
    | Stop_with claimed st' \<Rightarrow> ret_io (claimed, st'))"

text \<open>The end of a stream that carried no claim: an incomplete protocol, or a crash.\<close>

definition after_stream :: "config \<Rightarrow> services \<Rightarrow> string \<Rightarrow> proc \<Rightarrow> watch_state \<Rightarrow> unit act" where
  "after_stream C S tid pr st =
    bind_io (call_io (\<lambda>i. s_wait S i pr)) (\<lambda>code.
      if ws_sdk_ok st \<and> ws_incomplete st \<and> code = 0 then
        bind_io (mark_running_failure tid Src_worker ''worker.protocol_incomplete''
          [(''exit_code'', JInt code), (''failure_class'', JStr ''protocol_incomplete'')] (Some (session_of pr))) (\<lambda>ms.
          case ms of None \<Rightarrow> ret_io () | Some s \<Rightarrow>
            bind_io (capture_candidate S tid ''protocol_incomplete'' (Some ''protocol_incomplete'')) (\<lambda>candidate.
            bind_io (terminal_classification tid ''protocol_incomplete'' (Some s) []) (\<lambda>_.
            bind_io (teardown C S tid (Some pr)) (\<lambda>_.
              ignore_result (handle_triage C S tid s None candidate)))))
      else
        bind_io (mark_running_failure tid Src_worker ''worker.exited'' [(''exit_code'', JInt code)]
          (Some (session_of pr))) (\<lambda>ms.
          case ms of None \<Rightarrow> ret_io () | Some s \<Rightarrow>
            bind_io (terminal_classification tid ''worker_crash'' (Some s) [(''exit_code'', JInt code)]) (\<lambda>_.
            bind_io (capture_candidate S tid ''worker_failed'' (Some ''worker.exited'')) (\<lambda>candidate.
            bind_io (teardown C S tid (Some pr)) (\<lambda>_.
              ignore_result (handle_triage C S tid s None candidate))))))"

fun is_cleanup :: "exc \<Rightarrow> bool" where
  "is_cleanup (CleanupFailure l e) = True"
| "is_cleanup (CleanupGroup t es) = True"
| "is_cleanup e = False"

definition quiet_cleanup :: "unit act \<Rightarrow> unit act" where
  "quiet_cleanup m = catch_io m (\<lambda>e. if is_cleanup e then ret_io () else raise_io e)"

definition watch :: "config \<Rightarrow> services \<Rightarrow> string \<Rightarrow> proc \<Rightarrow> string \<Rightarrow> lease_row \<Rightarrow> string list \<Rightarrow> unit act" where
  "watch C S tid pr aid lease ls =
    finally_io
      (quiet_cleanup
        (bind_io (watch_lines C S tid pr aid lease fresh_watch ls) (\<lambda>(claimed, st).
          if claimed then ret_io () else after_stream C S tid pr st)))
      (quiet_cleanup (teardown C S tid (Some pr)))"

section \<open>The watchdog\<close>

definition tenths :: "int \<Rightarrow> json" where
  "tenths us = JFloat (decimal_text 1 (round_div us 100000))"

definition watch_timeout :: "config \<Rightarrow> services \<Rightarrow> string \<Rightarrow> int \<Rightarrow> int \<Rightarrow> unit act" where
  "watch_timeout C S tid limit elapsed =
    bind_io (gets_io (\<lambda>w. map_of (m_procs w) tid)) (\<lambda>pr.
    bind_io (mark_running_failure tid Src_watchdog ''worker.timeout''
      [(''timeout_kind'', JStr ''worker_wall_clock''), (''timeout_s'', JInt limit), (''elapsed_s'', tenths elapsed)]
      None) (\<lambda>ms. case ms of
        None \<Rightarrow> ret_io ()
      | Some s \<Rightarrow>
          bind_io (terminal_classification tid ''timeout'' (Some s) []) (\<lambda>_.
          bind_io (modify_io (\<lambda>w. w\<lparr>m_wait_grace := drop_key tid (m_wait_grace w)\<rparr>)) (\<lambda>_.
          bind_io (teardown C S tid pr) (\<lambda>_.
            ignore_result (handle_triage C S tid s None None))))))"

definition watch_stall :: "config \<Rightarrow> services \<Rightarrow> string \<Rightarrow> int \<Rightarrow> unit act" where
  "watch_stall C S tid silent =
    bind_io (gets_io (\<lambda>w. map_of (m_procs w) tid)) (\<lambda>pr.
    bind_io (mark_running_failure tid Src_watchdog ''worker.stalled'' [(''silent_for_s'', tenths silent)] None) (\<lambda>ms.
      case ms of
        None \<Rightarrow> ret_io ()
      | Some s \<Rightarrow>
          bind_io (terminal_classification tid ''timeout'' (Some s) []) (\<lambda>_.
          bind_io (modify_io (\<lambda>w. w\<lparr>m_wait_grace := drop_key tid (m_wait_grace w)\<rparr>)) (\<lambda>_.
          bind_io (handle_triage C S tid s pr None) (\<lambda>keep.
            if keep then touch S tid else teardown C S tid pr)))))"

definition watchdog_task :: "config \<Rightarrow> services \<Rightarrow> int \<Rightarrow> string \<times> int \<Rightarrow> unit act" where
  "watchdog_task C S now entry =
    (let tid = fst entry; last = snd entry in
     bind_io (gets_io (\<lambda>w. (map_of (m_started w) tid, map_of (m_wait_grace w) tid))) (\<lambda>(started, grace).
       case (started, c_worker_timeout C) of
         (Some s0, Some limit) \<Rightarrow>
           if limit * 1000000 \<le> now - s0 then watch_timeout C S tid limit (now - s0)
           else if now - last < (case grace of None \<Rightarrow> c_stall C | Some g \<Rightarrow> g) then ret_io ()
           else watch_stall C S tid (now - last)
       | _ \<Rightarrow>
           if now - last < (case grace of None \<Rightarrow> c_stall C | Some g \<Rightarrow> g) then ret_io ()
           else watch_stall C S tid (now - last)))"

definition watchdog_round :: "config \<Rightarrow> services \<Rightarrow> unit act" where
  "watchdog_round C S =
    bind_io (mono_io S) (\<lambda>now.
    bind_io (gets_io m_last_event) (\<lambda>entries. for_io entries (watchdog_task C S now)))"

end
