(* ===== verification/Reconcile.thy ===== *)
theory Reconcile
  imports Verify
begin

text \<open>
  \<open>scheduler/reconcile.py\<close>: the pass at startup over tasks that a stopped daemon left running or
  verifying. Liveness of a process and the two git commands are services.
\<close>

text \<open>Rows of interest, as they were when the pass began.\<close>

definition orphan_rows :: "db \<Rightarrow> task_row list" where
  "orphan_rows d = filter (\<lambda>t. t_state t \<in> {Running, Verifying}) (d_tasks d)"

definition recover_orphaned_lease :: "task_row \<Rightarrow> string \<Rightarrow> unit act" where
  "recover_orphaned_lease t reason =
    (if \<not> given (t_current_attempt_id t) then ret_io ()
     else let aid = the (t_current_attempt_id t) in
       bind_io (read_db (active_lease aid)) (\<lambda>l. case l of
         None \<Rightarrow> ret_io ()
       | Some lease \<Rightarrow>
           bind_io now_io (\<lambda>ts. bind_io (commit_io (recover (By_attempt aid) (Some (l_lease_id lease))
             (Some (l_generation lease)) reason ts Src_system)) (\<lambda>_. ret_io ()))))"

definition slot_open :: "string \<Rightarrow> string \<Rightarrow> db \<Rightarrow> bool" where
  "slot_open tid aid d \<longleftrightarrow>
    list_ex (\<lambda>e. e_task_id e = Some tid \<and> e_type e = ''worker.slot_acquired'' \<and>
      jget ''attempt_id'' (e_payload e) = JStr aid) (d_events d) \<and>
    \<not> list_ex (\<lambda>e. e_task_id e = Some tid \<and> e_type e = ''worker.slot_released'' \<and>
      jget ''attempt_id'' (e_payload e) = JStr aid) (d_events d)"

definition close_orphaned_slot :: "task_row \<Rightarrow> unit act" where
  "close_orphaned_slot t =
    (if \<not> given (t_current_attempt_id t) then ret_io ()
     else let aid = the (t_current_attempt_id t) in
       bind_io (read_db (slot_open (t_id t) aid)) (\<lambda>open.
         if \<not> open then ret_io ()
         else bind_io (read_db (find_attempt aid)) (\<lambda>a.
           bind_io (event_io Src_system ''worker.slot_released'' (Some (t_id t))
             [(''attempt_id'', JStr aid), (''reason'', JStr ''reconciled''), (''reconciled'', JBool True),
              (''occupancy'', JInt 0), (''run_id'', jopt (map_option a_run_id a))]) (\<lambda>_. ret_io ()))))"

definition done_claim :: "task_row \<Rightarrow> db \<Rightarrow> event_row option" where
  "done_claim t d = find_last (\<lambda>e. e_task_id e = Some (t_id t) \<and> e_type e = ''worker.done_claimed'' \<and>
    event_attempt_matches (t_current_attempt_id t) e) (d_events d)"

text \<open>A worker that had claimed completion goes on to verification.\<close>

definition reconcile_claimed :: "task_row \<Rightarrow> event_row \<Rightarrow> unit act" where
  "reconcile_claimed t e =
    bind_io (recover_orphaned_lease t ''reconciled_done_claim'') (\<lambda>_.
    bind_io (close_orphaned_slot t) (\<lambda>_.
    bind_io (read_db (\<lambda>d. Option.bind (current_attempt t d) a_candidate_sha)) (\<lambda>sha.
    bind_io (transition_io (t_id t) Verifying (e_seq e)
      (if given sha then [(''candidate_sha'', jopt sha)] else [])) (\<lambda>_. ret_io ()))))"

definition orphan_candidate :: "services \<Rightarrow> task_row \<Rightarrow> string option act" where
  "orphan_candidate S t =
    (if \<not> given (t_candidate_branch t) then ret_io None
     else bind_io (try_call_io (\<lambda>i. s_rev_parse S i (t_repo t) (the (t_candidate_branch t)))) (\<lambda>(code, out).
       ret_io (if code = 0 then Some (strip out) else None)))"

definition orphan_dirty :: "services \<Rightarrow> task_row \<Rightarrow> string option act" where
  "orphan_dirty S t =
    (if \<not> given (t_worktree t) then ret_io None
     else catch_io
       (bind_io (try_call_io (\<lambda>i. s_git_status S i (the (t_worktree t)))) (\<lambda>(code, out).
         ret_io (if code = 0 \<and> \<not> blank out then Some out else None)))
       (\<lambda>e. case e of OSError m \<Rightarrow> ret_io None | _ \<Rightarrow> raise_io e))"

text \<open>A worker that is gone without a claim is a crash.\<close>

definition reconcile_dead :: "services \<Rightarrow> task_row \<Rightarrow> unit act" where
  "reconcile_dead S t =
    bind_io (recover_orphaned_lease t ''reconciled_worker_exit'') (\<lambda>_.
    bind_io (usage_event_io Src_system ''worker.exited'' (Some (t_id t))
      [(''attempt_id'', jopt (t_current_attempt_id t)), (''reason'', JStr ''reconciled: session not alive'')]
      (with_session (t_session_id t))) (\<lambda>s.
    bind_io (orphan_candidate S t) (\<lambda>candidate.
    bind_io (orphan_dirty S t) (\<lambda>dirty.
    bind_io (if given (t_current_attempt_id t) then
        bind_io now_io (\<lambda>ended. bind_io (update_attempt_io (the (t_current_attempt_id t))
          [(''worker_ended_at'', JInt ended), (''candidate_sha'', jopt candidate), (''worker_dirty'', jopt dirty),
           (''failure_cause'', JStr ''worker.exited''), (''disposition'', JStr ''interrupted'')]) (\<lambda>_. ret_io ()))
      else ret_io ()) (\<lambda>_.
    bind_io (transition_io (t_id t) Triage s
      (if given candidate then [(''candidate_sha'', jopt candidate)] else [])) (\<lambda>_.
      close_orphaned_slot t))))))"

definition reconcile_row :: "services \<Rightarrow> task_row \<Rightarrow> unit act" where
  "reconcile_row S t =
    (if t_state t = Verifying then
       bind_io (recover_orphaned_lease t ''reconciled_verifying'') (\<lambda>_. close_orphaned_slot t)
     else bind_io (call_io (\<lambda>i. s_pid_alive S i (t_session_id t))) (\<lambda>alive.
       if alive then ret_io ()
       else bind_io (read_db (done_claim t)) (\<lambda>ev. case ev of
           Some e \<Rightarrow> reconcile_claimed t e
         | None \<Rightarrow> reconcile_dead S t)))"

definition reconcile :: "services \<Rightarrow> unit act" where
  "reconcile S = bind_io (read_db orphan_rows) (\<lambda>rows. for_io rows (reconcile_row S))"

end
