(* ===== verification/Run.thy ===== *)
theory Run
  imports Watch Reconcile
begin

text \<open>
  \<open>run_until_settled\<close> of \<open>scheduler/core.py\<close>: the pass at startup, one turn of the control loop, and
  the shutdown; and the steps of the whole scheduler, in which readers and the watchdog interleave
  with the turns.
\<close>

section \<open>Failures of clean-up\<close>

text \<open>\<open>_combine_cleanup_failures\<close>: one exception for all of them, in the order of their labels.\<close>

definition combine_failures :: "string \<Rightarrow> (string \<times> exc) list \<Rightarrow> exc" where
  "combine_failures title fs = (case sort_key fst fs of
      [(label, e)] \<Rightarrow>
        (case e of CleanupFailure l c \<Rightarrow> if l \<noteq> label then CleanupFailure label e else e | _ \<Rightarrow> e)
    | ordered \<Rightarrow> CleanupGroup title (map (\<lambda>(label, e). CleanupFailure label e) ordered))"

definition append_unique :: "string \<times> exc \<Rightarrow> (string \<times> exc) list \<Rightarrow> (string \<times> exc) list" where
  "append_unique f fs = (if snd f \<in> snd ` set fs then fs else fs @ [f])"

definition teardown_label :: "string \<Rightarrow> string" where
  "teardown_label tid = ''teardown task '' @ tid"

definition pop_teardown_failures :: "(string \<times> exc) list act" where
  "pop_teardown_failures =
    bind_io (gets_io (\<lambda>w. map (\<lambda>(tid, e). (teardown_label tid, e)) (m_failures w))) (\<lambda>fs.
    bind_io (modify_io (\<lambda>w. w\<lparr>m_failures := []\<rparr>)) (\<lambda>_. ret_io fs))"

definition raise_teardown_failures :: "unit act" where
  "raise_teardown_failures = bind_io pop_teardown_failures (\<lambda>fs.
    if fs = [] then ret_io () else raise_io (combine_failures ''scheduler teardown failed'' fs))"

definition raise_infrastructure :: "unit act" where
  "raise_infrastructure = bind_io (gets_io m_infra) (\<lambda>e. case e of None \<Rightarrow> ret_io () | Some x \<Rightarrow> raise_io x)"

section \<open>Startup\<close>

definition ids_in_state :: "tstate \<Rightarrow> db \<Rightarrow> string list" where
  "ids_in_state q d = map t_id (filter (\<lambda>t. t_state t = q) (d_tasks d))"

text \<open>The cause of the last state change of a task.\<close>

definition last_cause :: "string \<Rightarrow> db \<Rightarrow> exc + int" where
  "last_cause tid d =
    (case find_last (\<lambda>e. e_task_id e = Some tid \<and> e_type e = ''task.state_changed'') (d_events d) of
       None \<Rightarrow> Inl (TypeError ''NoneType object is not subscriptable'')
     | Some e \<Rightarrow> bindE (jkey ''cause_seq'' (e_payload e)) as_int)"

definition resume_triages :: "config \<Rightarrow> services \<Rightarrow> unit act" where
  "resume_triages C S = bind_io (read_db (ids_in_state Triage)) (\<lambda>ids.
    for_io ids (\<lambda>tid. bind_io (bind_io (read_db (last_cause tid)) lift_exc) (\<lambda>s.
      ignore_result (handle_triage C S tid s None None))))"

definition startup :: "config \<Rightarrow> services \<Rightarrow> unit act" where
  "startup C S =
    bind_io (reconcile S) (\<lambda>_.
    bind_io (bind_io (read_db validate_dependency_graph) lift_exc) (\<lambda>_.
    bind_io (try_call_io (s_pool_open S)) (\<lambda>_.
    bind_io (resume_triages C S) (\<lambda>_.
    bind_io (read_db (ids_in_state Verifying)) (\<lambda>vs.
    bind_io (for_io vs (resume_verifying C S)) (\<lambda>_.
    bind_io (read_db (ids_in_state Delivering)) (\<lambda>ds. for_io ds (resume_delivering C S))))))))"

section \<open>The loop\<close>

definition loop_turn :: "config \<Rightarrow> services \<Rightarrow> bool \<Rightarrow> unit act" where
  "loop_turn C S forever =
    bind_io raise_teardown_failures (\<lambda>_.
    bind_io raise_infrastructure (\<lambda>_.
    bind_io (advance_dependency_states (s_env S) (c_run_id C) (\<not> forever)) (\<lambda>_.
    bind_io (launch_ready C S) (\<lambda>_.
    bind_io raise_teardown_failures (\<lambda>_. raise_infrastructure)))))"

text \<open>The loop goes on while it runs forever or a task is unsettled.\<close>

definition goes_on :: "bool \<Rightarrow> db \<Rightarrow> bool" where
  "goes_on forever d = (forever \<or> \<not> team_settled d)"

section \<open>Shutdown\<close>

fun drain_teardowns :: "config \<Rightarrow> services \<Rightarrow> string list \<Rightarrow> (string \<times> exc) list act" where
  "drain_teardowns C S [] = ret_io []"
| "drain_teardowns C S (tid # tids) =
    bind_io (collect_io (teardown_label tid) (teardown C S tid None)) (\<lambda>fs.
    bind_io (drain_teardowns C S tids) (\<lambda>gs. ret_io (fs @ gs)))"

text \<open>The end of \<open>run_until_settled\<close>: \<open>pending\<close> is the exception that ended the loop, if any.\<close>

definition pending_label :: "exc \<Rightarrow> string" where
  "pending_label e = (case e of CleanupFailure l c \<Rightarrow> l | _ \<Rightarrow> ''scheduler operation'')"

definition shutdown_failures :: "config \<Rightarrow> services \<Rightarrow> (string \<times> exc) list act" where
  "shutdown_failures C S =
    bind_io (gets_io (\<lambda>w. sort (remdups (map fst (m_slots w))))) (\<lambda>tids.
    bind_io (drain_teardowns C S tids) (\<lambda>fs.
    bind_io pop_teardown_failures (\<lambda>gs.
    bind_io (collect_io ''worktree pool close'' (try_call_io (s_pool_close S))) (\<lambda>hs.
      ret_io (fold append_unique (fs @ gs @ hs) [])))))"

definition shutdown :: "config \<Rightarrow> services \<Rightarrow> exc option \<Rightarrow> unit act" where
  "shutdown C S pending =
    bind_io (shutdown_failures C S) (\<lambda>fs.
      case pending of
        None \<Rightarrow> if fs = [] then ret_io () else raise_io (combine_failures ''scheduler cleanup failed'' fs)
      | Some e \<Rightarrow>
          if fs = [] then raise_io e
          else raise_io (combine_failures ''scheduler operation and cleanup failed''
            (if e \<in> snd ` set fs then fs else (pending_label e, e) # fs)))"

text \<open>
  The whole call, with fuel for the turns and a script of what readers and the watchdog do after
  each turn; \<open>None\<close> is the end of the fuel.
\<close>

fun run_loop :: "config \<Rightarrow> services \<Rightarrow> bool \<Rightarrow> (nat \<Rightarrow> unit act) \<Rightarrow> nat \<Rightarrow> unit option act" where
  "run_loop C S forever others 0 = ret_io None"
| "run_loop C S forever others (Suc k) =
    bind_io (read_db (goes_on forever)) (\<lambda>more.
      if \<not> more then ret_io (Some ())
      else bind_io (loop_turn C S forever) (\<lambda>_.
        bind_io (others k) (\<lambda>_. run_loop C S forever others k)))"

definition run_until_settled :: "config \<Rightarrow> services \<Rightarrow> bool \<Rightarrow> (nat \<Rightarrow> unit act) \<Rightarrow> nat \<Rightarrow> unit option act" where
  "run_until_settled C S forever others k =
    bind_io (startup C S) (\<lambda>_. \<lambda>w.
      case run_loop C S forever others k w of
        (Inl e, w') \<Rightarrow> bind_io (shutdown C S (Some e)) (\<lambda>_. ret_io None) w'
      | (Inr r, w') \<Rightarrow> bind_io (shutdown C S None) (\<lambda>_. ret_io r) w')"

section \<open>Steps of the scheduler\<close>

text \<open>
  One step: a turn, a reader's stream, a round of the watchdog, or the resumption of a task. A step
  that raises leaves the world it reached.
\<close>

inductive sched_step :: "config \<Rightarrow> services \<Rightarrow> sched \<Rightarrow> sched \<Rightarrow> bool" for C S where
  ss_startup: "startup C S w = (r, w') \<Longrightarrow> sched_step C S w w'"
| ss_turn: "loop_turn C S forever w = (r, w') \<Longrightarrow> sched_step C S w w'"
| ss_watch: "watch C S tid pr aid lease ls w = (r, w') \<Longrightarrow> sched_step C S w w'"
| ss_watchdog: "watchdog_round C S w = (r, w') \<Longrightarrow> sched_step C S w w'"
| ss_exit: "watch_process_exit S tid p w = (r, w') \<Longrightarrow> sched_step C S w w'"
| ss_shutdown: "shutdown C S pending w = (r, w') \<Longrightarrow> sched_step C S w w'"

abbreviation sched_run :: "config \<Rightarrow> services \<Rightarrow> sched \<Rightarrow> sched \<Rightarrow> bool" where
  "sched_run C S \<equiv> (sched_step C S)\<^sup>*\<^sup>*"

end
