(* ===== verification/Contract.thy ===== *)
theory Contract
  imports Run
begin

text \<open>
  What every handler of the scheduler keeps. The locale lists the writes a handler makes and asks
  for a relation between the worlds before and after that each of them keeps; its lemmas then say
  that each handler keeps it. Its first interpretation are the traces of the ledger; the retry
  counters follow in \<open>Budget\<close>.
\<close>

section \<open>The interface\<close>

definition no_budget :: "payload \<Rightarrow> bool" where
  "no_budget kw \<longleftrightarrow> ''retries'' \<notin> fst ` set kw \<and> ''max_retries'' \<notin> fst ` set kw"

definition lifts :: "(db \<Rightarrow> db \<Rightarrow> bool) \<Rightarrow> 'z world_scheme \<Rightarrow> 'z world_scheme \<Rightarrow> bool" where
  "lifts D w w' \<longleftrightarrow> D (w_db w) (w_db w')"

text \<open>Every write but the state change of a task.\<close>

locale row_contract =
  fixes D :: "db \<Rightarrow> db \<Rightarrow> bool"
  assumes D_refl: "D d d"
    and D_trans: "D a b \<Longrightarrow> D b c \<Longrightarrow> D a c"
    and D_event: "typ \<notin> ledger_types \<Longrightarrow> append_event ts src typ tid p u d = Inr (s, d') \<Longrightarrow> D d d'"
    and D_create_attempt: "create_attempt fresh ts ad d = Inr (aid, d') \<Longrightarrow> D d d'"
    and D_update_attempt: "update_attempt ts aid' Src_scheduler ''attempt.updated'' kw d = Inr (s, d') \<Longrightarrow> D d d'"
    and D_create_intervention: "create_intervention fresh ts x said sha sg None None d = Inr (iid, d') \<Longrightarrow> D d d'"
    and D_update_intervention: "update_intervention ts iid' kw d = Inr (s, d') \<Longrightarrow> D d d'"
    and D_acquire: "acquire fresh aid' owner ttl ts None src d = Inr (l, d') \<Longrightarrow> D d d'"
    and D_renew: "renew (By_lease l) None None None ttl ts src d = Inr (l', d') \<Longrightarrow> D d d'"
    and D_release: "release (By_lease l) None None None reason ts src d = Inr (l', d') \<Longrightarrow> D d d'"
    and D_recover: "recover ref lid gen reason ts src d = Inr (l', d') \<Longrightarrow> D d d'"

sublocale row_contract \<subseteq> io: io_contract "lifts D :: 'z world_scheme \<Rightarrow> 'z world_scheme \<Rightarrow> bool"
  by unfold_locales (auto simp: lifts_def intro: D_refl D_trans)

context row_contract
begin

section \<open>Statements\<close>

lemma keeps_same: "(\<And>w. w_db (snd (m w)) = w_db w) \<Longrightarrow> keeps (lifts D) m"
  by (simp add: keeps_def lifts_def D_refl)

lemma keeps_calls: "keeps (lifts D) (call_io f)" "keeps (lifts D) now_io" "keeps (lifts D) fresh_io"
    "keeps (lifts D) (try_call_io h)" "keeps (lifts D) (read_db g)" "keeps (lifts D) (lift_exc r)"
    "keeps (lifts D) (gets_io g')" "keeps (lifts D) (mono_io S)"
  by (auto intro!: keeps_same simp: io_defs mono_io_def split: sum.split)

lemma keeps_modify: "(\<And>w. w_db (f w) = w_db w) \<Longrightarrow> keeps (lifts D) (modify_io f)"
  by (rule keeps_same) (simp add: modify_io_def)

lemma keeps_commit: "(\<And>d x d'. f d = Inr (x, d') \<Longrightarrow> D d d') \<Longrightarrow> keeps (lifts D) (commit_io f)"
  by (auto simp: keeps_def lifts_def commit_io_def D_refl split: sum.split prod.split)

lemma keeps_usage_event: "typ \<notin> ledger_types \<Longrightarrow> keeps (lifts D) (usage_event_io src typ tid p u)"
  unfolding usage_event_io_def by (intro io.keeps_bind keeps_calls keeps_commit) (rule D_event)

lemma keeps_event: "typ \<notin> ledger_types \<Longrightarrow> keeps (lifts D) (event_io src typ tid p)"
  unfolding event_io_def by (intro io.keeps_bind keeps_calls keeps_commit) (rule D_event)

lemma keeps_writes:
  "keeps (lifts D) (create_attempt_io a)"
  "keeps (lifts D) (update_attempt_io aid kw)"
  "keeps (lifts D) (create_intervention_io tid said sha sg)"
  "keeps (lifts D) (update_intervention_io iid kw)"
  "keeps (lifts D) (acquire_io aid owner)"
  "keeps (lifts D) (validate_io l)"
  "keeps (lifts D) (renew_io l)"
  "keeps (lifts D) (release_io l reason src)"
  "keeps (lifts D) (recover_io l reason src)"
  unfolding create_attempt_io_def update_attempt_io_def create_intervention_io_def
    update_intervention_io_def acquire_io_def validate_io_def renew_io_def release_io_def recover_io_def
  by (intro io.keeps_bind keeps_calls keeps_commit, (erule D_create_attempt D_update_attempt
    D_create_intervention D_update_intervention D_acquire D_renew D_release D_recover)?)+

lemmas keeps_rows = io.keeps_rules keeps_calls keeps_usage_event keeps_event keeps_writes
  keeps_modify

section \<open>Helpers of the scheduler\<close>

lemma keeps_timing: "typ \<notin> ledger_types \<Longrightarrow> keeps (lifts D) (timing_event C tid typ aid ses p)"
  unfolding timing_event_def by (intro keeps_rows)

lemma keeps_reject: "keeps (lifts D) (reject_worker_event tid aid l et reason ses)"
  unfolding reject_worker_event_def by (intro keeps_rows) (simp_all add: ledger_type_simps)

lemma keeps_validate_lease: "keeps (lifts D) (validate_worker_lease C S tid ea el et ses)"
  unfolding validate_worker_lease_def check_lease_def Let_def
  by (intro keeps_rows keeps_reject) simp_all

lemma keeps_capture: "keeps (lifts D) (capture_candidate S tid disp cause)"
  unfolding capture_candidate_def read_checkout_def by (intro keeps_rows)

lemma keeps_reap: "keeps (lifts D) (reap_process S tid p)"
  unfolding reap_process_def by (intro keeps_rows) simp

lemma keeps_collect: "keeps (lifts D) m \<Longrightarrow> keeps (lifts D) (collect_io label m)"
  unfolding collect_io_def by (intro keeps_rows)

lemma keeps_release_lease: "keeps (lifts D) (release_lease l)"
  unfolding release_lease_def by (intro keeps_rows) (auto split: exc.split intro: keeps_rows)

lemma keeps_slot_released: "keeps (lifts D) (slot_released C tid slot)"
  unfolding slot_released_def by (intro keeps_rows keeps_timing) (simp add: ledger_type_simps)

lemma keeps_teardown_owned: "keeps (lifts D) (teardown_owned C S tid expect)"
  unfolding teardown_owned_def settle_exit_watcher_def stop_process_def release_checkout_def
  by (intro keeps_rows keeps_collect keeps_reap keeps_release_lease keeps_slot_released)
     (simp_all add: forget_task_def forget_slot_def)

lemma keeps_teardown: "keeps (lifts D) (teardown C S tid expect)"
  unfolding teardown_def by (intro keeps_rows keeps_teardown_owned) simp

lemma keeps_or_recover: "keeps (lifts D) m \<Longrightarrow> keeps (lifts D) (or_recover tid l reason m)"
  unfolding or_recover_def by (intro keeps_rows) (simp_all add: forget_lease_def)

lemma keeps_fault: "keeps (lifts D) (fault_event tid aid ses f)"
  unfolding fault_event_def by (intro keeps_rows) (simp add: ledger_type_simps)

lemma keeps_start_worker: "keeps (lifts D) (start_worker C S q ap l wt)"
  unfolding start_worker_def Let_def
  by (intro keeps_rows keeps_timing keeps_or_recover keeps_fault) (simp add: ledger_type_simps)

lemma keeps_select: "keeps (lifts D) (select_row C inputs rows)"
  unfolding select_row_def by (intro keeps_rows keeps_timing) (simp add: ledger_type_simps)

lemma keeps_mark: "typ \<notin> ledger_types \<Longrightarrow> keeps (lifts D) (mark_running_failure tid src typ p ses)"
  unfolding mark_running_failure_def by (intro keeps_rows)

lemma keeps_classified: "keeps (lifts D) (terminal_classification tid c s e)"
  unfolding terminal_classification_def by (intro keeps_rows) (simp add: ledger_type_simps)

lemma keeps_finish: "keeps (lifts D) (finish_interventions tid out r)"
  unfolding finish_interventions_def by (intro keeps_rows)

lemma keeps_decide: "keeps (lifts D) (decide S tid cause p)"
  unfolding decide_def ask_supervisor_def by (intro keeps_rows) (simp_all add: ledger_type_simps)

lemma keeps_record_event: "keeps (lifts D) (record_event tid cause p dc)"
  unfolding record_event_def by (intro keeps_rows) (simp_all add: ledger_type_simps)

lemma keeps_record_attempt: "keeps (lifts D) (record_attempt act a)"
  unfolding record_attempt_def by (intro keeps_rows)

lemma keeps_record_intervention: "keeps (lifts D) (record_intervention p dc)"
  unfolding record_intervention_def by (intro keeps_rows)

end

section \<open>State changes of tasks\<close>

text \<open>
  \<open>allowed\<close> tells which columns a state change may set; a change that leaves the retry counter and
  its limit alone is always allowed.
\<close>

locale db_contract = row_contract D for D +
  fixes allowed :: "string \<Rightarrow> payload \<Rightarrow> bool"
  assumes allowed_default: "no_budget kw \<Longrightarrow> allowed x kw"
    and D_transition: "allowed x kw \<Longrightarrow>
      transition ts x (state_name q) cause Src_scheduler kw d = Inr (s, d') \<Longrightarrow> D d d'"
begin

lemma keeps_transition: "allowed tid kw \<Longrightarrow> keeps (lifts D) (transition_io tid q cause kw)"
  unfolding transition_io_def by (intro io.keeps_bind keeps_calls keeps_commit) (rule D_transition)

lemma keeps_plain: "no_budget kw \<Longrightarrow> keeps (lifts D) (transition_io tid q cause kw)"
  by (intro keeps_transition allowed_default)

lemmas keeps_stmts = keeps_rows keeps_plain

lemma keeps_register: "(\<And>ses wt base ap. allowed tid (running_fields ses wt base ap retries)) \<Longrightarrow>
    keeps (lifts D) (register_worker C S tid ap retries wt base p)"
  unfolding register_worker_def
  by (intro io.keeps_bind keeps_calls keeps_transition keeps_timing keeps_usage_event keeps_writes
      keeps_modify io.keeps_ret) (simp_all add: ledger_type_simps)

lemma keeps_launch: "(\<And>ses wt base ap. allowed (t_id (q_task q)) (running_fields ses wt base ap retries)) \<Longrightarrow>
    keeps (lifts D) (launch C S q retries)"
  unfolding launch_def plan_attempt_def persist_attempt_def Let_def
  by (intro keeps_stmts keeps_or_recover keeps_start_worker keeps_register) simp_all

lemma keeps_first_launch: "keeps (lifts D) (launch C S q None)"
  by (intro keeps_launch allowed_default) (simp add: no_budget_def running_fields_def)

lemma keeps_retry_launch:
  "(\<And>ses wt base ap. allowed (t_id (q_task q)) (running_fields ses wt base ap (Some (t_retries (q_task q) + 1)))) \<Longrightarrow>
    keeps (lifts D) (retry_launch C S q)"
  unfolding retry_launch_def by (intro keeps_stmts keeps_launch keeps_teardown)

lemma keeps_launch_loop: "keeps (lifts D) (launch_loop C S k)"
  by (induction k) (simp_all, (intro keeps_stmts keeps_select keeps_first_launch; assumption?)+)

lemma keeps_launch_ready: "keeps (lifts D) (launch_ready C S)"
  unfolding launch_ready_def by (intro keeps_stmts keeps_launch_loop)

section \<open>Signals, policy and decisions\<close>

lemma keeps_policy: "keeps (lifts D) (apply_policy C S tid)"
  unfolding apply_policy_def failure_evaluation_def materially_changed_def Let_def
  by (intro keeps_stmts keeps_finish keeps_teardown) (simp_all add: ledger_type_simps no_budget_def)

lemma keeps_interrupted: "keeps (lifts D) (close_interrupted C S tid iv)"
  unfolding close_interrupted_def
  by (intro keeps_stmts keeps_teardown) (simp_all add: ledger_type_simps no_budget_def)

lemma keeps_close: "keeps (lifts D) (close_task C S tid q disp out s a)"
  unfolding close_task_def by (intro keeps_stmts keeps_finish keeps_teardown) (simp add: no_budget_def)

lemma keeps_enter: "keeps (lifts D) (enter_triage tid cause c)"
  unfolding enter_triage_def by (intro keeps_stmts) (auto simp: no_budget_def)

end

section \<open>The whole scheduler\<close>

text \<open>
  The second interface: what a handler of the first one may not do unconditionally. A retry sets
  the counter of its task, so whether it keeps the relation depends on the guards around it.
\<close>

locale triage_contract = db_contract D allowed for D and allowed +
  assumes keeps_crash_recovery: "keeps (lifts D) (apply_crash_recovery C S tid cause)"
    and keeps_protocol_recovery: "keeps (lifts D) (apply_protocol_recovery C S tid cause)"
    and keeps_public_recovery: "keeps (lifts D) (apply_public_recovery C S tid cause)"
    and keeps_supervise: "keeps (lifts D) (supervise C S tid cause live)"
begin

lemma keeps_triage_inner: "keeps (lifts D) (handle_triage_inner C S tid cause live)"
  unfolding handle_triage_inner_def
  by (intro keeps_stmts keeps_crash_recovery keeps_protocol_recovery keeps_public_recovery keeps_policy
      keeps_interrupted keeps_supervise)

lemma keeps_triage: "keeps (lifts D) (handle_triage C S tid cause live c)"
  unfolding handle_triage_def
  by (intro keeps_stmts keeps_enter keeps_timing keeps_triage_inner) (simp_all add: ledger_type_simps)

lemma keeps_ignore: "keeps (lifts D) (ignore_result (handle_triage C S tid cause live c))"
  unfolding ignore_result_def by (intro keeps_stmts keeps_triage)

lemma keeps_recovery_record: "keeps (lifts D) (record_verification_recovery tid)"
  unfolding record_verification_recovery_def by (intro keeps_stmts) (simp add: ledger_type_simps)

lemma keeps_delivered: "keeps (lifts D) (deliver_succeeded tid s)"
  unfolding deliver_succeeded_def
  by (intro keeps_stmts keeps_finish keeps_recovery_record) (simp add: no_budget_def)

lemma keeps_candidate: "keeps (lifts D) (deliver_candidate C S t)"
  unfolding deliver_candidate_def by (intro keeps_stmts) (auto split: exc.split intro: keeps_stmts)

lemma delivery_type_other: "delivery_type k \<notin> ledger_types"
  by (cases k) (simp_all add: ledger_type_simps)

lemma keeps_deliver: "keeps (lifts D) (deliver_task C S tid)"
  unfolding deliver_task_def row_or_raise_def
  by (intro keeps_stmts keeps_candidate keeps_delivered keeps_ignore delivery_type_other)
     (simp_all add: ledger_type_simps)

lemma keeps_record_result: "keeps (lifts D) (record_result tid aid c r)"
  unfolding record_result_def evidence_events_def update_current_attempt_def update_child_interventions_def
  by (intro keeps_stmts) (simp_all add: ledger_type_simps)

lemma keeps_later: "typ \<notin> ledger_types \<Longrightarrow> keeps (lifts D) (later_attempt_event tid a typ s out)"
  unfolding later_attempt_event_def by (intro keeps_stmts)

lemma keeps_verify: "keeps (lifts D) (run_verify_task C S tid)"
  unfolding run_verify_task_def verify_passed_def verify_failed_def row_or_raise_def update_current_attempt_def
  by (intro keeps_stmts keeps_record_result keeps_classified keeps_later keeps_deliver keeps_ignore)
     (simp_all add: ledger_type_simps no_budget_def)

lemma keeps_resume_triage: "keeps (lifts D) (resume_triage C S tid s)"
  unfolding resume_triage_def row_or_raise_def
  by (intro keeps_stmts keeps_ignore) (simp add: no_budget_def)

lemma keeps_resume_delivering: "keeps (lifts D) (resume_delivering C S tid)"
  unfolding resume_delivering_def
  by (intro keeps_stmts keeps_resume_triage keeps_finish keeps_recovery_record keeps_deliver)
     (simp add: no_budget_def)

lemma keeps_resume_verifying: "keeps (lifts D) (resume_verifying C S tid)"
  unfolding resume_verifying_def
  by (intro keeps_stmts keeps_resume_triage keeps_resume_delivering keeps_verify) (simp add: no_budget_def)

section \<open>Startup, readers and the loop\<close>

lemma keeps_orphan_lease: "keeps (lifts D) (recover_orphaned_lease t reason)"
  unfolding recover_orphaned_lease_def Let_def
  by (intro keeps_stmts keeps_commit) (rule D_recover)

lemma keeps_orphan_slot: "keeps (lifts D) (close_orphaned_slot t)"
  unfolding close_orphaned_slot_def Let_def by (intro keeps_stmts) (simp add: ledger_type_simps)

lemma keeps_reconcile_claimed: "keeps (lifts D) (reconcile_claimed t e)"
  unfolding reconcile_claimed_def
  by (intro keeps_stmts keeps_orphan_lease keeps_orphan_slot) (auto simp: no_budget_def)

lemma keeps_orphan_dirty: "keeps (lifts D) (orphan_dirty S t)"
  unfolding orphan_dirty_def by (intro keeps_stmts) (auto split: exc.split intro: keeps_stmts)

lemma keeps_reconcile_dead: "keeps (lifts D) (reconcile_dead S t)"
  unfolding reconcile_dead_def orphan_candidate_def
  by (intro keeps_stmts keeps_orphan_lease keeps_orphan_slot keeps_orphan_dirty)
     (auto simp: no_budget_def ledger_type_simps)

lemma keeps_reconcile: "keeps (lifts D) (reconcile S)"
  unfolding reconcile_def reconcile_row_def
  by (intro keeps_stmts keeps_orphan_lease keeps_orphan_slot keeps_reconcile_claimed keeps_reconcile_dead)

lemma worker_type: "''worker.'' @ s \<notin> ledger_types"
  by (auto simp: ledger_type_simps)

lemma keeps_worker_event: "keeps (lifts D) (worker_event tid pr (''worker.'' @ s) p u)"
  unfolding worker_event_def by (intro keeps_stmts worker_type)

lemma keeps_touch: "keeps (lifts D) (touch S tid)"
  unfolding touch_def by (intro keeps_stmts) simp

lemma keeps_enter_verifying: "keeps (lifts D) (enter_verifying tid s c)"
  unfolding enter_verifying_def by (intro keeps_stmts) (auto simp: no_budget_def)

lemma keeps_claim: "keeps (lifts D) (watch_claim C S tid pr st (''worker.'' @ typ) disp ep)"
  unfolding watch_claim_def
  by (intro keeps_stmts keeps_worker_event keeps_reap keeps_capture keeps_enter_verifying keeps_teardown keeps_verify)

lemma keeps_asked: "keeps (lifts D) (watch_asked C S tid pr st ep)"
  unfolding watch_asked_def using keeps_worker_event[of tid pr "''asked''"]
  by (intro keeps_stmts keeps_triage keeps_touch keeps_classified) simp_all

lemma keeps_failures:
  "keeps (lifts D) (watch_startup_failed C S tid pr st p ep)"
  "keeps (lifts D) (watch_sdk_timeout C S tid pr st p ep)"
  "keeps (lifts D) (watch_sdk_failed C S tid pr st p ep)"
  unfolding watch_startup_failed_def watch_sdk_timeout_def watch_sdk_failed_def Let_def
  using keeps_worker_event[of tid pr "''startup_failed''"] keeps_worker_event[of tid pr "''sdk_timeout''"]
    keeps_worker_event[of tid pr "''sdk_failure''"]
  by (intro keeps_stmts keeps_classified keeps_capture keeps_teardown; simp)+

lemma keeps_dispatch_record: "keeps (lifts D) (dispatch_record C S tid pr st u et p ep)"
  unfolding dispatch_record_def
  using keeps_claim[of C S tid pr st "''done_claimed''"] keeps_claim[of C S tid pr st "''no_change''"]
    keeps_worker_event[of tid pr "''protocol_incomplete''"] keeps_worker_event[of tid pr "py_str et"]
  by (intro keeps_stmts keeps_asked keeps_failures) simp_all

lemma keeps_watch_line: "keeps (lifts D) (watch_line C S tid pr aid lease st line)"
  unfolding watch_line_def Let_def
  by (intro keeps_stmts keeps_validate_lease keeps_touch keeps_dispatch_record)

lemma keeps_watch_lines: "keeps (lifts D) (watch_lines C S tid pr aid lease st ls)"
proof (induction ls arbitrary: st)
  case (Cons line ls)
  show ?case
    using Cons.IH unfolding watch_lines.simps
    by (intro io.keeps_bind keeps_watch_line) (auto split: watch_next.split intro: io.keeps_ret)
qed (simp add: io.keeps_ret)

lemma keeps_after_stream: "keeps (lifts D) (after_stream C S tid pr st)"
  unfolding after_stream_def
  by (intro keeps_stmts keeps_mark keeps_capture keeps_classified keeps_teardown keeps_ignore)
     (simp_all add: ledger_type_simps)

lemma keeps_quiet: "keeps (lifts D) m \<Longrightarrow> keeps (lifts D) (quiet_cleanup m)"
  unfolding quiet_cleanup_def by (intro keeps_stmts)

lemma keeps_watch: "keeps (lifts D) (watch C S tid pr aid lease ls)"
  unfolding watch_def by (intro keeps_stmts keeps_quiet keeps_watch_lines keeps_after_stream keeps_teardown)

lemma keeps_watch_timeout: "keeps (lifts D) (watch_timeout C S tid limit elapsed)"
  unfolding watch_timeout_def
  by (intro keeps_stmts keeps_mark keeps_classified keeps_teardown keeps_ignore) (simp_all add: ledger_type_simps)

lemma keeps_watch_stall: "keeps (lifts D) (watch_stall C S tid silent)"
  unfolding watch_stall_def
  by (intro keeps_stmts keeps_mark keeps_classified keeps_teardown keeps_triage keeps_touch)
     (simp_all add: ledger_type_simps)

lemma keeps_watchdog: "keeps (lifts D) (watchdog_round C S)"
  unfolding watchdog_round_def watchdog_task_def Let_def
  by (intro keeps_stmts keeps_watch_timeout keeps_watch_stall)

lemma keeps_failures_popped: "keeps (lifts D) pop_teardown_failures"
  unfolding pop_teardown_failures_def by (intro keeps_stmts) simp

lemma keeps_raise: "keeps (lifts D) raise_teardown_failures" "keeps (lifts D) raise_infrastructure"
  unfolding raise_teardown_failures_def raise_infrastructure_def
  by (intro keeps_stmts keeps_failures_popped)+

lemma keeps_settle: "keeps (lifts D) (settle_blocked run tid p)" "keeps (lifts D) (settle_queued tid p)"
  unfolding settle_blocked_def settle_queued_def
  by (intro keeps_stmts; simp add: ledger_type_simps no_budget_def)+

lemma keeps_verify_nodes: "keeps (lifts D) (verify_nodes E deps v)"
  by (induction E deps v rule: verify_nodes.induct) (auto intro!: keeps_stmts simp: Let_def)

lemma keeps_advance_task: "keeps (lifts D) (advance_task E run bh tid)"
  unfolding advance_task_def check_interfaces_def
  by (intro keeps_stmts keeps_settle keeps_verify_nodes) (simp_all add: ledger_type_simps)

lemma keeps_advance_pass: "keeps (lifts D) (advance_pass E run bh tids ch)"
  by (induction tids arbitrary: ch) (auto intro!: keeps_stmts keeps_advance_task)

lemma keeps_advance: "keeps (lifts D) (advance_dependency_states E run bh)"
proof -
  have "keeps (lifts D) (advance_loop E run bh k ch)" for k ch
    by (induction k arbitrary: ch) (auto intro!: keeps_stmts keeps_advance_pass)
  then show ?thesis unfolding advance_dependency_states_def by (intro keeps_stmts)
qed

lemma keeps_turn: "keeps (lifts D) (loop_turn C S forever)"
  unfolding loop_turn_def by (intro keeps_stmts keeps_raise keeps_advance keeps_launch_ready)

lemma keeps_startup: "keeps (lifts D) (startup C S)"
  unfolding startup_def resume_triages_def
  by (intro keeps_stmts keeps_reconcile keeps_ignore keeps_resume_verifying keeps_resume_delivering)

lemma keeps_drain: "keeps (lifts D) (drain_teardowns C S tids)"
  by (induction tids) (auto intro!: keeps_stmts keeps_collect keeps_teardown)

lemma keeps_shutdown: "keeps (lifts D) (shutdown C S pending)"
  unfolding shutdown_def shutdown_failures_def
  by (intro keeps_stmts keeps_drain keeps_failures_popped keeps_collect)

lemma keeps_exit: "keeps (lifts D) (watch_process_exit S tid p)"
  unfolding watch_process_exit_def by (intro keeps_stmts keeps_reap)

lemma step_kept: "sched_step C S w w' \<Longrightarrow> lifts D w w'"
  by (erule sched_step.cases)
     (auto dest: keepsD[OF keeps_startup] keepsD[OF keeps_turn] keepsD[OF keeps_watch]
       keepsD[OF keeps_watchdog] keepsD[OF keeps_shutdown] keepsD[OF keeps_exit])

lemma run_kept: "sched_run C S w w' \<Longrightarrow> lifts D w w'"
  by (induction rule: rtranclp_induct) (auto intro: io.R_refl io.R_trans step_kept)

end

section \<open>Traces\<close>

text \<open>Every handler moves the database along a trace of the ledger.\<close>

lemma plain_update: "update_attempt ts aid Src_scheduler ''attempt.updated'' kw d = Inr (s, d') \<Longrightarrow> db_step d d'"
  by (rule st_update_attempt[of "''attempt.updated''"]) (simp_all add: ledger_type_simps)

interpretation trace: db_contract db_trace "\<lambda>_ _. True"
  by unfold_locales (auto intro: db_step.intros r_into_rtranclp rtranclp_trans plain_update)

text \<open>Without a condition on retries, the guarded handlers need none either.\<close>

lemma trace_retries:
  "keeps (lifts db_trace) (crash_retry C S tid cause t a)"
  "keeps (lifts db_trace) (protocol_retry C S tid cause t a dec)"
  "keeps (lifts db_trace) (public_retry C S tid cause t a dec fb)"
  "keeps (lifts db_trace) (restart_task C S tid act iid)"
  unfolding crash_retry_def protocol_retry_def public_retry_def restart_task_def
  by (intro trace.keeps_stmts trace.keeps_retry_launch; simp add: ledger_type_simps)+

lemma trace_carry_out: "keeps (lifts db_trace) (carry_out C S tid live s act iid a)"
  unfolding carry_out_def
  by (cases act) (auto intro!: trace.keeps_stmts trace.keeps_close trace_retries simp: no_budget_def split: option.split)

interpretation trace_sched: triage_contract db_trace "\<lambda>_ _. True"
proof unfold_locales
  fix C S tid cause live
  show "keeps (lifts db_trace) (apply_crash_recovery C S tid cause)"
    unfolding apply_crash_recovery_def by (intro trace.keeps_stmts trace_retries)
  show "keeps (lifts db_trace) (apply_protocol_recovery C S tid cause)"
    unfolding apply_protocol_recovery_def Let_def by (intro trace.keeps_stmts trace_retries)
  show "keeps (lifts db_trace) (apply_public_recovery C S tid cause)"
    unfolding apply_public_recovery_def Let_def by (intro trace.keeps_stmts trace_retries)
  show "keeps (lifts db_trace) (supervise C S tid cause live)"
    unfolding supervise_def dispatch_def
    by (intro trace.keeps_stmts trace.keeps_decide trace.keeps_record_event trace.keeps_record_attempt
        trace.keeps_record_intervention trace_carry_out)
qed

lemma sched_trace: "sched_run C S w w' \<Longrightarrow> db_trace (w_db w) (w_db w')"
  using trace_sched.run_kept by (simp add: lifts_def)

end
