(* ===== verification/Budget.thy ===== *)
theory Budget
  imports Contract
begin

text \<open>
  The retry budget of a task: its counter only grows, one retry at a time, and never past its
  limit, whatever the workers, the supervisor and the services outside do. The relation on one
  counter is a parameter of the contract here; it is used for counters that stay, for the one
  counter a retry sets, and for the budget itself.
\<close>

section \<open>Relations on the counters\<close>

definition counter :: "task_row \<Rightarrow> int \<times> int" where
  "counter t = (t_retries t, t_max_retries t)"

definition counters :: "(string \<Rightarrow> int \<times> int \<Rightarrow> int \<times> int \<Rightarrow> bool) \<Rightarrow> db \<Rightarrow> db \<Rightarrow> bool" where
  "counters R d d' \<longleftrightarrow> (\<forall>x. (find_task x d = None \<longleftrightarrow> find_task x d' = None) \<and>
    (\<forall>t t'. find_task x d = Some t \<longrightarrow> find_task x d' = Some t' \<longrightarrow> R x (counter t) (counter t')))"

definition counter_ok :: "(string \<Rightarrow> int \<times> int \<Rightarrow> int \<times> int \<Rightarrow> bool) \<Rightarrow> string \<Rightarrow> payload \<Rightarrow> bool" where
  "counter_ok R x kw \<longleftrightarrow> (\<forall>t t'. foldE set_task_col kw t = Inr t' \<longrightarrow> R x (counter t) (counter t'))"

lemma set_task_col_counter:
  assumes "set_task_col (c, v) t = Inr t'" "c \<noteq> ''retries''" "c \<noteq> ''max_retries''"
  shows "counter t' = counter t"
  using assms unfolding set_task_col_Inr by (elim disjE conjE exE) (simp_all add: counter_def)

lemma no_budget_cols:
  "no_budget kw \<Longrightarrow> foldE set_task_col kw t = Inr t' \<Longrightarrow> counter t' = counter t"
proof (induction kw arbitrary: t)
  case (Cons cv kw)
  obtain c v where cv: "cv = (c, v)" by (cases cv)
  obtain t1 where t1: "set_task_col (c, v) t = Inr t1" "foldE set_task_col kw t1 = Inr t'"
    using Cons.prems(2) by (auto simp: cv split: sum.splits)
  have nb: "c \<noteq> ''retries''" "c \<noteq> ''max_retries''" "no_budget kw"
    using Cons.prems(1) by (auto simp: cv no_budget_def)
  show ?case using Cons.IH[OF nb(3) t1(2)] set_task_col_counter[OF t1(1) nb(1,2)] by simp
qed simp

lemma counters_same: "d_tasks d' = d_tasks d \<Longrightarrow> (\<And>x c. R x c c) \<Longrightarrow> counters R d d'"
  by (auto simp: counters_def find_task_def)

lemma counters_trans:
  assumes ab: "counters R a b" and bc: "counters R b c"
    and tr: "\<And>x i j k. R x i j \<Longrightarrow> R x j k \<Longrightarrow> R x i k"
  shows "counters R a c"
  unfolding counters_def
proof (intro allI conjI impI)
  fix x
  show "(find_task x a = None) = (find_task x c = None)"
    using ab bc by (simp add: counters_def)
  fix t t' assume t: "find_task x a = Some t" "find_task x c = Some t'"
  obtain s where s: "find_task x b = Some s"
    using ab t(1) unfolding counters_def by (metis option.distinct(1) option.exhaust)
  show "R x (counter t) (counter t')"
    using ab bc t s tr[of x "counter t" "counter s" "counter t'"] by (simp add: counters_def)
qed

lemma counters_transition:
  assumes ok: "counter_ok R tid kw" and r: "\<And>x c. R x c c"
    and tr: "transition ts tid to cause src kw d = Inr (s, d')"
  shows "counters R d d'"
  using tr
proof (rule transition_Inr)
  fix t t' :: task_row and q
  assume t: "find_task tid d = Some t"
    and c: "foldE set_task_col kw (t\<lparr>t_state := q, t_updated_at := ts\<rparr>) = Inr t'"
    and d': "d' = d\<lparr>d_tasks := set_task tid (\<lambda>_. t') (d_tasks d), d_events := d_events d @
      [new_event d ts src ''task.state_changed'' (Some tid) (transition_payload (t_state t) q cause kw) no_usage]\<rparr>"
  have id: "t_id t' = tid"
    using set_task_cols_keep[OF c] find_task_Some[OF t] by simp
  have hit: "find_task tid d' = Some t'"
    using find_map_hit[of t_id t' tid "d_tasks d"] t id by (simp add: d' find_task_def set_task_def)
  have other: "x \<noteq> tid \<Longrightarrow> find_task x d' = find_task x d" for x
    using find_map_other[of tid x t_id t' "d_tasks d"] id by (simp add: d' find_task_def set_task_def)
  have "R tid (counter (t\<lparr>t_state := q, t_updated_at := ts\<rparr>)) (counter t')"
    using ok c unfolding counter_ok_def by blast
  then have "R tid (counter t) (counter t')" by (simp add: counter_def)
  then show ?thesis
    unfolding counters_def using hit other t r by (metis option.inject option.distinct(1))
qed

section \<open>The lease operations leave the tasks alone\<close>

lemma close_lease_tasks: "d_tasks (close_lease l st reason now src d) = d_tasks d"
  by (simp add: close_lease_def insert_event_eq)

lemma acquire_tasks: "acquire fresh aid owner ttl now lid0 src d = Inr (l, d') \<Longrightarrow> d_tasks d' = d_tasks d"
  by (erule acquire_Inr)
     (auto simp: clear_expired_def close_lease_tasks split: option.splits if_splits)

lemma renew_tasks: "renew ref lid gen owner ttl now src d = Inr (l', d') \<Longrightarrow> d_tasks d' = d_tasks d"
  by (erule renew_Inr) simp

lemma release_tasks: "release ref lid gen owner reason now src d = Inr (l', d') \<Longrightarrow> d_tasks d' = d_tasks d"
  unfolding release_def
  by (auto simp: bindE_Inr_iff fetch_lease_Inr close_lease_tasks split: if_splits)

lemma recover_tasks: "recover ref lid gen reason now src d = Inr (l', d') \<Longrightarrow> d_tasks d' = d_tasks d"
  unfolding recover_def
  by (auto simp: bindE_Inr_iff fetch_lease_Inr close_lease_tasks split: if_splits option.splits)

section \<open>The contract over any such relation\<close>

locale budget_relation =
  fixes R :: "string \<Rightarrow> int \<times> int \<Rightarrow> int \<times> int \<Rightarrow> bool"
  assumes R_refl: "R x c c"
    and R_trans: "R x a b \<Longrightarrow> R x b c \<Longrightarrow> R x a c"

sublocale budget_relation \<subseteq> db_contract "counters R" "counter_ok R"
proof unfold_locales
  show "counters R d d" for d by (simp add: counters_same R_refl)
  show "counters R a c" if "counters R a b" "counters R b c" for a b c
    by (rule counters_trans[OF that]) (rule R_trans)
  show "counter_ok R x kw" if "no_budget kw" for x kw
    using no_budget_cols[OF that] R_refl by (auto simp: counter_ok_def)
  show "counters R d d'"
    if "counter_ok R x kw" "transition ts x (state_name q) cause Src_scheduler kw d = Inr (s, d')"
    for x kw ts q cause d s d'
    by (rule counters_transition[OF that(1) R_refl that(2)])
qed (auto simp: append_event_def insert_event_eq R_refl intro!: counters_same
  dest: create_attempt_Inr(5) acquire_tasks renew_tasks release_tasks recover_tasks
  elim: update_attempt_Inr create_intervention_Inr update_intervention_Inr split: if_splits)

section \<open>Three relations\<close>

definition raised :: "string \<Rightarrow> int \<Rightarrow> string \<Rightarrow> int \<times> int \<Rightarrow> int \<times> int \<Rightarrow> bool" where
  "raised tid n x c c' \<longleftrightarrow> snd c' = snd c \<and> (fst c' = fst c \<or> x = tid \<and> fst c' = n)"

definition budgeted :: "string \<Rightarrow> int \<times> int \<Rightarrow> int \<times> int \<Rightarrow> bool" where
  "budgeted x c c' \<longleftrightarrow> snd c' = snd c \<and> (fst c' = fst c \<or> fst c < fst c' \<and> fst c' \<le> snd c)"

abbreviation same_counters :: "db \<Rightarrow> db \<Rightarrow> bool" where
  "same_counters \<equiv> counters (\<lambda>_ c c'. c' = c)"

interpretation same: budget_relation "\<lambda>_ c c'. c' = c"
  by unfold_locales auto

interpretation raised: budget_relation "raised tid n" for tid n
  by unfold_locales (auto simp: raised_def)

interpretation budget: budget_relation budgeted
  by unfold_locales (auto simp: budgeted_def)

lemma counters_mono: "counters R d d' \<Longrightarrow> (\<And>x c c'. R x c c' \<Longrightarrow> Q x c c') \<Longrightarrow> counters Q d d'"
  by (simp add: counters_def)

lemma raised_running:
  "counter_ok (raised tid n) tid (running_fields ses wt base ap (Some n))"
  unfolding counter_ok_def running_fields_def
  by (auto simp: set_task_col_def counter_def raised_def split: sum.splits)

section \<open>Handlers started below the limit\<close>

text \<open>A handler keeps a relation when it starts in a world that satisfies a condition.\<close>

definition keeps_from :: "('w \<Rightarrow> bool) \<Rightarrow> ('w \<Rightarrow> 'w \<Rightarrow> bool) \<Rightarrow> ('w, 'a) io \<Rightarrow> bool" where
  "keeps_from P R m \<longleftrightarrow> (\<forall>w. P w \<longrightarrow> R w (snd (m w)))"

lemma keeps_from_True: "keeps R m \<longleftrightarrow> keeps_from (\<lambda>_. True) R m"
  by (simp add: keeps_def keeps_from_def)

lemma keeps_from_weaken: "keeps R m \<Longrightarrow> keeps_from P R m"
  by (simp add: keeps_def keeps_from_def)

lemma keeps_from_read:
  "(\<And>x. keeps_from (\<lambda>w. P w \<and> f (w_db w) = x) R (k x)) \<Longrightarrow> keeps_from P R (bind_io (read_db f) k)"
  by (simp add: keeps_from_def read_db_bind)

lemma keeps_from_lift:
  "(\<And>w e. R w w) \<Longrightarrow> (\<And>x. r = Inr x \<Longrightarrow> keeps_from P R (k x)) \<Longrightarrow> keeps_from P R (bind_io (lift_exc r) k)"
  by (cases r) (auto simp: keeps_from_def bind_io_def lift_exc_def)

definition room :: "string \<Rightarrow> db \<Rightarrow> bool" where
  "room tid d \<longleftrightarrow> (\<exists>t. find_task tid d = Some t \<and> t_retries t < t_max_retries t)"

lemma raised_budgeted:
  assumes "counters (raised tid (t_retries t + 1)) d d'" "find_task tid d = Some t" "t_retries t < t_max_retries t"
  shows "counters budgeted d d'"
  unfolding counters_def
proof (intro allI conjI impI)
  fix x
  show "(find_task x d = None) = (find_task x d' = None)"
    using assms(1) by (simp add: counters_def)
  fix s s' assume s: "find_task x d = Some s" "find_task x d' = Some s'"
  then have "raised tid (t_retries t + 1) x (counter s) (counter s')"
    using assms(1) by (simp add: counters_def)
  then show "budgeted x (counter s) (counter s')"
    using s(1) assms(2,3) by (auto simp: raised_def budgeted_def counter_def)
qed

lemma keeps_from_raised:
  assumes "keeps (lifts (counters (raised tid (t_retries t + 1)))) m"
    and "\<And>w. P w \<Longrightarrow> find_task tid (w_db w) = Some t \<and> t_retries t < t_max_retries t"
  shows "keeps_from P (lifts (counters budgeted)) m"
  using assms raised_budgeted unfolding keeps_from_def keeps_def lifts_def by blast

lemma same_budgeted: "counters (\<lambda>_ c c'. c' = c) d d' \<Longrightarrow> counters budgeted d d'"
  by (erule counters_mono) (simp add: budgeted_def)

lemma keeps_retry:
  "tid = t_id (q_task q) \<Longrightarrow> n = t_retries (q_task q) + 1 \<Longrightarrow>
    keeps (lifts (counters (raised tid n))) (retry_launch C S q)"
  by (simp add: raised.keeps_retry_launch raised_running)

lemma raised_retries:
  assumes "t_id t = tid" "n = t_retries t + 1"
  shows "keeps (lifts (counters (raised tid n))) (crash_retry C S tid cause t a)"
    "keeps (lifts (counters (raised tid n))) (protocol_retry C S tid cause t a dec)"
    "keeps (lifts (counters (raised tid n))) (public_retry C S tid cause t a dec fb)"
  unfolding crash_retry_def protocol_retry_def public_retry_def
  by (intro raised.keeps_stmts keeps_retry; simp add: ledger_type_simps assms)+

lemma retries_from:
  assumes P: "\<And>w. P w \<Longrightarrow> find_task tid (w_db w) = Some t \<and> t_retries t < t_max_retries t"
  shows "keeps_from P (lifts (counters budgeted)) (crash_retry C S tid cause t a)"
    "keeps_from P (lifts (counters budgeted)) (protocol_retry C S tid cause t a dec)"
    "keeps_from P (lifts (counters budgeted)) (public_retry C S tid cause t a dec fb)"
proof -
  have id: "P w \<Longrightarrow> t_id t = tid" for w using P find_task_Some by blast
  have sat: "(\<And>w. P w \<Longrightarrow> keeps_from P K m) \<Longrightarrow> keeps_from P K m" for K and m :: "'a act"
    by (auto simp: keeps_from_def)
  show "keeps_from P (lifts (counters budgeted)) (crash_retry C S tid cause t a)"
    by (rule sat, rule keeps_from_raised[OF raised_retries(1)]) (auto simp: id P)
  show "keeps_from P (lifts (counters budgeted)) (protocol_retry C S tid cause t a dec)"
    by (rule sat, rule keeps_from_raised[OF raised_retries(2)]) (auto simp: id P)
  show "keeps_from P (lifts (counters budgeted)) (public_retry C S tid cause t a dec fb)"
    by (rule sat, rule keeps_from_raised[OF raised_retries(3)]) (auto simp: id P)
qed

lemmas from_rules = keeps_from_read keeps_from_lift keeps_from_weaken[OF budget.io.keeps_ret]
  budget.io.R_refl retries_from

lemma budget_crash: "keeps (lifts (counters budgeted)) (apply_crash_recovery C S tid cause)"
  unfolding apply_crash_recovery_def keeps_from_True
  by (auto intro!: from_rules split: option.split)

lemma budget_protocol: "keeps (lifts (counters budgeted)) (apply_protocol_recovery C S tid cause)"
  unfolding apply_protocol_recovery_def keeps_from_True Let_def
  by (auto intro!: from_rules split: option.split)

lemma choose_recovery_room:
  "rd_action (choose_recovery cls r m prior eqv) \<in> {Repair, RetryRetainedCandidate} \<Longrightarrow> r < m"
  by (auto simp: choose_recovery_def Let_def split: if_splits)

lemma budget_public: "keeps (lifts (counters budgeted)) (apply_public_recovery C S tid cause)"
  unfolding apply_public_recovery_def keeps_from_True Let_def
  by (auto intro!: from_rules choose_recovery_room split: option.split)

section \<open>The supervisor's restart\<close>

lemma keeps_from_bind:
  assumes "keeps (lifts same_counters) m" "\<And>x. keeps_from P (lifts (counters budgeted)) (k x)"
    and "\<And>w w'. P w \<Longrightarrow> lifts same_counters w w' \<Longrightarrow> P w'"
  shows "keeps_from P (lifts (counters budgeted)) (bind_io m k)"
  unfolding keeps_from_def
proof (intro allI impI)
  fix w assume w: "P w"
  obtain r w1 where r: "m w = (r, w1)" by (cases "m w")
  have s: "lifts same_counters w w1" using assms(1) r by (rule keepsD)
  then have b: "lifts (counters budgeted) w w1" by (simp add: lifts_def same_budgeted)
  show "lifts (counters budgeted) w (snd (bind_io m k w))"
  proof (cases r)
    case (Inl e)
    then show ?thesis using b by (simp add: bind_io_def r)
  next
    case (Inr x)
    have "lifts (counters budgeted) w1 (snd (k x w1))"
      using assms(2,3) w s by (simp add: keeps_from_def)
    then show ?thesis using budget.io.R_trans[OF b] by (simp add: bind_io_def r Inr)
  qed
qed

lemma room_same: "same_counters d d' \<Longrightarrow> room tid d \<Longrightarrow> room tid d'"
  unfolding counters_def room_def counter_def by (metis option.exhaust prod.inject)

lemma restart_from: "keeps_from (\<lambda>w. room tid (w_db w)) (lifts (counters budgeted)) (restart_task C S tid act iid)"
  unfolding restart_task_def
proof (rule keeps_from_read)
  fix x
  let ?P = "\<lambda>w :: sched. room tid (w_db w) \<and> find_task tid (w_db w) = x"
  show "keeps_from ?P (lifts (counters budgeted)) (case x of
      None \<Rightarrow> raise_io (TypeError ''NoneType object is not iterable'')
    | Some t \<Rightarrow> bind_io (retry_launch C S \<lparr>q_task = t\<lparr>t_brief := with_feedback (t_brief t) (worker_instruction act)\<rparr>,
          q_scenario = Some (t_brief t), q_feedback = worker_instruction act, q_intervention = iid\<rparr>)
          (\<lambda>_. ret_io False))"
  proof (cases x)
    case None
    then show ?thesis by (auto simp: keeps_from_def room_def)
  next
    case (Some t)
    show ?thesis
    proof (cases "t_id t = tid")
      case True
      show ?thesis unfolding Some option.case
        by (rule keeps_from_raised[of tid t], intro raised.keeps_stmts keeps_retry)
           (auto simp: Some True room_def)
    next
      case False
      then show ?thesis using find_task_Some by (auto simp: keeps_from_def Some)
    qed
  qed
qed

lemma carry_out_from:
  "keeps_from (\<lambda>w. action_name act = ''restart'' \<longrightarrow> room tid (w_db w)) (lifts (counters budgeted))
    (carry_out C S tid live s act iid a)"
proof (cases act)
  case (Act_restart f r w g)
  then show ?thesis using restart_from by (simp add: carry_out_def)
qed (auto simp: carry_out_def no_budget_def intro!: keeps_from_weaken budget.keeps_stmts budget.keeps_close
       split: option.split)

lemma dispatch_from:
  "keeps_from (\<lambda>w. action_name (dc_action dc) = ''restart'' \<longrightarrow> room tid (w_db w)) (lifts (counters budgeted))
    (dispatch C S tid cause live p dc)"
  unfolding dispatch_def
  by (intro keeps_from_bind same.keeps_stmts same.keeps_record_event same.keeps_record_attempt
      same.keeps_record_intervention carry_out_from) (auto simp: lifts_def intro: room_same)

lemma keeps_from_read_exc:
  assumes "\<And>x. keeps_from (\<lambda>w. f (w_db w) = Inr x) R (k x)" "\<And>w. R w w"
  shows "keeps R (bind_io (bind_io (read_db f) lift_exc) k)"
proof -
  have "R w (snd (bind_io (bind_io (read_db f) lift_exc) k w))" for w
    using assms by (cases "f (w_db w)") (simp_all add: bind_io_def read_db_def gets_io_def lift_exc_def keeps_from_def)
  then show ?thesis by (simp add: keeps_def)
qed

lemma enforced_restart:
  assumes "build_packet tid cause yolo live mn tt d = Inr p" "action_name (dc_action (enforce_menu p dc)) = ''restart''"
  shows "room tid d"
proof -
  have "''restart'' \<in> set (p_allowed_actions p)"
    using assms(2) by (auto simp: enforce_menu_def Let_def split: if_splits)
  then show ?thesis
    using build_packet_allowed[OF assms(1)] by (auto simp: compute_allowed_actions_def room_def split: if_splits)
qed

lemma budget_supervise: "keeps (lifts (counters budgeted)) (supervise C S tid cause live)"
  unfolding supervise_def
proof (rule keeps_from_read_exc)
  fix p
  let ?P = "\<lambda>w. build_packet tid cause (c_yolo C) (live \<noteq> None) (c_max_nudges C) (c_tail_tokens C) (w_db w) = Inr p"
  let ?Q = "\<lambda>w. \<forall>dc. action_name (dc_action (enforce_menu p dc)) = ''restart'' \<longrightarrow> room tid (w_db w)"
  have "keeps_from ?Q (lifts (counters budgeted))
      (bind_io (decide S tid cause p) (\<lambda>dc. dispatch C S tid cause live p (enforce_menu p dc)))"
  proof (rule keeps_from_bind[OF same.keeps_decide])
    show "keeps_from ?Q (lifts (counters budgeted)) (dispatch C S tid cause live p (enforce_menu p dc))" for dc
      using dispatch_from[of "enforce_menu p dc"] unfolding keeps_from_def by blast
  qed (auto simp: lifts_def intro: room_same)
  then show "keeps_from ?P (lifts (counters budgeted))
      (bind_io (decide S tid cause p) (\<lambda>dc. dispatch C S tid cause live p (enforce_menu p dc)))"
    using enforced_restart unfolding keeps_from_def by blast
qed (rule budget.io.R_refl)

interpretation budget_sched: triage_contract "counters budgeted" "counter_ok budgeted"
  by unfold_locales (rule budget_crash budget_protocol budget_public budget_supervise)+

end
