(* ===== verification/Progress.thy ===== *)
theory Progress
  imports Budget
begin

text \<open>
  What a handled signal leaves behind. A triage that returns has answered its signal: the task has
  left triage or is settled, and the same signal is stale from then on, so a second delivery of it
  changes nothing.
\<close>

section \<open>Handlers that change no state\<close>

definition same_tasks :: "db \<Rightarrow> db \<Rightarrow> bool" where
  "same_tasks d d' \<longleftrightarrow> d_tasks d' = d_tasks d"

interpretation rows: row_contract same_tasks
  by unfold_locales (auto simp: same_tasks_def append_event_def insert_event_eq
    dest: create_attempt_Inr(5) acquire_tasks renew_tasks release_tasks recover_tasks
    elim: update_attempt_Inr create_intervention_Inr update_intervention_Inr split: if_splits)

section \<open>What a handler that returns has achieved\<close>

definition yields :: "(db \<Rightarrow> bool) \<Rightarrow> 'a act \<Rightarrow> bool" where
  "yields P m \<longleftrightarrow> (\<forall>w x w'. m w = (Inr x, w') \<longrightarrow> P (w_db w'))"

definition stable :: "(db \<Rightarrow> bool) \<Rightarrow> 'a act \<Rightarrow> bool" where
  "stable P m \<longleftrightarrow> (\<forall>w. P (w_db w) \<longrightarrow> P (w_db (snd (m w))))"

lemma yields_last: "(\<And>x. yields P (k x)) \<Longrightarrow> yields P (bind_io m k)"
  unfolding yields_def by (auto simp: bind_io_Inr)

lemma yields_first: "yields P m \<Longrightarrow> (\<And>x. stable P (k x)) \<Longrightarrow> yields P (bind_io m k)"
  unfolding yields_def stable_def by (auto simp: bind_io_Inr) (metis snd_conv)

lemma yields_raise: "yields P (raise_io e)"
  by (simp add: yields_def raise_io_apply)

lemma yields_finally: "yields P m \<Longrightarrow> stable P c \<Longrightarrow> yields P (finally_io m c)"
  unfolding yields_def stable_def finally_io_def
  by (auto split: prod.splits sum.splits) (metis snd_conv)+

lemma yields_mono: "yields P m \<Longrightarrow> (\<And>d. P d \<Longrightarrow> Q d) \<Longrightarrow> yields Q m"
  unfolding yields_def by blast

lemma yields_both: "yields P m \<Longrightarrow> yields Q m \<Longrightarrow> (\<And>d. P d \<Longrightarrow> Q d \<Longrightarrow> K d) \<Longrightarrow> yields K m"
  unfolding yields_def by blast

lemma stable_keeps: "keeps (lifts D) m \<Longrightarrow> (\<And>d d'. D d d' \<Longrightarrow> P d \<Longrightarrow> P d') \<Longrightarrow> stable P m"
  unfolding keeps_def lifts_def stable_def by blast

lemma stable_ret: "stable P (ret_io x)"
  by (simp add: stable_def ret_io_apply)

section \<open>The state a task is left in\<close>

definition in_state :: "string \<Rightarrow> tstate set \<Rightarrow> db \<Rightarrow> bool" where
  "in_state tid Q d \<longleftrightarrow> (\<exists>t. find_task tid d = Some t \<and> t_state t \<in> Q)"

lemma in_state_rows: "keeps (lifts same_tasks) m \<Longrightarrow> stable (in_state tid Q) m"
  by (erule stable_keeps) (simp add: same_tasks_def in_state_def find_task_def)

lemma yields_transition: "q \<in> Q \<Longrightarrow> yields (in_state tid Q) (transition_io tid q cause kw)"
  unfolding yields_def in_state_def
  by (auto dest!: transition_io_moved simp: moved_def)

lemma yields_close: "q \<in> Q \<Longrightarrow> yields (in_state tid Q) (close_task C S tid q disp out s a)"
  unfolding close_task_def
  by (intro yields_last yields_first[OF yields_transition] in_state_rows rows.keeps_rows rows.keeps_teardown)

lemma yields_register: "yields (in_state tid {Running}) (register_worker C S tid ap r wt base p)"
  unfolding register_worker_def
  by (intro yields_last yields_first[OF yields_transition] in_state_rows rows.keeps_rows rows.keeps_timing)
     (simp_all add: ledger_type_simps)

lemma yields_launch: "yields (in_state (t_id (q_task q)) {Running}) (launch C S q r)"
  unfolding launch_def Let_def
  by (intro yields_last yields_first[OF yields_register] stable_ret) (auto split: prod.split intro: yields_last yields_first[OF yields_register] stable_ret)

lemma yields_retry_launch: "yields (in_state (t_id (q_task q)) {Running}) (retry_launch C S q)"
  unfolding retry_launch_def by (intro yields_last yields_first[OF yields_launch] stable_ret)

lemma yields_retry_then:
  "t_id (q_task q) = tid \<Longrightarrow> (\<And>x. stable (in_state tid {Running}) (k x)) \<Longrightarrow>
    yields (in_state tid {Running}) (bind_io (retry_launch C S q) k)"
  using yields_first[OF yields_retry_launch] by blast

lemma yields_retries:
  assumes "t_id t = tid"
  shows "yields (in_state tid {Running}) (crash_retry C S tid cause t a)"
    "yields (in_state tid {Running}) (protocol_retry C S tid cause t a dec)"
    "yields (in_state tid {Running}) (public_retry C S tid cause t a dec fb)"
  unfolding crash_retry_def protocol_retry_def public_retry_def
  by (intro yields_retry_then yields_last in_state_rows rows.keeps_rows; simp add: assms ledger_type_simps)+

section \<open>The log only grows\<close>

definition log_grows :: "db \<Rightarrow> db \<Rightarrow> bool" where
  "log_grows d d' \<longleftrightarrow> (\<exists>es. d_events d' = d_events d @ es)"

lemma close_lease_log: "log_grows d (close_lease l st reason now src d)"
  by (simp add: log_grows_def close_lease_def insert_event_eq)

lemma lease_log_grows:
  "acquire fresh aid owner ttl now lid0 src d = Inr (l, d') \<Longrightarrow> log_grows d d'"
  "renew ref lid gen owner' ttl now src d = Inr (l, d') \<Longrightarrow> log_grows d d'"
  "release ref lid gen owner' reason now src d = Inr (l, d') \<Longrightarrow> log_grows d d'"
  "recover ref lid gen reason now src d = Inr (l, d') \<Longrightarrow> log_grows d d'"
proof -
  show "log_grows d d'" if "acquire fresh aid owner ttl now lid0 src d = Inr (l, d')"
    using that by (rule acquire_Inr)
      (auto simp: clear_expired_def log_grows_def close_lease_def insert_event_eq split: option.splits if_splits)
  show "log_grows d d'" if "renew ref lid gen owner' ttl now src d = Inr (l, d')"
    using that by (rule renew_Inr) (simp add: log_grows_def)
  show "log_grows d d'" if "release ref lid gen owner' reason now src d = Inr (l, d')"
    using that close_lease_log unfolding release_def
    by (auto simp: bindE_Inr_iff fetch_lease_Inr log_grows_def split: if_splits)
  show "log_grows d d'" if "recover ref lid gen reason now src d = Inr (l, d')"
    using that close_lease_log unfolding recover_def
    by (auto simp: bindE_Inr_iff fetch_lease_Inr log_grows_def split: if_splits option.splits)
qed

interpretation grow: db_contract log_grows "\<lambda>_ _. True"
proof unfold_locales
  show "log_grows a c" if "log_grows a b" "log_grows b c" for a b c
    using that by (auto simp: log_grows_def)
  show "log_grows d d'" if "create_attempt fresh ts ad d = Inr (aid, d')" for fresh ts ad d aid d'
    using create_attempt_Inr[OF that] by (auto simp: log_grows_def)
qed (auto simp: append_event_def insert_event_eq lease_log_grows[unfolded log_grows_def] log_grows_def elim!: transition_Inr
    update_attempt_Inr create_intervention_Inr update_intervention_Inr split: if_splits)

section \<open>Answered signals\<close>

definition answered :: "string \<Rightarrow> int \<Rightarrow> db \<Rightarrow> bool" where
  "answered tid cause d \<longleftrightarrow> (\<exists>e \<in> set (d_events d).
    e_type e \<in> {''recovery.attempted'', ''supervisor.acted''} \<and> answers_cause tid cause e)"

lemma answered_grows: "log_grows d d' \<Longrightarrow> answered tid cause d \<Longrightarrow> answered tid cause d'"
  by (auto simp: log_grows_def answered_def)

lemma stable_answered: "keeps (lifts log_grows) m \<Longrightarrow> stable (answered tid cause) m"
  by (erule stable_keeps) (rule answered_grows)

lemma stale_off_triage:
  assumes "in_state tid (- {Triage}) d" "answered tid cause d"
  shows "stale_signal tid cause d"
proof -
  have "handled_event tid cause d \<noteq> None"
    using assms(2) by (auto simp: handled_event_def answered_def find_None_iff)
  then show ?thesis using assms(1) by (auto simp: stale_signal_def in_state_def)
qed

lemma stale_settled: "in_state tid (set settled_states) d \<Longrightarrow> stale_signal tid cause d"
  by (auto simp: stale_signal_def in_state_def)

lemma yields_usage_event:
  "e = ''recovery.attempted'' \<or> e = ''supervisor.acted'' \<Longrightarrow> jget ''cause_seq'' p = JInt cause \<Longrightarrow>
    yields (answered tid cause) (usage_event_io src e (Some tid) p u)"
  by (auto simp: yields_def usage_event_io_def bind_io_Inr now_io_def call_io_def commit_io_def
      append_event_def insert_event_eq answered_def answers_cause_def split: sum.splits if_splits)

lemma event_io_usage: "event_io src e tid p = usage_event_io src e tid p no_usage"
  by (simp add: event_io_def usage_event_io_def)

lemma yields_event:
  "jget ''cause_seq'' p = JInt cause \<Longrightarrow>
    yields (answered tid cause) (event_io src ''recovery.attempted'' (Some tid) p)"
  by (simp add: event_io_usage yields_usage_event)

section \<open>The recoveries and the policy\<close>

definition yields_true :: "(db \<Rightarrow> bool) \<Rightarrow> bool act \<Rightarrow> bool" where
  "yields_true P m \<longleftrightarrow> (\<forall>w w'. m w = (Inr True, w') \<longrightarrow> P (w_db w'))"

lemma true_yields: "yields P m \<Longrightarrow> yields_true P m"
  by (simp add: yields_def yields_true_def)

lemma true_ret: "yields_true P (ret_io False)"
  by (simp add: yields_true_def ret_io_apply)

lemma true_bind: "(\<And>x. yields_true P (k x)) \<Longrightarrow> yields_true P (bind_io m k)"
  unfolding yields_true_def by (auto simp: bind_io_Inr)

lemma true_read: "(\<And>d. yields_true P (k (f d))) \<Longrightarrow> yields_true P (bind_io (read_db f) k)"
  unfolding yields_true_def by (auto simp: read_db_bind)

lemma retries_answer:
  "yields (answered tid cause) (crash_retry C S tid cause t a)"
  "yields (answered tid cause) (protocol_retry C S tid cause t a dec)"
  "yields (answered tid cause) (public_retry C S tid cause t a dec fb)"
  unfolding crash_retry_def protocol_retry_def public_retry_def
  by (intro yields_last yields_first[OF yields_event] stable_ret; simp add: jget_def)+

lemma true_running:
  "yields (in_state tid {Running}) m \<Longrightarrow> yields (answered tid cause) m \<Longrightarrow> yields_true (stale_signal tid cause) m"
  by (rule true_yields, erule yields_both, assumption, rule stale_off_triage) (auto simp: in_state_def)

lemma true_retries:
  assumes "t_id t = tid"
  shows "yields_true (stale_signal tid cause) (crash_retry C S tid cause t a)"
    "yields_true (stale_signal tid cause) (protocol_retry C S tid cause t a dec)"
    "yields_true (stale_signal tid cause) (public_retry C S tid cause t a dec fb)"
  by (intro true_running yields_retries retries_answer assms)+

lemma true_lift: "(\<And>x. yields_true P (k x)) \<Longrightarrow> yields_true P (bind_io (lift_exc r) k)"
  by (rule true_bind)

lemma true_recoveries:
  "yields_true (stale_signal tid cause) (apply_crash_recovery C S tid cause)"
  "yields_true (stale_signal tid cause) (apply_protocol_recovery C S tid cause)"
  "yields_true (stale_signal tid cause) (apply_public_recovery C S tid cause)"
  unfolding apply_crash_recovery_def apply_protocol_recovery_def apply_public_recovery_def Let_def
  by (auto intro!: true_read true_lift true_ret true_retries dest!: find_task_Some split: option.split)

lemma true_tail: "yields_true (in_state tid {NeedsHuman}) (bind_io (transition_io tid NeedsHuman s kw)
    (\<lambda>_. bind_io (teardown C S tid ex) (\<lambda>_. ret_io True)))"
  by (intro true_yields yields_first[OF yields_transition] in_state_rows rows.keeps_rows rows.keeps_teardown) simp

lemma true_case_option:
  "yields_true P a \<Longrightarrow> (\<And>x. yields_true P (f x)) \<Longrightarrow> yields_true P (case r of None \<Rightarrow> a | Some x \<Rightarrow> f x)"
  by (cases r) simp_all

lemma true_if: "yields_true P a \<Longrightarrow> yields_true P b \<Longrightarrow> yields_true P (if c then a else b)"
  by simp

lemma true_policy: "yields_true (in_state tid {NeedsHuman}) (apply_policy C S tid)"
  unfolding apply_policy_def Let_def prod.case
  by (intro true_tail true_bind true_ret true_case_option true_if)

section \<open>The decision\<close>

lemma yields_interrupted: "yields (in_state tid {NeedsHuman}) (close_interrupted C S tid iv)"
  unfolding close_interrupted_def
  by (intro yields_last yields_first[OF yields_transition] in_state_rows rows.keeps_rows rows.keeps_teardown) simp

lemma yields_restart: "yields (in_state tid {Running}) (restart_task C S tid act iid)"
proof -
  have "yields (in_state tid {Running}) (case find_task tid d of
      None \<Rightarrow> raise_io (TypeError ''NoneType object is not iterable'')
    | Some t \<Rightarrow> bind_io (retry_launch C S \<lparr>q_task = t\<lparr>t_brief := with_feedback (t_brief t) (worker_instruction act)\<rparr>,
          q_scenario = Some (t_brief t), q_feedback = worker_instruction act, q_intervention = iid\<rparr>)
          (\<lambda>_. ret_io False))" for d
    by (auto intro!: yields_raise yields_retry_then stable_ret dest!: find_task_Some split: option.split)
  then show ?thesis unfolding restart_task_def yields_def by (auto simp: read_db_bind)
qed

lemma in_state_running: "yields (in_state tid {Running}) m \<Longrightarrow> yields (in_state tid (- {Triage})) m"
  by (erule yields_mono) (auto simp: in_state_def)

lemma yields_resumed:
  "yields (in_state tid (- {Triage})) (bind_io (modify_io f) (\<lambda>_. bind_io (transition_io tid Running s kw) (\<lambda>_. ret_io b)))"
  by (rule yields_last, rule yields_first[OF yields_transition]) (auto intro: stable_ret)

lemma yields_carry_out: "yields (in_state tid (- {Triage})) (carry_out C S tid live s act iid a)"
proof (cases act)
  case (Act_restart f r w g)
  then show ?thesis
    using in_state_running[OF yields_restart] by (simp add: carry_out_def)
qed (auto simp: carry_out_def intro!: yields_raise yields_close yields_resumed split: option.split)

lemma grow_carry_out: "keeps (lifts log_grows) (carry_out C S tid live s act iid a)"
  unfolding carry_out_def restart_task_def
  by (cases act) (auto intro!: grow.keeps_stmts grow.keeps_close grow.keeps_retry_launch simp: no_budget_def split: option.split)

lemma acted_cause: "jget ''cause_seq'' (acted_payload cause p dc) = JInt cause"
  by (cases "dc_action dc") (simp_all add: acted_payload_def dict_merge_def jget_def)

lemma grow_dispatch_rest:
  "keeps (lifts log_grows) (bind_io (read_db (latest_attempt tid)) (\<lambda>attempt.
    bind_io (record_attempt (dc_action dc) attempt) (\<lambda>_.
    bind_io (record_intervention p dc) (\<lambda>_.
      carry_out C S tid live s (dc_action dc) (dc_intervention dc) attempt))))"
  by (intro grow.keeps_stmts grow.keeps_record_attempt grow.keeps_record_intervention grow_carry_out)

lemma answered_record:
  assumes "record_event tid cause p dc w = (Inr s, w')" "dc_persisted dc = None \<or> answered tid cause (w_db w)"
  shows "answered tid cause (w_db w')"
proof (cases "dc_persisted dc")
  case None
  have "yields (answered tid cause) (record_event tid cause p dc)"
    unfolding record_event_def None then_io_def option.case
    by (intro yields_last yields_usage_event acted_cause) simp
  then show ?thesis using assms(1) by (simp add: yields_def)
next
  case (Some e)
  then have "answered tid cause (w_db w)" using assms(2) by simp
  then show ?thesis
    using keepsD[OF grow.keeps_record_event assms(1)] answered_grows by (simp add: lifts_def)
qed

lemma persisted_answers:
  assumes "decide S tid cause p w = (Inr dc, w')"
  shows "dc_persisted dc = None \<or> answered tid cause (w_db w')"
proof -
  have ask: "dc_persisted x = None" if "ask_supervisor S tid cause p v = (Inr x, v')" for x v v'
    using that unfolding ask_supervisor_def
    by (auto simp: bind_io_Inr ret_io_apply)
  show ?thesis
  proof (cases "persisted_action tid cause (w_db w)")
    case None
    then show ?thesis using assms ask by (simp add: decide_def read_db_bind)
  next
    case (Some e)
    then have "answered tid cause (w_db w)"
      unfolding answered_def persisted_action_def by (auto dest!: find_last_Some)
    moreover have "log_grows (w_db w) (w_db w')"
      using keepsD[OF grow.keeps_decide assms] by (simp add: lifts_def)
    ultimately show ?thesis using answered_grows by blast
  qed
qed

lemma yields_dispatch:
  "yields (in_state tid (- {Triage})) (dispatch C S tid cause live p dc)"
  unfolding dispatch_def by (intro yields_last yields_carry_out)

lemma answered_dispatch:
  assumes "dispatch C S tid cause live p dc w = (Inr x, w')" "dc_persisted dc = None \<or> answered tid cause (w_db w)"
  shows "answered tid cause (w_db w')"
proof -
  obtain s w1 where r: "record_event tid cause p dc w = (Inr s, w1)"
    and k: "bind_io (read_db (latest_attempt tid)) (\<lambda>attempt.
      bind_io (record_attempt (dc_action dc) attempt) (\<lambda>_.
      bind_io (record_intervention p dc) (\<lambda>_.
        carry_out C S tid live s (dc_action dc) (dc_intervention dc) attempt))) w1 = (Inr x, w')"
    using assms(1) unfolding dispatch_def by (auto simp: bind_io_Inr[of "record_event tid cause p dc"])
  have "answered tid cause (w_db w1)" by (rule answered_record[OF r assms(2)])
  then show ?thesis
    using keepsD[OF grow_dispatch_rest k] answered_grows by (simp add: lifts_def)
qed

lemma supervise_answers: "yields (stale_signal tid cause) (supervise C S tid cause live)"
  unfolding supervise_def
proof (rule yields_last)
  fix p
  show "yields (stale_signal tid cause)
    (bind_io (decide S tid cause p) (\<lambda>dc. dispatch C S tid cause live p (enforce_menu p dc)))"
    unfolding yields_def
  proof (intro allI impI)
    fix w x w' assume "bind_io (decide S tid cause p) (\<lambda>dc. dispatch C S tid cause live p (enforce_menu p dc)) w = (Inr x, w')"
    then obtain dc w1 where d: "decide S tid cause p w = (Inr dc, w1)"
      and k: "dispatch C S tid cause live p (enforce_menu p dc) w1 = (Inr x, w')"
      by (auto simp: bind_io_Inr)
    have "dc_persisted (enforce_menu p dc) = dc_persisted dc" by (simp add: enforce_menu_def Let_def)
    then have "answered tid cause (w_db w')"
      using answered_dispatch[OF k] persisted_answers[OF d] by simp
    moreover have "in_state tid (- {Triage}) (w_db w')"
      using yields_dispatch k unfolding yields_def by blast
    ultimately show "stale_signal tid cause (w_db w')" by (rule stale_off_triage[rotated])
  qed
qed

section \<open>The whole triage\<close>

lemma yields_guarded:
  "yields_true P m \<Longrightarrow> yields P k \<Longrightarrow> yields P (bind_io m (\<lambda>h. if h then ret_io False else k))"
  unfolding yields_true_def yields_def
  by (auto simp: bind_io_Inr ret_io_apply split: if_splits)

lemma settled_human: "in_state tid {NeedsHuman} d \<Longrightarrow> stale_signal tid cause d"
  by (rule stale_settled) (auto simp: in_state_def settled_states_def)

lemma inner_answers: "yields (stale_signal tid cause) (handle_triage_inner C S tid cause live)"
proof -
  have policy: "yields_true (stale_signal tid cause) (apply_policy C S tid)"
    using true_policy settled_human unfolding yields_true_def by blast
  have int: "yields (stale_signal tid cause) (close_interrupted C S tid iv)" for iv
    using yields_mono[OF yields_interrupted settled_human] .
  have "yields (stale_signal tid cause)
    (case open of Some iv \<Rightarrow> close_interrupted C S tid iv | None \<Rightarrow> supervise C S tid cause live)" for "open"
    by (cases "open") (simp_all add: int supervise_answers)
  then show ?thesis
    unfolding handle_triage_inner_def
    by (intro yields_guarded true_recoveries policy yields_last)
qed

lemma stale_rows: "keeps (lifts (\<lambda>d d'. same_tasks d d' \<and> log_grows d d')) m \<Longrightarrow> stable (stale_signal tid cause) m"
proof (erule stable_keeps)
  fix d d' assume k: "same_tasks d d' \<and> log_grows d d'" and s: "stale_signal tid cause d"
  have same: "find_task x d' = find_task x d" for x
    using k by (simp add: same_tasks_def find_task_def)
  obtain es where es: "d_events d' = d_events d @ es" using k by (auto simp: log_grows_def)
  have "handled_event tid cause d = Some e \<Longrightarrow> handled_event tid cause d' = Some e" for e
    unfolding handled_event_def es by (rule find_append_old)
  then show "stale_signal tid cause d'"
    using s by (auto simp: stale_signal_def same split: option.splits)
qed

lemma keeps_conj: "keeps (lifts A) m \<Longrightarrow> keeps (lifts B) m \<Longrightarrow> keeps (lifts (\<lambda>d d'. A d d' \<and> B d d')) m"
  by (simp add: keeps_def lifts_def)

lemma triage_answers:
  assumes "handle_triage C S tid cause live candidate w = (Inr b, w')"
  shows "stale_signal tid cause (w_db w')"
proof (cases "stale_signal tid cause (w_db w)")
  case True
  then show ?thesis using assms by (simp add: handle_triage_def read_db_bind ret_io_apply)
next
  case False
  have fin: "stable (stale_signal tid cause)
    (bind_io (timing_event C tid ''triage.finished'' a None p) (\<lambda>_. ret_io ()))" for a p
    by (intro stale_rows keeps_conj rows.keeps_rows grow.keeps_rows rows.keeps_timing grow.keeps_timing)
       (simp_all add: ledger_type_simps)
  have "yields (stale_signal tid cause) (bind_io (enter_triage tid cause candidate) (\<lambda>_.
        bind_io (read_db (latest_attempt tid)) (\<lambda>attempt.
        bind_io (read_db (triage_started tid cause)) (\<lambda>started.
        bind_io (when_io (\<not> started) (bind_io (timing_event C tid ''triage.started'' (map_option a_id attempt) None
          [(''cause_seq'', JInt cause)]) (\<lambda>_. ret_io ()))) (\<lambda>_.
          finally_io (handle_triage_inner C S tid cause live)
            (bind_io (timing_event C tid ''triage.finished'' (map_option a_id attempt) None
              [(''cause_seq'', JInt cause)]) (\<lambda>_. ret_io ())))))))"
    by (intro yields_last yields_finally inner_answers fin)
  then show ?thesis using assms False by (simp add: handle_triage_def read_db_bind yields_def)
qed

end
