(* ===== verification/Frame.thy ===== *)
theory Frame
  imports Run
begin

text \<open>
  Which dictionaries of the scheduler a handler leaves alone: a projection of the world that does
  not look at the database or the call counter is kept by every statement of the store and by every
  call to a service. The clean-up of a task and the choice of the next one are followed with it.
\<close>

section \<open>The interface\<close>

locale frame =
  fixes F :: "sched \<Rightarrow> 'x"
  assumes F_db: "F (w\<lparr>w_db := d\<rparr>) = F w"
    and F_calls: "F (w\<lparr>w_calls := n\<rparr>) = F w"

definition unmoved :: "(sched \<Rightarrow> 'x) \<Rightarrow> sched \<Rightarrow> sched \<Rightarrow> bool" where
  "unmoved F w w' \<longleftrightarrow> F w' = F w"

sublocale frame \<subseteq> io: io_contract "unmoved F"
  by unfold_locales (auto simp: unmoved_def)

context frame
begin

lemma keeps_calls: "keeps (unmoved F) (call_io f)" "keeps (unmoved F) now_io" "keeps (unmoved F) fresh_io"
    "keeps (unmoved F) (try_call_io h)" "keeps (unmoved F) (read_db g)" "keeps (unmoved F) (lift_exc r)"
    "keeps (unmoved F) (gets_io g')" "keeps (unmoved F) (mono_io S)"
  by (auto simp: keeps_def unmoved_def io_defs mono_io_def F_calls split: sum.split)

lemma keeps_commit: "keeps (unmoved F) (commit_io f)"
  by (auto simp: keeps_def unmoved_def commit_io_def F_db split: sum.split prod.split)

lemma keeps_modify: "(\<And>w. F (f w) = F w) \<Longrightarrow> keeps (unmoved F) (modify_io f)"
  by (simp add: keeps_def unmoved_def modify_io_def)

lemma keeps_store:
  "keeps (unmoved F) (usage_event_io src e tid p u)" "keeps (unmoved F) (event_io src e tid p)"
  "keeps (unmoved F) (transition_io tid' q cause kw)" "keeps (unmoved F) (create_attempt_io a)"
  "keeps (unmoved F) (update_attempt_io aid kw)" "keeps (unmoved F) (create_intervention_io tid' said sha sg)"
  "keeps (unmoved F) (update_intervention_io iid kw)" "keeps (unmoved F) (acquire_io aid owner)"
  "keeps (unmoved F) (validate_io l)" "keeps (unmoved F) (renew_io l)"
  "keeps (unmoved F) (release_io l reason src)" "keeps (unmoved F) (recover_io l reason src)"
  unfolding usage_event_io_def event_io_def transition_io_def create_attempt_io_def update_attempt_io_def
    create_intervention_io_def update_intervention_io_def acquire_io_def validate_io_def renew_io_def
    release_io_def recover_io_def
  by (intro io.keeps_bind keeps_calls keeps_commit)+

lemmas keeps_stmts = io.keeps_rules keeps_calls keeps_store keeps_modify

lemma keeps_timing: "keeps (unmoved F) (timing_event C tid e aid ses p)"
  unfolding timing_event_def by (intro keeps_stmts)

lemma keeps_collect: "keeps (unmoved F) m \<Longrightarrow> keeps (unmoved F) (collect_io label m)"
  unfolding collect_io_def by (intro keeps_stmts)

lemma keeps_release_lease: "keeps (unmoved F) (release_lease l)"
  unfolding release_lease_def by (intro keeps_stmts) (auto split: exc.split intro: keeps_stmts)

lemma keeps_release_checkout: "keeps (unmoved F) (release_checkout C S tid wt slot)"
  unfolding release_checkout_def slot_released_def by (intro keeps_stmts keeps_collect keeps_timing)

lemma keeps_select: "keeps (unmoved F) (select_row C inputs rows)"
  unfolding select_row_def by (intro keeps_stmts keeps_timing)

lemma keeps_plan: "keeps (unmoved F) (plan_attempt C S t parent resume)"
  unfolding plan_attempt_def by (intro keeps_stmts)

lemma keeps_persist: "keeps (unmoved F) (persist_attempt C q parent resume ap)"
  unfolding persist_attempt_def Let_def by (intro keeps_stmts)

lemma keeps_or_recover:
  "(\<And>w. F (forget_lease tid w) = F w) \<Longrightarrow> keeps (unmoved F) m \<Longrightarrow> keeps (unmoved F) (or_recover tid l reason m)"
  unfolding or_recover_def by (intro keeps_stmts) simp_all

lemma keeps_start_worker:
  "(\<And>w. F (forget_lease (t_id (q_task q)) w) = F w) \<Longrightarrow> keeps (unmoved F) (start_worker C S q ap l wt)"
  unfolding start_worker_def Let_def fault_event_def
  by (intro keeps_stmts keeps_timing keeps_or_recover) simp_all

end

section \<open>Clean-up of a task\<close>

text \<open>The dictionaries of the tasks, and the list of failures.\<close>

definition books where
  "books w = (m_procs w, m_slots w, m_worktrees w, m_last_event w, m_started w, m_wait_grace w,
    m_leases w, m_heartbeat w)"

interpretation books: frame books
  by unfold_locales (simp_all add: books_def)

interpretation failures: frame m_failures
  by unfold_locales simp_all

interpretation reaped: frame m_reaped
  by unfold_locales simp_all

interpretation slots: frame m_slots
  by unfold_locales simp_all

text \<open>A task without any entry.\<close>

definition unknown :: "string \<Rightarrow> sched \<Rightarrow> bool" where
  "unknown tid w \<longleftrightarrow> map_of (m_procs w) tid = None \<and> map_of (m_slots w) tid = None \<and>
    map_of (m_worktrees w) tid = None \<and> map_of (m_last_event w) tid = None \<and>
    map_of (m_started w) tid = None \<and> map_of (m_wait_grace w) tid = None \<and>
    map_of (m_leases w) tid = None \<and> map_of (m_heartbeat w) tid = None"

text \<open>The entries of one task are the same.\<close>

definition same_entries :: "string \<Rightarrow> sched \<Rightarrow> sched \<Rightarrow> bool" where
  "same_entries x w w' \<longleftrightarrow> map_of (m_procs w') x = map_of (m_procs w) x \<and>
    map_of (m_slots w') x = map_of (m_slots w) x \<and> map_of (m_worktrees w') x = map_of (m_worktrees w) x \<and>
    map_of (m_last_event w') x = map_of (m_last_event w) x \<and> map_of (m_started w') x = map_of (m_started w) x \<and>
    map_of (m_wait_grace w') x = map_of (m_wait_grace w) x \<and> map_of (m_leases w') x = map_of (m_leases w) x \<and>
    map_of (m_heartbeat w') x = map_of (m_heartbeat w) x"

text \<open>Statements that never raise.\<close>

definition returns :: "'a act \<Rightarrow> bool" where
  "returns m \<longleftrightarrow> (\<forall>w. \<exists>x w'. m w = (Inr x, w'))"

lemma returns_bind: "returns m \<Longrightarrow> (\<And>x. returns (k x)) \<Longrightarrow> returns (bind_io m k)"
  unfolding returns_def by (metis bind_run)

lemma returns_stmts: "returns (ret_io x)" "returns (gets_io f)" "returns (modify_io g)"
    "returns (call_io h)" "returns (read_db q)"
  by (simp_all add: returns_def io_defs)

lemma forgotten: "unknown tid (forget_slot tid (forget_task tid w))"
  by (simp add: unknown_def forget_slot_def forget_task_def drop_key_def delete_conv')

lemma others_kept: "x \<noteq> tid \<Longrightarrow> same_entries x w (forget_slot tid (forget_task tid w))"
  by (simp add: same_entries_def forget_slot_def forget_task_def drop_key_def delete_conv')

lemma books_forget: "books w = books v \<Longrightarrow> books (forget_slot tid w) = books (forget_slot tid v)"
  by (simp add: books_def forget_slot_def)

lemma unknown_books: "books w = books v \<Longrightarrow> unknown tid w = unknown tid v"
  by (simp add: books_def unknown_def)

lemma same_entries_books: "books w = books v \<Longrightarrow> same_entries x u w = same_entries x u v"
  by (simp add: books_def same_entries_def)

section \<open>What a clean-up reports\<close>

text \<open>
  The failures of a clean-up, computed from what the services, the clock and the store answer at the
  successive calls: the exit watcher, the reaping of the process (with a second attempt when it still
  runs) and the closing of its transport, the release of the lease unless it is stale, and the release
  of the checkout. A slot without a checkout is a failure of its own.
\<close>

definition raised_by :: "string \<Rightarrow> exc + 'a \<Rightarrow> (string \<times> exc) list" where
  "raised_by label r = (case r of Inl e \<Rightarrow> [(label, e)] | Inr _ \<Rightarrow> [])"

definition process_failures :: "services \<Rightarrow> string \<Rightarrow> proc option \<Rightarrow> bool \<Rightarrow> nat \<Rightarrow> (string \<times> exc) list \<times> nat" where
  "process_failures S tid p terminate n = (case p of
      None \<Rightarrow> ([], n)
    | Some pr \<Rightarrow>
        let close = (\<lambda>k. raised_by ''process transport close'' (s_transport_close S k pr)) in
        (case s_reap S n pr terminate of
           Inr _ \<Rightarrow> (close (n + 1), n + 2)
         | Inl e \<Rightarrow>
             if s_returncode S (n + 1) pr \<noteq> None then ((''process reap'', e) # close (n + 2), n + 3)
             else ((''process reap'', e) # raised_by ''process reap retry'' (s_reap S (n + 2) pr True) @
               close (n + 3), n + 4)))"

definition lease_failures :: "lease_row option \<Rightarrow> nat \<Rightarrow> sched \<Rightarrow> (string \<times> exc) list \<times> nat" where
  "lease_failures l n w = (case l of
      None \<Rightarrow> ([], n)
    | Some lease \<Rightarrow>
        (case release (By_lease lease) None None None ''scheduler_teardown'' (w_clock w n) Src_scheduler (w_db w) of
           Inl (StaleLeaseError _) \<Rightarrow> []
         | Inl e \<Rightarrow> [(''execution lease release'', e)]
         | Inr _ \<Rightarrow> [], n + 1))"

definition checkout_failures ::
    "services \<Rightarrow> string \<Rightarrow> string option \<Rightarrow> string option \<Rightarrow> nat \<Rightarrow> (string \<times> exc) list" where
  "checkout_failures S tid wt slot n = (case wt of
      Some path \<Rightarrow> raised_by ''worktree release'' (s_pool_release S n path)
    | None \<Rightarrow> if slot = None then []
        else [(''slot release'', RuntimeError (''worker slot '' @ tid @ '' has no worktree to release''))])"

definition cleanup_failures :: "services \<Rightarrow> string \<Rightarrow> sched \<Rightarrow> (string \<times> exc) list" where
  "cleanup_failures S tid w =
    (let f0 = (case s_exit_watcher S (w_calls w) tid of None \<Rightarrow> [] | Some e \<Rightarrow> [(''exit watcher'', e)]);
         (f1, n1) = process_failures S tid (map_of (m_procs w) tid) (tid \<notin> set (m_reaped w)) (w_calls w + 1);
         (f2, n2) = lease_failures (map_of (m_leases w) tid) n1 w;
         f3 = checkout_failures S tid (map_of (m_worktrees w) tid) (map_of (m_slots w) tid) n2
     in f0 @ f1 @ f2 @ f3)"

lemma collect_call:
  "collect_io label (try_call_io f) w = (Inr (raised_by label (f (w_calls w))), w\<lparr>w_calls := Suc (w_calls w)\<rparr>)"
  by (cases "f (w_calls w)")
     (simp_all add: collect_io_def catch_io_def bind_io_def try_call_io_def call_io_def ret_io_apply raised_by_def)

lemma collect_reap:
  "collect_io label (reap_process S tid p) w =
    (case s_reap S (w_calls w) p (tid \<notin> set (m_reaped w)) of
       Inl e \<Rightarrow> (Inr [(label, e)], w\<lparr>w_calls := Suc (w_calls w)\<rparr>)
     | Inr _ \<Rightarrow> (Inr [], w\<lparr>w_calls := Suc (w_calls w), m_reaped := List.insert tid (m_reaped w)\<rparr>))"
  by (cases "s_reap S (w_calls w) p (tid \<notin> set (m_reaped w))")
     (simp_all add: collect_io_def reap_process_def catch_io_def bind_io_def try_call_io_def call_io_def
       gets_io_def modify_io_def ret_io_apply)

lemma removeAll_insert: "removeAll x (List.insert x xs) = removeAll x xs"
  by (simp add: List.insert_def)

lemma stop_process_run:
  "stop_process S tid p w = (Inr (fst (process_failures S tid p (tid \<notin> set (m_reaped w)) (w_calls w))),
    w\<lparr>w_calls := snd (process_failures S tid p (tid \<notin> set (m_reaped w)) (w_calls w)),
      m_reaped := (if p = None then m_reaped w else removeAll tid (m_reaped w))\<rparr>)"
proof (cases p)
  case None
  then show ?thesis by (simp add: stop_process_def process_failures_def ret_io_apply)
next
  case (Some pr)
  show ?thesis
  proof (cases "s_reap S (w_calls w) pr (tid \<notin> set (m_reaped w))")
    case (Inr u)
    then show ?thesis using Some
      by (simp add: stop_process_def process_failures_def bind_io_def collect_reap collect_call call_io_def
          modify_io_def ret_io_apply removeAll_insert Let_def)
  next
    case (Inl e)
    then show ?thesis using Some
      by (cases "s_returncode S (Suc (w_calls w)) pr")
         (simp_all add: stop_process_def process_failures_def bind_io_def collect_reap collect_call call_io_def
          modify_io_def ret_io_apply removeAll_insert Let_def numeral_3_eq_3 numeral_2_eq_2)
  qed
qed

lemma release_lease_run:
  assumes "release_lease l w = (r, w')"
  shows "r = Inr (fst (lease_failures l (w_calls w) w)) \<and> w_calls w' = snd (lease_failures l (w_calls w) w)"
proof (cases l)
  case None
  then show ?thesis using assms by (simp add: release_lease_def lease_failures_def ret_io_apply)
next
  case (Some lease)
  let ?r = "release (By_lease lease) None None None ''scheduler_teardown'' (w_clock w (w_calls w)) Src_scheduler (w_db w)"
  show ?thesis
  proof (cases ?r)
    case (Inl e)
    then show ?thesis using assms Some
      by (cases e) (simp_all add: release_lease_def lease_failures_def release_io_def bind_io_def catch_io_def
          now_io_def call_io_def commit_io_def ret_io_apply, auto)
  next
    case (Inr x)
    then show ?thesis using assms Some
      by (cases x) (simp add: release_lease_def lease_failures_def release_io_def bind_io_def catch_io_def
          now_io_def call_io_def commit_io_def ret_io_apply, auto)
  qed
qed

lemma slot_released_returns: "returns (slot_released C tid slot)"
  unfolding slot_released_def timing_event_def
  by (intro returns_bind returns_stmts)
     (simp add: returns_def usage_event_io_def bind_io_def now_io_def call_io_def commit_io_def
        append_event_def insert_event_eq)

lemma release_checkout_run:
  assumes "release_checkout C S tid wt slot w = (r, w')"
  shows "r = Inr (checkout_failures S tid wt slot (w_calls w))"
proof (cases wt)
  case None
  then show ?thesis using assms
    by (auto simp: release_checkout_def checkout_failures_def ret_io_apply split: if_splits)
next
  case (Some path)
  have event: "x = Inr []" if "collect_io ''slot release event'' (slot_released C tid s) u = (x, v)" for s u x v
  proof -
    obtain y v' where "slot_released C tid s u = (Inr y, v')"
      using slot_released_returns unfolding returns_def by blast
    then show ?thesis using that by (simp add: collect_io_def catch_io_def bind_io_def ret_io_apply)
  qed
  then show ?thesis using assms Some
    by (auto simp: release_checkout_def checkout_failures_def bind_io_def collect_call ret_io_apply
        split: if_splits dest: event)
qed

text \<open>The clean-up of a process the task still owns.\<close>

lemma teardown_owned_run:
  fixes w :: sched and S :: services and tid :: string
  assumes own: "expect = None \<or> map_of (m_procs w) tid = expect"
  defines "fs \<equiv> cleanup_failures S tid w"
  shows "\<exists>w'. teardown_owned C S tid expect w = ((if fs = [] then Inr () else Inl (cleanup_exc tid fs)), w') \<and>
    books w' = books (forget_slot tid (forget_task tid w)) \<and> m_failures w' = m_failures w \<and>
    m_reaped w' = (if map_of (m_procs w) tid = None then m_reaped w else removeAll tid (m_reaped w))"
proof -
  let ?p = "map_of (m_procs w) tid"
  let ?f0 = "case s_exit_watcher S (w_calls w) tid of None \<Rightarrow> [] | Some e \<Rightarrow> [(''exit watcher'', e)]"
  let ?w1 = "(forget_task tid w)\<lparr>w_calls := Suc (w_calls w)\<rparr>"
  let ?stop = "process_failures S tid ?p (tid \<notin> set (m_reaped w)) (Suc (w_calls w))"
  have e: "settle_exit_watcher S tid (forget_task tid w) = (Inr ?f0, ?w1)"
    by (simp add: settle_exit_watcher_def call_io_def forget_task_def)
  obtain w2 where s: "stop_process S tid ?p ?w1 = (Inr (fst ?stop), w2)"
      and w2: "w2 = ?w1\<lparr>w_calls := snd ?stop, m_reaped := (if ?p = None then m_reaped w else removeAll tid (m_reaped w))\<rparr>"
    using stop_process_run[of S tid ?p ?w1] by (simp add: forget_task_def)
  let ?lease = "map_of (m_leases w) tid" and ?wt = "map_of (m_worktrees w) tid" and ?slot = "map_of (m_slots w) tid"
  have same: "map_of (m_leases w2) tid = ?lease" "map_of (m_worktrees w2) tid = ?wt" "map_of (m_slots w2) tid = ?slot"
    by (simp_all add: w2 forget_task_def)
  obtain r2 w4 where l: "release_lease ?lease (forget_slot tid w2) = (r2, w4)" by fastforce
  let ?f2 = "lease_failures ?lease (snd ?stop) w"
  have "lease_failures ?lease (snd ?stop) (forget_slot tid w2) = ?f2"
    by (simp add: w2 forget_slot_def forget_task_def lease_failures_def split: option.split)
  then have r2: "r2 = Inr (fst ?f2)" "w_calls w4 = snd ?f2"
    using release_lease_run[OF l] by (simp_all add: w2 forget_slot_def)
  obtain r3 w5 where c: "release_checkout C S tid ?wt ?slot w4 = (r3, w5)" by fastforce
  have r3: "r3 = Inr (checkout_failures S tid ?wt ?slot (snd ?f2))" using release_checkout_run[OF c] r2 by simp
  have fs: "fs = ?f0 @ fst ?stop @ fst ?f2 @ checkout_failures S tid ?wt ?slot (snd ?f2)"
    by (simp add: fs_def cleanup_failures_def Let_def case_prod_beta)
  have "teardown_owned C S tid expect w = (if fs = [] then Inr () else Inl (cleanup_exc tid fs), w5)"
    using own unfolding teardown_owned_def fs
    by (auto simp: bind_io_def gets_io_def modify_io_def e s same l r2(1) c r3 ret_io_apply raise_io_apply)
  moreover have "books w5 = books (forget_slot tid (forget_task tid w))"
  proof -
    have "books w2 = books (forget_task tid w)" by (simp add: w2 books_def)
    moreover have "books w4 = books (forget_slot tid w2)" "books w5 = books w4"
      using keepsD[OF books.keeps_release_lease l] keepsD[OF books.keeps_release_checkout c]
      by (simp_all add: unmoved_def)
    ultimately show ?thesis using books_forget by metis
  qed
  moreover have "m_failures w4 = m_failures (forget_slot tid w2)" "m_failures w5 = m_failures w4"
    using keepsD[OF failures.keeps_release_lease l] keepsD[OF failures.keeps_release_checkout c]
    by (simp_all add: unmoved_def)
  moreover have "m_reaped w4 = m_reaped (forget_slot tid w2)" "m_reaped w5 = m_reaped w4"
    using keepsD[OF reaped.keeps_release_lease l] keepsD[OF reaped.keeps_release_checkout c]
    by (simp_all add: unmoved_def)
  ultimately show ?thesis
    by (intro exI[of _ w5] conjI) (simp_all add: w2 forget_slot_def forget_task_def split del: if_split)
qed

lemma teardown_run:
  fixes w :: sched and S :: services and tid :: string
  assumes "expect = None \<or> map_of (m_procs w) tid = expect" "teardown C S tid expect w = (r, w')"
  defines "fs \<equiv> cleanup_failures S tid w"
  shows "r = (if fs = [] then Inr () else Inl (cleanup_exc tid fs)) \<and>
    books w' = books (forget_slot tid (forget_task tid w)) \<and>
    m_failures w' = m_failures w @ (if fs = [] then [] else [(tid, cleanup_exc tid fs)]) \<and>
    m_reaped w' = (if map_of (m_procs w) tid = None then m_reaped w else removeAll tid (m_reaped w))"
proof -
  obtain w1 where t: "teardown_owned C S tid expect w =
      ((if fs = [] then Inr () else Inl (cleanup_exc tid fs)), w1)"
    "books w1 = books (forget_slot tid (forget_task tid w))" "m_failures w1 = m_failures w"
    "m_reaped w1 = (if map_of (m_procs w) tid = None then m_reaped w else removeAll tid (m_reaped w))"
    using teardown_owned_run[OF assms(1)] unfolding fs_def by blast
  show ?thesis
  proof (cases "fs = []")
    case True
    then show ?thesis using t assms(2) by (simp add: teardown_def catch_io_def)
  next
    case False
    then have "r = Inl (cleanup_exc tid fs) \<and> w' = w1\<lparr>m_failures := m_failures w1 @ [(tid, cleanup_exc tid fs)]\<rparr>"
      using t(1) assms(2) by (simp add: teardown_def catch_io_def bind_io_def modify_io_def raise_io_apply)
    then show ?thesis using t(2-4) False by (simp add: books_def)
  qed
qed

end
