(* ===== verification/Launching.thy ===== *)
theory Launching
  imports Progress Frame
begin

text \<open>
  The launch of ready tasks: it ends within its fuel, and the slots in use never pass the limit.
\<close>

section \<open>A launch takes its task out of queued\<close>

definition taken :: "string \<Rightarrow> db \<Rightarrow> db \<Rightarrow> bool" where
  "taken tid d d' \<longleftrightarrow> (\<exists>t'. t_state t' = Running \<and> d_tasks d' = set_task tid (\<lambda>_. t') (d_tasks d))"

definition takes :: "string \<Rightarrow> 'a act \<Rightarrow> bool" where
  "takes tid m \<longleftrightarrow> (\<forall>w x w'. m w = (Inr x, w') \<longrightarrow> taken tid (w_db w) (w_db w'))"

lemma takes_last: "keeps (lifts same_tasks) m \<Longrightarrow> (\<And>x. takes tid (k x)) \<Longrightarrow> takes tid (bind_io m k)"
  unfolding takes_def
  by (auto simp: bind_io_Inr lifts_def same_tasks_def taken_def dest!: keepsD) metis

lemma takes_first: "takes tid m \<Longrightarrow> (\<And>x. keeps (lifts same_tasks) (k x)) \<Longrightarrow> takes tid (bind_io m k)"
  unfolding takes_def
  by (fastforce simp: bind_io_Inr lifts_def same_tasks_def taken_def dest: keepsD)

lemma takes_transition: "takes tid (transition_io tid Running cause kw)"
  unfolding takes_def
proof (intro allI impI)
  fix w s w' assume "transition_io tid Running cause kw w = (Inr s, w')"
  then obtain ts where "transition ts tid (state_name Running) cause Src_scheduler kw (w_db w) = Inr (s, w_db w')"
    by (rule transition_io_cases) auto
  then show "taken tid (w_db w) (w_db w')"
  proof (rule transition_Inr)
    fix t t' :: task_row and q
    assume q: "state_of_name (state_name Running) = Some q"
      and c: "foldE set_task_col kw (t\<lparr>t_state := q, t_updated_at := ts\<rparr>) = Inr t'"
      and d: "w_db w' = (w_db w)\<lparr>d_tasks := set_task tid (\<lambda>_. t') (d_tasks (w_db w)),
        d_events := d_events (w_db w) @ [new_event (w_db w) ts Src_scheduler ''task.state_changed'' (Some tid)
          (transition_payload (t_state t) q cause kw) no_usage]\<rparr>"
    have "t_state t' = Running" using set_task_cols_keep[OF c] q by (simp add: state_of_name_def all_states_def)
    then show ?thesis by (auto simp: taken_def d)
  qed
qed

lemma takes_register: "takes tid (register_worker C S tid ap r wt base p)"
  unfolding register_worker_def
  by (intro takes_first[OF takes_transition] takes_last rows.keeps_rows rows.keeps_timing)
     (simp_all add: ledger_type_simps)

lemma takes_prod: "(\<And>x y. takes tid (k x y)) \<Longrightarrow> takes tid (case v of (x, y) \<Rightarrow> k x y)"
  by (simp split: prod.split)

lemma takes_launch: "takes (t_id (q_task q)) (launch C S q r)"
  unfolding launch_def Let_def plan_attempt_def persist_attempt_def
  by (intro takes_first[OF takes_register] takes_prod takes_last rows.keeps_rows rows.keeps_or_recover
      rows.keeps_start_worker) simp_all

definition queued_count :: "db \<Rightarrow> nat" where
  "queued_count d = length (filter (\<lambda>t. t_state t = Queued) (d_tasks d))"

lemma queued_count_rows: "length (queued_rows d) = queued_count d"
  by (simp add: queued_rows_def queued_count_def)

lemma set_task_count:
  assumes "t_state t' \<noteq> Queued" "t \<in> set ts" "t_state t = Queued" "t_id t = tid"
  shows "length (filter (\<lambda>t. t_state t = Queued) (set_task tid (\<lambda>_. t') ts))
    < length (filter (\<lambda>t. t_state t = Queued) ts)"
  using assms(2)
proof (induction ts)
  case (Cons s ts)
  have le: "length (filter (\<lambda>t. t_state t = Queued) (set_task tid (\<lambda>_. t') us))
      \<le> length (filter (\<lambda>t. t_state t = Queued) us)" for us
    using assms(1) by (induction us) (auto simp: set_task_def)
  show ?case
    using Cons le[of ts] assms(1,3,4) by (cases "s = t") (auto simp: set_task_def less_Suc_eq_le)
qed simp

lemma taken_count:
  "taken tid d d' \<Longrightarrow> t \<in> set (queued_rows d) \<Longrightarrow> t_id t = tid \<Longrightarrow> queued_count d' < queued_count d"
  using set_task_count by (auto simp: taken_def queued_rows_def queued_count_def)

section \<open>Enough fuel\<close>

lemma choose_task_in:
  "choose_task d rows = Some (t, scores) \<Longrightarrow> rows \<noteq> [] \<Longrightarrow> t \<in> set rows"
proof -
  assume "choose_task d rows = Some (t, scores)" and ne: "rows \<noteq> []"
  then have "t = hd (sort_key (\<lambda>t. - score_of scores t) (sort_key t_created_at (sort_key t_id rows)))"
    by (auto simp: choose_task_def)
  moreover have "sort_key (\<lambda>t. - score_of scores t) (sort_key t_created_at (sort_key t_id rows)) \<noteq> []"
    using ne by (metis length_0_conv length_sort)
  ultimately show "t \<in> set rows" using hd_in_set by fastforce
qed

lemma select_row_in:
  assumes "select_row C inputs rows w = (Inr t, w')" "rows \<noteq> []"
  shows "t \<in> set rows"
  using assms choose_task_in
  by (auto simp: select_row_def read_db_bind ret_io_apply bind_io_Inr raise_io_apply split: if_splits option.splits)

lemma gets_bind: "bind_io (gets_io f) k w = k (f w) w"
  by (simp add: io_defs)

lemma plain_launch_task [simp]: "q_task (plain_launch t) = t"
  by (simp add: plain_launch_def)

lemma launch_loop_enough:
  "launch_loop C S k w = (Inr b, w') \<Longrightarrow> queued_count (w_db w) < k \<Longrightarrow> b"
proof (induction k arbitrary: w)
  case (Suc k)
  let ?slots = "m_slots w" and ?d = "w_db w"
  obtain limit inputs where lim: "launch_limit C ?d (int (length ?slots)) = (limit, inputs)"
    by (cases "launch_limit C ?d (int (length ?slots))")
  define rows where "rows = filter (\<lambda>t. \<not> conflict_blocked C ?slots (t_id t)) (queued_rows ?d)"
  show ?case
  proof (cases "limit \<le> int (length ?slots) \<or> rows = []")
    case True
    then show ?thesis
      using Suc.prems(1) lim
      by (auto simp: read_db_bind gets_bind rows_def ret_io_apply split: if_splits)
  next
    case False
    then obtain t w1 x w2 where s: "select_row C inputs rows w = (Inr t, w1)"
      and l: "launch C S (plain_launch t) None w1 = (Inr x, w2)" and r: "launch_loop C S k w2 = (Inr b, w')"
      using Suc.prems(1) lim
      by (auto simp: read_db_bind gets_bind rows_def[symmetric] bind_io_Inr split: if_splits)
    have "t \<in> set rows" using select_row_in[OF s] False by simp
    then have t: "t \<in> set (queued_rows ?d)" by (simp add: rows_def)
    have "d_tasks (w_db w1) = d_tasks ?d"
      using keepsD[OF rows.keeps_select s] by (simp add: lifts_def same_tasks_def)
    moreover have "taken (t_id t) (w_db w1) (w_db w2)"
      using takes_launch[of "plain_launch t"] l unfolding takes_def by simp
    ultimately have "queued_count (w_db w2) < queued_count ?d"
      using taken_count[of "t_id t" ?d "w_db w2"] t by (simp add: taken_def)
    then show ?thesis using Suc.IH[OF r] Suc.prems(2) by simp
  qed
qed simp

section \<open>Slots in use\<close>

definition with_key :: "string \<Rightarrow> string list \<Rightarrow> string list" where
  "with_key k ks = (if k \<in> set ks then ks else ks @ [k])"

lemma with_key_idem [simp]: "with_key k (with_key k ks) = with_key k ks"
  by (simp add: with_key_def)

definition slot_added :: "string \<Rightarrow> sched \<Rightarrow> sched \<Rightarrow> bool" where
  "slot_added tid w w' \<longleftrightarrow> map fst (m_slots w') = map fst (m_slots w) \<or>
    map fst (m_slots w') = with_key tid (map fst (m_slots w))"

interpretation added: io_contract "slot_added tid" for tid
  by unfold_locales (auto simp: slot_added_def)

lemma added_frame: "keeps (unmoved m_slots) m \<Longrightarrow> keeps (slot_added tid) m"
  by (auto simp: keeps_def unmoved_def slot_added_def)

lemma added_slot: "keeps (slot_added tid) (modify_io (\<lambda>w. w\<lparr>m_slots := AList.update tid wt (m_slots w)\<rparr>))"
  by (simp add: keeps_def slot_added_def modify_io_def update_keys with_key_def)

lemma register_slots: "keeps (unmoved m_slots) (register_worker C S tid ap r wt base p)"
  unfolding register_worker_def by (intro slots.keeps_stmts slots.keeps_timing) simp

lemma added_launch: "keeps (slot_added (t_id (q_task q))) (launch C S q r)"
proof -
  have tail: "keeps (slot_added tid) (bind_io (modify_io (\<lambda>w. w\<lparr>m_slots := AList.update tid wt (m_slots w)\<rparr>)) (\<lambda>_.
      bind_io (start_worker C S q ap lease wt) (\<lambda>p.
      bind_io (register_worker C S tid ap r wt base p) (\<lambda>_. ret_io (ap_id ap)))))"
    for tid wt ap lease base
    by (intro added.keeps_bind added_slot added_frame[OF slots.keeps_start_worker] added_frame[OF register_slots]
        added.keeps_ret) (simp add: forget_lease_def)
  have acq: "keeps (unmoved m_slots) (or_recover tid lease reason (try_call_io f))" for tid lease reason
      and f :: "nat \<Rightarrow> exc + 'y"
    by (intro slots.keeps_or_recover slots.keeps_calls) (simp add: forget_lease_def)
  have mod: "keeps (unmoved m_slots) (modify_io (\<lambda>w. w\<lparr>m_leases := f w, m_heartbeat := g w\<rparr>))" for f g
    by (intro slots.keeps_modify) simp
  show ?thesis
    unfolding launch_def Let_def
    by (intro added.keeps_prod tail added.keeps_bind added_frame[OF slots.keeps_plan]
        added_frame[OF slots.keeps_persist] added_frame[OF acq] added_frame[OF mod]
        added_frame[OF slots.keeps_calls(1)] added_frame[OF slots.keeps_calls(5)]
        added_frame[OF slots.keeps_calls(8)] added_frame[OF slots.keeps_store(8)])
qed

lemma added_length: "slot_added tid w w' \<Longrightarrow> length (m_slots w') \<le> Suc (length (m_slots w))"
  unfolding slot_added_def with_key_def
  by (auto dest!: arg_cong[where f = length] split: if_splits)

lemma launch_limit_le:
  "launch_limit C d n = (limit, inputs) \<Longrightarrow> limit \<le> c_max_concurrency C"
  by (auto simp: launch_limit_def effective_limit_def Let_def split: if_splits)

lemma launch_loop_slots:
  "launch_loop C S k w = (res, w') \<Longrightarrow>
    int (length (m_slots w')) \<le> max (c_max_concurrency C) (int (length (m_slots w)))"
proof (induction k arbitrary: w)
  case (Suc k)
  let ?slots = "m_slots w" and ?d = "w_db w"
  obtain limit inputs where lim: "launch_limit C ?d (int (length ?slots)) = (limit, inputs)"
    by (cases "launch_limit C ?d (int (length ?slots))")
  define rows where "rows = filter (\<lambda>t. \<not> conflict_blocked C ?slots (t_id t)) (queued_rows ?d)"
  show ?case
  proof (cases "limit \<le> int (length ?slots) \<or> rows = []")
    case True
    then have "w' = w"
      using Suc.prems lim by (auto simp: read_db_bind gets_bind rows_def ret_io_apply split: if_splits)
    then show ?thesis by simp
  next
    case False
    have room: "int (length ?slots) < c_max_concurrency C" using False launch_limit_le[OF lim] by simp
    have run: "bind_io (select_row C inputs rows) (\<lambda>t.
        bind_io (launch C S (plain_launch t) None) (\<lambda>_. launch_loop C S k)) w = (res, w')"
      using Suc.prems lim False by (simp add: read_db_bind gets_bind rows_def[symmetric])
    obtain rs w1 where s: "select_row C inputs rows w = (rs, w1)" by (cases "select_row C inputs rows w")
    have s1: "m_slots w1 = ?slots" using keepsD[OF slots.keeps_select s] by (simp add: unmoved_def)
    show ?thesis
    proof (cases rs)
      case (Inl e)
      then show ?thesis using run s s1 by (simp add: bind_io_def)
    next
      case (Inr t)
      obtain rl w2 where l: "launch C S (plain_launch t) None w1 = (rl, w2)"
        by (cases "launch C S (plain_launch t) None w1")
      have s2: "length (m_slots w2) \<le> Suc (length ?slots)"
        using added_length[OF keepsD[OF added_launch l]] s1 by simp
      show ?thesis
      proof (cases rl)
        case (Inl e)
        then show ?thesis using run s Inr l s2 room by (simp add: bind_io_def)
      next
        case (Inr a)
        then have "launch_loop C S k w2 = (res, w')" using run s \<open>rs = Inr t\<close> l by (simp add: bind_io_def)
        then show ?thesis using Suc.IH s2 room by fastforce
      qed
    qed
  qed
qed (simp add: ret_io_apply)

end
