(* ===== verification/Lineage.thy ===== *)
theory Lineage
  imports Triage
begin

text \<open>
  The ancestors of an attempt. The store lets a parent be any attempt that exists, or the new
  attempt itself; with the last case excluded the walk up the parents ends.
\<close>

section \<open>Parents come first\<close>

fun parents_known :: "string list \<Rightarrow> attempt_row list \<Rightarrow> bool" where
  "parents_known seen [] = True"
| "parents_known seen (a # as) =
    ((\<forall>p. a_parent_attempt_id a = Some p \<longrightarrow> p = a_id a \<or> p \<in> set seen) \<and> parents_known (a_id a # seen) as)"

lemma parents_known_snoc:
  "parents_known seen (as @ [a]) \<longleftrightarrow> parents_known seen as \<and>
    (\<forall>p. a_parent_attempt_id a = Some p \<longrightarrow> p = a_id a \<or> p \<in> set seen \<union> a_id ` set as)"
  by (induction as arbitrary: seen) auto

lemma parents_known_set:
  "a_id a' = a_id a \<Longrightarrow> a_parent_attempt_id a' = a_parent_attempt_id a \<Longrightarrow>
    (\<And>b. b \<in> set as \<Longrightarrow> a_id b = aid \<Longrightarrow> b = a) \<Longrightarrow>
    parents_known seen (set_attempt aid (\<lambda>_. a') as) = parents_known seen as"
proof (induction as arbitrary: seen)
  case (Cons b as)
  have hd: "b = a" if "a_id b = aid" using that Cons.prems(3) by simp
  have tl: "parents_known s (set_attempt aid (\<lambda>_. a') as) = parents_known s as" for s
    by (rule Cons.IH[OF Cons.prems(1,2)]) (use Cons.prems(3) in auto)
  show ?case
  proof (cases "a_id b = aid")
    case True
    then show ?thesis using hd[OF True] tl Cons.prems(1,2) by (simp add: set_attempt_def)
  next
    case False
    then show ?thesis using tl by (simp add: set_attempt_def)
  qed
qed (simp add: set_attempt_def)

lemma parents_known_nth:
  "parents_known seen as \<Longrightarrow> i < length as \<Longrightarrow> a_parent_attempt_id (as ! i) = Some p \<Longrightarrow>
    p = a_id (as ! i) \<or> p \<in> set seen \<union> a_id ` set (take i as)"
proof (induction as arbitrary: seen i)
  case (Cons a as)
  show ?case
  proof (cases i)
    case 0
    then show ?thesis using Cons.prems by auto
  next
    case (Suc j)
    then show ?thesis using Cons.IH[of "a_id a # seen" j] Cons.prems by auto
  qed
qed simp

lemma known_step:
  assumes wf: "db_wf d" and k: "parents_known [] (d_attempts d)" and s: "db_step d d'"
  shows "parents_known [] (d_attempts d')"
  using s
proof cases
  case (st_create_attempt fresh ts b aid)
  note c = create_attempt_Inr[OF st_create_attempt]
  have "a_parent_attempt_id (new_attempt_row aid ts b) = Some p \<Longrightarrow>
      p = aid \<or> p \<in> a_id ` set (d_attempts d)" for p
    using st_create_attempt find_attempt_Some
    by (auto simp: create_attempt_def insert_attempt_def Let_def bindE_Inr_iff new_attempt_row_def
        split: if_splits)
  then show ?thesis using k by (simp add: c(5) parents_known_snoc new_attempt_row_def)
next
  case (st_update_attempt ty ts aid src kw s)
  from st_update_attempt(2) show ?thesis
  proof (rule update_attempt_Inr)
    fix a a' p
    assume a: "find_attempt aid d = Some a" "a_id a' = a_id a" "a_parent_attempt_id a' = a_parent_attempt_id a"
      and d': "d' = d\<lparr>d_attempts := set_attempt aid (\<lambda>_. a') (d_attempts d),
        d_events := d_events d @ [new_event d ts src ty (Some (a_task_id a)) p no_usage]\<rparr>"
    have "b = a" if "b \<in> set (d_attempts d)" "a_id b = aid" for b
      using that wf find_attempt_Some[OF a(1)] by (auto simp: db_wf_def distinct_map dest: inj_onD)
    then show ?thesis using k parents_known_set[OF a(2,3)] by (simp add: d')
  qed
next
  case (st_acquire fresh aid owner ttl ts given src l)
  then show ?thesis using acquire_effect[of d] wf k by (auto simp: db_wf_def lease_effect_def other_tables_kept_def)
next
  case (st_renew ref lid gen own ttl ts src l)
  then show ?thesis using renew_effect[of d] wf k by (auto simp: db_wf_def lease_effect_def other_tables_kept_def)
next
  case (st_release ref lid gen own reason ts src l)
  then show ?thesis using release_effect[of d] wf k by (auto simp: db_wf_def lease_effect_def other_tables_kept_def)
next
  case (st_recover ref lid gen reason ts src l)
  then show ?thesis using recover_effect[of d] wf k by (auto simp: db_wf_def lease_effect_def other_tables_kept_def)
next
  case (st_create_task fresh ts a tid)
  then show ?thesis using create_task_Inr(6) k by fastforce
qed (use k in \<open>auto simp: append_event_def insert_event_eq elim!: transition_Inr create_intervention_Inr
    update_intervention_Inr split: if_splits\<close>)

lemma known_reachable: "db_trace empty_db d \<Longrightarrow> parents_known [] (d_attempts d)"
proof (induction rule: rtranclp_induct)
  case base
  then show ?case by (simp add: empty_db_def)
next
  case (step d d')
  then show ?case using known_step wf_reachable by blast
qed

section \<open>The walk ends\<close>

lemma lineage_index:
  assumes dist: "distinct (map a_id (d_attempts d))" and known: "parents_known [] (d_attempts d)"
    and own: "\<And>a. a \<in> set (d_attempts d) \<Longrightarrow> a_parent_attempt_id a \<noteq> Some (a_id a)"
  shows "i < length (d_attempts d) \<Longrightarrow> i < k \<Longrightarrow> lineage d k (Some (a_id (d_attempts d ! i))) \<noteq> None"
proof (induction i arbitrary: k rule: less_induct)
  case (less i)
  let ?as = "d_attempts d"
  obtain k' where k: "k = Suc k'" using less.prems(2) by (cases k) auto
  have found: "find_attempt (a_id (?as ! i)) d = Some (?as ! i)"
    using find_distinct[OF dist nth_mem[OF less.prems(1)]] by (simp add: find_attempt_def)
  have "lineage d k' (a_parent_attempt_id (?as ! i)) \<noteq> None"
  proof (cases "a_parent_attempt_id (?as ! i)")
    case None
    then show ?thesis by (cases k') simp_all
  next
    case (Some p)
    then have "p \<in> a_id ` set (take i ?as)"
      using parents_known_nth[OF known less.prems(1) Some] own[OF nth_mem[OF less.prems(1)]] by auto
    then obtain j where j: "j < i" "p = a_id (?as ! j)"
      using less.prems(1) by (auto simp: in_set_conv_nth)
    have "lineage d k' (Some (a_id (?as ! j))) \<noteq> None"
      by (rule less.IH[OF j(1)]) (use j(1) less.prems k in auto)
    then show ?thesis by (simp add: Some j(2))
  qed
  then show ?case using found by (simp add: k)
qed

lemma lineage_ends:
  assumes "db_trace empty_db d" "\<And>a. a \<in> set (d_attempts d) \<Longrightarrow> a_parent_attempt_id a \<noteq> Some (a_id a)"
    and "a \<in> set (d_attempts d)"
  shows "lineage d (length (d_attempts d)) (a_parent_attempt_id a) \<noteq> None"
proof -
  have wf: "distinct (map a_id (d_attempts d))" using wf_reachable[OF assms(1)] by (simp add: db_wf_def)
  note known = known_reachable[OF assms(1)]
  obtain i where i: "i < length (d_attempts d)" "d_attempts d ! i = a"
    using assms(3) by (auto simp: in_set_conv_nth)
  show ?thesis
  proof (cases "a_parent_attempt_id a")
    case None
    then show ?thesis by (cases "length (d_attempts d)") simp_all
  next
    case (Some p)
    then have "p \<in> a_id ` set (take i (d_attempts d))"
      using parents_known_nth[OF known i(1)] assms(2)[OF assms(3)] i(2) by auto
    then obtain j where j: "j < i" "p = a_id (d_attempts d ! j)"
      using i(1) by (auto simp: in_set_conv_nth)
    have "lineage d (length (d_attempts d)) (Some (a_id (d_attempts d ! j))) \<noteq> None"
      by (rule lineage_index[OF wf known assms(2)]) (use j(1) i(1) in auto)
    then show ?thesis by (simp add: Some j(2))
  qed
qed

end
