(* ===== verification/Sample.thy ===== *)
theory Sample
  imports Run
begin

text \<open>
  A small run of the scheduler that the theorems about it are evaluated on: one task, whose first
  worker dies without a claim and is replaced within the retry budget. The services answer with
  constants.
\<close>

definition sample_config :: config where
  "sample_config = \<lparr>c_run_id = ''run'', c_base_branch = ''main'', c_worktree_root = ''wt'',
    c_max_concurrency = 2, c_stall = 600000000, c_worker_timeout = None, c_verify_timeout = 60,
    c_max_nudges = 1, c_wait_ceiling = 1800000000, c_tail_tokens = 10, c_yolo = False,
    c_artifact_root = None, c_repeated_threshold = 2, c_deterministic_crash = True,
    c_adaptive = False, c_protocol_v2 = False, c_deterministic = False, c_evidence_ladder = False,
    c_plan = []\<rparr>"

definition sample_fs :: filesystem where
  "sample_fs = \<lparr>fs_root = (\<lambda>_. [''r'']), fs_resolve = (\<lambda>root p. root @ [p]), fs_exists = (\<lambda>_. False),
    fs_sha256 = (\<lambda>_. Inl (OSError ''no file''))\<rparr>"

definition sample_services :: services where
  "sample_services = \<lparr>s_mono = int, s_resolve_ref = (\<lambda>_ _. Inr ''base''),
    s_pool_acquire = (\<lambda>_ _ _ _ _. Inr (''slot'', ''base'')), s_pool_release = (\<lambda>_ _. Inr ()),
    s_head = (\<lambda>_ _. Inr ''head''), s_git_status = (\<lambda>_ _. Inr (0, [])),
    s_rev_parse = (\<lambda>_ _ _. Inr (0, ''head'')),
    s_spawn = (\<lambda>i _ _ _. Inr (int i, None)), s_reap = (\<lambda>_ _ _. Inr ()), s_returncode = (\<lambda>_ _. Some 1),
    s_wait = (\<lambda>_ _. 1), s_exit_watcher = (\<lambda>_ _. None), s_transport_close = (\<lambda>_ _. Inr ()),
    s_git_diff = (\<lambda>_ _ _ _. 1), s_supervisor = (\<lambda>_ _. Inl (OSError ''down'')),
    s_action_model = (\<lambda>_ _. Inl (ValueError ''no model'')),
    s_verify = (\<lambda>_ _. Inl (OSError ''no verifier'')), s_deliver = (\<lambda>_ _ _. Inl (OSError ''no delivery'')),
    s_env = \<lparr>env_fs = (\<lambda>_. sample_fs), env_run = (\<lambda>_ _ _. Inr (Proc_done 0 []))\<rparr>,
    s_pid_alive = (\<lambda>_ _. False), s_pool_open = (\<lambda>_. Inr ()), s_pool_close = (\<lambda>_. Inr ())\<rparr>"

definition sample_def :: task_def where
  "sample_def = \<lparr>td_title = ''t'', td_brief = ''b'', td_repo = ''r'', td_delivery_mode = ''local'',
    td_verify_cmd = None, td_max_retries = 2, td_depends_on = [], td_task_id = Some ''A'',
    td_output_artifacts = JNull, td_output_schema = JNull, td_input_contract = JNull,
    td_dependency_input_contract = JNull, td_node_verify_cmd = None, td_repair_policy = JNull\<rparr>"

definition sample_ids :: "nat \<Rightarrow> string" where
  "sample_ids i = CHR ''u'' # replicate i (CHR ''x'')"

definition sample_world :: "db \<Rightarrow> sched" where
  "sample_world d = \<lparr>w_db = d, w_clock = int, w_ids = sample_ids, w_calls = 0,
    m_procs = [], m_slots = [], m_reaped = [], m_worktrees = [], m_last_event = [], m_started = [],
    m_wait_grace = [], m_infra = None, m_leases = [], m_heartbeat = [], m_failures = [], m_nudges = []\<rparr>"

text \<open>The worlds of the run: the task created, the first worker started, the worker gone.\<close>

definition sample0 :: sched where
  "sample0 = snd (create_task_io sample_def (sample_world empty_db))"

definition sample1 :: sched where
  "sample1 = snd (loop_turn sample_config sample_services False sample0)"

definition sample_proc :: "sched \<Rightarrow> proc" where
  "sample_proc w = (case map_of (m_procs w) ''A'' of None \<Rightarrow> \<lparr>pr_obj = 0, pr_pid = 0\<rparr> | Some p \<Rightarrow> p)"

definition sample_lease :: "sched \<Rightarrow> lease_row" where
  "sample_lease w = hd (d_leases (w_db w))"

definition sample2 :: sched where
  "sample2 = snd (watch sample_config sample_services ''A'' (sample_proc sample1)
    (l_attempt_id (sample_lease sample1)) (sample_lease sample1) [] sample1)"

lemma sample_steps:
  "sched_step sample_config sample_services sample0 sample1"
  "sched_step sample_config sample_services sample1 sample2"
  unfolding sample1_def sample2_def by (auto intro: ss_turn ss_watch prod.collapse[symmetric])

lemma sample_run: "sched_run sample_config sample_services sample0 sample2"
  using sample_steps by (meson converse_rtranclp_into_rtranclp rtranclp.rtrancl_refl)

section \<open>Evaluating a handler\<close>

text \<open>The definitions that a supervised triage runs through.\<close>

lemmas triage_defs = io_defs Let_def
  bindE_def dict_merge_def py_index_def py_from_def find_last_def nat_text_def int_text_def
  esc_char_def quote_text_def jopt_def jint_opt_def jget_def json_or_def py_str_def all_states_def
  state_of_name_def empty_db_def find_task_def find_intervention_def set_task_def
  set_intervention_def terminal_def transitions_def legal_def updatable_def no_usage_def
  next_seq_def insert_event_def append_event_def dumps_col_def effective_input_contract_def
  created_payload_def new_task_row_def insert_task_def chosen_id_def create_task_def
  transition_payload_def transition_def latest_attempt_def intervention_columns_def
  set_intervention_col_def new_intervention_row_def create_intervention_def update_intervention_def
  event_io_def usage_event_io_def transition_io_def create_task_io_def create_intervention_io_def
  update_intervention_io_def canonical_action_types_def canonical_action_type_def
  compute_allowed_actions_def flush_run_def text_or_empty_def event_summary_def compact_history_def
  transcript_tail_def find_event_def task_events_def nudges_used_def build_packet_def
  settled_states_def drop_key_def with_session_def attempt_id_json_def given_def timing_event_def
  settle_exit_watcher_def stop_process_def release_lease_def release_checkout_def forget_task_def forget_slot_def
  teardown_owned_def teardown_def apply_crash_recovery_def apply_protocol_recovery_def
  apply_public_recovery_def failure_evaluation_def finish_interventions_def apply_policy_def
  worker_instruction_def diagnosis_code_def result_usage_def cost_json_def answers_cause_def
  persisted_action_def transport_failure_def ask_supervisor_def decide_def enforce_menu_def
  acted_payload_def record_event_def record_attempt_def record_intervention_def close_task_def
  carry_out_def dispatch_def unfinished_intervention_def supervise_def handle_triage_inner_def
  handled_event_def stale_signal_def triage_started_def enter_triage_def handle_triage_def
  sample_config_def sample_fs_def sample_services_def sample_def_def sample_ids_def sample_world_def
  sample0_def

text \<open>The task of the sample when its worker has been reported as stalled, without an attempt row.\<close>

definition stalled_db :: db where
  "stalled_db = (w_db sample0)\<lparr>
    d_tasks := map (\<lambda>t. t\<lparr>t_state := Running\<rparr>) (d_tasks (w_db sample0)),
    d_events := d_events (w_db sample0) @ [\<lparr>e_seq = 2, e_ts = 9, e_task_id = Some ''A'', e_source = Src_watchdog,
      e_type = ''worker.stalled'', e_payload = [], e_session_id = None, e_tokens_in = None,
      e_tokens_out = None, e_cost_usd = None\<rparr>]\<rparr>"

definition stalled_world :: sched where
  "stalled_world = sample_world stalled_db"

text \<open>The supervisor is down, so the triage escalates and returns.\<close>

lemma stalled_triage:
  "fst (handle_triage sample_config sample_services ''A'' 2 None None stalled_world) = Inr False"
  by (simp add: stalled_world_def stalled_db_def triage_defs cong: run_first run_list)

end
