(* ===== verification/Scheduler_Properties.thy ===== *)
theory Scheduler_Properties
  imports Ledger_Properties Launching Lineage Sample
begin

text \<open>
  The promises of the scheduler, each with a concrete run on which it is applied.
\<close>

section \<open>The ledger under the scheduler\<close>

lemma sample_created: "db_trace empty_db (w_db sample0)"
  unfolding sample0_def create_task_io_def
  by (auto simp: bind_io_def fresh_io_def now_io_def call_io_def commit_io_def sample_world_def
      split: sum.split intro: r_into_rtranclp st_create_task)

text \<open>
  C18. The scheduler refines the ledger: whatever the workers, the supervisor, git and the clock do,
  every run of it is a trace of the store's writes. So in every world it reaches, the log replays to
  the tasks, a task that has ended is never written again, and no closed lease becomes valid.
\<close>

theorem scheduler_refines_ledger:
  assumes "sched_run C S w w'" "db_trace empty_db (w_db w)"
  shows "db_trace (w_db w) (w_db w') \<and>
    replay (d_events (w_db w')) = Inr (keyed t_id (d_tasks (w_db w'))) \<and>
    (\<forall>tid t. find_task tid (w_db w) = Some t \<longrightarrow> t_state t \<in> terminal \<longrightarrow> find_task tid (w_db w') = Some t) \<and>
    closed_kept (w_db w) (w_db w')"
proof -
  have run: "db_trace (w_db w) (w_db w')" by (rule sched_trace[OF assms(1)])
  have all: "db_trace empty_db (w_db w')" using assms(2) run by simp
  note wf = wf_reachable[OF assms(2)]
  show ?thesis
    using run terminal_trace[OF run wf] closed_kept_trace[OF run wf] replay_tables[OF all]
    by auto
qed

theorem scheduler_refines_ledger_witness:
  "db_trace (w_db sample0) (w_db sample2) \<and>
    replay (d_events (w_db sample2)) = Inr (keyed t_id (d_tasks (w_db sample2)))"
  using scheduler_refines_ledger[OF sample_run sample_created] by simp

text \<open>
  C19. The retry budget holds in every run of the scheduler: a task keeps its limit, its counter
  never goes down, and a counter that grew has not passed the limit; this covers the recoveries
  without a supervisor, the supervisor's restarts, and decisions that are carried out again after a
  crash of the scheduler.
\<close>

theorem retry_budget_kept:
  assumes "sched_run C S w w'" "find_task tid (w_db w) = Some t"
  shows "\<exists>t'. find_task tid (w_db w') = Some t' \<and> t_max_retries t' = t_max_retries t \<and>
    (t_retries t' = t_retries t \<or> t_retries t < t_retries t' \<and> t_retries t' \<le> t_max_retries t)"
proof -
  have "counters budgeted (w_db w) (w_db w')"
    using budget_sched.run_kept[OF assms(1)] by (simp add: lifts_def)
  then obtain t' where "find_task tid (w_db w') = Some t'" "budgeted tid (counter t) (counter t')"
    using assms(2) unfolding counters_def by (metis option.distinct(1) option.exhaust)
  then show ?thesis by (auto simp: budgeted_def counter_def)
qed

lemma sample0_task:
  "map_option (\<lambda>t. (t_retries t, t_max_retries t)) (find_task ''A'' (w_db sample0)) = Some (0, 2)"
  by code_simp

theorem retry_budget_kept_witness:
  "\<exists>t'. find_task ''A'' (w_db sample2) = Some t' \<and> t_max_retries t' = 2 \<and> t_retries t' \<le> 2"
proof -
  obtain t where "find_task ''A'' (w_db sample0) = Some t" "t_retries t = 0" "t_max_retries t = 2"
    using sample0_task by auto
  then show ?thesis using retry_budget_kept[OF sample_run] by fastforce
qed

section \<open>Clean-up\<close>

text \<open>
  C21. A teardown that owns its process always forgets the task, whatever raises on the way: the
  dictionaries of processes, slots, checkouts, leases and clocks have no entry for it afterwards, it
  does not count as reaped when it had a process, and every other task keeps its entries. It returns
  exactly when no step failed: no service and no write of the store raised (a stale lease aside) and
  no slot was without a checkout. Otherwise it raises the failures of exactly those steps, in their
  order, and the scheduler loop gets the same exception.
\<close>

theorem teardown_forgets:
  assumes "teardown C S tid expect w = (r, w')" "expect = None \<or> map_of (m_procs w) tid = expect"
  shows "unknown tid w' \<and> (map_of (m_procs w) tid \<noteq> None \<longrightarrow> tid \<notin> set (m_reaped w')) \<and>
    (\<forall>x. x \<noteq> tid \<longrightarrow> same_entries x w w' \<and> (x \<in> set (m_reaped w') \<longleftrightarrow> x \<in> set (m_reaped w))) \<and>
    (r = Inr () \<longleftrightarrow> cleanup_failures S tid w = []) \<and>
    (case r of Inr _ \<Rightarrow> m_failures w' = m_failures w
     | Inl e \<Rightarrow> e = cleanup_exc tid (cleanup_failures S tid w) \<and> is_cleanup e \<and>
        m_failures w' = m_failures w @ [(tid, e)])"
proof -
  let ?fs = "cleanup_failures S tid w"
  have r: "r = (if ?fs = [] then Inr () else Inl (cleanup_exc tid ?fs))"
    and b: "books w' = books (forget_slot tid (forget_task tid w))"
    and f: "m_failures w' = m_failures w @ (if ?fs = [] then [] else [(tid, cleanup_exc tid ?fs)])"
    and m: "m_reaped w' = (if map_of (m_procs w) tid = None then m_reaped w else removeAll tid (m_reaped w))"
    using teardown_run[OF assms(2,1)] by blast+
  have "is_cleanup (cleanup_exc tid ?fs)"
    by (auto simp: cleanup_exc_def Let_def split: list.split)
  then show ?thesis
    using r f m unknown_books[OF b] same_entries_books[OF b] forgotten others_kept by auto
qed

definition sample_slot :: sched where
  "sample_slot = (sample_world empty_db)\<lparr>m_slots := [(''A'', ''slot''), (''B'', ''slot2'')],
    m_procs := [(''B'', \<lparr>pr_obj = 1, pr_pid = 1\<rparr>)]\<rparr>"

lemma sample_slot_failures:
  "cleanup_failures sample_services ''A'' sample_slot =
    [(''slot release'', RuntimeError ''worker slot A has no worktree to release'')]"
  "cleanup_exc ''A'' (cleanup_failures sample_services ''A'' sample_slot) =
    CleanupFailure ''teardown A / slot release'' (RuntimeError ''worker slot A has no worktree to release'')"
  by code_simp+

theorem teardown_forgets_witness:
  "unknown ''A'' (snd (teardown sample_config sample_services ''A'' None sample_slot)) \<and>
    same_entries ''B'' sample_slot (snd (teardown sample_config sample_services ''A'' None sample_slot)) \<and>
    fst (teardown sample_config sample_services ''A'' None sample_slot) =
      Inl (CleanupFailure ''teardown A / slot release'' (RuntimeError ''worker slot A has no worktree to release''))"
proof -
  let ?t = "teardown sample_config sample_services ''A'' None sample_slot"
  have "fst ?t \<noteq> Inr () \<and> unknown ''A'' (snd ?t) \<and> same_entries ''B'' sample_slot (snd ?t) \<and>
      (\<forall>e. fst ?t = Inl e \<longrightarrow> e = cleanup_exc ''A'' (cleanup_failures sample_services ''A'' sample_slot))"
    using teardown_forgets[of sample_config sample_services "''A''" None sample_slot "fst ?t" "snd ?t"]
    by (auto simp: sample_slot_failures(1))
  then show ?thesis by (cases "fst ?t") (simp_all add: sample_slot_failures(2))
qed

section \<open>Launching\<close>

text \<open>
  C22. The slots in use never pass the concurrency limit through a round of launches, whether the
  round ends normally or with an exception, and with the adaptive policy too; and the round ends: it never
  runs out of the fuel of one turn more than there are queued tasks.
\<close>

theorem launch_ready_bounded:
  assumes "launch_ready C S w = (r, w')" "int (length (m_slots w)) \<le> c_max_concurrency C"
  shows "int (length (m_slots w')) \<le> c_max_concurrency C \<and> r \<noteq> Inr False"
proof -
  have run: "launch_loop C S (Suc (length (queued_rows (w_db w)))) w = (r, w')"
    using assms(1) by (simp only: launch_ready_def read_db_bind)
  have "r \<noteq> Inr False"
  proof
    assume "r = Inr False"
    then have "launch_loop C S (Suc (length (queued_rows (w_db w)))) w = (Inr False, w')" using run by simp
    from launch_loop_enough[OF this] show False by (simp add: queued_count_rows)
  qed
  then show ?thesis using launch_loop_slots[OF run] assms(2) by simp
qed

theorem launch_ready_bounded_witness:
  "int (length (m_slots (snd (launch_ready sample_config sample_services sample_slot)))) \<le> 2"
  using launch_ready_bounded[of sample_config sample_services sample_slot
      "fst (launch_ready sample_config sample_services sample_slot)"
      "snd (launch_ready sample_config sample_services sample_slot)"]
  by (simp add: sample_config_def sample_slot_def)

section \<open>Ancestors\<close>

text \<open>
  The walk up the ancestors of an attempt ends in every database the store can build, unless
  some attempt was created as its own parent, which the foreign key of the schema lets through.
\<close>

theorem lineage_terminates:
  assumes "db_trace empty_db d" "\<forall>a \<in> set (d_attempts d). a_parent_attempt_id a \<noteq> Some (a_id a)"
    and "a \<in> set (d_attempts d)"
  shows "\<exists>anc. lineage d (length (d_attempts d)) (a_parent_attempt_id a) = Some anc"
  using lineage_ends[OF assms(1) _ assms(3)] assms(2) by blast

theorem lineage_terminates_witness:
  "\<exists>anc. lineage demo5 1 (a_parent_attempt_id (hd (d_attempts demo5))) = Some anc"
proof -
  have one: "length (d_attempts demo5) = 1" by code_simp
  have own: "map a_parent_attempt_id (d_attempts demo5) = [None]" by code_simp
  obtain a where a: "d_attempts demo5 = [a]" using one by (auto simp: length_Suc_conv)
  show ?thesis
    using lineage_terminates[OF demo5_trace, of a] own by (simp add: a)
qed

section \<open>Fencing\<close>

text \<open>
  The fence of a reader started with an attempt and a lease: the scheduler holds this lease for the
  task, it belongs to the latest attempt, and at the instant the clock shows the store has it as
  active, unexpired and owned by the same execution.
\<close>

definition fence_holds :: "string \<Rightarrow> string \<Rightarrow> lease_row \<Rightarrow> sched \<Rightarrow> bool" where
  "fence_holds tid aid lease w \<longleftrightarrow>
    (case (map_of (m_leases w) tid, latest_attempt tid (w_db w)) of
       (Some l, Some a) \<Rightarrow> l_lease_id l = l_lease_id lease \<and> l_generation l = l_generation lease \<and>
         l_attempt_id lease = aid \<and> a_id a = l_attempt_id l \<and>
         (\<exists>row \<in> set (d_leases (w_db w)). l_lease_id row = l_lease_id l \<and> l_attempt_id row = l_attempt_id l \<and>
           l_generation row = l_generation l \<and> l_owner_id row = l_owner_id l \<and> l_status row = LActive \<and>
           \<not> expired (w_clock w (w_calls w)) row)
     | _ \<Rightarrow> False)"

text \<open>A refusal leaves at most the event that reports it, and nothing else but time has passed.\<close>

definition refused :: "string \<Rightarrow> sched \<Rightarrow> sched \<Rightarrow> bool" where
  "refused tid w w' \<longleftrightarrow> (\<exists>n es.
    w' = w\<lparr>w_calls := n, w_db := (w_db w)\<lparr>d_events := d_events (w_db w) @ es\<rparr>\<rparr> \<and>
    (es = [] \<or> (\<exists>e. es = [e] \<and> e_type e = ''worker.event_rejected'' \<and> e_task_id e = Some tid)))"

lemma refused_calls: "refused tid w (w\<lparr>w_calls := n\<rparr>)"
  unfolding refused_def by (intro exI[of _ n] exI[of _ "[]"]) simp

lemma reject_run:
  "\<exists>w'. reject_worker_event tid aid l etype reason ses w = (Inr (), w') \<and> refused tid w w'"
  by (simp add: reject_worker_event_def read_db_def gets_io_def usage_event_io_def bind_io_def now_io_def call_io_def
      commit_io_def append_event_def insert_event_eq ret_io_apply refused_def)
     (intro exI conjI, rule refl, simp)

lemma validate_active:
  assumes "validate (By_lease l) None None None ts d = Inr row"
  shows "row \<in> set (d_leases d) \<and> l_lease_id row = l_lease_id l \<and> l_attempt_id row = l_attempt_id l \<and>
    l_generation row = l_generation l \<and> l_owner_id row = l_owner_id l \<and> l_status row = LActive \<and> \<not> expired ts row"
  using assms
  by (auto simp: validate_def lease_identity_def identity3_def bindE_Inr_iff row_for_identity_Inr
      require_active_def dest: find_identity_Some split: if_splits)

lemma check_lease_refuses:
  assumes "validate (By_lease l) None None None (w_clock w (w_calls w)) (w_db w) = Inl e"
  shows "check_lease C S tid l w = (Inl e, w\<lparr>w_calls := Suc (w_calls w)\<rparr>)"
  using assms by (simp add: check_lease_def validate_io_def bind_io_def now_io_def call_io_def read_db_def
      gets_io_def lift_exc_def)

lemma refused_trans_calls: "refused tid (w\<lparr>w_calls := n\<rparr>) w' \<Longrightarrow> refused tid w w'"
  unfolding refused_def by auto

lemma validate_worker_lease_refuses:
  assumes run: "validate_worker_lease C S tid (Some aid) (Some lease) etype ses w = (r, w')"
    and no: "\<not> fence_holds tid aid lease w"
  shows "(r = Inr False \<or> (\<exists>e. r = Inl e)) \<and> refused tid w w'"
proof -
  have rej: "(r = Inr False \<or> (\<exists>e. r = Inl e)) \<and> refused tid v w'"
    if "bind_io (reject_worker_event tid i l etype reason ses) (\<lambda>_. ret_io False) v = (r, w')" for i l reason v
    using that reject_run[of tid i l etype reason ses v] by (auto simp: bind_io_def ret_io_apply)
  show ?thesis
  proof (cases "fence_mismatch aid (Some lease) (map_of (m_leases w) tid)")
    case True
    then show ?thesis using run by (intro rej) (simp add: validate_worker_lease_def gets_bind read_db_bind Let_def)
  next
    case False
    then obtain l where l: "map_of (m_leases w) tid = Some l" "l_lease_id l = l_lease_id lease"
        "l_generation l = l_generation lease" "l_attempt_id lease = aid"
      by (auto simp: fence_mismatch_def split: option.splits)
    show ?thesis
    proof (cases "latest_attempt tid (w_db w)")
      case None
      then show ?thesis using run l False
        by (intro rej) (simp add: validate_worker_lease_def gets_bind read_db_bind Let_def)
    next
      case (Some a)
      show ?thesis
      proof (cases "a_id a = l_attempt_id l")
        case same: False
        then show ?thesis using run l False Some
          by (intro rej) (simp add: validate_worker_lease_def gets_bind read_db_bind Let_def)
      next
        case same: True
        obtain e where e: "validate (By_lease l) None None None (w_clock w (w_calls w)) (w_db w) = Inl e"
        proof (cases "validate (By_lease l) None None None (w_clock w (w_calls w)) (w_db w)")
          case (Inr row)
          then show ?thesis using no l Some same validate_active[OF Inr] by (auto simp: fence_holds_def)
        qed
        have run': "catch_io (check_lease C S tid l) (\<lambda>e.
            if is_lease_error e then bind_io (reject_worker_event tid (text_or (Some aid) (Some (a_id a))) (Some l)
              etype (exc_text e) ses) (\<lambda>_. ret_io False) else raise_io e) w = (r, w')"
          using run l False Some same by (simp add: validate_worker_lease_def gets_bind read_db_bind Let_def)
        show ?thesis
        proof (cases "is_lease_error e")
          case True
          then have "bind_io (reject_worker_event tid (text_or (Some aid) (Some (a_id a))) (Some l)
              etype (exc_text e) ses) (\<lambda>_. ret_io False) (w\<lparr>w_calls := Suc (w_calls w)\<rparr>) = (r, w')"
            using run' by (simp add: catch_io_def check_lease_refuses[OF e])
          from rej[OF this] show ?thesis using refused_trans_calls by blast
        next
          case False
          then show ?thesis
            using run' refused_calls by (auto simp: catch_io_def check_lease_refuses[OF e] raise_io_apply)
        qed
      qed
    qed
  qed
qed

text \<open>
  C23. A line of a worker is acted on only under the lease its reader was started with. When the
  fence does not hold, at the instant the line is handled, the line changes nothing: text that is not
  JSON is skipped, and anything else ends the reader without a claim or raises; the database gets at
  most the event that reports the rejection, and no dictionary of the scheduler changes.
\<close>

theorem accepted_line_fenced:
  assumes "watch_line C S tid pr aid lease st line w = (r, w')"
  shows "fence_holds tid aid lease w \<or>
    refused tid w w' \<and>
    (case json_loads line of None \<Rightarrow> r = Inr (Read_on st) \<and> w' = w
     | Some _ \<Rightarrow> r = Inr (Stop_with False st) \<or> (\<exists>e. r = Inl e))"
proof (cases "fence_holds tid aid lease w")
  case no: False
  show ?thesis
  proof (cases "json_loads line")
    case None
    then show ?thesis using assms refused_calls[of tid w "w_calls w"]
      by (simp add: watch_line_def ret_io_apply)
  next
    case (Some parsed)
    show ?thesis
    proof (cases "as_payload parsed")
      case (Inl e)
      then show ?thesis using assms Some refused_calls[of tid w "w_calls w"]
        by (auto simp: watch_line_def bind_io_def lift_exc_def)
    next
      case (Inr p)
      obtain v w1 where v: "validate_worker_lease C S tid (Some aid) (Some lease) (jget ''type'' p)
          (Some (session_of pr)) w = (v, w1)" by fastforce
      note out = validate_worker_lease_refuses[OF v no]
      have "bind_io (lift_exc (as_payload parsed)) k w = k p w" for k :: "payload \<Rightarrow> watch_next act"
        using Inr by (simp add: bind_io_def lift_exc_def)
      then have "(case v of Inl e \<Rightarrow> (r = Inl e \<and> w' = w1)
          | Inr ok \<Rightarrow> \<not> ok \<longrightarrow> r = Inr (Stop_with False st) \<and> w' = w1)"
        using assms Some v by (auto simp: watch_line_def bind_io_def Let_def ret_io_apply split: sum.splits)
      then show ?thesis using out Some by auto
    qed
  qed
qed simp

definition fenced_world :: sched where
  "fenced_world = (sample_world demo4)\<lparr>m_leases := [(''A'', demo_lease)]\<rparr>"

theorem accepted_line_fenced_witness:
  "fence_holds ''A'' ''att'' demo_lease fenced_world"
proof -
  let ?line = "''{\"type\": \"message\", \"payload\": {}}''"
  let ?run = "watch_line sample_config sample_services ''A'' \<lparr>pr_obj = 1, pr_pid = 1\<rparr> ''att'' demo_lease
    fresh_watch ?line fenced_world"
  have loads: "json_loads ?line \<noteq> None" by code_simp
  have ok: "case fst ?run of Inr (Read_on st) \<Rightarrow> True | _ \<Rightarrow> False" by code_simp
  show ?thesis
    using accepted_line_fenced[of sample_config sample_services "''A''" "\<lparr>pr_obj = 1, pr_pid = 1\<rparr>" "''att''"
        demo_lease fresh_watch ?line fenced_world "fst ?run" "snd ?run"] loads ok
    by (auto split: option.splits)
qed

section \<open>Signals\<close>

text \<open>
  C20. A signal is handled once: when a triage returns, its signal is stale, so delivering the same
  signal again, from any reader and with any candidate, returns without touching the world.
\<close>

theorem triage_idempotent:
  assumes "handle_triage C S tid cause live candidate w = (Inr b, w')"
  shows "handle_triage C S tid cause live' candidate' w' = (Inr False, w')"
  using triage_answers[OF assms] by (simp add: handle_triage_def read_db_bind ret_io_apply)

theorem triage_idempotent_witness:
  "let w' = snd (handle_triage sample_config sample_services ''A'' 2 None None stalled_world)
   in handle_triage sample_config sample_services ''A'' 2 None (Some ''sha'') w' = (Inr False, w')"
proof -
  have "handle_triage sample_config sample_services ''A'' 2 None None stalled_world =
      (Inr False, snd (handle_triage sample_config sample_services ''A'' 2 None None stalled_world))"
    using stalled_triage by (metis prod.collapse)
  from triage_idempotent[OF this] show ?thesis by (simp add: Let_def)
qed

end
