(* ===== verification/Preflight.thy ===== *)
theory Preflight
  imports Graph Interfaces
begin

text \<open>
  The checks of a task specification in \<open>workflow_preflight.py\<close>: paths, artifacts, contracts and
  scopes of one node. A \<open>WorkflowPreflightError\<close> is the exception \<open>PreflightError\<close> with its node,
  its reason and its text.
\<close>

section \<open>Errors\<close>

definition pf_error :: "string option \<Rightarrow> string \<Rightarrow> string \<Rightarrow> exc" where
  "pf_error node reason msg = PreflightError node reason
    ((case node of
        None \<Rightarrow> ''workflow preflight failed: ''
      | Some n \<Rightarrow> if n = [] then ''workflow preflight failed: ''
          else ''workflow preflight failed at node '' @ repr_str n @ '': '') @ msg)"

definition pf_fail :: "string \<Rightarrow> string \<Rightarrow> string \<Rightarrow> exc + 'a" where
  "pf_fail node reason msg = Inl (pf_error (Some node) reason msg)"

section \<open>Values and paths\<close>

definition pf_json :: "string \<Rightarrow> string \<Rightarrow> json \<Rightarrow> exc + json" where
  "pf_json node field v =
    (if v \<in> {JNull, JStr [], JObj []} then Inr JNull
     else case v of
       JStr s \<Rightarrow> (case json_loads s of
           None \<Rightarrow> pf_fail node (''malformed_'' @ field) (field @ '' must contain valid JSON'')
         | Some j \<Rightarrow> Inr j)
     | _ \<Rightarrow> Inr v)"

text \<open>\<open>s.split(c)\<close> on one character.\<close>

fun split_on :: "char \<Rightarrow> string \<Rightarrow> string list" where
  "split_on c [] = [[]]"
| "split_on c (x # xs) =
    (if x = c then [] # split_on c xs
     else case split_on c xs of [] \<Rightarrow> [[x]] | p # ps \<Rightarrow> (x # p) # ps)"

definition slash :: char where
  "slash = CHR ''/''"

definition strip_slashes :: "string \<Rightarrow> string" where
  "strip_slashes s = rev (dropWhile (\<lambda>c. c = slash) (rev s))"

text \<open>\<open>PurePosixPath(s).parts\<close> of a relative path: empty components and dots are dropped.\<close>

definition path_parts :: "string \<Rightarrow> string list" where
  "path_parts s = filter (\<lambda>p. p \<noteq> [] \<and> p \<noteq> ''.'') (split_on slash s)"

text \<open>\<open>posixpath.normpath\<close> of a relative path without a parent component.\<close>

definition normpath :: "string \<Rightarrow> string" where
  "normpath s = (if path_parts s = [] then ''.'' else join ''/'' (path_parts s))"

definition glob_chars :: "char set" where
  "glob_chars = {CHR ''*'', CHR ''?'', CHR ''[''}"

definition pf_path :: "string \<Rightarrow> string \<Rightarrow> bool \<Rightarrow> json \<Rightarrow> exc + string" where
  "pf_path node field allow_glob v = (case v of
      JStr s \<Rightarrow>
        if blank s then pf_fail node (''malformed_'' @ field) (field @ '' must contain non-empty relative paths'')
        else
          (let value = map (\<lambda>c. if c = CHR 0x5C then slash else c) (strip s) in
           if CHR 0x00 \<in> set value \<or> hd value = slash then
             pf_fail node (''unsafe_'' @ field) (field @ '' path '' @ repr_str value @ '' must be relative to the repository'')
           else
             (let stripped = strip_slashes value;
                  candidate = (if stripped = [] then ''.'' else stripped) in
              if ''..'' \<in> set (path_parts candidate) \<or> candidate = ''.'' then
                pf_fail node (''unsafe_'' @ field) (field @ '' path '' @ repr_str value @ '' must stay inside the repository'')
              else if \<not> allow_glob \<and> (\<exists>c \<in> set candidate. c \<in> glob_chars) then
                pf_fail node (''ambiguous_'' @ field) (field @ '' artifact path '' @ repr_str value @ '' cannot be a glob'')
              else Inr (normpath candidate @ (if last value = slash then ''/'' else []))))
    | _ \<Rightarrow> pf_fail node (''malformed_'' @ field) (field @ '' must contain non-empty relative paths''))"

section \<open>Outputs\<close>

text \<open>The artifacts as a list of items; a mapping names its paths by its keys.\<close>

definition pf_items :: "string \<Rightarrow> json \<Rightarrow> exc + json list" where
  "pf_items node v =
    (let v1 = (case v of JObj p \<Rightarrow> (case map_of p ''artifacts'' of None \<Rightarrow> v | Some a \<Rightarrow> a) | _ \<Rightarrow> v)
     in case v1 of
       JStr s \<Rightarrow> Inr [JStr s]
     | JObj p \<Rightarrow> Inr (map (\<lambda>(k, item). JObj (dict_merge [(''path'', JStr k)]
         (case item of JObj q \<Rightarrow> q | _ \<Rightarrow> []))) p)
     | JList xs \<Rightarrow> Inr xs
     | _ \<Rightarrow> pf_fail node ''malformed_output_artifacts'' ''output_artifacts must be a list or path mapping'')"

definition pf_item :: "string \<Rightarrow> json \<Rightarrow> exc + payload" where
  "pf_item node item = (case item of
      JStr s \<Rightarrow> Inr [(''path'', JStr s), (''required'', JBool True)]
    | JObj p \<Rightarrow> Inr (dict_merge [(''required'', JBool True)] p)
    | _ \<Rightarrow> pf_fail node ''malformed_output_artifacts'' ''each output artifact must declare a path'')"

definition spec_path :: "payload \<Rightarrow> string" where
  "spec_path s = (case jget ''path'' s of JStr p \<Rightarrow> p | _ \<Rightarrow> [])"

definition pf_add_spec :: "string \<Rightarrow> json \<Rightarrow> payload list \<Rightarrow> exc + payload list" where
  "pf_add_spec node item specs =
    bindE (pf_item node item) (\<lambda>p.
    bindE (pf_path node ''output_artifacts'' False (jget ''path'' p)) (\<lambda>path.
      if path \<in> set (map spec_path specs) then
        pf_fail node ''ambiguous_output_artifacts'' (''output artifact '' @ repr_str path @ '' is declared more than once'')
      else Inr (specs @ [AList.update ''path'' (JStr path) (sort_key fst p)])))"

definition pf_artifact_specs :: "string \<Rightarrow> json \<Rightarrow> exc + payload list" where
  "pf_artifact_specs node v =
    bindE (pf_json node ''output_artifacts'' v) (\<lambda>j.
      if j = JNull then Inr []
      else bindE (pf_items node j) (\<lambda>items. foldE (pf_add_spec node) items []))"

section \<open>Inputs\<close>

text \<open>\<open>item.get("path", item.get("artifact", item.get("name")))\<close>.\<close>

definition input_name :: "json \<Rightarrow> json" where
  "input_name item = (case item of
      JObj p \<Rightarrow> jget_default ''path'' (jget_default ''artifact'' (jget ''name'' p) p) p
    | _ \<Rightarrow> item)"

definition input_values :: "string \<Rightarrow> json \<Rightarrow> exc + json" where
  "input_values node v = (case v of
      JObj p \<Rightarrow>
        (case map_of p ''required_artifacts'' of Some x \<Rightarrow> Inr x | None \<Rightarrow>
        (case map_of p ''requires'' of Some x \<Rightarrow> Inr x | None \<Rightarrow>
        (case map_of p ''inputs'' of Some x \<Rightarrow> Inr x | None \<Rightarrow>
          pf_fail node ''ambiguous_input_contract'' ''input_contract must name required_artifacts or requires'')))
    | JList xs \<Rightarrow> Inr v
    | _ \<Rightarrow> pf_fail node ''malformed_input_contract'' ''input_contract must be a list or object'')"

definition pf_required_inputs :: "string \<Rightarrow> json \<Rightarrow> exc + string list" where
  "pf_required_inputs node v =
    bindE (pf_json node ''input_contract'' v) (\<lambda>j.
      if j = JNull then Inr []
      else bindE (input_values node j) (\<lambda>vals.
        let items = (case vals of JStr s \<Rightarrow> Some [JStr s] | JList xs \<Rightarrow> Some xs | _ \<Rightarrow> None) in
        case items of
          None \<Rightarrow> pf_fail node ''malformed_input_contract'' ''input contract requirements must be a list''
        | Some xs \<Rightarrow>
            bindE (mapE (\<lambda>x. pf_path node ''input_contract'' False (input_name x)) xs) (\<lambda>paths.
              if \<not> distinct paths then
                pf_fail node ''ambiguous_input_contract'' ''input contract names an artifact more than once''
              else Inr paths)))"

section \<open>Scopes\<close>

definition read_keys :: "string list" where
  "read_keys = [''read_scopes'', ''read_scope'', ''reads'', ''read_files'', ''files_read'']"

definition write_keys :: "string list" where
  "write_keys = [''write_scopes'', ''write_scope'', ''writes'', ''write_files'', ''files_write'']"

definition pf_scopes :: "payload \<Rightarrow> string list \<Rightarrow> string \<Rightarrow> string \<Rightarrow> exc + string list" where
  "pf_scopes raw keys node access =
    (let present = filter (\<lambda>k. jget k raw \<noteq> JNull) keys; fs = jget ''file_scopes'' raw in
     bindE
       (case fs of
          JNull \<Rightarrow> Inr []
        | JObj p \<Rightarrow>
            if jget access p = JNull then Inr []
            else if present \<noteq> [] then
              pf_fail node ''ambiguous_file_scopes''
                (access @ '' scope is declared in both file_scopes and '' @ hd present)
            else Inr [jget access p]
        | _ \<Rightarrow> pf_fail node ''malformed_file_scopes''
            ''file_scopes must be an object with read and write lists'') (\<lambda>scoped.
       if 1 < length present then
         pf_fail node ''ambiguous_file_scopes''
           (access @ '' scope is declared using multiple aliases: '' @ py_repr (JList (map JStr present)))
       else
         (case scoped @ map (\<lambda>k. jget k raw) present of
            [] \<Rightarrow> Inr []
          | v # _ \<Rightarrow>
              (let items = (case v of JStr s \<Rightarrow> Some [JStr s] | JList xs \<Rightarrow> Some xs | _ \<Rightarrow> None) in
               case items of
                 None \<Rightarrow> pf_fail node ''malformed_file_scopes'' (access @ '' scope must be a path or list of paths'')
               | Some xs \<Rightarrow> map_sum id sorted_texts (mapE (pf_path node (access @ ''_scope'') True) xs)))))"

section \<open>Schemas\<close>

definition texts_of :: "json list \<Rightarrow> string list option" where
  "texts_of xs = those (map (\<lambda>x. case x of JStr s \<Rightarrow> Some s | _ \<Rightarrow> None) xs)"

definition pf_schema :: "string \<Rightarrow> payload list \<Rightarrow> json \<Rightarrow> exc + json" where
  "pf_schema node outputs v =
    bindE (pf_json node ''output_schema'' v) (\<lambda>j. case j of
      JNull \<Rightarrow> Inr JNull
    | JObj p \<Rightarrow>
        (let req = jget ''required'' p;
             items = (case req of JStr s \<Rightarrow> Some [s] | JList xs \<Rightarrow> texts_of xs | _ \<Rightarrow> None) in
         if req = JNull then Inr j
         else case items of
           None \<Rightarrow> pf_fail node ''malformed_output_schema''
             ''output_schema.required must be a list of artifact paths''
         | Some names \<Rightarrow>
             (let missing = sorted_texts (filter (\<lambda>n. n \<notin> set (map spec_path outputs)) names) in
              if missing \<noteq> [] then pf_fail node ''missing_output_reference''
                (''output_schema.required references undeclared artifact(s): '' @ py_repr (JList (map JStr missing)))
              else Inr j))
    | _ \<Rightarrow> pf_fail node ''malformed_output_schema'' ''output_schema must be an object'')"

section \<open>Integers\<close>

text \<open>
  \<open>int(v)\<close>: text is a decimal with an optional sign and single underscores between digits, a float
  is truncated towards zero. Infinities are not modelled.
\<close>

fun digit_groups :: "bool \<Rightarrow> string \<Rightarrow> string option" where
  "digit_groups after [] = (if after then Some [] else None)"
| "digit_groups after (c # cs) =
    (if is_digit c then map_option (Cons c) (digit_groups True cs)
     else if c = CHR ''_'' \<and> after then digit_groups False cs
     else None)"

definition int_of_text :: "string \<Rightarrow> int option" where
  "int_of_text t =
    (let s = strip t; neg = (s \<noteq> [] \<and> hd s = CHR ''-'');
         body = (if s \<noteq> [] \<and> hd s \<in> {CHR ''-'', CHR ''+''} then tl s else s) in
     map_option (\<lambda>ds. (if neg then - 1 else 1) * int (nat_of_digits ds)) (digit_groups False body))"

definition trunc_float :: "string \<Rightarrow> int" where
  "trunc_float lit =
    (let neg = (lit \<noteq> [] \<and> hd lit = CHR ''-'');
         body = (if neg then tl lit else lit);
         whole = takeWhile is_digit body;
         (frac, more) = take_frac (dropWhile is_digit body);
         ex = fst (take_exp more);
         shift = (if ex = [] then 0 else (case int_of_text (tl ex) of None \<Rightarrow> 0 | Some i \<Rightarrow> i));
         ds = nat_of_digits (whole @ tl frac);
         scale = shift - int (length (tl frac));
         size = (if 0 \<le> scale then ds * 10 ^ nat scale else ds div 10 ^ nat (- scale))
     in (if neg then - 1 else 1) * int size)"

definition int_value :: "json \<Rightarrow> int option" where
  "int_value v = (case v of
      JInt i \<Rightarrow> Some i
    | JBool b \<Rightarrow> Some (if b then 1 else 0)
    | JFloat lit \<Rightarrow> Some (trunc_float lit)
    | JStr s \<Rightarrow> int_of_text s
    | _ \<Rightarrow> None)"

end
