(* ===== verification/Conflicts.thy ===== *)
theory Conflicts
  imports Preflight
begin

text \<open>
  Scopes that overlap and the groups of tasks they put in conflict (\<open>_scope_overlaps\<close>,
  \<open>_conflicts\<close> of \<open>workflow_preflight.py\<close>), with the pattern matching of Python's \<open>fnmatch\<close>.
\<close>

section \<open>Patterns\<close>

text \<open>
  One step of a pattern: any text, any character, one of a set, or a literal. A bracket without an
  end is a literal; the first character of a set may be its closing bracket.
\<close>

datatype pat = P_any | P_one | P_set bool "(char \<times> char) list" | P_lit char

text \<open>The ranges of a set; a range whose ends are in the wrong order matches nothing.\<close>

fun set_ranges :: "string \<Rightarrow> (char \<times> char) list" where
  "set_ranges [] = []"
| "set_ranges [a] = [(a, a)]"
| "set_ranges [a, b] = [(a, a), (b, b)]"
| "set_ranges (a # b # c # cs) =
    (if b = CHR ''-'' then (a, c) # set_ranges cs else (a, a) # set_ranges (b # c # cs))"

text \<open>The body of the set that starts after an opening bracket, and what follows it.\<close>

definition set_body :: "string \<Rightarrow> (string \<times> string) option" where
  "set_body s =
    (let skip = (if s \<noteq> [] \<and> hd s = CHR ''!'' then 1 else 0);
         skip' = (if skip < length s \<and> s ! skip = CHR '']'' then skip + 1 else skip);
         j = length (takeWhile (\<lambda>c. c \<noteq> CHR '']'') (drop skip' s)) + skip'
     in if j < length s then Some (take j s, drop (j + 1) s) else None)"

lemma set_body_shorter: "set_body s = Some (b, r) \<Longrightarrow> length r < length s"
  by (auto simp: set_body_def Let_def split: if_splits)

function pattern :: "string \<Rightarrow> pat list" where
  "pattern [] = []"
| "pattern (c # s) =
    (if c = CHR ''*'' then P_any # pattern s
     else if c = CHR ''?'' then P_one # pattern s
     else if c = CHR ''['' then
       (case set_body s of
          None \<Rightarrow> P_lit c # pattern s
        | Some (b, r) \<Rightarrow>
            (if b \<noteq> [] \<and> hd b = CHR ''!'' then P_set True (set_ranges (tl b)) else P_set False (set_ranges b))
            # pattern r)
     else P_lit c # pattern s)"
  by pat_completeness auto
termination by (relation "measure length") (auto dest: set_body_shorter)

definition in_ranges :: "char \<Rightarrow> (char \<times> char) list \<Rightarrow> bool" where
  "in_ranges c rs = list_ex (\<lambda>(a, b). a \<le> c \<and> c \<le> b) rs"

function matches :: "pat list \<Rightarrow> string \<Rightarrow> bool" where
  "matches [] s = (s = [])"
| "matches (P_any # ps) s = (matches ps s \<or> (case s of [] \<Rightarrow> False | c # cs \<Rightarrow> matches (P_any # ps) cs))"
| "matches (P_one # ps) s = (case s of [] \<Rightarrow> False | c # cs \<Rightarrow> matches ps cs)"
| "matches (P_set neg rs # ps) s = (case s of [] \<Rightarrow> False | c # cs \<Rightarrow> in_ranges c rs \<noteq> neg \<and> matches ps cs)"
| "matches (P_lit d # ps) s = (case s of [] \<Rightarrow> False | c # cs \<Rightarrow> c = d \<and> matches ps cs)"
  by pat_completeness auto
termination by (relation "measure (\<lambda>(ps, s). length ps + length s)") auto

text \<open>\<open>fnmatch.fnmatchcase(name, pat)\<close>.\<close>

definition fnmatchcase :: "string \<Rightarrow> string \<Rightarrow> bool" where
  "fnmatchcase name p = matches (pattern p) name"

section \<open>Scopes that overlap\<close>

definition has_glob :: "string \<Rightarrow> bool" where
  "has_glob s = (\<exists>c \<in> set s. c \<in> glob_chars)"

definition is_dir :: "string \<Rightarrow> bool" where
  "is_dir s = (s \<noteq> [] \<and> last s = slash)"

text \<open>\<open>s.split("*", 1)[0].split("?", 1)[0].split("[", 1)[0]\<close>.\<close>

definition glob_prefix :: "string \<Rightarrow> string" where
  "glob_prefix s = takeWhile (\<lambda>c. c \<notin> glob_chars) s"

definition below :: "string \<Rightarrow> string \<Rightarrow> bool" where
  "below dir p = (p = dir \<or> starts_with (dir @ ''/'') p)"

definition scope_overlaps :: "string \<Rightarrow> string \<Rightarrow> bool" where
  "scope_overlaps left right =
    (let lb = strip_slashes left; rb = strip_slashes right in
     if left = right then True
     else if is_dir left \<and> below lb rb then True
     else if is_dir right \<and> below rb lb then True
     else if has_glob left \<and> fnmatchcase rb left then True
     else if has_glob right \<and> fnmatchcase lb right then True
     else if has_glob left \<or> has_glob right then
       starts_with (glob_prefix right) (glob_prefix left) \<or> starts_with (glob_prefix left) (glob_prefix right)
     else False)"

section \<open>Union-find\<close>

text \<open>
  The parents as a function, with path halving on the way up; the fuel is the number of nodes, and
  \<open>None\<close> is its end.
\<close>

fun uf_find :: "nat \<Rightarrow> (string \<Rightarrow> string) \<Rightarrow> string \<Rightarrow> (string \<times> (string \<Rightarrow> string)) option" where
  "uf_find k par x =
    (if par x = x then Some (x, par)
     else case k of
       0 \<Rightarrow> None
     | Suc k' \<Rightarrow> (let par' = par(x := par (par x)) in uf_find k' par' (par' x)))"

declare uf_find.simps [simp del]

lemma uf_find_root: "par x = x \<Longrightarrow> uf_find k par x = Some (x, par)"
  by (subst uf_find.simps) simp

lemma uf_find_step:
  "par x \<noteq> x \<Longrightarrow> uf_find (Suc k) par x =
    uf_find k (par(x := par (par x))) (par (par x))"
  by (subst uf_find.simps) (simp add: Let_def)

definition uf_union :: "nat \<Rightarrow> string \<times> string \<Rightarrow> (string \<Rightarrow> string) option \<Rightarrow> (string \<Rightarrow> string) option" where
  "uf_union k e par = Option.bind par (\<lambda>p0.
    Option.bind (uf_find k p0 (fst e)) (\<lambda>(l, p1).
    Option.bind (uf_find k p1 (snd e)) (\<lambda>(r, p2).
      Some (if l \<noteq> r then p2(r := l) else p2))))"

section \<open>Conflicts\<close>

text \<open>The scopes of two tasks that overlap, in either spelling.\<close>

definition shared_scopes :: "string list \<Rightarrow> string list \<Rightarrow> string list" where
  "shared_scopes ls rs =
    (let l = filter (\<lambda>x. list_ex (scope_overlaps x) rs) ls;
         r = filter (\<lambda>y. list_ex (\<lambda>x. scope_overlaps x y) ls) rs
     in if l = [] then [] else sorted_texts (l @ r))"

fun pairs_from :: "(string \<Rightarrow> string list) \<Rightarrow> string list \<Rightarrow> (string \<times> string \<times> string list) list" where
  "pairs_from writes [] = []"
| "pairs_from writes (x # xs) =
    map (\<lambda>y. (x, y, shared_scopes (writes x) (writes y)))
      (filter (\<lambda>y. shared_scopes (writes x) (writes y) \<noteq> []) xs)
    @ pairs_from writes xs"

record conflict =
  cf_group :: string
  cf_tasks :: "string list"
  cf_scopes :: "string list"

text \<open>Roots in the order of the nodes, each with its nodes.\<close>

fun group_by_root :: "nat \<Rightarrow> (string \<Rightarrow> string) \<Rightarrow> string list \<Rightarrow> (string, string list) dict
    \<Rightarrow> (string, string list) dict option" where
  "group_by_root k par [] gs = Some gs"
| "group_by_root k par (x # xs) gs =
    (case uf_find k par x of
       None \<Rightarrow> None
     | Some (r, par') \<Rightarrow>
         group_by_root k par' xs
           (AList.update r ((case map_of gs r of None \<Rightarrow> [] | Some ys \<Rightarrow> ys) @ [x]) gs))"

definition rank_in :: "string list \<Rightarrow> string \<Rightarrow> nat" where
  "rank_in order x = length (takeWhile (\<lambda>y. y \<noteq> x) order)"

definition min_rank :: "string list \<Rightarrow> string list \<Rightarrow> nat" where
  "min_rank order xs = (case map (rank_in order) xs of [] \<Rightarrow> 0 | r # rs \<Rightarrow> fold min rs r)"

definition conflict_of :: "string list \<Rightarrow> (string \<times> string \<times> string list) list \<Rightarrow> nat \<Rightarrow> string list \<Rightarrow> conflict" where
  "conflict_of order pairs n grp = \<lparr>
    cf_group = ''conflict-'' @ nat_text n,
    cf_tasks = sort_key (rank_in order) (sort grp),
    cf_scopes = sorted_texts (concat (map (\<lambda>(l, r, ss). if l \<in> set grp \<and> r \<in> set grp then ss else []) pairs))\<rparr>"

text \<open>\<open>nodes\<close> are the ids in their declared order; the value is \<open>None\<close> when the fuel ends.\<close>

definition conflict_list :: "string list \<Rightarrow> (string \<Rightarrow> string list) \<Rightarrow> string list \<Rightarrow> conflict list option" where
  "conflict_list nodes writes order =
    (let pairs = pairs_from writes order; k = length nodes in
     Option.bind (fold (uf_union k) (map (\<lambda>(l, r, ss). (l, r)) pairs) (Some id)) (\<lambda>par.
     Option.bind (group_by_root k par nodes []) (\<lambda>gs.
       (let groups = filter (\<lambda>g. 2 \<le> length g) (sort_key (min_rank order) (map snd gs)) in
        Some (map2 (conflict_of order pairs) [1..<Suc (length groups)] groups)))))"

section \<open>Overlap is symmetric\<close>

lemma scope_overlaps_sym: "scope_overlaps a b = scope_overlaps b a"
  by (auto simp: scope_overlaps_def Let_def)

section \<open>The forest of parents\<close>

text \<open>
  \<open>r\<close> tells the root of every node and \<open>h\<close> is a height that decreases towards it.
\<close>

definition uf_ok :: "string set \<Rightarrow> (string \<Rightarrow> string) \<Rightarrow> (string \<Rightarrow> string) \<Rightarrow> (string \<Rightarrow> nat) \<Rightarrow> bool" where
  "uf_ok V par r h \<longleftrightarrow> (\<forall>x \<in> V. par x \<in> V \<and> r x \<in> V \<and> par (r x) = r x \<and> r (par x) = r x \<and>
    (par x = x \<longrightarrow> r x = x) \<and> (par x \<noteq> x \<longrightarrow> h (par x) < h x))"

lemma uf_okD:
  assumes "uf_ok V par r h" "x \<in> V"
  shows "par x \<in> V" "r x \<in> V" "par (r x) = r x" "r (par x) = r x" "par x = x \<Longrightarrow> r x = x"
    "par x \<noteq> x \<Longrightarrow> h (par x) < h x" "h (par x) \<le> h x"
  using assms unfolding uf_ok_def by (blast, blast, blast, blast, blast, blast, metis less_imp_le order_refl)

lemma uf_halve:
  assumes ok: "uf_ok V par r h" and x: "x \<in> V" "par x \<noteq> x"
  shows "uf_ok V (par(x := par (par x))) r h" "h (par (par x)) < h x"
proof -
  note px = uf_okD[OF ok x(1)]
  note ppx = uf_okD[OF ok px(1)]
  show less: "h (par (par x)) < h x" using px(6)[OF x(2)] ppx(7) by simp
  have root: "r (par (par x)) = r x" using px(4) ppx(4) by simp
  have ne: "par (par x) \<noteq> x" using less by auto
  show "uf_ok V (par(x := par (par x))) r h"
    unfolding uf_ok_def
  proof (intro ballI)
    fix y assume y: "y \<in> V"
    note py = uf_okD[OF ok y]
    have "r y \<noteq> x" using py(3) x(2) by auto
    then show "(par(x := par (par x))) y \<in> V \<and> r y \<in> V \<and> (par(x := par (par x))) (r y) = r y \<and>
      r ((par(x := par (par x))) y) = r y \<and> ((par(x := par (par x))) y = y \<longrightarrow> r y = y) \<and>
      ((par(x := par (par x))) y \<noteq> y \<longrightarrow> h ((par(x := par (par x))) y) < h y)"
      using py ppx(1) root ne less by (cases "y = x") auto
  qed
qed

lemma uf_find_spec:
  "uf_ok V par r h \<Longrightarrow> x \<in> V \<Longrightarrow> h x \<le> k \<Longrightarrow>
    \<exists>par'. uf_find k par x = Some (r x, par') \<and> uf_ok V par' r h"
proof (induction k arbitrary: par x)
  case 0
  then have "par x = x" using uf_okD(6)[OF 0(1,2)] by auto
  then show ?case using 0(1) uf_okD(5)[OF 0(1,2)] by (simp add: uf_find_root)
next
  case (Suc k)
  show ?case
  proof (cases "par x = x")
    case True
    then show ?thesis using Suc.prems(1) uf_okD(5)[OF Suc.prems(1,2)] by (simp add: uf_find_root)
  next
    case False
    let ?p = "par(x := par (par x))"
    note hv = uf_halve[OF Suc.prems(1,2) False]
    have pp: "par (par x) \<in> V" "r (par (par x)) = r x"
      using uf_okD(1,4)[OF Suc.prems(1)] Suc.prems(2) by auto
    have "h (par (par x)) \<le> k" using hv(2) Suc.prems(3) by simp
    then obtain par' where "uf_find k ?p (par (par x)) = Some (r x, par')" "uf_ok V par' r h"
      using Suc.IH[OF hv(1) pp(1)] pp(2) by metis
    then show ?thesis using uf_find_step[of par x k] False by metis
  qed
qed

text \<open>Heights may be renumbered below the number of nodes.\<close>

lemma uf_heights:
  assumes fin: "finite V" and ok: "uf_ok V par r h"
  shows "\<exists>h'. uf_ok V par r h' \<and> (\<forall>x \<in> V. h' x \<le> card V)"
proof -
  let ?h = "\<lambda>x. card {y \<in> V. h y < h x}"
  have "?h (par x) < ?h x" if "x \<in> V" "par x \<noteq> x" for x
  proof (rule psubset_card_mono)
    show "finite {y \<in> V. h y < h x}" using fin by simp
    have "par x \<in> V" "h (par x) < h x" using uf_okD(1,6)[OF ok that(1)] that(2) by auto
    then show "{y \<in> V. h y < h (par x)} \<subset> {y \<in> V. h y < h x}" by auto
  qed
  then have "uf_ok V par r ?h" using ok unfolding uf_ok_def by blast
  moreover have "?h x \<le> card V" for x using fin by (intro card_mono) auto
  ultimately show ?thesis by blast
qed

section \<open>Classes\<close>

text \<open>Connected by a chain of edges, in either direction.\<close>

definition linked :: "(string \<times> string) set \<Rightarrow> (string \<times> string) set" where
  "linked E = (E \<union> E\<inverse>)\<^sup>*"

lemma linked_refl: "(x, x) \<in> linked E"
  by (simp add: linked_def)

lemma linked_sym: "(x, y) \<in> linked E \<Longrightarrow> (y, x) \<in> linked E"
  unfolding linked_def by (metis converse_Un converse_converse rtrancl_converseD sup_commute)

lemma linked_trans: "(x, y) \<in> linked E \<Longrightarrow> (y, z) \<in> linked E \<Longrightarrow> (x, z) \<in> linked E"
  unfolding linked_def by (rule rtrancl_trans)

lemma linked_mono: "E \<subseteq> F \<Longrightarrow> linked E \<subseteq> linked F"
  unfolding linked_def by (rule rtrancl_mono) auto

lemma linked_edge: "(x, y) \<in> E \<Longrightarrow> (x, y) \<in> linked E"
  by (auto simp: linked_def)

lemma linked_least:
  assumes "(x, y) \<in> linked E" "\<And>a b. (a, b) \<in> E \<Longrightarrow> f a = f b"
  shows "f x = f y"
  using assms(1) unfolding linked_def by (induction rule: rtrancl_induct) (auto dest: assms(2))

text \<open>The roots tell the classes.\<close>

definition uf_classes :: "string set \<Rightarrow> (string \<Rightarrow> string) \<Rightarrow> (string \<times> string) set \<Rightarrow> bool" where
  "uf_classes V r E \<longleftrightarrow> E \<subseteq> V \<times> V \<and> (\<forall>x \<in> V. \<forall>y \<in> V. r x = r y \<longleftrightarrow> (x, y) \<in> linked E)"

lemma uf_union_heights:
  assumes ok: "uf_ok V par r h" and ab: "a \<in> V" "b \<in> V" "r a \<noteq> r b"
  shows "uf_ok V (par(r b := r a)) (\<lambda>y. if r y = r b then r a else r y)
    (\<lambda>y. if r y = r b then h y + 1 + h (r a) else h y)"
  unfolding uf_ok_def
proof (intro ballI)
  note fa = uf_okD[OF ok ab(1)] and fb = uf_okD[OF ok ab(2)]
  fix y assume y: "y \<in> V"
  note fy = uf_okD[OF ok y]
  have rr: "r (r a) = r a" "r (r b) = r b"
    using fa(2,3) fb(2,3) uf_okD(5)[OF ok] by auto
  show "(par(r b := r a)) y \<in> V \<and> (if r y = r b then r a else r y) \<in> V \<and>
      (par(r b := r a)) (if r y = r b then r a else r y) = (if r y = r b then r a else r y) \<and>
      (if r ((par(r b := r a)) y) = r b then r a else r ((par(r b := r a)) y)) = (if r y = r b then r a else r y) \<and>
      ((par(r b := r a)) y = y \<longrightarrow> (if r y = r b then r a else r y) = y) \<and>
      ((par(r b := r a)) y \<noteq> y \<longrightarrow>
        (if r ((par(r b := r a)) y) = r b then h ((par(r b := r a)) y) + 1 + h (r a) else h ((par(r b := r a)) y))
        < (if r y = r b then h y + 1 + h (r a) else h y))"
  proof (cases "y = r b")
    case True
    then show ?thesis using fa fb rr ab(3) by auto
  next
    case False
    have up: "(par(r b := r a)) y = par y" using False by simp
    show ?thesis
    proof (cases "r y = r b")
      case True
      have "par y \<noteq> y" using fy(5) True False by auto
      then show ?thesis unfolding up using True fy(1,4,6) fa(2,3) ab(3) by simp
    next
      case other: False
      then show ?thesis unfolding up using fy False by simp
    qed
  qed
qed

lemma uf_union_classes:
  assumes cl: "uf_classes V r E" and ab: "a \<in> V" "b \<in> V"
  shows "uf_classes V (\<lambda>y. if r y = r b then r a else r y) (insert (a, b) E)"
proof -
  let ?r = "\<lambda>y. if r y = r b then r a else r y"
  let ?L = "linked (insert (a, b) E)"
  have sub: "linked E \<subseteq> ?L" by (rule linked_mono) auto
  have edge: "(a, b) \<in> ?L" "(b, a) \<in> ?L" by (auto intro: linked_edge linked_sym)
  have to: "(u, v) \<in> ?L" if "r u = r v" "u \<in> V" "v \<in> V" for u v
    using that cl sub unfolding uf_classes_def by blast
  have one: "(x, y) \<in> ?L" if eq: "?r x = ?r y" and xy: "x \<in> V" "y \<in> V" for x y
  proof -
    consider "r x = r y" | "r x = r b" "r a = r y" | "r x = r a" "r b = r y"
      using eq by (auto split: if_splits)
    then show ?thesis
    proof cases
      case 1 then show ?thesis using to xy by blast
    next
      case 2
      then show ?thesis using linked_trans[OF linked_trans[OF to[OF 2(1) xy(1) ab(2)] edge(2)] to[OF 2(2) ab(1) xy(2)]] by simp
    next
      case 3
      then show ?thesis using linked_trans[OF linked_trans[OF to[OF 3(1) xy(1) ab(1)] edge(1)] to[OF 3(2) ab(2) xy(2)]] by simp
    qed
  qed
  have two: "?r x = ?r y" if "(x, y) \<in> ?L" for x y
  proof (rule linked_least[OF that])
    fix u v assume uv: "(u, v) \<in> insert (a, b) E"
    show "?r u = ?r v"
    proof (cases "(u, v) = (a, b)")
      case False
      then have "(u, v) \<in> E" "u \<in> V" "v \<in> V" using uv cl by (auto simp: uf_classes_def)
      then have "r u = r v" using cl linked_edge unfolding uf_classes_def by blast
      then show ?thesis by simp
    qed simp
  qed
  show ?thesis
    using cl ab one two unfolding uf_classes_def by blast
qed

lemma uf_union_same:
  assumes cl: "uf_classes V r E" and ab: "a \<in> V" "b \<in> V" "r a = r b"
  shows "uf_classes V r (insert (a, b) E)"
proof -
  have "(\<lambda>y. if r y = r b then r a else r y) = r" using ab(3) by auto
  then show ?thesis using uf_union_classes[OF cl ab(1,2)] by simp
qed

text \<open>A state of the union-find: a forest of bounded height whose roots tell the classes.\<close>

definition uf_inv :: "string set \<Rightarrow> (string \<Rightarrow> string) \<Rightarrow> (string \<times> string) set \<Rightarrow> bool" where
  "uf_inv V par E \<longleftrightarrow> (\<exists>r h. uf_ok V par r h \<and> uf_classes V r E)"

lemma uf_inv_start: "uf_inv V id {}"
  unfolding uf_inv_def
  by (rule exI[of _ id], rule exI[of _ "\<lambda>_. 0"]) (auto simp: uf_ok_def uf_classes_def linked_def)

lemma uf_union_spec:
  assumes fin: "finite V" "card V \<le> k" and inv: "uf_inv V par E" and ab: "a \<in> V" "b \<in> V"
  shows "\<exists>par'. uf_union k (a, b) (Some par) = Some par' \<and> uf_inv V par' (insert (a, b) E)"
proof -
  obtain r h0 where "uf_ok V par r h0" and cl: "uf_classes V r E" using inv by (auto simp: uf_inv_def)
  then obtain h where ok: "uf_ok V par r h" and h: "\<forall>x \<in> V. h x \<le> card V"
    using uf_heights[OF fin(1)] by blast
  have le: "h x \<le> k" if "x \<in> V" for x using h fin(2) that by fastforce
  obtain p1 where p1: "uf_find k par a = Some (r a, p1)" "uf_ok V p1 r h"
    using uf_find_spec[OF ok ab(1) le[OF ab(1)]] by blast
  obtain p2 where p2: "uf_find k p1 b = Some (r b, p2)" "uf_ok V p2 r h"
    using uf_find_spec[OF p1(2) ab(2) le[OF ab(2)]] by blast
  have run: "uf_union k (a, b) (Some par) = Some (if r a \<noteq> r b then p2(r b := r a) else p2)"
    by (simp add: uf_union_def p1(1) p2(1))
  show ?thesis
  proof (cases "r a = r b")
    case True
    then show ?thesis
      using run p2(2) uf_union_same[OF cl ab True] unfolding uf_inv_def by auto
  next
    case False
    then show ?thesis
      using run uf_union_heights[OF p2(2) ab False] uf_union_classes[OF cl ab] unfolding uf_inv_def by auto
  qed
qed

lemma uf_unions_spec:
  assumes fin: "finite V" "card V \<le> k"
  shows "uf_inv V par E \<Longrightarrow> set es \<subseteq> V \<times> V \<Longrightarrow>
    \<exists>par'. fold (uf_union k) es (Some par) = Some par' \<and> uf_inv V par' (E \<union> set es)"
proof (induction es arbitrary: par E)
  case (Cons e es)
  obtain a b where e: "e = (a, b)" by (cases e)
  obtain p1 where p1: "uf_union k (a, b) (Some par) = Some p1" "uf_inv V p1 (insert (a, b) E)"
    using uf_union_spec[OF fin Cons.prems(1), of a b] Cons.prems(2) e by auto
  show ?case using Cons.IH[OF p1(2)] Cons.prems(2) p1(1) by (simp add: e)
qed simp

end
