(* ===== verification/Conflict_Groups.thy ===== *)
theory Conflict_Groups
  imports Conflicts
begin

text \<open>
  The groups that the union-find reports are the classes of the overlap relation.
\<close>

section \<open>Edges\<close>

definition conflicting :: "(string \<Rightarrow> string list) \<Rightarrow> string \<Rightarrow> string \<Rightarrow> bool" where
  "conflicting writes x y \<longleftrightarrow> (\<exists>l \<in> set (writes x). \<exists>r \<in> set (writes y). scope_overlaps l r)"

lemma conflicting_sym: "conflicting writes x y = conflicting writes y x"
  unfolding conflicting_def using scope_overlaps_sym by blast

lemma shared_scopes_ne: "shared_scopes (writes x) (writes y) \<noteq> [] \<longleftrightarrow> conflicting writes x y"
  by (auto simp: shared_scopes_def Let_def sorted_texts_def conflicting_def filter_empty_conv list_ex_iff
      dest: arg_cong[where f = set])

definition edges_of :: "(string \<times> string \<times> string list) list \<Rightarrow> (string \<times> string) list" where
  "edges_of ps = map (\<lambda>(l, r, ss). (l, r)) ps"

lemma edges_from:
  "set (edges_of (pairs_from writes (x # xs))) =
    {(x, y) | y. y \<in> set xs \<and> conflicting writes x y} \<union> set (edges_of (pairs_from writes xs))"
  by (auto simp: edges_of_def shared_scopes_ne image_image)

definition overlap_graph :: "(string \<Rightarrow> string list) \<Rightarrow> string list \<Rightarrow> (string \<times> string) set" where
  "overlap_graph writes xs = {(x, y). x \<in> set xs \<and> y \<in> set xs \<and> x \<noteq> y \<and> conflicting writes x y}"

lemma edges_exact:
  "distinct xs \<Longrightarrow>
    set (edges_of (pairs_from writes xs)) \<union> (set (edges_of (pairs_from writes xs)))\<inverse> = overlap_graph writes xs"
proof (induction xs)
  case Nil
  then show ?case by (simp add: edges_of_def overlap_graph_def)
next
  case (Cons x xs)
  have "overlap_graph writes (x # xs) = overlap_graph writes xs \<union>
      ({(x, y) | y. y \<in> set xs \<and> conflicting writes x y} \<union> {(x, y) | y. y \<in> set xs \<and> conflicting writes x y}\<inverse>)"
    using Cons.prems conflicting_sym by (auto simp: overlap_graph_def)
  then show ?case unfolding edges_from using Cons by auto
qed

lemma linked_edges: "distinct xs \<Longrightarrow> linked (set (edges_of (pairs_from writes xs))) = (overlap_graph writes xs)\<^sup>*"
  unfolding linked_def by (simp only: edges_exact)

lemma edges_within: "set (edges_of (pairs_from writes xs)) \<subseteq> set xs \<times> set xs"
proof (induction xs)
  case (Cons x xs)
  then show ?case unfolding edges_from by auto
qed (simp add: edges_of_def)

section \<open>Grouping\<close>

definition grouped :: "(string \<Rightarrow> string) \<Rightarrow> string list \<Rightarrow> (string, string list) dict \<Rightarrow> bool" where
  "grouped r ps gs \<longleftrightarrow> distinct (map fst gs) \<and>
    (\<forall>q. map_of gs q = (let ys = filter (\<lambda>x. r x = q) ps in if ys = [] then None else Some ys))"

lemma grouped_snoc:
  assumes "grouped r ps gs"
  shows "grouped r (ps @ [x])
    (AList.update (r x) ((case map_of gs (r x) of None \<Rightarrow> [] | Some ys \<Rightarrow> ys) @ [x]) gs)"
  using assms unfolding grouped_def
  by (auto simp: update_conv' distinct_update Let_def)

lemma group_by_root_spec:
  assumes h: "\<forall>x \<in> V. h x \<le> k"
  shows "uf_ok V par r h \<Longrightarrow> set xs \<subseteq> V \<Longrightarrow> grouped r ps gs \<Longrightarrow>
    \<exists>gs'. group_by_root k par xs gs = Some gs' \<and> grouped r (ps @ xs) gs'"
proof (induction xs arbitrary: par ps gs)
  case (Cons x xs)
  obtain p1 where p1: "uf_find k par x = Some (r x, p1)" "uf_ok V p1 r h"
    using uf_find_spec[OF Cons.prems(1), of x k] Cons.prems(2) h by auto
  show ?case
    using Cons.IH[OF p1(2) _ grouped_snoc[OF Cons.prems(3)], of x] Cons.prems(2) p1(1) by simp
qed simp

lemma grouped_member:
  assumes "grouped r ps gs" "x \<in> set ps" "y \<in> set ps"
  shows "(\<exists>g \<in> snd ` set gs. x \<in> set g \<and> y \<in> set g) \<longleftrightarrow> r x = r y"
proof
  assume "\<exists>g \<in> snd ` set gs. x \<in> set g \<and> y \<in> set g"
  then obtain q g where g: "(q, g) \<in> set gs" "x \<in> set g" "y \<in> set g" by auto
  moreover have "distinct (map fst gs)" using assms(1) by (simp add: grouped_def)
  ultimately have "map_of gs q = Some g" by (intro map_of_is_SomeI)
  then have "g = filter (\<lambda>x. r x = q) ps" using assms(1) by (auto simp: grouped_def Let_def split: if_splits)
  then show "r x = r y" using g(2,3) by auto
next
  assume eq: "r x = r y"
  let ?g = "filter (\<lambda>z. r z = r x) ps"
  have "map_of gs (r x) = Some ?g"
    using assms by (auto simp: grouped_def Let_def filter_empty_conv)
  then have "(r x, ?g) \<in> set gs" by (rule map_of_SomeD)
  then show "\<exists>g \<in> snd ` set gs. x \<in> set g \<and> y \<in> set g"
    using assms(2,3) eq by (intro bexI[of _ ?g]) force+
qed

lemma grouped_part:
  assumes "grouped r ps gs" "distinct ps" "g \<in> snd ` set gs"
  shows "distinct g \<and> set g \<subseteq> set ps"
proof -
  obtain q where g: "(q, g) \<in> set gs" using assms(3) by auto
  moreover have "distinct (map fst gs)" using assms(1) by (simp add: grouped_def)
  ultimately have "map_of gs q = Some g" by (intro map_of_is_SomeI)
  then have "g = filter (\<lambda>x. r x = q) ps" using assms(1) by (auto simp: grouped_def Let_def split: if_splits)
  then show ?thesis using assms(2) by simp
qed

section \<open>The reported groups\<close>

lemma conflict_tasks:
  "map cf_tasks (map2 (conflict_of order pairs) [1..<Suc (length gs)] gs) =
    map (\<lambda>g. sort_key (rank_in order) (sort g)) gs"
  by (rule nth_equalityI) (auto simp del: upt_Suc simp: conflict_of_def)

lemma conflict_tasks_set:
  "cf_tasks ` set (map2 (conflict_of order pairs) [1..<Suc (length gs)] gs) =
    (\<lambda>g. sort_key (rank_in order) (sort g)) ` set gs"
  using arg_cong[OF conflict_tasks[of order pairs gs], of set] by (simp only: set_map)

lemma two_members: "x \<noteq> y \<Longrightarrow> x \<in> set g \<Longrightarrow> y \<in> set g \<Longrightarrow> 2 \<le> length g"
  by (cases g; cases "tl g") auto

lemma conflict_list_spec:
  assumes d: "distinct nodes" "distinct order" "set order = set nodes"
  shows "\<exists>cs. conflict_list nodes writes order = Some cs \<and>
    (\<forall>x \<in> set nodes. \<forall>y \<in> set nodes. x \<noteq> y \<longrightarrow>
      ((\<exists>c \<in> set cs. x \<in> set (cf_tasks c) \<and> y \<in> set (cf_tasks c)) \<longleftrightarrow> (x, y) \<in> (overlap_graph writes nodes)\<^sup>*)) \<and>
    (\<forall>c \<in> set cs. distinct (cf_tasks c) \<and> set (cf_tasks c) \<subseteq> set nodes \<and> 2 \<le> length (cf_tasks c) \<and>
      sorted (map (rank_in order) (cf_tasks c)))"
proof -
  let ?V = "set nodes" and ?k = "length nodes" and ?ps = "pairs_from writes order"
  have card: "card ?V \<le> ?k" by (rule card_length)
  have sub: "set (edges_of ?ps) \<subseteq> ?V \<times> ?V" using edges_within d(3) by metis
  obtain par where par: "fold (uf_union ?k) (edges_of ?ps) (Some id) = Some par"
      "uf_inv ?V par ({} \<union> set (edges_of ?ps))"
    using uf_unions_spec[OF _ card uf_inv_start sub] by auto
  then obtain r h0 where ok0: "uf_ok ?V par r h0" and cl: "uf_classes ?V r (set (edges_of ?ps))"
    by (auto simp: uf_inv_def)
  obtain h where ok: "uf_ok ?V par r h" and "\<forall>x \<in> ?V. h x \<le> card ?V"
    using uf_heights[OF _ ok0] by auto
  then have h: "\<forall>x \<in> ?V. h x \<le> ?k" using card by fastforce
  have "grouped r [] []" by (simp add: grouped_def)
  then obtain gs where gs: "group_by_root ?k par nodes [] = Some gs" "grouped r nodes gs"
    using group_by_root_spec[OF h ok, of nodes "[]" "[]"] by auto
  let ?gl = "filter (\<lambda>g. 2 \<le> length g) (sort_key (min_rank order) (map snd gs))"
  let ?cs = "map2 (conflict_of order ?ps) [1..<Suc (length ?gl)] ?gl"
  have run: "conflict_list nodes writes order = Some ?cs"
    using par(1) gs(1) by (simp add: conflict_list_def Let_def edges_of_def)
  have img: "cf_tasks ` set ?cs = (\<lambda>g. sort_key (rank_in order) (sort g)) ` {g \<in> snd ` set gs. 2 \<le> length g}"
    unfolding conflict_tasks_set by auto
  have graph: "overlap_graph writes order = overlap_graph writes nodes"
    using d(3) by (simp add: overlap_graph_def)
  have "(\<exists>c \<in> set ?cs. x \<in> set (cf_tasks c) \<and> y \<in> set (cf_tasks c)) \<longleftrightarrow> (x, y) \<in> (overlap_graph writes nodes)\<^sup>*"
    if xy: "x \<in> ?V" "y \<in> ?V" "x \<noteq> y" for x y
  proof -
    have "(\<exists>c \<in> set ?cs. x \<in> set (cf_tasks c) \<and> y \<in> set (cf_tasks c)) \<longleftrightarrow>
        (\<exists>ts \<in> cf_tasks ` set ?cs. x \<in> set ts \<and> y \<in> set ts)" by blast
    also have "\<dots> \<longleftrightarrow> (\<exists>g \<in> snd ` set gs. x \<in> set g \<and> y \<in> set g)"
      unfolding img using two_members[OF xy(3)] by auto
    also have "\<dots> \<longleftrightarrow> r x = r y" by (rule grouped_member[OF gs(2) xy(1,2)])
    also have "\<dots> \<longleftrightarrow> (x, y) \<in> linked (set (edges_of ?ps))"
      using cl xy(1,2) unfolding uf_classes_def by blast
    also have "\<dots> \<longleftrightarrow> (x, y) \<in> (overlap_graph writes nodes)\<^sup>*"
      using linked_edges[OF d(2)] graph by simp
    finally show ?thesis .
  qed
  moreover have "distinct (cf_tasks c) \<and> set (cf_tasks c) \<subseteq> ?V \<and> 2 \<le> length (cf_tasks c) \<and>
      sorted (map (rank_in order) (cf_tasks c))" if "c \<in> set ?cs" for c
  proof -
    have "cf_tasks c \<in> cf_tasks ` set ?cs" using that by (rule imageI)
    then obtain g where "g \<in> snd ` set gs" "2 \<le> length g" "cf_tasks c = sort_key (rank_in order) (sort g)"
      unfolding img by blast
    then show ?thesis using grouped_part[OF gs(2) d(1)] by simp
  qed
  ultimately show ?thesis using run by blast
qed

end
