(* ===== verification/Plan.thy ===== *)
theory Plan
  imports Conflict_Groups
begin

text \<open>
  The compiled plan of \<open>workflow_preflight.py\<close>: the nodes of a workflow, their order, the critical
  path, and the dictionary that the scheduler is started with.
\<close>

section \<open>Nodes\<close>

record pnode =
  pn_id :: string
  pn_title :: string
  pn_brief :: string
  pn_depends_on :: "string list"
  pn_delivery_mode :: string
  pn_verify_cmd :: json
  pn_outputs :: "payload list"
  pn_schema :: json
  pn_inputs :: "string list"
  pn_node_verify :: json
  pn_repair :: json
  pn_max_retries :: int
  pn_reads :: "string list"
  pn_writes :: "string list"

type_synonym nodes = "(string, pnode) dict"

text \<open>\<open>str(raw.get(key) or default)\<close>.\<close>

definition text_field :: "string \<Rightarrow> string \<Rightarrow> payload \<Rightarrow> string" where
  "text_field key dflt raw = py_str (json_or (jget key raw) (JStr dflt))"

definition pf_depends :: "string \<Rightarrow> payload \<Rightarrow> exc + string list" where
  "pf_depends node raw =
    (let v = json_or (jget ''depends_on'' raw) (JList []) in
     case (case v of JList xs \<Rightarrow> texts_of xs | _ \<Rightarrow> None) of
       None \<Rightarrow> pf_fail node ''malformed_dependencies'' ''depends_on must be a list of task ids''
     | Some ds \<Rightarrow>
         if list_ex blank ds then
           pf_fail node ''malformed_dependencies'' ''depends_on must be a list of task ids''
         else
           (let deps = map strip ds in
            if \<not> distinct deps then
              pf_fail node ''ambiguous_dependencies'' ''depends_on contains a duplicate prerequisite''
            else if node \<in> set deps then pf_fail node ''self_dependency'' ''task cannot depend on itself''
            else Inr deps))"

definition pf_retries :: "string \<Rightarrow> payload \<Rightarrow> exc + int" where
  "pf_retries node raw =
    (case int_value (jget_default ''max_retries'' (JInt 2) raw) of
       None \<Rightarrow> pf_fail node ''malformed_retry_policy'' ''max_retries must be an integer''
     | Some n \<Rightarrow>
        if n < 0 then pf_fail node ''malformed_retry_policy'' ''max_retries cannot be negative'' else Inr n)"

definition pf_mode :: "string \<Rightarrow> payload \<Rightarrow> exc + string" where
  "pf_mode node raw =
    (let mode = text_field ''delivery_mode'' ''local'' raw in
     if mode \<in> {''pr'', ''local'', ''scout''} then Inr mode
     else pf_fail node ''malformed_delivery_mode'' (''unsupported delivery_mode '' @ repr_str mode))"

definition pf_command :: "string \<Rightarrow> payload \<Rightarrow> string \<Rightarrow> exc + unit" where
  "pf_command node raw field = (case jget field raw of
      JNull \<Rightarrow> Inr ()
    | JStr s \<Rightarrow> Inr ()
    | _ \<Rightarrow> pf_fail node (''malformed_'' @ field) (field @ '' must be a string''))"

definition pf_overlap :: "string \<Rightarrow> payload \<Rightarrow> string list \<Rightarrow> string list \<Rightarrow> exc + unit" where
  "pf_overlap node raw reads writes =
    (let both = filter (\<lambda>s. s \<in> set writes) reads in
     if both \<noteq> [] \<and> \<not> truthy (jget_default ''allow_read_write_overlap'' (JBool False) raw) then
       pf_fail node ''ambiguous_file_scopes''
         (''read and write scopes overlap without allow_read_write_overlap: '' @
           py_repr (JList (map JStr (sorted_texts both))))
     else Inr ())"

definition pf_contract :: "payload \<Rightarrow> json" where
  "pf_contract raw = jget_default ''input_contract'' (jget ''dependency_input_contract'' raw) raw"

definition pf_node :: "string \<Rightarrow> string \<Rightarrow> payload \<Rightarrow> exc + pnode" where
  "pf_node node brief raw =
    bindE (pf_depends node raw) (\<lambda>deps.
    bindE (pf_retries node raw) (\<lambda>retries.
    bindE (pf_mode node raw) (\<lambda>mode.
    bindE (pf_command node raw ''verify_cmd'') (\<lambda>_.
    bindE (pf_command node raw ''node_verify_cmd'') (\<lambda>_.
    bindE (pf_artifact_specs node (jget ''output_artifacts'' raw)) (\<lambda>outputs.
    bindE (pf_schema node outputs (jget ''output_schema'' raw)) (\<lambda>schema.
    bindE (pf_required_inputs node (pf_contract raw)) (\<lambda>inputs.
    bindE (pf_scopes raw read_keys node ''read'') (\<lambda>reads.
    bindE (pf_scopes raw write_keys node ''write'') (\<lambda>writes.
    bindE (pf_overlap node raw reads writes) (\<lambda>_.
      Inr \<lparr>pn_id = node, pn_title = text_field ''title'' node raw, pn_brief = brief,
        pn_depends_on = deps, pn_delivery_mode = mode, pn_verify_cmd = jget ''verify_cmd'' raw,
        pn_outputs = outputs, pn_schema = schema, pn_inputs = inputs,
        pn_node_verify = jget ''node_verify_cmd'' raw, pn_repair = jget ''repair_policy'' raw,
        pn_max_retries = retries, pn_reads = reads, pn_writes = writes\<rparr>)))))))))))"

definition pf_add_node :: "json \<Rightarrow> nodes \<Rightarrow> exc + nodes" where
  "pf_add_node item nodes = (case item of
      JObj raw \<Rightarrow>
        (let node = strip (text_field ''id'' [] raw); brief = strip (text_field ''brief'' [] raw) in
         if node = [] then Inl (pf_error None ''missing_id'' ''task spec requires a non-empty id'')
         else if node \<in> fst ` set nodes then pf_fail node ''duplicate_id'' ''task id is declared more than once''
         else if brief = [] then pf_fail node ''missing_brief'' ''task spec requires a non-empty brief''
         else bindE (pf_node node brief raw) (\<lambda>n. Inr (nodes @ [(node, n)])))
    | _ \<Rightarrow> Inl (pf_error None ''malformed_node'' ''each task spec must be an object''))"

section \<open>Order\<close>

text \<open>One prerequisite is met: \<open>v\<close> leaves the open prerequisites of \<open>other\<close>.\<close>

definition topo_visit ::
    "string list \<Rightarrow> string \<Rightarrow> string \<Rightarrow> (string, string list) dict \<times> string list
      \<Rightarrow> (string, string list) dict \<times> string list" where
  "topo_visit order v other st =
    (let rem = fst st; ready = snd st; deps = (case map_of rem other of None \<Rightarrow> [] | Some ds \<Rightarrow> ds);
         deps' = removeAll v deps in
     if v \<in> set deps then
       (AList.update other deps' rem,
        if deps' = [] \<and> other \<notin> set order \<and> other \<notin> set ready then ready @ [other] else ready)
     else st)"

fun topo_loop ::
    "nat \<Rightarrow> (string, string list) dict \<Rightarrow> string list \<Rightarrow> string list
      \<Rightarrow> (string list \<times> (string, string list) dict) option" where
  "topo_loop k rem [] order = Some (order, rem)"
| "topo_loop 0 rem (v # ready) order = None"
| "topo_loop (Suc k) rem (v # ready) order =
    (let order' = order @ [v];
         (rem', ready') = fold (topo_visit order' v) (sort (map fst rem)) (rem, ready)
     in topo_loop k rem' (sort ready') order')"

definition open_prereqs :: "nodes \<Rightarrow> (string, string list) dict" where
  "open_prereqs nodes = map (\<lambda>(i, n). (i, pn_depends_on n)) nodes"

definition first_ready :: "(string, string list) dict \<Rightarrow> string list" where
  "first_ready rem = sort (map fst (filter (\<lambda>(i, ds). ds = []) rem))"

text \<open>Every node becomes ready once, so the number of nodes is enough fuel.\<close>

definition topological_order :: "nodes \<Rightarrow> exc + string list" where
  "topological_order nodes =
    (case topo_loop (length nodes) (open_prereqs nodes) (first_ready (open_prereqs nodes)) [] of
       None \<Rightarrow> Inl (RuntimeError ''the order does not end'')
     | Some (order, rem) \<Rightarrow>
        if length order = length nodes then Inr order
        else
          (let cyc = sort (map fst (filter (\<lambda>(i, ds). ds \<noteq> []) rem));
               first = (case filter (\<lambda>i. i \<in> set cyc) (map fst nodes) of i # _ \<Rightarrow> i | [] \<Rightarrow> hd cyc)
           in pf_fail first ''cycle'' (''task graph contains a cycle involving '' @ py_repr (JList (map JStr cyc)))))"

section \<open>Depths and inputs\<close>

definition node_of :: "nodes \<Rightarrow> string \<Rightarrow> pnode" where
  "node_of nodes i = the (map_of nodes i)"

definition depth_in :: "(string, int) dict \<Rightarrow> string \<Rightarrow> int" where
  "depth_in ds i = (case map_of ds i of None \<Rightarrow> 0 | Some n \<Rightarrow> n)"

text \<open>\<open>min\<close> by the key \<open>(-depth, id)\<close>: the deepest prerequisite, the least id among equals.\<close>

definition deepest :: "(string, int) dict \<Rightarrow> string list \<Rightarrow> string" where
  "deepest ds deps = hd (sort_key (\<lambda>i. - depth_in ds i) (sort deps))"

definition direct_outputs :: "nodes \<Rightarrow> string list \<Rightarrow> string list" where
  "direct_outputs nodes deps = concat (map (\<lambda>i. map spec_path (pn_outputs (node_of nodes i))) deps)"

definition producers :: "nodes \<Rightarrow> string list \<Rightarrow> string \<Rightarrow> string list" where
  "producers nodes deps p = filter (\<lambda>i. p \<in> set (map spec_path (pn_outputs (node_of nodes i)))) deps"

definition check_inputs :: "nodes \<Rightarrow> string \<Rightarrow> exc + unit" where
  "check_inputs nodes i =
    (let n = node_of nodes i; deps = pn_depends_on n;
         missing = sorted_texts (filter (\<lambda>p. p \<notin> set (direct_outputs nodes deps)) (pn_inputs n));
         ambiguous = sort (filter (\<lambda>p. 1 < length (producers nodes deps p)) (pn_inputs n)) in
     if pn_inputs n = [] then Inr ()
     else if missing \<noteq> [] then pf_fail i ''missing_input_reference''
       (''input contract references unavailable artifact(s): '' @ py_repr (JList (map JStr missing)))
     else if ambiguous \<noteq> [] then pf_fail i ''ambiguous_input_reference''
       (''input contract has multiple direct producers for artifact(s): '' @ py_repr (JList (map JStr ambiguous)))
     else Inr ())"

type_synonym depths = "(string, int) dict \<times> (string, string option) dict"

definition visit_depth :: "nodes \<Rightarrow> string \<Rightarrow> depths \<Rightarrow> exc + depths" where
  "visit_depth nodes i st =
    (let deps = pn_depends_on (node_of nodes i); ds = fst st;
         st' = (if deps = [] then (AList.update i 1 ds, AList.update i None (snd st))
           else (AList.update i (depth_in ds (deepest ds deps) + 1) ds,
                 AList.update i (Some (deepest ds deps)) (snd st)))
     in bindE (check_inputs nodes i) (\<lambda>_. Inr st'))"

text \<open>The walk from the deepest node to a root, with the number of nodes as fuel.\<close>

fun path_up :: "nat \<Rightarrow> (string, string option) dict \<Rightarrow> string \<Rightarrow> string list" where
  "path_up 0 ps i = [i]"
| "path_up (Suc k) ps i = (case map_of ps i of Some (Some p) \<Rightarrow> i # path_up k ps p | _ \<Rightarrow> [i])"

text \<open>\<open>max\<close> by the key \<open>(depth, -position)\<close>: the first of the deepest nodes in the order.\<close>

definition leaf_of :: "(string, int) dict \<Rightarrow> string list \<Rightarrow> string" where
  "leaf_of ds order = hd (sort_key (\<lambda>i. - depth_in ds i) order)"

section \<open>The plan\<close>

definition spec_json :: "payload list \<Rightarrow> json" where
  "spec_json specs = (if specs = [] then JNull else JList (map JObj specs))"

definition contract_of :: "pnode \<Rightarrow> json" where
  "contract_of n = (if pn_inputs n = [] then JNull
    else JObj [(''required_artifacts'', JList (map JStr (pn_inputs n)))])"

definition verification_cost :: "pnode \<Rightarrow> int" where
  "verification_cost n = 1
    + (if truthy (spec_json (pn_outputs n)) \<or> truthy (pn_schema n) \<or> truthy (contract_of n) then 1 else 0)
    + (if truthy (pn_node_verify n) then 2 else 0)
    + (if truthy (pn_verify_cmd n) then 3 else 0)"

definition texts_json :: "string list \<Rightarrow> json" where
  "texts_json xs = JList (map JStr xs)"

definition task_entry :: "(string, int) dict \<Rightarrow> pnode \<Rightarrow> json" where
  "task_entry ds n = JObj [
    (''id'', JStr (pn_id n)), (''title'', JStr (pn_title n)), (''brief'', JStr (pn_brief n)),
    (''depends_on'', texts_json (pn_depends_on n)), (''delivery_mode'', JStr (pn_delivery_mode n)),
    (''verify_cmd'', pn_verify_cmd n), (''output_artifacts'', spec_json (pn_outputs n)),
    (''output_schema'', pn_schema n), (''input_contract'', contract_of n),
    (''node_verify_cmd'', pn_node_verify n), (''repair_policy'', pn_repair n),
    (''max_retries'', JInt (pn_max_retries n)), (''read_scopes'', texts_json (pn_reads n)),
    (''write_scopes'', texts_json (pn_writes n)), (''critical_path_depth'', JInt (depth_in ds (pn_id n))),
    (''verification_cost'', JInt (verification_cost n))]"

definition conflict_json :: "conflict \<Rightarrow> json" where
  "conflict_json c = JObj [(''group_id'', JStr (cf_group c)), (''task_ids'', texts_json (cf_tasks c)),
    (''reason'', JStr ''overlapping_write_scopes''), (''write_scopes'', texts_json (cf_scopes c))]"

definition recommendation_json :: "conflict \<Rightarrow> json" where
  "recommendation_json c = JObj [(''group_id'', JStr (cf_group c)), (''action'', JStr ''serialize''),
    (''ordered_task_ids'', texts_json (cf_tasks c)), (''reason'', JStr ''overlapping_write_scopes''),
    (''write_scopes'', texts_json (cf_scopes c))]"

record plan =
  pl_nodes :: nodes
  pl_order :: "string list"
  pl_depths :: "(string, int) dict"
  pl_critical :: "string list"
  pl_conflicts :: "conflict list"

definition plan_json :: "string option \<Rightarrow> plan \<Rightarrow> payload" where
  "plan_json root p =
    (let cost = (\<lambda>i. verification_cost (node_of (pl_nodes p) i)) in [
    (''schema_version'', JInt 1),
    (''repository_root'', jopt root),
    (''task_count'', JInt (int (length (pl_nodes p)))),
    (''task_order'', texts_json (pl_order p)),
    (''tasks'', JList (map (\<lambda>(i, n). task_entry (pl_depths p) n) (pl_nodes p))),
    (''critical_path'', texts_json (pl_critical p)),
    (''critical_path_depth'', JInt (int (length (pl_critical p)))),
    (''verification_cost'', JObj [(''unit'', JStr ''relative''),
      (''total'', JInt (sum_list (map (cost \<circ> fst) (pl_nodes p)))),
      (''critical_path'', JInt (sum_list (map cost (pl_critical p))))]),
    (''conflict_groups'', JList (map conflict_json (pl_conflicts p))),
    (''serialization_recommendations'', JList (map recommendation_json (pl_conflicts p))),
    (''validation'', JObj [(''status'', JStr ''passed''), (''first_invalid_node'', JNull)])])"

definition known_deps :: "nodes \<Rightarrow> string \<times> pnode \<Rightarrow> unit \<Rightarrow> exc + unit" where
  "known_deps nodes e u =
    (let missing = sorted_texts (filter (\<lambda>d. d \<notin> fst ` set nodes) (pn_depends_on (snd e))) in
     if missing \<noteq> [] then pf_fail (fst e) ''missing_dependency_reference''
       (''depends on unknown task(s): '' @ py_repr (JList (map JStr missing)))
     else Inr ())"

definition compile_nodes :: "nodes \<Rightarrow> exc + plan" where
  "compile_nodes nodes =
    bindE (foldE (known_deps nodes) nodes ()) (\<lambda>_.
    bindE (topological_order nodes) (\<lambda>order.
    bindE (foldE (visit_depth nodes) order ([], [])) (\<lambda>(ds, parents).
      case conflict_list (map fst nodes) (\<lambda>i. pn_writes (node_of nodes i)) order of
        None \<Rightarrow> Inl (RuntimeError ''the groups do not end'')
      | Some cs \<Rightarrow> Inr \<lparr>pl_nodes = nodes, pl_order = order, pl_depths = ds,
          pl_critical = rev (path_up (length nodes) parents (leaf_of ds order)), pl_conflicts = cs\<rparr>)))"

definition compile_plan :: "json \<Rightarrow> exc + plan" where
  "compile_plan specs = (case specs of
      JList (x # xs) \<Rightarrow> bindE (foldE pf_add_node (x # xs) []) compile_nodes
    | _ \<Rightarrow> Inl (pf_error None ''empty_graph'' ''task_specs must be a non-empty list''))"

definition compile_preflight_plan :: "json \<Rightarrow> string option \<Rightarrow> exc + payload" where
  "compile_preflight_plan specs root = map_sum id (plan_json root) (compile_plan specs)"

section \<open>The target of an injected fault\<close>

definition validate_fault_target :: "json \<Rightarrow> json \<Rightarrow> exc + payload option" where
  "validate_fault_target specs fault = (case fault of
      JNull \<Rightarrow> Inr None
    | JObj f \<Rightarrow>
        if \<not> truthy (jget ''target_reachable'' f) then Inr None
        else
          (let target = strip (text_field ''task_id'' [] f) in
           if target = [] then Inl (pf_error None ''missing_fault_target''
             ''target-reachable fault injection requires task_id'')
           else bindE (compile_plan specs) (\<lambda>p.
             case map_of (pl_nodes p) target of
               None \<Rightarrow> pf_fail target ''missing_fault_target''
                 (''fault target '' @ repr_str target @ '' is not in the workflow'')
             | Some n \<Rightarrow>
                 if pn_depends_on n \<noteq> [] then pf_fail target ''fault_target_not_root''
                   (''target-reachable fault target must be a root; depends on '' @
                     py_repr (texts_json (pn_depends_on n)))
                 else Inr (Some [(''target'', JStr target),
                   (''mode'', JStr (text_field ''mode'' ''worker_exit'' f)),
                   (''root'', JBool True), (''status'', JStr ''validated'')])))
    | _ \<Rightarrow> Inl (pf_error None ''malformed_fault_injection'' ''fault_injection must be an object''))"

end
