(* ===== verification/Plan_Order.thy ===== *)
theory Plan_Order
  imports Plan
begin

text \<open>
  The order of the plan: it exists exactly when the task graph has no cycle, and puts every task
  after its prerequisites.
\<close>

section \<open>The graph of a workflow\<close>

definition node_ids :: "nodes \<Rightarrow> string set" where
  "node_ids ns = fst ` set ns"

definition prereqs :: "nodes \<Rightarrow> string \<Rightarrow> string list" where
  "prereqs ns i = (case map_of ns i of None \<Rightarrow> [] | Some n \<Rightarrow> pn_depends_on n)"

definition well_linked :: "nodes \<Rightarrow> bool" where
  "well_linked ns \<longleftrightarrow> distinct (map fst ns) \<and> (\<forall>i \<in> node_ids ns. set (prereqs ns i) \<subseteq> node_ids ns)"

text \<open>The restriction to the nodes makes the prerequisites a graph on them for every dictionary.\<close>

definition graph_prereq :: "nodes \<Rightarrow> string \<Rightarrow> string set" where
  "graph_prereq ns i = set (prereqs ns i) \<inter> node_ids ns"

interpretation workflow: dep_graph "node_ids ns" "graph_prereq ns" for ns
  by unfold_locales (auto simp: node_ids_def graph_prereq_def)

lemma graph_prereq_linked: "well_linked ns \<Longrightarrow> i \<in> node_ids ns \<Longrightarrow> graph_prereq ns i = set (prereqs ns i)"
  by (auto simp: graph_prereq_def well_linked_def)

section \<open>One node is taken\<close>

definition open_of :: "nodes \<Rightarrow> string list \<Rightarrow> string \<Rightarrow> string list" where
  "open_of ns order i = filter (\<lambda>d. d \<notin> set order) (prereqs ns i)"

definition topo_inv :: "nodes \<Rightarrow> string list \<Rightarrow> (string, string list) dict \<Rightarrow> string list \<Rightarrow> bool" where
  "topo_inv ns order rem ready \<longleftrightarrow> map fst rem = map fst ns \<and>
    (\<forall>i \<in> node_ids ns. map_of rem i = Some (open_of ns order i)) \<and>
    workflow.peeled ns order \<and> distinct ready \<and>
    set ready = {i \<in> node_ids ns. i \<notin> set order \<and> open_of ns order i = []}"

lemma removeAll_open: "removeAll v (open_of ns order i) = open_of ns (order @ [v]) i"
  by (auto simp: open_of_def removeAll_filter_not_eq intro!: filter_cong)

lemma open_other: "v \<notin> set (open_of ns order i) \<Longrightarrow> v \<notin> set order \<Longrightarrow> open_of ns (order @ [v]) i = open_of ns order i"
  unfolding open_of_def by (rule filter_cong) auto

text \<open>The visits in progress: the nodes of \<open>ps\<close> have been visited.\<close>

definition visiting :: "nodes \<Rightarrow> string list \<Rightarrow> string \<Rightarrow> string list \<Rightarrow> string list
    \<Rightarrow> (string, string list) dict \<times> string list \<Rightarrow> bool" where
  "visiting ns order v ready ps st \<longleftrightarrow> map fst (fst st) = map fst ns \<and>
    (\<forall>i \<in> node_ids ns. map_of (fst st) i = Some (open_of ns (if i \<in> set ps then order @ [v] else order) i)) \<and>
    distinct (snd st) \<and>
    set (snd st) = set ready \<union> {i \<in> set ps. v \<in> set (open_of ns order i) \<and> open_of ns (order @ [v]) i = []}"

lemma visit_step:
  assumes inv: "visiting ns order v ready ps st" and v: "v \<notin> set order" and x: "x \<in> node_ids ns" "x \<notin> set ps"
    and new: "v \<in> set (open_of ns order x) \<Longrightarrow> x \<notin> set (order @ [v]) \<and> x \<notin> set ready"
  shows "visiting ns order v ready (ps @ [x]) (topo_visit (order @ [v]) v x st)"
proof -
  have look: "map_of (fst st) x = Some (open_of ns order x)" using inv x unfolding visiting_def by auto
  have key: "x \<in> fst ` set (fst st)"
    using inv x(1) unfolding visiting_def node_ids_def by (metis image_set)
  show ?thesis
  proof (cases "v \<in> set (open_of ns order x)")
    case False
    then have "topo_visit (order @ [v]) v x st = st"
      by (simp only: topo_visit_def Let_def look option.case if_False)
    then show ?thesis
      using inv open_other[OF False v] False x by (auto simp: visiting_def)
  next
    case True
    then have notin: "x \<notin> set (order @ [v])" "x \<notin> set (snd st)"
      using new inv x(2) by (auto simp: visiting_def)
    let ?o = "open_of ns (order @ [v]) x"
    have run: "topo_visit (order @ [v]) v x st = (AList.update x ?o (fst st),
        if ?o = [] then snd st @ [x] else snd st)"
      using True notin
      by (simp only: topo_visit_def Let_def look option.case removeAll_open if_True not_False_eq_True simp_thms)
    have "map fst (AList.update x ?o (fst st)) = map fst (fst st)" using key by (simp add: update_keys)
    then have keys: "map fst (AList.update x ?o (fst st)) = map fst ns" using inv by (simp add: visiting_def)
    show ?thesis
      using inv True notin unfolding visiting_def run
      by (auto simp: keys update_conv')
  qed
qed

lemma visits:
  assumes v: "v \<notin> set order"
    and new: "\<And>x. v \<in> set (open_of ns order x) \<Longrightarrow> x \<in> node_ids ns \<Longrightarrow> x \<notin> set (order @ [v]) \<and> x \<notin> set ready"
  shows "visiting ns order v ready ps st \<Longrightarrow> distinct (ps @ xs) \<Longrightarrow> set xs \<subseteq> node_ids ns \<Longrightarrow>
    visiting ns order v ready (ps @ xs) (fold (topo_visit (order @ [v]) v) xs st)"
proof (induction xs arbitrary: ps st)
  case (Cons x xs)
  have "visiting ns order v ready (ps @ [x]) (topo_visit (order @ [v]) v x st)"
    by (rule visit_step[OF Cons.prems(1) v]) (use Cons.prems new in auto)
  from Cons.IH[OF this] show ?case using Cons.prems by simp
qed simp

section \<open>The loop\<close>

lemma open_nil: "open_of ns order i = [] \<longleftrightarrow> set (prereqs ns i) \<subseteq> set order"
  by (auto simp: open_of_def filter_empty_conv)

lemma topo_step:
  assumes linked: "well_linked ns" and inv: "topo_inv ns order rem (v # ready)"
  shows "case fold (topo_visit (order @ [v]) v) (sort (map fst rem)) (rem, ready) of
    (rem', ready') \<Rightarrow> topo_inv ns (order @ [v]) rem' (sort ready')"
proof -
  have keys: "map fst rem = map fst ns" and peel: "workflow.peeled ns order"
    and rd: "set (v # ready) = {i \<in> node_ids ns. i \<notin> set order \<and> open_of ns order i = []}" "distinct (v # ready)"
    using inv by (auto simp: topo_inv_def)
  have v: "v \<in> node_ids ns" "v \<notin> set order" "open_of ns order v = []" using rd(1) by auto
  have sub: "set order \<subseteq> node_ids ns" using peel by (simp add: workflow.peeled_def)
  have met: "open_of ns order x = []" if "x \<in> set order" for x
    using workflow.peeled_prereq[OF peel that] sub that graph_prereq_linked[OF linked] by (auto simp: open_nil)
  have new: "x \<notin> set (order @ [v]) \<and> x \<notin> set ready" if "v \<in> set (open_of ns order x)" "x \<in> node_ids ns" for x
  proof -
    have ne: "open_of ns order x \<noteq> []" using that(1) by auto
    then have "x \<noteq> v" "x \<notin> set order" "x \<notin> set (v # ready)" using met v(3) rd(1) by auto
    then show ?thesis by simp
  qed
  let ?ids = "sort (map fst rem)"
  have start: "visiting ns order v ready [] (rem, ready)"
    using inv by (simp add: visiting_def topo_inv_def)
  have ids: "distinct ([] @ ?ids)" "set ?ids = node_ids ns"
    using linked by (simp_all add: keys well_linked_def node_ids_def)
  let ?st = "fold (topo_visit (order @ [v]) v) ?ids (rem, ready)"
  have fin: "visiting ns order v ready ([] @ ?ids) ?st"
    by (rule visits[OF v(2) new start ids(1)]) (simp_all only: ids(2) order_refl)
  have peel': "workflow.peeled ns (order @ [v])"
    using peel v graph_prereq_linked[OF linked v(1)] by (intro workflow.peeled_snoc) (auto simp: open_nil)
  have "set (snd ?st) = {i \<in> node_ids ns. i \<notin> set (order @ [v]) \<and> open_of ns (order @ [v]) i = []}"
  proof (intro equalityI subsetI)
    fix i assume "i \<in> set (snd ?st)"
    then consider "i \<in> set ready" | "i \<in> node_ids ns" "v \<in> set (open_of ns order i)" "open_of ns (order @ [v]) i = []"
      using fin ids(2) by (auto simp: visiting_def)
    then show "i \<in> {i \<in> node_ids ns. i \<notin> set (order @ [v]) \<and> open_of ns (order @ [v]) i = []}"
    proof cases
      case 1
      then show ?thesis using rd by (auto simp: open_nil)
    next
      case 2
      then show ?thesis using new[OF 2(2,1)] by simp
    qed
  next
    fix i assume i: "i \<in> {i \<in> node_ids ns. i \<notin> set (order @ [v]) \<and> open_of ns (order @ [v]) i = []}"
    show "i \<in> set (snd ?st)"
    proof (cases "v \<in> set (open_of ns order i)")
      case True
      then show ?thesis using fin i ids(2) by (auto simp: visiting_def)
    next
      case False
      then have "open_of ns order i = []" using i open_other[OF False v(2)] by simp
      then have "i \<in> set (v # ready)" using i rd(1) by auto
      then show ?thesis using fin i by (auto simp: visiting_def)
    qed
  qed
  moreover have "map fst (fst ?st) = map fst ns" "distinct (snd ?st)"
      "\<forall>i \<in> node_ids ns. map_of (fst ?st) i = Some (open_of ns (order @ [v]) i)"
    using fin ids(2) by (auto simp: visiting_def)
  ultimately show ?thesis
    using peel' unfolding topo_inv_def by (cases ?st) simp
qed

lemma topo_loop_spec:
  assumes linked: "well_linked ns"
  shows "topo_inv ns order rem ready \<Longrightarrow> length order + k = length ns \<Longrightarrow>
    \<exists>order' rem'. topo_loop k rem ready order = Some (order', rem') \<and> topo_inv ns order' rem' []"
proof (induction k arbitrary: order rem ready)
  case 0
  have d: "distinct order" "set order \<subseteq> node_ids ns" using 0(1) by (auto simp: topo_inv_def workflow.peeled_def)
  have "card (node_ids ns) = length ns"
    using linked distinct_card[of "map fst ns"] by (simp add: well_linked_def node_ids_def)
  then have "card (set order) = card (node_ids ns)" using 0(2) distinct_card[OF d(1)] by simp
  then have eq: "set order = node_ids ns" using card_subset_eq[OF _ d(2)] by (simp add: node_ids_def)
  have r: "set ready = {i \<in> node_ids ns. i \<notin> set order \<and> open_of ns order i = []}"
    using 0(1) unfolding topo_inv_def by (elim conjE)
  have "set ready = {}" unfolding r using eq by simp
  then have "ready = []" by simp
  then show ?case using 0(1) by (cases ready) auto
next
  case (Suc k)
  show ?case
  proof (cases ready)
    case Nil
    then show ?thesis using Suc.prems(1) by auto
  next
    case (Cons v rs)
    obtain rem' ready' where st: "fold (topo_visit (order @ [v]) v) (sort (map fst rem)) (rem, rs) = (rem', ready')"
      by (cases "fold (topo_visit (order @ [v]) v) (sort (map fst rem)) (rem, rs)")
    have "topo_inv ns (order @ [v]) rem' (sort ready')"
      using topo_step[OF linked] Suc.prems(1) Cons st by fastforce
    from Suc.IH[OF this] show ?thesis using Suc.prems(2) Cons st by simp
  qed
qed

section \<open>The order is exact\<close>

lemma topo_start:
  assumes "well_linked ns"
  shows "topo_inv ns [] (open_prereqs ns) (first_ready (open_prereqs ns))"
proof -
  have dist: "distinct (map fst ns)" using assms by (simp add: well_linked_def)
  have look: "map_of (open_prereqs ns) i = map_option pn_depends_on (map_of ns i)" for i
    by (induction ns) (auto simp: open_prereqs_def)
  have mem: "map_of (open_prereqs ns) i = Some (open_of ns [] i)" if "i \<in> node_ids ns" for i
    using that by (cases "map_of ns i") (auto simp: look open_of_def prereqs_def node_ids_def map_of_eq_None_iff)
  have keys: "map fst (open_prereqs ns) = map fst ns" by (auto simp: open_prereqs_def)
  have entry: "(i, []) \<in> set (open_prereqs ns) \<longleftrightarrow> map_of (open_prereqs ns) i = Some []" for i
    using dist keys by (simp add: map_of_eq_Some_iff)
  have inside: "i \<in> node_ids ns" if "(i, []) \<in> set (open_prereqs ns)" for i
    using that by (force simp: open_prereqs_def node_ids_def)
  have "i \<in> set (first_ready (open_prereqs ns)) \<longleftrightarrow> (i, []) \<in> set (open_prereqs ns)" for i
    by (force simp: first_ready_def)
  then have "set (first_ready (open_prereqs ns)) = {i \<in> node_ids ns. open_of ns [] i = []}"
    using inside[unfolded entry] mem by (fastforce simp: entry)
  moreover have "distinct (first_ready (open_prereqs ns))"
    using dist keys by (simp add: first_ready_def distinct_map_filter)
  ultimately show ?thesis
    using mem keys by (simp add: topo_inv_def workflow.peeled_Nil)
qed

lemma order_exact:
  assumes linked: "well_linked ns"
  shows "(\<exists>order. topological_order ns = Inr order) \<longleftrightarrow> acyclic (workflow.needs ns)"
    "topological_order ns = Inr order \<Longrightarrow> workflow.peeled ns order \<and> set order = node_ids ns"
    "topological_order ns = Inl e \<Longrightarrow> \<exists>i msg. e = PreflightError (Some i) ''cycle'' msg"
proof -
  obtain order' rem' where run: "topo_loop (length ns) (open_prereqs ns) (first_ready (open_prereqs ns)) [] = Some (order', rem')"
    and inv: "topo_inv ns order' rem' []"
    using topo_loop_spec[OF linked topo_start[OF linked]] by auto
  have peel: "workflow.peeled ns order'" and none: "{} = {i \<in> node_ids ns. i \<notin> set order' \<and> open_of ns order' i = []}"
    using inv unfolding topo_inv_def by simp_all
  have stuck: "workflow.stuck ns order'"
    using none graph_prereq_linked[OF linked] unfolding workflow.stuck_def open_nil by auto
  have card: "card (node_ids ns) = length ns"
    using linked distinct_card[of "map fst ns"] by (simp add: well_linked_def node_ids_def)
  have exact: "length order' = length ns \<longleftrightarrow> acyclic (workflow.needs ns)"
    using workflow.covers_iff_acyclic[OF peel stuck] card by simp
  show "(\<exists>order. topological_order ns = Inr order) \<longleftrightarrow> acyclic (workflow.needs ns)"
    using exact by (simp add: topological_order_def run pf_fail_def Let_def)
  show "workflow.peeled ns order \<and> set order = node_ids ns" if "topological_order ns = Inr order"
  proof -
    have o: "order = order'" "length order' = length ns"
      using that by (auto simp: topological_order_def run pf_fail_def Let_def split: if_splits)
    have d: "distinct order'" "set order' \<subseteq> node_ids ns" using peel by (auto simp: workflow.peeled_def)
    have "card (set order') = card (node_ids ns)" using o(2) card distinct_card[OF d(1)] by simp
    then have "set order' = node_ids ns" using card_subset_eq[OF _ d(2)] by (simp add: node_ids_def)
    then show ?thesis using peel o(1) by simp
  qed
  show "\<exists>i msg. e = PreflightError (Some i) ''cycle'' msg" if "topological_order ns = Inl e"
    using that by (auto simp: topological_order_def run pf_fail_def pf_error_def Let_def split: if_splits)
qed

end
