(* ===== verification/Plan_Laws.thy ===== *)
theory Plan_Laws
  imports Plan_Order
begin

text \<open>
  What the preflight promises of the plan it compiles: accepted paths, the nodes, the inputs, and
  the depths from which the critical path is read.
\<close>

section \<open>Paths\<close>

definition safe_path :: "string \<Rightarrow> bool" where
  "safe_path p \<longleftrightarrow> p \<noteq> [] \<and> hd p \<noteq> slash \<and> CHR 0x00 \<notin> set p \<and> ''..'' \<notin> set (split_on slash p)"

lemma split_on_parts: "p \<in> set (split_on c s) \<Longrightarrow> c \<notin> set p \<and> set p \<subseteq> set s"
proof (induction s arbitrary: p)
  case (Cons x xs)
  then show ?case by (cases "split_on c xs") (fastforce split: if_splits)+
qed simp

lemma split_on_nonempty [simp]: "split_on c s \<noteq> []"
  by (induction s) (auto split: list.split)

lemma split_on_no_sep: "c \<notin> set p \<Longrightarrow> split_on c p = [p]"
  by (induction p) auto

lemma split_on_append: "c \<notin> set p \<Longrightarrow> split_on c (p @ c # r) = p # split_on c r"
  by (induction p) auto

lemma split_on_snoc: "split_on c (s @ [c]) = split_on c s @ [[]]"
  by (induction s) (auto split: list.split)

lemma split_join:
  "ps \<noteq> [] \<Longrightarrow> (\<And>p. p \<in> set ps \<Longrightarrow> c \<notin> set p) \<Longrightarrow> split_on c (join [c] ps) = ps"
  by (induction "[c]" ps rule: join.induct) (simp_all add: split_on_no_sep split_on_append)

lemma join_chars: "set (join sep ps) \<subseteq> set sep \<union> (\<Union>p \<in> set ps. set p)"
  by (induction sep ps rule: join.induct) auto

lemma join_hd: "p \<noteq> [] \<Longrightarrow> hd (join sep (p # ps)) = hd p \<and> join sep (p # ps) \<noteq> []"
  by (cases ps) auto

lemma path_part: "p \<in> set (path_parts s) \<Longrightarrow> p \<noteq> [] \<and> slash \<notin> set p \<and> set p \<subseteq> set s"
  using split_on_parts by (fastforce simp: path_parts_def)

lemma normpath_parts:
  assumes "path_parts s \<noteq> []"
  shows "split_on slash (normpath s) = path_parts s"
  using assms split_join[of "path_parts s" slash] path_part by (simp add: normpath_def slash_def)

lemma normpath_inside:
  assumes "CHR 0x00 \<notin> set s" "''..'' \<notin> set (path_parts s)"
  shows "safe_path (normpath s)"
proof (cases "path_parts s")
  case Nil
  then show ?thesis by (simp add: safe_path_def normpath_def slash_def)
next
  case (Cons p ps)
  have p: "p \<noteq> []" "hd p \<noteq> slash" using path_part[of p s] Cons by (auto, metis hd_in_set)
  have n: "normpath s = join ''/'' (p # ps)" by (simp only: normpath_def Cons list.distinct if_False)
  have "CHR 0x00 \<notin> set (join ''/'' (p # ps))"
  proof
    assume "CHR 0x00 \<in> set (join ''/'' (p # ps))"
    then obtain q where "q \<in> set (p # ps)" "CHR 0x00 \<in> set q"
      using join_chars[of "''/''" "p # ps"] by (auto split: if_splits)
    then show False using path_part[of q s] assms(1) unfolding Cons by blast
  qed
  moreover have "''..'' \<notin> set (split_on slash (normpath s))"
    using normpath_parts[of s] assms(2) Cons by (simp only: list.distinct not_False_eq_True)
  ultimately show ?thesis
    using join_hd[OF p(1), of "''/''" ps] p(2) unfolding safe_path_def n by simp
qed

lemma inside_dir: "safe_path p \<Longrightarrow> safe_path (p @ ''/'')"
  using split_on_snoc[of slash p] by (cases p) (auto simp: safe_path_def slash_def)

lemma strip_slashes_chars: "set (strip_slashes s) \<subseteq> set s"
  using set_dropWhileD by (fastforce simp: strip_slashes_def)

lemma pf_path_inside:
  assumes "pf_path node field allow v = Inr p"
  shows "safe_path p"
proof -
  obtain s where v: "v = JStr s" using assms by (cases v) (auto simp: pf_path_def pf_fail_def)
  let ?shown = "map (\<lambda>c. if c = CHR 0x5C then slash else c) (strip s)"
  let ?cand = "if strip_slashes ?shown = [] then ''.'' else strip_slashes ?shown"
  have p: "p = normpath ?cand @ (if last ?shown = slash then ''/'' else [])"
    and nul: "CHR 0x00 \<notin> set ?shown" and up: "''..'' \<notin> set (path_parts ?cand)"
    using assms unfolding v pf_path_def Let_def json.case pf_fail_def
    by (simp_all only: split: if_splits) simp_all
  have "CHR 0x00 \<notin> set ?cand" using nul strip_slashes_chars[of ?shown] by auto
  then show ?thesis unfolding p using normpath_inside[OF _ up] inside_dir by simp
qed

section \<open>Nodes\<close>

text \<open>What a node that passed the checks of its specification satisfies.\<close>

definition node_ok :: "pnode \<Rightarrow> bool" where
  "node_ok n \<longleftrightarrow> pn_id n \<noteq> [] \<and> pn_brief n \<noteq> [] \<and>
    distinct (pn_depends_on n) \<and> pn_id n \<notin> set (pn_depends_on n) \<and> 0 \<le> pn_max_retries n \<and>
    pn_delivery_mode n \<in> {''pr'', ''local'', ''scout''} \<and>
    distinct (map spec_path (pn_outputs n)) \<and> distinct (pn_inputs n) \<and>
    (\<forall>p \<in> set (map spec_path (pn_outputs n)) \<union> set (pn_inputs n) \<union> set (pn_reads n) \<union> set (pn_writes n).
      safe_path p)"

definition nodes_ok :: "nodes \<Rightarrow> bool" where
  "nodes_ok ns \<longleftrightarrow> distinct (map fst ns) \<and> (\<forall>(i, n) \<in> set ns. pn_id n = i \<and> node_ok n)"

lemma foldE_keeps:
  "(\<And>e s s'. P s \<Longrightarrow> f e s = Inr s' \<Longrightarrow> P s') \<Longrightarrow> P s \<Longrightarrow> foldE f es s = Inr s' \<Longrightarrow> P s'"
  by (induction es arbitrary: s) (auto split: sum.splits)

lemma mapE_all:
  assumes "mapE f xs = Inr ys" "\<And>x y. f x = Inr y \<Longrightarrow> Q y"
  shows "\<forall>y \<in> set ys. Q y"
  using mapE_Inr[OF assms(1)] assms(2) by (induction rule: list_all2_induct) auto

lemma spec_path_update [simp]: "spec_path (AList.update ''path'' (JStr p) s) = p"
  by (simp add: spec_path_def jget_def update_conv)

definition specs_ok :: "payload list \<Rightarrow> bool" where
  "specs_ok ss \<longleftrightarrow> distinct (map spec_path ss) \<and> (\<forall>p \<in> set (map spec_path ss). safe_path p)"

lemma artifact_specs_ok:
  assumes "pf_artifact_specs node v = Inr specs"
  shows "specs_ok specs"
proof -
  have add: "specs_ok ss'" if "specs_ok ss" "pf_add_spec node item ss = Inr ss'" for item ss ss'
    using that pf_path_inside
    by (auto simp: pf_add_spec_def bindE_Inr_iff specs_ok_def pf_fail_def split: if_splits)
  have nil: "specs_ok []" by (simp add: specs_ok_def)
  then show ?thesis
    using assms foldE_keeps[of specs_ok "pf_add_spec node", OF add nil]
    by (auto simp: pf_artifact_specs_def bindE_Inr_iff split: if_splits)
qed

lemma required_inputs_ok:
  assumes "pf_required_inputs node v = Inr paths"
  shows "distinct paths \<and> (\<forall>p \<in> set paths. safe_path p)"
proof -
  have all: "\<forall>p \<in> set ps. safe_path p" if "mapE (\<lambda>x. pf_path node ''input_contract'' False (input_name x)) xs = Inr ps"
    for xs ps by (rule mapE_all[OF that pf_path_inside])
  show ?thesis
    using assms
    by (auto simp: pf_required_inputs_def bindE_Inr_iff pf_fail_def Let_def
      split: if_splits option.splits dest!: all)
qed

lemma scopes_ok:
  assumes "pf_scopes raw keys node access = Inr paths"
  shows "\<forall>p \<in> set paths. safe_path p"
proof -
  have items: "\<forall>p \<in> set ps. safe_path p" if "map_sum id sorted_texts (mapE (pf_path node field True) xs) = Inr ps"
    for xs ps field
  proof -
    note run = that
    obtain qs where "mapE (pf_path node field True) xs = Inr qs" "ps = sorted_texts qs"
      using run by (auto simp: map_sum_Inr_iff)
    then show ?thesis using mapE_all[of "pf_path node field True" xs qs safe_path] pf_path_inside
      by (simp add: sorted_texts_def)
  qed
  show ?thesis
    using assms unfolding pf_scopes_def bindE_Inr_iff Let_def
    by (auto simp: pf_fail_def split: if_splits option.splits list.splits dest!: items)
qed

lemma depends_ok: "pf_depends node raw = Inr ds \<Longrightarrow> distinct ds \<and> node \<notin> set ds"
  by (auto simp: pf_depends_def pf_fail_def Let_def split: if_splits option.splits)

lemma retries_ok: "pf_retries node raw = Inr n \<Longrightarrow> 0 \<le> n"
  by (auto simp: pf_retries_def pf_fail_def split: if_splits option.splits)

lemma mode_ok: "pf_mode node raw = Inr m \<Longrightarrow> m \<in> {''pr'', ''local'', ''scout''}"
  by (auto simp: pf_mode_def pf_fail_def Let_def split: if_splits)

lemma pf_node_ok:
  assumes "pf_node node brief raw = Inr n" "node \<noteq> []" "brief \<noteq> []"
  shows "pn_id n = node \<and> node_ok n"
proof -
  obtain deps retries outputs inputs reads writes mode where parts:
      "pf_depends node raw = Inr deps" "pf_retries node raw = Inr retries" "pf_mode node raw = Inr mode"
      "pf_artifact_specs node (jget ''output_artifacts'' raw) = Inr outputs"
      "pf_required_inputs node (pf_contract raw) = Inr inputs"
      "pf_scopes raw read_keys node ''read'' = Inr reads" "pf_scopes raw write_keys node ''write'' = Inr writes"
    and n: "pn_id n = node" "pn_brief n = brief" "pn_depends_on n = deps" "pn_max_retries n = retries"
      "pn_delivery_mode n = mode" "pn_outputs n = outputs" "pn_inputs n = inputs" "pn_reads n = reads" "pn_writes n = writes"
    using assms(1) unfolding pf_node_def bindE_Inr_iff by auto
  show ?thesis
    using depends_ok[OF parts(1)] retries_ok[OF parts(2)] mode_ok[OF parts(3)] artifact_specs_ok[OF parts(4)]
      required_inputs_ok[OF parts(5)] scopes_ok[OF parts(6)] scopes_ok[OF parts(7)] assms(2,3)
    by (simp add: node_ok_def n specs_ok_def ball_Un)
qed

lemma add_node_ok:
  assumes "nodes_ok ns" "pf_add_node item ns = Inr ns'"
  shows "nodes_ok ns' \<and> ns' \<noteq> []"
  using assms pf_node_ok
  by (auto simp: pf_add_node_def nodes_ok_def bindE_Inr_iff pf_fail_def Let_def split: if_splits json.splits)

lemma add_nodes_ok:
  assumes "foldE pf_add_node items [] = Inr ns"
  shows "nodes_ok ns"
proof (rule foldE_keeps[OF _ _ assms, of nodes_ok])
  show "nodes_ok []" by (simp add: nodes_ok_def)
qed (use add_node_ok in blast)

section \<open>Depths\<close>

lemma hd_sort_key:
  assumes "xs \<noteq> []"
  shows "hd (sort_key f xs) \<in> set xs \<and> (\<forall>x \<in> set xs. f (hd (sort_key f xs)) \<le> f x)"
proof -
  obtain y ys where y: "sort_key f xs = y # ys" using assms by (metis length_0_conv length_sort neq_Nil_conv)
  moreover have "sorted (map f (sort_key f xs))" "set (sort_key f xs) = set xs" by simp_all
  ultimately show ?thesis by (metis (mono_tags, lifting) eq_iff list.sel(1) list.set_intros(1) list.simps(9) set_ConsD sorted_simps(2) image_eqI set_map)
qed

lemma sort_empty [simp]: "sort xs = [] \<longleftrightarrow> xs = []"
  by (metis length_0_conv length_sort)

lemma deepest_spec:
  "deps \<noteq> [] \<Longrightarrow> deepest ds deps \<in> set deps \<and> (\<forall>d \<in> set deps. depth_in ds d \<le> depth_in ds (deepest ds deps))"
  using hd_sort_key[of "sort deps" "\<lambda>i. - depth_in ds i"] by (auto simp: deepest_def)

lemma node_of_prereqs: "i \<in> node_ids ns \<Longrightarrow> pn_depends_on (node_of ns i) = prereqs ns i"
  by (cases "map_of ns i") (auto simp: node_of_def prereqs_def node_ids_def map_of_eq_None_iff)

text \<open>A root has depth 1; another node is one deeper than its parent, its deepest prerequisite.\<close>

definition depth_ok :: "nodes \<Rightarrow> depths \<Rightarrow> string \<Rightarrow> bool" where
  "depth_ok ns st i \<longleftrightarrow>
    (if prereqs ns i = [] then depth_in (fst st) i = 1 \<and> map_of (snd st) i = Some None
     else \<exists>m \<in> set (prereqs ns i). map_of (snd st) i = Some (Some m) \<and>
       depth_in (fst st) i = depth_in (fst st) m + 1 \<and>
       (\<forall>d \<in> set (prereqs ns i). depth_in (fst st) d \<le> depth_in (fst st) m))"

lemma depth_parent:
  "depth_ok ns st i \<Longrightarrow> prereqs ns i \<noteq> [] \<Longrightarrow>
    \<exists>m \<in> set (prereqs ns i). map_of (snd st) i = Some (Some m) \<and> depth_in (fst st) i = depth_in (fst st) m + 1"
  by (auto simp: depth_ok_def)

lemma depth_update: "depth_in (AList.update i n ds) j = (if j = i then n else depth_in ds j)"
  by (simp add: depth_in_def update_conv)

lemma depth_ok_other:
  assumes "depth_ok ns st j" "i \<noteq> j" "i \<notin> set (prereqs ns j)"
  shows "depth_ok ns (AList.update i n (fst st), AList.update i q (snd st)) j"
proof (cases "prereqs ns j = []")
  case True
  then show ?thesis using assms by (simp add: depth_ok_def depth_update update_conv)
next
  case False
  then obtain m where m: "m \<in> set (prereqs ns j)" "map_of (snd st) j = Some (Some m)"
      "depth_in (fst st) j = depth_in (fst st) m + 1"
      "\<forall>d \<in> set (prereqs ns j). depth_in (fst st) d \<le> depth_in (fst st) m"
    using assms(1) by (auto simp: depth_ok_def)
  have "m \<noteq> i" "\<forall>d \<in> set (prereqs ns j). d \<noteq> i" using m(1) assms(3) by auto
  then show ?thesis using False m assms(2)
    by (auto simp: depth_ok_def depth_update update_conv intro!: bexI[of _ m])
qed

lemma visit_depth_ok:
  assumes "visit_depth ns i st = Inr st'" "i \<in> node_ids ns" "i \<notin> set (prereqs ns i)"
  shows "depth_ok ns st' i \<and> (\<exists>n q. st' = (AList.update i n (fst st), AList.update i q (snd st)))
    \<and> check_inputs ns i = Inr ()"
  using assms deepest_spec[of "prereqs ns i" "fst st"]
  by (auto simp: visit_depth_def bindE_Inr_iff Let_def node_of_prereqs depth_ok_def depth_update update_conv
    intro!: bexI[of _ "deepest (fst st) (prereqs ns i)"])

lemma peeled_split:
  assumes "workflow.peeled ns (xs @ [x])" "well_linked ns"
  shows "workflow.peeled ns xs \<and> x \<notin> set xs \<and> x \<in> node_ids ns \<and> set (prereqs ns x) \<subseteq> set xs"
proof -
  have x: "x \<in> node_ids ns" using assms(1) by (simp add: workflow.peeled_def)
  have step: "graph_prereq ns ((xs @ [x]) ! i) \<subseteq> set (take i (xs @ [x]))" if "i < Suc (length xs)" for i
    using assms(1) that by (simp add: workflow.peeled_def)
  have "graph_prereq ns (xs ! i) \<subseteq> set (take i xs)" if "i < length xs" for i
    using step[of i] that by (simp add: nth_append)
  moreover have "graph_prereq ns x \<subseteq> set xs" using step[of "length xs"] by simp
  ultimately show ?thesis
    using assms(1) x graph_prereq_linked[OF assms(2) x] by (simp add: workflow.peeled_def)
qed

lemma visits_ok:
  assumes "well_linked ns"
  shows "workflow.peeled ns order \<Longrightarrow> foldE (visit_depth ns) order ([], []) = Inr st \<Longrightarrow>
    (\<forall>i \<in> set order. depth_ok ns st i \<and> set (prereqs ns i) \<subseteq> set order \<and> check_inputs ns i = Inr () \<and>
      1 \<le> depth_in (fst st) i \<and> depth_in (fst st) i \<le> int (length order))"
proof (induction order arbitrary: st rule: rev_induct)
  case (snoc x xs)
  obtain mid where mid: "foldE (visit_depth ns) xs ([], []) = Inr mid" "visit_depth ns x mid = Inr st"
    using snoc.prems(2) by (auto simp: foldE_append split: sum.splits)
  have x: "workflow.peeled ns xs" "x \<notin> set xs" "x \<in> node_ids ns" "set (prereqs ns x) \<subseteq> set xs"
    using peeled_split[OF snoc.prems(1) assms] by simp_all
  have old: "\<forall>i \<in> set xs. depth_ok ns mid i \<and> set (prereqs ns i) \<subseteq> set xs \<and> check_inputs ns i = Inr () \<and>
      1 \<le> depth_in (fst mid) i \<and> depth_in (fst mid) i \<le> int (length xs)"
    by (rule snoc.IH[OF x(1) mid(1)])
  have fresh: "x \<notin> set (prereqs ns x)" using x(2,4) by auto
  obtain n q where new: "depth_ok ns st x" "check_inputs ns x = Inr ()"
      "st = (AList.update x n (fst mid), AList.update x q (snd mid))"
    using visit_depth_ok[OF mid(2) x(3) fresh] by auto
  have same: "depth_in (fst st) i = depth_in (fst mid) i" if "i \<in> set xs" for i
    using that x(2) new(3) by (auto simp: depth_update)
  have kept: "depth_ok ns st i" if "i \<in> set xs" for i
    unfolding new(3) by (rule depth_ok_other) (use that old x(2) in auto)
  have "1 \<le> depth_in (fst st) x \<and> depth_in (fst st) x \<le> int (length xs) + 1"
    using new(1) old same x(4) by (fastforce simp: depth_ok_def split: if_splits)
  then show ?case using old same kept new(1,2) x(4) by fastforce
qed simp

section \<open>The critical path\<close>

text \<open>A chain of tasks, each a prerequisite of the next.\<close>

definition dep_chain :: "nodes \<Rightarrow> string list \<Rightarrow> bool" where
  "dep_chain ns is \<longleftrightarrow> set is \<subseteq> node_ids ns \<and> successively (\<lambda>a b. a \<in> set (prereqs ns b)) is"

lemma dep_chain_snoc2:
  "dep_chain ns (xs @ [a, b]) \<longleftrightarrow> dep_chain ns (xs @ [a]) \<and> b \<in> node_ids ns \<and> a \<in> set (prereqs ns b)"
  by (auto simp: dep_chain_def successively_append_iff)

lemma depth_above:
  assumes "depth_ok ns st b" "a \<in> set (prereqs ns b)"
  shows "depth_in (fst st) a < depth_in (fst st) b"
  using assms by (fastforce simp: depth_ok_def split: if_splits)

lemma chain_length_le:
  assumes ok: "\<forall>i \<in> node_ids ns. depth_ok ns st i \<and> 1 \<le> depth_in (fst st) i"
  shows "dep_chain ns (is @ [i]) \<Longrightarrow> int (length (is @ [i])) \<le> depth_in (fst st) i"
proof (induction "is" arbitrary: i rule: rev_induct)
  case Nil
  then show ?case using ok by (simp add: dep_chain_def)
next
  case (snoc a xs)
  have c: "dep_chain ns (xs @ [a])" "i \<in> node_ids ns" "a \<in> set (prereqs ns i)"
    using snoc.prems dep_chain_snoc2[of ns xs a i] by simp_all
  show ?case using snoc.IH[OF c(1)] depth_above[of ns st i a] ok c(2,3) by fastforce
qed

lemma path_up_chain:
  assumes ok: "\<forall>i \<in> node_ids ns. depth_ok ns st i \<and> 1 \<le> depth_in (fst st) i \<and> set (prereqs ns i) \<subseteq> node_ids ns"
  shows "i \<in> node_ids ns \<Longrightarrow> depth_in (fst st) i = int (Suc n) \<Longrightarrow> n \<le> k \<Longrightarrow>
    \<exists>xs. rev (path_up k (snd st) i) = xs @ [i] \<and> dep_chain ns (xs @ [i]) \<and> length xs = n"
proof (induction k arbitrary: i n)
  case 0
  then show ?case by (simp add: dep_chain_def)
next
  case (Suc k)
  show ?case
  proof (cases "prereqs ns i = []")
    case True
    then have "map_of (snd st) i = Some None" "depth_in (fst st) i = 1"
      using ok Suc.prems(1) by (auto simp: depth_ok_def)
    then show ?thesis using Suc.prems(1,2) by (simp add: dep_chain_def)
  next
    case False
    then obtain m where m: "m \<in> set (prereqs ns i)" "map_of (snd st) i = Some (Some m)"
        "depth_in (fst st) i = depth_in (fst st) m + 1"
      using ok Suc.prems(1) depth_parent by blast
    have in_ids: "m \<in> node_ids ns" using ok Suc.prems(1) m(1) by blast
    then have "1 \<le> depth_in (fst st) m" using ok by blast
    then obtain n' where n': "n = Suc n'" using m(3) Suc.prems(2) by (cases n) auto
    then have n: "n = Suc n'" "depth_in (fst st) m = int (Suc n')" using m(3) Suc.prems(2) by simp_all
    obtain xs where xs: "rev (path_up k (snd st) m) = xs @ [m]" "dep_chain ns (xs @ [m])" "length xs = n'"
      using Suc.IH[OF in_ids n(2)] Suc.prems(3) n(1) by auto
    have "rev (path_up (Suc k) (snd st) i) = (xs @ [m]) @ [i]" using m(2) xs(1) by simp
    moreover have "dep_chain ns ((xs @ [m]) @ [i])"
      using dep_chain_snoc2[of ns xs m i] xs(2) Suc.prems(1) m(1) by simp
    ultimately show ?thesis using xs(3) n(1) by (intro exI[of _ "xs @ [m]"]) simp
  qed
qed

section \<open>The compiled plan\<close>

lemma known_deps_linked:
  assumes "foldE (known_deps ns) es () = Inr u" "(i, n) \<in> set es"
  shows "set (pn_depends_on n) \<subseteq> fst ` set ns"
  using assms
proof (induction es)
  case (Cons e es)
  have here: "set (pn_depends_on (snd e)) \<subseteq> fst ` set ns" if "known_deps ns e () = Inr ()"
    using that
    by (auto simp: known_deps_def pf_fail_def Let_def sorted_texts_def filter_empty_conv remdups_eq_nil_iff
      split: if_splits)
  show ?case using Cons here by (auto split: sum.splits)
qed simp

text \<open>What the compilation of a plan establishes, in the words of the lemmas above.\<close>

definition plan_made :: "plan \<Rightarrow> depths \<Rightarrow> bool" where
  "plan_made p st \<longleftrightarrow> nodes_ok (pl_nodes p) \<and> pl_nodes p \<noteq> [] \<and> well_linked (pl_nodes p) \<and>
    topological_order (pl_nodes p) = Inr (pl_order p) \<and>
    workflow.peeled (pl_nodes p) (pl_order p) \<and> set (pl_order p) = node_ids (pl_nodes p) \<and>
    foldE (visit_depth (pl_nodes p)) (pl_order p) ([], []) = Inr st \<and> pl_depths p = fst st \<and>
    pl_critical p = rev (path_up (length (pl_nodes p)) (snd st) (leaf_of (fst st) (pl_order p))) \<and>
    conflict_list (map fst (pl_nodes p)) (\<lambda>i. pn_writes (node_of (pl_nodes p) i)) (pl_order p) = Some (pl_conflicts p)"

lemma compile_plan_made:
  assumes "compile_plan specs = Inr p"
  shows "\<exists>st. plan_made p st"
proof -
  obtain x xs where specs: "specs = JList (x # xs)"
    using assms by (auto simp: compile_plan_def pf_error_def split: json.splits list.splits)
  obtain ns where ns: "foldE pf_add_node (x # xs) [] = Inr ns" "compile_nodes ns = Inr p"
    using assms unfolding specs compile_plan_def by (auto simp: bindE_Inr_iff)
  have ok: "nodes_ok ns" by (rule add_nodes_ok[OF ns(1)])
  have "ns \<noteq> []"
  proof -
    obtain s where s: "pf_add_node x [] = Inr s" "foldE pf_add_node xs s = Inr ns"
      using ns(1) by (auto split: sum.splits)
    have "nodes_ok s \<and> s \<noteq> []" using add_node_ok[OF _ s(1)] by (simp add: nodes_ok_def)
    from foldE_keeps[of "\<lambda>s. nodes_ok s \<and> s \<noteq> []" pf_add_node, OF _ this s(2)] show ?thesis
      using add_node_ok by blast
  qed
  moreover obtain order st cs where c: "foldE (known_deps ns) ns () = Inr ()" "topological_order ns = Inr order"
      "foldE (visit_depth ns) order ([], []) = Inr st"
      "conflict_list (map fst ns) (\<lambda>i. pn_writes (node_of ns i)) order = Some cs"
      "p = \<lparr>pl_nodes = ns, pl_order = order, pl_depths = fst st,
        pl_critical = rev (path_up (length ns) (snd st) (leaf_of (fst st) order)), pl_conflicts = cs\<rparr>"
    using ns(2) unfolding compile_nodes_def by (auto simp: bindE_Inr_iff split: option.splits prod.splits)
  moreover have linked: "well_linked ns"
    using ok known_deps_linked[OF c(1)]
    by (auto simp: well_linked_def nodes_ok_def prereqs_def node_ids_def split: option.splits dest!: map_of_SomeD)
  ultimately show ?thesis
    using ok order_exact(2)[OF linked c(2)] by (intro exI[of _ st]) (simp add: plan_made_def)
qed

lemma plan_depths:
  assumes "plan_made p st"
  shows "\<forall>i \<in> node_ids (pl_nodes p). depth_ok (pl_nodes p) st i \<and> set (prereqs (pl_nodes p) i) \<subseteq> node_ids (pl_nodes p) \<and>
    check_inputs (pl_nodes p) i = Inr () \<and> 1 \<le> depth_in (fst st) i \<and> depth_in (fst st) i \<le> int (length (pl_nodes p))"
proof -
  have p: "well_linked (pl_nodes p)" "workflow.peeled (pl_nodes p) (pl_order p)"
      "set (pl_order p) = node_ids (pl_nodes p)" "foldE (visit_depth (pl_nodes p)) (pl_order p) ([], []) = Inr st"
    using assms by (simp_all add: plan_made_def)
  have "distinct (pl_order p)" using p(2) unfolding workflow.peeled_def by blast
  then have "length (pl_order p) \<le> length (pl_nodes p)"
    using distinct_card[of "pl_order p"] p(3) card_length[of "map fst (pl_nodes p)"]
    by (simp add: node_ids_def)
  then show ?thesis using visits_ok[OF p(1,2,4)] p(3) by fastforce
qed

lemma leaf_deepest:
  assumes "order \<noteq> []"
  shows "leaf_of ds order \<in> set order \<and> (\<forall>i \<in> set order. depth_in ds i \<le> depth_in ds (leaf_of ds order))"
  using hd_sort_key[OF assms, of "\<lambda>i. - depth_in ds i"] by (simp add: leaf_of_def)

lemma critical_chain:
  assumes made: "plan_made p st"
  shows "dep_chain (pl_nodes p) (pl_critical p) \<and> pl_critical p \<noteq> [] \<and>
    (\<forall>is. dep_chain (pl_nodes p) is \<longrightarrow> length is \<le> length (pl_critical p))"
proof -
  let ?ns = "pl_nodes p" and ?leaf = "leaf_of (fst st) (pl_order p)"
  have d: "\<forall>i \<in> node_ids ?ns. depth_ok ?ns st i \<and> 1 \<le> depth_in (fst st) i \<and> set (prereqs ?ns i) \<subseteq> node_ids ?ns"
    using plan_depths[OF made] by blast
  have cover: "set (pl_order p) = node_ids ?ns" "?ns \<noteq> []" using made by (simp_all add: plan_made_def)
  then have "pl_order p \<noteq> []" by (auto simp: node_ids_def)
  from leaf_deepest[OF this, of "fst st"]
  have leaf: "?leaf \<in> node_ids ?ns" "\<forall>i \<in> node_ids ?ns. depth_in (fst st) i \<le> depth_in (fst st) ?leaf"
    using cover(1) by simp_all
  obtain n where n: "depth_in (fst st) ?leaf = int (Suc n)"
    using d leaf(1) by (metis Suc_pred' nat_int zero_less_imp_eq_int zle_iff_zadd int_one_le_iff_zero_less of_nat_0_less_iff)
  moreover have "n \<le> length ?ns" using plan_depths[OF made] leaf(1) n by fastforce
  ultimately obtain xs where xs: "pl_critical p = xs @ [?leaf]" "dep_chain ?ns (xs @ [?leaf])" "length xs = n"
    using path_up_chain[OF d leaf(1)] made by (auto simp: plan_made_def)
  have "length is \<le> length (pl_critical p)" if "dep_chain ?ns is" for "is"
  proof (cases "is" rule: rev_cases)
    case (snoc ys i)
    have "i \<in> node_ids ?ns" using that snoc by (simp add: dep_chain_def)
    then show ?thesis using chain_length_le[of ?ns st ys i] d that snoc leaf(2) n xs(1,3) by fastforce
  qed simp
  then show ?thesis using xs(1,2) by simp
qed

end
