(* ===== verification/Plan_Properties.thy ===== *)
theory Plan_Properties
  imports Plan_Laws Launch
begin

text \<open>
  The properties of the workflow preflight, with a sample workflow on which each of them applies.
\<close>

section \<open>A sample workflow\<close>

text \<open>Task b reads what a produces; b and c may write the same file.\<close>

definition sample_specs :: json where
  "sample_specs = JList [
    JObj [(''id'', JStr ''a''), (''brief'', JStr ''A''), (''output_artifacts'', JList [JStr ''out.txt''])],
    JObj [(''id'', JStr ''b''), (''brief'', JStr ''B''), (''depends_on'', JList [JStr ''a'']),
      (''input_contract'', JList [JStr ''out.txt'']), (''writes'', JList [JStr ''src/''])],
    JObj [(''id'', JStr ''c''), (''brief'', JStr ''C''), (''writes'', JList [JStr ''src/x.py''])]]"

definition sample_node :: "string \<Rightarrow> string \<Rightarrow> pnode" where
  "sample_node i b = \<lparr>pn_id = i, pn_title = i, pn_brief = b, pn_depends_on = [], pn_delivery_mode = ''local'',
    pn_verify_cmd = JNull, pn_outputs = [], pn_schema = JNull, pn_inputs = [], pn_node_verify = JNull,
    pn_repair = JNull, pn_max_retries = 2, pn_reads = [], pn_writes = []\<rparr>"

definition sample_nodes :: nodes where
  "sample_nodes = [
    (''a'', (sample_node ''a'' ''A'')\<lparr>pn_outputs := [[(''path'', JStr ''out.txt''), (''required'', JBool True)]]\<rparr>),
    (''b'', (sample_node ''b'' ''B'')\<lparr>pn_depends_on := [''a''], pn_inputs := [''out.txt''], pn_writes := [''src/'']\<rparr>),
    (''c'', (sample_node ''c'' ''C'')\<lparr>pn_writes := [''src/x.py'']\<rparr>)]"

definition sample_plan :: plan where
  "sample_plan = \<lparr>pl_nodes = sample_nodes, pl_order = [''a'', ''b'', ''c''],
    pl_depths = [(''a'', 1), (''b'', 2), (''c'', 1)], pl_critical = [''a'', ''b''],
    pl_conflicts = [\<lparr>cf_group = ''conflict-1'', cf_tasks = [''b'', ''c''], cf_scopes = [''src/'', ''src/x.py'']\<rparr>]\<rparr>"

lemma sample_compiled: "compile_plan sample_specs = Inr sample_plan"
  by code_simp

lemma sample_trace [simp]:
  "node_ids (pl_nodes sample_plan) = {''a'', ''b'', ''c''}" "prereqs (pl_nodes sample_plan) ''b'' = [''a'']"
  by (auto simp: sample_plan_def sample_nodes_def sample_node_def node_ids_def prereqs_def)

section \<open>Paths\<close>

text \<open>
  A path that the preflight accepts stays inside the repository: it is not empty, not absolute,
  and has neither a parent component nor a NUL character, whatever the specification says.
\<close>

theorem accepted_path_inside:
  assumes "pf_path node field allow v = Inr p"
  shows "p \<noteq> [] \<and> hd p \<noteq> slash \<and> CHR 0x00 \<notin> set p \<and> ''..'' \<notin> set (split_on slash p)"
  using pf_path_inside[OF assms] by (simp add: safe_path_def)

theorem accepted_path_inside_witness:
  "pf_path ''a'' ''f'' True (JStr '' src//./x/ '') = Inr ''src/x/'' \<and> hd ''src/x/'' \<noteq> slash \<and>
    ''..'' \<notin> set (split_on slash ''src/x/'')"
proof -
  have "pf_path ''a'' ''f'' True (JStr '' src//./x/ '') = Inr ''src/x/''" by code_simp
  then show ?thesis using accepted_path_inside by blast
qed

section \<open>The plan\<close>

text \<open>
  C25. Every compiled plan is well formed: the ids are distinct and not empty, every prerequisite is
  a node other than the task itself and named once, retry limits are not negative, delivery modes
  are known, artifact names are distinct and every path stays inside the repository.
\<close>

theorem compiled_plan_well_formed:
  assumes "compile_plan specs = Inr p"
  shows "distinct (map fst (pl_nodes p)) \<and>
    (\<forall>(i, n) \<in> set (pl_nodes p). pn_id n = i \<and> node_ok n \<and> set (pn_depends_on n) \<subseteq> fst ` set (pl_nodes p))"
proof -
  obtain st where made: "plan_made p st" using compile_plan_made[OF assms] by blast
  then have ok: "nodes_ok (pl_nodes p)" and linked: "well_linked (pl_nodes p)" by (simp_all add: plan_made_def)
  have "set (pn_depends_on n) \<subseteq> fst ` set (pl_nodes p)" if "(i, n) \<in> set (pl_nodes p)" for i n
  proof -
    have "map_of (pl_nodes p) i = Some n" using that linked by (simp add: well_linked_def map_of_is_SomeI)
    then show ?thesis using that linked by (force simp: well_linked_def node_ids_def prereqs_def)
  qed
  then show ?thesis using ok by (auto simp: nodes_ok_def)
qed

theorem compiled_plan_well_formed_witness:
  "compile_plan sample_specs = Inr sample_plan \<and> distinct (map fst (pl_nodes sample_plan))"
  using compiled_plan_well_formed[OF sample_compiled] sample_compiled by simp

text \<open>
  C26. The order is exact: on nodes whose prerequisites are nodes, an order is returned exactly when
  the task graph has no cycle; it lists every node once and after its prerequisites, and the only
  error is the cycle error at one of the tasks.
\<close>

theorem plan_order_exact:
  assumes "well_linked ns"
  shows "case topological_order ns of
      Inr order \<Rightarrow> acyclic {(i, j). i \<in> node_ids ns \<and> j \<in> set (prereqs ns i)} \<and> distinct order \<and>
        set order = node_ids ns \<and> (\<forall>k < length order. set (prereqs ns (order ! k)) \<subseteq> set (take k order))
    | Inl e \<Rightarrow> \<not> acyclic {(i, j). i \<in> node_ids ns \<and> j \<in> set (prereqs ns i)} \<and>
        (\<exists>i msg. e = PreflightError (Some i) ''cycle'' msg)"
proof -
  have needs: "workflow.needs ns = {(i, j). i \<in> node_ids ns \<and> j \<in> set (prereqs ns i)}"
    using graph_prereq_linked[OF assms] by (auto simp: workflow.needs_def)
  note exact = order_exact[OF assms]
  show ?thesis
  proof (cases "topological_order ns")
    case (Inl e)
    then show ?thesis using exact(1,3) needs by simp
  next
    case (Inr order)
    have p: "workflow.peeled ns order" "set order = node_ids ns" using exact(2)[OF Inr] by simp_all
    have "set (prereqs ns (order ! k)) \<subseteq> set (take k order)" if "k < length order" for k
    proof -
      have "order ! k \<in> node_ids ns" using that p(2) nth_mem by blast
      moreover have "graph_prereq ns (order ! k) \<subseteq> set (take k order)"
        using p(1) that unfolding workflow.peeled_def by blast
      ultimately show ?thesis using graph_prereq_linked[OF assms] by simp
    qed
    moreover have "distinct order" using p(1) unfolding workflow.peeled_def by blast
    ultimately show ?thesis using Inr exact(1) needs p(2) by auto
  qed
qed

lemma sample_linked: "well_linked sample_nodes"
  by code_simp

theorem plan_order_exact_witness:
  "topological_order sample_nodes = Inr [''a'', ''b'', ''c''] \<and>
    acyclic {(i, j). i \<in> node_ids sample_nodes \<and> j \<in> set (prereqs sample_nodes i)}"
proof -
  have "topological_order sample_nodes = Inr [''a'', ''b'', ''c'']" by code_simp
  then show ?thesis using plan_order_exact[OF sample_linked] by simp
qed

text \<open>
  C27. The critical path is a chain of prerequisites of the workflow, and no chain is longer.
\<close>

theorem critical_path_longest:
  assumes "compile_plan specs = Inr p"
  shows "dep_chain (pl_nodes p) (pl_critical p) \<and> pl_critical p \<noteq> [] \<and>
    (\<forall>is. dep_chain (pl_nodes p) is \<longrightarrow> length is \<le> length (pl_critical p))"
  using compile_plan_made[OF assms] critical_chain by blast

theorem critical_path_longest_witness:
  "pl_critical sample_plan = [''a'', ''b''] \<and> dep_chain (pl_nodes sample_plan) [''a'', ''b''] \<and>
    length [''c''] \<le> length (pl_critical sample_plan)"
proof -
  note path = critical_path_longest[OF sample_compiled]
  have "dep_chain (pl_nodes sample_plan) [''c'']" by (simp add: dep_chain_def)
  then have "length [''c''] \<le> length (pl_critical sample_plan)" using path by blast
  then show ?thesis using path by (simp add: sample_plan_def)
qed

text \<open>
  C28. The conflict groups are exact: two tasks of the plan are in one group exactly when a chain of
  tasks with overlapping write scopes joins them; a group names at least two tasks, each once and
  in the order of the plan.
\<close>

theorem conflict_groups_exact:
  assumes "compile_plan specs = Inr p"
  defines "writes \<equiv> \<lambda>i. pn_writes (node_of (pl_nodes p) i)"
  shows "(\<forall>i \<in> node_ids (pl_nodes p). \<forall>j \<in> node_ids (pl_nodes p). i \<noteq> j \<longrightarrow>
      ((\<exists>c \<in> set (pl_conflicts p). i \<in> set (cf_tasks c) \<and> j \<in> set (cf_tasks c)) \<longleftrightarrow>
        (i, j) \<in> (overlap_graph writes (map fst (pl_nodes p)))\<^sup>*)) \<and>
    (\<forall>c \<in> set (pl_conflicts p). distinct (cf_tasks c) \<and> 2 \<le> length (cf_tasks c) \<and>
      sorted (map (rank_in (pl_order p)) (cf_tasks c)))"
proof -
  obtain st where made: "plan_made p st" using compile_plan_made[OF assms(1)] by blast
  have "workflow.peeled (pl_nodes p) (pl_order p)" "set (pl_order p) = node_ids (pl_nodes p)"
      "distinct (map fst (pl_nodes p))"
    using made by (simp_all add: plan_made_def nodes_ok_def)
  then have d: "distinct (map fst (pl_nodes p))" "distinct (pl_order p)"
      "set (pl_order p) = set (map fst (pl_nodes p))"
    unfolding workflow.peeled_def by (simp_all add: node_ids_def)
  have run: "conflict_list (map fst (pl_nodes p)) writes (pl_order p) = Some (pl_conflicts p)"
    using made by (simp add: plan_made_def writes_def)
  show ?thesis
    using conflict_list_spec[OF d, of writes] run by (simp add: node_ids_def)
qed

theorem conflict_groups_exact_witness:
  "map cf_tasks (pl_conflicts sample_plan) = [[''b'', ''c'']] \<and>
    (''b'', ''c'') \<in> (overlap_graph (\<lambda>i. pn_writes (node_of (pl_nodes sample_plan) i)) (map fst (pl_nodes sample_plan)))\<^sup>*"
proof -
  have groups: "map cf_tasks (pl_conflicts sample_plan) = [[''b'', ''c'']]" by (simp add: sample_plan_def)
  then have "\<exists>c \<in> set (pl_conflicts sample_plan). ''b'' \<in> set (cf_tasks c) \<and> ''c'' \<in> set (cf_tasks c)"
    by (simp add: sample_plan_def)
  then show ?thesis
    using conflict_groups_exact[OF sample_compiled] groups by simp
qed

text \<open>
  C29. In a compiled plan every required input of a task is an output of exactly one of its direct
  prerequisites.
\<close>

theorem inputs_have_one_producer:
  assumes "compile_plan specs = Inr p" "(i, n) \<in> set (pl_nodes p)" "path \<in> set (pn_inputs n)"
  shows "\<exists>!d. d \<in> set (pn_depends_on n) \<and> path \<in> set (map spec_path (pn_outputs (node_of (pl_nodes p) d)))"
proof -
  let ?ns = "pl_nodes p"
  obtain st where made: "plan_made p st" using compile_plan_made[OF assms(1)] by blast
  have ids: "i \<in> node_ids ?ns" using assms(2) by (force simp: node_ids_def)
  have n: "node_of ?ns i = n" and ok: "node_ok n"
    using made assms(2) by (auto simp: plan_made_def nodes_ok_def node_of_def)
  have "check_inputs ?ns i = Inr ()" using plan_depths[OF made] ids by blast
  then have found: "path \<in> set (direct_outputs ?ns (pn_depends_on n))"
    and one: "length (producers ?ns (pn_depends_on n) path) \<le> 1"
    using assms(3) unfolding check_inputs_def Let_def n
    by (auto simp: pf_fail_def sorted_texts_def filter_empty_conv remdups_eq_nil_iff split: if_splits)
  have "producers ?ns (pn_depends_on n) path \<noteq> []"
    using found by (auto simp: direct_outputs_def producers_def filter_empty_conv)
  then obtain d where "producers ?ns (pn_depends_on n) path = [d]"
    using one by (cases "producers ?ns (pn_depends_on n) path") auto
  moreover have "x \<in> set (producers ?ns (pn_depends_on n) path) \<longleftrightarrow>
      x \<in> set (pn_depends_on n) \<and> path \<in> set (map spec_path (pn_outputs (node_of ?ns x)))" for x
    by (simp only: producers_def set_filter mem_Collect_eq)
  ultimately have "x \<in> set (pn_depends_on n) \<and> path \<in> set (map spec_path (pn_outputs (node_of ?ns x))) \<longleftrightarrow> x = d" for x
    by (metis empty_iff insert_iff list.set(1) list.set(2))
  then show ?thesis by (intro ex1I[of _ d]) iprover+
qed

theorem inputs_have_one_producer_witness:
  "\<exists>!d. d \<in> {''a''} \<and> ''out.txt'' \<in> set (map spec_path (pn_outputs (node_of (pl_nodes sample_plan) d)))"
proof -
  let ?n = "(sample_node ''b'' ''B'')\<lparr>pn_depends_on := [''a''], pn_inputs := [''out.txt''], pn_writes := [''src/'']\<rparr>"
  have "(''b'', ?n) \<in> set (pl_nodes sample_plan)" by (simp add: sample_plan_def sample_nodes_def)
  from inputs_have_one_producer[OF sample_compiled this, of "''out.txt''"]
  show ?thesis by (simp add: sample_node_def)
qed

section \<open>Its uses\<close>

text \<open>
  A fault target that is validated is a root of the workflow: a task of the compiled plan
  without prerequisites.
\<close>

theorem fault_target_is_root:
  assumes "validate_fault_target specs fault = Inr (Some r)"
  shows "\<exists>p n target. compile_plan specs = Inr p \<and> jget ''target'' r = JStr target \<and>
    map_of (pl_nodes p) target = Some n \<and> pn_depends_on n = []"
  using assms
  by (auto simp: validate_fault_target_def bindE_Inr_iff pf_fail_def jget_def Let_def
    split: json.splits if_splits option.splits)

theorem fault_target_is_root_witness:
  "\<exists>r. validate_fault_target sample_specs (JObj [(''target_reachable'', JBool True), (''task_id'', JStr ''a'')]) =
      Inr (Some r) \<and> (\<exists>p n target. compile_plan sample_specs = Inr p \<and> jget ''target'' r = JStr target \<and>
    map_of (pl_nodes p) target = Some n \<and> pn_depends_on n = [])"
proof -
  let ?f = "JObj [(''target_reachable'', JBool True), (''task_id'', JStr ''a'')]"
  have "validate_fault_target sample_specs ?f = Inr (Some [(''target'', JStr ''a''),
      (''mode'', JStr ''worker_exit''), (''root'', JBool True), (''status'', JStr ''validated'')])"
    by code_simp
  from this fault_target_is_root[OF this] show ?thesis by blast
qed

text \<open>
  C31. The scheduler never keeps two tasks of a conflict group apart: it looks for the groups under
  the key \<open>conflicts\<close>, and a compiled plan holds them under \<open>conflict_groups\<close>, so a scheduler that
  is started with the compiled plan knows no group and blocks no task.
\<close>

theorem compiled_groups_unused:
  assumes "compile_preflight_plan specs root = Inr plan" "c_plan C = plan"
  shows "conflict_groups C = [] \<and> \<not> conflict_blocked C slots tid"
proof -
  have "map_of plan ''conflicts'' = None"
    using assms(1) by (auto simp: compile_preflight_plan_def map_sum_Inr_iff plan_json_def Let_def)
  then have "conflict_groups C = []" using assms(2) by (simp add: conflict_groups_def jget_default_def)
  then show ?thesis by (simp add: conflict_blocked_def)
qed

theorem compiled_groups_unused_witness:
  "\<exists>C plan. compile_preflight_plan sample_specs None = Inr plan \<and> c_plan C = plan \<and>
    jget ''conflict_groups'' plan \<noteq> JList [] \<and> \<not> conflict_blocked C [(''b'', ''wt'')] ''c''"
proof -
  let ?plan = "plan_json None sample_plan"
  have run: "compile_preflight_plan sample_specs None = Inr ?plan"
    by (simp add: compile_preflight_plan_def sample_compiled)
  obtain C :: config where C: "c_plan C = ?plan" by (metis config.select_convs(19))
  have "jget ''conflict_groups'' ?plan \<noteq> JList []"
    by (simp add: plan_json_def jget_def Let_def sample_plan_def)
  then show ?thesis using run C compiled_groups_unused[OF run C] by blast
qed

end
