(* ===== verification/Host.thy ===== *)
theory Host
  imports Preflight
begin

text \<open>
  What the verification gate, the worktree pool and the delivery use of their machine: git, shell
  commands, files and clocks are the fields of a host, each a statement on a state of its own that
  is left open. The text and path functions are those of the standard library.
\<close>

section \<open>Text\<close>

definition between :: "nat \<Rightarrow> nat \<Rightarrow> char \<Rightarrow> bool" where
  "between lo hi c = (lo \<le> of_char c \<and> of_char c \<le> hi)"

definition lower_char :: "char \<Rightarrow> char" where
  "lower_char c = (let n = of_char c :: nat in
    if 65 \<le> n \<and> n \<le> 90 \<or> 192 \<le> n \<and> n \<le> 222 \<and> n \<noteq> 215 then char_of (n + 32) else c)"

definition py_lower :: "string \<Rightarrow> string" where
  "py_lower s = map lower_char s"

text \<open>\<open>p in s\<close>.\<close>

fun has_text :: "string \<Rightarrow> string \<Rightarrow> bool" where
  "has_text p [] = (p = [])"
| "has_text p (c # cs) = (starts_with p (c # cs) \<or> has_text p cs)"

definition ends_with :: "string \<Rightarrow> string \<Rightarrow> bool" where
  "ends_with p s = starts_with (rev p) (rev s)"

fun split_where :: "(char \<Rightarrow> bool) \<Rightarrow> string \<Rightarrow> string list" where
  "split_where P [] = [[]]"
| "split_where P (c # cs) =
    (if P c then [] # split_where P cs
     else case split_where P cs of [] \<Rightarrow> [[c]] | w # ws \<Rightarrow> (c # w) # ws)"

text \<open>\<open>s.split()\<close>.\<close>

definition split_words :: "string \<Rightarrow> string list" where
  "split_words s = filter (\<lambda>w. w \<noteq> []) (split_where py_space s)"

text \<open>\<open>s.splitlines()\<close>: a carriage return before a line feed is one end of line.\<close>

definition line_end :: "char \<Rightarrow> bool" where
  "line_end c = (of_char c \<in> {10, 11, 12, 13, 28, 29, 30, 133 :: nat})"

fun join_crlf :: "string \<Rightarrow> string" where
  "join_crlf [] = []"
| "join_crlf (c # cs) =
    (if c = CHR 0x0D \<and> starts_with [CHR 0x0A] cs then join_crlf cs else c # join_crlf cs)"

definition split_lines :: "string \<Rightarrow> string list" where
  "split_lines s = (let ls = split_where line_end (join_crlf s) in
    if last ls = [] then butlast ls else ls)"

text \<open>\<open>s[-n:]\<close> for a positive \<open>n\<close>.\<close>

definition text_tail :: "nat \<Rightarrow> string \<Rightarrow> string" where
  "text_tail n s = drop (length s - n) s"

section \<open>Paths\<close>

text \<open>\<open>str(Path(s))\<close>: one slash between components, no dots; exactly two leading slashes are kept.\<close>

definition path_lead :: "string \<Rightarrow> string" where
  "path_lead s = (if starts_with ''///'' s then ''/''
    else if starts_with ''//'' s then ''//'' else if starts_with ''/'' s then ''/'' else [])"

definition path_text :: "string \<Rightarrow> string" where
  "path_text s = (let t = path_lead s @ join ''/'' (path_parts s) in if t = [] then ''.'' else t)"

text \<open>\<open>Path(a) / b\<close>: an absolute \<open>b\<close> replaces \<open>a\<close>.\<close>

definition path_join :: "string \<Rightarrow> string \<Rightarrow> string" where
  "path_join a b =
    (if starts_with ''/'' b then path_text b
     else path_text (path_text a @ (if last (path_text a) = slash then [] else ''/'') @ b))"

definition path_name :: "string \<Rightarrow> string" where
  "path_name s = (if path_parts s = [] then [] else last (path_parts s))"

text \<open>The position of the dot of the suffix: neither the first nor the last character of the name.\<close>

definition suffix_at :: "string \<Rightarrow> int option" where
  "suffix_at name = (let i = rfind_char (CHR ''.'') name in
    if 0 < i \<and> i < int (length name) - 1 then Some i else None)"

definition path_suffix :: "string \<Rightarrow> string" where
  "path_suffix s = (case suffix_at (path_name s) of None \<Rightarrow> [] | Some i \<Rightarrow> drop (nat i) (path_name s))"

definition path_stem :: "string \<Rightarrow> string" where
  "path_stem s = (case suffix_at (path_name s) of None \<Rightarrow> path_name s | Some i \<Rightarrow> take (nat i) (path_name s))"

text \<open>\<open>Path(s).with_name(n)\<close> for a path that has a name.\<close>

definition with_name :: "string \<Rightarrow> string \<Rightarrow> string" where
  "with_name s n = path_text (path_lead s @ join ''/'' (butlast (path_parts s) @ [n]))"

section \<open>The machine\<close>

text \<open>
  \<open>h_git\<close> and \<open>h_gh\<close> answer with return code, output and error text; \<open>h_communicate\<close> with \<open>None\<close> when the
  time is over; \<open>h_killpg\<close> with whether the process group still existed. Times are microseconds.
\<close>

record 'w host =
  h_git :: "string list \<Rightarrow> string \<Rightarrow> ('w, int \<times> string \<times> string) io"
  h_gh :: "string list \<Rightarrow> string \<Rightarrow> ('w, int \<times> string \<times> string) io"
  h_popen :: "string \<Rightarrow> string \<Rightarrow> ('w, int) io"
  h_communicate :: "int \<Rightarrow> int option \<Rightarrow> ('w, (int \<times> string) option) io"
  h_killpg :: "int \<Rightarrow> ('w, bool) io"
  h_files :: "'w \<Rightarrow> filesystem"
  h_resolve :: "string \<Rightarrow> ('w, string) io"
  h_is_file :: "string \<Rightarrow> ('w, bool) io"
  h_exists :: "string \<Rightarrow> ('w, bool) io"
  h_read :: "string \<Rightarrow> ('w, string) io"
  h_write :: "string \<Rightarrow> string \<Rightarrow> ('w, unit) io"
  h_mkdirs :: "string \<Rightarrow> ('w, unit) io"
  h_mkdtemp :: "string \<Rightarrow> ('w, string) io"
  h_rmtree :: "string \<Rightarrow> ('w, unit) io"
  h_rmdir :: "string \<Rightarrow> ('w, unit) io"
  h_pause :: "int \<Rightarrow> ('w, unit) io"
  h_mono :: "('w, int) io"
  h_time_ms :: "('w, int) io"
  h_data_dir :: string
  h_python :: string
  h_json_error :: "string \<Rightarrow> string"

abbreviation git_code :: "int \<times> string \<times> string \<Rightarrow> int" where
  "git_code r \<equiv> fst r"

abbreviation git_out :: "int \<times> string \<times> string \<Rightarrow> string" where
  "git_out r \<equiv> fst (snd r)"

abbreviation git_err :: "int \<times> string \<times> string \<Rightarrow> string" where
  "git_err r \<equiv> snd (snd r)"

text \<open>An optional argument of a command: \<open>None\<close> is a type error before the command starts.\<close>

definition need_text :: "string option \<Rightarrow> ('w, string) io" where
  "need_text v = (case v of
      None \<Rightarrow> raise_io (TypeError ''expected str, bytes or os.PathLike object, not NoneType'')
    | Some s \<Rightarrow> ret_io s)"

definition lift_io :: "exc + 'a \<Rightarrow> ('w, 'a) io" where
  [io_defs]: "lift_io r w = (r, w)"

text \<open>A shell command with a time limit; on time-out its whole process group is killed.\<close>

definition run_shell :: "'w host \<Rightarrow> string \<Rightarrow> string \<Rightarrow> int \<Rightarrow> ('w, int option \<times> string \<times> bool) io" where
  "run_shell H cmd cwd limit =
    bind_io (h_popen H cmd cwd) (\<lambda>pid.
    bind_io (h_communicate H pid (Some limit)) (\<lambda>r. case r of
      Some (code, out) \<Rightarrow> ret_io (Some code, out, False)
    | None \<Rightarrow>
        bind_io (h_killpg H pid) (\<lambda>_.
        bind_io (h_communicate H pid None) (\<lambda>r2.
          ret_io (None, (case r2 of None \<Rightarrow> [] | Some (_, out) \<Rightarrow> out), True)))))"

end
