(* ===== verification/Signature.thy ===== *)
theory Signature
  imports Host "HOL-Library.Word"
begin

text \<open>
  The failure signature of \<open>verify/gate.py\<close>: the most telling line of an output, with what varies
  between runs replaced, and its SHA-256 digest on 32-bit words.
\<close>

section \<open>SHA-256\<close>

text \<open>The constants are the first 32 bits of the fractional parts of roots of the first primes.\<close>

fun int_root :: "nat \<Rightarrow> nat \<Rightarrow> nat \<Rightarrow> nat \<Rightarrow> nat" where
  "int_root k n 0 r = r"
| "int_root k n (Suc b) r = (let s = r + 2 ^ b in int_root k n b (if s ^ k \<le> n then s else r))"

definition sha_primes :: "nat list" where
  "sha_primes = filter (\<lambda>p. list_all (\<lambda>d. p mod d \<noteq> 0) [2..<p]) [2..<312]"

definition sha_keys :: "32 word list" where
  "sha_keys = map (\<lambda>p. of_nat (int_root 3 (p * 2 ^ 96) 36 0)) sha_primes"

definition sha_start :: "32 word list" where
  "sha_start = map (\<lambda>p. of_nat (int_root 2 (p * 2 ^ 64) 36 0)) (take 8 sha_primes)"

text \<open>The schedule, newest word first.\<close>

fun sha_schedule :: "nat \<Rightarrow> 32 word list \<Rightarrow> 32 word list" where
  "sha_schedule 0 w = w"
| "sha_schedule (Suc k) w =
    (let a = w ! 14; b = w ! 1;
         s0 = xor (xor (word_rotr 7 a) (word_rotr 18 a)) (drop_bit 3 a);
         s1 = xor (xor (word_rotr 17 b) (word_rotr 19 b)) (drop_bit 10 b)
     in sha_schedule k ((w ! 15 + s0 + w ! 6 + s1) # w))"

definition sha_round :: "32 word \<times> 32 word \<Rightarrow> 32 word list \<Rightarrow> 32 word list" where
  "sha_round kw st = (case st of
      [a, b, c, d, e, f, g, h] \<Rightarrow>
        (let s1 = xor (xor (word_rotr 6 e) (word_rotr 11 e)) (word_rotr 25 e);
             t1 = h + s1 + xor (and e f) (and (not e) g) + fst kw + snd kw;
             s0 = xor (xor (word_rotr 2 a) (word_rotr 13 a)) (word_rotr 22 a);
             t2 = s0 + xor (xor (and a b) (and a c)) (and b c)
         in [t1 + t2, a, b, c, d + t1, e, f, g])
    | _ \<Rightarrow> st)"

definition word_of_bytes :: "nat list \<Rightarrow> 32 word" where
  "word_of_bytes bs = foldl (\<lambda>a b. a * 256 + of_nat b) 0 bs"

definition sha_block :: "32 word list \<Rightarrow> nat list \<Rightarrow> 32 word list" where
  "sha_block st bs =
    (let w = rev (map (\<lambda>i. word_of_bytes (take 4 (drop (4 * i) bs))) [0..<16])
     in map2 (+) st (fold sha_round (zip sha_keys (rev (sha_schedule 48 w))) st))"

fun sha_blocks :: "nat \<Rightarrow> nat list \<Rightarrow> 32 word list \<Rightarrow> 32 word list" where
  "sha_blocks 0 bs st = st"
| "sha_blocks (Suc k) bs st = sha_blocks k (drop 64 bs) (sha_block st (take 64 bs))"

definition sha_pad :: "nat list \<Rightarrow> nat list" where
  "sha_pad bs = bs @ [128] @ replicate (nat ((55 - int (length bs)) mod 64)) 0 @
    map (\<lambda>i. (8 * length bs) div 256 ^ (7 - i) mod 256) [0..<8]"

definition word_hex :: "32 word \<Rightarrow> string" where
  "word_hex w = map (\<lambda>i. hex_digit (unat (drop_bit (28 - 4 * i) w) mod 16)) [0..<8]"

definition sha256_hex :: "nat list \<Rightarrow> string" where
  "sha256_hex bs = (let p = sha_pad bs in concat (map word_hex (sha_blocks (length p div 64) p sha_start)))"

text \<open>\<open>s.encode("utf-8")\<close> of characters below 256.\<close>

definition utf8_bytes :: "string \<Rightarrow> nat list" where
  "utf8_bytes s = concat (map (\<lambda>c. let n = of_char c :: nat in
    if n < 128 then [n] else [192 + n div 64, 128 + n mod 64]) s)"

section \<open>What varies between runs\<close>

text \<open>
  A replacement by a pattern whose character classes follow each other without overlap:
  \<open>here prev s\<close> is the length of the match at the front of \<open>s\<close>, after the character \<open>prev\<close>.
\<close>

function replace_by :: "(char option \<Rightarrow> string \<Rightarrow> nat) \<Rightarrow> string \<Rightarrow> char option \<Rightarrow> string \<Rightarrow> string" where
  "replace_by here new prev [] = []"
| "replace_by here new prev (c # cs) =
    (let n = here prev (c # cs) in
     if n = 0 then c # replace_by here new (Some c) cs
     else new @ replace_by here new (Some (last (take n (c # cs)))) (drop (n - 1) cs))"
  by pat_completeness auto

termination by (relation "measure (\<lambda>(h, n, p, s). length s)") auto

text \<open>An escape sequence: ESC, a bracket, parameters, intermediates and a final character.\<close>

definition ansi_at :: "char option \<Rightarrow> string \<Rightarrow> nat" where
  "ansi_at prev s =
    (if take 2 s = [CHR 0x1B, CHR ''['']
     then (let ps = takeWhile (between 0x30 0x3F) (drop 2 s);
               is = takeWhile (between 0x20 0x2F) (drop (2 + length ps) s)
           in case drop (2 + length ps + length is) s of
                [] \<Rightarrow> 0
              | c # _ \<Rightarrow> if between 0x40 0x7E c then 3 + length ps + length is else 0)
     else 0)"

definition hex_char :: "char \<Rightarrow> bool" where
  "hex_char c = (is_digit c \<or> between 97 102 c \<or> between 65 70 c)"

definition address_at :: "char option \<Rightarrow> string \<Rightarrow> nat" where
  "address_at prev s =
    (if starts_with ''0x'' s
     then (let n = length (takeWhile hex_char (drop 2 s)) in if n = 0 then 0 else 2 + n)
     else 0)"

definition name_char :: "char \<Rightarrow> bool" where
  "name_char c = (is_digit c \<or> between 97 122 c \<or> between 65 90 c \<or> c \<in> set ''_.-'')"

text \<open>Components after one another: their number and their length.\<close>

function components_at :: "string \<Rightarrow> nat \<times> nat" where
  "components_at s =
    (case s of
       [] \<Rightarrow> (0, 0)
     | c # cs \<Rightarrow>
        (let n = length (takeWhile name_char cs) in
         if c = slash \<and> 0 < n then (case components_at (drop n cs) of (k, m) \<Rightarrow> (Suc k, 1 + n + m))
         else (0, 0)))"
  by pat_completeness auto

termination by (relation "measure length") auto

declare components_at.simps [simp del]

definition abs_path_at :: "char option \<Rightarrow> string \<Rightarrow> nat" where
  "abs_path_at prev s = (case components_at s of (k, n) \<Rightarrow> if 2 \<le> k then n else 0)"

text \<open>The word characters of the \<open>re\<close> module below 256.\<close>

definition re_word :: "char \<Rightarrow> bool" where
  "re_word c = (is_digit c \<or> between 97 122 c \<or> between 65 90 c \<or> c = CHR ''_'' \<or>
    of_char c \<in> {170, 178, 179, 181, 185, 186, 188, 189, 190 :: nat} \<or>
    between 192 255 c \<and> of_char c \<notin> {215, 247 :: nat})"

definition line_number_at :: "char option \<Rightarrow> string \<Rightarrow> nat" where
  "line_number_at prev s =
    (let n = length (takeWhile is_digit s) in
     if prev = Some (CHR '':'') \<and> 0 < n \<and> \<not> list_ex re_word (take 1 (drop n s)) then n else 0)"

definition interesting :: "string \<Rightarrow> bool" where
  "interesting line =
    (let l = py_lower line in
     has_text ''assert'' l \<or> has_text ''error'' l \<or> has_text ''fail'' l \<or> has_text ''traceback'' l \<or>
     starts_with ''e'' l \<and> list_all py_space (take 1 (drop 1 l)))"

definition signature_line :: "string \<Rightarrow> string" where
  "signature_line output =
    (let text = replace_by ansi_at [] None output;
         ls = filter (\<lambda>l. l \<noteq> []) (map strip (split_lines text));
         hits = filter interesting ls;
         sel = (if hits \<noteq> [] then last hits else if ls \<noteq> [] then last ls else []);
         sel1 = replace_by abs_path_at ''<path>'' None sel;
         sel2 = replace_by address_at ''<address>'' None sel1;
         sel3 = replace_by line_number_at '':<line>'' None sel2
     in join '' '' (split_words sel3))"

definition normalize_failure_signature :: "string \<Rightarrow> string \<Rightarrow> int option \<Rightarrow> string" where
  "normalize_failure_signature cause output exit_code =
    sha256_hex (utf8_bytes (cause @ ''|'' @ (case exit_code of None \<Rightarrow> [] | Some c \<Rightarrow> int_text c) @ ''|'' @
      signature_line output))"

end
