(* ===== verification/Gate.thy ===== *)
theory Gate
  imports Signature Sched
begin

text \<open>
  The verification gate of \<open>verify/gate.py\<close> without the evidence ladder: the candidate's diff, a
  disposable checkout of the committed candidate, the public command with one rerun, and the result.
\<close>

section \<open>Files of a task\<close>

definition gate_artifact_dir :: "'w host \<Rightarrow> verify_request \<Rightarrow> string" where
  "gate_artifact_dir H req =
    (if given (v_artifact_root req) then path_text (the (v_artifact_root req))
     else path_join (h_data_dir H) (v_task_id req))"

definition save_output :: "'w host \<Rightarrow> verify_request \<Rightarrow> string \<Rightarrow> string \<Rightarrow> ('w, string) io" where
  "save_output H req label out =
    then_io (h_mkdirs H (gate_artifact_dir H req))
    (bind_io (h_time_ms H) (\<lambda>ms.
     let path = path_join (gate_artifact_dir H req) (''verify_'' @ label @ ''_'' @ int_text ms @ ''.log'') in
     then_io (h_write H path out) (ret_io path)))"

definition save_patch :: "'w host \<Rightarrow> verify_request \<Rightarrow> string \<Rightarrow> ('w, string) io" where
  "save_patch H req text =
    then_io (h_mkdirs H (gate_artifact_dir H req))
    (then_io (h_write H (path_join (gate_artifact_dir H req) ''review.patch'') text)
    (bind_io (h_time_ms H) (\<lambda>ms.
     let path = path_join (gate_artifact_dir H req) (''review_'' @ int_text ms @ ''.patch'') in
     then_io (h_write H path text) (ret_io path))))"

section \<open>The candidate\<close>

text \<open>\<open>Path(req.repo or req.worktree).resolve()\<close>.\<close>

definition request_repo :: "'w host \<Rightarrow> verify_request \<Rightarrow> ('w, string) io" where
  "request_repo H req = bind_io (need_text (text_or (Some (v_repo req)) (v_worktree req))) (h_resolve H)"

definition candidate_ref :: "verify_request \<Rightarrow> string" where
  "candidate_ref req = (if given (v_candidate_sha req) then the (v_candidate_sha req) else ''HEAD'')"

definition gate_checkout :: "'w host \<Rightarrow> verify_request \<Rightarrow> ('w, (string \<times> string) option) io" where
  "gate_checkout H req =
    (if \<not> given (v_candidate_sha req) then ret_io None
     else
       bind_io (request_repo H req) (\<lambda>repo.
       bind_io (h_mkdtemp H ''orch_candidate_'') (\<lambda>dir.
       bind_io (h_git H [''rev-parse'', candidate_ref req] repo) (\<lambda>hd_r.
       bind_io
         (if git_code hd_r = 0 \<and> strip (git_out hd_r) \<noteq> [] then
            bind_io (h_git H [''worktree'', ''add'', ''-q'', ''--detach'', dir, strip (git_out hd_r)] repo)
              (\<lambda>r. ret_io (git_code r = 0))
          else ret_io False) (\<lambda>added.
         if \<not> added then then_io (h_rmtree H dir) (ret_io None)
         else ret_io (Some (dir, repo)))))))"

definition remove_checkout :: "'w host \<Rightarrow> string \<Rightarrow> string \<Rightarrow> ('w, unit) io" where
  "remove_checkout H dir repo =
    bind_io (h_git H [''worktree'', ''remove'', ''--force'', dir] repo) (\<lambda>_. h_rmtree H dir)"

section \<open>The result\<close>

record gate_facts =
  gf_diff_stat :: string
  gf_tests :: "string list"
  gf_patch :: "string option"

definition no_facts :: gate_facts where
  "no_facts = \<lparr>gf_diff_stat = [], gf_tests = [], gf_patch = None\<rparr>"

definition gate_done ::
    "'w host \<Rightarrow> verify_request \<Rightarrow> int \<Rightarrow> gate_facts \<Rightarrow> bool \<Rightarrow> string \<Rightarrow> int option \<Rightarrow> string \<Rightarrow> bool
      \<Rightarrow> ('w, verify_result) io" where
  "gate_done H req started fs ok cause code out flaky =
    bind_io (h_mono H) (\<lambda>now.
    bind_io (save_output H req cause out) (\<lambda>path.
      ret_io \<lparr>vr_passed = ok, vr_cause = Some cause, vr_exit_code = code,
        vr_duration = decimal_text 3 (round_div (now - started) 1000), vr_flaky = flaky,
        vr_output_tail = text_tail 2000 out, vr_diff_stat = gf_diff_stat fs,
        vr_tests_modified = JList (map JStr (gf_tests fs)), vr_output_path = Some path,
        vr_patch_path = gf_patch fs,
        vr_failure_signature = (if ok then None else Some (normalize_failure_signature cause out code)),
        vr_evidence = None\<rparr>))"

section \<open>The gate\<close>

text \<open>The uncommitted changes: what the request says, or what git says of a task without a candidate.\<close>

definition gate_status :: "'w host \<Rightarrow> verify_request \<Rightarrow> string \<Rightarrow> ('w, string) io" where
  "gate_status H req worker =
    (if given (v_worker_dirty req) then ret_io (the (v_worker_dirty req))
     else if given (v_candidate_sha req) then ret_io []
     else bind_io (h_git H [''status'', ''--porcelain''] worker) (\<lambda>r. ret_io (git_out r)))"

definition is_test_name :: "string \<Rightarrow> bool" where
  "is_test_name name = has_text ''test'' (py_lower (path_name name))"

text \<open>The last tab-separated field of each line of \<open>git diff --name-status\<close>.\<close>

definition changed_names :: "string \<Rightarrow> string list" where
  "changed_names out = map (\<lambda>l. last (split_on (CHR 0x09) l)) (filter (\<lambda>l. l \<noteq> []) (split_lines out))"

text \<open>The public command and, with \<open>rerun_on_fail\<close>, one rerun; \<open>None\<close> is a time-out of the first run.\<close>

definition gate_command :: "'w host \<Rightarrow> bool \<Rightarrow> verify_request \<Rightarrow> string \<Rightarrow> ('w, (int option \<times> string \<times> bool) option \<times> string) io" where
  "gate_command H rerun req dir =
    bind_io (run_shell H (v_verify_cmd req) dir (v_timeout req)) (\<lambda>(code, out, late).
      if late then ret_io (None, out)
      else if code \<noteq> Some 0 \<and> rerun then
        bind_io (run_shell H (v_verify_cmd req) dir (v_timeout req)) (\<lambda>(code2, out2, late2).
          ret_io (Some (code2, out2, \<not> late2 \<and> code2 = Some 0), out2))
      else ret_io (Some (code, out, False), out))"

definition gate_checked ::
    "'w host \<Rightarrow> bool \<Rightarrow> verify_request \<Rightarrow> int \<Rightarrow> gate_facts \<Rightarrow> string \<Rightarrow> ('w, verify_result) io" where
  "gate_checked H rerun req started fs dir =
    bind_io (gate_command H rerun req dir) (\<lambda>(res, out). case res of
      None \<Rightarrow> gate_done H req started fs False ''timeout'' None out False
    | Some (code, text, flaky) \<Rightarrow>
        if code \<noteq> Some 0 then gate_done H req started fs False ''tests_failed'' code text flaky
        else gate_done H req started fs True ''tests_passed'' code text flaky)"

definition gate_tested ::
    "'w host \<Rightarrow> bool \<Rightarrow> verify_request \<Rightarrow> int \<Rightarrow> gate_facts \<Rightarrow> string \<Rightarrow> ('w, verify_result) io" where
  "gate_tested H rerun req started fs worker =
    bind_io (gate_checkout H req) (\<lambda>co. case co of
      None \<Rightarrow>
        if given (v_candidate_sha req) then
          gate_done H req started fs False ''candidate_checkout_failed'' None
            ''could not materialize the durable candidate'' False
        else gate_checked H rerun req started fs worker
    | Some (dir, repo) \<Rightarrow> finally_io (gate_checked H rerun req started fs dir) (remove_checkout H dir repo))"

definition run_verify_legacy :: "'w host \<Rightarrow> bool \<Rightarrow> verify_request \<Rightarrow> ('w, verify_result) io" where
  "run_verify_legacy H rerun req =
    bind_io (h_mono H) (\<lambda>started.
    bind_io (need_text (v_worktree req)) (\<lambda>worker.
    bind_io (request_repo H req) (\<lambda>repo.
    let cwd = (if given (v_candidate_sha req) then repo else worker); ref = candidate_ref req in
    bind_io (gate_status H req worker) (\<lambda>status.
      if \<not> blank status then gate_done H req started no_facts False ''uncommitted_changes'' None status False
      else
        bind_io (need_text (v_base_sha req)) (\<lambda>base.
        bind_io (h_git H [''diff'', ''--stat'', base, ref] cwd) (\<lambda>stat.
        bind_io (h_git H [''diff'', ''--name-status'', base, ref] cwd) (\<lambda>names_r.
        let names = changed_names (git_out names_r); fs = no_facts\<lparr>gf_diff_stat := git_out stat\<rparr> in
          if names = [] \<and> v_allow_empty_diff req then gate_done H req started fs True ''no_change'' None [] False
          else if names = [] then gate_done H req started fs False ''empty_diff'' None [] False
          else
            bind_io (h_git H [''diff'', ''--binary'', base, ref] cwd) (\<lambda>patch.
            bind_io (save_patch H req (git_out patch)) (\<lambda>path.
              gate_tested H rerun req started
                (fs\<lparr>gf_tests := filter is_test_name names, gf_patch := Some path\<rparr>) worker)))))))))"

end
