(* ===== verification/Evidence.thy ===== *)
theory Evidence
  imports Gate
begin

text \<open>
  The evidence ladder of \<open>verify/evidence.py\<close>: the plan of its five stages, each stage on the state
  of the ladder, and the stop at the first decisive failure.
\<close>

section \<open>Plans and results\<close>

record stage_plan =
  sp_stage :: string
  sp_applicable :: bool
  sp_commands :: "string list"
  sp_reason :: string

record evidence_plan =
  ep_stages :: "stage_plan list"
  ep_changed :: "string list"
  ep_targeted :: "string list"

record stage_result =
  sr_stage :: string
  sr_applicable :: bool
  sr_passed :: "bool option"
  sr_decisive :: bool
  sr_duration :: string
  sr_commands :: "string list"
  sr_output_tail :: string
  sr_feedback :: "string option"
  sr_details :: payload

text \<open>The keyword arguments of the ladder; \<open>JNull\<close> is one that is not given.\<close>

record ladder_args =
  la_protocol :: json
  la_specs :: json
  la_schema :: json
  la_targeted :: json
  la_checks :: json
  la_signature :: "string option"
  la_allow_empty :: "bool option"
  la_rerun :: bool

text \<open>\<open>a if a is not None else b\<close>.\<close>

definition json_given :: "json \<Rightarrow> json \<Rightarrow> json" where
  "json_given a b = (if a \<noteq> JNull then a else b)"

definition arg_protocol :: "ladder_args \<Rightarrow> verify_request \<Rightarrow> json" where
  "arg_protocol A req = json_given (la_protocol A) (v_protocol_result req)"

definition arg_specs :: "ladder_args \<Rightarrow> verify_request \<Rightarrow> json" where
  "arg_specs A req = json_given (la_specs A) (jopt (v_output_artifacts req))"

definition arg_schema :: "ladder_args \<Rightarrow> verify_request \<Rightarrow> json" where
  "arg_schema A req = json_given (la_schema A) (jopt (v_output_schema req))"

section \<open>Declarations\<close>

definition ev_json_value :: "'w host \<Rightarrow> json \<Rightarrow> exc + json" where
  "ev_json_value H v =
    (if v \<in> {JNull, JStr [], JObj []} then Inr JNull
     else case v of
       JStr s \<Rightarrow> (case json_loads s of None \<Rightarrow> Inl (ValueError (h_json_error H s)) | Some j \<Rightarrow> Inr j)
     | _ \<Rightarrow> Inr v)"

definition ev_items :: "json \<Rightarrow> exc + json list" where
  "ev_items v =
    (let v1 = (case v of JObj p \<Rightarrow> (case map_of p ''artifacts'' of None \<Rightarrow> v | Some a \<Rightarrow> a) | _ \<Rightarrow> v)
     in case v1 of
       JStr s \<Rightarrow> Inr [JStr s]
     | JObj p \<Rightarrow> Inr (map (\<lambda>(k, item). JObj (dict_merge [(''path'', JStr k)]
         (case item of JObj q \<Rightarrow> q | _ \<Rightarrow> []))) p)
     | JList xs \<Rightarrow> Inr xs
     | _ \<Rightarrow> Inl (ValueError ''output artifacts must be a list or path mapping''))"

definition ev_artifact_specs :: "'w host \<Rightarrow> json \<Rightarrow> exc + payload list" where
  "ev_artifact_specs H value = bindE (ev_json_value H value) (\<lambda>v.
    if v = JNull then Inr [] else bindE (ev_items v) (mapE spec_of_item))"

section \<open>Targeted checks\<close>

text \<open>The repository's changes between base and candidate; a missing argument is a type error.\<close>

definition changed_paths :: "'w host \<Rightarrow> verify_request \<Rightarrow> ('w, string list) io" where
  "changed_paths H req =
    bind_io (need_text (v_worktree req)) (\<lambda>worktree.
    bind_io (request_repo H req) (\<lambda>repo.
    bind_io (need_text (v_base_sha req)) (\<lambda>base.
    let cwd = (if given (v_candidate_sha req) then repo else worktree); ref = candidate_ref req in
    bind_io (h_git H [''diff'', ''--stat'', base, ref] cwd) (\<lambda>_.
    bind_io (h_git H [''diff'', ''--name-only'', base, ref] cwd) (\<lambda>names.
      ret_io (filter (\<lambda>l. l \<noteq> []) (map strip (split_lines (git_out names)))))))))"

definition test_path_candidates :: "string \<Rightarrow> string \<Rightarrow> string list" where
  "test_path_candidates root changed =
    (let stem = path_stem changed; py = (path_suffix changed = ''.py'') in
     (if path_lead changed = [] \<and> take 1 (path_parts changed) = [''tests''] \<and> py
      then [path_join root changed] else []) @
     (if py then
        [path_join (path_join root ''tests'') (''test_'' @ stem @ ''.py''),
         path_join (path_join root ''tests'') (stem @ ''_test.py''),
         with_name changed (''test_'' @ stem @ ''.py''),
         with_name changed (stem @ ''_test.py'')]
      else []))"

definition strip_set :: "char set \<Rightarrow> string \<Rightarrow> string" where
  "strip_set cs s = rev (dropWhile (\<lambda>c. c \<in> cs) (rev (dropWhile (\<lambda>c. c \<in> cs) s)))"

text \<open>\<open>shlex.quote\<close>.\<close>

definition shell_safe :: "char \<Rightarrow> bool" where
  "shell_safe c = (is_digit c \<or> between 97 122 c \<or> between 65 90 c \<or> c \<in> set ''_@%+=:,./-'')"

definition shell_quote :: "string \<Rightarrow> string" where
  "shell_quote s =
    (if s = [] then [CHR 0x27, CHR 0x27]
     else if list_all shell_safe s then s
     else CHR 0x27 # concat (map (\<lambda>c. if c = CHR 0x27 then [CHR 0x27, CHR 0x22, CHR 0x27, CHR 0x22, CHR 0x27] else [c]) s)
       @ [CHR 0x27])"

text \<open>The paths that a failure signature mentions and that are files of the worktree.\<close>

fun signature_paths :: "'w host \<Rightarrow> string \<Rightarrow> string list \<Rightarrow> ('w, string list) io" where
  "signature_paths H root [] = ret_io []"
| "signature_paths H root (tok # toks) =
    (let p = path_text (strip_set {CHR 0x27, CHR 0x22, CHR ''('', CHR '')'', CHR '','', CHR '':'', CHR '';''} tok) in
     bind_io (if path_suffix p = ''.py'' then h_is_file H (path_join root p) else ret_io False) (\<lambda>ok.
     bind_io (signature_paths H root toks) (\<lambda>ps. ret_io (if ok then p # ps else ps))))"

text \<open>
  The candidates that are files, as paths below the root. A file that is not below it makes
  \<open>relative_to\<close> raise.
\<close>

fun select_files :: "'w host \<Rightarrow> string \<Rightarrow> string list \<Rightarrow> ('w, string list) io" where
  "select_files H root [] = ret_io []"
| "select_files H root (c # cs) =
    bind_io (h_is_file H c) (\<lambda>is.
    bind_io
      (if is then
         bind_io (h_resolve H c) (\<lambda>rc.
         bind_io (h_resolve H root) (\<lambda>rr.
           if inside (path_parts rc) (path_parts rr)
           then ret_io [relative_text (path_parts rc) (path_parts rr)]
           else raise_io (ValueError (repr_str rc @ '' is not in the subpath of '' @ repr_str rr))))
       else ret_io []) (\<lambda>here.
    bind_io (select_files H root cs) (\<lambda>more. ret_io (here @ more))))"

definition derive_targeted_checks ::
    "'w host \<Rightarrow> string \<Rightarrow> string list \<Rightarrow> string option \<Rightarrow> ('w, string list) io" where
  "derive_targeted_checks H worktree changed signature =
    (let root = path_text worktree in
     bind_io (if given signature then signature_paths H root (split_words (the signature)) else ret_io []) (\<lambda>more.
     bind_io (select_files H root (concat (map (test_path_candidates root) (changed @ more)))) (\<lambda>files.
       ret_io (map (\<lambda>p. join '' '' (map shell_quote [h_python H, ''-m'', ''pytest'', ''-q'', ''--'', p]))
         (sorted_texts files)))))"

definition explicit_commands :: "json \<Rightarrow> exc + string list" where
  "explicit_commands v = (case v of
      JNull \<Rightarrow> Inr []
    | JStr s \<Rightarrow> Inr [s]
    | _ \<Rightarrow> bindE (iterate v) (\<lambda>xs. Inr (filter (\<lambda>c. \<not> blank c) (map py_str xs))))"

section \<open>The plan\<close>

definition catch_plan_error :: "exc \<Rightarrow> bool" where
  "catch_plan_error e = (case e of OSError s \<Rightarrow> True | TypeError s \<Rightarrow> True | _ \<Rightarrow> False)"

definition artifact_stage :: "'w host \<Rightarrow> json \<Rightarrow> json \<Rightarrow> exc + stage_plan" where
  "artifact_stage H specs schema =
    (let mk = (\<lambda>ok why. \<lparr>sp_stage = ''artifact_schema'', sp_applicable = ok, sp_commands = [], sp_reason = why\<rparr>);
         found = bindE (ev_artifact_specs H specs) (\<lambda>ss.
           if ss \<noteq> [] then Inr True else map_sum id truthy (ev_json_value H schema)) in
     case found of
       Inr True \<Rightarrow> Inr (mk True ''declared artifacts or schema'')
     | Inr False \<Rightarrow> Inr (mk False ''no declarations'')
     | Inl (TypeError s) \<Rightarrow> Inr (mk True s)
     | Inl (ValueError s) \<Rightarrow> Inr (mk True s)
     | Inl e \<Rightarrow> Inl e)"

definition plan_stages :: "json \<Rightarrow> stage_plan \<Rightarrow> string list \<Rightarrow> string \<Rightarrow> stage_plan list" where
  "plan_stages protocol artifact commands verify_cmd = [
    \<lparr>sp_stage = ''protocol_result'', sp_applicable = protocol \<noteq> JNull, sp_commands = [],
      sp_reason = (if protocol \<noteq> JNull then ''protocol/result supplied'' else ''not supplied'')\<rparr>,
    \<lparr>sp_stage = ''git_candidate'', sp_applicable = True, sp_commands = [],
      sp_reason = ''candidate and repository evidence''\<rparr>,
    artifact,
    \<lparr>sp_stage = ''targeted_checks'', sp_applicable = commands \<noteq> [], sp_commands = commands,
      sp_reason = (if commands \<noteq> [] then ''safe test targets discovered'' else ''no safe target'')\<rparr>,
    \<lparr>sp_stage = ''full_visible_verification'', sp_applicable = verify_cmd \<noteq> [],
      sp_commands = (if verify_cmd \<noteq> [] then [verify_cmd] else []),
      sp_reason = (if verify_cmd \<noteq> [] then ''final visible gate'' else ''no command supplied'')\<rparr>]"

definition plan_evidence_ladder :: "'w host \<Rightarrow> ladder_args \<Rightarrow> verify_request \<Rightarrow> ('w, evidence_plan) io" where
  "plan_evidence_ladder H A req =
    bind_io (catch_io (changed_paths H req) (\<lambda>e. if catch_plan_error e then ret_io [] else raise_io e)) (\<lambda>changed.
    bind_io (lift_io (explicit_commands (json_given (la_targeted A) (la_checks A)))) (\<lambda>explicit.
    bind_io
      (if explicit \<noteq> [] then ret_io explicit
       else bind_io (need_text (v_worktree req)) (\<lambda>worktree.
         derive_targeted_checks H worktree changed (la_signature A))) (\<lambda>commands.
    bind_io (lift_io (artifact_stage H (arg_specs A req) (arg_schema A req))) (\<lambda>artifact.
      ret_io \<lparr>ep_stages = plan_stages (arg_protocol A req) artifact commands (v_verify_cmd req),
        ep_changed = changed, ep_targeted = commands\<rparr>))))"

end
