(* ===== verification/Ladder.thy ===== *)
theory Ladder
  imports Evidence
begin

text \<open>
  The run of the evidence ladder: one step per stage on the state that \<open>run_evidence_ladder\<close> keeps,
  then the result, and \<open>run_verify\<close>, which chooses between the ladder and the plain gate.
\<close>

section \<open>The state of a run\<close>

record ladder =
  ld_stages :: "stage_result list"
  ld_output :: string
  ld_diff_stat :: string
  ld_tests :: "string list"
  ld_patch :: "string option"
  ld_exit :: "int option"
  ld_cause :: string
  ld_decisive :: "string option"
  ld_feedback :: "string option"
  ld_flaky :: bool
  ld_checkout :: "(string \<times> string) option"

definition ladder_start :: ladder where
  "ladder_start = \<lparr>ld_stages = [], ld_output = [], ld_diff_stat = [], ld_tests = [], ld_patch = None,
    ld_exit = None, ld_cause = ''tests_passed'', ld_decisive = None, ld_feedback = None,
    ld_flaky = False, ld_checkout = None\<rparr>"

text \<open>\<open>_stage\<close>, \<open>_skipped\<close> and the inner function \<open>failure\<close>.\<close>

definition stage_done ::
    "'w host \<Rightarrow> stage_plan \<Rightarrow> int \<Rightarrow> bool \<Rightarrow> string \<Rightarrow> payload \<Rightarrow> string option \<Rightarrow> int option
      \<Rightarrow> ('w, stage_result) io" where
  "stage_done H sp started ok output details feedback code =
    bind_io (h_mono H) (\<lambda>now.
      ret_io \<lparr>sr_stage = sp_stage sp, sr_applicable = sp_applicable sp, sr_passed = Some ok,
        sr_decisive = (\<not> ok), sr_duration = decimal_text 3 (round_div (now - started) 1000),
        sr_commands = sp_commands sp, sr_output_tail = text_tail 2000 output,
        sr_feedback = (if ok then None else feedback),
        sr_details = (case code of None \<Rightarrow> details | Some c \<Rightarrow> AList.update ''exit_code'' (JInt c) details)\<rparr>)"

definition stage_skipped :: "stage_plan \<Rightarrow> string \<Rightarrow> stage_result" where
  "stage_skipped sp reason = \<lparr>sr_stage = sp_stage sp, sr_applicable = False, sr_passed = None,
    sr_decisive = False, sr_duration = ''0.0'', sr_commands = sp_commands sp, sr_output_tail = [],
    sr_feedback = None, sr_details = [(''skipped_reason'', JStr reason)]\<rparr>"

definition add_stage :: "stage_result \<Rightarrow> ladder \<Rightarrow> ladder" where
  "add_stage r ld = ld\<lparr>ld_stages := ld_stages ld @ [r]\<rparr>"

definition fail_stage :: "string \<Rightarrow> stage_result \<Rightarrow> int option \<Rightarrow> ladder \<Rightarrow> ladder" where
  "fail_stage cause r code ld = add_stage r (ld\<lparr>ld_cause := cause, ld_decisive := Some (sr_stage r),
    ld_feedback := sr_feedback r, ld_exit := code\<rparr>)"

text \<open>A stage that failed for a reason of its own.\<close>

definition fail_with ::
    "'w host \<Rightarrow> stage_plan \<Rightarrow> int \<Rightarrow> string \<Rightarrow> string \<Rightarrow> string \<Rightarrow> string \<Rightarrow> ladder \<Rightarrow> ('w, ladder) io" where
  "fail_with H sp started cause reason output feedback ld =
    bind_io (stage_done H sp started False output [(''reason'', JStr reason)] (Some feedback) None) (\<lambda>r.
      ret_io (fail_stage cause r None ld))"

section \<open>Protocol\<close>

definition protocol_ok :: "json \<Rightarrow> bool \<times> string" where
  "protocol_ok v = (case v of
      JBool b \<Rightarrow> (b, ''protocol result supplied'')
    | JObj p \<Rightarrow>
        (let sdk = jget_default ''sdk_success'' (jget_default ''result_ok'' (jget_default ''success'' (JBool False) p) p) p;
             exited = jget_default ''worker_exited'' (jget_default ''process_exited'' (JBool True) p) p;
             metadata = jget_default ''terminal_metadata_ok'' (jget_default ''metadata_ok'' (JBool True) p) p
         in (truthy sdk \<and> truthy exited \<and> truthy metadata,
             py_str (json_or (jget ''message'' p) (JStr ''protocol/result evidence''))))
    | _ \<Rightarrow> (False, ''protocol result must be a boolean or object''))"

definition protocol_stage ::
    "'w host \<Rightarrow> ladder_args \<Rightarrow> verify_request \<Rightarrow> stage_plan \<Rightarrow> ladder \<Rightarrow> ('w, ladder) io" where
  "protocol_stage H A req sp ld =
    bind_io (h_mono H) (\<lambda>started.
    let value = arg_protocol A req; (ok, message) = protocol_ok value in
    bind_io (stage_done H sp started ok message [(''protocol_result'', value)]
      (Some ''repair worker terminal metadata and retry once'') None) (\<lambda>r.
      ret_io (if ok then add_stage r ld else fail_stage ''protocol_failure'' r None ld)))"

section \<open>Candidate\<close>

text \<open>The fields after the first tab of each line.\<close>

definition status_names :: "string \<Rightarrow> string list" where
  "status_names out = map (\<lambda>l. let fs = split_on (CHR 0x09) l in
      if tl fs = [] then l else join [CHR 0x09] (tl fs))
    (filter (\<lambda>l. l \<noteq> []) (split_lines out))"

definition ladder_dir :: "verify_request \<Rightarrow> string" where
  "ladder_dir req = path_join (if given (v_artifact_root req) then the (v_artifact_root req) else ''data'') (v_task_id req)"

definition ladder_checkout :: "'w host \<Rightarrow> verify_request \<Rightarrow> ('w, (string \<times> string) option) io" where
  "ladder_checkout H req =
    (if \<not> given (v_candidate_sha req) then ret_io None
     else
       bind_io (request_repo H req) (\<lambda>repo.
       bind_io (h_mkdtemp H ''orch_evidence_candidate_'') (\<lambda>dir.
       bind_io (h_git H [''rev-parse'', candidate_ref req] repo) (\<lambda>hd_r.
         if git_code hd_r \<noteq> 0 \<or> strip (git_out hd_r) = [] then then_io (h_rmdir H dir) (ret_io None)
         else
           bind_io (h_git H [''worktree'', ''add'', ''-q'', ''--detach'', dir, strip (git_out hd_r)] repo) (\<lambda>added.
             if git_code added \<noteq> 0 then then_io (h_rmtree H dir) (ret_io None)
             else ret_io (Some (dir, repo)))))))"

definition candidate_missing ::
    "'w host \<Rightarrow> verify_request \<Rightarrow> string \<Rightarrow> ('w, bool) io" where
  "candidate_missing H req repo =
    (if given (v_candidate_sha req)
     then bind_io (h_git H [''rev-parse'', candidate_ref req] repo) (\<lambda>r. ret_io (git_code r \<noteq> 0))
     else ret_io False)"

definition allow_empty :: "ladder_args \<Rightarrow> verify_request \<Rightarrow> bool" where
  "allow_empty A req = (case la_allow_empty A of None \<Rightarrow> v_allow_empty_diff req | Some b \<Rightarrow> b)"

text \<open>The candidate is there: its patch is saved and it is checked out.\<close>

definition accept_candidate ::
    "'w host \<Rightarrow> verify_request \<Rightarrow> stage_plan \<Rightarrow> int \<Rightarrow> string list \<Rightarrow> string \<Rightarrow> string \<Rightarrow> ladder \<Rightarrow> ('w, ladder) io" where
  "accept_candidate H req sp started names base cwd ld =
    bind_io (h_git H [''diff'', ''--binary'', base, candidate_ref req] cwd) (\<lambda>patch.
    then_io (h_mkdirs H (ladder_dir req))
    (let path = path_join (ladder_dir req) ''review.patch'' in
     then_io (h_write H path (git_out patch))
     (bind_io (stage_done H sp started True (ld_diff_stat ld) [(''changed_paths'', JList (map JStr names))] None None) (\<lambda>r.
      bind_io (ladder_checkout H req) (\<lambda>co.
      let ld' = add_stage r (ld\<lparr>ld_patch := Some path,
            ld_cause := (if names = [] then ''no_change'' else ld_cause ld), ld_checkout := co\<rparr>) in
      if given (v_candidate_sha req) \<and> co = None then
        fail_with H sp started ''candidate_checkout_failed'' ''candidate_checkout_failed''
          ''could not materialize the durable candidate'' ''retain a candidate reachable from the repository'' ld'
      else ret_io ld')))))"

definition git_stage ::
    "'w host \<Rightarrow> ladder_args \<Rightarrow> verify_request \<Rightarrow> stage_plan \<Rightarrow> ladder \<Rightarrow> ('w, ladder) io" where
  "git_stage H A req sp ld =
    bind_io (h_mono H) (\<lambda>started.
    bind_io (need_text (v_worktree req)) (\<lambda>worktree.
    bind_io (request_repo H req) (\<lambda>repo.
    bind_io
      (case v_worker_dirty req of Some s \<Rightarrow> ret_io s
       | None \<Rightarrow> bind_io (h_git H [''status'', ''--porcelain''] worktree) (\<lambda>r. ret_io (git_out r))) (\<lambda>dirty.
    if \<not> blank dirty then
      fail_with H sp started ''uncommitted_changes'' ''uncommitted_changes'' dirty
        ''commit or discard the dirty candidate before verification'' ld
    else
      bind_io (candidate_missing H req repo) (\<lambda>missing.
      if missing then
        fail_with H sp started ''candidate_missing'' ''candidate_missing'' ''candidate commit is unavailable''
          ''retain or recreate the committed candidate'' ld
      else
        bind_io (need_text (v_base_sha req)) (\<lambda>base.
        let cwd = (if given (v_candidate_sha req) then repo else worktree); ref = candidate_ref req in
        bind_io (h_git H [''diff'', ''--stat'', base, ref] cwd) (\<lambda>stat.
        bind_io (h_git H [''diff'', ''--name-status'', base, ref] cwd) (\<lambda>names_r.
        let names = status_names (git_out names_r);
            ld1 = ld\<lparr>ld_diff_stat := git_out stat, ld_tests := filter is_test_name names\<rparr> in
        if names = [] \<and> \<not> allow_empty A req then
          fail_with H sp started ''empty_diff'' ''empty_diff'' []
            ''produce a committed candidate or declare an explicit no-change outcome'' ld1
        else accept_candidate H req sp started names base cwd ld1))))))))"

section \<open>Artifacts\<close>

type_synonym artifact_verdict = "bool \<times> string \<times> payload"

definition ev_check_spec ::
    "filesystem \<Rightarrow> string list \<Rightarrow> payload \<Rightarrow> string list \<Rightarrow> exc + (artifact_verdict + string list)" where
  "ev_check_spec fs root spec checked =
    bindE (jkey ''path'' spec) (\<lambda>pv.
    let name = py_str pv; path = fs_resolve fs root name; checked' = checked @ [name];
        seen = (''checked'', JList (map JStr checked')) in
    if \<not> inside path root then
      Inr (Inl (False, ''artifact path escapes repository'',
        [(''reason'', JStr ''artifact_escapes_repository''), (''path'', JStr name)]))
    else if truthy (jget_default ''required'' (JBool True) spec) \<and> \<not> fs_exists fs path then
      Inr (Inl (False, ''missing output artifact: '' @ name,
        [(''reason'', JStr ''missing_output_artifact''), (''path'', JStr name), seen]))
    else if fs_exists fs path \<and> truthy (jget ''sha256'' spec) then
      bindE (fs_sha256 fs path) (\<lambda>digest.
        if JStr digest \<noteq> jget ''sha256'' spec then
          Inr (Inl (False, ''artifact digest mismatch: '' @ name,
            [(''reason'', JStr ''artifact_digest_mismatch''), (''path'', JStr name), seen]))
        else Inr (Inr checked'))
    else Inr (Inr checked'))"

fun ev_check_specs ::
    "filesystem \<Rightarrow> string list \<Rightarrow> payload list \<Rightarrow> string list \<Rightarrow> exc + (artifact_verdict + string list)" where
  "ev_check_specs fs root [] checked = Inr (Inr checked)"
| "ev_check_specs fs root (s # ss) checked =
    bindE (ev_check_spec fs root s checked) (\<lambda>r.
      case r of Inl bad \<Rightarrow> Inr (Inl bad) | Inr checked' \<Rightarrow> ev_check_specs fs root ss checked')"

text \<open>\<open>set(v)\<close>: the elements must be hashable.\<close>

definition as_set :: "json \<Rightarrow> exc + json list" where
  "as_set v = bindE (iterate v) (\<lambda>xs.
    if list_ex (\<lambda>x. case x of JList ys \<Rightarrow> True | JObj p \<Rightarrow> True | _ \<Rightarrow> False) xs
    then Inl (TypeError ''unhashable type'') else Inr xs)"

definition ev_schema_missing :: "json \<Rightarrow> string list \<Rightarrow> exc + string list" where
  "ev_schema_missing schema checked = (case schema of
      JObj p \<Rightarrow>
        if truthy (jget ''required'' p)
        then bindE (iterate (jget ''required'' p)) (\<lambda>names.
          Inr (sorted_texts (filter (\<lambda>n. n \<notin> set checked) (map py_str names))))
        else Inr []
    | _ \<Rightarrow> Inr [])"

definition json_subset :: "payload \<Rightarrow> json \<Rightarrow> string list \<Rightarrow> exc + artifact_verdict" where
  "json_subset schema document checked =
    (if jget ''type'' schema = JStr ''object'' \<and> (case document of JObj p \<Rightarrow> False | _ \<Rightarrow> True) then
       Inr (False, ''JSON artifact is not an object'', [(''reason'', JStr ''schema_type_mismatch'')])
     else
       bindE (as_set (jget_default ''required'' (JList []) schema)) (\<lambda>required.
       bindE (as_set document) (\<lambda>present.
       let missing = sort_key py_str (remdups (filter (\<lambda>r. r \<notin> set present) required)) in
         if missing \<noteq> [] then Inr (False, ''JSON artifact is missing required fields'',
           [(''reason'', JStr ''schema_required_missing''), (''missing'', JList missing)])
         else Inr (True, ''artifact/schema checks passed'', [(''checked'', JList (map JStr checked))]))))"

definition ev_validate_artifacts ::
    "'w host \<Rightarrow> string \<Rightarrow> json \<Rightarrow> json \<Rightarrow> ('w, artifact_verdict) io" where
  "ev_validate_artifacts H root specs_value schema_value =
    (let malformed = (\<lambda>msg. ret_io (False, msg, [(''reason'', JStr ''malformed_artifact_schema'')]));
         declared = bindE (ev_artifact_specs H specs_value) (\<lambda>specs.
           map_sum id (Pair specs) (ev_json_value H schema_value)) in
     case declared of
       Inl (TypeError msg) \<Rightarrow> malformed msg
     | Inl (ValueError msg) \<Rightarrow> malformed msg
     | Inl e \<Rightarrow> raise_io e
     | Inr (specs, schema) \<Rightarrow>
        bind_io (gets_io (h_files H)) (\<lambda>fs.
        bind_io (lift_io (ev_check_specs fs (fs_root fs root) specs [])) (\<lambda>r. case r of
          Inl bad \<Rightarrow> ret_io bad
        | Inr checked \<Rightarrow>
            bind_io (lift_io (ev_schema_missing schema checked)) (\<lambda>missing.
            if missing \<noteq> [] then
              ret_io (False, ''schema-required artifacts are missing'',
                [(''reason'', JStr ''output_schema_missing''), (''missing'', JList (map JStr missing)),
                 (''checked'', JList (map JStr checked))])
            else
              (case (schema, filter (\<lambda>p. ends_with ''.json'' (py_lower p)) checked) of
                 (JObj p, file # _) \<Rightarrow>
                   if truthy (jget ''type'' p) \<or> truthy (jget ''properties'' p) then
                     bind_io (catch_io (bind_io (h_read H (path_join root file)) (\<lambda>t. ret_io (Inr t)))
                       (\<lambda>e. case e of OSError s \<Rightarrow> ret_io (Inl s) | _ \<Rightarrow> raise_io e)) (\<lambda>text.
                     let invalid = (\<lambda>why. ret_io (False, ''invalid JSON artifact: '' @ why,
                           [(''reason'', JStr ''invalid_json_artifact'')])) in
                     case text of
                       Inl why \<Rightarrow> invalid why
                     | Inr t \<Rightarrow> (case json_loads t of
                           None \<Rightarrow> invalid (h_json_error H t)
                         | Some document \<Rightarrow> lift_io (json_subset p document checked)))
                   else ret_io (True, ''artifact/schema checks passed'', [(''checked'', JList (map JStr checked))])
               | _ \<Rightarrow> ret_io (True, ''artifact/schema checks passed'', [(''checked'', JList (map JStr checked))]))))))"

text \<open>The candidate's checkout, or the worktree without one.\<close>

definition check_root :: "verify_request \<Rightarrow> ladder \<Rightarrow> ('w, string) io" where
  "check_root req ld = (case ld_checkout ld of Some (dir, _) \<Rightarrow> ret_io dir | None \<Rightarrow> need_text (v_worktree req))"

definition artifact_check ::
    "'w host \<Rightarrow> ladder_args \<Rightarrow> verify_request \<Rightarrow> stage_plan \<Rightarrow> ladder \<Rightarrow> ('w, ladder) io" where
  "artifact_check H A req sp ld =
    bind_io (h_mono H) (\<lambda>started.
    bind_io (check_root req ld) (\<lambda>root.
    bind_io (ev_validate_artifacts H root (arg_specs A req) (arg_schema A req)) (\<lambda>(ok, message, details).
    bind_io (stage_done H sp started ok message details
      (Some ''repair the declared output artifact or schema contract'') None) (\<lambda>r.
      ret_io (if ok then add_stage r ld else fail_stage ''artifact_validation_failed'' r None ld)))))"

section \<open>Commands\<close>

text \<open>The targeted commands up to the first that fails: the outputs, and the failure if any.\<close>

fun run_targeted ::
    "'w host \<Rightarrow> string \<Rightarrow> int \<Rightarrow> string list \<Rightarrow> string list
      \<Rightarrow> ('w, string list \<times> (string \<times> int option) option) io" where
  "run_targeted H root limit [] outs = ret_io (outs, None)"
| "run_targeted H root limit (c # cs) outs =
    bind_io (run_shell H c root limit) (\<lambda>(code, out, late).
      if late then ret_io (outs @ [out], Some (''targeted_checks_timeout'', None))
      else if code \<noteq> Some 0 then ret_io (outs @ [out], Some (''targeted_checks_failed'', code))
      else run_targeted H root limit cs (outs @ [out]))"

definition targeted_stage ::
    "'w host \<Rightarrow> verify_request \<Rightarrow> stage_plan \<Rightarrow> ladder \<Rightarrow> ('w, ladder) io" where
  "targeted_stage H req sp ld =
    bind_io (h_mono H) (\<lambda>started.
    bind_io (check_root req ld) (\<lambda>root.
    bind_io (run_targeted H root (v_timeout req) (sp_commands sp) []) (\<lambda>(outs, bad).
    let code = (case bad of None \<Rightarrow> ld_exit ld | Some (_, c) \<Rightarrow> c) in
    bind_io (stage_done H sp started (bad = None) (join [CHR 0x0A] outs)
      [(''checks_run'', JInt (int (length outs)))]
      (Some ''repair the targeted failure before running full verification'') code) (\<lambda>r.
      ret_io (case bad of None \<Rightarrow> add_stage r ld | Some (cause, c) \<Rightarrow> fail_stage cause r c ld)))))"

definition full_stage ::
    "'w host \<Rightarrow> ladder_args \<Rightarrow> verify_request \<Rightarrow> stage_plan \<Rightarrow> ladder \<Rightarrow> ('w, ladder) io" where
  "full_stage H A req sp ld =
    bind_io (h_mono H) (\<lambda>started.
    bind_io (check_root req ld) (\<lambda>root.
    let command = hd (sp_commands sp) in
    bind_io (run_shell H command root (v_timeout req)) (\<lambda>(code, out, late).
    let ok = (\<not> late \<and> code = Some 0);
        cause = (if late then ''timeout'' else if code = Some 0 then ''tests_passed'' else ''tests_failed'');
        finish = (\<lambda>ok code out flaky.
          bind_io (stage_done H sp started ok out [(''rerun_on_fail'', JBool (la_rerun A))]
            (Some ''repair the visible verification failure'') code) (\<lambda>r.
          let ld1 = ld\<lparr>ld_cause := cause, ld_exit := code, ld_output := out, ld_flaky := flaky \<or> ld_flaky ld\<rparr> in
            ret_io (if ok then add_stage r ld1 else fail_stage cause r code ld1))) in
    if \<not> ok \<and> \<not> late \<and> la_rerun A then
      bind_io (run_shell H command root (v_timeout req)) (\<lambda>(code2, out2, late2).
        if \<not> late2 \<and> code2 = Some 0 then finish True code2 out2 True else finish False code2 out2 False)
    else finish ok (if late then None else code) out False)))"

section \<open>The run\<close>

definition ladder_step ::
    "'w host \<Rightarrow> ladder_args \<Rightarrow> verify_request \<Rightarrow> stage_plan \<Rightarrow> ladder \<Rightarrow> ('w, ladder) io" where
  "ladder_step H A req sp ld = (case ld_decisive ld of
      Some d \<Rightarrow> ret_io (add_stage (stage_skipped sp (''stopped after '' @ d)) ld)
    | None \<Rightarrow>
        if \<not> sp_applicable sp then ret_io (add_stage (stage_skipped sp ''not applicable'') ld)
        else if sp_stage sp = ''protocol_result'' then protocol_stage H A req sp ld
        else if sp_stage sp = ''git_candidate'' then git_stage H A req sp ld
        else if sp_stage sp = ''artifact_schema'' then artifact_check H A req sp ld
        else if sp_stage sp = ''targeted_checks'' then targeted_stage H req sp ld
        else if sp_stage sp = ''full_visible_verification'' then full_stage H A req sp ld
        else ret_io ld)"

fun ladder_steps ::
    "'w host \<Rightarrow> ladder_args \<Rightarrow> verify_request \<Rightarrow> stage_plan list \<Rightarrow> ladder \<Rightarrow> ('w, ladder) io" where
  "ladder_steps H A req [] ld = ret_io ld"
| "ladder_steps H A req (sp # sps) ld = bind_io (ladder_step H A req sp ld) (ladder_steps H A req sps)"

record evidence_result =
  er_passed :: bool
  er_cause :: string
  er_exit_code :: "int option"
  er_duration :: string
  er_output_tail :: string
  er_diff_stat :: string
  er_tests :: "string list"
  er_output_path :: "string option"
  er_patch_path :: "string option"
  er_stages :: "stage_result list"
  er_decisive :: "string option"
  er_feedback :: "string option"
  er_flaky :: bool

text \<open>\<open>output or "\n".join(tails)\<close>.\<close>

definition ladder_text :: "ladder \<Rightarrow> string" where
  "ladder_text ld = (if ld_output ld \<noteq> [] then ld_output ld
    else join [CHR 0x0A] (map sr_output_tail (ld_stages ld)))"

definition ladder_log :: "'w host \<Rightarrow> verify_request \<Rightarrow> ladder \<Rightarrow> ('w, string option) io" where
  "ladder_log H req ld = (case ld_decisive ld of
      None \<Rightarrow> ret_io None
    | Some d \<Rightarrow>
        then_io (h_mkdirs H (ladder_dir req))
        (bind_io (h_time_ms H) (\<lambda>ms.
         let path = path_join (ladder_dir req) (''evidence_'' @ d @ ''_'' @ int_text ms @ ''.log'') in
         then_io (h_write H path (ladder_text ld)) (ret_io (Some path)))))"

definition run_evidence_ladder ::
    "'w host \<Rightarrow> ladder_args \<Rightarrow> verify_request \<Rightarrow> ('w, evidence_result) io" where
  "run_evidence_ladder H A req =
    bind_io (h_mono H) (\<lambda>started.
    bind_io (plan_evidence_ladder H A req) (\<lambda>plan.
    bind_io (need_text (v_worktree req)) (\<lambda>_.
    bind_io (ladder_steps H A req (ep_stages plan) ladder_start) (\<lambda>ld.
    bind_io (case ld_checkout ld of None \<Rightarrow> ret_io () | Some (dir, repo) \<Rightarrow> remove_checkout H dir repo) (\<lambda>_.
    bind_io (ladder_log H req ld) (\<lambda>path.
    bind_io (h_mono H) (\<lambda>now.
      ret_io \<lparr>er_passed = (ld_decisive ld = None), er_cause = ld_cause ld, er_exit_code = ld_exit ld,
        er_duration = decimal_text 3 (round_div (now - started) 1000),
        er_output_tail = text_tail 2000 (ladder_text ld), er_diff_stat = ld_diff_stat ld,
        er_tests = ld_tests ld, er_output_path = path, er_patch_path = ld_patch ld,
        er_stages = ld_stages ld, er_decisive = ld_decisive ld, er_feedback = ld_feedback ld,
        er_flaky = ld_flaky ld\<rparr>)))))))"

section \<open>The gate with or without the ladder\<close>

definition stage_json :: "stage_result \<Rightarrow> json" where
  "stage_json r = JObj [(''stage'', JStr (sr_stage r)), (''applicable'', JBool (sr_applicable r)),
    (''passed'', (case sr_passed r of None \<Rightarrow> JNull | Some b \<Rightarrow> JBool b)), (''decisive'', JBool (sr_decisive r)),
    (''duration_s'', JFloat (sr_duration r)), (''cost_usd'', JFloat ''0.0''),
    (''commands'', JList (map JStr (sr_commands r))), (''output_tail'', JStr (sr_output_tail r)),
    (''failure_signature'', JNull), (''repair_feedback'', jopt (sr_feedback r)), (''details'', JObj (sr_details r))]"

definition evidence_json :: "string option \<Rightarrow> evidence_result \<Rightarrow> payload" where
  "evidence_json signature r = [
    (''passed'', JBool (er_passed r)), (''cause'', JStr (er_cause r)), (''exit_code'', jint_opt (er_exit_code r)),
    (''duration_s'', JFloat (er_duration r)), (''output_tail'', JStr (er_output_tail r)),
    (''diff_stat'', JStr (er_diff_stat r)), (''tests_modified'', JList (map JStr (er_tests r))),
    (''output_path'', jopt (er_output_path r)), (''patch_path'', jopt (er_patch_path r)),
    (''failure_signature'', jopt signature), (''stages'', JList (map stage_json (er_stages r))),
    (''decisive_stage'', jopt (er_decisive r)), (''repair_feedback'', jopt (er_feedback r)),
    (''flaky'', JBool (er_flaky r))]"

definition run_verify ::
    "'w host \<Rightarrow> bool \<Rightarrow> ladder_args \<Rightarrow> verify_request \<Rightarrow> ('w, verify_result) io" where
  "run_verify H evidence_ladder A req =
    (if \<not> evidence_ladder then run_verify_legacy H (la_rerun A) req
     else
       bind_io (run_evidence_ladder H A req) (\<lambda>r.
       let signature = (if er_passed r then None
             else Some (normalize_failure_signature (er_cause r) (er_output_tail r) (er_exit_code r))) in
       ret_io \<lparr>vr_passed = er_passed r, vr_cause = Some (er_cause r), vr_exit_code = er_exit_code r,
         vr_duration = er_duration r, vr_flaky = er_flaky r, vr_output_tail = er_output_tail r,
         vr_diff_stat = er_diff_stat r, vr_tests_modified = JList (map JStr (er_tests r)),
         vr_output_path = er_output_path r, vr_patch_path = er_patch_path r,
         vr_failure_signature = signature, vr_evidence = Some (evidence_json signature r)\<rparr>))"

end
