(* ===== verification/Host_Laws.thy ===== *)
theory Host_Laws
  imports Host
begin

text \<open>
  Two ways to state what a statement on a host does: the values it may return, and a triple of a
  condition before it and a condition on outcome and state after it.
\<close>

section \<open>Values a statement may return\<close>

definition gives :: "('a \<Rightarrow> bool) \<Rightarrow> ('w, 'a) io \<Rightarrow> bool" where
  "gives P m \<longleftrightarrow> (\<forall>w x w'. m w = (Inr x, w') \<longrightarrow> P x)"

lemma givesD: "gives P m \<Longrightarrow> m w = (Inr x, w') \<Longrightarrow> P x"
  unfolding gives_def by blast

lemma gives_any: "gives (\<lambda>_. True) m"
  by (simp add: gives_def)

lemma gives_ret: "P x \<Longrightarrow> gives P (ret_io x)"
  by (simp add: gives_def ret_io_def)

lemma gives_raise: "gives P (raise_io e)"
  by (simp add: gives_def raise_io_def)

lemma gives_bind: "gives Q m \<Longrightarrow> (\<And>x. Q x \<Longrightarrow> gives P (k x)) \<Longrightarrow> gives P (bind_io m k)"
  unfolding gives_def bind_io_Inr by blast

lemma gives_then: "gives P k \<Longrightarrow> gives P (then_io m k)"
  unfolding then_io_def by (rule gives_bind[OF gives_any])

lemma gives_step: "(\<And>x. gives P (k x)) \<Longrightarrow> gives P (bind_io m k)"
  by (rule gives_bind[OF gives_any])

lemma gives_if: "(b \<Longrightarrow> gives P m) \<Longrightarrow> (\<not> b \<Longrightarrow> gives P n) \<Longrightarrow> gives P (if b then m else n)"
  by simp

lemma gives_option:
  "(v = None \<Longrightarrow> gives P m) \<Longrightarrow> (\<And>x. v = Some x \<Longrightarrow> gives P (k x)) \<Longrightarrow>
    gives P (case v of None \<Rightarrow> m | Some x \<Rightarrow> k x)"
  by (simp split: option.split)

lemma gives_prod: "(\<And>x y. v = (x, y) \<Longrightarrow> gives P (k x y)) \<Longrightarrow> gives P (case v of (x, y) \<Rightarrow> k x y)"
  by (simp split: prod.split)

lemma gives_finally: "gives P m \<Longrightarrow> gives P (finally_io m c)"
  unfolding gives_def finally_io_def by (auto split: prod.splits sum.splits)

section \<open>Triples\<close>

definition triple :: "('w \<Rightarrow> bool) \<Rightarrow> ('w, 'a) io \<Rightarrow> (exc + 'a \<Rightarrow> 'w \<Rightarrow> bool) \<Rightarrow> bool" where
  "triple P m Q \<longleftrightarrow> (\<forall>w. P w \<longrightarrow> (case m w of (r, w') \<Rightarrow> Q r w'))"

lemma tripleD: "triple P m Q \<Longrightarrow> P w \<Longrightarrow> m w = (r, w') \<Longrightarrow> Q r w'"
  unfolding triple_def by fastforce

lemma triple_keeps: "keeps R m \<Longrightarrow> (\<And>w w'. P w \<Longrightarrow> R w w' \<Longrightarrow> P w') \<Longrightarrow> triple P m (\<lambda>_. P)"
  unfolding triple_def keeps_def by (simp add: case_prod_beta)

lemma triple_ret: "(\<And>w. P w \<Longrightarrow> Q (Inr x) w) \<Longrightarrow> triple P (ret_io x) Q"
  by (simp add: triple_def ret_io_def)

lemma triple_raise: "(\<And>w. P w \<Longrightarrow> Q (Inl e) w) \<Longrightarrow> triple P (raise_io e) Q"
  by (simp add: triple_def raise_io_def)

lemma triple_bind:
  assumes "triple P m M" "\<And>x. triple (M (Inr x)) (k x) Q" "\<And>e w. M (Inl e) w \<Longrightarrow> Q (Inl e) w"
  shows "triple P (bind_io m k) Q"
  unfolding triple_def bind_io_def
proof (intro allI impI)
  fix w assume "P w"
  obtain r w1 where m: "m w = (r, w1)" by (cases "m w")
  have M: "M r w1" by (rule tripleD[OF assms(1) \<open>P w\<close> m])
  show "case (case m w of (Inl e, w') \<Rightarrow> (Inl e, w') | (Inr x, w') \<Rightarrow> k x w') of (r, w') \<Rightarrow> Q r w'"
    using M m assms(2,3) by (cases r) (auto simp: triple_def)
qed

lemma triple_then:
  "triple P m M \<Longrightarrow> (\<And>x. triple (M (Inr x)) k Q) \<Longrightarrow> (\<And>e w. M (Inl e) w \<Longrightarrow> Q (Inl e) w) \<Longrightarrow> triple P (then_io m k) Q"
  unfolding then_io_def by (rule triple_bind)

lemma triple_if: "(b \<Longrightarrow> triple P m Q) \<Longrightarrow> (\<not> b \<Longrightarrow> triple P n Q) \<Longrightarrow> triple P (if b then m else n) Q"
  by simp

lemma triple_post: "triple P m M \<Longrightarrow> (\<And>r w. M r w \<Longrightarrow> Q r w) \<Longrightarrow> triple P m Q"
  unfolding triple_def by fastforce

lemma triple_finally:
  assumes "triple P m M" "\<And>r. triple (M r) c (\<lambda>r' w. case r' of Inl e \<Rightarrow> Q (Inl e) w | Inr _ \<Rightarrow> Q r w)"
  shows "triple P (finally_io m c) Q"
  unfolding triple_def finally_io_def
proof (intro allI impI)
  fix w assume "P w"
  obtain r w1 where m: "m w = (r, w1)" by (cases "m w")
  obtain r' w2 where c: "c w1 = (r', w2)" by (cases "c w1")
  have "M r w1" by (rule tripleD[OF assms(1) \<open>P w\<close> m])
  from tripleD[OF assms(2) this c]
  show "case (case m w of (r, w') \<Rightarrow> (case c w' of (Inl e, w'') \<Rightarrow> (Inl e, w'') | (Inr _, w'') \<Rightarrow> (r, w''))) of
      (r, w') \<Rightarrow> Q r w'"
    using m c by (cases r') auto
qed

lemma triple_gives:
  "triple P m (\<lambda>_. Q) \<Longrightarrow> gives V m \<Longrightarrow> triple P m (\<lambda>r w. Q w \<and> (\<forall>x. r = Inr x \<longrightarrow> V x))"
  unfolding triple_def by (simp add: case_prod_beta) (metis givesD prod.collapse)

lemma triple_pre: "triple P m Q \<Longrightarrow> (\<And>w. P' w \<Longrightarrow> P w) \<Longrightarrow> triple P' m Q"
  unfolding triple_def by simp

lemma triple_ex: "(\<And>x. triple (P x) m Q) \<Longrightarrow> triple (\<lambda>w. \<exists>x. P x w) m Q"
  unfolding triple_def by (intro allI impI) (elim exE, simp)

lemma triple_bind_value:
  assumes "triple P m (\<lambda>r w. P' w \<and> (\<forall>v. r = Inr v \<longrightarrow> v = s))" "triple P' (k s) Q" "\<And>e w. P' w \<Longrightarrow> Q (Inl e) w"
  shows "triple P (bind_io m k) Q"
proof (rule triple_bind[OF assms(1)])
  fix x
  show "triple (\<lambda>w. P' w \<and> (\<forall>v. Inr x = (Inr v :: exc + 'b) \<longrightarrow> v = s)) (k x) Q"
    using assms(2) by (cases "x = s") (simp_all add: triple_def)
qed (use assms(3) in simp)

lemma triple_value:
  assumes "keeps R m" "\<And>w w'. P w \<Longrightarrow> R w w' \<Longrightarrow> P w'" "\<And>w x w'. P w \<Longrightarrow> m w = (Inr x, w') \<Longrightarrow> x = s"
  shows "triple P m (\<lambda>r w. P w \<and> (\<forall>v. r = Inr v \<longrightarrow> v = s))"
  unfolding triple_def
proof (intro allI impI)
  fix w assume P: "P w"
  obtain r w' where run: "m w = (r, w')" by fastforce
  have "P w'" by (rule assms(2)[OF P keepsD[OF assms(1) run]])
  moreover have "v = s" if "r = Inr v" for v by (rule assms(3)[OF P]) (use run that in simp)
  ultimately show "case m w of (r, w) \<Rightarrow> P w \<and> (\<forall>v. r = Inr v \<longrightarrow> v = s)" using run by simp
qed

end
