(* ===== verification/Ladder_Laws.thy ===== *)
theory Ladder_Laws
  imports Ladder Host_Laws
begin

text \<open>
  What a run of the evidence ladder establishes: the outcome of each stage with the evidence that
  decided it, and of the five in turn.
\<close>

section \<open>Stages\<close>

text \<open>
  The evidence for the verdict of a stage that ran: what the supplied result, git, the artifact check
  or the last command answered.
\<close>

definition git_evidence :: "'w host \<Rightarrow> ladder_args \<Rightarrow> verify_request \<Rightarrow> bool" where
  "git_evidence H A req \<longleftrightarrow> (\<forall>s. v_worker_dirty req = Some s \<longrightarrow> blank s) \<and>
    (\<exists>base cwd w r w'. v_base_sha req = Some base \<and>
      h_git H [''diff'', ''--name-status'', base, candidate_ref req] cwd w = (Inr r, w') \<and>
      (status_names (git_out r) \<noteq> [] \<or> allow_empty A req))"

definition stage_evidence :: "'w host \<Rightarrow> ladder_args \<Rightarrow> verify_request \<Rightarrow> stage_plan \<Rightarrow> bool \<Rightarrow> bool" where
  "stage_evidence H A req sp ok \<longleftrightarrow>
    (if sp_stage sp = ''protocol_result'' then ok = fst (protocol_ok (arg_protocol A req))
     else if sp_stage sp = ''git_candidate'' then ok \<longrightarrow> git_evidence H A req
     else if sp_stage sp = ''artifact_schema'' then
       \<exists>root w m det w'. ev_validate_artifacts H root (arg_specs A req) (arg_schema A req) w = (Inr (ok, m, det), w')
     else if sp_stage sp = ''targeted_checks'' then
       \<exists>root w outs bad w'. run_targeted H root (v_timeout req) (sp_commands sp) [] w = (Inr (outs, bad), w') \<and>
         ok = (bad = None)
     else
       \<exists>root w code out late w'. run_shell H (hd (sp_commands sp)) root (v_timeout req) w = (Inr (code, out, late), w') \<and>
         ok = (\<not> late \<and> code = Some 0))"

text \<open>
  A planned stage before a failure: an applicable one ran and passed on its evidence, and only one
  that is not applicable was skipped. The stage that failed ran, on the evidence against it.
\<close>

definition stage_passing :: "'w host \<Rightarrow> ladder_args \<Rightarrow> verify_request \<Rightarrow> stage_plan \<Rightarrow> stage_result \<Rightarrow> bool" where
  "stage_passing H A req sp r \<longleftrightarrow> sr_stage r = sp_stage sp \<and> \<not> sr_decisive r \<and>
    (if sp_applicable sp then sr_applicable r \<and> sr_passed r = Some True \<and> stage_evidence H A req sp True
     else r = stage_skipped sp ''not applicable'')"

definition stage_failing :: "'w host \<Rightarrow> ladder_args \<Rightarrow> verify_request \<Rightarrow> stage_plan \<Rightarrow> stage_result \<Rightarrow> bool" where
  "stage_failing H A req sp r \<longleftrightarrow> sr_stage r = sp_stage sp \<and> sr_decisive r \<and> sp_applicable sp \<and>
    sr_applicable r \<and> sr_passed r = Some False \<and> stage_evidence H A req sp False"

text \<open>
  The results \<open>new\<close> of one stage, and the decisive stage after it. A candidate that was accepted and
  then could not be checked out has two results.
\<close>

definition stage_outcome ::
    "'w host \<Rightarrow> ladder_args \<Rightarrow> verify_request \<Rightarrow> stage_plan \<Rightarrow> stage_result list \<Rightarrow> string option \<Rightarrow> bool" where
  "stage_outcome H A req sp new dec \<longleftrightarrow> (case dec of
      None \<Rightarrow> \<exists>r. new = [r] \<and> stage_passing H A req sp r
    | Some d \<Rightarrow> d = sp_stage sp \<and> (\<exists>r. stage_failing H A req sp r \<and> (new = [r] \<or>
        sp_stage sp = ''git_candidate'' \<and> (\<exists>x. new = [x, r] \<and> stage_passing H A req sp x))))"

definition stage_run :: "'w host \<Rightarrow> ladder_args \<Rightarrow> verify_request \<Rightarrow> stage_plan \<Rightarrow> ladder \<Rightarrow> ladder \<Rightarrow> bool" where
  "stage_run H A req sp ld ld' \<longleftrightarrow>
    (\<exists>new. ld_stages ld' = ld_stages ld @ new \<and> stage_outcome H A req sp new (ld_decisive ld'))"

definition stage_ended :: "stage_plan \<Rightarrow> bool \<Rightarrow> stage_result \<Rightarrow> bool" where
  "stage_ended sp ok r \<longleftrightarrow> sr_stage r = sp_stage sp \<and> sr_applicable r = sp_applicable sp \<and>
    sr_passed r = Some ok \<and> sr_decisive r = (\<not> ok)"

lemma stage_done_gives: "gives (stage_ended sp ok) (stage_done H sp started ok out details fb code)"
  unfolding stage_done_def by (rule gives_step, rule gives_ret) (simp add: stage_ended_def)

text \<open>What a statement gave, it gave in some run of it.\<close>

lemma gives_self: "gives (\<lambda>x. \<exists>w w'. m w = (Inr x, w')) m"
  unfolding gives_def by blast

lemma run_add:
  "ld_stages ld' = ld_stages ld \<Longrightarrow> ld_decisive ld' = None \<Longrightarrow> sp_applicable sp \<Longrightarrow> stage_ended sp True r \<Longrightarrow>
    stage_evidence H A req sp True \<Longrightarrow> stage_run H A req sp ld (add_stage r ld')"
  by (simp add: stage_run_def add_stage_def stage_outcome_def stage_passing_def stage_ended_def)

lemma run_fail:
  "ld_stages ld' = ld_stages ld \<Longrightarrow> sp_applicable sp \<Longrightarrow> stage_ended sp False r \<Longrightarrow>
    stage_evidence H A req sp False \<Longrightarrow> stage_run H A req sp ld (fail_stage cause r code ld')"
  by (simp add: stage_run_def fail_stage_def add_stage_def stage_outcome_def stage_failing_def stage_ended_def)

lemma run_add_fail:
  "ld_stages ld' = ld_stages ld \<Longrightarrow> sp_applicable sp \<Longrightarrow> sp_stage sp = ''git_candidate'' \<Longrightarrow>
    stage_ended sp True r0 \<Longrightarrow> stage_evidence H A req sp True \<Longrightarrow> stage_ended sp False r \<Longrightarrow>
    stage_evidence H A req sp False \<Longrightarrow> stage_run H A req sp ld (fail_stage cause r code (add_stage r0 ld'))"
  by (auto simp: stage_run_def fail_stage_def add_stage_def stage_outcome_def stage_failing_def stage_passing_def
      stage_ended_def intro!: exI[of _ "[r0, r]"])

lemma fail_with_run:
  "ld_stages ld' = ld_stages ld \<Longrightarrow> sp_applicable sp \<Longrightarrow> stage_evidence H A req sp False \<Longrightarrow>
    gives (stage_run H A req sp ld) (fail_with H sp started cause reason out fb ld')"
  unfolding fail_with_def
  by (rule gives_bind[OF stage_done_gives], rule gives_ret, rule run_fail)

lemma protocol_run:
  assumes "ld_decisive ld = None" "sp_applicable sp" "sp_stage sp = ''protocol_result''"
  shows "gives (stage_run H A req sp ld) (protocol_stage H A req sp ld)"
  unfolding protocol_stage_def Let_def
  by (rule gives_step, rule gives_prod, rule gives_bind[OF stage_done_gives], rule gives_ret)
     (use assms in \<open>auto simp: run_add run_fail stage_evidence_def\<close>)

lemma git_fails: "sp_stage sp = ''git_candidate'' \<Longrightarrow> stage_evidence H A req sp False"
  by (simp add: stage_evidence_def)

lemma accept_run:
  assumes "ld_decisive ld' = None" "ld_stages ld' = ld_stages ld" "sp_applicable sp"
    "sp_stage sp = ''git_candidate''" "git_evidence H A req"
  shows "gives (stage_run H A req sp ld) (accept_candidate H req sp started names base cwd ld')"
proof -
  have ev: "stage_evidence H A req sp True" using assms(4,5) by (simp add: stage_evidence_def)
  show ?thesis
    unfolding accept_candidate_def Let_def fail_with_def
    by (rule gives_step, rule gives_then, rule gives_then, rule gives_bind[OF stage_done_gives], rule gives_step,
        rule gives_if, rule gives_bind[OF stage_done_gives], rule gives_ret, rule run_add_fail)
       (use assms ev in \<open>simp_all add: gives_ret run_add git_fails\<close>)
qed

text \<open>An answer is evidence.\<close>

lemma artifact_evidence:
  "ev_validate_artifacts H root (arg_specs A req) (arg_schema A req) w = (Inr (ok, m, det), w') \<Longrightarrow>
    sp_stage sp = ''artifact_schema'' \<Longrightarrow> stage_evidence H A req sp ok"
  unfolding stage_evidence_def by (simp, blast)

lemma targeted_evidence:
  "run_targeted H root (v_timeout req) (sp_commands sp) [] w = (Inr (outs, bad), w') \<Longrightarrow>
    sp_stage sp = ''targeted_checks'' \<Longrightarrow> stage_evidence H A req sp (bad = None)"
  unfolding stage_evidence_def by (simp, blast)

lemma full_evidence:
  "run_shell H (hd (sp_commands sp)) root (v_timeout req) w = (Inr (code, out, late), w') \<Longrightarrow>
    sp_stage sp = ''full_visible_verification'' \<Longrightarrow> stage_evidence H A req sp (\<not> late \<and> code = Some 0)"
  unfolding stage_evidence_def by (simp, blast)

lemma candidate_evidence:
  "h_git H [''diff'', ''--name-status'', base, candidate_ref req] cwd w = (Inr r, w') \<Longrightarrow>
    v_base_sha req = Some base \<Longrightarrow> status_names (git_out r) \<noteq> [] \<or> allow_empty A req \<Longrightarrow>
    \<forall>s. v_worker_dirty req = Some s \<longrightarrow> blank s \<Longrightarrow> git_evidence H A req"
  unfolding git_evidence_def by blast

lemma need_text_gives: "gives (\<lambda>s. v = Some s) (need_text v)"
  unfolding gives_def need_text_def by (auto simp: ret_io_def raise_io_def split: option.splits)

lemma dirty_gives:
  "gives (\<lambda>d. \<forall>s. v = Some s \<longrightarrow> d = s) (case v of Some s \<Rightarrow> ret_io s | None \<Rightarrow> m)"
  by (cases v) (auto intro: gives_any gives_ret simp: gives_def ret_io_def)

lemma git_run:
  assumes "ld_decisive ld = None" "sp_applicable sp" "sp_stage sp = ''git_candidate''"
  shows "gives (stage_run H A req sp ld) (git_stage H A req sp ld)"
  unfolding git_stage_def Let_def
proof (rule gives_step, rule gives_step, rule gives_step, rule gives_bind[OF dirty_gives], rule gives_if)
  fix dirty assume dirty: "\<forall>s. v_worker_dirty req = Some s \<longrightarrow> dirty = s" and clean: "\<not> \<not> blank dirty"
  fix started worktree repo
  show "gives (stage_run H A req sp ld)
    (bind_io (candidate_missing H req repo) (\<lambda>missing.
      if missing then
        fail_with H sp started ''candidate_missing'' ''candidate_missing'' ''candidate commit is unavailable''
          ''retain or recreate the committed candidate'' ld
      else
        bind_io (need_text (v_base_sha req)) (\<lambda>base.
        bind_io (h_git H [''diff'', ''--stat'', base, candidate_ref req] (if given (v_candidate_sha req) then repo else worktree)) (\<lambda>stat.
        bind_io (h_git H [''diff'', ''--name-status'', base, candidate_ref req] (if given (v_candidate_sha req) then repo else worktree)) (\<lambda>names_r.
        if status_names (git_out names_r) = [] \<and> \<not> allow_empty A req then
          fail_with H sp started ''empty_diff'' ''empty_diff'' []
            ''produce a committed candidate or declare an explicit no-change outcome''
            (ld\<lparr>ld_diff_stat := git_out stat, ld_tests := filter is_test_name (status_names (git_out names_r))\<rparr>)
        else accept_candidate H req sp started (status_names (git_out names_r)) base
            (if given (v_candidate_sha req) then repo else worktree)
            (ld\<lparr>ld_diff_stat := git_out stat, ld_tests := filter is_test_name (status_names (git_out names_r))\<rparr>))))))"
    by (rule gives_step, rule gives_if, rule fail_with_run, simp, rule assms, rule git_fails, rule assms,
        rule gives_bind[OF need_text_gives], rule gives_step, rule gives_bind[OF gives_self], rule gives_if,
        rule fail_with_run, simp, rule assms, rule git_fails, rule assms, rule accept_run)
       (use assms dirty clean in \<open>auto intro: candidate_evidence\<close>)
qed (use assms in \<open>auto intro!: fail_with_run git_fails\<close>)

lemma artifact_run:
  assumes "ld_decisive ld = None" "sp_applicable sp" "sp_stage sp = ''artifact_schema''"
  shows "gives (stage_run H A req sp ld) (artifact_check H A req sp ld)"
  unfolding artifact_check_def
  by (rule gives_step, rule gives_step, rule gives_bind[OF gives_self], rule gives_prod, rule gives_prod,
      rule gives_bind[OF stage_done_gives], rule gives_ret)
     (use assms in \<open>auto intro!: run_add run_fail intro: artifact_evidence\<close>)

lemma targeted_run:
  assumes "ld_decisive ld = None" "sp_applicable sp" "sp_stage sp = ''targeted_checks''"
  shows "gives (stage_run H A req sp ld) (targeted_stage H req sp ld)"
  unfolding targeted_stage_def Let_def
  by (rule gives_step, rule gives_step, rule gives_bind[OF gives_self], rule gives_prod,
      rule gives_bind[OF stage_done_gives], rule gives_ret)
     (use assms in \<open>auto intro!: run_add run_fail dest: targeted_evidence[where A = A] split: option.split\<close>)

lemma full_run:
  assumes "ld_decisive ld = None" "sp_applicable sp" "sp_stage sp = ''full_visible_verification''"
  shows "gives (stage_run H A req sp ld) (full_stage H A req sp ld)"
  unfolding full_stage_def Let_def
  by (rule gives_step, rule gives_step, rule gives_bind[OF gives_self], rule gives_prod, rule gives_prod, rule gives_if,
      rule gives_bind[OF gives_self], rule gives_prod, rule gives_prod, rule gives_if)
     (rule gives_bind[OF stage_done_gives], rule gives_ret,
      use assms in \<open>auto intro!: run_add run_fail dest!: full_evidence[where A = A]\<close>)+

lemma skipped_run:
  "ld_decisive ld = None \<Longrightarrow> \<not> sp_applicable sp \<Longrightarrow>
    stage_run H A req sp ld (add_stage (stage_skipped sp ''not applicable'') ld)"
  by (simp add: stage_run_def add_stage_def stage_outcome_def stage_passing_def, simp add: stage_skipped_def)

text \<open>The five stages, and the step that runs one of them.\<close>

definition stage_names :: "string list" where
  "stage_names = [''protocol_result'', ''git_candidate'', ''artifact_schema'', ''targeted_checks'',
    ''full_visible_verification'']"

lemma ladder_step_run:
  assumes "ld_decisive ld = None" "sp_stage sp \<in> set stage_names"
  shows "gives (stage_run H A req sp ld) (ladder_step H A req sp ld)"
proof (cases "sp_applicable sp")
  case False
  then show ?thesis using assms(1) skipped_run[of ld sp H A req] by (simp add: ladder_step_def gives_ret)
next
  case True
  then show ?thesis
    using assms protocol_run[of ld sp H A req] git_run[of ld sp H A req]
      artifact_run[of ld sp H A req] targeted_run[of ld sp H A req] full_run[of ld sp H A req]
    by (auto simp: ladder_step_def stage_names_def)
qed

lemma ladder_step_after:
  "ld_decisive ld = Some d \<Longrightarrow>
    ladder_step H A req sp ld w = (Inr (add_stage (stage_skipped sp (''stopped after '' @ d)) ld), w)"
  by (simp add: ladder_step_def ret_io_def)

section \<open>The run\<close>

definition skipped_after :: "string \<Rightarrow> stage_plan list \<Rightarrow> stage_result list" where
  "skipped_after d sps = map (\<lambda>sp. stage_skipped sp (''stopped after '' @ d)) sps"

lemma steps_after:
  "ld_decisive ld = Some d \<Longrightarrow>
    ladder_steps H A req sps ld w = (Inr (ld\<lparr>ld_stages := ld_stages ld @ skipped_after d sps\<rparr>), w)"
proof (induction sps arbitrary: ld)
  case Nil
  then show ?case by (simp add: ret_io_def skipped_after_def)
next
  case (Cons sp sps)
  let ?ld = "add_stage (stage_skipped sp (''stopped after '' @ d)) ld"
  have "ld_decisive ?ld = Some d" using Cons.prems by (simp add: add_stage_def)
  from Cons.IH[OF this] show ?case
    using Cons.prems by (simp add: bind_run[OF ladder_step_after] skipped_after_def add_stage_def)
qed

text \<open>
  The results of the planned stages: each passes in turn, or the first that fails is decisive and
  exactly the stages after it were skipped for that reason.
\<close>

definition ladder_outcome ::
    "'w host \<Rightarrow> ladder_args \<Rightarrow> verify_request \<Rightarrow> stage_plan list \<Rightarrow> stage_result list \<Rightarrow> string option \<Rightarrow> bool" where
  "ladder_outcome H A req sps rs dec \<longleftrightarrow> (case dec of
      None \<Rightarrow> list_all2 (stage_passing H A req) sps rs
    | Some d \<Rightarrow> \<exists>before sp after pre new. sps = before @ sp # after \<and> rs = pre @ new @ skipped_after d after \<and>
        list_all2 (stage_passing H A req) before pre \<and> stage_outcome H A req sp new (Some d))"

lemma outcome_before:
  assumes "stage_passing H A req sp r" "ladder_outcome H A req sps rs dec"
  shows "ladder_outcome H A req (sp # sps) (r # rs) dec"
proof (cases dec)
  case None
  then show ?thesis using assms by (simp add: ladder_outcome_def)
next
  case (Some d)
  then obtain before sp' after pre new where "sps = before @ sp' # after" "rs = pre @ new @ skipped_after d after"
      "list_all2 (stage_passing H A req) before pre" "stage_outcome H A req sp' new (Some d)"
    using assms(2) by (auto simp: ladder_outcome_def)
  then show ?thesis using assms(1) unfolding ladder_outcome_def Some option.case
    by (intro exI[of _ "sp # before"] exI[of _ sp'] exI[of _ after] exI[of _ "r # pre"] exI[of _ new]) simp
qed

lemma ladder_steps_run:
  "ld_decisive ld = None \<Longrightarrow> set (map sp_stage sps) \<subseteq> set stage_names \<Longrightarrow>
    ladder_steps H A req sps ld w = (Inr ld', w') \<Longrightarrow>
    \<exists>rs. ld_stages ld' = ld_stages ld @ rs \<and> ladder_outcome H A req sps rs (ld_decisive ld')"
proof (induction sps arbitrary: ld w)
  case Nil
  then show ?case by (simp add: ret_io_def ladder_outcome_def)
next
  case (Cons sp sps)
  obtain ld1 w1 where step: "ladder_step H A req sp ld w = (Inr ld1, w1)"
      and rest: "ladder_steps H A req sps ld1 w1 = (Inr ld', w')"
    using Cons.prems(3) by (auto simp: bind_io_Inr)
  have "sp_stage sp \<in> set stage_names" using Cons.prems(2) by simp
  then have "stage_run H A req sp ld ld1" by (rule givesD[OF ladder_step_run[OF Cons.prems(1)] step])
  then obtain new where new: "ld_stages ld1 = ld_stages ld @ new" "stage_outcome H A req sp new (ld_decisive ld1)"
    by (auto simp: stage_run_def)
  show ?case
  proof (cases "ld_decisive ld1")
    case None
    obtain rs where rs: "ld_stages ld' = ld_stages ld1 @ rs" "ladder_outcome H A req sps rs (ld_decisive ld')"
      using Cons.IH[OF None _ rest] Cons.prems(2) by auto
    obtain r where "new = [r]" "stage_passing H A req sp r" using new(2) None by (auto simp: stage_outcome_def)
    then show ?thesis using rs new(1) outcome_before by (intro exI[of _ "r # rs"]) simp
  next
    case (Some d)
    have "ld' = ld1\<lparr>ld_stages := ld_stages ld1 @ skipped_after d sps\<rparr>" using rest by (simp add: steps_after[OF Some])
    then show ?thesis using new Some unfolding ladder_outcome_def
      by (intro exI[of _ "new @ skipped_after d sps"]) (auto intro!: exI[of _ "[]"])
  qed
qed

text \<open>A ladder that passes with a command ran it last, with exit code 0.\<close>

lemma full_exit:
  "gives (\<lambda>ld'. ld_decisive ld' = None \<longrightarrow> ld_exit ld' = Some 0) (full_stage H A req sp ld)"
  unfolding full_stage_def Let_def
  by (rule gives_step, rule gives_step, rule gives_step, rule gives_prod, rule gives_prod, rule gives_if,
      rule gives_step, rule gives_prod, rule gives_prod, rule gives_if)
     (rule gives_bind[OF stage_done_gives], rule gives_ret,
      simp add: add_stage_def fail_stage_def)+

lemma ladder_steps_snoc:
  "ladder_steps H A req (sps @ [sp]) ld = bind_io (ladder_steps H A req sps ld) (ladder_step H A req sp)"
  by (induction sps arbitrary: ld) (simp_all add: bind_io_def ret_io_def fun_eq_iff split: prod.splits sum.splits)

text \<open>The plan: which of the five stages are applicable.\<close>

definition planned :: "'w host \<Rightarrow> ladder_args \<Rightarrow> verify_request \<Rightarrow> evidence_plan \<Rightarrow> bool" where
  "planned H A req p \<longleftrightarrow> map sp_stage (ep_stages p) = stage_names \<and>
    (\<exists>art. artifact_stage H (arg_specs A req) (arg_schema A req) = Inr art \<and>
      map sp_applicable (ep_stages p) =
        [arg_protocol A req \<noteq> JNull, True, sp_applicable art, ep_targeted p \<noteq> [], v_verify_cmd req \<noteq> []])"

lemma plan_gives: "gives (planned H A req) (plan_evidence_ladder H A req)"
proof -
  have stage: "gives (\<lambda>a. sp_stage a = ''artifact_schema'' \<and> artifact_stage H x y = Inr a)
      (lift_io (artifact_stage H x y))" for x y
    unfolding gives_def lift_io_def artifact_stage_def Let_def
    by (auto split: sum.splits bool.splits exc.splits)
  show ?thesis unfolding plan_evidence_ladder_def
    by (rule gives_step, rule gives_step, rule gives_step, rule gives_bind[OF stage], rule gives_ret)
       (auto simp: planned_def plan_stages_def stage_names_def)
qed

lemma planned_last:
  assumes "planned H A req p" "v_verify_cmd req \<noteq> []"
  obtains sps sp where "ep_stages p = sps @ [sp]" "sp_applicable sp" "sp_stage sp = ''full_visible_verification''"
proof -
  have ne: "ep_stages p \<noteq> []" using assms(1) by (auto simp: planned_def stage_names_def)
  then have split: "ep_stages p = butlast (ep_stages p) @ [last (ep_stages p)]" by simp
  have "sp_stage (last (ep_stages p)) = last stage_names" "sp_applicable (last (ep_stages p)) = (v_verify_cmd req \<noteq> [])"
    using assms(1) ne by (auto simp: planned_def simp flip: last_map)
  then show thesis using that[OF split] assms(2) by (simp add: stage_names_def)
qed

text \<open>A run follows the plan that was made at its start.\<close>

lemma ladder_run:
  assumes "run_evidence_ladder H A req w = (Inr r, w')"
  shows "\<exists>started v plan v'. h_mono H w = (Inr started, v) \<and> plan_evidence_ladder H A req v = (Inr plan, v') \<and>
    planned H A req plan \<and> ladder_outcome H A req (ep_stages plan) (er_stages r) (er_decisive r) \<and>
    er_passed r = (er_decisive r = None) \<and> (er_passed r \<and> v_verify_cmd req \<noteq> [] \<longrightarrow> er_exit_code r = Some 0)"
proof -
  obtain started v plan v' u ld u' where m: "h_mono H w = (Inr started, v)"
      and p: "plan_evidence_ladder H A req v = (Inr plan, v')"
      and steps: "ladder_steps H A req (ep_stages plan) ladder_start u = (Inr ld, u')"
      and r: "er_stages r = ld_stages ld" "er_decisive r = ld_decisive ld" "er_exit_code r = ld_exit ld"
        "er_passed r = (ld_decisive ld = None)"
    using assms by (auto simp: run_evidence_ladder_def bind_io_Inr ret_io_apply)
  have pl: "planned H A req plan" by (rule givesD[OF plan_gives p])
  have "set (map sp_stage (ep_stages plan)) \<subseteq> set stage_names" using pl by (simp add: planned_def)
  then have out: "ladder_outcome H A req (ep_stages plan) (ld_stages ld) (ld_decisive ld)"
    using ladder_steps_run[OF _ _ steps] by (auto simp: ladder_start_def)
  have exit: "ld_exit ld = Some 0" if ok: "ld_decisive ld = None" and cmd: "v_verify_cmd req \<noteq> []"
  proof -
    obtain sps sp where sp: "ep_stages plan = sps @ [sp]" "sp_applicable sp" "sp_stage sp = ''full_visible_verification''"
      by (rule planned_last[OF pl cmd])
    obtain ld1 w1 where last: "ladder_step H A req sp ld1 w1 = (Inr ld, u')"
      using steps by (auto simp: sp(1) ladder_steps_snoc bind_io_Inr)
    have "ld_decisive ld1 = None"
      using last ok by (cases "ld_decisive ld1") (auto simp: ladder_step_def ret_io_def add_stage_def)
    then have "full_stage H A req sp ld1 w1 = (Inr ld, u')" using last sp by (simp add: ladder_step_def)
    from givesD[OF full_exit this] ok show ?thesis by simp
  qed
  show ?thesis using m p pl out exit r by auto
qed

end
