(* ===== verification/Gate_Laws.thy ===== *)
theory Gate_Laws
  imports Ladder_Laws
begin

text \<open>
  The plain gate: what its results say, and that its disposable checkout does not outlive it. The
  registered checkouts are a set read off the state of the host, with what git documents of
  \<open>worktree add\<close> and \<open>worktree remove\<close>.
\<close>

section \<open>Verdicts\<close>

definition verdict_ok :: "verify_result \<Rightarrow> bool" where
  "verdict_ok r \<longleftrightarrow>
    (if vr_passed r
     then (vr_cause r = Some ''no_change'' \<and> vr_exit_code r = None \<or> vr_cause r = Some ''tests_passed'' \<and> vr_exit_code r = Some 0)
       \<and> vr_failure_signature r = None
     else vr_cause r \<notin> {Some ''no_change'', Some ''tests_passed''} \<and> vr_failure_signature r \<noteq> None \<and> \<not> vr_flaky r)"

lemma gate_done_gives:
  "(ok \<Longrightarrow> cause = ''no_change'' \<and> code = None \<or> cause = ''tests_passed'' \<and> code = Some 0) \<Longrightarrow>
    (\<not> ok \<Longrightarrow> cause \<notin> {''no_change'', ''tests_passed''} \<and> \<not> flaky) \<Longrightarrow>
    gives verdict_ok (gate_done H req started fs ok cause code out flaky)"
  unfolding gate_done_def
  by (rule gives_step, rule gives_step, rule gives_ret) (cases ok; simp add: verdict_ok_def)

lemma gate_command_gives:
  "gives (\<lambda>(res, out). case res of None \<Rightarrow> True | Some (code, text, flaky) \<Rightarrow> flaky \<longrightarrow> code = Some 0)
    (gate_command H rerun req dir)"
  unfolding gate_command_def
  by (intro gives_step gives_prod gives_if gives_ret) simp_all

lemma gate_checked_gives: "gives verdict_ok (gate_checked H rerun req started fs dir)"
  unfolding gate_checked_def
  by (rule gives_bind[OF gate_command_gives])
     (auto split: option.split prod.split intro!: gate_done_gives)

lemma gate_tested_gives: "gives verdict_ok (gate_tested H rerun req started fs worker)"
  unfolding gate_tested_def
  by (intro gives_step gives_option gives_if gives_prod gives_finally gate_checked_gives gate_done_gives) simp_all

lemma gate_gives: "gives verdict_ok (run_verify_legacy H rerun req)"
  unfolding run_verify_legacy_def Let_def
  by (intro gives_step gives_if gate_tested_gives gate_done_gives) simp_all

section \<open>Checkouts\<close>

definition same_checkouts :: "('w \<Rightarrow> string set) \<Rightarrow> 'w \<Rightarrow> 'w \<Rightarrow> bool" where
  "same_checkouts S w w' \<longleftrightarrow> S w' = S w"

interpretation checkouts: io_contract "same_checkouts S" for S
  by unfold_locales (simp_all add: same_checkouts_def)

definition tidy :: "'w host \<Rightarrow> ('w \<Rightarrow> string set) \<Rightarrow> bool" where
  "tidy H S \<longleftrightarrow>
    (\<forall>args cwd. take 2 args \<notin> {[''worktree'', ''add''], [''worktree'', ''remove'']} \<longrightarrow>
      keeps (same_checkouts S) (h_git H args cwd)) \<and>
    (\<forall>dir sha cwd w. case h_git H [''worktree'', ''add'', ''-q'', ''--detach'', dir, sha] cwd w of
        (Inr r, w') \<Rightarrow> S w' = (if git_code r = 0 then insert dir (S w) else S w)
      | (Inl e, w') \<Rightarrow> S w' = S w) \<and>
    (\<forall>dir cwd w. \<exists>r w'. h_git H [''worktree'', ''remove'', ''--force'', dir] cwd w = (Inr r, w') \<and> S w' = S w - {dir}) \<and>
    (\<forall>p w. case h_mkdtemp H p w of (Inr dir, w') \<Rightarrow> dir \<notin> S w \<and> S w' = S w | (Inl e, w') \<Rightarrow> S w' = S w) \<and>
    (\<forall>c d. keeps (same_checkouts S) (h_popen H c d)) \<and> (\<forall>p t. keeps (same_checkouts S) (h_communicate H p t)) \<and>
    (\<forall>p. keeps (same_checkouts S) (h_killpg H p)) \<and> (\<forall>p. keeps (same_checkouts S) (h_resolve H p)) \<and>
    (\<forall>p. keeps (same_checkouts S) (h_rmtree H p)) \<and> (\<forall>p t. keeps (same_checkouts S) (h_write H p t)) \<and>
    (\<forall>p. keeps (same_checkouts S) (h_mkdirs H p)) \<and> keeps (same_checkouts S) (h_mono H) \<and>
    keeps (same_checkouts S) (h_time_ms H)"

lemma tidyD:
  assumes "tidy H S"
  shows "take 2 args \<notin> {[''worktree'', ''add''], [''worktree'', ''remove'']} \<Longrightarrow> keeps (same_checkouts S) (h_git H args cwd)"
    "keeps (same_checkouts S) (h_popen H c cwd)" "keeps (same_checkouts S) (h_communicate H pid t)"
    "keeps (same_checkouts S) (h_killpg H pid)" "keeps (same_checkouts S) (h_resolve H p)"
    "keeps (same_checkouts S) (h_rmtree H p)" "keeps (same_checkouts S) (h_write H p txt)"
    "keeps (same_checkouts S) (h_mkdirs H p)" "keeps (same_checkouts S) (h_mono H)" "keeps (same_checkouts S) (h_time_ms H)"
  using assms unfolding tidy_def by (elim conjE; simp)+

lemma keeps_need: "keeps (same_checkouts S) (need_text v)"
  by (cases v) (simp_all add: need_text_def checkouts.keeps_ret checkouts.keeps_raise)

lemma keeps_shell: "tidy H S \<Longrightarrow> keeps (same_checkouts S) (run_shell H cmd cwd limit)"
  unfolding run_shell_def by (intro checkouts.keeps_rules tidyD)

lemma keeps_repo: "tidy H S \<Longrightarrow> keeps (same_checkouts S) (request_repo H req)"
  unfolding request_repo_def by (intro checkouts.keeps_rules tidyD keeps_need)

lemma keeps_save: "tidy H S \<Longrightarrow> keeps (same_checkouts S) (save_output H req label out)"
    "tidy H S \<Longrightarrow> keeps (same_checkouts S) (save_patch H req out)"
  unfolding save_output_def save_patch_def Let_def by (intro checkouts.keeps_rules tidyD; assumption)+

lemma keeps_done: "tidy H S \<Longrightarrow> keeps (same_checkouts S) (gate_done H req started fs ok cause code out flaky)"
  unfolding gate_done_def by (intro checkouts.keeps_rules tidyD keeps_save)

lemma keeps_checked: "tidy H S \<Longrightarrow> keeps (same_checkouts S) (gate_checked H rerun req started fs dir)"
  unfolding gate_checked_def gate_command_def
  by (intro checkouts.keeps_rules keeps_shell keeps_done)

lemma keeps_status: "tidy H S \<Longrightarrow> keeps (same_checkouts S) (gate_status H req worker)"
  unfolding gate_status_def by (intro checkouts.keeps_rules tidyD) simp_all

lemma triple_same: "keeps (same_checkouts S) m \<Longrightarrow> triple (\<lambda>w. S w = X) m (\<lambda>_ w. S w = X)"
  by (rule triple_keeps[where R = "same_checkouts S"]) (simp_all add: same_checkouts_def)

lemma tidy_tmp:
  "tidy H S \<Longrightarrow> case h_mkdtemp H p w of (Inr dir, w') \<Rightarrow> dir \<notin> S w \<and> S w' = S w | (Inl e, w') \<Rightarrow> S w' = S w"
  unfolding tidy_def by (elim conjE) simp

lemma tidy_add:
  "tidy H S \<Longrightarrow> case h_git H [''worktree'', ''add'', ''-q'', ''--detach'', dir, sha] cwd w of
      (Inr r, w') \<Rightarrow> S w' = (if git_code r = 0 then insert dir (S w) else S w) | (Inl e, w') \<Rightarrow> S w' = S w"
  unfolding tidy_def by (elim conjE) simp

lemma tidy_remove:
  "tidy H S \<Longrightarrow> \<exists>r w'. h_git H [''worktree'', ''remove'', ''--force'', dir] cwd w = (Inr r, w') \<and> S w' = S w - {dir}"
  unfolding tidy_def by (elim conjE) simp

lemma triple_tmp:
  "tidy H S \<Longrightarrow> triple (\<lambda>w. S w = X) (h_mkdtemp H p)
    (\<lambda>r w. case r of Inr dir \<Rightarrow> S w = X \<and> dir \<notin> X | Inl e \<Rightarrow> S w = X)"
  unfolding triple_def
proof (intro impI allI)
  fix w assume tidy: "tidy H S" and w: "S w = X"
  obtain r w' where run: "h_mkdtemp H p w = (r, w')" by (cases "h_mkdtemp H p w")
  show "case h_mkdtemp H p w of (r, w') \<Rightarrow> case r of Inr dir \<Rightarrow> S w' = X \<and> dir \<notin> X | Inl e \<Rightarrow> S w' = X"
    using tidy_tmp[OF tidy, where p = p and w = w] w run by (cases r) simp_all
qed

lemma triple_add:
  assumes "tidy H S"
  shows "triple (\<lambda>w. S w = X \<and> dir \<notin> X) (h_git H [''worktree'', ''add'', ''-q'', ''--detach'', dir, sha] cwd)
    (\<lambda>r w. case r of Inr a \<Rightarrow> S w = (if git_code a = 0 then insert dir X else X) \<and> dir \<notin> X | Inl e \<Rightarrow> S w = X)"
  unfolding triple_def
proof (intro allI impI)
  fix w assume w: "S w = X \<and> dir \<notin> X"
  let ?m = "h_git H [''worktree'', ''add'', ''-q'', ''--detach'', dir, sha] cwd"
  obtain r w' where run: "?m w = (r, w')" by (cases "?m w")
  show "case ?m w of (r, w') \<Rightarrow>
      case r of Inr a \<Rightarrow> S w' = (if git_code a = 0 then insert dir X else X) \<and> dir \<notin> X | Inl e \<Rightarrow> S w' = X"
    using tidy_add[OF assms, where dir = dir and sha = sha and cwd = cwd and w = w] w run by (cases r) simp_all
qed

lemma triple_remove:
  assumes "tidy H S"
  shows "triple (\<lambda>w. S w = insert dir X \<and> dir \<notin> X) (remove_checkout H dir repo) (\<lambda>_ w. S w = X)"
proof -
  have rm: "triple (\<lambda>w. S w = insert dir X \<and> dir \<notin> X) (h_git H [''worktree'', ''remove'', ''--force'', dir] repo)
      (\<lambda>_ w. S w = X)"
    unfolding triple_def
  proof (intro allI impI)
    fix w assume w: "S w = insert dir X \<and> dir \<notin> X"
    obtain r w' where "h_git H [''worktree'', ''remove'', ''--force'', dir] repo w = (Inr r, w')" "S w' = S w - {dir}"
      using tidy_remove[OF assms] by metis
    then show "case h_git H [''worktree'', ''remove'', ''--force'', dir] repo w of (r, w') \<Rightarrow> S w' = X"
      using w by simp
  qed
  show ?thesis unfolding remove_checkout_def
    by (rule triple_bind[OF rm]) (rule triple_same[OF tidyD(6)[OF assms]], simp)
qed

text \<open>The checkout of the candidate is the only one that is added, and only when it is returned.\<close>

lemma triple_checkout:
  assumes tidy: "tidy H S"
  shows "triple (\<lambda>w. S w = X) (gate_checkout H req)
    (\<lambda>r w. case r of Inr (Some (dir, repo)) \<Rightarrow> S w = insert dir X \<and> dir \<notin> X | _ \<Rightarrow> S w = X)" (is "triple _ _ ?Q")
proof -
  let ?fresh = "\<lambda>dir w. S w = X \<and> dir \<notin> X"
  have same: "triple (?fresh dir) m (\<lambda>_. ?fresh dir)" if "keeps (same_checkouts S) m" for dir and m :: "('a, 'b) io"
    by (rule triple_keeps[OF that]) (simp add: same_checkouts_def)
  have parse: "keeps (same_checkouts S) (h_git H [''rev-parse'', candidate_ref req] repo)" for repo
    by (rule tidyD[OF tidy]) simp
  have skip: "triple (?fresh dir) (then_io (h_rmtree H dir) (ret_io None)) ?Q" for dir
    by (rule triple_then[OF same[OF tidyD(6)[OF tidy]]], rule triple_ret) simp_all
  have add: "triple (?fresh dir)
      (bind_io (h_git H [''worktree'', ''add'', ''-q'', ''--detach'', dir, sha] repo) (\<lambda>r. ret_io (git_code r = 0)))
      (\<lambda>r w. case r of Inr a \<Rightarrow> S w = (if a then insert dir X else X) \<and> dir \<notin> X | Inl e \<Rightarrow> S w = X)" for dir sha repo
    by (rule triple_bind[OF triple_add[OF tidy]], rule triple_ret) simp_all
  have attempted: "triple (?fresh dir)
      (if ok then bind_io (h_git H [''worktree'', ''add'', ''-q'', ''--detach'', dir, sha] repo) (\<lambda>r. ret_io (git_code r = 0))
       else ret_io False)
      (\<lambda>r w. case r of Inr a \<Rightarrow> S w = (if a then insert dir X else X) \<and> dir \<notin> X | Inl e \<Rightarrow> S w = X)" for ok dir sha repo
    by (rule triple_if[OF add triple_ret]) simp
  have last: "triple (\<lambda>w. S w = (if added then insert dir X else X) \<and> dir \<notin> X)
      (if \<not> added then then_io (h_rmtree H dir) (ret_io None) else ret_io (Some (dir, repo))) ?Q" for added dir repo
    using skip[of dir] by (cases added) (auto intro: triple_ret)
  have placed: "triple (?fresh dir)
      (bind_io (h_git H [''rev-parse'', candidate_ref req] repo) (\<lambda>hd_r.
       bind_io (if git_code hd_r = 0 \<and> strip (git_out hd_r) \<noteq> [] then
            bind_io (h_git H [''worktree'', ''add'', ''-q'', ''--detach'', dir, strip (git_out hd_r)] repo)
              (\<lambda>r. ret_io (git_code r = 0))
          else ret_io False) (\<lambda>added.
         if \<not> added then then_io (h_rmtree H dir) (ret_io None) else ret_io (Some (dir, repo))))) ?Q" for dir repo
    by (rule triple_bind[OF same[OF parse] triple_bind[OF attempted]]) (simp_all add: last)
  have tmp: "triple (\<lambda>w. S w = X)
      (bind_io (h_mkdtemp H ''orch_candidate_'') (\<lambda>dir.
       bind_io (h_git H [''rev-parse'', candidate_ref req] repo) (\<lambda>hd_r.
       bind_io (if git_code hd_r = 0 \<and> strip (git_out hd_r) \<noteq> [] then
            bind_io (h_git H [''worktree'', ''add'', ''-q'', ''--detach'', dir, strip (git_out hd_r)] repo)
              (\<lambda>r. ret_io (git_code r = 0))
          else ret_io False) (\<lambda>added.
         if \<not> added then then_io (h_rmtree H dir) (ret_io None) else ret_io (Some (dir, repo)))))) ?Q" for repo
    by (rule triple_bind[OF triple_tmp[OF tidy]]) (simp_all add: placed)
  show ?thesis unfolding gate_checkout_def
    by (rule triple_if, rule triple_ret, simp)
       (rule triple_bind[OF triple_same[OF keeps_repo[OF tidy]] tmp], simp)
qed

lemma gate_tidy:
  assumes tidy: "tidy H S"
  shows "S (snd (run_verify_legacy H rerun req w)) = S w"
proof -
  have git: "keeps (same_checkouts S) (h_git H (a # as) cwd)" if "a \<noteq> ''worktree''" for a as cwd
    by (rule tidyD[OF tidy]) (use that in auto)
  have inner: "triple (\<lambda>w. S w = insert dir X \<and> dir \<notin> X) (gate_checked H rerun req started fs d)
      (\<lambda>_ w. S w = insert dir X \<and> dir \<notin> X)" for dir X started fs d
    by (rule triple_keeps[OF keeps_checked[OF tidy]]) (simp add: same_checkouts_def)
  have co: "triple (\<lambda>w. S w = insert dir X \<and> dir \<notin> X)
      (finally_io (gate_checked H rerun req started fs dir) (remove_checkout H dir repo)) (\<lambda>_ w. S w = X)" for dir X started fs repo
    by (rule triple_finally[OF inner], rule triple_post[OF triple_remove[OF tidy]]) (simp split: sum.split)
  have tested: "triple (\<lambda>w. S w = X) (gate_tested H rerun req started fs worker) (\<lambda>_ w. S w = X)" for X started fs worker
    unfolding gate_tested_def
  proof (rule triple_bind[OF triple_checkout[OF tidy]])
    show "triple (\<lambda>w. case Inr x of Inr (Some (dir, repo)) \<Rightarrow> S w = insert dir X \<and> dir \<notin> X | _ \<Rightarrow> S w = X)
        (case x of None \<Rightarrow>
            if given (v_candidate_sha req) then gate_done H req started fs False ''candidate_checkout_failed'' None
              ''could not materialize the durable candidate'' False
            else gate_checked H rerun req started fs worker
         | Some (dir, repo) \<Rightarrow> finally_io (gate_checked H rerun req started fs dir) (remove_checkout H dir repo))
        (\<lambda>_ w. S w = X)" for x
      using co triple_same[OF keeps_done[OF tidy]] triple_same[OF keeps_checked[OF tidy]]
      by (auto split: option.split prod.split)
  qed simp
  have kept: "keeps (same_checkouts S) (gate_tested H rerun req started fs worker)" for started fs worker
    using tested unfolding keeps_def same_checkouts_def triple_def by (simp add: case_prod_beta)
  have "keeps (same_checkouts S) (run_verify_legacy H rerun req)"
    unfolding run_verify_legacy_def Let_def
    by (intro checkouts.keeps_rules keeps_need keeps_repo[OF tidy] keeps_status[OF tidy] keeps_done[OF tidy]
        keeps_save(2)[OF tidy] kept git tidyD(9)[OF tidy]) simp_all
  then show ?thesis by (simp add: keeps_def same_checkouts_def)
qed

end
