(* ===== verification/Sample_Host.thy ===== *)
theory Sample_Host
  imports Gate_Laws
begin

text \<open>
  A small host on which the properties of the gate, the ladder, the pool and the delivery apply: a
  repository with branches and registered worktrees, and commands whose results are a list.
\<close>

record gw =
  gw_refs :: "(string, string) dict"
  gw_head :: string
  gw_trees :: "string list"
  gw_diff :: string
  gw_runs :: "(int \<times> string) option list"
  gw_lost :: "string list"

definition tree_arg :: "string list \<Rightarrow> string" where
  "tree_arg args = (case drop 2 args of
      [q, d, dir, sha] \<Rightarrow> dir | [q, b, br, dir, r] \<Rightarrow> dir | [q, dir] \<Rightarrow> dir | [q, dir, br] \<Rightarrow> dir | _ \<Rightarrow> [])"

text \<open>Commands in a worktree of \<open>gw_lost\<close> fail.\<close>

definition mini_git :: "string list \<Rightarrow> string \<Rightarrow> (gw, int \<times> string \<times> string) io" where
  "mini_git args cwd w =
    (if take 2 args = [''worktree'', ''add''] then (Inr (0, [], []), w\<lparr>gw_trees := tree_arg args # gw_trees w\<rparr>)
     else if take 2 args = [''worktree'', ''remove''] then
       (Inr (0, [], []), w\<lparr>gw_trees := removeAll (last args) (gw_trees w)\<rparr>)
     else if cwd \<in> set (gw_lost w) then (Inr (128, [], ''fatal''), w)
     else if take 2 args = [''merge'', ''--ff-only''] then
       (case map_of (gw_refs w) (last args) of
          None \<Rightarrow> (Inr (1, [], ''unknown''), w)
        | Some sha \<Rightarrow> (Inr (0, [], []), w\<lparr>gw_refs := AList.update (gw_head w) sha (gw_refs w)\<rparr>))
     else if args = [''branch'', ''--show-current''] then (Inr (0, gw_head w, []), w)
     else if args = [''rev-parse'', ''--abbrev-ref'', ''HEAD''] then (Inr (0, ''HEAD'', []), w)
     else if take 1 args = [''rev-parse''] then
       (case map_of (gw_refs w) (last args) of
          None \<Rightarrow> (Inr (128, [], ''unknown''), w) | Some sha \<Rightarrow> (Inr (0, sha, []), w))
     else if take 2 args = [''diff'', ''--name-status''] then (Inr (0, gw_diff w, []), w)
     else (Inr (0, [], []), w))"

definition mini_communicate :: "int \<Rightarrow> int option \<Rightarrow> (gw, (int \<times> string) option) io" where
  "mini_communicate pid t w = (case gw_runs w of
      [] \<Rightarrow> (Inr (Some (0, [])), w) | r # rs \<Rightarrow> (Inr r, w\<lparr>gw_runs := rs\<rparr>))"

definition mini_files :: filesystem where
  "mini_files = \<lparr>fs_root = path_parts, fs_resolve = (\<lambda>root p. root @ path_parts p), fs_exists = (\<lambda>p. True),
    fs_sha256 = (\<lambda>p. Inr ''00'')\<rparr>"

text \<open>A new directory has a name longer than every registered one.\<close>

definition mini_host :: "gw host" where
  "mini_host = \<lparr>h_git = mini_git, h_gh = (\<lambda>args cwd. ret_io (0, ''url'', [])), h_popen = (\<lambda>c d. ret_io 1),
    h_communicate = mini_communicate, h_killpg = (\<lambda>p. ret_io True), h_files = (\<lambda>w. mini_files),
    h_resolve = ret_io, h_is_file = (\<lambda>p. ret_io False), h_exists = (\<lambda>p. ret_io True),
    h_read = (\<lambda>p. ret_io ''{}''), h_write = (\<lambda>p t. ret_io ()), h_mkdirs = (\<lambda>p. ret_io ()),
    h_mkdtemp = (\<lambda>p w. (Inr (CHR ''x'' # concat (gw_trees w)), w)), h_rmtree = (\<lambda>p. ret_io ()),
    h_rmdir = (\<lambda>p. ret_io ()), h_pause = (\<lambda>t. ret_io ()), h_mono = ret_io 0, h_time_ms = ret_io 5,
    h_data_dir = ''data'', h_python = ''python'', h_json_error = (\<lambda>s. ''bad'')\<rparr>"

definition mini_world :: gw where
  "mini_world = \<lparr>gw_refs = [(''main'', ''m0''), (''work'', ''c1''), (''c1'', ''c1''), (''HEAD'', ''c1'')], gw_head = ''main'', gw_trees = [],
    gw_diff = ''M'' @ [CHR 0x09] @ ''src/test_a.py'', gw_runs = [], gw_lost = []\<rparr>"

definition mini_request :: verify_request where
  "mini_request = \<lparr>v_task_id = ''t'', v_worktree = Some ''wt'', v_base_sha = Some ''m0'', v_verify_cmd = ''make'',
    v_timeout = 60, v_repo = ''repo'', v_candidate_sha = Some ''c1'', v_worker_dirty = Some [],
    v_artifact_root = Some ''art'', v_allow_empty_diff = False, v_protocol_result = JBool True,
    v_output_artifacts = None, v_output_schema = None, v_targeted = None\<rparr>"

definition mini_args :: ladder_args where
  "mini_args = \<lparr>la_protocol = JBool True, la_specs = JNull, la_schema = JNull, la_targeted = JNull, la_checks = JNull,
    la_signature = None, la_allow_empty = None, la_rerun = True\<rparr>"

text \<open>The definitions that a run of the gate or of the ladder goes through.\<close>

lemmas gate_defs = io_defs Let_def
  between_def lower_char_def py_lower_def ends_with_def split_words_def line_end_def
  split_lines_def text_tail_def path_lead_def path_text_def path_join_def path_name_def
  suffix_at_def path_suffix_def path_stem_def with_name_def need_text_def lift_io_def
  run_shell_def gate_artifact_dir_def save_output_def save_patch_def request_repo_def
  candidate_ref_def gate_checkout_def remove_checkout_def no_facts_def gate_done_def
  gate_status_def is_test_name_def changed_names_def gate_command_def gate_checked_def
  gate_tested_def run_verify_legacy_def json_given_def arg_protocol_def arg_specs_def
  arg_schema_def ev_json_value_def ev_items_def ev_artifact_specs_def changed_paths_def
  test_path_candidates_def strip_set_def shell_safe_def shell_quote_def derive_targeted_checks_def
  explicit_commands_def catch_plan_error_def artifact_stage_def plan_stages_def
  plan_evidence_ladder_def ladder_start_def stage_done_def stage_skipped_def add_stage_def
  fail_stage_def fail_with_def protocol_ok_def protocol_stage_def status_names_def ladder_dir_def
  ladder_checkout_def candidate_missing_def allow_empty_def accept_candidate_def git_stage_def
  ev_check_spec_def as_set_def ev_schema_missing_def json_subset_def ev_validate_artifacts_def
  check_root_def artifact_check_def targeted_stage_def full_stage_def ladder_step_def
  ladder_text_def ladder_log_def run_evidence_ladder_def stage_json_def evidence_json_def
  run_verify_def path_parts_def strip_def lstrip_def blank_def slash_def py_space_def
  starts_with_def relative_text_def inside_def given_def text_or_def jopt_def jget_def
  jget_default_def json_or_def py_str_def sorted_texts_def dict_merge_def spec_of_item_def
  bindE_def decimal_text_def round_div_def nat_text_def int_text_def pad_left_def rfind_char_def
  jint_opt_def is_digit_def mini_git_def tree_arg_def mini_communicate_def mini_files_def
  mini_host_def mini_world_def mini_request_def mini_args_def

lemma length_concat_mem: "x \<in> set xs \<Longrightarrow> length x \<le> length (concat xs)"
  by (induction xs) auto

lemma mini_fresh: "CHR ''x'' # concat (gw_trees w) \<notin> set (gw_trees w)"
  using length_concat_mem[of "CHR ''x'' # concat (gw_trees w)" "gw_trees w"] by auto

lemma mini_tidy: "tidy mini_host (\<lambda>w. set (gw_trees w))"
proof -
  have git: "keeps (same_checkouts (\<lambda>w. set (gw_trees w))) (mini_git args cwd)"
    if "take 2 args \<notin> {[''worktree'', ''add''], [''worktree'', ''remove'']}" for args cwd
    using that by (auto simp: keeps_def same_checkouts_def mini_git_def split: option.split)
  have talk: "keeps (same_checkouts (\<lambda>w. set (gw_trees w))) (mini_communicate p t)" for p t
    by (auto simp: keeps_def same_checkouts_def mini_communicate_def split: list.split)
  have add: "case mini_git [''worktree'', ''add'', ''-q'', ''--detach'', dir, sha] cwd w of
      (Inr r, w') \<Rightarrow> set (gw_trees w') = (if git_code r = 0 then insert dir (set (gw_trees w)) else set (gw_trees w))
    | (Inl e, w') \<Rightarrow> set (gw_trees w') = set (gw_trees w)" for dir sha cwd w
    by (simp add: mini_git_def tree_arg_def)
  have rem: "\<exists>r w'. mini_git [''worktree'', ''remove'', ''--force'', dir] cwd w = (Inr r, w') \<and>
      set (gw_trees w') = set (gw_trees w) - {dir}" for dir cwd w
    by (simp add: mini_git_def)
  show ?thesis
    unfolding tidy_def
    by (intro conjI allI impI) (use git talk add rem mini_fresh in \<open>simp_all add: mini_host_def checkouts.keeps_ret\<close>)
qed

end
