(* ===== verification/Gate_Properties.thy ===== *)
theory Gate_Properties
  imports Sample_Host
begin

text \<open>
  The properties of the verification gate and of the evidence ladder, with runs on the sample host.
\<close>

section \<open>The ladder stops\<close>

text \<open>
  C32. A ladder that returns ran the plan it made at its start: five stages in their order, of which
  the protocol is applicable with a supplied result, the candidate always, the artifacts as planned
  from the declarations, the targeted checks with a target and the full command with a command. Up to
  the first failure every applicable stage ran and passed, and only the others were skipped. The
  failure is the decisive stage, and exactly the stages after it were skipped because of it. The
  verdict of each stage that ran is the one of its evidence: the supplied result, the committed
  changes, the artifact check, the targeted commands, the full command. The ladder passes exactly when
  no stage is decisive, and then the full command, when there is one, ended with code 0.
\<close>

theorem ladder_stops_at_failure:
  assumes "run_evidence_ladder H A req w = (Inr r, w')"
  shows "\<exists>started v plan v' artifact. h_mono H w = (Inr started, v) \<and>
    plan_evidence_ladder H A req v = (Inr plan, v') \<and>
    map sp_stage (ep_stages plan) =
      [''protocol_result'', ''git_candidate'', ''artifact_schema'', ''targeted_checks'', ''full_visible_verification''] \<and>
    artifact_stage H (arg_specs A req) (arg_schema A req) = Inr artifact \<and>
    map sp_applicable (ep_stages plan) =
      [arg_protocol A req \<noteq> JNull, True, sp_applicable artifact, ep_targeted plan \<noteq> [], v_verify_cmd req \<noteq> []] \<and>
    ladder_outcome H A req (ep_stages plan) (er_stages r) (er_decisive r) \<and>
    er_passed r = (er_decisive r = None) \<and>
    (er_passed r \<and> v_verify_cmd req \<noteq> [] \<longrightarrow> er_exit_code r = Some 0)"
  using ladder_run[OF assms] by (auto simp: planned_def stage_names_def)

lemma mini_ladder:
  "case run_evidence_ladder mini_host mini_args mini_request mini_world of
      (Inr r, w') \<Rightarrow> er_passed r \<and> map sr_stage (filter (\<lambda>s. sr_passed s = Some True) (er_stages r)) =
        [''protocol_result'', ''git_candidate'', ''full_visible_verification'']
    | (Inl e, w') \<Rightarrow> False"
  by (simp add: gate_defs cong: run_first run_list)

theorem ladder_stops_at_failure_witness:
  "\<exists>r w' (plan :: evidence_plan). run_evidence_ladder mini_host mini_args mini_request mini_world = (Inr r, w') \<and>
    er_passed r \<and> er_exit_code r = Some 0 \<and>
    list_all2 (stage_passing mini_host mini_args mini_request) (ep_stages plan) (er_stages r) \<and>
    take 2 (map sp_applicable (ep_stages plan)) = [True, True]"
proof -
  obtain r w' where run: "run_evidence_ladder mini_host mini_args mini_request mini_world = (Inr r, w')" and ok: "er_passed r"
    using mini_ladder by (auto split: prod.splits sum.splits)
  have "v_verify_cmd mini_request \<noteq> []" "arg_protocol mini_args mini_request \<noteq> JNull"
    by (simp_all add: mini_request_def mini_args_def arg_protocol_def json_given_def)
  then obtain plan :: evidence_plan and art :: stage_plan where "ladder_outcome mini_host mini_args mini_request (ep_stages plan) (er_stages r) None"
      and "map sp_applicable (ep_stages plan) = [True, True, sp_applicable art, ep_targeted plan \<noteq> [], True]"
      and "er_exit_code r = Some 0"
    using ladder_stops_at_failure[OF run] ok by (elim exE conjE) simp
  then show ?thesis using run ok by (intro exI[of _ r] exI[of _ w'] exI[of _ plan]) (simp add: ladder_outcome_def)
qed

section \<open>Checkouts do not stay\<close>

text \<open>
  C33. The plain gate leaves no checkout behind: whatever it returns or raises, the worktrees that
  git has registered are the same afterwards, on every host whose git adds and removes worktrees as
  documented.
\<close>

theorem gate_leaves_no_checkout:
  assumes "tidy H registered"
  shows "registered (snd (run_verify_legacy H rerun req w)) = registered w"
  by (rule gate_tidy[OF assms])

theorem gate_leaves_no_checkout_witness:
  "tidy mini_host (\<lambda>w. set (gw_trees w)) \<and>
    set (gw_trees (snd (run_verify_legacy mini_host True mini_request mini_world))) = {}"
  using gate_leaves_no_checkout[OF mini_tidy, of True mini_request mini_world] mini_tidy
  by (simp add: mini_world_def)

text \<open>The results of the plain gate: a passing one is justified by its cause and exit code.\<close>

lemma gate_verdict: "run_verify_legacy H rerun req w = (Inr r, w') \<Longrightarrow> verdict_ok r"
  by (rule givesD[OF gate_gives])

lemma sample_json:
  "json_loads ''{\"required\": 5}'' = Some (JObj [(''required'', JInt 5)])"
  "json_loads ''[\"out.json\"]'' = Some (JList [JStr ''out.json''])"
  "json_loads ''{\"type\": \"object\", \"required\": [\"out.json\"]}'' =
    Some (JObj [(''type'', JStr ''object''), (''required'', JList [JStr ''out.json''])])"
  "json_loads ''{}'' = Some (JObj [])"
  by code_simp+

text \<open>
  The ladder does leave its checkout behind: a required list that cannot be iterated makes the
  artifact stage raise after the checkout was added.
\<close>

lemma ladder_leaves_checkout:
  "tidy mini_host (\<lambda>w. set (gw_trees w)) \<and>
    (case run_evidence_ladder mini_host mini_args
        (mini_request\<lparr>v_output_schema := Some ''{\"required\": 5}''\<rparr>) mini_world of
      (Inl e, w') \<Rightarrow> e = TypeError ''object is not iterable'' \<and> gw_trees w' = [''x''] | (Inr r, w') \<Rightarrow> False)"
proof
  show "case run_evidence_ladder mini_host mini_args
        (mini_request\<lparr>v_output_schema := Some ''{\"required\": 5}''\<rparr>) mini_world of
      (Inl e, w') \<Rightarrow> e = TypeError ''object is not iterable'' \<and> gw_trees w' = [''x''] | (Inr r, w') \<Rightarrow> False"
    by (simp add: gate_defs sample_json cong: run_first run_list)
qed (rule mini_tidy)

text \<open>A flaky pass of the ladder is reported with the cause of the failed first run.\<close>

lemma ladder_flaky_cause:
  "case run_evidence_ladder mini_host mini_args mini_request
      (mini_world\<lparr>gw_runs := [Some (1, ''no''), Some (0, ''yes'')]\<rparr>) of
      (Inr r, w') \<Rightarrow> er_passed r \<and> er_flaky r \<and> er_cause r = ''tests_failed'' | (Inl e, w') \<Rightarrow> False"
  by (simp add: gate_defs sample_json cong: run_first run_list)

text \<open>
  The names under \<open>required\<close> are both paths of declared artifacts and fields of the JSON artifact: a
  declared artifact that exists is rejected because its document has no field of its own path.
\<close>

lemma ladder_required_conflated:
  "case run_evidence_ladder mini_host mini_args
      (mini_request\<lparr>v_output_artifacts := Some ''[\"out.json\"]'',
        v_output_schema := Some ''{\"type\": \"object\", \"required\": [\"out.json\"]}''\<rparr>) mini_world of
      (Inr r, w') \<Rightarrow> er_cause r = ''artifact_validation_failed'' | (Inl e, w') \<Rightarrow> False"
  by (simp add: gate_defs sample_json cong: run_first run_list)

end
