(* ===== verification/Pool.thy ===== *)
theory Pool
  imports Host
begin

text \<open>
  The pool of git worktrees of \<open>worker/worktree_pool.py\<close> and the single worktree of
  \<open>worker/worktree.py\<close>: the slots of a pool are a list, the free ones a queue.
\<close>

section \<open>The pool\<close>

record pool =
  po_slots :: "string list"
  po_free :: "string list"

record pool_config =
  pc_repo :: string
  pc_root :: string
  pc_size :: nat

type_synonym ('w, 'a) pooled = "(pool \<times> 'w, 'a) io"

definition on_host :: "('w, 'a) io \<Rightarrow> ('w, 'a) pooled" where
  "on_host m s = (case m (snd s) of (r, w) \<Rightarrow> (r, (fst s, w)))"

definition set_pool :: "(pool \<Rightarrow> pool) \<Rightarrow> ('w, unit) pooled" where
  "set_pool f s = (Inr (), (f (fst s), snd s))"

text \<open>
  \<open>_git_ok\<close>: a command that must succeed, tried again after a pause while git reports its index
  lock. The first argument is the number of tries that are left after this one.
\<close>

fun git_tries :: "'w host \<Rightarrow> nat \<Rightarrow> string list \<Rightarrow> string \<Rightarrow> ('w, string) io" where
  "git_tries H k args cwd =
    bind_io (h_git H args cwd) (\<lambda>r.
      if git_code r = 0 then ret_io (strip (git_out r))
      else if \<not> has_text ''index.lock'' (git_err r) then
        raise_io (RuntimeError (''git '' @ join '' '' args @ '' failed: '' @ git_err r))
      else (case k of
          0 \<Rightarrow> raise_io (RuntimeError (''git '' @ join '' '' args @ '' failed: '' @ git_err r))
        | Suc k' \<Rightarrow> then_io (h_pause H 25000) (git_tries H k' args cwd)))"

declare git_tries.simps [simp del]

definition git_ok :: "'w host \<Rightarrow> string list \<Rightarrow> string \<Rightarrow> ('w, string) io" where
  "git_ok H args cwd = git_tries H 19 args cwd"

definition git_quiet :: "'w host \<Rightarrow> string list \<Rightarrow> string \<Rightarrow> ('w, unit) io" where
  "git_quiet H args cwd = bind_io (h_git H args cwd) (\<lambda>_. ret_io ())"

section \<open>Operations\<close>

definition slot_path :: "pool_config \<Rightarrow> nat \<Rightarrow> string" where
  "slot_path P i = path_join (pc_root P) (''slot-'' @ nat_text i)"

definition slot_branch :: "nat \<Rightarrow> string" where
  "slot_branch i = ''pool/slot-'' @ nat_text i"

definition open_slot :: "'w host \<Rightarrow> pool_config \<Rightarrow> nat \<Rightarrow> ('w, unit) pooled" where
  "open_slot H P i =
    (let wt = slot_path P i in
     bind_io (on_host (h_exists H wt)) (\<lambda>there.
     then_io (when_io there (on_host
       (then_io (git_quiet H [''worktree'', ''remove'', ''--force'', wt] (pc_repo P)) (h_rmtree H wt))))
     (then_io (on_host (git_quiet H [''branch'', ''-D'', slot_branch i] (pc_repo P)))
     (bind_io (on_host (git_ok H [''worktree'', ''add'', ''-q'', ''-b'', slot_branch i, wt, ''HEAD''] (pc_repo P))) (\<lambda>_.
       set_pool (\<lambda>p. p\<lparr>po_slots := po_slots p @ [wt], po_free := po_free p @ [wt]\<rparr>))))))"

definition pool_open :: "'w host \<Rightarrow> pool_config \<Rightarrow> ('w, unit) pooled" where
  "pool_open H P =
    then_io (on_host (git_quiet H [''worktree'', ''prune''] (pc_repo P)))
    (then_io (on_host (h_mkdirs H (pc_root P)))
    (for_io [0..<pc_size P] (open_slot H P)))"

definition pool_resolve_ref :: "'w host \<Rightarrow> pool_config \<Rightarrow> string \<Rightarrow> ('w, string) io" where
  "pool_resolve_ref H P r = git_ok H [''rev-parse'', r] (pc_repo P)"

definition pool_head :: "'w host \<Rightarrow> string \<Rightarrow> ('w, string) io" where
  "pool_head H wt = git_ok H [''rev-parse'', ''HEAD''] wt"

text \<open>The checkout of a task's branch in a slot that was taken.\<close>

definition check_out :: "'w host \<Rightarrow> pool_config \<Rightarrow> string \<Rightarrow> string \<Rightarrow> string \<Rightarrow> ('w, string) io" where
  "check_out H P wt branch source =
    then_io (git_quiet H [''branch'', ''-D'', branch] (pc_repo P))
    (bind_io (git_ok H [''reset'', ''--hard'', ''HEAD''] wt) (\<lambda>_.
     bind_io (git_ok H [''clean'', ''-fdx''] wt) (\<lambda>_.
     bind_io (git_ok H [''checkout'', ''-B'', branch, source] wt) (\<lambda>_.
       git_ok H [''rev-parse'', ''HEAD''] wt))))"

definition or_text :: "string option \<Rightarrow> string \<Rightarrow> string" where
  "or_text v d = (case v of None \<Rightarrow> d | Some s \<Rightarrow> if s = [] then d else s)"

text \<open>\<open>None\<close> is a call that waits, because no slot is free.\<close>

definition pool_acquire ::
    "'w host \<Rightarrow> pool_config \<Rightarrow> string \<Rightarrow> string \<Rightarrow> string option \<Rightarrow> string option
      \<Rightarrow> ('w, (string \<times> string) option) pooled" where
  "pool_acquire H P tid base_branch base_sha branch =
    bind_io (gets_io (\<lambda>s. po_free (fst s))) (\<lambda>free. case free of
      [] \<Rightarrow> ret_io None
    | wt # rest \<Rightarrow>
        then_io (set_pool (\<lambda>p. p\<lparr>po_free := rest\<rparr>))
        (bind_io (on_host (check_out H P wt (or_text branch (''task/'' @ tid)) (or_text base_sha base_branch))) (\<lambda>sha.
          ret_io (Some (wt, sha)))))"

definition pool_release :: "'w host \<Rightarrow> pool_config \<Rightarrow> string \<Rightarrow> bool \<Rightarrow> ('w, unit) pooled" where
  "pool_release H P wt preserve =
    bind_io (on_host (git_ok H [''rev-parse'', ''--abbrev-ref'', ''HEAD''] wt)) (\<lambda>branch.
    bind_io (on_host (git_ok H [''checkout'', ''--detach'', ''--force'', ''HEAD''] wt)) (\<lambda>_.
    bind_io (on_host (git_ok H [''rev-parse'', ''--abbrev-ref'', ''HEAD''] wt)) (\<lambda>now.
      if now \<noteq> ''HEAD'' then raise_io (RuntimeError (''failed to detach pooled worktree '' @ wt))
      else
        then_io (when_io (branch \<noteq> [] \<and> branch \<noteq> ''HEAD'' \<and> \<not> preserve)
          (on_host (git_quiet H [''branch'', ''-D'', branch] (pc_repo P))))
        (set_pool (\<lambda>p. p\<lparr>po_free := po_free p @ [wt]\<rparr>)))))"

definition pool_close :: "'w host \<Rightarrow> pool_config \<Rightarrow> ('w, unit) pooled" where
  "pool_close H P =
    bind_io (gets_io (\<lambda>s. po_slots (fst s))) (\<lambda>slots.
    then_io (for_io slots (\<lambda>wt. on_host (git_quiet H [''worktree'', ''remove'', ''--force'', wt] (pc_repo P))))
    (then_io (for_io [0..<pc_size P] (\<lambda>i. on_host (git_quiet H [''branch'', ''-D'', slot_branch i] (pc_repo P))))
    (set_pool (\<lambda>p. p\<lparr>po_slots := []\<rparr>))))"

section \<open>A worktree without a pool\<close>

text \<open>\<open>subprocess.run(check=True)\<close>: a command that fails raises, here as a runtime error.\<close>

definition git_checked :: "'w host \<Rightarrow> string list \<Rightarrow> string \<Rightarrow> ('w, string) io" where
  "git_checked H args cwd =
    bind_io (h_git H args cwd) (\<lambda>r.
      if git_code r = 0 then ret_io (strip (git_out r))
      else raise_io (RuntimeError (''Command git '' @ join '' '' args @ '' returned non-zero exit status '' @ int_text (git_code r))))"

definition create_worktree ::
    "'w host \<Rightarrow> string \<Rightarrow> string \<Rightarrow> string \<Rightarrow> string \<Rightarrow> ('w, string \<times> string) io" where
  "create_worktree H repo root tid base_branch =
    (let wt = path_join root tid; branch = ''task/'' @ tid in
     then_io (git_quiet H [''branch'', ''-D'', branch] repo)
     (bind_io (git_checked H [''worktree'', ''add'', ''-q'', ''-b'', branch, wt, base_branch] repo) (\<lambda>_.
      bind_io (git_checked H [''rev-parse'', ''HEAD''] wt) (\<lambda>sha. ret_io (wt, sha)))))"

definition remove_worktree :: "'w host \<Rightarrow> string \<Rightarrow> string \<Rightarrow> ('w, unit) io" where
  "remove_worktree H repo wt = git_quiet H [''worktree'', ''remove'', ''--force'', wt] repo"

end
