(* ===== verification/Pool_Properties.thy ===== *)
theory Pool_Properties
  imports Pool Sample_Host Plan_Laws
begin

text \<open>
  The slots of the worktree pool over any sequence of its operations: none is handed out twice.
\<close>

section \<open>One operation\<close>

lemma on_host_pool: "on_host m (p, w) = (r, (p', w')) \<Longrightarrow> p' = p"
  by (auto simp: on_host_def split: prod.splits)

definition same_pool :: "pool \<times> 'w \<Rightarrow> pool \<times> 'w \<Rightarrow> bool" where
  "same_pool s s' \<longleftrightarrow> fst s' = fst s"

interpretation pools: io_contract same_pool
  by unfold_locales (simp_all add: same_pool_def)

lemma keeps_on_host: "keeps same_pool (on_host m)"
  by (simp add: keeps_def same_pool_def on_host_def split: prod.split)

definition same_slots :: "pool \<times> 'w \<Rightarrow> pool \<times> 'w \<Rightarrow> bool" where
  "same_slots s s' \<longleftrightarrow> po_slots (fst s') = po_slots (fst s)"

lemma acquire_pool:
  assumes "pool_acquire H P tid base sha branch (p, w) = (r, (p', w'))"
  shows "po_slots p' = po_slots p \<and>
    (case r of
       Inr None \<Rightarrow> po_free p = [] \<and> p' = p \<and> w' = w
     | Inr (Some (wt, x)) \<Rightarrow> po_free p = wt # po_free p'
     | Inl e \<Rightarrow> \<exists>wt. po_free p = wt # po_free p')"
proof (cases "po_free p")
  case Nil
  then have "r = Inr None \<and> p' = p \<and> w' = w"
    using assms by (simp add: pool_acquire_def bind_io_def gets_io_def ret_io_def)
  then show ?thesis using Nil by simp
next
  case (Cons wt rest)
  let ?m = "on_host (check_out H P wt (or_text branch (''task/'' @ tid)) (or_text sha base))"
  obtain x p1 w1 where m: "?m (p\<lparr>po_free := rest\<rparr>, w) = (x, (p1, w1))"
    by (metis prod.exhaust)
  have p1: "p1 = p\<lparr>po_free := rest\<rparr>" by (rule on_host_pool[OF m])
  show ?thesis using assms Cons m p1
    by (cases x) (auto simp: pool_acquire_def bind_io_def then_io_def gets_io_def set_pool_def ret_io_def)
qed

lemma release_pool:
  assumes "pool_release H P wt preserve (p, w) = (r, (p', w'))"
  shows "p' = (case r of Inr u \<Rightarrow> p\<lparr>po_free := po_free p @ [wt]\<rparr> | Inl e \<Rightarrow> p)"
proof -
  have last: "triple (\<lambda>s. fst s = p) (set_pool (\<lambda>p. p\<lparr>po_free := po_free p @ [wt]\<rparr>))
      (\<lambda>r s. fst s = (case r of Inr u \<Rightarrow> p\<lparr>po_free := po_free p @ [wt]\<rparr> | Inl e \<Rightarrow> p))"
    by (simp add: triple_def set_pool_def)
  have host: "triple (\<lambda>s. fst s = p) (on_host m) (\<lambda>_ s. fst s = p)" for m :: "('a, 'b) io"
    by (rule triple_keeps[OF keeps_on_host]) (simp add: same_pool_def)
  have "triple (\<lambda>s. fst s = p) (pool_release H P wt preserve)
      (\<lambda>r s. fst s = (case r of Inr u \<Rightarrow> p\<lparr>po_free := po_free p @ [wt]\<rparr> | Inl e \<Rightarrow> p))"
    unfolding pool_release_def when_io_def
    by (rule triple_bind[OF host] triple_then[OF _ last] triple_if triple_raise triple_ret host | simp)+
  from tripleD[OF this _ assms] show ?thesis by simp
qed

definition opened :: "pool_config \<Rightarrow> nat list \<Rightarrow> pool \<Rightarrow> bool" where
  "opened P is p \<longleftrightarrow> po_slots p = map (slot_path P) is \<and> po_free p = map (slot_path P) is"

lemma triple_on_host: "(\<And>s s'. Q s \<Longrightarrow> fst s' = fst s \<Longrightarrow> Q s') \<Longrightarrow> triple Q (on_host m) (\<lambda>_. Q)"
  by (rule triple_keeps[OF keeps_on_host]) (auto simp: same_pool_def)

lemma open_slot_pool:
  "triple (\<lambda>s. opened P xs (fst s)) (open_slot H P i)
    (\<lambda>r s. case r of Inr u \<Rightarrow> opened P (xs @ [i]) (fst s) | Inl e \<Rightarrow> True)"
proof -
  have host: "triple (\<lambda>s. opened P xs (fst s)) (on_host m) (\<lambda>_ s. opened P xs (fst s))" for m :: "('a, 'b) io"
    by (rule triple_on_host) simp
  have put: "triple (\<lambda>s. opened P xs (fst s))
      (set_pool (\<lambda>p. p\<lparr>po_slots := po_slots p @ [slot_path P i], po_free := po_free p @ [slot_path P i]\<rparr>))
      (\<lambda>r s. case r of Inr u \<Rightarrow> opened P (xs @ [i]) (fst s) | Inl e \<Rightarrow> True)"
    by (simp add: triple_def set_pool_def opened_def)
  show ?thesis unfolding open_slot_def Let_def when_io_def
    by (rule triple_bind[OF host] triple_then[OF host] triple_then triple_if put
      | (rule triple_ret, assumption) | (rule host) | simp)+
qed

lemma open_slots_pool:
  "triple (\<lambda>s. opened P xs (fst s)) (for_io is (open_slot H P))
    (\<lambda>r s. case r of Inr u \<Rightarrow> opened P (xs @ is) (fst s) | Inl e \<Rightarrow> True)"
proof (induction "is" arbitrary: xs)
  case Nil
  show ?case by (simp add: triple_ret)
next
  case (Cons i js)
  show ?case unfolding for_io.simps
    by (rule triple_then[OF open_slot_pool]) (use Cons.IH[of "xs @ [i]", unfolded append_assoc append_Cons append_Nil] in simp_all)
qed

lemma open_pool:
  "triple (\<lambda>s. fst s = \<lparr>po_slots = [], po_free = []\<rparr>) (pool_open H P)
    (\<lambda>r s. case r of Inr u \<Rightarrow> opened P [0..<pc_size P] (fst s) | Inl e \<Rightarrow> True)"
proof -
  let ?e = "\<lambda>s. fst s = \<lparr>po_slots = [], po_free = []\<rparr>"
  have host: "triple ?e (on_host m) (\<lambda>_. ?e)" for m :: "('a, 'b) io"
    by (rule triple_on_host) simp
  have slots: "triple ?e (for_io [0..<pc_size P] (open_slot H P))
      (\<lambda>r s. case r of Inr u \<Rightarrow> opened P [0..<pc_size P] (fst s) | Inl e \<Rightarrow> True)"
    using open_slots_pool[of P "[]" "[0..<pc_size P]" H, unfolded append_Nil]
    unfolding triple_def by (simp add: opened_def)
  show ?thesis unfolding pool_open_def
    by (rule triple_then[OF host triple_then[OF host slots]]) simp_all
qed

text \<open>Different slots have different paths.\<close>

lemma digit_code: "of_char (char_of (48 + n mod 10) :: char) = 48 + (n :: nat) mod 10"
proof -
  have "n mod 10 < 10" by simp
  then have "48 + n mod 10 < 256" by linarith
  then show ?thesis by (simp only: of_char_of mod_less)
qed

lemma rev_digits_value: "n < 10 ^ k \<Longrightarrow> foldr (\<lambda>c v. (of_char c - 48) + 10 * v) (rev_digits k n) 0 = n"
proof (induction k arbitrary: n)
  case (Suc k)
  show ?case
  proof (cases "n < 10")
    case False
    then have "n div 10 < 10 ^ k" using Suc.prems by (simp add: less_mult_imp_div_less mult.commute)
    from Suc.IH[OF this] show ?thesis using False by (simp add: digit_code)
  qed (simp add: digit_code)
qed simp

lemma nat_text_inject: "nat_text m = nat_text n \<Longrightarrow> m = n"
proof -
  have small: "n < 10 ^ Suc n" for n :: nat by (induction n) auto
  assume "nat_text m = nat_text n"
  then show "m = n"
    using rev_digits_value[OF small[of m]] rev_digits_value[OF small[of n]] unfolding nat_text_def by simp
qed


lemma nat_text_no_slash: "slash \<notin> set (nat_text n)"
proof -
  have ne: "char_of (48 + m mod 10) \<noteq> slash" for m :: nat
  proof
    assume "char_of (48 + m mod 10) = slash"
    then have "of_char (char_of (48 + m mod 10) :: char) = (47 :: nat)" by (simp add: slash_def)
    then show False using digit_code[of m] by simp
  qed
  have no: "slash \<notin> set (rev_digits k n)" for k
  proof (induction k arbitrary: n)
    case (Suc k)
    then show ?case using ne[of n] by (auto split: if_splits)
  qed simp
  show ?thesis unfolding nat_text_def set_rev by (rule no)
qed

lemma split_on_both: "split_on c (a @ c # b) = split_on c a @ split_on c b"
  by (induction a) (auto split: list.split)

lemma path_parts_snoc:
  "n \<noteq> [] \<Longrightarrow> n \<noteq> ''.'' \<Longrightarrow> slash \<notin> set n \<Longrightarrow> path_parts (y @ slash # n) = path_parts y @ [n]"
  by (simp add: path_parts_def split_on_both split_on_no_sep)

lemma path_lead_snoc: "path_lead (y @ slash # ''slot-'' @ t) = path_lead (y @ slash # ''s'')"
proof (cases y rule: remdups_adj.cases)
  case (3 a b xs)
  then show ?thesis by (cases xs) (simp_all add: path_lead_def starts_with_def)
qed (simp_all add: path_lead_def starts_with_def)

lemma join_snoc: "join sep (ps @ [n]) = (if ps = [] then n else join sep ps @ sep @ n)"
  by (induction sep ps rule: join.induct) auto

lemma slot_path_text: "\<exists>pre. \<forall>i. slot_path P i = pre @ nat_text i"
proof -
  let ?t = "path_text (pc_root P)"
  define x where "x = ?t @ (if last ?t = slash then [] else ''/'')"
  have "?t \<noteq> []" by (simp add: path_text_def Let_def)
  then have "x \<noteq> []" "last x = slash" by (auto simp: x_def slash_def)
  then obtain y where x: "x = y @ [slash]" by (metis append_butlast_last_id)
  have slot: "slot_path P i = path_text (y @ slash # ''slot-'' @ nat_text i)" for i
  proof -
    have "slot_path P i = path_text (x @ ''slot-'' @ nat_text i)"
      by (simp add: slot_path_def path_join_def x_def starts_with_def)
    then show ?thesis using x by simp
  qed
  have parts: "path_parts (y @ slash # ''slot-'' @ nat_text i) = path_parts y @ [''slot-'' @ nat_text i]" for i
    by (rule path_parts_snoc) (use nat_text_no_slash in \<open>auto simp: slash_def\<close>)
  have "slot_path P i = (path_lead (y @ slash # ''s'') @
      (if path_parts y = [] then ''slot-'' else join ''/'' (path_parts y) @ ''/slot-'')) @ nat_text i" for i
    unfolding slot path_text_def parts path_lead_snoc join_snoc by (simp add: Let_def)
  then show ?thesis by blast
qed

lemma slot_path_inject: "slot_path P i = slot_path P j \<Longrightarrow> i = j"
  using slot_path_text[of P] nat_text_inject by (metis same_append_eq)

lemma opened_distinct: "opened P [0..<n] p \<Longrightarrow> distinct (po_free p) \<and> length (po_slots p) = n"
  unfolding opened_def by (auto simp: distinct_map intro: inj_onI slot_path_inject)

lemma close_pool:
  "triple (\<lambda>s. po_free (fst s) = f) (pool_close H P) (\<lambda>_ s. po_free (fst s) = f)"
proof -
  have host: "triple (\<lambda>s. po_free (fst s) = f) (on_host m) (\<lambda>_ s. po_free (fst s) = f)" for m :: "('a, 'b) io"
    by (rule triple_on_host) simp
  have each: "triple (\<lambda>s. po_free (fst s) = f) (for_io xs (\<lambda>x. on_host (m x))) (\<lambda>_ s. po_free (fst s) = f)"
    for xs :: "'c list" and m :: "'c \<Rightarrow> ('a, unit) io"
  proof (induction xs)
    case (Cons x xs)
    show ?case unfolding for_io.simps by (rule triple_then[OF host Cons.IH])
  qed (simp add: triple_ret)
  have get: "triple Q (gets_io g) (\<lambda>_. Q)" for Q and g :: "pool \<times> 'a \<Rightarrow> string list"
    by (simp add: triple_def gets_io_def)
  have last: "triple (\<lambda>s. po_free (fst s) = f) (set_pool (\<lambda>p. p\<lparr>po_slots := []\<rparr>)) (\<lambda>_ s. po_free (fst s) = f)"
    by (simp add: triple_def set_pool_def)
  show ?thesis unfolding pool_close_def
    by (rule triple_bind[OF get] triple_then[OF each] last | assumption)+
qed

section \<open>Every run\<close>

text \<open>
  A run of the pool: it is opened on an empty pool, then taken from and given back to in any order,
  while anything else happens to the repository. A client gives back only what it holds. An operation
  that raises keeps what it did so far. The last argument is the slots that are handed out.
\<close>

inductive pool_run :: "'w host \<Rightarrow> pool_config \<Rightarrow> pool \<Rightarrow> 'w \<Rightarrow> string list \<Rightarrow> bool" for H P where
  opened_pool: "pool_open H P (\<lparr>po_slots = [], po_free = []\<rparr>, w0) = (Inr (), (p, w)) \<Longrightarrow> pool_run H P p w []"
| acquired: "pool_run H P p w held \<Longrightarrow>
    pool_acquire H P tid base sha branch (p, w) = (Inr (Some (wt, x)), (p', w')) \<Longrightarrow> pool_run H P p' w' (wt # held)"
| waiting: "pool_run H P p w held \<Longrightarrow>
    pool_acquire H P tid base sha branch (p, w) = (Inr None, (p', w')) \<Longrightarrow> pool_run H P p' w' held"
| not_acquired: "pool_run H P p w held \<Longrightarrow>
    pool_acquire H P tid base sha branch (p, w) = (Inl e, (p', w')) \<Longrightarrow> pool_run H P p' w' held"
| released: "pool_run H P p w held \<Longrightarrow> wt \<in> set held \<Longrightarrow>
    pool_release H P wt preserve (p, w) = (Inr (), (p', w')) \<Longrightarrow> pool_run H P p' w' (remove1 wt held)"
| not_released: "pool_run H P p w held \<Longrightarrow> wt \<in> set held \<Longrightarrow>
    pool_release H P wt preserve (p, w) = (Inl e, (p', w')) \<Longrightarrow> pool_run H P p' w' held"
| closed: "pool_run H P p w held \<Longrightarrow> pool_close H P (p, w) = (r, (p', w')) \<Longrightarrow> pool_run H P p' w' held"
| worked: "pool_run H P p w held \<Longrightarrow> pool_run H P p w' held"

definition exclusive :: "pool_config \<Rightarrow> pool \<Rightarrow> string list \<Rightarrow> bool" where
  "exclusive P p held \<longleftrightarrow> distinct (held @ po_free p) \<and>
    set (held @ po_free p) \<subseteq> set (map (slot_path P) [0..<pc_size P])"

lemma exclusive_bound:
  assumes "exclusive P p held"
  shows "length held + length (po_free p) \<le> pc_size P"
proof -
  have "card (set (held @ po_free p)) \<le> card (set (map (slot_path P) [0..<pc_size P]))"
    using assms unfolding exclusive_def by (intro card_mono) auto
  also have "\<dots> \<le> pc_size P" by (rule order_trans[OF card_length]) simp
  finally show ?thesis using assms unfolding exclusive_def by (metis distinct_card length_append)
qed

lemma run_exclusive: "pool_run H P p w held \<Longrightarrow> exclusive P p held"
proof (induction rule: pool_run.induct)
  case (opened_pool w0 p w)
  have "opened P [0..<pc_size P] p" using tripleD[OF open_pool _ opened_pool] by simp
  then show ?case using opened_distinct[of P "pc_size P" p] by (simp add: exclusive_def opened_def)
next
  case (acquired p w held tid base sha branch wt x p' w')
  then show ?case using acquire_pool[OF acquired.hyps(2)] by (auto simp: exclusive_def)
next
  case (waiting p w held tid base sha branch p' w')
  then show ?case using acquire_pool[OF waiting.hyps(2)] by simp
next
  case (not_acquired p w held tid base sha branch e p' w')
  then show ?case using acquire_pool[OF not_acquired.hyps(2)] by (auto simp: exclusive_def)
next
  case (released p w held wt preserve p' w')
  then show ?case using release_pool[OF released.hyps(3)] by (auto simp: exclusive_def set_remove1_eq)
next
  case (not_released p w held wt preserve e p' w')
  then show ?case using release_pool[OF not_released.hyps(3)] by simp
next
  case (closed p w held r p' w')
  then show ?case using tripleD[OF close_pool[of "po_free p"] _ closed.hyps(2)] by (simp add: exclusive_def)
qed

text \<open>
  C34. In every run of the pool a slot is free or handed out, not both and not twice, and every one
  of them is a path that the pool created, so no more than its size are in use at a time.
\<close>

theorem pool_slot_exclusive:
  assumes "pool_run H P p w held"
  shows "distinct (held @ po_free p) \<and> set (held @ po_free p) \<subseteq> set (map (slot_path P) [0..<pc_size P]) \<and>
    length held + length (po_free p) \<le> pc_size P"
  using run_exclusive[OF assms] exclusive_bound[OF run_exclusive[OF assms]] by (simp add: exclusive_def)

lemmas pool_defs = pool_open_def open_slot_def on_host_def set_pool_def git_ok_def git_tries.simps
  git_quiet_def slot_path_def slot_branch_def check_out_def or_text_def pool_acquire_def pool_release_def

definition mini_pool :: pool_config where
  "mini_pool = \<lparr>pc_repo = ''repo'', pc_root = ''trees'', pc_size = 2\<rparr>"

lemma digit_chars: "char_of (48 :: nat) = CHR ''0''" "char_of (49 :: nat) = CHR ''1''"
  by code_simp+

lemma mini_open:
  "\<exists>w. pool_open mini_host mini_pool (\<lparr>po_slots = [], po_free = []\<rparr>, mini_world) =
    (Inr (), (\<lparr>po_slots = [''trees/slot-0'', ''trees/slot-1''], po_free = [''trees/slot-0'', ''trees/slot-1'']\<rparr>, w))"
  by (simp add: pool_defs mini_pool_def gate_defs digit_chars upt_rec cong: run_first run_list)

text \<open>The first slot is taken on an opened pool, and the other one stays free.\<close>

lemma mini_take:
  "\<exists>x p' w'. pool_acquire mini_host mini_pool ''t'' ''main'' None (Some ''attempt/a'')
      (\<lparr>po_slots = s, po_free = [''trees/slot-0'', ''trees/slot-1'']\<rparr>, mini_world) = (Inr (Some (''trees/slot-0'', x)), (p', w')) \<and>
    po_free p' = [''trees/slot-1'']"
  by (simp add: pool_defs gate_defs cong: run_first run_list)

theorem pool_slot_exclusive_witness:
  "\<exists>p w. pool_run mini_host mini_pool p w [''trees/slot-0''] \<and> po_free p = [''trees/slot-1''] \<and>
    distinct [''trees/slot-0'', ''trees/slot-1'']"
proof -
  obtain w where "pool_open mini_host mini_pool (\<lparr>po_slots = [], po_free = []\<rparr>, mini_world) =
    (Inr (), (\<lparr>po_slots = [''trees/slot-0'', ''trees/slot-1''], po_free = [''trees/slot-0'', ''trees/slot-1'']\<rparr>, w))"
    using mini_open by blast
  note opened = worked[OF opened_pool[OF this]]
  obtain x p' w' where take: "pool_acquire mini_host mini_pool ''t'' ''main'' None (Some ''attempt/a'')
      (\<lparr>po_slots = [''trees/slot-0'', ''trees/slot-1''], po_free = [''trees/slot-0'', ''trees/slot-1'']\<rparr>, mini_world) =
      (Inr (Some (''trees/slot-0'', x)), (p', w'))" and free: "po_free p' = [''trees/slot-1'']"
    using mini_take by blast
  have run: "pool_run mini_host mini_pool p' w' [''trees/slot-0'']" by (rule acquired[OF opened take])
  from pool_slot_exclusive[OF run] run free show ?thesis by auto
qed

text \<open>
  A slot whose checkout fails is never given back: a pool of one slot then waits for ever, although
  nobody holds the slot.
\<close>

lemma failed_acquire_loses_slot:
  "case pool_acquire mini_host mini_pool ''t'' ''main'' None None
      (\<lparr>po_slots = [''trees/slot-0''], po_free = [''trees/slot-0'']\<rparr>, mini_world\<lparr>gw_lost := [''trees/slot-0'']\<rparr>) of
      (Inl e, (p, w)) \<Rightarrow> fst (pool_acquire mini_host mini_pool ''t2'' ''main'' None None (p, mini_world)) = Inr None
    | (Inr _, _) \<Rightarrow> False"
  by (simp add: pool_defs gate_defs cong: run_first run_list)

end
