(* ===== verification/Delivery.thy ===== *)
theory Delivery
  imports Host Sched
begin

text \<open>
  \<open>delivery/__init__.py\<close>: the report of a scout task, the fast-forward of the local branch, and the
  pushed branch with its pull request.
\<close>

section \<open>Commands\<close>

definition rev_parse :: "'w host \<Rightarrow> string \<Rightarrow> string \<Rightarrow> ('w, string) io" where
  "rev_parse H ref cwd =
    bind_io (h_git H [''rev-parse'', ref] cwd) (\<lambda>r.
      if git_code r \<noteq> 0 then raise_io (DeliveryError (git_err r)) else ret_io (strip (git_out r)))"

definition show_branch :: "'w host \<Rightarrow> string \<Rightarrow> ('w, string) io" where
  "show_branch H cwd = bind_io (h_git H [''branch'', ''--show-current''] cwd) (\<lambda>r. ret_io (strip (git_out r)))"

section \<open>Scout\<close>

definition deliver_scout :: "'w host \<Rightarrow> task_row \<Rightarrow> string option \<Rightarrow> ('w, delivery_kind \<times> payload) io" where
  "deliver_scout H t root =
    (let dir = (if given root then path_text (the root) else path_join ''data'' (t_id t));
         report = path_join dir ''report.md'' in
     then_io (h_mkdirs H dir)
     (then_io (h_write H report
       (''# '' @ t_title t @ [CHR 0x0A, CHR 0x0A] @ ''scout task, no changes pushed.'' @ [CHR 0x0A]))
     (ret_io (Report_written, [(''path'', JStr report)]))))"

section \<open>Local\<close>

definition delivery_branch :: "task_row \<Rightarrow> string" where
  "delivery_branch t =
    (if given (t_candidate_branch t) then the (t_candidate_branch t) else ''task/'' @ t_id t)"

text \<open>Whether the task's own checkout is still on the branch.\<close>

definition own_checkout :: "'w host \<Rightarrow> task_row \<Rightarrow> string \<Rightarrow> ('w, bool) io" where
  "own_checkout H t branch =
    (if \<not> given (t_worktree t) then ret_io False
     else
       bind_io (h_exists H (the (t_worktree t))) (\<lambda>there.
         if \<not> there then ret_io False
         else bind_io (show_branch H (the (t_worktree t))) (\<lambda>b. ret_io (b = branch))))"

text \<open>The checkout for the rebase, and whether it is a temporary one.\<close>

definition rebase_checkout :: "'w host \<Rightarrow> task_row \<Rightarrow> string \<Rightarrow> ('w, string \<times> bool) io" where
  "rebase_checkout H t branch =
    bind_io (own_checkout H t branch) (\<lambda>own.
      if own then ret_io (the (t_worktree t), False)
      else
        bind_io (h_mkdtemp H ''orch_delivery_'') (\<lambda>dir.
        bind_io (h_git H [''worktree'', ''add'', ''-q'', dir, branch] (t_repo t)) (\<lambda>r.
          if git_code r \<noteq> 0 then then_io (h_rmtree H dir) (raise_io (DeliveryError (git_err r)))
          else ret_io (dir, True))))"

definition drop_checkout :: "'w host \<Rightarrow> task_row \<Rightarrow> string \<times> bool \<Rightarrow> ('w, unit) io" where
  "drop_checkout H t co =
    when_io (snd co)
      (bind_io (h_git H [''worktree'', ''remove'', ''--force'', fst co] (t_repo t)) (\<lambda>_. h_rmtree H (fst co)))"

definition rebase_args :: "string \<Rightarrow> string list" where
  "rebase_args onto = [''-c'', ''user.name=dagent'', ''-c'', ''user.email=dagent@localhost'', ''rebase'', onto]"

definition rebase_branch :: "'w host \<Rightarrow> task_row \<Rightarrow> string \<Rightarrow> string \<Rightarrow> ('w, unit) io" where
  "rebase_branch H t branch merge_err =
    bind_io (h_git H [''rev-parse'', ''main''] (t_repo t)) (\<lambda>m.
    bind_io (rebase_checkout H t branch) (\<lambda>co.
    bind_io (h_git H (rebase_args (strip (git_out m))) (fst co)) (\<lambda>r.
      if git_code r \<noteq> 0 then
        bind_io (h_git H [''rebase'', ''--abort''] (fst co)) (\<lambda>_.
        then_io (drop_checkout H t co)
        (raise_io (DeliveryError (''rebase_conflict: '' @ git_err r @ [CHR 0x0A] @ ''original: '' @ merge_err))))
      else drop_checkout H t co)))"

definition ff_merge :: "'w host \<Rightarrow> task_row \<Rightarrow> string \<Rightarrow> ('w, int \<times> string \<times> string) io" where
  "ff_merge H t branch = h_git H [''merge'', ''--ff-only'', branch] (t_repo t)"

definition deliver_local :: "'w host \<Rightarrow> task_row \<Rightarrow> ('w, delivery_kind \<times> payload) io" where
  "deliver_local H t =
    (let branch = delivery_branch t; repo = t_repo t in
     bind_io (show_branch H repo) (\<lambda>current.
     if current \<noteq> ''main'' then
       raise_io (DeliveryError (''repo not on main (on '' @ repr_str current @ ''); refusing local merge''))
     else
       bind_io (h_git H [''status'', ''--porcelain''] repo) (\<lambda>status.
       if \<not> blank (git_out status) then
         raise_io (DeliveryError (''dirty_tree: uncommitted changes in '' @ repo @ '':'' @ [CHR 0x0A] @ git_out status))
       else
         bind_io (rev_parse H ''main'' repo) (\<lambda>before.
         bind_io (rev_parse H branch repo) (\<lambda>commit.
         bind_io (ff_merge H t branch) (\<lambda>m.
         if git_code m = 0 then
           bind_io (rev_parse H ''main'' repo) (\<lambda>after.
             ret_io (Merged_local, [(''branch'', JStr branch), (''before_sha'', JStr before),
               (''after_sha'', JStr after), (''commit_sha'', JStr commit)]))
         else
           then_io (rebase_branch H t branch (git_err m))
           (bind_io (ff_merge H t branch) (\<lambda>again.
            if git_code again \<noteq> 0 then raise_io (DeliveryError (git_err again))
            else
              bind_io (rev_parse H ''main'' repo) (\<lambda>after.
              bind_io (rev_parse H branch repo) (\<lambda>new.
                ret_io (Merged_local, [(''branch'', JStr branch), (''before_sha'', JStr before),
                  (''after_sha'', JStr after), (''commit_sha'', JStr new), (''rebased'', JBool True),
                  (''original_commit_sha'', JStr commit)])))))))))))"

section \<open>Pull request\<close>

text \<open>
  \<open>urlparse\<close> as far as it is used: an optional scheme, the network location after two slashes, and
  the path before parameters, query and fragment.
\<close>

definition scheme_char :: "char \<Rightarrow> bool" where
  "scheme_char c = (is_digit c \<or> between 97 122 c \<or> between 65 90 c \<or> c \<in> set ''+-.'')"

definition letter :: "char \<Rightarrow> bool" where
  "letter c = (between 97 122 c \<or> between 65 90 c)"

definition url_scheme :: "string \<Rightarrow> string \<times> string" where
  "url_scheme url =
    (let s = takeWhile (\<lambda>c. c \<noteq> CHR '':'') url in
     if s \<noteq> url \<and> s \<noteq> [] \<and> letter (hd s) \<and> list_all scheme_char s
     then (py_lower s, drop (Suc (length s)) url) else ([], url))"

definition upto_char :: "char \<Rightarrow> string \<Rightarrow> string" where
  "upto_char c s = takeWhile (\<lambda>x. x \<noteq> c) s"

definition params_schemes :: "string list" where
  "params_schemes = [[], ''ftp'', ''hdl'', ''prospero'', ''http'', ''imap'', ''https'', ''shttp'', ''rtsp'',
    ''rtsps'', ''rtspu'', ''sip'', ''sips'', ''mms'', ''sftp'', ''tel'']"

definition drop_params :: "string \<Rightarrow> string \<Rightarrow> string" where
  "drop_params scheme path =
    (if scheme \<notin> set params_schemes \<or> CHR '';'' \<notin> set path then path
     else (let lead = nat (rfind_char slash path + 1) in take lead path @ upto_char (CHR '';'') (drop lead path)))"

definition url_parts :: "string \<Rightarrow> exc + string \<times> string" where
  "url_parts url0 =
    (let url1 = filter (\<lambda>c. c \<notin> {CHR 0x09, CHR 0x0A, CHR 0x0D}) (dropWhile (\<lambda>c. of_char c \<le> (32 :: nat)) url0);
         (scheme, url) = url_scheme url1;
         netloc = (if starts_with ''//'' url then takeWhile (\<lambda>c. c \<notin> set ''/?#'') (drop 2 url) else []);
         rest = (if starts_with ''//'' url then drop (2 + length netloc) url else url) in
     if (CHR ''['' \<in> set netloc) \<noteq> (CHR '']'' \<in> set netloc) then Inl (ValueError ''Invalid IPv6 URL'')
     else Inr (netloc, drop_params scheme (upto_char (CHR ''?'') (upto_char (CHR ''#'') rest))))"

definition remove_suffix :: "string \<Rightarrow> string \<Rightarrow> string" where
  "remove_suffix p s = (if ends_with p s then take (length s - length p) s else s)"

definition github_owner :: "string \<Rightarrow> exc + string option" where
  "github_owner url =
    (let owner = (\<lambda>path. let parts = split_on slash (remove_suffix ''.git'' path) in
           if 2 \<le> length parts \<and> hd parts \<noteq> [] then Some (hd parts) else None) in
     if starts_with ''git@github.com:'' url then Inr (owner (drop 15 url))
     else bindE (url_parts url) (\<lambda>(netloc, path).
       if netloc \<noteq> ''github.com'' then Inr None else Inr (owner (dropWhile (\<lambda>c. c = slash) path))))"

definition head_arg :: "'w host \<Rightarrow> string \<Rightarrow> string \<Rightarrow> ('w, string) io" where
  "head_arg H wt branch =
    bind_io (h_git H [''remote'', ''get-url'', ''origin''] wt) (\<lambda>r.
      if git_code r \<noteq> 0 then ret_io branch
      else
        bind_io (lift_io (github_owner (strip (git_out r)))) (\<lambda>owner.
          ret_io (case owner of None \<Rightarrow> branch | Some u \<Rightarrow> u @ '':'' @ branch)))"

definition gh_pr_create :: "'w host \<Rightarrow> string \<Rightarrow> string \<Rightarrow> ('w, string) io" where
  "gh_pr_create H wt branch =
    bind_io (head_arg H wt branch) (\<lambda>hd_ref.
    bind_io (h_gh H [''pr'', ''create'', ''--fill'', ''--head'', hd_ref] wt) (\<lambda>r.
      if git_code r \<noteq> 0 then raise_io (DeliveryError (git_err r)) else ret_io (strip (git_out r))))"

text \<open>Every other exception of opening the pull request becomes a delivery error.\<close>

definition as_delivery_error :: "exc \<Rightarrow> exc" where
  "as_delivery_error e = (case e of DeliveryError s \<Rightarrow> e | _ \<Rightarrow> DeliveryError (exc_text e))"

definition deliver_pr ::
    "'w host \<Rightarrow> task_row \<Rightarrow> (string \<Rightarrow> string \<Rightarrow> ('w, string) io) \<Rightarrow> ('w, delivery_kind \<times> payload) io" where
  "deliver_pr H t open_pr =
    (let branch = ''task/'' @ t_id t; source = (if given (t_candidate_branch t) then the (t_candidate_branch t) else branch) in
     bind_io (if t_repo t \<noteq> [] then ret_io (t_repo t) else need_text (t_worktree t)) (\<lambda>repo.
     then_io
       (if source = branch then ret_io ()
        else bind_io (h_git H [''branch'', ''-f'', branch, source] repo) (\<lambda>r.
          if git_code r \<noteq> 0 then raise_io (DeliveryError (git_err r)) else ret_io ()))
     (bind_io (rev_parse H branch repo) (\<lambda>commit.
      bind_io (h_git H [''push'', ''-u'', ''origin'', branch @ '':refs/heads/'' @ branch] repo) (\<lambda>p.
      if git_code p \<noteq> 0 then raise_io (DeliveryError (git_err p))
      else
        bind_io (catch_io (open_pr repo branch) (\<lambda>e. raise_io (as_delivery_error e))) (\<lambda>url.
          ret_io (Pr_opened, [(''url'', JStr url), (''branch'', JStr branch), (''commit_sha'', JStr commit)])))))))"

definition deliver ::
    "'w host \<Rightarrow> task_row \<Rightarrow> (string \<Rightarrow> string \<Rightarrow> ('w, string) io) option \<Rightarrow> string option
      \<Rightarrow> ('w, delivery_kind \<times> payload) io" where
  "deliver H t open_pr root =
    (if t_delivery_mode t = ''scout'' then deliver_scout H t root
     else if t_delivery_mode t = ''local'' then deliver_local H t
     else if t_delivery_mode t = ''pr'' then
       deliver_pr H t (case open_pr of None \<Rightarrow> gh_pr_create H | Some f \<Rightarrow> f)
     else raise_io (DeliveryError (''unknown delivery_mode '' @ repr_str (t_delivery_mode t))))"

end
