(* ===== verification/Delivery_Properties.thy ===== *)
theory Delivery_Properties
  imports Delivery Host_Laws Sample_Host
begin

text \<open>
  What a local delivery does to the branches of the repository, for every git that treats branches as
  documented, and a small git with that behaviour.
\<close>

section \<open>Branches\<close>

text \<open>
  \<open>refs\<close> reads the commit of each branch, \<open>cur\<close> the branch that is checked out in each directory
  and \<open>anc\<close> whether one commit is an ancestor of another.
\<close>

definition same_refs :: "('w \<Rightarrow> string \<Rightarrow> string option) \<Rightarrow> ('w \<Rightarrow> string \<Rightarrow> string) \<Rightarrow> 'w \<Rightarrow> 'w \<Rightarrow> bool" where
  "same_refs refs cur w w' \<longleftrightarrow> refs w' = refs w \<and> cur w' = cur w"

interpretation branches: io_contract "same_refs refs cur" for refs cur
  by unfold_locales (simp_all add: same_refs_def)

text \<open>Only the branch \<open>b\<close> and the directory \<open>d\<close> may differ.\<close>

definition moves ::
    "('w \<Rightarrow> string \<Rightarrow> string option) \<Rightarrow> ('w \<Rightarrow> string \<Rightarrow> string) \<Rightarrow> string \<Rightarrow> string \<Rightarrow> 'w \<Rightarrow> 'w \<Rightarrow> bool" where
  "moves refs cur b d w w' \<longleftrightarrow> (\<forall>x. x \<noteq> b \<longrightarrow> refs w' x = refs w x) \<and>
    (refs w b \<noteq> None \<longrightarrow> refs w' b \<noteq> None) \<and> (\<forall>x. x \<noteq> d \<longrightarrow> cur w' x = cur w x)"

text \<open>
  The documented behaviour of the commands: reading commands change no branch, a fast-forward merge
  moves the current branch to the merged one exactly when that is a descendant, a rebase changes the
  branch that is checked out in its directory, and a worktree has the branch it was added with.
\<close>

definition reading ::
    "'w host \<Rightarrow> string \<Rightarrow> ('w \<Rightarrow> string \<Rightarrow> string option) \<Rightarrow> ('w \<Rightarrow> string \<Rightarrow> string) \<Rightarrow> bool" where
  "reading H repo refs cur \<longleftrightarrow>
    (\<forall>d. keeps (same_refs refs cur) (h_git H [''branch'', ''--show-current''] d)) \<and>
    (\<forall>d. keeps (same_refs refs cur) (h_git H [''status'', ''--porcelain''] d)) \<and>
    (\<forall>r d. keeps (same_refs refs cur) (h_git H [''rev-parse'', r] d)) \<and>
    (\<forall>p. keeps (same_refs refs cur) (h_exists H p)) \<and> (\<forall>p. keeps (same_refs refs cur) (h_rmtree H p)) \<and>
    (\<forall>p. keeps (same_refs refs cur) (h_mkdtemp H p)) \<and>
    (\<forall>d w x w'. h_git H [''branch'', ''--show-current''] d w = (Inr x, w') \<longrightarrow> strip (git_out x) = cur w d) \<and>
    (\<forall>r s w x w'. refs w r = Some s \<longrightarrow> h_git H [''rev-parse'', r] repo w = (Inr x, w') \<longrightarrow> git_code x = 0 \<longrightarrow>
      strip (git_out x) = s) \<and>
    (\<forall>p w d w'. h_mkdtemp H p w = (Inr d, w') \<longrightarrow> d \<noteq> repo)"

definition merging ::
    "'w host \<Rightarrow> ('w \<Rightarrow> string \<Rightarrow> string option) \<Rightarrow> ('w \<Rightarrow> string \<Rightarrow> string) \<Rightarrow> (string \<Rightarrow> string \<Rightarrow> bool) \<Rightarrow> bool" where
  "merging H refs cur anc \<longleftrightarrow>
    (\<forall>b d w s h. refs w b = Some s \<longrightarrow> refs w (cur w d) = Some h \<longrightarrow>
      (case h_git H [''merge'', ''--ff-only'', b] d w of
         (Inr x, w') \<Rightarrow> cur w' = cur w \<and>
           (if git_code x \<noteq> 0 then refs w' = refs w
            else if anc h s then refs w' = (refs w)(cur w d \<mapsto> s) else refs w' = refs w \<and> anc s h)
       | (Inl e, w') \<Rightarrow> same_refs refs cur w w'))"

definition rebasing ::
    "'w host \<Rightarrow> ('w \<Rightarrow> string \<Rightarrow> string option) \<Rightarrow> ('w \<Rightarrow> string \<Rightarrow> string) \<Rightarrow> bool" where
  "rebasing H refs cur \<longleftrightarrow>
    (\<forall>b d cwd w. case h_git H [''worktree'', ''add'', ''-q'', d, b] cwd w of
         (Inr x, w') \<Rightarrow> refs w' = refs w \<and> cur w' = (if git_code x = 0 then (cur w)(d := b) else cur w)
       | (Inl e, w') \<Rightarrow> same_refs refs cur w w') \<and>
    (\<forall>b d w. moves refs cur (cur w d) d w (snd (h_git H (rebase_args b) d w))) \<and>
    (\<forall>d w. refs (snd (h_git H [''rebase'', ''--abort''] d w)) = refs w \<and>
      moves refs cur (cur w d) d w (snd (h_git H [''rebase'', ''--abort''] d w))) \<and>
    (\<forall>d cwd w. refs (snd (h_git H [''worktree'', ''remove'', ''--force'', d] cwd w)) = refs w \<and>
      moves refs cur (cur w d) d w (snd (h_git H [''worktree'', ''remove'', ''--force'', d] cwd w)))"

definition git_repo ::
    "'w host \<Rightarrow> string \<Rightarrow> ('w \<Rightarrow> string \<Rightarrow> string option) \<Rightarrow> ('w \<Rightarrow> string \<Rightarrow> string)
      \<Rightarrow> (string \<Rightarrow> string \<Rightarrow> bool) \<Rightarrow> bool" where
  "git_repo H repo refs cur anc \<longleftrightarrow> (\<forall>a. anc a a) \<and> (\<forall>a b c. anc a b \<longrightarrow> anc b c \<longrightarrow> anc a c) \<and>
    reading H repo refs cur \<and> merging H refs cur anc \<and> rebasing H refs cur"

lemma readingD:
  assumes "reading H repo refs cur"
  shows "keeps (same_refs refs cur) (h_git H [''branch'', ''--show-current''] d)"
    "keeps (same_refs refs cur) (h_git H [''status'', ''--porcelain''] d)"
    "keeps (same_refs refs cur) (h_git H [''rev-parse'', r] d)"
    "keeps (same_refs refs cur) (h_exists H p)" "keeps (same_refs refs cur) (h_rmtree H p)"
    "keeps (same_refs refs cur) (h_mkdtemp H p)"
    "h_git H [''branch'', ''--show-current''] d w = (Inr x, w') \<Longrightarrow> strip (git_out x) = cur w d"
    "refs w r = Some s \<Longrightarrow> h_git H [''rev-parse'', r] repo w = (Inr x, w') \<Longrightarrow> git_code x = 0 \<Longrightarrow>
      strip (git_out x) = s"
    "h_mkdtemp H p w = (Inr d, w') \<Longrightarrow> d \<noteq> repo"
  using assms unfolding reading_def by blast+

lemma rebasingD:
  assumes "rebasing H refs cur"
  shows "moves refs cur (cur w d) d w (snd (h_git H (rebase_args r) d w))"
    "refs (snd (h_git H [''rebase'', ''--abort''] d w)) = refs w"
    "moves refs cur (cur w d) d w (snd (h_git H [''rebase'', ''--abort''] d w))"
    "refs (snd (h_git H [''worktree'', ''remove'', ''--force'', d] cwd w)) = refs w"
    "moves refs cur (cur w d) d w (snd (h_git H [''worktree'', ''remove'', ''--force'', d] cwd w))"
  using assms unfolding rebasing_def by simp_all

section \<open>The steps of a local delivery\<close>

text \<open>
  Before the merge nothing has changed; from then on only the branch of the task and, at the end, the
  current branch of the repository do.
\<close>

definition at :: "('w \<Rightarrow> string \<Rightarrow> string option) \<Rightarrow> ('w \<Rightarrow> string \<Rightarrow> string)
    \<Rightarrow> (string \<Rightarrow> string option) \<Rightarrow> (string \<Rightarrow> string) \<Rightarrow> 'w \<Rightarrow> bool" where
  "at refs cur R C w \<longleftrightarrow> refs w = R \<and> cur w = C"

definition near :: "('w \<Rightarrow> string \<Rightarrow> string option) \<Rightarrow> ('w \<Rightarrow> string \<Rightarrow> string)
    \<Rightarrow> string \<Rightarrow> string \<Rightarrow> (string \<Rightarrow> string option) \<Rightarrow> 'w \<Rightarrow> bool" where
  "near refs cur repo b R w \<longleftrightarrow> (\<forall>x. x \<noteq> b \<longrightarrow> refs w x = R x) \<and> refs w b \<noteq> None \<and> cur w repo = ''main''"

lemma at_keeps: "keeps (same_refs refs cur) m \<Longrightarrow> triple (at refs cur R C) m (\<lambda>_. at refs cur R C)"
  by (rule triple_keeps, assumption) (simp add: at_def same_refs_def)

lemma near_keeps: "keeps (same_refs refs cur) m \<Longrightarrow> triple (near refs cur repo b R) m (\<lambda>_. near refs cur repo b R)"
  by (rule triple_keeps, assumption) (simp add: near_def same_refs_def)

lemma keeps_show: "reading H repo refs cur \<Longrightarrow> keeps (same_refs refs cur) (show_branch H d)"
  unfolding show_branch_def by (intro branches.keeps_bind branches.keeps_ret readingD(1))

lemma keeps_rev: "reading H repo refs cur \<Longrightarrow> keeps (same_refs refs cur) (rev_parse H r d)"
  unfolding rev_parse_def by (intro branches.keeps_bind readingD(3)) (auto intro: branches.keeps_ret branches.keeps_raise)

lemma rev_value:
  "reading H repo refs cur \<Longrightarrow> refs w r = Some s \<Longrightarrow> rev_parse H r repo w = (Inr x, w') \<Longrightarrow> x = s"
  unfolding rev_parse_def bind_io_Inr using readingD(8)[of H repo refs cur w r s]
  by (fastforce simp: ret_io_def raise_io_def split: if_splits)

lemma show_value: "reading H repo refs cur \<Longrightarrow> show_branch H d w = (Inr x, w') \<Longrightarrow> x = cur w d"
  unfolding show_branch_def bind_io_Inr using readingD(7)[of H repo refs cur d w]
  by (fastforce simp: ret_io_def)

lemma own_value:
  assumes "reading H repo refs cur" "own_checkout H t b w = (Inr True, w')"
  shows "cur w' (the (t_worktree t)) = b"
proof -
  from assms(2) obtain w1 x where "show_branch H (the (t_worktree t)) w1 = (Inr x, w')" "x = b"
    unfolding own_checkout_def bind_io_Inr
    by (auto simp: ret_io_def bind_io_Inr split: if_splits)
  with show_value[OF assms(1)] keepsD[OF keeps_show[OF assms(1)], of "the (t_worktree t)" w1]
  show ?thesis by (simp add: same_refs_def)
qed

lemma keeps_own: "reading H repo refs cur \<Longrightarrow> keeps (same_refs refs cur) (own_checkout H t b)"
  unfolding own_checkout_def
  by (auto intro!: branches.keeps_bind branches.keeps_ret readingD(4) keeps_show)

definition ready :: "('w \<Rightarrow> string \<Rightarrow> string option) \<Rightarrow> ('w \<Rightarrow> string \<Rightarrow> string)
    \<Rightarrow> string \<Rightarrow> string \<Rightarrow> (string \<Rightarrow> string option) \<Rightarrow> string \<Rightarrow> 'w \<Rightarrow> bool" where
  "ready refs cur repo b R d w \<longleftrightarrow> near refs cur repo b R w \<and> d \<noteq> repo \<and> cur w d = b"

lemma near_moves:
  "near refs cur repo b R w \<Longrightarrow> moves refs cur b d w w' \<Longrightarrow> d \<noteq> repo \<Longrightarrow> near refs cur repo b R w'"
  by (simp add: near_def moves_def)

lemma near_only:
  "near refs cur repo b R w \<Longrightarrow> refs w' = refs w \<Longrightarrow> moves refs cur x d w w' \<Longrightarrow> d \<noteq> repo \<Longrightarrow> near refs cur repo b R w'"
  by (simp add: near_def moves_def)

lemma triple_attach:
  assumes "rebasing H refs cur" "d \<noteq> repo"
  shows "triple (near refs cur repo b R) (h_git H [''worktree'', ''add'', ''-q'', d, b] cwd)
    (\<lambda>r w. near refs cur repo b R w \<and> (\<forall>x. r = Inr x \<longrightarrow> git_code x = 0 \<longrightarrow> ready refs cur repo b R d w))"
  unfolding triple_def
proof (intro allI impI)
  fix w assume near: "near refs cur repo b R w"
  have "case h_git H [''worktree'', ''add'', ''-q'', d, b] cwd w of
      (Inr x, w') \<Rightarrow> refs w' = refs w \<and> cur w' = (if git_code x = 0 then (cur w)(d := b) else cur w)
    | (Inl e, w') \<Rightarrow> same_refs refs cur w w'"
    using assms(1) unfolding rebasing_def by (elim conjE allE)
  then show "case h_git H [''worktree'', ''add'', ''-q'', d, b] cwd w of (r, w) \<Rightarrow> near refs cur repo b R w \<and>
      (\<forall>x. r = Inr x \<longrightarrow> git_code x = 0 \<longrightarrow> ready refs cur repo b R d w)"
    using near assms(2) by (auto simp: near_def ready_def same_refs_def split: prod.splits sum.splits)
qed

lemma checkout_ready:
  assumes git: "reading H repo refs cur" "rebasing H refs cur" and t: "b \<noteq> ''main''" "t_repo t = repo"
  shows "triple (near refs cur repo b R) (rebase_checkout H t b)
    (\<lambda>r w. case r of Inr co \<Rightarrow> ready refs cur repo b R (fst co) w | Inl e \<Rightarrow> near refs cur repo b R w)"
    (is "triple ?N _ ?Q")
proof -
  have own: "triple ?N (own_checkout H t b)
      (\<lambda>r w. ?N w \<and> (r = Inr True \<longrightarrow> ready refs cur repo b R (the (t_worktree t)) w))"
    unfolding triple_def
  proof (intro allI impI)
    fix w assume N: "?N w"
    obtain r w' where run: "own_checkout H t b w = (r, w')" by fastforce
    have "?N w'" using tripleD[OF near_keeps[OF keeps_own[OF git(1)]] N run] .
    moreover have "cur w' (the (t_worktree t)) = b" if "r = Inr True"
      using own_value[OF git(1)] run that by blast
    ultimately show "case own_checkout H t b w of (r, w) \<Rightarrow>
        ?N w \<and> (r = Inr True \<longrightarrow> ready refs cur repo b R (the (t_worktree t)) w)"
      using run t(1) by (auto simp: ready_def near_def)
  qed
  have temp: "triple ?N (h_mkdtemp H p) (\<lambda>r w. ?N w \<and> (\<forall>d. r = Inr d \<longrightarrow> d \<noteq> repo))" for p
    by (rule triple_gives[OF near_keeps[OF readingD(6)[OF git(1)]]])
      (unfold gives_def, blast dest: readingD(9)[OF git(1)])
  have tidy_up: "triple ?N (then_io (h_rmtree H d) (raise_io e)) ?Q" for d e
    by (rule triple_then[OF near_keeps[OF readingD(5)[OF git(1)]]]) (simp_all add: triple_raise)
  have add: "triple ?N
      (bind_io (h_git H [''worktree'', ''add'', ''-q'', d, b] (t_repo t)) (\<lambda>r.
        if git_code r \<noteq> 0 then then_io (h_rmtree H d) (raise_io (DeliveryError (git_err r))) else ret_io (d, True))) ?Q"
    if d: "d \<noteq> repo" for d
    by (rule triple_bind[OF triple_attach[OF git(2) d]], rule triple_if)
      (rule triple_pre[OF tidy_up], simp, rule triple_ret, simp_all)
  show ?thesis unfolding rebase_checkout_def
  proof (rule triple_bind[OF own], rule triple_if)
    fix x assume "\<not> x"
    show "triple (\<lambda>w. ?N w \<and> (Inr x = (Inr True :: exc + bool) \<longrightarrow> ready refs cur repo b R (the (t_worktree t)) w))
      (bind_io (h_mkdtemp H ''orch_delivery_'') (\<lambda>dir.
        bind_io (h_git H [''worktree'', ''add'', ''-q'', dir, b] (t_repo t)) (\<lambda>r.
          if git_code r \<noteq> 0 then then_io (h_rmtree H dir) (raise_io (DeliveryError (git_err r)))
          else ret_io (dir, True)))) ?Q"
    proof (rule triple_pre[OF triple_bind[OF temp]])
      fix d
      show "triple (\<lambda>w. ?N w \<and> (\<forall>da. Inr d = (Inr da :: exc + string) \<longrightarrow> da \<noteq> repo))
        (bind_io (h_git H [''worktree'', ''add'', ''-q'', d, b] (t_repo t)) (\<lambda>r.
          if git_code r \<noteq> 0 then then_io (h_rmtree H d) (raise_io (DeliveryError (git_err r)))
          else ret_io (d, True))) ?Q"
        using add[of d] by (cases "d = repo") (simp_all add: triple_def)
    qed simp_all
  qed (auto intro: triple_ret)
qed

lemma drop_near:
  assumes git: "reading H repo refs cur" "rebasing H refs cur" and d: "fst co \<noteq> repo"
  shows "triple (near refs cur repo b R) (drop_checkout H t co) (\<lambda>_. near refs cur repo b R)"
proof -
  have remove: "triple (near refs cur repo b R) (h_git H [''worktree'', ''remove'', ''--force'', fst co] cwd)
      (\<lambda>_. near refs cur repo b R)" for cwd
    unfolding triple_def case_prod_beta using near_only[OF _ rebasingD(4,5)[OF git(2)] d] by blast
  show ?thesis unfolding drop_checkout_def when_io_def
    by (intro triple_if triple_bind[OF remove] near_keeps readingD(5)[OF git(1)] triple_ret)
qed

lemma rebase_near:
  assumes git: "reading H repo refs cur" "rebasing H refs cur" and t: "b \<noteq> ''main''" "t_repo t = repo"
  shows "triple (near refs cur repo b R) (rebase_branch H t b e) (\<lambda>_. near refs cur repo b R)"
    (is "triple ?N _ _")
proof -
  have rebase: "triple (ready refs cur repo b R d) (h_git H (rebase_args onto) d) (\<lambda>_. ?N)" for d onto
    unfolding triple_def case_prod_beta ready_def
    using near_moves rebasingD(1)[OF git(2)] by metis
  have abort: "triple ?N (h_git H [''rebase'', ''--abort''] d) (\<lambda>_. ?N)" if "d \<noteq> repo" for d
    unfolding triple_def case_prod_beta using near_only[OF _ rebasingD(2,3)[OF git(2)] that] by blast
  have after: "triple (ready refs cur repo b R (fst co))
      (bind_io (h_git H (rebase_args onto) (fst co)) (\<lambda>r.
        if git_code r \<noteq> 0 then
          bind_io (h_git H [''rebase'', ''--abort''] (fst co)) (\<lambda>_.
          then_io (drop_checkout H t co)
          (raise_io (DeliveryError (''rebase_conflict: '' @ git_err r @ [CHR 0x0A] @ ''original: '' @ e))))
        else drop_checkout H t co)) (\<lambda>_. ?N)" for co onto
  proof (cases "fst co = repo")
    case False
    note drop = drop_near[OF git False]
    show ?thesis
      by (intro triple_bind[OF rebase] triple_if triple_bind[OF abort[OF False]] triple_then[OF drop] drop triple_raise)
  qed (simp add: triple_def ready_def)
  show ?thesis unfolding rebase_branch_def
    by (rule triple_bind[OF near_keeps[OF readingD(3)[OF git(1)]]], rule triple_bind[OF checkout_ready[OF git t]])
      (simp_all add: after)
qed

text \<open>The current branch has been moved forward to the branch of the task, at commit \<open>s\<close>.\<close>

definition merged :: "('w \<Rightarrow> string \<Rightarrow> string option) \<Rightarrow> (string \<Rightarrow> string \<Rightarrow> bool)
    \<Rightarrow> string \<Rightarrow> (string \<Rightarrow> string option) \<Rightarrow> string \<Rightarrow> string \<Rightarrow> string \<Rightarrow> 'w \<Rightarrow> bool" where
  "merged refs anc b R m s h w \<longleftrightarrow> refs w b = Some s \<and> refs w ''main'' = Some h \<and> anc m h \<and> anc s h \<and>
    (\<forall>x. x \<noteq> ''main'' \<longrightarrow> x \<noteq> b \<longrightarrow> refs w x = R x)"

lemma ff_merged:
  assumes git: "git_repo H repo refs cur anc" and t: "b \<noteq> ''main''" "t_repo t = repo" and R: "R ''main'' = Some m"
  shows "triple (\<lambda>w. near refs cur repo b R w \<and> refs w b = Some s) (ff_merge H t b)
    (\<lambda>r w. case r of
       Inr x \<Rightarrow> if git_code x = 0 then \<exists>h. merged refs anc b R m s h w else near refs cur repo b R w
     | Inl e \<Rightarrow> near refs cur repo b R w)"
  unfolding triple_def
proof (intro allI impI, elim conjE)
  fix w assume N: "near refs cur repo b R w" and s: "refs w b = Some s"
  have main: "refs w (cur w repo) = Some m" and cur: "cur w repo = ''main''" using N R t(1) by (simp_all add: near_def)
  have anc: "anc a a" for a using git by (simp add: git_repo_def)
  have "merging H refs cur anc" using git by (simp add: git_repo_def)
  then have "case h_git H [''merge'', ''--ff-only'', b] repo w of
         (Inr x, w') \<Rightarrow> cur w' = cur w \<and>
           (if git_code x \<noteq> 0 then refs w' = refs w
            else if anc m s then refs w' = (refs w)(cur w repo \<mapsto> s) else refs w' = refs w \<and> anc s m)
       | (Inl e, w') \<Rightarrow> same_refs refs cur w w'"
    by (rule merging_def[of H refs cur anc, THEN iffD1, rule_format, OF _ s main])
  then show "case ff_merge H t b w of (r, w) \<Rightarrow> (case r of
       Inr x \<Rightarrow> if git_code x = 0 then \<exists>h. merged refs anc b R m s h w else near refs cur repo b R w
     | Inl e \<Rightarrow> near refs cur repo b R w)"
    using N s main cur anc t by (auto simp: ff_merge_def near_def merged_def same_refs_def split: prod.splits sum.splits if_splits)
qed

lemma rev_triple:
  assumes "reading H repo refs cur" "\<And>w w'. P w \<Longrightarrow> same_refs refs cur w w' \<Longrightarrow> P w'" "\<And>w. P w \<Longrightarrow> refs w x = Some s"
  shows "triple P (rev_parse H x repo) (\<lambda>r w. P w \<and> (\<forall>v. r = Inr v \<longrightarrow> v = s))"
  by (rule triple_value[OF keeps_rev[OF assms(1)] assms(2)]) (simp_all add: rev_value[OF assms(1) assms(3)])

text \<open>Both branches of the repository, whatever the outcome.\<close>

definition forward :: "('w \<Rightarrow> string \<Rightarrow> string option) \<Rightarrow> (string \<Rightarrow> string \<Rightarrow> bool)
    \<Rightarrow> string \<Rightarrow> (string \<Rightarrow> string option) \<Rightarrow> string \<Rightarrow> exc + delivery_kind \<times> payload \<Rightarrow> 'w \<Rightarrow> bool" where
  "forward refs anc b R m r w \<longleftrightarrow>
    (\<exists>h. refs w ''main'' = Some h \<and> anc m h \<and> (\<forall>x. x \<noteq> ''main'' \<longrightarrow> x \<noteq> b \<longrightarrow> refs w x = R x) \<and>
      (case r of
         Inr (k, p) \<Rightarrow> \<exists>s. refs w b = Some s \<and> anc s h \<and> k = Merged_local \<and> map_of p ''before_sha'' = Some (JStr m) \<and>
           map_of p ''after_sha'' = Some (JStr h) \<and> map_of p ''commit_sha'' = Some (JStr s)
       | Inl e \<Rightarrow> True))"

lemma forward_local:
  fixes H :: "'w host"
  assumes git: "git_repo H repo refs cur anc" and t: "delivery_branch t \<noteq> ''main''" "t_repo t = repo"
    and R: "R ''main'' = Some m" "R (delivery_branch t) = Some c"
  shows "triple (at refs cur R C) (deliver_local H t) (forward refs anc (delivery_branch t) R m)"
proof -
  let ?b = "delivery_branch t"
  let ?F = "forward refs anc ?b R m"
  have read: "reading H repo refs cur" and rebase: "rebasing H refs cur" and anc: "anc m m"
    using git by (simp_all add: git_repo_def)
  have stay: "?F (Inl e) w" if "near refs cur repo ?b R w" for e w
    using that R t(1) anc by (simp add: forward_def near_def)
  have moved: "?F (Inl e) w" if "merged refs anc ?b R m s h w" for e w s h
    using that by (auto simp: forward_def merged_def)
  have still: "?F (Inl e) w" if "at refs cur R C w" for e w
    using that R anc by (simp add: forward_def at_def)
  note sha = rev_triple[OF read] and merge = ff_merged[where R = R and m = m, OF git t R(1)]
  let ?A = "at refs cur R C"
  have fin: "triple (merged refs anc ?b R m s h)
      (bind_io (rev_parse H ''main'' repo) (\<lambda>after. ret_io (Merged_local, [(''branch'', JStr ?b), (''before_sha'', JStr m),
        (''after_sha'', JStr after), (''commit_sha'', JStr s)]))) ?F" for s h
    by (rule triple_bind[OF sha[of _ "''main''" h]])
      (auto simp: merged_def same_refs_def forward_def intro!: triple_ret moved)
  have again: "triple (merged refs anc ?b R m s h)
      (bind_io (rev_parse H ''main'' repo) (\<lambda>after. bind_io (rev_parse H ?b repo) (\<lambda>new.
        ret_io (Merged_local, [(''branch'', JStr ?b), (''before_sha'', JStr m), (''after_sha'', JStr after),
          (''commit_sha'', JStr new), (''rebased'', JBool True), (''original_commit_sha'', JStr o')])))) ?F" for s h o'
    by (rule triple_bind[OF sha[of _ "''main''" h]], (auto simp: merged_def same_refs_def intro: moved)[2],
        rule triple_bind[OF sha[of _ ?b s]])
      (auto simp: merged_def same_refs_def forward_def intro!: triple_ret moved)
  have second: "triple (near refs cur repo ?b R)
      (bind_io (ff_merge H t ?b) (\<lambda>again. if git_code again \<noteq> 0 then raise_io (DeliveryError (git_err again))
        else bind_io (rev_parse H ''main'' repo) (\<lambda>after. bind_io (rev_parse H ?b repo) (\<lambda>new.
          ret_io (Merged_local, [(''branch'', JStr ?b), (''before_sha'', JStr m), (''after_sha'', JStr after),
            (''commit_sha'', JStr new), (''rebased'', JBool True), (''original_commit_sha'', JStr o')]))))) ?F" for o'
  proof (rule triple_pre[OF triple_ex])
    fix s
    show "triple (\<lambda>w. near refs cur repo ?b R w \<and> refs w ?b = Some s)
      (bind_io (ff_merge H t ?b) (\<lambda>again. if git_code again \<noteq> 0 then raise_io (DeliveryError (git_err again))
        else bind_io (rev_parse H ''main'' repo) (\<lambda>after. bind_io (rev_parse H ?b repo) (\<lambda>new.
          ret_io (Merged_local, [(''branch'', JStr ?b), (''before_sha'', JStr m), (''after_sha'', JStr after),
            (''commit_sha'', JStr new), (''rebased'', JBool True), (''original_commit_sha'', JStr o')]))))) ?F"
      by (rule triple_bind[OF merge], rule triple_if)
        (auto intro!: triple_raise triple_ex again stay)
  qed (auto simp: near_def)
  have first: "triple (\<lambda>w. near refs cur repo ?b R w \<and> refs w ?b = Some c)
      (bind_io (ff_merge H t ?b) (\<lambda>mr. if git_code mr = 0 then
          bind_io (rev_parse H ''main'' repo) (\<lambda>after. ret_io (Merged_local, [(''branch'', JStr ?b), (''before_sha'', JStr m),
            (''after_sha'', JStr after), (''commit_sha'', JStr c)]))
        else then_io (rebase_branch H t ?b (git_err mr))
          (bind_io (ff_merge H t ?b) (\<lambda>again. if git_code again \<noteq> 0 then raise_io (DeliveryError (git_err again))
            else bind_io (rev_parse H ''main'' repo) (\<lambda>after. bind_io (rev_parse H ?b repo) (\<lambda>new.
              ret_io (Merged_local, [(''branch'', JStr ?b), (''before_sha'', JStr m), (''after_sha'', JStr after),
                (''commit_sha'', JStr new), (''rebased'', JBool True), (''original_commit_sha'', JStr c)]))))))) ?F"
    by (rule triple_bind[OF merge], rule triple_if)
      (auto intro!: triple_ex fin stay triple_then[OF rebase_near[OF read rebase t]] second)
  have shown: "triple ?A (show_branch H repo) (\<lambda>r w. ?A w \<and> (\<forall>x. r = Inr x \<longrightarrow> x = C repo))"
    by (rule triple_value[OF keeps_show[OF read]]) (auto simp: at_def same_refs_def dest: show_value[OF read])
  have status: "triple ?A (h_git H [''status'', ''--porcelain''] repo) (\<lambda>_. ?A)"
    by (rule at_keeps[OF readingD(2)[OF read]])
  have read_sha: "triple ?A (rev_parse H x repo) (\<lambda>r w. ?A w \<and> (\<forall>v. r = Inr v \<longrightarrow> v = s))" if "R x = Some s" for x s
    by (rule sha) (use that in \<open>simp_all add: at_def same_refs_def\<close>)
  show ?thesis unfolding deliver_local_def Let_def t(2)
    by (rule triple_bind_value[OF shown], rule triple_if, rule triple_raise, erule still,
        rule triple_bind[OF status], rule triple_if, rule triple_raise, erule still,
        rule triple_bind_value[OF read_sha[OF R(1)]], rule triple_bind_value[OF read_sha[OF R(2)]],
        rule triple_pre[OF first], simp add: at_def near_def R, (erule still)+)
qed

section \<open>Local delivery only moves main forward\<close>

text \<open>
  C35. Whatever a local delivery returns or raises, the main branch is a descendant of what it was and
  no other branch than the delivered one has changed. A delivery that reports a merge names the old and
  the new commit of main and the commit of the branch, which main now contains.
\<close>

theorem local_delivery_forward:
  assumes "git_repo H (t_repo t) refs cur anc" "delivery_branch t \<noteq> ''main''"
    and "refs w ''main'' = Some m" "refs w (delivery_branch t) = Some c" "deliver_local H t w = (r, w')"
  shows "\<exists>h. refs w' ''main'' = Some h \<and> anc m h \<and>
    (\<forall>x. x \<noteq> ''main'' \<longrightarrow> x \<noteq> delivery_branch t \<longrightarrow> refs w' x = refs w x) \<and>
    (case r of
       Inr (k, p) \<Rightarrow> \<exists>s. refs w' (delivery_branch t) = Some s \<and> anc s h \<and> k = Merged_local \<and>
         map_of p ''before_sha'' = Some (JStr m) \<and> map_of p ''after_sha'' = Some (JStr h) \<and>
         map_of p ''commit_sha'' = Some (JStr s)
     | Inl e \<Rightarrow> True)"
  using tripleD[OF forward_local[where R = "refs w" and C = "cur w", OF assms(1,2) refl assms(3,4)] _ assms(5)]
  by (simp add: at_def forward_def)

section \<open>A small git\<close>

text \<open>
  A commit is named by its history, so that ancestors are prefixes; a rebase puts one commit on top of
  the new base. Names with blanks at their ends are refused.
\<close>

record bw =
  bw_refs :: "string \<Rightarrow> string option"
  bw_cur :: "string \<Rightarrow> string"

definition bw_on :: "bw \<Rightarrow> string \<Rightarrow> string" where
  "bw_on w d = strip (bw_cur w d)"

definition branch_git :: "string list \<Rightarrow> string \<Rightarrow> (bw, int \<times> string \<times> string) io" where
  "branch_git args cwd w =
    (if args = [''branch'', ''--show-current''] then (Inr (0, bw_cur w cwd, []), w)
     else if take 1 args = [''rev-parse''] then
       (case bw_refs w (last args) of
          None \<Rightarrow> (Inr (128, [], ''unknown''), w)
        | Some s \<Rightarrow> (Inr (if strip s = s then 0 else 128, s, []), w))
     else if take 2 args = [''merge'', ''--ff-only''] then
       (case (bw_refs w (last args), bw_refs w (bw_on w cwd)) of
          (Some s, Some h) \<Rightarrow>
            if starts_with h s then (Inr (0, [], []), w\<lparr>bw_refs := (bw_refs w)(bw_on w cwd \<mapsto> s)\<rparr>)
            else (Inr (if starts_with s h then 0 else 1, [], ''not possible''), w)
        | _ \<Rightarrow> (Inr (1, [], ''unknown''), w))
     else if take 2 args = [''worktree'', ''add''] then
       (if strip (last args) = last args
        then (Inr (0, [], []), w\<lparr>bw_cur := (bw_cur w)(last (butlast args) := last args)\<rparr>)
        else (Inr (128, [], ''invalid''), w))
     else if take 5 args = take 5 (rebase_args []) then
       (Inr (0, [], []), w\<lparr>bw_refs := (bw_refs w)(bw_on w cwd \<mapsto> last args @ ''r'')\<rparr>)
     else (Inr (0, [], []), w))"

definition branch_host :: "bw host" where
  "branch_host = \<lparr>h_git = branch_git, h_gh = (\<lambda>args cwd. ret_io (0, [], [])), h_popen = (\<lambda>c d. ret_io 1),
    h_communicate = (\<lambda>p t. ret_io None), h_killpg = (\<lambda>p. ret_io True), h_files = (\<lambda>w. mini_files),
    h_resolve = ret_io, h_is_file = (\<lambda>p. ret_io False), h_exists = (\<lambda>p. ret_io True),
    h_read = (\<lambda>p. ret_io []), h_write = (\<lambda>p t. ret_io ()), h_mkdirs = (\<lambda>p. ret_io ()),
    h_mkdtemp = (\<lambda>p. ret_io ''tmp''), h_rmtree = (\<lambda>p. ret_io ()),
    h_rmdir = (\<lambda>p. ret_io ()), h_pause = (\<lambda>t. ret_io ()), h_mono = ret_io 0, h_time_ms = ret_io 5,
    h_data_dir = ''data'', h_python = ''python'', h_json_error = (\<lambda>s. [])\<rparr>"

lemma prefix_commit: "starts_with a b \<longleftrightarrow> (\<exists>c. b = a @ c)"
  unfolding starts_with_def by (metis append_eq_conv_conj append_take_drop_id)

lemma branch_reading: "reading branch_host ''repo'' bw_refs bw_on"
  unfolding reading_def keeps_def same_refs_def
  by (auto simp: branch_host_def branch_git_def bw_on_def rebase_args_def ret_io_def split: option.splits if_splits)

lemma branch_merging: "merging branch_host bw_refs bw_on starts_with"
  unfolding merging_def same_refs_def
  by (auto simp: branch_host_def branch_git_def bw_on_def fun_eq_iff)

lemma branch_rebasing: "rebasing branch_host bw_refs bw_on"
  unfolding rebasing_def moves_def same_refs_def
  by (auto simp: branch_host_def branch_git_def bw_on_def rebase_args_def fun_eq_iff)

lemma branch_repo: "git_repo branch_host ''repo'' bw_refs bw_on starts_with"
  unfolding git_repo_def using branch_reading branch_merging branch_rebasing by (auto simp: prefix_commit)

definition mini_task :: task_row where
  "mini_task = \<lparr>t_id = ''t'', t_title = ''T'', t_brief = ''B'', t_repo = ''repo'', t_delivery_mode = ''local'',
    t_verify_cmd = None, t_output_artifacts = None, t_output_schema = None, t_input_contract = None,
    t_node_verify_cmd = None, t_repair_policy = None, t_state = Delivering, t_retries = 0, t_max_retries = 1,
    t_worktree = None, t_session_id = None, t_base_sha = None, t_run_id = None, t_current_attempt_id = None,
    t_candidate_sha = Some ''ac'', t_candidate_branch = Some ''work'', t_created_at = 0, t_updated_at = 0\<rparr>"

text \<open>Main has moved from commit \<open>a\<close> to \<open>ab\<close> since the task started from \<open>a\<close> and ended at \<open>ac\<close>.\<close>

definition moved_main :: bw where
  "moved_main = \<lparr>bw_refs = [''main'' \<mapsto> ''ab'', ''work'' \<mapsto> ''ac''], bw_cur = (\<lambda>d. if d = ''repo'' then ''main'' else [])\<rparr>"

lemmas delivery_defs = io_defs Let_def deliver_local_def delivery_branch_def show_branch_def rev_parse_def ff_merge_def
  rebase_branch_def rebase_checkout_def own_checkout_def drop_checkout_def rebase_args_def given_def
  branch_host_def branch_git_def bw_on_def moved_main_def mini_task_def strip_def lstrip_def blank_def py_space_def
  starts_with_def

lemma delivery_rebases:
  "case deliver_local branch_host mini_task moved_main of
     (Inr (k, p), w) \<Rightarrow> map_of p ''rebased'' = Some (JBool True) \<and> bw_refs w ''main'' = Some ''abr'' \<and>
       map_of p ''commit_sha'' = Some (JStr ''abr'') \<and> map_of p ''original_commit_sha'' = Some (JStr ''ac'')
   | (Inl e, w) \<Rightarrow> False"
  by (simp add: delivery_defs)

theorem local_delivery_forward_witness:
  "\<exists>r w. deliver_local branch_host mini_task moved_main = (r, w) \<and>
    (\<exists>h. bw_refs w ''main'' = Some h \<and> starts_with ''ab'' h) \<and> bw_refs w ''other'' = None"
proof -
  obtain r w where run: "deliver_local branch_host mini_task moved_main = (r, w)" by fastforce
  have repo: "git_repo branch_host (t_repo mini_task) bw_refs bw_on starts_with"
    using branch_repo by (simp add: mini_task_def)
  have work: "delivery_branch mini_task = ''work''" by (simp add: mini_task_def delivery_branch_def given_def)
  have refs: "bw_refs moved_main = [''main'' \<mapsto> ''ab'', ''work'' \<mapsto> ''ac'']" by (simp add: moved_main_def)
  obtain h where "bw_refs w ''main'' = Some h" "starts_with ''ab'' h"
    and other: "\<And>x. x \<noteq> ''main'' \<Longrightarrow> x \<noteq> ''work'' \<Longrightarrow> bw_refs w x = bw_refs moved_main x"
    using local_delivery_forward[OF repo _ _ _ run, of "''ab''" "''ac''", unfolded work] by (auto simp: refs)
  moreover have "bw_refs w ''other'' = None" using other[of "''other''"] by (simp add: refs)
  ultimately show ?thesis using run by blast
qed

text \<open>
  What reaches main after a rebase is a commit that no verification has seen: the delivery reports it
  beside the verified one.
\<close>

lemma delivers_unverified_commit:
  "case deliver_local branch_host mini_task moved_main of
     (Inr (k, p), w) \<Rightarrow> t_candidate_sha mini_task = Some ''ac'' \<and> \<not> starts_with ''ac'' (the (bw_refs w ''main''))
   | (Inl e, w) \<Rightarrow> False"
  by (simp add: delivery_defs)

end
