(* ===== verification/Divergences.thy ===== *)
theory Divergences
  imports Delivery_Properties
begin

text \<open>
  Small runs that show where the code does not do what its documents or its other parts say.
\<close>

text \<open>A path that names the repository itself passes the check that is meant to reject it.\<close>

lemma preflight_accepts_root:
  "pf_path ''n'' ''inputs'' False (JStr ''./.'') = Inr ''.''"
  "case pf_path ''n'' ''inputs'' False (JStr ''.'') of Inl e \<Rightarrow> True | Inr p \<Rightarrow> False"
  by code_simp+

text \<open>A transcript budget of zero keeps the whole transcript.\<close>

definition spoken :: event_row where
  "spoken = \<lparr>e_seq = 1, e_ts = 0, e_task_id = Some ''t'', e_source = Src_worker, e_type = ''worker.messaged'',
    e_payload = [(''text'', JStr ''abc'')], e_session_id = None, e_tokens_in = None, e_tokens_out = None,
    e_cost_usd = None\<rparr>"

lemma zero_budget_keeps_all:
  "transcript_tail [spoken] 1 = Inr ''c''" "transcript_tail [spoken] 0 = Inr ''abc''"
  by code_simp+

text \<open>A malformed list of output artifacts is reported, a malformed output schema raises.\<close>

lemma malformed_schema_raises:
  "case validate_output_artifacts mini_files (mini_task\<lparr>t_output_artifacts := Some ''{''\<rparr>) of
     Inr (ok, p) \<Rightarrow> \<not> ok \<and> jget ''reason'' p = JStr ''malformed_output_artifacts'' | Inl e \<Rightarrow> False"
  "case validate_output_artifacts mini_files (mini_task\<lparr>t_output_schema := Some ''{''\<rparr>) of
     Inl (ValueError m) \<Rightarrow> True | _ \<Rightarrow> False"
  by code_simp+

text \<open>A declaration that was given as JSON text is stored as the text of a JSON string and names another path.\<close>

lemma text_declaration_renamed:
  "artifact_specs (JStr ''[\"a\"]'') = Inr [[(''path'', JStr ''a''), (''required'', JBool True)]]"
  "artifact_specs (jopt (dumps_col (JStr ''[\"a\"]''))) = Inr [[(''path'', JStr ''[\"a\"]''), (''required'', JBool True)]]"
  by code_simp+

text \<open>The ladder appends the task to an artifact directory that the gate uses as it is.\<close>

lemma artifact_dirs_differ:
  "gate_artifact_dir mini_host mini_request = ''art''" "ladder_dir mini_request = ''art/t''"
  by (simp_all add: gate_defs)

end
