(* ===== verification/Json_Laws.thy ===== *)
theory Json_Laws
  imports Json
begin

text \<open>
  What is printed as JSON text is read back: the printer with any blanks after its separators, the
  values it reads back, and the round trip.
\<close>

section \<open>Strings\<close>

lemma code_char: "n < 256 \<Longrightarrow> of_char (char_of n :: char) = (n :: nat)"
  by (simp only: of_char_of mod_less)

lemma hex_digits: "n < 16 \<Longrightarrow> hex_val (hex_digit n) = Some n"
  by (cases "n < 10") (simp_all add: hex_val_def hex_digit_def Let_def code_char)

lemma char_below: "(of_char (c :: char) :: nat) < 256"
  by (cases c) (simp add: of_char_def)

lemma parse_escape:
  "parse_string (Suc k) (esc_char c @ s) = map_option (\<lambda>(t, q). (c # t, q)) (parse_string k s)"
proof -
  let ?n = "of_char c :: nat"
  have small: "?n div 16 < 16" "?n mod 16 < 16" using char_below[of c] by (simp_all add: less_mult_imp_div_less)
  have chr: "char_of ?n = c" by simp
  have hex: "hex4 [CHR ''0'', CHR ''0'', hex_digit (?n div 16), hex_digit (?n mod 16)] = Some c"
    using char_below[of c] hex_digits[OF small(1)] hex_digits[OF small(2)]
    by (simp add: hex4_def Let_def hex_val_def[of "CHR ''0''"] chr)
  consider "?n = 34" | "?n = 92" | "?n = 10" | "?n = 13" | "?n = 9" | "?n = 12" | "?n = 8"
    | "32 \<le> ?n" "?n \<le> 126" "?n \<noteq> 34" "?n \<noteq> 92" | "?n \<notin> {34, 92, 10, 13, 9, 12, 8}" "\<not> (32 \<le> ?n \<and> ?n \<le> 126)"
    by auto
  then show ?thesis
  proof cases
    case 9
    then show ?thesis using hex by (simp add: esc_char_def Let_def)
  qed (use chr in \<open>auto simp: esc_char_def Let_def unescape_def\<close>)
qed

lemma parse_quoted:
  "length s < k \<Longrightarrow> parse_string k (concat (map esc_char s) @ CHR 0x22 # r) = Some (s, r)"
proof (induction s arbitrary: k)
  case Nil
  then show ?case by (cases k) simp_all
next
  case (Cons c s)
  then obtain k' where "k = Suc k'" "length s < k'" by (cases k) auto
  then show ?case using Cons.IH[of k'] parse_escape by simp
qed

section \<open>Numbers\<close>

lemma digit_char: "of_char (char_of (48 + n mod 10) :: char) = 48 + (n :: nat) mod 10"
proof -
  have "n mod 10 < 10" by simp
  then have "48 + n mod 10 < 256" by linarith
  then show ?thesis by (rule code_char)
qed

lemma digit_is_digit: "is_digit (char_of (48 + (n :: nat) mod 10))"
proof -
  have "n mod 10 < 10" by simp
  then have "n mod 10 \<le> 9" by linarith
  then show ?thesis by (simp only: is_digit_def digit_char) simp
qed

lemma digit_val_char: "digit_val (char_of (48 + (n :: nat) mod 10)) = n mod 10"
  by (simp only: digit_val_def digit_char diff_add_inverse)

lemma digits_append: "nat_of_digits (xs @ [c]) = 10 * nat_of_digits xs + digit_val c"
  by (simp add: nat_of_digits_def)

lemma rev_digits_read:
  "n < 10 ^ k \<Longrightarrow> 0 < k \<Longrightarrow> list_all is_digit (rev_digits k n) \<and> nat_of_digits (rev (rev_digits k n)) = n \<and>
    rev_digits k n \<noteq> [] \<and> (last (rev_digits k n) = CHR ''0'' \<longrightarrow> n = 0)"
proof (induction k arbitrary: n)
  case (Suc k)
  show ?case
  proof (cases "n < 10")
    case True
    have zero: "char_of (48 + n) = CHR ''0'' \<Longrightarrow> n = 0"
    proof -
      assume "char_of (48 + n) = CHR ''0''"
      then have "of_char (char_of (48 + n) :: char) = (48 :: nat)" by simp
      then show "n = 0" using True code_char[of "48 + n"] by simp
    qed
    show ?thesis using True zero digit_is_digit[of n] digit_val_char[of n]
      by (simp add: nat_of_digits_def)
  next
    case False
    then have "n div 10 < 10 ^ k" "0 < k" "n div 10 \<noteq> 0"
      using Suc.prems by (auto simp: less_mult_imp_div_less mult.commute intro: Suc_leI gr0I)
    then show ?thesis using Suc.IH[of "n div 10"] False digit_is_digit[of n] digit_val_char[of n]
      by (simp add: digits_append)
  qed
qed simp

lemma nat_text_read:
  "list_all is_digit (nat_text n)" "nat_of_digits (nat_text n) = n" "nat_text n \<noteq> []"
  "hd (nat_text n) = CHR ''0'' \<Longrightarrow> n = 0"
proof -
  have small: "n < 10 ^ Suc n" by (induction n) auto
  note d = rev_digits_read[OF small]
  show "list_all is_digit (nat_text n)" "nat_of_digits (nat_text n) = n" "nat_text n \<noteq> []"
    "hd (nat_text n) = CHR ''0'' \<Longrightarrow> n = 0"
    unfolding nat_text_def using d by (simp_all add: hd_rev del: rev_digits.simps)
qed

text \<open>What may follow a number.\<close>

definition delim :: "string \<Rightarrow> bool" where
  "delim r \<longleftrightarrow> r = [] \<or> \<not> is_digit (hd r) \<and> of_char (hd r) \<notin> {46, 69, 101 :: nat}"

lemma take_digits: "list_all is_digit ds \<Longrightarrow> delim r \<Longrightarrow> takeWhile is_digit (ds @ r) = ds"
  by (induction ds) (cases r; auto simp: delim_def)+

lemma digits_tail: "delim r \<Longrightarrow> takeWhile is_digit r = [] \<and> dropWhile is_digit r = r"
  by (cases r) (auto simp: delim_def)

lemma no_tail: "delim r \<Longrightarrow> take_frac r = ([], r) \<and> take_exp r = ([], r)"
  by (cases r) (auto simp: delim_def take_frac_def take_exp_def)

lemma while_digits:
  "delim r \<Longrightarrow> takeWhile is_digit (xs @ r) = takeWhile is_digit xs"
  "delim r \<Longrightarrow> dropWhile is_digit (xs @ r) = dropWhile is_digit xs @ r"
  by (induction xs) (cases r; auto simp: delim_def)+

text \<open>The digits before the fraction: a leading zero stands alone.\<close>

definition lead_digits :: "string \<Rightarrow> string" where
  "lead_digits body = (case body of
      c # r \<Rightarrow> if of_char c = (48 :: nat) then [c] else takeWhile is_digit body | [] \<Rightarrow> [])"

lemma parse_number_alt:
  "parse_number s =
    (let neg = (s \<noteq> [] \<and> of_char (hd s) = (45 :: nat)); body = (if neg then tl s else s); ds = lead_digits body in
     if ds = [] then None
     else (case take_frac (drop (length ds) body) of (fr, r1) \<Rightarrow> (case take_exp r1 of (ex, r2) \<Rightarrow>
       if fr = [] \<and> ex = [] then Some (JInt (if neg then - int (nat_of_digits ds) else int (nat_of_digits ds)), r2)
       else Some (JFloat ((if neg then ''-'' else []) @ ds @ fr @ ex), r2))))"
  unfolding parse_number_def lead_digits_def by (simp only: Let_def)

lemma lead_more: "delim r \<Longrightarrow> lead_digits s \<noteq> [] \<Longrightarrow> lead_digits (s @ r) = lead_digits s"
  using while_digits(1)[of r s] by (cases s) (auto simp: lead_digits_def)

lemma lead_prefix: "drop (length (lead_digits s)) (s @ r) = drop (length (lead_digits s)) s @ r"
proof -
  have "length (lead_digits s) \<le> length s"
    by (cases s) (auto simp: lead_digits_def length_takeWhile_le le_SucI)
  then show ?thesis by simp
qed

lemma lead_nat: "delim r \<Longrightarrow> lead_digits (nat_text n @ r) = nat_text n"
proof -
  assume r: "delim r"
  obtain c ds where cs: "nat_text n = c # ds" using nat_text_read(3)[of n] by (cases "nat_text n") auto
  show ?thesis
  proof (cases "of_char c = (48 :: nat)")
    case True
    then have "of_char c = (of_char (CHR ''0'') :: nat)" by simp
    then have "c = CHR ''0''" by (simp only: of_char_eq_iff)
    then have "n = 0" using nat_text_read(4)[of n] cs by simp
    then show ?thesis using True cs by (simp add: nat_text_def lead_digits_def)
  qed (use take_digits[OF nat_text_read(1) r, of n] cs in \<open>simp add: lead_digits_def\<close>)
qed

lemma parse_int: "delim r \<Longrightarrow> parse_number (int_text i @ r) = Some (JInt i, r)"
proof -
  assume r: "delim r"
  have head: "nat_text n @ r \<noteq> []" "of_char (hd (nat_text n @ r)) \<noteq> (45 :: nat)" for n
    using nat_text_read(1,3)[of n] by (cases "nat_text n"; simp add: is_digit_def)+
  show ?thesis
    using head nat_text_read(2,3) no_tail[OF r] lead_nat[OF r]
    by (simp add: int_text_def parse_number_alt Let_def)
qed

lemma frac_more: "delim r \<Longrightarrow> take_frac s = (fr, q) \<Longrightarrow> take_frac (s @ r) = (fr, q @ r)"
  by (cases s) (auto simp: take_frac_def while_digits no_tail[unfolded take_frac_def] delim_def split: list.splits if_splits)

lemma all_digits: "s = takeWhile is_digit s \<longleftrightarrow> (\<forall>x \<in> set s. is_digit x)"
  by (metis takeWhile_eq_all_conv)

lemma exp_more: "delim r \<Longrightarrow> take_exp s = (ex, []) \<Longrightarrow> take_exp (s @ r) = (ex, r)"
proof (cases s)
  case (Cons c q)
  assume r: "delim r" and "take_exp s = (ex, [])"
  then have c: "of_char c \<in> {69, 101 :: nat}" and
    d: "takeWhile is_digit (drop (length (takeWhile (\<lambda>x. of_char x \<in> {43, 45 :: nat}) (take 1 q))) q) \<noteq> []"
    and ex: "take_exp s = (ex, [])"
    by (auto simp: take_exp_def Cons Let_def split: if_splits)
  then have "q \<noteq> []" by auto
  then show ?thesis using r c d ex
    by (cases q) (auto simp: take_exp_def Cons Let_def while_digits digits_tail all_digits split: if_splits)
qed (use no_tail in \<open>auto simp: take_exp_def\<close>)

lemma parse_number_more:
  assumes r: "delim r" and s: "parse_number s = Some (v, [])"
  shows "parse_number (s @ r) = Some (v, r)"
proof -
  define neg where "neg = (s \<noteq> [] \<and> of_char (hd s) = (45 :: nat))"
  define body where "body = (if neg then tl s else s)"
  obtain fr r1 where f: "take_frac (drop (length (lead_digits body)) body) = (fr, r1)" by fastforce
  obtain ex r2 where e: "take_exp r1 = (ex, r2)" by fastforce
  note alt = s[unfolded parse_number_alt Let_def, folded neg_def, folded body_def, unfolded f prod.case e]
  have ds: "lead_digits body \<noteq> []" and r2: "r2 = []" using alt by (auto split: if_splits)
  have "s \<noteq> []" using ds by (auto simp: body_def lead_digits_def split: if_splits)
  then have neg': "(s @ r \<noteq> [] \<and> of_char (hd (s @ r)) = (45 :: nat)) = neg"
    and body': "(if neg then tl (s @ r) else s @ r) = body @ r"
    by (simp_all add: neg_def body_def)
  show ?thesis
    unfolding parse_number_alt Let_def neg' body' lead_more[OF r ds] lead_prefix frac_more[OF r f] prod.case
      exp_more[OF r e[unfolded r2]]
    using alt ds r2 by (auto split: if_splits)
qed

section \<open>Values\<close>

text \<open>The printer with the text that separates members and the text after a key.\<close>

fun json_text :: "string \<Rightarrow> string \<Rightarrow> json \<Rightarrow> string" where
  "json_text sep colon JNull = ''null''"
| "json_text sep colon (JBool b) = (if b then ''true'' else ''false'')"
| "json_text sep colon (JInt i) = int_text i"
| "json_text sep colon (JFloat lit) = lit"
| "json_text sep colon (JStr s) = quote_text s"
| "json_text sep colon (JList xs) = ''['' @ join sep (map (json_text sep colon) xs) @ '']''"
| "json_text sep colon (JObj kvs) =
    ''{'' @ join sep (map (\<lambda>(k, v). quote_text k @ colon @ json_text sep colon v) kvs) @ ''}''"

lemma json_dumps_text: "json_dumps j = json_text '', '' '': '' j"
  by (induction j rule: json_dumps.induct) (auto intro!: arg_cong[where f = "join _"])

text \<open>The values that a parser can return: numbers that are literals and keys that differ.\<close>

fun json_ok :: "json \<Rightarrow> bool" where
  "json_ok (JFloat lit) = (parse_number lit = Some (JFloat lit, []))"
| "json_ok (JList xs) = (\<forall>x \<in> set xs. json_ok x)"
| "json_ok (JObj kvs) = (distinct (map fst kvs) \<and> (\<forall>(k, v) \<in> set kvs. json_ok v))"
| "json_ok j = True"

lemma number_head: "parse_number s = Some v \<Longrightarrow> \<exists>c cs. s = c # cs \<and> (is_digit c \<or> of_char c = (45 :: nat))"
  by (cases s) (auto simp: parse_number_alt Let_def lead_digits_def is_digit_def split: if_splits list.splits)

lemma int_head: "\<exists>c cs. int_text i = c # cs \<and> (is_digit c \<or> of_char c = (45 :: nat))"
  using number_head[OF parse_int[of "[]" i]] by (simp add: delim_def)

lemma number_value:
  assumes "s = c # cs" "is_digit c \<or> of_char c = (45 :: nat)" "0 < k"
  shows "parse_value k (s @ r) = parse_number (s @ r)"
proof -
  obtain k' where "k = Suc k'" using assms(3) by (cases k) auto
  moreover have "\<not> starts_with ''null'' (s @ r)" "\<not> starts_with ''true'' (s @ r)" "\<not> starts_with ''false'' (s @ r)"
    using assms(1,2) by (auto simp: starts_with_def is_digit_def)
  moreover have "of_char c \<notin> {34, 91, 123 :: nat}" using assms(2) by (auto simp: is_digit_def)
  ultimately show ?thesis using assms(1) by simp
qed

lemma text_head:
  "json_ok j \<Longrightarrow> \<exists>c cs. json_text sep colon j = c # cs \<and> \<not> is_ws c \<and> of_char c \<notin> {93, 125 :: nat}"
  using int_head number_head
  by (cases j) (fastforce simp: quote_text_def is_ws_def is_digit_def)+

section \<open>The round trip\<close>

text \<open>\<open>reads T x\<close>: the text of a value is read back before any delimiter.\<close>

definition reads :: "(json \<Rightarrow> string) \<Rightarrow> json \<Rightarrow> bool" where
  "reads T x \<longleftrightarrow> (\<forall>k r. delim r \<longrightarrow> length (T x) \<le> k \<longrightarrow> parse_value k (T x @ r) = Some (x, r)) \<and>
    (\<exists>c cs. T x = c # cs \<and> \<not> is_ws c \<and> of_char c \<notin> {93, 125 :: nat})"

lemma readsD: "reads T x \<Longrightarrow> delim r \<Longrightarrow> length (T x) \<le> k \<Longrightarrow> parse_value k (T x @ r) = Some (x, r)"
  unfolding reads_def by blast

lemma skip_blank: "list_all is_ws b \<Longrightarrow> skip_ws (b @ s) = skip_ws s"
  by (induction b) (simp_all add: skip_ws_def)

lemma skip_text: "reads T x \<Longrightarrow> skip_ws (T x @ s) = T x @ s"
  unfolding reads_def by (auto simp: skip_ws_def)

lemma parse_elems_text:
  assumes "xs \<noteq> []" "\<And>x. x \<in> set xs \<Longrightarrow> reads T x" "list_all is_ws b"
    and "length (join (CHR '','' # b) (map T xs)) < k"
  shows "parse_elems k acc (join (CHR '','' # b) (map T xs) @ CHR '']'' # r) = Some (JList (acc @ xs), r)"
  using assms(1,2,4)
proof (induction xs arbitrary: acc k rule: list_nonempty_induct)
  case (single x)
  obtain k' where k: "k = Suc k'" "length (T x) \<le> k'" using single.prems(2) by (cases k) auto
  have "parse_value k' (T x @ CHR '']'' # r) = Some (x, CHR '']'' # r)"
    by (rule readsD) (use single.prems(1) k in \<open>auto simp: delim_def is_digit_def\<close>)
  then show ?case using k by (simp add: skip_ws_def is_ws_def)
next
  case (cons x xs)
  obtain y ys where xs: "xs = y # ys" using cons.hyps(1) by (cases xs) auto
  let ?rest = "join (CHR '','' # b) (map T xs) @ CHR '']'' # r"
  have body: "join (CHR '','' # b) (map T (x # xs)) @ CHR '']'' # r = T x @ CHR '','' # b @ ?rest"
    by (simp add: xs)
  obtain k' where k: "k = Suc k'" "length (T x) \<le> k'" "length (join (CHR '','' # b) (map T xs)) < k'"
    using cons.prems(2) by (cases k) (auto simp: xs)
  have "parse_value k' (T x @ CHR '','' # b @ ?rest) = Some (x, CHR '','' # b @ ?rest)"
    by (rule readsD) (use cons.prems(1) k in \<open>auto simp: delim_def is_digit_def\<close>)
  moreover have "skip_ws (b @ ?rest) = ?rest"
  proof -
    have "reads T y" using cons.prems(1) by (simp add: xs)
    from skip_text[OF this] show ?thesis unfolding skip_blank[OF assms(3)] xs by (cases ys) simp_all
  qed
  moreover have "parse_elems k' (acc @ [x]) ?rest = Some (JList ((acc @ [x]) @ xs), r)"
    by (rule cons.IH) (use cons.prems(1) k in auto)
  ultimately show ?case unfolding body k by (simp add: skip_ws_def is_ws_def)
qed

lemma escaped_length: "length s \<le> length (concat (map esc_char s))"
proof (induction s)
  case (Cons c s)
  have "1 \<le> length (esc_char c)" by (simp add: esc_char_def Let_def)
  then show ?case using Cons.IH by (simp only: list.map concat.simps length_append list.size)
qed simp

lemma update_new: "k \<notin> fst ` set d \<Longrightarrow> AList.update k v d = d @ [(k, v)]"
  by (induction d) auto

text \<open>One member, up to what follows its value.\<close>

lemma parse_member_text:
  assumes "reads T v" "list_all is_ws b'" "delim r" "length (quote_text key @ CHR '':'' # b' @ T v) < n"
  shows "\<exists>n'. n = Suc n' \<and> length (T v) \<le> n' \<and>
    parse_members n acc (quote_text key @ CHR '':'' # b' @ T v @ r) =
      (case skip_ws r of [] \<Rightarrow> None
       | d # q2 \<Rightarrow>
          (if of_char d = (125 :: nat) then Some (JObj (AList.update key v acc), q2)
           else if of_char d = (44 :: nat) then parse_members n' (AList.update key v acc) (skip_ws q2)
           else None))"
proof -
  obtain n' where n: "n = Suc n'" "length (T v) \<le> n'" using assms(4) by (cases n) auto
  let ?q = "CHR '':'' # b' @ T v @ r"
  let ?cs = "concat (map esc_char key) @ CHR 0x22 # ?q"
  have "parse_string (length ?cs) ?cs = Some (key, ?q)"
    by (rule parse_quoted) (use escaped_length[of key] in simp)
  moreover have "skip_ws (b' @ T v @ r) = T v @ r" unfolding skip_blank[OF assms(2)] by (rule skip_text[OF assms(1)])
  moreover have "parse_value n' (T v @ r) = Some (v, r)" by (rule readsD[OF assms(1,3) n(2)])
  ultimately show ?thesis using n by (simp add: quote_text_def skip_ws_def[of ?q] is_ws_def)
qed

lemma parse_members_text:
  assumes "kvs \<noteq> []" "\<And>k v. (k, v) \<in> set kvs \<Longrightarrow> reads T v" "list_all is_ws b" "list_all is_ws b'"
    and "distinct (map fst acc @ map fst kvs)"
    and "length (join (CHR '','' # b) (map (\<lambda>(k, v). quote_text k @ CHR '':'' # b' @ T v) kvs)) < n"
  shows "parse_members n acc (join (CHR '','' # b) (map (\<lambda>(k, v). quote_text k @ CHR '':'' # b' @ T v) kvs) @ CHR ''}'' # r) =
    Some (JObj (acc @ kvs), r)"
  using assms(1,2,5,6)
proof (induction kvs arbitrary: acc n rule: list_nonempty_induct)
  case (single kv)
  obtain key v where kv: "kv = (key, v)" by fastforce
  have "delim (CHR ''}'' # r)" by (simp add: delim_def is_digit_def)
  from parse_member_text[OF _ assms(4) this, of T v key n acc] single.prems
  show ?case by (auto simp: kv skip_ws_def is_ws_def update_new)
next
  case (cons kv kvs)
  obtain key v where kv: "kv = (key, v)" by fastforce
  let ?T = "\<lambda>(k, v). quote_text k @ CHR '':'' # b' @ T v"
  let ?rest = "join (CHR '','' # b) (map ?T kvs) @ CHR ''}'' # r"
  obtain y ys where kvs: "kvs = y # ys" using cons.hyps(1) by (cases kvs) auto
  have body: "join (CHR '','' # b) (map ?T (kv # kvs)) @ CHR ''}'' # r =
      quote_text key @ CHR '':'' # b' @ T v @ CHR '','' # b @ ?rest"
    by (simp add: kvs kv)
  have "delim (CHR '','' # b @ ?rest)" by (simp add: delim_def is_digit_def)
  moreover have "reads T v" using cons.prems(1) kv by auto
  moreover have len: "length (quote_text key @ CHR '':'' # b' @ T v) + length (join (CHR '','' # b) (map ?T kvs)) + 1 < n"
    using cons.prems(3) by (simp add: kvs kv)
  ultimately obtain n' where n: "n = Suc n'" and step:
    "parse_members n acc (quote_text key @ CHR '':'' # b' @ T v @ CHR '','' # b @ ?rest) =
      parse_members n' (AList.update key v acc) (skip_ws (b @ ?rest))"
    using parse_member_text[OF _ assms(4), of T v "CHR '','' # b @ ?rest" key n acc]
    by (auto simp: skip_ws_def[of "CHR '','' # b @ ?rest"] is_ws_def)
  have "skip_ws ?rest = ?rest" by (cases y; cases ys) (simp_all add: kvs quote_text_def skip_ws_def is_ws_def)
  then have blank: "skip_ws (b @ ?rest) = ?rest" unfolding skip_blank[OF assms(3)] .
  have "parse_members n' (acc @ [(key, v)]) ?rest = Some (JObj ((acc @ [(key, v)]) @ kvs), r)"
    by (rule cons.IH) (use cons.prems len n kv in auto)
  moreover have "AList.update key v acc = acc @ [(key, v)]" using cons.prems(2) kv by (auto simp: update_new)
  ultimately show ?case unfolding body step blank by (simp add: kv)
qed

text \<open>Leaves.\<close>

lemma word_value:
  "0 < k \<Longrightarrow> parse_value k (''null'' @ r) = Some (JNull, r)"
  "0 < k \<Longrightarrow> parse_value k (''true'' @ r) = Some (JBool True, r)"
  "0 < k \<Longrightarrow> parse_value k (''false'' @ r) = Some (JBool False, r)"
  by (cases k; simp add: starts_with_def)+

lemma string_value: "0 < k \<Longrightarrow> parse_value k (quote_text s @ r) = Some (JStr s, r)"
proof -
  assume "0 < k"
  then obtain k' where k: "k = Suc k'" by (cases k) auto
  let ?cs = "concat (map esc_char s) @ CHR 0x22 # r"
  have "parse_string (length ?cs) ?cs = Some (s, r)"
    by (rule parse_quoted) (use escaped_length[of s] in simp)
  then show ?thesis using k by (simp add: quote_text_def)
qed

lemma list_value:
  assumes "\<And>x. x \<in> set xs \<Longrightarrow> reads T x" "list_all is_ws b" "length (join (CHR '','' # b) (map T xs)) + 2 \<le> k"
  shows "parse_value k (CHR ''['' # join (CHR '','' # b) (map T xs) @ CHR '']'' # r) = Some (JList xs, r)"
proof (cases xs)
  case Nil
  then show ?thesis using assms(3) by (cases k) (auto simp: skip_ws_def is_ws_def)
next
  case (Cons y ys)
  obtain k' where k: "k = Suc k'" "length (join (CHR '','' # b) (map T xs)) < k'" using assms(3) by (cases k) auto
  let ?cs = "join (CHR '','' # b) (map T xs) @ CHR '']'' # r"
  have y: "reads T y" using assms(1) Cons by simp
  have "\<exists>z. ?cs = T y @ z" by (cases ys) (simp_all add: Cons)
  then obtain z where z: "?cs = T y @ z" by blast
  obtain c cs where c: "T y = c # cs" "of_char c \<noteq> (93 :: nat)" using y unfolding reads_def by auto
  have "parse_elems k' [] ?cs = Some (JList xs, r)"
    using parse_elems_text[where acc = "[]" and xs = xs, OF _ assms(1,2) k(2)] Cons by simp
  moreover have "skip_ws ?cs = ?cs" unfolding z by (rule skip_text[OF y])
  ultimately show ?thesis using c z k(1) by simp
qed

lemma object_value:
  assumes "\<And>k v. (k, v) \<in> set kvs \<Longrightarrow> reads T v" "list_all is_ws b" "list_all is_ws b'" "distinct (map fst kvs)"
    and "length (join (CHR '','' # b) (map (\<lambda>(k, v). quote_text k @ CHR '':'' # b' @ T v) kvs)) + 2 \<le> n"
  shows "parse_value n (CHR ''{'' # join (CHR '','' # b) (map (\<lambda>(k, v). quote_text k @ CHR '':'' # b' @ T v) kvs) @ CHR ''}'' # r) =
    Some (JObj kvs, r)"
proof (cases kvs)
  case Nil
  then show ?thesis using assms(5) by (cases n) (auto simp: skip_ws_def is_ws_def)
next
  case (Cons y ys)
  let ?T = "\<lambda>(k, v). quote_text k @ CHR '':'' # b' @ T v"
  let ?cs = "join (CHR '','' # b) (map ?T kvs) @ CHR ''}'' # r"
  obtain n' where n: "n = Suc n'" "length (join (CHR '','' # b) (map ?T kvs)) < n'" using assms(5) by (cases n) auto
  have "\<exists>z. ?cs = CHR 0x22 # z" by (cases y; cases ys) (simp_all add: Cons quote_text_def)
  then obtain z where z: "?cs = CHR 0x22 # z" by blast
  have "parse_members n' [] ?cs = Some (JObj kvs, r)"
    using parse_members_text[where acc = "[]" and kvs = kvs, OF _ assms(1,2,3) _ n(2)] Cons assms(4) by simp
  moreover have "skip_ws ?cs = ?cs" by (simp add: z skip_ws_def is_ws_def)
  ultimately show ?thesis using z n(1) by simp
qed

theorem json_reads:
  assumes "list_all is_ws b" "list_all is_ws b'" "json_ok j"
  shows "reads (json_text (CHR '','' # b) (CHR '':'' # b')) j"
  using assms(3)
proof (induction j)
  case (JFloat lit)
  obtain c cs where head: "lit = c # cs" "is_digit c \<or> of_char c = (45 :: nat)"
    using number_head[of lit] JFloat by auto
  have "parse_value k (lit @ r) = Some (JFloat lit, r)" if "delim r" "length lit \<le> k" for k r
    using number_value[OF head, of k r] parse_number_more[OF that(1), of lit "JFloat lit"] JFloat that(2)
    by (auto simp: head(1))
  then show ?case using text_head[OF JFloat] by (simp add: reads_def)
next
  case (JInt i)
  obtain c cs where head: "int_text i = c # cs" "is_digit c \<or> of_char c = (45 :: nat)" using int_head by blast
  have "parse_value k (int_text i @ r) = Some (JInt i, r)" if "delim r" "length (int_text i) \<le> k" for k r
    using number_value[OF head, of k r] parse_int[OF that(1), of i] that(2) head(1) by simp
  then show ?case using text_head[OF JInt] by (simp add: reads_def)
next
  case (JStr s)
  show ?case using text_head[OF JStr] string_value by (auto simp: reads_def quote_text_def)
next
  case (JList xs)
  let ?T = "json_text (CHR '','' # b) (CHR '':'' # b')"
  have xs: "x \<in> set xs \<Longrightarrow> reads ?T x" for x using JList by simp
  show ?case using text_head[OF JList.prems] list_value[where T = ?T, OF xs assms(1)] by (auto simp: reads_def)
next
  case (JObj kvs)
  let ?T = "json_text (CHR '','' # b) (CHR '':'' # b')"
  have kvs: "(k, v) \<in> set kvs \<Longrightarrow> reads ?T v" for k v using JObj by (fastforce intro: snds.intros)
  have "distinct (map fst kvs)" using JObj.prems by simp
  from object_value[where T = ?T, OF kvs assms(1,2) this]
  show ?case using text_head[OF JObj.prems] by (auto simp: reads_def)
next
  case JNull
  show ?case using text_head[OF JNull] word_value by (auto simp: reads_def)
next
  case (JBool v)
  show ?case using text_head[OF JBool] word_value by (auto simp: reads_def)
qed

end
