(* ===== verification/Cli_Record.thy ===== *)
theory Cli_Record
  imports Signature
begin

text \<open>
  The records of \<open>worker/cli_worker.py\<close>: the strict check of one output line of the Claude Code
  command, and what the bridge reads from a checked record.
\<close>

section \<open>Prompts\<close>

definition nl :: string where
  "nl = [CHR 0x0A]"

definition cli_protocol :: string where
  "cli_protocol = join nl [
    ''Commit your changes in the worktree before claiming done. Uncommitted work'',
    ''will fail verification.'',
    [],
    ''When you are completely finished, end your final message with exactly one line:'',
    ''DONE_CLAIM: <one-line summary of what you did>'',
    [],
    ''If you are blocked on a decision only a human can make, end your message with'',
    ''exactly one line instead, and stop there:'',
    ''ASK: <your question>'']"

definition strip_end :: "string \<Rightarrow> string" where
  "strip_end s = rev (lstrip (rev s))"

definition prompt_with_protocol :: "string \<Rightarrow> string" where
  "prompt_with_protocol brief = strip_end brief @ nl @ nl @ cli_protocol @ nl"

definition user_envelope :: "string \<Rightarrow> json" where
  "user_envelope text = JObj [(''type'', JStr ''user''),
    (''message'', JObj [(''role'', JStr ''user''),
      (''content'', JList [JObj [(''type'', JStr ''text''), (''text'', JStr text)]])])]"

text \<open>\<open>json.dumps\<close> without blanks after the separators.\<close>

fun json_compact :: "json \<Rightarrow> string" where
  "json_compact JNull = ''null''"
| "json_compact (JBool b) = (if b then ''true'' else ''false'')"
| "json_compact (JInt i) = int_text i"
| "json_compact (JFloat lit) = lit"
| "json_compact (JStr s) = quote_text s"
| "json_compact (JList xs) = ''['' @ join '','' (map json_compact xs) @ '']''"
| "json_compact (JObj kvs) =
    ''{'' @ join '','' (map (\<lambda>(k, v). quote_text k @ '':'' @ json_compact v) kvs) @ ''}''"

definition encode_prompt :: "string \<Rightarrow> string" where
  "encode_prompt text = json_compact (user_envelope text) @ nl"

definition claude_command :: "string option \<Rightarrow> string list" where
  "claude_command model = [''claude'', ''-p'', ''--input-format'', ''stream-json'', ''--output-format'', ''stream-json'',
    ''--verbose'', ''--include-partial-messages'', ''--replay-user-messages'', ''--no-session-persistence''] @
    (case model of None \<Rightarrow> [] | Some m \<Rightarrow> if m = [] then [] else [''--model'', m])"

section \<open>The check of a record\<close>

definition known_records :: "string set" where
  "known_records = {''system'', ''user'', ''assistant'', ''stream_event'', ''result'', ''rate_limit_event'', ''prompt_suggestion''}"

definition known_stream_events :: "string set" where
  "known_stream_events = {''message_start'', ''content_block_start'', ''content_block_delta'', ''content_block_stop'',
    ''message_delta'', ''message_stop'', ''ping''}"

definition bad_record :: "string \<Rightarrow> exc + 'a" where
  "bad_record message = Inl (CliRecordError message ''malformed_output'')"

definition is_text :: "json \<Rightarrow> bool" where
  "is_text v = (case v of JStr s \<Rightarrow> True | _ \<Rightarrow> False)"

definition is_dict :: "json \<Rightarrow> bool" where
  "is_dict v = (case v of JObj p \<Rightarrow> True | _ \<Rightarrow> False)"

definition is_list :: "json \<Rightarrow> bool" where
  "is_list v = (case v of JList xs \<Rightarrow> True | _ \<Rightarrow> False)"

definition require_string :: "payload \<Rightarrow> string \<Rightarrow> string \<Rightarrow> exc + unit" where
  "require_string rec key rt =
    (if is_text (jget key rec) \<and> jget key rec \<noteq> JStr [] then Inr ()
     else bad_record (rt @ '' record requires non-empty string '' @ repr_str key))"

definition require_session_id :: "payload \<Rightarrow> string \<Rightarrow> exc + unit" where
  "require_session_id rec rt = require_string rec ''session_id'' rt"

definition validate_block :: "string \<Rightarrow> nat \<Rightarrow> json \<Rightarrow> exc + unit" where
  "validate_block rt i block = (case block of
      JObj b \<Rightarrow>
        if \<not> is_text (jget ''type'' b) then bad_record (rt @ '' content block '' @ nat_text i @ '' must have a type'')
        else if jget ''type'' b = JStr ''text'' \<and> \<not> is_text (jget ''text'' b) then
          bad_record (rt @ '' text block '' @ nat_text i @ '' requires string text'')
        else if jget ''type'' b \<in> {JStr ''tool_use'', JStr ''server_tool_use''} \<and>
            (\<not> is_text (jget ''name'' b) \<or> \<not> is_dict (jget ''input'' b)) then
          bad_record (rt @ '' '' @ py_str (jget ''type'' b) @ '' block '' @ nat_text i @ '' requires name and object input'')
        else Inr ()
    | _ \<Rightarrow> bad_record (rt @ '' content block '' @ nat_text i @ '' must have a type''))"

fun validate_blocks :: "string \<Rightarrow> nat \<Rightarrow> json list \<Rightarrow> exc + unit" where
  "validate_blocks rt i [] = Inr ()"
| "validate_blocks rt i (b # bs) = bindE (validate_block rt i b) (\<lambda>_. validate_blocks rt (Suc i) bs)"

definition validate_content :: "string \<Rightarrow> json \<Rightarrow> exc + unit" where
  "validate_content rt content = (case content of
      JList bs \<Rightarrow> validate_blocks rt 0 bs
    | _ \<Rightarrow> bad_record (rt @ '' message.content must be a list''))"

definition validate_message :: "payload \<Rightarrow> string \<Rightarrow> string \<Rightarrow> exc + unit" where
  "validate_message rec role rt = (case jget ''message'' rec of
      JObj m \<Rightarrow>
        if jget ''role'' m \<noteq> JStr role then bad_record (rt @ '' record requires message.role='' @ repr_str role)
        else validate_content rt (jget ''content'' m)
    | _ \<Rightarrow> bad_record (rt @ '' record requires message.role='' @ repr_str role))"

definition validate_delta :: "json \<Rightarrow> exc + unit" where
  "validate_delta delta = (case delta of
      JObj d \<Rightarrow>
        if \<not> is_text (jget ''type'' d) then bad_record ''content_block_delta requires delta.type''
        else if jget ''type'' d = JStr ''text_delta'' \<and> \<not> is_text (jget ''text'' d) then
          bad_record ''text_delta requires string text''
        else Inr ()
    | _ \<Rightarrow> bad_record ''content_block_delta requires delta.type'')"

definition validate_event :: "json \<Rightarrow> exc + unit" where
  "validate_event event = (case event of
      JObj e \<Rightarrow> (case jget ''type'' e of
          JStr t \<Rightarrow>
            if t \<notin> known_stream_events then
              Inl (CliRecordError (''unknown Claude Code stream event type '' @ repr_str t) ''unknown_record_type'')
            else if t = ''content_block_delta'' then validate_delta (jget ''delta'' e)
            else Inr ()
        | _ \<Rightarrow> bad_record ''stream_event record requires event.type'')
    | _ \<Rightarrow> bad_record ''stream_event record requires event.type'')"

text \<open>\<open>key in record and not isinstance(record[key], dict)\<close>, for the three usage fields in turn.\<close>

fun validate_objects :: "string list \<Rightarrow> payload \<Rightarrow> exc + unit" where
  "validate_objects [] rec = Inr ()"
| "validate_objects (k # ks) rec = (case map_of rec k of
      Some v \<Rightarrow> if is_dict v then validate_objects ks rec
        else bad_record (''result record field '' @ repr_str k @ '' must be an object'')
    | None \<Rightarrow> validate_objects ks rec)"

definition validate_result :: "payload \<Rightarrow> exc + unit" where
  "validate_result rec =
    bindE (require_string rec ''subtype'' ''result'') (\<lambda>_.
    bindE (require_session_id rec ''result'') (\<lambda>_.
    if (case jget ''is_error'' rec of JBool b \<Rightarrow> False | _ \<Rightarrow> True) then
      bad_record ''result record requires boolean is_error''
    else if (case map_of rec ''result'' of None \<Rightarrow> True | Some v \<Rightarrow> v \<noteq> JNull \<and> \<not> is_text v) then
      bad_record ''result record requires string or null result''
    else if (case map_of rec ''errors'' of None \<Rightarrow> False | Some v \<Rightarrow> \<not> is_list v) then
      bad_record (''result record field '' @ repr_str ''errors'' @ '' must be a list'')
    else validate_objects [''usage'', ''modelUsage'', ''model_usage''] rec))"

definition validate_fields :: "string \<Rightarrow> payload \<Rightarrow> exc + unit" where
  "validate_fields rt rec =
    (if rt = ''system'' then bindE (require_string rec ''subtype'' rt) (\<lambda>_. require_session_id rec rt)
     else if rt = ''user'' then validate_message rec ''user'' rt
     else if rt = ''assistant'' then bindE (require_session_id rec rt) (\<lambda>_. validate_message rec ''assistant'' rt)
     else if rt = ''stream_event'' then bindE (require_session_id rec rt) (\<lambda>_. validate_event (jget ''event'' rec))
     else if rt = ''result'' then validate_result rec
     else if rt = ''rate_limit_event'' then
       bindE (require_session_id rec rt) (\<lambda>_.
         if is_dict (jget ''rate_limit_info'' rec) then Inr ()
         else bad_record ''rate_limit_event requires object rate_limit_info'')
     else bindE (require_session_id rec rt) (\<lambda>_. require_string rec ''suggestion'' rt))"

definition validate_cli_record :: "json \<Rightarrow> exc + payload" where
  "validate_cli_record record = (case record of
      JObj rec \<Rightarrow> (case jget ''type'' rec of
          JStr rt \<Rightarrow>
            if rt \<notin> known_records then
              Inl (CliRecordError (''unknown Claude Code output record type '' @ repr_str rt) ''unknown_record_type'')
            else bindE (validate_fields rt rec) (\<lambda>_. Inr rec)
        | _ \<Rightarrow> bad_record ''Claude Code output record must be an object with a string type'')
    | _ \<Rightarrow> bad_record ''Claude Code output record must be an object with a string type'')"

text \<open>A line as it was read: its text, or bytes that are not UTF-8.\<close>

definition parse_cli_line :: "string option \<Rightarrow> exc + payload" where
  "parse_cli_line line = (case line of
      None \<Rightarrow> bad_record ''malformed Claude Code JSONL output''
    | Some s \<Rightarrow>
        if blank s then bad_record ''empty Claude Code output line''
        else (case json_loads s of
            None \<Rightarrow> bad_record ''malformed Claude Code JSONL output''
          | Some j \<Rightarrow> validate_cli_record j))"

end
