(* ===== verification/Cli_Worker.thy ===== *)
theory Cli_Worker
  imports Cli_Record
begin

text \<open>
  The bridge of \<open>worker/cli_worker.py\<close> from the output of the Claude Code command to the events that
  the scheduler reads: what a record says, and the run over the lines of the command.
\<close>

section \<open>Secrets\<close>

definition token_char :: "char \<Rightarrow> bool" where
  "token_char c = (is_digit c \<or> between 97 122 c \<or> between 65 90 c)"

definition at_word_start :: "char option \<Rightarrow> bool" where
  "at_word_start prev = (case prev of None \<Rightarrow> True | Some c \<Rightarrow> \<not> re_word c)"

definition credential_at :: "char option \<Rightarrow> string \<Rightarrow> nat" where
  "credential_at prev s =
    (if at_word_start prev \<and> py_lower (take 7 s) = ''sk-ant-''
     then (let n = length (takeWhile (\<lambda>c. token_char c \<or> c \<in> set ''_-'') (drop 7 s)) in
           if n = 0 then 0 else 7 + n)
     else 0)"

definition bearer_at :: "char option \<Rightarrow> string \<Rightarrow> nat" where
  "bearer_at prev s =
    (if at_word_start prev \<and> py_lower (take 6 s) = ''bearer''
     then (let k = length (takeWhile py_space (drop 6 s));
               n = length (takeWhile (\<lambda>c. token_char c \<or> c \<in> set ''._-'') (drop (6 + k) s)) in
           if k = 0 \<or> n = 0 then 0 else 6 + k + n)
     else 0)"

definition redact_text :: "nat \<Rightarrow> json \<Rightarrow> string" where
  "redact_text limit v =
    (let t = py_str (json_or v (JStr []));
         t1 = replace_by credential_at ''[REDACTED_ANTHROPIC_CREDENTIAL]'' None t;
         t2 = replace_by bearer_at ''Bearer [REDACTED]'' None t1
     in take limit t2)"

section \<open>Reading a record\<close>

text \<open>\<open>value.get(...)\<close> on something that is not a dictionary.\<close>

definition as_dict :: "json \<Rightarrow> exc + payload" where
  "as_dict v = (case v of JObj p \<Rightarrow> Inr p | _ \<Rightarrow> Inl (AttributeError ''object has no attribute get''))"

fun text_blocks :: "json list \<Rightarrow> string list" where
  "text_blocks [] = []"
| "text_blocks (b # bs) = (case b of
      JObj p \<Rightarrow>
        if jget ''type'' p = JStr ''text'' then
          (case jget_default ''text'' (JStr []) p of JStr s \<Rightarrow> s # text_blocks bs | _ \<Rightarrow> text_blocks bs)
        else text_blocks bs
    | _ \<Rightarrow> text_blocks bs)"

definition assistant_text :: "payload \<Rightarrow> exc + string" where
  "assistant_text rec =
    (if jget ''type'' rec = JStr ''assistant'' then
       bindE (as_dict (json_or (jget ''message'' rec) (JObj []))) (\<lambda>m.
         Inr (case jget ''content'' m of JList bs \<Rightarrow> concat (text_blocks bs) | _ \<Rightarrow> []))
     else if jget ''type'' rec = JStr ''stream_event'' then
       bindE (as_dict (json_or (jget ''event'' rec) (JObj []))) (\<lambda>e.
       bindE (as_dict (json_or (jget ''delta'' e) (JObj []))) (\<lambda>d.
         Inr (case (jget ''type'' d, jget ''text'' d) of
             (JStr t, JStr s) \<Rightarrow> if t = ''text_delta'' then s else []
           | _ \<Rightarrow> [])))
     else Inr [])"

fun tool_blocks :: "json list \<Rightarrow> payload list" where
  "tool_blocks [] = []"
| "tool_blocks (b # bs) = (case b of
      JObj p \<Rightarrow>
        if jget ''type'' p = JStr ''tool_use'' then
          (let target = (case json_or (jget ''input'' p) (JObj []) of
               JObj i \<Rightarrow> json_or (json_or (jget ''file_path'' i) (jget ''command'' i)) (JStr [])
             | _ \<Rightarrow> JStr [])
           in [(''tool'', jget ''name'' p), (''target'', target)] # tool_blocks bs)
        else tool_blocks bs
    | _ \<Rightarrow> tool_blocks bs)"

definition tool_uses :: "payload \<Rightarrow> exc + payload list" where
  "tool_uses rec =
    (if jget ''type'' rec \<noteq> JStr ''assistant'' then Inr []
     else bindE (as_dict (json_or (jget ''message'' rec) (JObj []))) (\<lambda>m.
       Inr (case jget ''content'' m of JList bs \<Rightarrow> tool_blocks bs | _ \<Rightarrow> [])))"

text \<open>The first line of a final message that claims the end or asks: the event and its field.\<close>

fun find_terminal :: "(string \<times> string \<times> string) list \<Rightarrow> string list \<Rightarrow> (string \<times> payload) option" where
  "find_terminal marks [] = None"
| "find_terminal marks (l # ls) =
    (case find (\<lambda>(mark, _). starts_with mark (strip l)) marks of
       Some (mark, kind, field) \<Rightarrow> Some (kind, [(field, JStr (strip (drop (length mark) (strip l))))])
     | None \<Rightarrow> find_terminal marks ls)"

definition cli_marks :: "(string \<times> string \<times> string) list" where
  "cli_marks = [(''DONE_CLAIM:'', ''done_claimed'', ''result''), (''ASK:'', ''asked'', ''question'')]"

definition parse_terminal :: "json \<Rightarrow> (string \<times> payload) option" where
  "parse_terminal result_text = (case result_text of
      JStr s \<Rightarrow> if s = [] then None else find_terminal cli_marks (split_lines s)
    | _ \<Rightarrow> None)"

section \<open>Usage\<close>

text \<open>\<open>int(v)\<close> of a number; \<open>trunc\<close> truncates a float literal.\<close>

definition is_number :: "json \<Rightarrow> bool" where
  "is_number v = (case v of JInt i \<Rightarrow> True | JFloat l \<Rightarrow> True | JBool b \<Rightarrow> True | _ \<Rightarrow> False)"

definition number_int :: "(string \<Rightarrow> exc + int) \<Rightarrow> json \<Rightarrow> exc + int" where
  "number_int trunc v = (case v of
      JInt i \<Rightarrow> Inr i | JBool b \<Rightarrow> Inr (if b then 1 else 0) | JFloat l \<Rightarrow> trunc l | _ \<Rightarrow> Inl (TypeError ''number expected''))"

fun usage_value :: "(string \<Rightarrow> exc + int) \<Rightarrow> payload \<Rightarrow> string list \<Rightarrow> exc + int option" where
  "usage_value trunc usage [] = Inr None"
| "usage_value trunc usage (n # ns) =
    (if is_number (jget n usage) then bindE (number_int trunc (jget n usage)) (\<lambda>i. Inr (Some i))
     else usage_value trunc usage ns)"

definition dicts_in :: "json \<Rightarrow> payload list" where
  "dicts_in v = (case v of
      JObj p \<Rightarrow> List.map_filter (\<lambda>(k, x). case x of JObj q \<Rightarrow> Some q | _ \<Rightarrow> None) p | _ \<Rightarrow> [])"

text \<open>The sum of what is there, or nothing when it is zero.\<close>

definition usage_sum :: "int option list \<Rightarrow> int option" where
  "usage_sum ns = (let s = sum_list (List.map_filter id ns) in if s = 0 then None else Some s)"

definition usage_or_models ::
    "(string \<Rightarrow> exc + int) \<Rightarrow> payload \<Rightarrow> json \<Rightarrow> string list \<Rightarrow> string list \<Rightarrow> exc + int option" where
  "usage_or_models trunc usage models names model_names =
    bindE (usage_value trunc usage names) (\<lambda>n.
      if n \<noteq> None \<or> \<not> is_dict models then Inr n
      else bindE (mapE (\<lambda>m. usage_value trunc m model_names) (dicts_in models)) (\<lambda>ns. Inr (usage_sum ns)))"

definition model_usage_of :: "payload \<Rightarrow> json" where
  "model_usage_of rec = json_or (json_or (jget ''modelUsage'' rec) (jget ''model_usage'' rec)) (JObj [])"

definition record_usage :: "payload \<Rightarrow> payload" where
  "record_usage rec = (case jget ''usage'' rec of JObj p \<Rightarrow> p | _ \<Rightarrow> [])"

definition cost_of :: "payload \<Rightarrow> json" where
  "cost_of rec = (let c = jget_default ''total_cost_usd'' (jget ''cost_usd'' rec) rec in if is_number c then c else JNull)"

definition aggregate_usage :: "(string \<Rightarrow> exc + int) \<Rightarrow> payload \<Rightarrow> exc + int option \<times> int option \<times> json" where
  "aggregate_usage trunc rec =
    bindE (usage_value trunc (record_usage rec) [''input_tokens'', ''inputTokens'']) (\<lambda>_.
    bindE (usage_value trunc (record_usage rec) [''output_tokens'', ''outputTokens'']) (\<lambda>_.
    bindE (usage_or_models trunc (record_usage rec) (model_usage_of rec)
      [''input_tokens'', ''inputTokens''] [''inputTokens'', ''input_tokens'']) (\<lambda>tin.
    bindE (usage_or_models trunc (record_usage rec) (model_usage_of rec)
      [''output_tokens'', ''outputTokens''] [''outputTokens'', ''output_tokens'']) (\<lambda>tout.
      Inr (tin, tout, cost_of rec)))))"

definition result_snapshot :: "(string \<Rightarrow> exc + int) \<Rightarrow> payload \<Rightarrow> exc + payload" where
  "result_snapshot trunc rec =
    bindE (aggregate_usage trunc rec) (\<lambda>(tin, tout, cost).
      Inr [(''subtype'', JStr (redact_text 100 (jget ''subtype'' rec))),
        (''is_error'', JBool (truthy (jget ''is_error'' rec))),
        (''errors'', json_or (jget ''errors'' rec) (JList [])),
        (''result'', JStr (redact_text 2000 (jget ''result'' rec))),
        (''session_id'', JStr (redact_text 200 (jget ''session_id'' rec))),
        (''usage'', JObj (record_usage rec)), (''model_usage'', model_usage_of rec),
        (''total_cost_usd'', cost), (''tokens_in'', jint_opt tin), (''tokens_out'', jint_opt tout),
        (''cost_usd'', cost)])"

definition auth_markers :: "string list" where
  "auth_markers = [''not logged in'', ''please run /login'', ''authentication required'', ''authentication failed'',
    ''unauthorized'', ''invalid oauth'']"

definition backend_markers :: "string list" where
  "backend_markers = [''api error'', ''backend'', ''overloaded'', ''rate limit'', ''service unavailable'',
    ''internal server error'', ''connection refused'', ''connection reset'']"

definition has_marker :: "string list \<Rightarrow> string \<Rightarrow> bool" where
  "has_marker ms text = list_ex (\<lambda>m. has_text m text) ms"

definition startup_failure :: "payload \<Rightarrow> payload \<Rightarrow> string \<Rightarrow> (string \<times> string) option" where
  "startup_failure rec snapshot transcript =
    (let errors = (case jget ''errors'' snapshot of JList es \<Rightarrow> map py_str es | _ \<Rightarrow> []);
         text = py_lower (join nl ([transcript, py_str (json_or (jget ''result'' snapshot) (JStr []))] @ errors)) in
     if has_marker auth_markers text then
       Some (''authentication_failure'', ''Claude Code reported an authentication failure'')
     else if truthy (jget ''is_error'' snapshot) \<or> truthy (jget ''api_error_status'' rec) \<or>
         jget ''subtype'' rec \<in> {JStr ''error'', JStr ''api_error''} \<or> has_marker backend_markers text then
       Some (''backend_failure'', ''Claude Code backend returned an error result'')
     else None)"

section \<open>The run\<close>

text \<open>
  What the bridge keeps and what it has done: the events it printed, the prompts it sent, the answers
  that are still to come on its own input, and which of the next prompts find the pipe broken.
\<close>

record cli =
  cl_started :: bool
  cl_kind :: "string option"
  cl_session :: json
  cl_transcript :: "string list"
  cl_out :: "(string \<times> payload) list"
  cl_sent :: "string list"
  cl_replies :: "string list"
  cl_broken :: "bool list"
  cl_killed :: bool

datatype cli_read = Line "string option" | Read_fails exc

datatype cli_next = Go_on | Stop_reading | Leave int

definition cli_emit :: "string \<Rightarrow> payload \<Rightarrow> (cli, unit) io" where
  "cli_emit kind p = modify_io (\<lambda>c. c\<lparr>cl_out := cl_out c @ [(kind, p)]\<rparr>)"

text \<open>\<open>_emit_session_event\<close>: with the session's id once it is known.\<close>

definition cli_event :: "string \<Rightarrow> payload \<Rightarrow> (cli, unit) io" where
  "cli_event kind p =
    bind_io (gets_io cl_session) (\<lambda>sid.
      cli_emit kind (if truthy sid then AList.update ''session_id'' sid p else p))"

definition send_prompt :: "string \<Rightarrow> (cli, unit) io" where
  "send_prompt text =
    bind_io (gets_io (\<lambda>c. take 1 (cl_broken c) = [True])) (\<lambda>broken.
    then_io (modify_io (\<lambda>c. c\<lparr>cl_broken := drop 1 (cl_broken c)\<rparr>))
      (if broken then raise_io (OSError ''[Errno 32] Broken pipe'')
       else modify_io (\<lambda>c. c\<lparr>cl_sent := cl_sent c @ [encode_prompt text]\<rparr>)))"

definition kill_cli :: "(cli, unit) io" where
  "kill_cli = modify_io (\<lambda>c. c\<lparr>cl_killed := True\<rparr>)"

definition fail_session :: "payload \<Rightarrow> (cli, cli_next) io" where
  "fail_session p = then_io (cli_event ''startup_failed'' p) (then_io kill_cli (ret_io (Leave 1)))"

text \<open>The first record of a session that shows it works is reported once.\<close>

definition note_started :: "payload \<Rightarrow> (cli, unit) io" where
  "note_started rec =
    bind_io (gets_io cl_started) (\<lambda>started.
      when_io (jget ''type'' rec \<in> {JStr ''system'', JStr ''assistant'', JStr ''stream_event'', JStr ''result''} \<and> \<not> started)
        (then_io (modify_io (\<lambda>c. c\<lparr>cl_started := True\<rparr>))
          (cli_event ''execution_started'' [(''subtype'', jget ''subtype'' rec)])))"

definition note_text :: "payload \<Rightarrow> (cli, unit) io" where
  "note_text rec =
    bind_io (lift_io (assistant_text rec)) (\<lambda>text.
      when_io (text \<noteq> [] \<and> jget ''type'' rec \<in> {JStr ''assistant'', JStr ''stream_event''})
        (then_io (when_io (jget ''type'' rec = JStr ''assistant'')
            (modify_io (\<lambda>c. c\<lparr>cl_transcript := cl_transcript c @ [text]\<rparr>)))
          (cli_event ''messaged'' [(''text'', JStr (take 500 text))])))"

definition note_tools :: "payload \<Rightarrow> (cli, unit) io" where
  "note_tools rec = bind_io (lift_io (tool_uses rec)) (\<lambda>uses. for_io uses (cli_event ''tool_used''))"

definition totals :: "payload \<Rightarrow> payload" where
  "totals snapshot = [(''tokens_in'', jget ''tokens_in'' snapshot), (''tokens_out'', jget ''tokens_out'' snapshot),
    (''cost_usd'', jget ''cost_usd'' snapshot)]"

definition next_reply :: "(cli, string) io" where
  "next_reply =
    bind_io (gets_io (\<lambda>c. case cl_replies c of [] \<Rightarrow> [] | r # rs \<Rightarrow> r)) (\<lambda>r.
    then_io (modify_io (\<lambda>c. c\<lparr>cl_replies := drop 1 (cl_replies c)\<rparr>)) (ret_io r))"

definition drop_newlines :: "string \<Rightarrow> string" where
  "drop_newlines s = rev (dropWhile (\<lambda>c. c = CHR 0x0A) (rev s))"

text \<open>The final message of a turn.\<close>

definition end_turn :: "payload \<Rightarrow> payload \<Rightarrow> (cli, cli_next) io" where
  "end_turn rec snapshot =
    (let terminal = parse_terminal (jget ''result'' rec) in
     then_io (modify_io (\<lambda>c. c\<lparr>cl_kind := map_option fst terminal\<rparr>))
     (case terminal of
        None \<Rightarrow> ret_io Go_on
      | Some (kind, extra) \<Rightarrow>
          then_io (cli_event kind (extra @ totals snapshot))
          (if kind = ''asked'' then
             bind_io next_reply (\<lambda>reply.
               if reply = [] then ret_io (Leave 0)
               else then_io (send_prompt (drop_newlines reply)) (ret_io Go_on))
           else ret_io Stop_reading)))"

definition cli_result :: "(string \<Rightarrow> exc + int) \<Rightarrow> payload \<Rightarrow> (cli, cli_next) io" where
  "cli_result trunc rec =
    bind_io (lift_io (result_snapshot trunc rec)) (\<lambda>snapshot.
    then_io (cli_emit ''result'' snapshot)
    (bind_io (gets_io cl_transcript) (\<lambda>said.
     case startup_failure rec snapshot (join nl said) of
       Some (category, reason) \<Rightarrow>
         fail_session [(''category'', JStr category), (''reason'', JStr reason), (''result'', JObj snapshot)]
     | None \<Rightarrow>
         bind_io (gets_io cl_started) (\<lambda>started.
           if \<not> started then
             then_io (cli_emit ''startup_failed'' [(''category'', JStr ''cli_initialization_failure''),
               (''reason'', JStr ''Claude Code returned no executable session events'')])
             (ret_io (Leave 1))
           else end_turn rec snapshot))))"

definition cli_checked :: "(string \<Rightarrow> exc + int) \<Rightarrow> payload \<Rightarrow> (cli, cli_next) io" where
  "cli_checked trunc rec =
    bind_io (gets_io cl_session) (\<lambda>sid.
    let rid = jget ''session_id'' rec in
    if truthy rid \<and> truthy sid \<and> rid \<noteq> sid then
      fail_session [(''category'', JStr ''malformed_output''),
        (''error'', JStr (''Claude Code session_id changed from '' @ py_repr sid @ '' to '' @ py_repr rid))]
    else
      then_io (when_io (truthy rid) (modify_io (\<lambda>c. c\<lparr>cl_session := rid\<rparr>)))
      (then_io (note_started rec)
      (then_io (note_text rec)
      (then_io (note_tools rec)
        (if jget ''type'' rec \<noteq> JStr ''result'' then ret_io Go_on else cli_result trunc rec)))))"

definition cli_line :: "(string \<Rightarrow> exc + int) \<Rightarrow> cli_read \<Rightarrow> (cli, cli_next) io" where
  "cli_line trunc l = (case l of
      Read_fails e \<Rightarrow> raise_io e
    | Line s \<Rightarrow> (case parse_cli_line s of
        Inl (CliRecordError message category) \<Rightarrow>
          fail_session [(''category'', JStr category), (''error'', JStr message)]
      | Inl e \<Rightarrow> raise_io e
      | Inr rec \<Rightarrow> cli_checked trunc rec))"

fun cli_lines :: "(string \<Rightarrow> exc + int) \<Rightarrow> cli_read list \<Rightarrow> (cli, cli_next) io" where
  "cli_lines trunc [] = ret_io Stop_reading"
| "cli_lines trunc (l # ls) =
    bind_io (cli_line trunc l) (\<lambda>next. if next = Go_on then cli_lines trunc ls else ret_io next)"

text \<open>The end of the command, whose exit code is \<open>code\<close>.\<close>

definition cli_exit :: "int \<Rightarrow> (cli, int) io" where
  "cli_exit code =
    bind_io (gets_io (\<lambda>c. code \<noteq> 0 \<and> cl_kind c = None \<and> \<not> cl_started c)) (\<lambda>failed.
      if failed then
        then_io (cli_emit ''startup_failed'' [(''category'', JStr ''cli_process_failure''),
          (''error'', JStr (''claude exited with code '' @ int_text code))])
        (ret_io 1)
      else ret_io 0)"

definition cli_io_failure :: "exc \<Rightarrow> (cli, cli_next) io" where
  "cli_io_failure e = (case e of
      OSError s \<Rightarrow>
        bind_io (gets_io cl_started) (\<lambda>started.
        then_io (when_io (\<not> started) (cli_emit ''startup_failed''
          [(''category'', JStr ''cli_process_failure''), (''error'', JStr (redact_text 2000 (JStr s)))]))
        (ret_io (Leave 1)))
    | _ \<Rightarrow> raise_io e)"

definition cli_run ::
    "(string \<Rightarrow> exc + int) \<Rightarrow> string option \<Rightarrow> string \<Rightarrow> cli_read list \<Rightarrow> int \<Rightarrow> (cli, int) io" where
  "cli_run trunc spawn_error brief ls code = (case spawn_error of
      Some e \<Rightarrow>
        then_io (cli_emit ''startup_failed'' [(''category'', JStr ''cli_startup_failure''),
          (''error'', JStr (redact_text 2000 (JStr e)))])
        (ret_io 1)
    | None \<Rightarrow>
        bind_io (catch_io (then_io (send_prompt (prompt_with_protocol brief)) (cli_lines trunc ls)) cli_io_failure)
          (\<lambda>next. case next of Leave c \<Rightarrow> ret_io c | _ \<Rightarrow> cli_exit code))"

definition cli_init :: "string list \<Rightarrow> bool list \<Rightarrow> cli" where
  "cli_init replies broken = \<lparr>cl_started = False, cl_kind = None, cl_session = JNull, cl_transcript = [], cl_out = [],
    cl_sent = [], cl_replies = replies, cl_broken = broken, cl_killed = False\<rparr>"

end
