(* ===== verification/Storage_Properties.thy ===== *)
theory Storage_Properties
  imports Json_Laws Store_Laws Interfaces Cli_Worker Sample
begin

text \<open>
  What is stored or sent as JSON text is read back as it was: the declarations of a task, and the
  prompts of the command bridge.
\<close>

section \<open>Printing and parsing\<close>

lemma loads_text:
  assumes "json_ok j" "list_all is_ws b" "list_all is_ws b'" "list_all is_ws e"
  shows "json_loads (json_text (CHR '','' # b) (CHR '':'' # b') j @ e) = Some j"
proof -
  let ?s = "json_text (CHR '','' # b) (CHR '':'' # b') j"
  have reads: "reads (json_text (CHR '','' # b) (CHR '':'' # b')) j" by (rule json_reads[OF assms(2,3,1)])
  have "delim e" using assms(4) by (cases e) (auto simp: delim_def is_ws_def is_digit_def)
  then have "parse_value (Suc (length (?s @ e))) (?s @ e) = Some (j, e)"
    by (rule readsD[OF reads]) simp
  moreover have "skip_ws (?s @ e) = ?s @ e" by (rule skip_text[OF reads])
  moreover have "skip_ws e = []" using assms(4) skip_blank[of e "[]"] by (simp add: skip_ws_def)
  ultimately show ?thesis by (simp add: json_loads_def)
qed

lemma loads_dumps: "json_ok j \<Longrightarrow> json_loads (json_dumps j) = Some j"
  using loads_text[of j "'' ''" "'' ''" "[]"] by (simp add: json_dumps_text is_ws_def)

lemma json_compact_text: "json_compact j = json_text '','' '':'' j"
  by (induction j rule: json_compact.induct) (auto intro!: arg_cong[where f = "join _"])

section \<open>Declarations\<close>

text \<open>Reading a declaration from its column instead of the value itself changes only the empty object.\<close>

lemma contract_json_stored:
  assumes "json_ok j" "\<not> is_text j"
  shows "contract_json (jopt (dumps_col j)) = (if j = JObj [] then Inr (JObj []) else contract_json j)"
proof -
  have "json_dumps j \<noteq> []" using text_head[OF assms(1), of "'', ''" "'': ''"] by (auto simp: json_dumps_text)
  then show ?thesis
    using assms loads_dumps[OF assms(1)]
    by (cases j) (auto simp: dumps_col_def jopt_def contract_json_def is_text_def)
qed

lemma artifact_specs_stored:
  "json_ok j \<Longrightarrow> \<not> is_text j \<Longrightarrow> artifact_specs (jopt (dumps_col j)) = artifact_specs j"
  by (simp add: artifact_specs_def contract_json_stored) (simp add: contract_json_def spec_items_def)

lemma required_inputs_stored:
  "json_ok j \<Longrightarrow> \<not> is_text j \<Longrightarrow> required_inputs (jopt (dumps_col j)) = required_inputs j"
  by (simp add: required_inputs_def contract_json_stored) (simp add: contract_json_def)

lemma find_snoc: "find P xs = None \<Longrightarrow> P y \<Longrightarrow> find P (xs @ [y]) = Some y"
  by (induction xs) (auto split: if_splits)

text \<open>
  C30. The outputs and inputs that a task was created with are read from its stored row exactly as from
  the values themselves, errors included, unless they were given as text.
\<close>

theorem declarations_survive_storage:
  assumes "create_task fresh ts a d = Inr (tid, d')"
    and "json_ok (td_output_artifacts a)" "\<not> is_text (td_output_artifacts a)"
    and "json_ok (effective_input_contract a)" "\<not> is_text (effective_input_contract a)"
  shows "\<exists>t. find_task tid d' = Some t \<and>
    artifact_specs (jopt (t_output_artifacts t)) = artifact_specs (td_output_artifacts a) \<and>
    required_inputs (jopt (t_input_contract t)) = required_inputs (effective_input_contract a)"
proof -
  have "find_task tid d' = Some (new_task_row tid ts a)"
    using create_task_Inr(2,6)[OF assms(1)] by (simp add: find_task_def find_snoc new_task_row_def)
  then show ?thesis
    using artifact_specs_stored[OF assms(2,3)] required_inputs_stored[OF assms(4,5)] by (simp add: new_task_row_def)
qed

text \<open>A declared output and input with a digest and a character that needs an escape.\<close>

definition declared :: task_def where
  "declared = sample_def\<lparr>
    td_output_artifacts := JList [JObj [(''path'', JStr (''a'' @ [CHR 0x22, CHR 0x0A])), (''sha256'', JStr ''00''), (''size'', JFloat ''1.5e3'')]],
    td_input_contract := JObj [(''requires'', JList [JStr ''x''])]\<rparr>"

theorem declarations_survive_storage_witness:
  "\<exists>d' t. create_task ''u'' 0 declared empty_db = Inr (''A'', d') \<and> find_task ''A'' d' = Some t \<and>
    required_inputs (jopt (t_input_contract t)) = Inr [''x'']"
proof -
  have created: "\<exists>d'. create_task ''u'' 0 declared empty_db = Inr (''A'', d')"
    by (simp add: create_task_def chosen_id_def declared_def sample_def_def insert_task_def new_task_row_def
        find_task_def empty_db_def Let_def)
  then obtain d' where d': "create_task ''u'' 0 declared empty_db = Inr (''A'', d')" by blast
  have "json_ok (td_output_artifacts declared)" "\<not> is_text (td_output_artifacts declared)"
    "json_ok (effective_input_contract declared)" "\<not> is_text (effective_input_contract declared)"
    by code_simp+
  from declarations_survive_storage[OF d' this] obtain t where t: "find_task ''A'' d' = Some t"
    "required_inputs (jopt (t_input_contract t)) = required_inputs (effective_input_contract declared)" by blast
  have "required_inputs (effective_input_contract declared) = Inr [''x'']" by code_simp
  then show ?thesis using d' t by auto
qed

section \<open>Prompts\<close>

text \<open>The command's replay of a prompt is accepted, whatever the prompt, and says nothing of its own.\<close>

lemma prompt_replayed:
  "\<exists>rec. parse_cli_line (Some (encode_prompt text)) = Inr rec \<and> assistant_text rec = Inr [] \<and> tool_uses rec = Inr []"
proof -
  have "json_loads (encode_prompt text) = Some (user_envelope text)"
    unfolding encode_prompt_def json_compact_text
    by (rule loads_text[of _ "[]" "[]"]) (simp_all add: user_envelope_def nl_def is_ws_def)
  moreover have "\<not> blank (encode_prompt text)"
    by (simp add: encode_prompt_def user_envelope_def blank_iff py_space_def)
  ultimately show ?thesis
    by (simp add: parse_cli_line_def user_envelope_def validate_cli_record_def known_records_def validate_fields_def
        validate_message_def validate_content_def validate_block_def is_text_def jget_def assistant_text_def tool_uses_def)
qed

end
