(* ===== verification/Sdk_Worker.thy ===== *)
theory Sdk_Worker
  imports Cli_Worker
begin

text \<open>
  \<open>worker/sdk_worker.py\<close>: the redaction and the bounds of what is printed, the classification of a
  result, the check before a tool is used, and the session with its turns.
\<close>

section \<open>Patterns\<close>

text \<open>
  Regular expressions without regard to case, as the positions after a match: a position is the
  character before it and the text from it on.
\<close>

datatype rx =
    Word_edge
  | Lit string
  | One "char \<Rightarrow> bool"
  | Many "char \<Rightarrow> bool"
  | Seq "rx list"
  | Alt "rx list"
  | Star rx

type_synonym spot = "char option \<times> string"

definition advance :: "nat \<Rightarrow> spot \<Rightarrow> spot" where
  "advance n p = (if n = 0 then p else (Some (last (take n (snd p))), drop n (snd p)))"

definition is_word_edge :: "spot \<Rightarrow> bool" where
  "is_word_edge p =
    ((case fst p of None \<Rightarrow> False | Some c \<Rightarrow> re_word c) \<noteq> (case snd p of [] \<Rightarrow> False | c # _ \<Rightarrow> re_word c))"

text \<open>Repetitions end because a round that does not advance adds nothing.\<close>

fun star_ends :: "nat \<Rightarrow> (spot \<Rightarrow> spot list) \<Rightarrow> spot \<Rightarrow> spot list" where
  "star_ends 0 m p = [p]"
| "star_ends (Suc k) m p =
    concat (map (star_ends k m) (filter (\<lambda>q. length (snd q) < length (snd p)) (m p))) @ [p]"

fun rx_ends :: "rx \<Rightarrow> spot \<Rightarrow> spot list"
  and seq_ends :: "rx list \<Rightarrow> spot \<Rightarrow> spot list"
  and alt_ends :: "rx list \<Rightarrow> spot \<Rightarrow> spot list"
where
  "rx_ends Word_edge p = (if is_word_edge p then [p] else [])"
| "rx_ends (Lit t) p = (if py_lower (take (length t) (snd p)) = t then [advance (length t) p] else [])"
| "rx_ends (One P) p = (case snd p of [] \<Rightarrow> [] | c # _ \<Rightarrow> if P c then [advance 1 p] else [])"
| "rx_ends (Many P) p =
    map (\<lambda>i. advance (Suc i) p) (rev [0..<length (takeWhile P (snd p))])"
| "rx_ends (Seq rs) p = seq_ends rs p"
| "rx_ends (Alt rs) p = alt_ends rs p"
| "rx_ends (Star r) p = star_ends (length (snd p)) (rx_ends r) p"
| "seq_ends [] p = [p]"
| "seq_ends (r # rs) p = concat (map (seq_ends rs) (rx_ends r p))"
| "alt_ends [] p = []"
| "alt_ends (r # rs) p = rx_ends r p @ alt_ends rs p"

text \<open>\<open>re.search\<close>: a match at some position.\<close>

fun rx_search :: "rx \<Rightarrow> char option \<Rightarrow> string \<Rightarrow> bool" where
  "rx_search r prev [] = (rx_ends r (prev, []) \<noteq> [])"
| "rx_search r prev (c # cs) = (rx_ends r (prev, c # cs) \<noteq> [] \<or> rx_search r (Some c) cs)"

definition blanks :: rx where
  "blanks = Many py_space"

definition ascii_letter :: "char \<Rightarrow> bool" where
  "ascii_letter c = (between 97 122 c \<or> between 65 90 c)"

definition opt :: "rx \<Rightarrow> rx" where
  "opt r = Alt [r, Seq []]"

definition words :: "string list \<Rightarrow> rx" where
  "words ws = Alt (map Lit ws)"

definition blocked_command :: rx where
  "blocked_command = Alt [
    Seq [Word_edge, words [''curl'', ''wget''], Word_edge],
    Seq [Word_edge, Alt [Seq [Lit ''pip'', opt (Lit ''3'')],
      Seq [Lit ''python'', opt (Lit ''3''), blanks, Lit ''-m'', blanks, Lit ''pip'']], blanks, Lit ''install'', Word_edge],
    Seq [Word_edge, Lit ''uv'', blanks, opt (Seq [Lit ''pip'', blanks]), Lit ''install'', Word_edge],
    Seq [Word_edge, Alt [Seq [Lit ''npm'', blanks, Lit ''install''], Seq [Lit ''pnpm'', blanks, Lit ''add''],
      Seq [Lit ''yarn'', blanks, Lit ''add'']], Word_edge],
    Seq [Word_edge, Lit ''git'',
      Star (Seq [blanks, Lit ''-'', Many ascii_letter, blanks, Many (\<lambda>c. \<not> py_space c)]),
      blanks, words [''clone'', ''fetch'', ''pull'', ''remote'', ''submodule''], Word_edge]]"

definition network_attempt :: rx where
  "network_attempt = Alt [words [''curl'', ''wget'', ''fetch'', ''http://'', ''https://''],
    Seq [Lit ''git'', blanks, words [''clone'', ''fetch'', ''pull'', ''remote'']],
    Seq [Lit ''pip'', blanks, Lit ''install''],
    Seq [Lit ''uv'', blanks, opt (Seq [Lit ''pip'', blanks]), Lit ''install''],
    Seq [Lit ''npm'', blanks, Lit ''install''], Seq [Lit ''yarn'', blanks, Lit ''add''],
    words [''requests'', ''urllib'', ''socket''], Seq [Lit ''nc'', One py_space], Seq [Lit ''ssh'', One py_space]]"

section \<open>Redaction\<close>

text \<open>A named token with its value: the length of the name and of the whole match.\<close>

definition token_name :: rx where
  "token_name = Seq [words [''oauth'', ''access'', ''refresh''], opt (One (\<lambda>c. c \<in> set ''_ -'')), Lit ''token'']"

definition opt_blanks :: rx where
  "opt_blanks = opt blanks"

definition token_value :: rx where
  "token_value = Seq [opt_blanks, One (\<lambda>c. c \<in> set '':=''), opt_blanks, Many (\<lambda>c. \<not> py_space c)]"

definition token_at :: "string \<Rightarrow> (nat \<times> nat) option" where
  "token_at s = (case rx_ends token_name (None, s) of
      [] \<Rightarrow> None
    | p # _ \<Rightarrow> (case rx_ends token_value p of
        [] \<Rightarrow> None
      | q # _ \<Rightarrow> Some (length s - length (snd p), length s - length (snd q))))"

text \<open>The replacement keeps the name.\<close>

function redact_tokens :: "string \<Rightarrow> string" where
  "redact_tokens [] = []"
| "redact_tokens (c # cs) = (case token_at (c # cs) of
      None \<Rightarrow> c # redact_tokens cs
    | Some (g, n) \<Rightarrow> take g (c # cs) @ ''=[REDACTED]'' @ redact_tokens (drop (n - 1) cs))"
  by pat_completeness auto

termination by (relation "measure length") auto

definition sdk_redact :: "nat \<Rightarrow> json \<Rightarrow> string" where
  "sdk_redact limit v =
    (let t = py_str (json_or v (JStr []));
         t1 = replace_by credential_at ''[REDACTED_ANTHROPIC_CREDENTIAL]'' None t;
         t2 = replace_by bearer_at ''Bearer [REDACTED]'' None t1
     in take limit (redact_tokens t2))"

text \<open>At most 64 members, three levels and a bounded text at each place.\<close>

function normalize_json :: "nat \<Rightarrow> json \<Rightarrow> json" where
  "normalize_json depth (JStr s) = JStr (sdk_redact 2000 (JStr s))"
| "normalize_json depth (JList xs) =
    (if 3 \<le> depth then JStr (sdk_redact 500 (JList xs))
     else JList (map (normalize_json (Suc depth)) (take 64 xs)))"
| "normalize_json depth (JObj kvs) =
    (if 3 \<le> depth then JStr (sdk_redact 500 (JObj kvs))
     else JObj (fold (\<lambda>(k, v). AList.update k v)
       (map (\<lambda>kv. (sdk_redact 100 (JStr (fst kv)), normalize_json (Suc depth) (snd kv))) (take 64 kvs)) []))"
| "normalize_json depth JNull = JNull"
| "normalize_json depth (JBool b) = JBool b"
| "normalize_json depth (JInt i) = JInt i"
| "normalize_json depth (JFloat l) = JFloat l"
  by pat_completeness auto

termination by (relation "measure (\<lambda>(depth, v). 3 - depth)") auto

section \<open>Results\<close>

definition sdk_marks :: "(string \<times> string \<times> string) list" where
  "sdk_marks = cli_marks @ [(''NO_CHANGE:'', ''no_change'', ''result'')]"

definition sdk_parse_terminal :: "string option \<Rightarrow> (string \<times> payload) option" where
  "sdk_parse_terminal result_text = (case result_text of
      None \<Rightarrow> None
    | Some s \<Rightarrow> if s = [] then None else find_terminal sdk_marks (split_lines s))"

text \<open>The message that ends a response of the SDK; an absent list or dictionary is empty.\<close>

record sdk_result =
  sr_subtype :: json
  sr_is_error :: bool
  sr_errors :: "json list"
  sr_api_error_status :: json
  sr_result :: "string option"
  sr_session_id :: json
  sr_usage :: payload
  sr_model_usage :: payload
  sr_total_cost_usd :: json
  sr_stop_reason :: json
  sr_num_turns :: json
  sr_duration_ms :: json
  sr_duration_api_ms :: json

definition sdk_snapshot :: "sdk_result \<Rightarrow> payload" where
  "sdk_snapshot m =
    (let usage = normalize_json 0 (JObj (sr_usage m));
         counted = (\<lambda>k. case usage of JObj u \<Rightarrow> jget k u | _ \<Rightarrow> JNull)
     in [(''subtype'', JStr (sdk_redact 100 (sr_subtype m))),
      (''is_error'', JBool (sr_is_error m)),
      (''errors'', normalize_json 0 (JList (sr_errors m))),
      (''api_error_status'', sr_api_error_status m),
      (''result'', JStr (sdk_redact 2000 (jopt (sr_result m)))),
      (''session_id'', JStr (sdk_redact 200 (sr_session_id m))),
      (''usage'', usage), (''model_usage'', normalize_json 0 (JObj (sr_model_usage m))),
      (''total_cost_usd'', sr_total_cost_usd m),
      (''stop_reason'', JStr (sdk_redact 100 (sr_stop_reason m))),
      (''num_turns'', sr_num_turns m),
      (''duration_ms'', sr_duration_ms m), (''duration_api_ms'', sr_duration_api_ms m),
      (''tokens_in'', counted ''input_tokens''), (''tokens_out'', counted ''output_tokens''),
      (''cost_usd'', sr_total_cost_usd m)])"

definition sdk_failure_category :: "payload \<Rightarrow> string list \<Rightarrow> (string \<times> string) option" where
  "sdk_failure_category result transcript =
    (let errors = (case jget ''errors'' result of JList es \<Rightarrow> map py_str es | _ \<Rightarrow> []);
         text = py_lower (join nl (transcript @ [py_str (json_or (jget ''result'' result) (JStr []))] @ errors));
         category = (if truthy (jget ''session_id'' result) then ''sdk_failure'' else ''backend_initialization_failure'') in
     if jget ''api_error_status'' result = JInt 401 then
       Some (''authentication_failure'', ''Claude backend rejected authentication (HTTP 401)'')
     else if has_marker auth_markers text then
       Some (''authentication_failure'', ''Claude Code reported an authentication failure'')
     else if truthy (jget ''is_error'' result) then
       (if truthy (jget ''api_error_status'' result) then Some (category, ''Claude backend returned an API error'')
        else Some (category, ''Claude Code returned an error ResultMessage''))
     else if \<not> truthy (jget ''session_id'' result) \<or>
         jget ''subtype'' result \<notin> {JStr ''success'', JStr ''completion''} then
       Some (''sdk_initialization_failure'', ''Claude SDK did not produce a successful session result'')
     else None)"

section \<open>The check before a tool is used\<close>

text \<open>
  \<open>resolve\<close> is \<open>Path.resolve\<close>: it may raise for a text that is no path and for a loop of links.
\<close>

definition path_escapes_worktree :: "(string \<Rightarrow> exc + string) \<Rightarrow> string \<Rightarrow> string \<Rightarrow> exc + bool" where
  "path_escapes_worktree resolve path worktree =
    (case bindE (resolve (path_join worktree path)) (\<lambda>p. bindE (resolve worktree) (\<lambda>w.
        Inr (\<not> inside (path_parts p) (path_parts w)))) of
       Inl (ValueError e) \<Rightarrow> Inr True
     | Inl (OSError e) \<Rightarrow> Inr True
     | v \<Rightarrow> v)"

text \<open>\<open>input.get("tool_input", {}) or {}\<close>, of which fields are read.\<close>

definition tool_input :: "payload \<Rightarrow> exc + payload" where
  "tool_input inp = as_dict (json_or (jget_default ''tool_input'' (JObj []) inp) (JObj []))"

definition tool_target :: "payload \<Rightarrow> string" where
  "tool_target ti = sdk_redact 2000 (json_or (json_or (jget ''file_path'' ti) (jget ''command'' ti)) (JStr []))"

text \<open>One line of the audit; \<open>task\<close> is null for a session without a task.\<close>

definition audit_record ::
    "string \<Rightarrow> json \<Rightarrow> string \<Rightarrow> payload \<Rightarrow> payload \<Rightarrow> string \<Rightarrow> string option \<Rightarrow> string option \<Rightarrow> payload" where
  "audit_record stamp task ph inp ti decision error reason =
    [(''timestamp'', JStr stamp), (''task_id'', JStr (sdk_redact 100 task)), (''phase'', JStr ph),
     (''tool'', JStr (sdk_redact 100 (jget ''tool_name'' inp))), (''target'', JStr (tool_target ti)),
     (''decision'', JStr decision),
     (''likely_network_or_history_attempt'', JBool (rx_search network_attempt None (tool_target ti)))] @
    (case error of None \<Rightarrow> [] | Some e \<Rightarrow> [(''error'', JStr (sdk_redact 1000 (JStr e)))]) @
    (case reason of None \<Rightarrow> [] | Some r \<Rightarrow> [(''reason'', JStr (sdk_redact 1000 (JStr r)))])"

definition blocked_reason :: string where
  "blocked_reason = ''network, package-install, or remote-Git commands are disabled '' @
    ''for this benchmark; use the preinstalled dependencies and local sources''"

definition deny :: "string \<Rightarrow> payload" where
  "deny reason = [(''hookSpecificOutput'', JObj [(''hookEventName'', JStr ''PreToolUse''),
    (''permissionDecision'', JStr ''deny''), (''permissionDecisionReason'', JStr reason)])]"

datatype tool_check = Allowed | Blocked_command | Path_outside json

text \<open>The decision on a use of a tool: commands first, then the path. \<open>Path\<close> takes only a text.\<close>

definition check_tool :: "(string \<Rightarrow> exc + string) \<Rightarrow> string \<Rightarrow> payload \<Rightarrow> exc + tool_check" where
  "check_tool resolve worktree inp =
    bindE (tool_input inp) (\<lambda>ti.
    if py_str (json_or (jget ''tool_name'' inp) (JStr [])) = ''Bash'' \<and>
       rx_search blocked_command None (py_str (json_or (jget ''command'' ti) (JStr [])))
    then Inr Blocked_command
    else if truthy (jget ''file_path'' ti)
    then bindE (as_text (jget ''file_path'' ti)) (\<lambda>path.
         bindE (path_escapes_worktree resolve path worktree) (\<lambda>out.
           Inr (if out then Path_outside (JStr path) else Allowed)))
    else Inr Allowed)"

definition hook_answer :: "tool_check \<Rightarrow> payload" where
  "hook_answer v = (case v of
      Allowed \<Rightarrow> []
    | Blocked_command \<Rightarrow> deny blocked_reason
    | Path_outside p \<Rightarrow> deny (''path '' @ py_repr p @ '' escapes the task worktree''))"

text \<open>The options of the client, less its hooks and the place of its error text.\<close>

definition ollama_tools :: "string list" where
  "ollama_tools = [''Bash'', ''Read'', ''Edit'', ''Write'', ''Glob'', ''Grep'']"

definition agent_options :: "string \<Rightarrow> string \<Rightarrow> string option \<Rightarrow> payload" where
  "agent_options backend worktree model =
    [(''cwd'', JStr worktree), (''model'', jopt model), (''permission_mode'', JStr ''bypassPermissions'')] @
    (if py_lower (strip backend) = ''ollama''
     then [(''tools'', JList (map JStr ollama_tools)), (''thinking'', JObj [(''type'', JStr ''disabled'')])]
     else [])"

end
