(* ===== verification/Sdk_Session.thy ===== *)
theory Sdk_Session
  imports Sdk_Worker
begin

text \<open>
  The session of \<open>worker/sdk_worker.py\<close>: connection, turns, questions and the end. What the SDK does in
  a turn is a list of items: messages, calls of the three tool hooks, and what may end the stream. The
  fifteen-second heartbeat of the journal is left out.
\<close>

section \<open>What the SDK does\<close>

datatype sdk_item =
    Assistant "string list" payload
  | Result sdk_result
  | Other_message
  | Pre_tool payload
  | Post_tool payload
  | Post_tool_failure payload
  | Turn_raises exc
  | Turn_times_out

datatype sdk_connect = Connected | Connect_times_out | Connect_raises string string

text \<open>The surroundings of a session; \<open>se_stamp\<close> is the clock at the n-th line of the audit.\<close>

record sdk_env =
  se_task :: "string option"
  se_worktree :: string
  se_timeout :: json
  se_audit :: bool
  se_stamp :: "nat \<Rightarrow> string"
  se_resolve :: "string \<Rightarrow> exc + string"

text \<open>
  What the session keeps and has done: printed events, journal, audit lines, prompts, the answers of
  its hooks, and whether it has disconnected.
\<close>

record sdk =
  sk_started :: bool
  sk_turn :: nat
  sk_out :: "(string \<times> payload) list"
  sk_journal :: "(string \<times> payload) list"
  sk_audit :: "payload list"
  sk_prompts :: "string list"
  sk_answers :: "(exc + payload) list"
  sk_closed :: bool

text \<open>What a turn has seen so far.\<close>

record turn =
  tu_terminal :: "(string \<times> payload) option"
  tu_cost :: json
  tu_session :: json
  tu_said :: "string list"
  tu_snapshot :: "payload option"
  tu_answered :: bool

datatype turn_end = Turn_ok turn | Turn_failed | Turn_timed_out

definition sdk_emit :: "string \<Rightarrow> payload \<Rightarrow> (sdk, unit) io" where
  "sdk_emit kind p = modify_io (\<lambda>s. s\<lparr>sk_out := sk_out s @ [(kind, p)]\<rparr>)"

definition sdk_diag :: "sdk_env \<Rightarrow> string \<Rightarrow> payload \<Rightarrow> (sdk, unit) io" where
  "sdk_diag E event p = modify_io (\<lambda>s. s\<lparr>sk_journal := sk_journal s @ [(event,
    (case se_task E of None \<Rightarrow> p | Some t \<Rightarrow> AList.update ''task_id'' (JStr t) p))]\<rparr>)"

section \<open>Hooks\<close>

definition sdk_audit ::
    "sdk_env \<Rightarrow> string \<Rightarrow> payload \<Rightarrow> string \<Rightarrow> string option \<Rightarrow> string option \<Rightarrow> (sdk, unit) io" where
  "sdk_audit E ph inp decision error reason =
    when_io (se_audit E)
      (bind_io (lift_io (tool_input inp)) (\<lambda>ti.
        modify_io (\<lambda>s. s\<lparr>sk_audit := sk_audit s @
          [audit_record (se_stamp E (length (sk_audit s))) (jopt (se_task E)) ph inp ti decision error reason]\<rparr>)))"

definition pre_tool :: "sdk_env \<Rightarrow> payload \<Rightarrow> (sdk, payload) io" where
  "pre_tool E inp =
    bind_io (lift_io (check_tool (se_resolve E) (se_worktree E) inp)) (\<lambda>v.
    then_io (case v of
        Allowed \<Rightarrow> sdk_audit E ''pre'' inp ''allowed'' None None
      | Blocked_command \<Rightarrow> sdk_audit E ''pre'' inp ''denied'' None (Some blocked_reason)
      | Path_outside p \<Rightarrow> sdk_audit E ''pre'' inp ''denied'' None None)
    (ret_io (hook_answer v)))"

definition post_tool :: "sdk_env \<Rightarrow> payload \<Rightarrow> (sdk, payload) io" where
  "post_tool E inp =
    bind_io (lift_io (tool_input inp)) (\<lambda>ti.
    then_io (sdk_audit E ''post'' inp ''completed'' None None)
    (then_io (sdk_emit ''tool_used'' [(''tool'', jget ''tool_name'' inp), (''target'', JStr (tool_target ti)),
      (''agent_id'', jget ''agent_id'' inp)])
    (ret_io [])))"

definition post_tool_failure :: "sdk_env \<Rightarrow> payload \<Rightarrow> (sdk, payload) io" where
  "post_tool_failure E inp =
    (let error = sdk_redact 1000 (jget ''error'' inp) in
    then_io (sdk_audit E ''post'' inp ''failed'' (Some error) None)
    (then_io (sdk_emit ''tool_used'' [(''tool'', jget ''tool_name'' inp), (''error'', JStr error),
      (''agent_id'', jget ''agent_id'' inp)])
    (ret_io [])))"

text \<open>The SDK receives what a hook returns or raises.\<close>

definition call_hook :: "(sdk, payload) io \<Rightarrow> (sdk, unit) io" where
  "call_hook m s = (case m s of (r, s') \<Rightarrow> (Inr (), s'\<lparr>sk_answers := sk_answers s' @ [r]\<rparr>))"

section \<open>A turn\<close>

definition turn_init :: turn where
  "turn_init = \<lparr>tu_terminal = None, tu_cost = JNull, tu_session = JNull, tu_said = [], tu_snapshot = None,
    tu_answered = False\<rparr>"

definition on_assistant :: "sdk_env \<Rightarrow> turn \<Rightarrow> string list \<Rightarrow> payload \<Rightarrow> (sdk, turn) io" where
  "on_assistant E t texts usage =
    bind_io (gets_io sk_turn) (\<lambda>n.
    then_io (when_io (\<not> tu_answered t) (sdk_diag E ''sdk.first_response'' [(''turn'', JInt (int n))]))
    (let said = concat texts; t1 = t\<lparr>tu_answered := True\<rparr> in
     if strip said = [] then ret_io t1
     else then_io (sdk_emit ''messaged'' [(''text'', JStr (take 500 said)),
         (''tokens_in'', jget ''input_tokens'' usage), (''tokens_out'', jget ''output_tokens'' usage)])
       (ret_io (t1\<lparr>tu_said := tu_said t1 @ [said]\<rparr>))))"

definition sdk_fail :: "sdk_env \<Rightarrow> string \<times> string \<Rightarrow> payload \<Rightarrow> (sdk, unit) io" where
  "sdk_fail E failure snapshot =
    bind_io (gets_io sk_turn) (\<lambda>n.
    then_io (sdk_diag E ''sdk.failed'' [(''turn'', JInt (int n)), (''category'', JStr (fst failure)),
      (''api_error_status'', jget ''api_error_status'' snapshot),
      (''has_session'', JBool (truthy (jget ''session_id'' snapshot)))])
    (sdk_emit (if fst failure = ''sdk_failure'' then ''sdk_failed'' else ''startup_failed'')
      [(''category'', JStr (fst failure)), (''reason'', JStr (snd failure)), (''result'', JObj snapshot)]))"

text \<open>A result: reported, then judged; the first good one announces the session.\<close>

definition on_result :: "sdk_env \<Rightarrow> turn \<Rightarrow> sdk_result \<Rightarrow> (sdk, turn option) io" where
  "on_result E t m =
    (let snapshot = sdk_snapshot m;
         t1 = t\<lparr>tu_snapshot := Some snapshot, tu_terminal := sdk_parse_terminal (sr_result m),
           tu_cost := sr_total_cost_usd m, tu_session := sr_session_id m\<rparr> in
    bind_io (gets_io sk_turn) (\<lambda>n.
    then_io (sdk_diag E ''sdk.result_received'' [(''turn'', JInt (int n)), (''is_error'', JBool (sr_is_error m))])
    (then_io (sdk_emit ''result'' snapshot)
    (case sdk_failure_category snapshot (tu_said t) of
       Some failure \<Rightarrow> then_io (sdk_fail E failure snapshot) (ret_io None)
     | None \<Rightarrow>
         bind_io (gets_io sk_started) (\<lambda>started.
         then_io (when_io (\<not> started)
           (then_io (sdk_emit ''execution_started''
               [(''session_id'', sr_session_id m), (''subtype'', jget ''subtype'' snapshot)])
             (modify_io (\<lambda>s. s\<lparr>sk_started := True\<rparr>))))
         (ret_io (Some t1)))))))"

fun turn_items :: "sdk_env \<Rightarrow> turn \<Rightarrow> sdk_item list \<Rightarrow> (sdk, turn_end) io" where
  "turn_items E t [] =
    bind_io (gets_io sk_turn) (\<lambda>n.
    then_io (sdk_diag E ''sdk.turn_stream_ended'' [(''turn'', JInt (int n))]) (ret_io (Turn_ok t)))"
| "turn_items E t (i # is) = (case i of
      Assistant texts usage \<Rightarrow> bind_io (on_assistant E t texts usage) (\<lambda>t1. turn_items E t1 is)
    | Result m \<Rightarrow> bind_io (on_result E t m) (\<lambda>r. case r of
          None \<Rightarrow> ret_io Turn_failed
        | Some t1 \<Rightarrow> turn_items E t1 is)
    | Other_message \<Rightarrow> turn_items E t is
    | Pre_tool inp \<Rightarrow> then_io (call_hook (pre_tool E inp)) (turn_items E t is)
    | Post_tool inp \<Rightarrow> then_io (call_hook (post_tool E inp)) (turn_items E t is)
    | Post_tool_failure inp \<Rightarrow> then_io (call_hook (post_tool_failure E inp)) (turn_items E t is)
    | Turn_raises e \<Rightarrow> raise_io e
    | Turn_times_out \<Rightarrow> ret_io Turn_timed_out)"

text \<open>
  One turn: the submission of the prompt may raise, and the time limit may pass while it is submitted.
\<close>

datatype submission = Submitted | Submit_raises exc | Submit_times_out

definition receive_turn :: "sdk_env \<Rightarrow> submission \<times> sdk_item list \<Rightarrow> string \<Rightarrow> (sdk, turn_end) io" where
  "receive_turn E steps prompt =
    then_io (modify_io (\<lambda>s. s\<lparr>sk_turn := Suc (sk_turn s)\<rparr>))
    (bind_io (gets_io sk_turn) (\<lambda>n.
    then_io (sdk_diag E ''sdk.turn_started'' [(''turn'', JInt (int n)), (''timeout_s'', se_timeout E)])
    (then_io (modify_io (\<lambda>s. s\<lparr>sk_prompts := sk_prompts s @ [prompt]\<rparr>))
    (case fst steps of
       Submit_raises e \<Rightarrow> raise_io e
     | Submit_times_out \<Rightarrow> ret_io Turn_timed_out
     | Submitted \<Rightarrow>
         then_io (sdk_diag E ''sdk.prompt_submitted'' [(''turn'', JInt (int n))])
         (turn_items E turn_init (snd steps))))))"

section \<open>The session\<close>

definition claim_fields :: "turn \<Rightarrow> payload \<Rightarrow> payload" where
  "claim_fields t extra = [(''cost_usd'', tu_cost t), (''session_id'', tu_session t)] @ extra"

text \<open>What follows a turn; \<open>ask\<close> is what follows a question.\<close>

definition after_turn :: "sdk_env \<Rightarrow> turn_end \<Rightarrow> (sdk, int) io \<Rightarrow> (sdk, int) io" where
  "after_turn E r ask = (case r of
      Turn_timed_out \<Rightarrow>
        bind_io (gets_io sk_turn) (\<lambda>n.
        then_io (sdk_diag E ''sdk.timeout'' [(''phase'', JStr ''turn''), (''turn'', JInt (int n)),
          (''timeout_s'', se_timeout E)])
        (then_io (sdk_emit ''sdk_timeout'' [(''category'', JStr ''sdk_timeout''), (''phase'', JStr ''turn''),
          (''timeout_s'', se_timeout E), (''reason'', JStr ''Claude SDK turn exceeded its bounded timeout'')])
        (ret_io 1)))
    | Turn_failed \<Rightarrow> ret_io 1
    | Turn_ok t \<Rightarrow> (case tu_snapshot t of
        None \<Rightarrow>
          then_io (sdk_emit ''startup_failed'' [(''category'', JStr ''sdk_initialization_failure''),
            (''reason'', JStr ''Claude SDK stream ended without a ResultMessage'')])
          (ret_io 1)
      | Some snapshot \<Rightarrow> (case tu_terminal t of
          Some (kind, extra) \<Rightarrow>
            then_io (sdk_emit kind (claim_fields t extra))
            (if kind = ''asked'' then ask else ret_io 0)
        | None \<Rightarrow>
            then_io (sdk_emit ''unclaimed'' [(''reason'', JStr ''result_missing_terminal_marker''),
              (''session_id'', tu_session t), (''result'', JStr (sdk_redact 2000 (jget ''result'' snapshot)))])
            (ret_io 0))))"

text \<open>\<open>turns\<close> is what the SDK does in each turn; each question takes one line of the own input.\<close>

fun sdk_loop ::
    "sdk_env \<Rightarrow> (nat \<Rightarrow> submission \<times> sdk_item list) \<Rightarrow> string list \<Rightarrow> string \<Rightarrow> (sdk, int) io" where
  "sdk_loop E turns [] prompt =
    bind_io (gets_io sk_turn) (\<lambda>n.
    bind_io (receive_turn E (turns n) prompt) (\<lambda>r. after_turn E r (ret_io 0)))"
| "sdk_loop E turns (reply # replies) prompt =
    bind_io (gets_io sk_turn) (\<lambda>n.
    bind_io (receive_turn E (turns n) prompt) (\<lambda>r.
      after_turn E r (if reply = [] then ret_io 0 else sdk_loop E turns replies (drop_newlines reply))))"

definition sdk_protocol :: string where
  "sdk_protocol = join nl [
    ''You must perform the requested work in the worktree using the available coding'',
    ''tools. A text-only explanation is not completion. Begin by inspecting or'',
    ''editing the relevant file immediately; do not just describe what should be'',
    ''done.'', [],
    ''Commit your changes in the worktree before claiming done. Uncommitted work'',
    ''will fail verification.'', [],
    ''Run the requested visible verification after editing and correct any failure.'', [],
    ''When you are completely finished, end your final message with exactly one line:'',
    ''DONE_CLAIM: <one-line summary of what you did>'', [],
    ''If you are blocked on a decision only a human can make, end your message with'',
    ''exactly one line instead, and stop there:'',
    ''ASK: <your question>'', [],
    ''If the requested work is already satisfied and no file change is required,'',
    ''end your final message with exactly one line instead:'',
    ''NO_CHANGE: <one-line explanation>'']"

definition sdk_prompt :: "string \<Rightarrow> string" where
  "sdk_prompt brief = strip_end brief @ nl @ nl @ sdk_protocol @ nl"

text \<open>The end: a failing disconnect is ignored.\<close>

definition sdk_close :: "sdk_env \<Rightarrow> (sdk, unit) io" where
  "sdk_close E =
    then_io (sdk_diag E ''sdk.disconnect_started'' [])
    (then_io (modify_io (\<lambda>s. s\<lparr>sk_closed := True\<rparr>))
    (sdk_diag E ''sdk.worker_finished'' []))"

text \<open>\<open>err\<close> are the lines the SDK wrote to its error stream while connecting.\<close>

definition connect_failed :: "sdk_env \<Rightarrow> string list \<Rightarrow> string \<Rightarrow> string \<Rightarrow> (sdk, int) io" where
  "connect_failed E err kind message =
    (let error = sdk_redact 2000 (JStr message);
         lines = map (\<lambda>l. sdk_redact 1000 (JStr l)) (filter (\<lambda>l. l \<noteq> []) err);
         category = (if has_marker auth_markers (py_lower error) then ''authentication_failure''
           else ''sdk_initialization_failure'') in
    then_io (sdk_diag E ''sdk.connect_failed'' [(''failure_type'', JStr kind)])
    (then_io (sdk_emit ''startup_failed'' [(''category'', JStr category),
       (''error'', JStr (if lines = [] then error
         else error @ ''; sdk_stderr: '' @ sdk_redact 2000 (JStr (join '' '' lines))))])
    (ret_io 1)))"

definition sdk_run ::
    "sdk_env \<Rightarrow> sdk_connect \<Rightarrow> string list \<Rightarrow> (nat \<Rightarrow> submission \<times> sdk_item list) \<Rightarrow> string list \<Rightarrow> string \<Rightarrow> (sdk, int) io" where
  "sdk_run E connect err turns replies brief =
    then_io (sdk_diag E ''sdk.worker_started'' [])
    (then_io (sdk_diag E ''sdk.connect_started'' [(''timeout_s'', se_timeout E)])
    (case connect of
       Connect_times_out \<Rightarrow>
         then_io (sdk_diag E ''sdk.timeout'' [(''phase'', JStr ''connect''), (''timeout_s'', se_timeout E)])
         (then_io (sdk_emit ''startup_failed'' [(''category'', JStr ''sdk_timeout''), (''phase'', JStr ''connect''),
           (''timeout_s'', se_timeout E), (''reason'', JStr ''Claude SDK connection exceeded its bounded timeout'')])
         (ret_io 1))
     | Connect_raises kind message \<Rightarrow> connect_failed E err kind message
     | Connected \<Rightarrow>
         then_io (sdk_diag E ''sdk.connect_succeeded'' [])
         (finally_io (sdk_loop E turns replies (sdk_prompt brief)) (sdk_close E))))"

definition sdk_init :: sdk where
  "sdk_init = \<lparr>sk_started = False, sk_turn = 0, sk_out = [], sk_journal = [], sk_audit = [], sk_prompts = [],
    sk_answers = [], sk_closed = False\<rparr>"

end
