(* ===== verification/Cli_Properties.thy ===== *)
theory Cli_Properties
  imports Cli_Worker Host_Laws
begin

text \<open>
  The stream of events that the Claude Code bridge prints: its order, its session, and how it goes
  with the exit code.
\<close>

section \<open>The order of events\<close>

text \<open>Phase 0 is before the session, 1 within it, 2 after a failed start, 3 after the final claim.\<close>

definition phase_next :: "nat \<Rightarrow> string \<Rightarrow> nat option" where
  "phase_next p k =
    (if k = ''startup_failed'' \<and> p \<le> 1 then Some 2
     else if p = 0 then (if k = ''execution_started'' then Some 1 else None)
     else if p = 1 then
       (if k \<in> {''messaged'', ''tool_used'', ''result'', ''asked''} then Some 1
        else if k = ''done_claimed'' then Some 3 else None)
     else None)"

definition phase :: "string list \<Rightarrow> nat option" where
  "phase ks = foldl (\<lambda>p k. Option.bind p (\<lambda>p. phase_next p k)) (Some 0) ks"

lemma phase_snoc [simp]: "phase (ks @ [k]) = Option.bind (phase ks) (\<lambda>p. phase_next p k)"
  by (simp add: phase_def)

lemma phase_Nil [simp]: "phase [] = Some 0"
  by (simp add: phase_def)

lemma phase_ends:
  "phase ks = Some p \<Longrightarrow> p \<le> 3 \<and> (''startup_failed'' \<in> set ks \<longleftrightarrow> p = 2) \<and> (''done_claimed'' \<in> set ks \<longleftrightarrow> p = 3)"
proof (induction ks arbitrary: p rule: rev_induct)
  case (snoc k ks)
  obtain q where q: "phase ks = Some q" "phase_next q k = Some p" using snoc.prems by (auto simp: bind_eq_Some_conv)
  show ?case using snoc.IH[OF q(1)] q(2) by (auto simp: phase_next_def split: if_splits)
qed simp

section \<open>Every step\<close>

text \<open>Every event except a result names the session, or none.\<close>

definition one_session :: "cli \<Rightarrow> bool" where
  "one_session c \<longleftrightarrow> (\<forall>(k, p) \<in> set (cl_out c). k \<noteq> ''result'' \<longrightarrow>
    map_of p ''session_id'' = None \<or> map_of p ''session_id'' = Some (cl_session c) \<and> truthy (cl_session c))"

definition running :: "cli \<Rightarrow> bool" where
  "running c \<longleftrightarrow> phase (map fst (cl_out c)) = Some (if cl_started c then 1 else 0) \<and> one_session c"

definition begun :: "cli \<Rightarrow> bool" where
  "begun c \<longleftrightarrow> running c \<and> cl_started c"

definition ended :: "nat \<Rightarrow> cli \<Rightarrow> bool" where
  "ended p c \<longleftrightarrow> phase (map fst (cl_out c)) = Some p \<and> one_session c"

lemma event_begun:
  assumes "k \<in> {''messaged'', ''tool_used'', ''asked''}" "map_of p ''session_id'' = None"
  shows "triple begun (cli_event k p) (\<lambda>_. begun)"
  using assms
  by (auto simp: triple_def cli_event_def cli_emit_def io_defs begun_def running_def one_session_def phase_next_def
      update_conv)

lemma event_ends:
  assumes "map_of p ''session_id'' = None"
  shows "triple running (cli_event ''startup_failed'' p) (\<lambda>r c. r = Inr () \<and> ended 2 c)"
  using assms
  by (auto simp: triple_def cli_event_def cli_emit_def io_defs running_def ended_def one_session_def phase_next_def
      update_conv)

lemma terminal_kind:
  assumes "parse_terminal v = Some (kind, extra)"
  shows "kind \<in> {''done_claimed'', ''asked''} \<and> map_of extra ''session_id'' = None"
proof -
  have "find_terminal cli_marks ls = Some (kind, extra) \<Longrightarrow> ?thesis" for ls
  proof (induction ls)
    case (Cons l ls)
    then show ?case by (auto simp: cli_marks_def split: if_splits)
  qed simp
  then show ?thesis using assms by (auto simp: parse_terminal_def split: json.splits if_splits)
qed

lemma tool_keys:
  assumes "tool_uses rec = Inr us" "p \<in> set us"
  shows "map_of p ''session_id'' = None"
proof -
  have blocks: "p \<in> set (tool_blocks bs) \<Longrightarrow> map_of p ''session_id'' = None" for bs
    by (induction bs rule: tool_blocks.induct) (auto simp: Let_def split: json.splits if_splits)
  show ?thesis
  proof (cases "jget ''type'' rec = JStr ''assistant''")
    case True
    then obtain m where us: "us = (case jget ''content'' m of JList bs \<Rightarrow> tool_blocks bs | _ \<Rightarrow> [])"
      using assms(1) by (auto simp: tool_uses_def bindE_Inr_iff)
    show ?thesis using assms(2) blocks unfolding us by (cases "jget ''content'' m") simp_all
  qed (use assms in \<open>simp add: tool_uses_def\<close>)
qed

lemma triple_lift: "triple P (lift_io v) (\<lambda>r c. P c \<and> r = v)"
  by (simp add: triple_def lift_io_def)

lemma triple_gets: "triple P (gets_io f) (\<lambda>r c. P c \<and> r = Inr (f c))"
  by (simp add: triple_def gets_io_def)

definition opens :: "payload \<Rightarrow> bool" where
  "opens rec \<longleftrightarrow> jget ''type'' rec \<in> {JStr ''system'', JStr ''assistant'', JStr ''stream_event'', JStr ''result''}"

definition heard :: "payload \<Rightarrow> cli \<Rightarrow> bool" where
  "heard rec c \<longleftrightarrow> running c \<and> (opens rec \<longrightarrow> begun c)"

lemma started_begun:
  "triple running (note_started rec) (\<lambda>_. heard rec)"
  by (auto simp: heard_def opens_def triple_def note_started_def cli_event_def cli_emit_def io_defs begun_def running_def one_session_def
      phase_next_def update_conv)

lemma text_heard: "triple (heard rec) (note_text rec) (\<lambda>_. heard rec)"
  by (cases "assistant_text rec")
    (auto simp: triple_def note_text_def lift_io_def cli_event_def cli_emit_def io_defs begun_def running_def
      one_session_def phase_next_def update_conv heard_def opens_def)

lemma for_begun:
  "(\<And>p. p \<in> set us \<Longrightarrow> map_of p ''session_id'' = None) \<Longrightarrow> triple begun (for_io us (cli_event ''tool_used'')) (\<lambda>_. begun)"
proof (induction us)
  case (Cons p us)
  show ?case unfolding for_io.simps
    by (rule triple_then[OF event_begun]) (use Cons in auto)
qed (simp add: triple_ret)

lemma send_keeps: "triple running (send_prompt text) (\<lambda>_. running)" "triple begun (send_prompt text) (\<lambda>_. begun)"
  by (auto simp: triple_def send_prompt_def io_defs begun_def running_def one_session_def)

section \<open>A line, all lines, the run\<close>

definition after_line :: "exc + cli_next \<Rightarrow> cli \<Rightarrow> bool" where
  "after_line r c \<longleftrightarrow> (case r of
      Inl e \<Rightarrow> running c
    | Inr Go_on \<Rightarrow> running c
    | Inr Stop_reading \<Rightarrow> running c \<or> ended 3 c \<and> cl_started c
    | Inr (Leave n) \<Rightarrow> n = 0 \<and> running c \<or> n = 1 \<and> (ended 2 c \<or> begun c))"

lemma begun_running: "begun c \<Longrightarrow> running c"
  by (simp add: begun_def)

lemma fail_after: "map_of p ''session_id'' = None \<Longrightarrow> triple running (fail_session p) after_line"
  unfolding fail_session_def
  by (rule triple_then[OF event_ends])
    (auto simp: triple_def kill_cli_def io_defs after_line_def ended_def one_session_def)

lemma claim_ends:
  "map_of p ''session_id'' = None \<Longrightarrow>
    triple begun (cli_event ''done_claimed'' p) (\<lambda>r c. r = Inr () \<and> ended 3 c \<and> cl_started c)"
  by (auto simp: triple_def cli_event_def cli_emit_def io_defs begun_def running_def ended_def one_session_def
      phase_next_def update_conv)

lemma begun_modify: "(\<And>c. cl_out (f c) = cl_out c \<and> cl_started (f c) = cl_started c \<and> cl_session (f c) = cl_session c) \<Longrightarrow>
    triple begun (modify_io f) (\<lambda>_. begun)"
  by (auto simp: triple_def io_defs begun_def running_def one_session_def)

lemma reply_begun: "triple begun next_reply (\<lambda>_. begun)"
  by (auto simp: triple_def next_reply_def io_defs begun_def running_def one_session_def)

lemma end_turn_after: "triple begun (end_turn rec snapshot) after_line"
proof -
  have totals: "map_of (extra @ totals snapshot) ''session_id'' = None" if "map_of extra ''session_id'' = None" for extra
    using that by (simp add: totals_def)
  have go: "triple begun (ret_io Go_on) after_line"
    by (rule triple_ret) (simp add: after_line_def begun_running)
  have asked: "triple begun (then_io (cli_event ''asked'' p) (bind_io next_reply (\<lambda>reply.
      if reply = [] then ret_io (Leave 0) else then_io (send_prompt (drop_newlines reply)) (ret_io Go_on)))) after_line"
    if "map_of p ''session_id'' = None" for p
    by (rule triple_then[OF event_begun], simp, rule that, rule triple_bind[OF reply_begun], rule triple_if)
      (auto intro!: triple_ret triple_then[OF send_keeps(2)] go simp: after_line_def begun_running)
  have claimed: "triple begun (then_io (cli_event ''done_claimed'' p) (ret_io Stop_reading)) after_line"
    if "map_of p ''session_id'' = None" for p
    by (rule triple_then[OF claim_ends[OF that]]) (auto intro: triple_ret simp: after_line_def)
  have turn: "triple begun (case parse_terminal v of None \<Rightarrow> ret_io Go_on | Some (kind, extra) \<Rightarrow>
      then_io (cli_event kind (extra @ totals snapshot))
        (if kind = ''asked'' then bind_io next_reply (\<lambda>reply. if reply = [] then ret_io (Leave 0)
           else then_io (send_prompt (drop_newlines reply)) (ret_io Go_on)) else ret_io Stop_reading)) after_line" for v
  proof (cases "parse_terminal v")
    case (Some ke)
    then show ?thesis using terminal_kind[of v "fst ke" "snd ke"] asked claimed totals by (cases ke) auto
  qed (simp add: go)
  show ?thesis unfolding end_turn_def Let_def
    by (rule triple_then[OF begun_modify]) (simp_all add: turn after_line_def begun_running)
qed

lemma result_event: "triple begun (cli_emit ''result'' p) (\<lambda>_. begun)"
  by (auto simp: triple_def cli_emit_def io_defs begun_def running_def one_session_def phase_next_def)

lemma result_after: "triple begun (cli_result trunc rec) after_line"
proof -
  have err: "begun c \<Longrightarrow> after_line (Inl e) c" for e c by (simp add: after_line_def begun_running)
  have fail: "triple begun (fail_session [(''category'', x), (''reason'', y), (''result'', z)]) after_line" for x y z
    by (rule triple_pre[OF fail_after]) (simp_all add: begun_running)
  have dead: "triple (\<lambda>c. begun c \<and> X c \<and> \<not> cl_started c) m after_line" for X and m :: "(cli, cli_next) io"
    unfolding triple_def begun_def by blast
  have turn: "triple (\<lambda>c. begun c \<and> X c) (end_turn rec snapshot) after_line" for X snapshot
    by (rule triple_pre[OF end_turn_after]) simp
  show ?thesis unfolding cli_result_def
    by (rule triple_bind[OF triple_lift], rule triple_then[OF triple_pre[OF result_event]],
        simp, rule triple_bind[OF triple_gets])
      (auto intro!: triple_pre[OF fail] triple_bind[OF triple_gets] dead turn err split: option.split)
qed

lemma session_running:
  "triple (\<lambda>c. running c \<and> \<not> (truthy rid \<and> truthy (cl_session c) \<and> rid \<noteq> cl_session c))
    (when_io (truthy rid) (modify_io (\<lambda>c. c\<lparr>cl_session := rid\<rparr>))) (\<lambda>_. running)"
  by (auto simp: triple_def io_defs running_def one_session_def)

lemma tools_heard: "triple (heard rec) (note_tools rec) (\<lambda>_. heard rec)"
proof (cases "tool_uses rec")
  case (Inr us)
  show ?thesis
  proof (cases "opens rec")
    case True
    have same: "heard rec = begun" using True by (auto simp: heard_def begun_def fun_eq_iff)
    have "note_tools rec = for_io us (cli_event ''tool_used'')"
      by (simp add: fun_eq_iff note_tools_def lift_io_def bind_io_def Inr)
    then show ?thesis using for_begun[of us] tool_keys[OF Inr] by (simp add: same)
  next
    case False
    then have "us = []" using Inr by (simp add: opens_def tool_uses_def)
    then show ?thesis using Inr by (simp add: note_tools_def lift_io_def triple_def io_defs)
  qed
qed (simp add: note_tools_def lift_io_def triple_def io_defs)

lemma checked_after: "triple running (cli_checked trunc rec) after_line"
proof -
  let ?rid = "jget ''session_id'' rec"
  have err: "heard rec c \<Longrightarrow> after_line (Inl e) c" "running c \<Longrightarrow> after_line (Inl e) c" for e c
    by (simp_all add: after_line_def heard_def)
  have changed: "triple (\<lambda>c. running c \<and> X c) (fail_session [(''category'', x), (''error'', y)]) after_line" for X x y
    by (rule triple_pre[OF fail_after]) simp_all
  have finish: "triple (heard rec) (if jget ''type'' rec \<noteq> JStr ''result'' then ret_io Go_on else cli_result trunc rec) after_line"
    by (rule triple_if, rule triple_ret, simp add: after_line_def heard_def,
        rule triple_pre[OF result_after], simp add: heard_def opens_def)
  have all: "triple (\<lambda>c. running c \<and> \<not> (truthy ?rid \<and> truthy (cl_session c) \<and> ?rid \<noteq> cl_session c))
      (then_io (when_io (truthy ?rid) (modify_io (\<lambda>c. c\<lparr>cl_session := ?rid\<rparr>)))
      (then_io (note_started rec) (then_io (note_text rec) (then_io (note_tools rec)
        (if jget ''type'' rec \<noteq> JStr ''result'' then ret_io Go_on else cli_result trunc rec))))) after_line"
    by (rule triple_then[OF session_running] triple_then[OF started_begun] triple_then[OF text_heard]
      triple_then[OF tools_heard] finish err | assumption)+
  show ?thesis unfolding cli_checked_def Let_def
    by (rule triple_bind[OF triple_gets], rule triple_if, rule changed, rule triple_pre[OF all], force, simp add: err)
qed

lemma line_after: "triple running (cli_line trunc l) after_line"
proof (cases l)
  case (Line s)
  show ?thesis
  proof (cases "parse_cli_line s")
    case (Inl e)
    then show ?thesis using fail_after
      by (cases e) (simp_all add: cli_line_def Line triple_raise after_line_def)
  qed (simp add: cli_line_def Line checked_after)
qed (simp add: cli_line_def triple_raise after_line_def)

lemma lines_after: "triple running (cli_lines trunc ls) after_line"
proof (induction ls)
  case (Cons l ls)
  have "triple (after_line (Inr x)) (if x = Go_on then cli_lines trunc ls else ret_io x) after_line" for x
    using Cons.IH by (cases x) (auto intro!: triple_ret triple_pre[OF Cons.IH] simp: after_line_def[of "Inr Go_on"])
  then show ?case unfolding cli_lines.simps
    by (rule triple_bind[OF line_after]) (simp add: after_line_def)
qed (simp add: triple_ret after_line_def)

lemma failure_after: "triple running (cli_io_failure e) after_line"
  by (cases e) (auto simp: cli_io_failure_def triple_def io_defs cli_emit_def after_line_def running_def begun_def
      ended_def one_session_def phase_next_def)

definition after_run :: "exc + int \<Rightarrow> cli \<Rightarrow> bool" where
  "after_run r c \<longleftrightarrow> (running c \<and> r \<noteq> Inr 1 \<or> ended 2 c \<and> r = Inr 1 \<or> ended 3 c \<and> r = Inr 0 \<or> begun c \<and> r = Inr 1) \<and>
    (\<forall>n. r = Inr n \<longrightarrow> n = 0 \<or> n = 1)"

lemma triple_catch:
  assumes "triple P m (\<lambda>r c. case r of Inl e \<Rightarrow> M e c | Inr x \<Rightarrow> Q (Inr x) c)" "\<And>e. triple (M e) (h e) Q"
  shows "triple P (catch_io m h) Q"
  unfolding triple_def catch_io_def
proof (intro allI impI)
  fix w assume "P w"
  obtain r w1 where m: "m w = (r, w1)" by fastforce
  have "case r of Inl e \<Rightarrow> M e w1 | Inr x \<Rightarrow> Q (Inr x) w1" by (rule tripleD[OF assms(1) \<open>P w\<close> m])
  then show "case (case m w of (Inl e, w') \<Rightarrow> h e w' | (Inr x, w') \<Rightarrow> (Inr x, w')) of (r, w') \<Rightarrow> Q r w'"
    using m assms(2) by (cases r) (auto simp: triple_def)
qed

lemma exit_after: "triple (after_line (Inr x)) (case x of Leave c \<Rightarrow> ret_io c | _ \<Rightarrow> cli_exit code) after_run"
  by (cases x) (auto simp: triple_def cli_exit_def cli_emit_def io_defs after_line_def after_run_def running_def begun_def
      ended_def one_session_def phase_next_def)

lemma start_after: "triple running (then_io (send_prompt p) (cli_lines trunc ls)) after_line"
  by (rule triple_then[OF send_keeps(1) lines_after]) (simp add: after_line_def)

lemma run_after: "triple running (cli_run trunc spawn_error brief ls code) after_run"
proof (cases spawn_error)
  case None
  have body: "triple running (catch_io (then_io (send_prompt p) (cli_lines trunc ls)) cli_io_failure) after_line" for p
    by (rule triple_catch[OF triple_post[OF start_after] failure_after]) (simp add: after_line_def split: sum.splits)
  show ?thesis unfolding cli_run_def None option.case
    by (rule triple_bind[where M = after_line], rule body, rule exit_after, simp add: after_line_def after_run_def)
next
  case (Some e)
  then show ?thesis
    by (auto simp: cli_run_def triple_def cli_emit_def io_defs after_run_def running_def ended_def one_session_def
        phase_next_def)
qed

text \<open>
  C17. The events that the bridge prints follow its protocol whatever the command prints: the session
  is announced before its messages, tools, results and questions, nothing follows a failed start or a
  final claim, and they name one session. A failed start ends with code 1, a final claim with code 0,
  and no other code is returned.
\<close>

theorem cli_stream_ordered:
  assumes "cli_run trunc spawn_error brief ls code (cli_init replies broken) = (r, c)"
  defines "ks \<equiv> map fst (cl_out c)"
  shows "phase ks \<noteq> None \<and> (\<forall>n. r = Inr n \<longrightarrow> n = 0 \<or> n = 1) \<and>
    (''startup_failed'' \<in> set ks \<longrightarrow> r = Inr 1) \<and> (''done_claimed'' \<in> set ks \<longrightarrow> r = Inr 0) \<and>
    (\<forall>(k, p) \<in> set (cl_out c). k \<noteq> ''result'' \<longrightarrow> map_of p ''session_id'' \<in> {None, Some (cl_session c)})"
proof -
  have "running (cli_init replies broken)" by (simp add: running_def cli_init_def one_session_def)
  from tripleD[OF run_after this assms(1)] have after: "after_run r c" .
  then obtain p where p: "phase ks = Some p" and session: "one_session c"
    unfolding after_run_def running_def ended_def begun_def ks_def by blast
  show ?thesis using after phase_ends[OF p] p session
    by (auto simp: after_run_def running_def ended_def begun_def one_session_def ks_def split: if_splits)
qed

section \<open>A session\<close>

definition sample_lines :: "cli_read list" where
  "sample_lines = [
    Line (Some ''{\"type\":\"system\",\"subtype\":\"init\",\"session_id\":\"s1\"}''),
    Line (Some ''{\"type\":\"assistant\",\"session_id\":\"s1\",\"message\":{\"role\":\"assistant\",\"content\":[{\"type\":\"text\",\"text\":\"hi\"}]}}''),
    Line (Some ''{\"type\":\"result\",\"subtype\":\"success\",\"session_id\":\"s1\",\"is_error\":false,\"result\":\"DONE_CLAIM: ok\"}'')]"

lemma sample_session:
  "map fst (cl_out (snd (cli_run (\<lambda>l. Inr 0) None ''b'' sample_lines 0 (cli_init [] [])))) =
    [''execution_started'', ''messaged'', ''result'', ''done_claimed'']"
  by code_simp

theorem cli_stream_ordered_witness:
  "\<exists>r c. cli_run (\<lambda>l. Inr 0) None ''b'' sample_lines 0 (cli_init [] []) = (r, c) \<and> r = Inr 0"
proof -
  obtain r c where run: "cli_run (\<lambda>l. Inr 0) None ''b'' sample_lines 0 (cli_init [] []) = (r, c)" by fastforce
  have "''done_claimed'' \<in> set (map fst (cl_out c))" using sample_session run by simp
  then show ?thesis using cli_stream_ordered[OF run] run by blast
qed

end
