(* ===== verification/Sdk_Properties.thy ===== *)
theory Sdk_Properties
  imports Sdk_Session Cli_Properties
begin

text \<open>
  The stream of events that the SDK worker prints, the prompts it submits, and its end; what the hook
  before a tool refuses.
\<close>

section \<open>The order of events\<close>

text \<open>Phase 0 is before the session, 1 within it, 2 after a failure, 3 after the end of the work.\<close>

definition sdk_next :: "nat \<Rightarrow> string \<Rightarrow> nat option" where
  "sdk_next p k =
    (if p = 0 \<or> p = 1 then
       (if k \<in> {''startup_failed'', ''sdk_failed'', ''sdk_timeout''} then Some 2
        else if k \<in> {''messaged'', ''tool_used'', ''result''} then Some p
        else if p = 0 then (if k = ''execution_started'' then Some 1 else None)
        else if k = ''asked'' then Some 1
        else if k \<in> {''done_claimed'', ''no_change'', ''unclaimed''} then Some 3 else None)
     else None)"

definition sdk_phase :: "string list \<Rightarrow> nat option" where
  "sdk_phase ks = foldl (\<lambda>p k. Option.bind p (\<lambda>p. sdk_next p k)) (Some 0) ks"

lemma sdk_phase_snoc [simp]: "sdk_phase (ks @ [k]) = Option.bind (sdk_phase ks) (\<lambda>p. sdk_next p k)"
  by (simp add: sdk_phase_def)

lemma sdk_phase_Nil [simp]: "sdk_phase [] = Some 0"
  by (simp add: sdk_phase_def)

definition phase_of :: "sdk \<Rightarrow> nat option" where
  "phase_of s = sdk_phase (map fst (sk_out s))"

definition open_session :: "sdk \<Rightarrow> bool" where
  "open_session s \<longleftrightarrow> phase_of s = Some (if sk_started s then 1 else 0)"

lemma sdk_terminal_kind:
  assumes "sdk_parse_terminal v = Some (kind, extra)"
  shows "kind \<in> {''done_claimed'', ''asked'', ''no_change''}"
proof -
  have "find_terminal sdk_marks ls = Some (kind, extra) \<Longrightarrow> ?thesis" for ls
    by (induction ls) (auto simp: sdk_marks_def cli_marks_def split: if_splits)
  then show ?thesis using assms by (auto simp: sdk_parse_terminal_def split: option.splits if_splits)
qed

definition in_turn :: "turn \<Rightarrow> sdk \<Rightarrow> bool" where
  "in_turn t s \<longleftrightarrow> open_session s \<and> (tu_snapshot t \<noteq> None \<longrightarrow> sk_started s) \<and>
    (\<forall>k e. tu_terminal t = Some (k, e) \<longrightarrow> k \<in> {''done_claimed'', ''asked'', ''no_change''})"

lemmas sdk_defs = triple_def io_defs lift_io_def sdk_emit_def sdk_diag_def open_session_def phase_of_def in_turn_def sdk_next_def

section \<open>Hooks\<close>

text \<open>A statement is quiet when it keeps the phase and what the turn knows, also when it raises.\<close>

definition quiet :: "(sdk, 'a) io \<Rightarrow> bool" where
  "quiet m \<longleftrightarrow> (\<forall>t. triple (in_turn t) m (\<lambda>_. in_turn t))"

lemma quiet_modify:
  "(\<And>s. sk_out (f s) = sk_out s \<and> sk_started (f s) = sk_started s) \<Longrightarrow> quiet (modify_io f)"
  by (simp add: quiet_def triple_def modify_io_def in_turn_def open_session_def phase_of_def)

lemma quiet_ret: "quiet (ret_io x)"
  by (simp add: quiet_def triple_def ret_io_def)

lemma quiet_lift: "quiet (lift_io v)"
  by (simp add: quiet_def triple_def lift_io_def)

lemma quiet_gets: "quiet (gets_io f)"
  by (simp add: quiet_def triple_def gets_io_def)

lemma quiet_bind: "quiet m \<Longrightarrow> (\<And>x. quiet (k x)) \<Longrightarrow> quiet (bind_io m k)"
  unfolding quiet_def by (intro allI triple_bind) auto

lemma quiet_then: "quiet m \<Longrightarrow> quiet n \<Longrightarrow> quiet (then_io m n)"
  unfolding then_io_def by (rule quiet_bind)

lemma quiet_when: "quiet m \<Longrightarrow> quiet (when_io b m)"
  by (simp add: when_io_def quiet_ret)

lemma quiet_diag: "quiet (sdk_diag E event p)"
  unfolding sdk_diag_def by (rule quiet_modify) simp

lemma quiet_emit: "k \<in> {''messaged'', ''tool_used'', ''result''} \<Longrightarrow> quiet (sdk_emit k p)"
  by (auto simp: quiet_def triple_def sdk_emit_def modify_io_def in_turn_def open_session_def phase_of_def sdk_next_def)

lemma quiet_audit: "quiet (sdk_audit E ph inp decision error reason)"
  unfolding sdk_audit_def by (intro quiet_when quiet_bind quiet_lift quiet_modify) simp

lemma quiet_check: "quiet (case v of Allowed \<Rightarrow> sdk_audit E a inp b c d | Blocked_command \<Rightarrow> sdk_audit E a1 inp b1 c1 d1
    | Path_outside p \<Rightarrow> sdk_audit E a2 inp b2 c2 d2)"
  by (cases v) (simp_all add: quiet_audit)

lemma quiet_hook: "quiet m \<Longrightarrow> quiet (call_hook m)"
proof -
  have same: "in_turn t (s\<lparr>sk_answers := x\<rparr>) = in_turn t s" for t s x
    by (simp add: in_turn_def open_session_def phase_of_def)
  assume "quiet m"
  then show ?thesis unfolding quiet_def triple_def call_hook_def by (fastforce simp: same split: prod.splits)
qed

lemmas quiet_rules = quiet_ret quiet_lift quiet_gets quiet_bind quiet_then quiet_when quiet_diag quiet_audit
  quiet_check quiet_hook

lemma quiet_hooks: "quiet (pre_tool E inp)" "quiet (post_tool E inp)" "quiet (post_tool_failure E inp)"
  unfolding pre_tool_def post_tool_def post_tool_failure_def Let_def
  by (intro quiet_rules quiet_emit; simp)+

lemma quietD: "quiet m \<Longrightarrow> triple (in_turn t) m (\<lambda>_. in_turn t)"
  by (simp add: quiet_def)

section \<open>A turn\<close>

definition turn_after :: "exc + turn_end \<Rightarrow> sdk \<Rightarrow> bool" where
  "turn_after r s \<longleftrightarrow> (case r of
      Inl e \<Rightarrow> open_session s
    | Inr (Turn_ok t) \<Rightarrow> in_turn t s
    | Inr Turn_failed \<Rightarrow> phase_of s = Some 2
    | Inr Turn_timed_out \<Rightarrow> open_session s)"

lemma in_turn_open: "in_turn t s \<Longrightarrow> open_session s"
  by (simp add: in_turn_def)

lemma init_open: "in_turn turn_init s \<longleftrightarrow> open_session s"
  by (simp add: in_turn_def turn_init_def)

lemma assistant_turn:
  "triple (in_turn t) (on_assistant E t texts usage) (\<lambda>r s. case r of Inl e \<Rightarrow> open_session s | Inr t1 \<Rightarrow> in_turn t1 s)"
proof -
  have upd: "in_turn (t\<lparr>tu_answered := a, tu_said := x\<rparr>) = in_turn t" "in_turn (t\<lparr>tu_answered := a\<rparr>) = in_turn t" for a x
    by (simp_all add: in_turn_def fun_eq_iff)
  show ?thesis unfolding on_assistant_def Let_def
    by (rule triple_bind[OF quietD[OF quiet_gets]], rule triple_then[OF quietD[OF quiet_when[OF quiet_diag]]],
        rule triple_if)
      (auto intro!: triple_ret triple_then[OF quietD[OF quiet_emit]] simp: upd in_turn_open)
qed

lemma fail_ends: "triple open_session (sdk_fail E failure snapshot) (\<lambda>r s. r = Inr () \<and> phase_of s = Some 2)"
  by (auto simp: triple_def sdk_fail_def io_defs sdk_emit_def sdk_diag_def open_session_def phase_of_def sdk_next_def)

lemma result_turn:
  "triple (in_turn t) (on_result E t m) (\<lambda>r s. case r of
      Inl e \<Rightarrow> open_session s | Inr None \<Rightarrow> phase_of s = Some 2 | Inr (Some t1) \<Rightarrow> in_turn t1 s)"
proof -
  have failed: "triple (in_turn t) (then_io (sdk_fail E failure p) (ret_io None)) (\<lambda>r s. case r of
      Inl e \<Rightarrow> open_session s | Inr None \<Rightarrow> phase_of s = Some 2 | Inr (Some t1) \<Rightarrow> in_turn t1 s)" for failure p
    by (rule triple_then[OF triple_pre[OF fail_ends]]) (auto intro: triple_ret simp: in_turn_open)
  have good: "triple (in_turn t) (bind_io (gets_io sk_started) (\<lambda>started.
      then_io (when_io (\<not> started) (then_io (sdk_emit ''execution_started'' p)
          (modify_io (\<lambda>s. s\<lparr>sk_started := True\<rparr>)))) (ret_io (Some t1)))) (\<lambda>r s. case r of
      Inl e \<Rightarrow> open_session s | Inr None \<Rightarrow> phase_of s = Some 2 | Inr (Some t1) \<Rightarrow> in_turn t1 s)"
    if "tu_terminal t1 = sdk_parse_terminal v" for p t1 v
    using sdk_terminal_kind[of v]
    by (auto simp: that triple_def io_defs sdk_emit_def in_turn_def open_session_def phase_of_def sdk_next_def)
  show ?thesis unfolding on_result_def Let_def
    by (rule triple_bind[OF quietD[OF quiet_gets]], rule triple_then[OF quietD[OF quiet_diag]],
        rule triple_then[OF quietD[OF quiet_emit]]) (auto simp: failed good in_turn_open split: option.split)
qed

lemma items_after: "triple (in_turn t) (turn_items E t is) turn_after"
proof (induction "is" arbitrary: t)
  case Nil
  show ?case unfolding turn_items.simps
    by (rule triple_bind[OF quietD[OF quiet_gets]], rule triple_then[OF quietD[OF quiet_diag]])
      (auto intro: triple_ret simp: turn_after_def in_turn_open)
next
  case (Cons i "is")
  have hook: "triple (in_turn t) (then_io (call_hook m) (turn_items E t is)) turn_after" if "quiet m" for m
    by (rule triple_then[OF quietD[OF quiet_hook[OF that]] Cons.IH]) (simp add: turn_after_def in_turn_open)
  have said: "triple (in_turn t) (bind_io (on_assistant E t texts usage) (\<lambda>t1. turn_items E t1 is)) turn_after" for texts usage
    by (rule triple_bind[OF assistant_turn]) (auto intro: Cons.IH simp: turn_after_def)
  have result: "triple (in_turn t) (bind_io (on_result E t m) (\<lambda>r. case r of
      None \<Rightarrow> ret_io Turn_failed | Some t1 \<Rightarrow> turn_items E t1 is)) turn_after" for m
    by (rule triple_bind[OF result_turn])
      (auto intro!: triple_ret Cons.IH simp: turn_after_def split: option.split)
  show ?case
  proof (cases i)
    case (Turn_raises e)
    then show ?thesis by (simp add: triple_raise turn_after_def in_turn_open)
  next
    case Turn_times_out
    then show ?thesis by (simp add: triple_ret turn_after_def in_turn_open)
  qed (simp_all add: said result hook quiet_hooks Cons.IH)
qed

section \<open>The session\<close>

text \<open>The end of the session: its phase and its code.\<close>

definition session_after :: "exc + int \<Rightarrow> sdk \<Rightarrow> bool" where
  "session_after r s \<longleftrightarrow> (case r of
      Inl e \<Rightarrow> open_session s
    | Inr n \<Rightarrow> n = 1 \<and> phase_of s = Some 2 \<or> n = 0 \<and> (phase_of s = Some 3 \<or> phase_of s = Some 1))"

lemma receive_after: "triple open_session (receive_turn E steps prompt) turn_after"
proof -
  have start: "open_session = in_turn turn_init" by (simp add: init_open fun_eq_iff)
  have err: "in_turn turn_init s \<Longrightarrow> turn_after (Inl e) s" for e s
    by (simp add: turn_after_def in_turn_open)
  have rest: "triple (in_turn turn_init) (case v of
       Submit_raises e \<Rightarrow> raise_io e
     | Submit_times_out \<Rightarrow> ret_io Turn_timed_out
     | Submitted \<Rightarrow> then_io (sdk_diag E k p) (turn_items E turn_init is)) turn_after" for v k p "is"
    by (cases v) (auto intro!: triple_raise triple_ret triple_then[OF quietD[OF quiet_diag] items_after] err
        simp: turn_after_def in_turn_open)
  show ?thesis unfolding receive_turn_def start
    by (rule triple_then[OF quietD[OF quiet_modify]] triple_bind[OF quietD[OF quiet_gets]]
        triple_then[OF quietD[OF quiet_diag]] rest err | simp)+
qed

lemma end_event:
  assumes "in_turn t s" "tu_snapshot t = Some p" "k \<in> {''done_claimed'', ''no_change'', ''unclaimed''}"
  shows "phase_of (s\<lparr>sk_out := sk_out s @ [(k, q)]\<rparr>) = Some 3"
  using assms by (auto simp: in_turn_def open_session_def phase_of_def sdk_next_def)

lemma ask_event:
  assumes "in_turn t s" "tu_snapshot t = Some p"
  shows "open_session (s\<lparr>sk_out := sk_out s @ [(''asked'', q)]\<rparr>) \<and> sk_started s"
  using assms by (auto simp: in_turn_def open_session_def phase_of_def sdk_next_def)

lemma next_dead: "sdk_next 0 ''startup_failed'' = Some 2" "sdk_next (Suc 0) ''startup_failed'' = Some 2"
    "sdk_next 0 ''sdk_timeout'' = Some 2" "sdk_next (Suc 0) ''sdk_timeout'' = Some 2"
  by (simp_all add: sdk_next_def)

lemma dead_event:
  assumes "open_session s" "k = ''startup_failed'' \<or> k = ''sdk_timeout''"
  shows "phase_of (s\<lparr>sk_out := sk_out s @ [(k, q)]\<rparr>) = Some 2"
proof -
  have "phase_of s = Some 0 \<or> phase_of s = Some (Suc 0)" using assms(1) by (simp add: open_session_def split: if_splits)
  moreover have "sdk_next 0 k = Some 2" "sdk_next (Suc 0) k = Some 2" using assms(2) next_dead by blast+
  ultimately show ?thesis by (auto simp: phase_of_def)
qed

lemma after_turn_ends:
  assumes ask: "triple (\<lambda>s. open_session s \<and> sk_started s) ask session_after"
  shows "triple (turn_after (Inr r)) (after_turn E r ask) session_after"
proof -
  have ends: "triple open_session (then_io (sdk_emit k q) (ret_io 1)) session_after"
    if "k = ''startup_failed'' \<or> k = ''sdk_timeout''" for k q
    using dead_event[OF _ that] by (simp add: triple_def io_defs sdk_emit_def session_after_def)
  have claimed: "triple (in_turn t) (then_io (sdk_emit kind q) (if kind = ''asked'' then ask else ret_io 0)) session_after"
    if snap: "tu_snapshot t = Some p" and kind: "kind \<in> {''done_claimed'', ''asked'', ''no_change''}" for t p kind q
  proof (cases "kind = ''asked''")
    case True
    have "triple (in_turn t) (sdk_emit ''asked'' q) (\<lambda>r s. r = Inr () \<and> open_session s \<and> sk_started s)"
      using ask_event[OF _ snap] by (simp add: triple_def io_defs sdk_emit_def)
    then show ?thesis using True ask by (auto intro: triple_then triple_pre)
  next
    case False
    then show ?thesis using end_event[OF _ snap] kind
      by (auto simp: triple_def io_defs sdk_emit_def session_after_def)
  qed
  have unclaimed: "triple (in_turn t) (then_io (sdk_emit ''unclaimed'' q) (ret_io 0)) session_after"
    if "tu_snapshot t = Some p" for t p q
    using end_event[OF _ that, of _ "''unclaimed''"] by (auto simp: triple_def io_defs sdk_emit_def session_after_def)
  show ?thesis
  proof (cases r)
    case (Turn_ok t)
    have pre: "turn_after (Inr (Turn_ok t)) = in_turn t" by (simp add: fun_eq_iff turn_after_def)
    have lost: "triple (in_turn t) (then_io (sdk_emit ''startup_failed'' q) (ret_io 1)) session_after" for q
      by (rule triple_pre[OF ends in_turn_open]) simp_all
    have kind: "triple (in_turn t) (then_io (sdk_emit k q) (if k = ''asked'' then ask else ret_io 0)) session_after"
      if "tu_snapshot t = Some p" "tu_terminal t = Some (k, e)" for p k e q
    proof (cases "k \<in> {''done_claimed'', ''asked'', ''no_change''}")
      case False
      then have "\<not> in_turn t s" for s using that(2) by (auto simp: in_turn_def)
      then show ?thesis by (simp add: triple_def)
    qed (rule claimed[OF that(1)])
    show ?thesis unfolding Turn_ok pre after_turn_def turn_end.case
      by (simp add: lost kind unclaimed split: option.split prod.split)
  next
    case Turn_failed
    then show ?thesis by (simp add: after_turn_def triple_def ret_io_def turn_after_def session_after_def)
  next
    case Turn_timed_out
    have pre: "turn_after (Inr Turn_timed_out) = in_turn turn_init"
      by (simp add: fun_eq_iff turn_after_def init_open)
    show ?thesis unfolding Turn_timed_out pre after_turn_def turn_end.case
      by (rule triple_bind[OF quietD[OF quiet_gets]], rule triple_then[OF quietD[OF quiet_diag]])
        (auto intro!: triple_pre[OF ends in_turn_open] simp: session_after_def in_turn_open)
  qed
qed

lemma leave_after: "triple (\<lambda>s. open_session s \<and> sk_started s) (ret_io 0) session_after"
  by (rule triple_ret) (simp add: session_after_def open_session_def)

lemma loop_after: "triple open_session (sdk_loop E turns replies prompt) session_after"
proof (induction replies arbitrary: prompt)
  case Nil
  have err: "turn_after (Inl e) w \<Longrightarrow> session_after (Inl e) w" for e w
    by (simp add: turn_after_def session_after_def)
  show ?case unfolding sdk_loop.simps
    by (rule triple_bind[OF triple_gets], rule triple_pre[where P = open_session],
        rule triple_bind[OF receive_after after_turn_ends[OF leave_after] err])
      (simp_all add: session_after_def)
next
  case (Cons reply replies)
  have err: "turn_after (Inl e) w \<Longrightarrow> session_after (Inl e) w" for e w
    by (simp add: turn_after_def session_after_def)
  have ask: "triple (\<lambda>s. open_session s \<and> sk_started s)
      (if reply = [] then ret_io 0 else sdk_loop E turns replies (drop_newlines reply)) session_after"
    by (rule triple_if, rule leave_after, rule triple_pre[OF Cons.IH], simp)
  show ?case unfolding sdk_loop.simps
    by (rule triple_bind[OF triple_gets], rule triple_pre[where P = open_session],
        rule triple_bind[OF receive_after after_turn_ends[OF ask] err])
      (simp_all add: session_after_def)
qed

section \<open>Prompts\<close>

definition same_prompts :: "sdk \<Rightarrow> sdk \<Rightarrow> bool" where
  "same_prompts s s' \<longleftrightarrow> sk_prompts s' = sk_prompts s \<and> sk_turn s' = sk_turn s"

interpretation prompts: io_contract same_prompts
  by unfold_locales (auto simp: same_prompts_def)

lemma prompts_modify:
  "(\<And>s. sk_prompts (f s) = sk_prompts s \<and> sk_turn (f s) = sk_turn s) \<Longrightarrow> keeps same_prompts (modify_io f)"
  by (simp add: keeps_def modify_io_def same_prompts_def)

lemma prompts_lift: "keeps same_prompts (lift_io v)"
  by (simp add: keeps_def lift_io_def same_prompts_def)

lemma prompts_emit: "keeps same_prompts (sdk_emit k p)" "keeps same_prompts (sdk_diag E k p)"
  unfolding sdk_emit_def sdk_diag_def by (rule prompts_modify; simp)+

lemma prompts_audit: "keeps same_prompts (sdk_audit E ph inp decision error reason)"
  unfolding sdk_audit_def by (intro prompts.keeps_rules prompts_lift prompts_modify) simp

lemma prompts_check: "keeps same_prompts (case v of Allowed \<Rightarrow> sdk_audit E a inp b c d
    | Blocked_command \<Rightarrow> sdk_audit E a1 inp b1 c1 d1 | Path_outside p \<Rightarrow> sdk_audit E a2 inp b2 c2 d2)"
  by (cases v) (simp_all add: prompts_audit)

lemma prompts_call: "keeps same_prompts m \<Longrightarrow> keeps same_prompts (call_hook m)"
  by (auto simp: keeps_def call_hook_def same_prompts_def split: prod.splits) (metis snd_conv)+

lemmas prompts_rules = prompts.keeps_rules prompts_lift prompts_emit prompts_audit prompts_check prompts_call

lemma prompts_steps:
  "keeps same_prompts (pre_tool E inp)" "keeps same_prompts (post_tool E inp)"
  "keeps same_prompts (post_tool_failure E inp)" "keeps same_prompts (on_assistant E t texts usage)"
  unfolding pre_tool_def post_tool_def post_tool_failure_def on_assistant_def Let_def
  by (intro prompts_rules)+

lemma prompts_result: "keeps same_prompts (on_result E t m)"
  unfolding on_result_def sdk_fail_def Let_def
  by (intro prompts_rules prompts_modify) simp_all

lemma prompts_items: "keeps same_prompts (turn_items E t is)"
proof (induction "is" arbitrary: t)
  case (Cons i "is")
  show ?case by (cases i) (auto intro!: prompts_rules prompts_steps prompts_result Cons.IH)
qed (simp, intro prompts_rules)

lemma prompts_receive:
  "triple (\<lambda>s. sk_prompts s = ps \<and> sk_turn s = n) (receive_turn E steps prompt)
    (\<lambda>_ s. sk_prompts s = ps @ [prompt] \<and> sk_turn s = Suc n)"
proof -
  have after: "triple (\<lambda>s. sk_prompts s = qs \<and> sk_turn s = k) m (\<lambda>_ s. sk_prompts s = qs \<and> sk_turn s = k)"
    if "keeps same_prompts m" for m :: "(sdk, 'a) io" and qs k
    by (rule triple_keeps[OF that]) (simp add: same_prompts_def)
  have rest: "keeps same_prompts (case v of
       Submit_raises e \<Rightarrow> raise_io e
     | Submit_times_out \<Rightarrow> ret_io Turn_timed_out
     | Submitted \<Rightarrow> then_io (sdk_diag E k p) (turn_items E turn_init is))" for v k p "is"
    by (cases v) (auto intro!: prompts_rules prompts_items)
  have first: "triple (\<lambda>s. sk_prompts s = ps \<and> sk_turn s = n) (modify_io (\<lambda>s. s\<lparr>sk_turn := Suc (sk_turn s)\<rparr>))
      (\<lambda>r s. r = Inr () \<and> sk_prompts s = ps \<and> sk_turn s = Suc n)"
    by (simp add: triple_def modify_io_def)
  have second: "triple (\<lambda>s. sk_prompts s = ps \<and> sk_turn s = Suc n)
      (modify_io (\<lambda>s. s\<lparr>sk_prompts := sk_prompts s @ [prompt]\<rparr>))
      (\<lambda>r s. r = Inr () \<and> sk_prompts s = ps @ [prompt] \<and> sk_turn s = Suc n)"
    by (simp add: triple_def modify_io_def)
  have gets: "triple (\<lambda>s. sk_prompts s = ps \<and> sk_turn s = Suc n) (gets_io sk_turn)
      (\<lambda>r s. (\<exists>x. r = Inr x) \<and> sk_prompts s = ps \<and> sk_turn s = Suc n)"
    by (simp add: triple_def gets_io_def)
  have diag: "triple (\<lambda>s. sk_prompts s = ps \<and> sk_turn s = Suc n) (sdk_diag E ev p)
      (\<lambda>r s. r = Inr () \<and> sk_prompts s = ps \<and> sk_turn s = Suc n)" for ev p
    by (simp add: triple_def sdk_diag_def modify_io_def)
  show ?thesis unfolding receive_turn_def
    by (rule triple_then[OF first], simp, rule triple_bind[OF gets], simp, rule triple_then[OF diag], simp,
        rule triple_then[OF second], simp, rule after[OF rest]) simp_all
qed

text \<open>What a question leads to is the only way to another prompt.\<close>

lemma after_turn_prompts:
  assumes "triple P ask (\<lambda>_. Q)" "\<And>s s'. P s \<Longrightarrow> same_prompts s s' \<Longrightarrow> P s'" "\<And>s. P s \<Longrightarrow> Q s"
  shows "triple P (after_turn E r ask) (\<lambda>_. Q)"
proof -
  have quiet: "triple P m (\<lambda>_. P)" if "keeps same_prompts m" for m :: "(sdk, 'a) io"
    by (rule triple_keeps[OF that]) (rule assms(2))
  have done': "triple P m (\<lambda>_. Q)" if "keeps same_prompts m" for m :: "(sdk, int) io"
    by (rule triple_post[OF quiet[OF that]]) (rule assms(3))
  have claim: "triple P (then_io (sdk_emit k p) (if k = ''asked'' then ask else ret_io 0)) (\<lambda>_. Q)" for k p
    by (rule triple_then[OF quiet[OF prompts_emit(1)]], rule triple_if, rule assms(1),
        rule done'[OF prompts.keeps_ret], rule assms(3))
  show ?thesis
  proof (cases r)
    case (Turn_ok t)
    show ?thesis
    proof (cases "tu_snapshot t")
      case None
      show ?thesis unfolding after_turn_def Turn_ok turn_end.case None option.case
        by (rule done') (intro prompts_rules)
    next
      case (Some p)
      show ?thesis unfolding after_turn_def Turn_ok turn_end.case Some option.case
        by (cases "tu_terminal t") (auto simp only: option.case prod.case intro!: claim done' prompts_rules)
    qed
  qed (auto simp: after_turn_def intro!: done' prompts_rules)
qed

definition asked_of :: "string list \<Rightarrow> string list \<Rightarrow> nat \<Rightarrow> sdk \<Rightarrow> bool" where
  "asked_of ps qs n s \<longleftrightarrow> (\<exists>k. sk_prompts s = ps @ take k qs \<and> sk_turn s = n + length (take k qs))"

lemma loop_prompts:
  "triple (\<lambda>s. sk_prompts s = ps \<and> sk_turn s = n) (sdk_loop E turns replies prompt)
    (\<lambda>_. asked_of ps (prompt # map drop_newlines replies) n)"
proof (induction replies arbitrary: prompt ps n)
  case Nil
  have one: "sk_prompts s = ps @ [prompt] \<and> sk_turn s = Suc n \<Longrightarrow> asked_of ps [prompt] n s" for s
    unfolding asked_of_def by (rule exI[of _ 1]) simp
  show ?case unfolding sdk_loop.simps list.map
    by (rule triple_bind[OF triple_gets], rule triple_pre[where P = "\<lambda>s. sk_prompts s = ps \<and> sk_turn s = n"],
        rule triple_bind[OF prompts_receive], rule after_turn_prompts)
      (auto intro!: triple_ret one simp: same_prompts_def)
next
  case (Cons reply replies)
  let ?qs = "prompt # map drop_newlines (reply # replies)"
  have one: "sk_prompts s = ps @ [prompt] \<and> sk_turn s = Suc n \<Longrightarrow> asked_of ps ?qs n s" for s
    unfolding asked_of_def by (rule exI[of _ 1]) simp
  have more: "asked_of (ps @ [prompt]) (map drop_newlines (reply # replies)) (Suc n) s \<Longrightarrow> asked_of ps ?qs n s" for s
    unfolding asked_of_def by (elim exE, rule_tac x = "Suc k" in exI) simp
  have ask: "triple (\<lambda>s. sk_prompts s = ps @ [prompt] \<and> sk_turn s = Suc n)
      (if reply = [] then ret_io 0 else sdk_loop E turns replies (drop_newlines reply)) (\<lambda>_. asked_of ps ?qs n)"
    by (rule triple_if, rule triple_ret, erule one, rule triple_post[OF Cons.IH], rule more, simp)
  show ?case unfolding sdk_loop.simps
    by (rule triple_bind[OF triple_gets], rule triple_pre[where P = "\<lambda>s. sk_prompts s = ps \<and> sk_turn s = n"],
        rule triple_bind[OF prompts_receive], rule after_turn_prompts[OF ask])
      (auto intro!: one[unfolded list.map] simp: same_prompts_def)
qed

section \<open>The run\<close>

lemma close_effect: "sdk_close E s = (Inr (), w) \<Longrightarrow>
    sk_out w = sk_out s \<and> sk_started w = sk_started s \<and> sk_prompts w = sk_prompts s \<and> sk_turn w = sk_turn s \<and> sk_closed w"
  by (auto simp: sdk_close_def sdk_diag_def io_defs)

lemma close_result: "\<exists>w. sdk_close E s = (Inr (), w)"
  by (simp add: sdk_close_def sdk_diag_def io_defs)

lemma connected_run:
  assumes "sdk_run E Connected err turns replies brief sdk_init = (r, s)"
  obtains s0 s1 where "open_session s0" "sk_prompts s0 = []" "sk_turn s0 = 0"
    "sdk_loop E turns replies (sdk_prompt brief) s0 = (r, s1)" "sdk_close E s1 = (Inr (), s)"
proof -
  have "\<exists>j. (r, s) = finally_io (sdk_loop E turns replies (sdk_prompt brief)) (sdk_close E) (sdk_init\<lparr>sk_journal := j\<rparr>)"
    using assms
    by (simp add: sdk_run_def sdk_diag_def then_io_def bind_io_def modify_io_def sdk_init_def) (rule exI, erule sym)
  then obtain j where j: "(r, s) = finally_io (sdk_loop E turns replies (sdk_prompt brief)) (sdk_close E) (sdk_init\<lparr>sk_journal := j\<rparr>)"
    by blast
  define s0 where "s0 = sdk_init\<lparr>sk_journal := j\<rparr>"
  have s0: "open_session s0" "sk_prompts s0 = []" "sk_turn s0 = 0"
    by (simp_all add: s0_def sdk_init_def open_session_def phase_of_def)
  have run: "finally_io (sdk_loop E turns replies (sdk_prompt brief)) (sdk_close E) s0 = (r, s)"
    using j by (simp add: s0_def)
  obtain r1 s1 where loop: "sdk_loop E turns replies (sdk_prompt brief) s0 = (r1, s1)" by fastforce
  obtain w where close: "sdk_close E s1 = (Inr (), w)" using close_result by blast
  have "r = r1" "s = w" using run loop close by (simp_all add: finally_io_def)
  then show ?thesis using that s0 loop close by simp
qed

lemma unconnected_run:
  assumes "sdk_run E connect err turns replies brief sdk_init = (r, s)" "connect \<noteq> Connected"
  shows "r = Inr 1 \<and> phase_of s = Some 2 \<and> sk_prompts s = [] \<and> sk_turn s = 0 \<and> \<not> sk_closed s"
  using assms by (cases connect)
    (auto simp: sdk_run_def connect_failed_def sdk_diag_def sdk_emit_def io_defs sdk_init_def phase_of_def sdk_phase_def Let_def next_dead)

definition work_ends :: "string set" where
  "work_ends = {''done_claimed'', ''no_change'', ''unclaimed''}"

lemma sdk_next_ends: "sdk_next q k = Some p \<Longrightarrow> q < 2 \<and> p \<le> 3 \<and> (p = 3 \<longleftrightarrow> k \<in> work_ends)"
proof (cases "k \<in> work_ends")
  case True
  then have "sdk_next q k = (if q = 1 then Some 3 else None)" by (auto simp: work_ends_def sdk_next_def)
  then show "sdk_next q k = Some p \<Longrightarrow> ?thesis" using True by (simp split: if_splits)
next
  case False
  then have "sdk_next q k \<noteq> Some 3" "sdk_next q k = Some p \<Longrightarrow> q < 2 \<and> p \<le> 3"
    by (simp_all add: work_ends_def sdk_next_def split: if_split_asm) linarith+
  then show "sdk_next q k = Some p \<Longrightarrow> ?thesis" using False by blast
qed

lemma sdk_phase_ends:
  "sdk_phase ks = Some p \<Longrightarrow> p \<le> 3 \<and> (p = 3 \<longleftrightarrow> set ks \<inter> work_ends \<noteq> {})"
proof (induction ks arbitrary: p rule: rev_induct)
  case (snoc k ks)
  obtain q where q: "sdk_phase ks = Some q" "sdk_next q k = Some p" using snoc.prems by (auto simp: bind_eq_Some_conv)
  have "set ks \<inter> work_ends = {}" using snoc.IH[OF q(1)] sdk_next_ends[OF q(2)] by simp
  then have "set (ks @ [k]) \<inter> work_ends \<noteq> {} \<longleftrightarrow> k \<in> work_ends" by (simp add: Int_insert_left)
  then show ?case using sdk_next_ends[OF q(2)] by simp
qed simp

text \<open>
  C24. The events that the SDK worker prints follow its protocol whatever the SDK does: the session is
  announced before a question or an end of the work, nothing follows that end or a failure, the code is
  0 without a failure and 1 with one, and when the session raises it has claimed nothing. The
  prompts are the brief and then the answers, one for each turn, and a connected client is disconnected.
\<close>

theorem sdk_stream_ordered:
  assumes "sdk_run E connect err turns replies brief sdk_init = (r, s)"
  defines "ks \<equiv> map fst (sk_out s)"
  shows "sdk_phase ks \<noteq> None \<and>
    (\<forall>n. r = Inr n \<longrightarrow> n = (if sdk_phase ks = Some 2 then 1 else 0)) \<and>
    (\<forall>e. r = Inl e \<longrightarrow> set ks \<inter> work_ends = {}) \<and>
    (\<exists>k. sk_prompts s = take k (sdk_prompt brief # map drop_newlines replies)) \<and>
    sk_turn s = length (sk_prompts s) \<and> (sk_closed s \<longleftrightarrow> connect = Connected)"
proof (cases "connect = Connected")
  case True
  obtain s0 s1 where s0: "open_session s0" "sk_prompts s0 = []" "sk_turn s0 = 0"
    and loop: "sdk_loop E turns replies (sdk_prompt brief) s0 = (r, s1)" and close: "sdk_close E s1 = (Inr (), s)"
    using connected_run assms(1) unfolding True by blast
  have after: "session_after r s1" by (rule tripleD[OF loop_after s0(1) loop])
  have prompts: "asked_of [] (sdk_prompt brief # map drop_newlines replies) 0 s1"
    by (rule tripleD[OF loop_prompts _ loop]) (simp add: s0)
  have same: "phase_of s1 = sdk_phase ks" using close_effect[OF close] by (simp add: phase_of_def ks_def)
  show ?thesis
  proof (intro conjI)
    show "sdk_phase ks \<noteq> None" "\<forall>n. r = Inr n \<longrightarrow> n = (if sdk_phase ks = Some 2 then 1 else 0)"
      using after by (auto simp: session_after_def open_session_def same split: sum.splits)
    show "\<forall>e. r = Inl e \<longrightarrow> set ks \<inter> work_ends = {}"
      using after sdk_phase_ends[of ks] by (auto simp: session_after_def open_session_def same split: if_splits)
    show "\<exists>k. sk_prompts s = take k (sdk_prompt brief # map drop_newlines replies)" "sk_turn s = length (sk_prompts s)"
      using prompts close_effect[OF close] by (auto simp: asked_of_def)
    show "sk_closed s \<longleftrightarrow> connect = Connected" using close_effect[OF close] True by simp
  qed
next
  case False
  then show ?thesis using unconnected_run[OF assms(1)] by (auto simp: phase_of_def ks_def intro: exI[of _ 0])
qed

section \<open>A session\<close>

definition sample_env :: sdk_env where
  "sample_env = \<lparr>se_task = Some ''t'', se_worktree = ''/w'', se_timeout = JInt 300, se_audit = True,
    se_stamp = (\<lambda>n. ''now''), se_resolve = Inr\<rparr>"

definition sample_result :: "string \<Rightarrow> sdk_result" where
  "sample_result text = \<lparr>sr_subtype = JStr ''success'', sr_is_error = False, sr_errors = [],
    sr_api_error_status = JNull, sr_result = Some text, sr_session_id = JStr ''s1'',
    sr_usage = [(''input_tokens'', JInt 7)], sr_model_usage = [], sr_total_cost_usd = JNull,
    sr_stop_reason = JNull, sr_num_turns = JInt 1, sr_duration_ms = JInt 5, sr_duration_api_ms = JInt 4\<rparr>"

definition tool_call :: "string \<Rightarrow> string \<Rightarrow> string \<Rightarrow> payload" where
  "tool_call tool key v = [(''tool_name'', JStr tool), (''tool_input'', JObj [(key, JStr v)])]"

definition sample_turns :: "nat \<Rightarrow> submission \<times> sdk_item list" where
  "sample_turns n = (Submitted,
    if n = 0 then [Assistant [''hi''] [], Result (sample_result ''ASK: which?'')]
    else [Result (sample_result ''DONE_CLAIM: ok'')])"

definition sample_sdk_run :: "(exc + int) \<times> sdk" where
  "sample_sdk_run = sdk_run sample_env Connected [] sample_turns [''this one'' @ nl] ''b'' sdk_init"

lemma sample_sdk_events:
  "map fst (sk_out (snd sample_sdk_run)) =
    [''messaged'', ''result'', ''execution_started'', ''asked'', ''result'', ''done_claimed'']"
  by code_simp

lemma sample_hooks:
  "check_tool Inr ''/w'' (tool_call ''Bash'' ''command'' ''git  clone x'') = Inr Blocked_command"
  "check_tool Inr ''/w'' (tool_call ''Edit'' ''file_path'' ''/etc/passwd'') = Inr (Path_outside (JStr ''/etc/passwd''))"
  "check_tool Inr ''/w'' (tool_call ''Edit'' ''file_path'' ''a.txt'') = Inr Allowed"
  by code_simp+

theorem sdk_stream_ordered_witness:
  "\<exists>r s. sdk_run sample_env Connected [] sample_turns [''this one'' @ nl] ''b'' sdk_init = (r, s) \<and> r = Inr 0 \<and> sk_closed s"
proof -
  obtain r s where run: "sdk_run sample_env Connected [] sample_turns [''this one'' @ nl] ''b'' sdk_init = (r, s)"
    by fastforce
  have ks: "map fst (sk_out s) =
      [''messaged'', ''result'', ''execution_started'', ''asked'', ''result'', ''done_claimed'']"
    using sample_sdk_events run by (simp add: sample_sdk_run_def)
  have phase: "sdk_phase (map fst (sk_out s)) = Some 3" unfolding ks by code_simp
  have "r \<noteq> Inl e" for e using sdk_stream_ordered[OF run] unfolding ks by (auto simp: work_ends_def)
  then obtain n where n: "r = Inr n" by (cases r) auto
  show ?thesis using sdk_stream_ordered[OF run] run phase n by simp
qed

end
