(* ===== verification/Policy.thy ===== *)
theory Policy
  imports Sched Preflight
begin

text \<open>
  The set-up of a run: settings with their overrides (\<open>config.py\<close>), the declared boundary of the workers
  (\<open>worker/isolation.py\<close>), the choices of a policy and the injected fault (\<open>policies.py\<close>), and the choices
  of the command line (\<open>cli.py\<close>).
\<close>

section \<open>Settings\<close>

definition default_settings :: payload where
  "default_settings = [(''max_concurrency'', JInt 4), (''max_retries'', JInt 2), (''repeated_failure_threshold'', JInt 1),
    (''max_nudges'', JInt 2), (''stall_threshold_s'', JInt 300), (''worker_timeout_s'', JInt 1200),
    (''sdk_timeout_s'', JInt 300), (''supervisor_timeout_s'', JInt 120), (''wait_ceiling_s'', JInt 1800),
    (''verify_timeout_s'', JInt 600), (''transcript_tail_tokens'', JInt 3000),
    (''model_worker'', JStr ''claude-sonnet-5''), (''model_supervisor'', JStr ''claude-sonnet-5''),
    (''protocol_recovery_v2'', JBool True), (''deterministic_recovery'', JBool True),
    (''adaptive_scheduling'', JBool True), (''evidence_ladder'', JBool True)]"

text \<open>\<open>file\<close> is the parsed TOML file, if there is one; unknown keys are ignored.\<close>

definition load_settings :: "payload option \<Rightarrow> payload" where
  "load_settings file = (case file of
      None \<Rightarrow> default_settings
    | Some data \<Rightarrow> dict_merge default_settings (filter (\<lambda>(k, v). k \<in> fst ` set default_settings) data))"

section \<open>The boundary\<close>

definition validate_worker_boundary :: "bool \<Rightarrow> bool \<Rightarrow> bool \<Rightarrow> exc + unit" where
  "validate_worker_boundary fake external trusted =
    (if fake \<or> external \<or> trusted then Inr ()
     else Inl (WorkerIsolationError (''real Claude workers require an external isolation boundary; '' @
       ''use Harbor with external_isolation=True, or explicitly select '' @
       ''trusted development mode for direct host execution'')))"

section \<open>The injected fault\<close>

record fault =
  fi_mode :: string
  fi_task :: string
  fi_attempt :: int
  fi_delay :: int

definition fault_modes :: "string set" where
  "fault_modes = {''worker_exit'', ''crash'', ''timeout'', ''no_candidate'', ''verify_fail'', ''latency''}"

text \<open>\<open>seconds\<close> is \<open>float\<close>, in microseconds.\<close>

definition parse_fault :: "(json \<Rightarrow> exc + int) \<Rightarrow> json \<Rightarrow> exc + fault" where
  "parse_fault seconds v = (case v of
      JObj p \<Rightarrow>
        let mode = py_str (json_or (jget ''mode'' p) (JStr ''worker_exit''));
            task = strip (py_str (json_or (jget ''task_id'' p) (JStr []))) in
        if mode \<notin> fault_modes then Inl (ValueError (''unsupported fault injection mode '' @ repr_str mode))
        else if task = [] then Inl (ValueError ''fault_injection.task_id is required'')
        else bindE (seconds (jget_default ''delay_s'' (JInt 1) p)) (\<lambda>delay.
          case int_value (jget_default ''attempt'' (JInt 1) p) of
            None \<Rightarrow> Inl (ValueError ''fault_injection.attempt must be a positive integer'')
          | Some n \<Rightarrow>
              if n < 1 then Inl (ValueError ''fault_injection.attempt must be a positive integer'')
              else Inr \<lparr>fi_mode = mode, fi_task = task, fi_attempt = n, fi_delay = max 100000 delay\<rparr>)
    | _ \<Rightarrow> Inl (ValueError ''fault_injection must be an object''))"

text \<open>What a launch does to its process: a kill after a delay, a delay before it is handed over, or a mark.\<close>

datatype injection = Kill_after int | Hand_over_after int | Mark_only

record fault_state =
  fs_injected :: bool
  fs_launches :: nat

definition fault_init :: fault_state where
  "fault_init = \<lparr>fs_injected = False, fs_launches = 0\<rparr>"

definition injection_of :: "fault \<Rightarrow> injection" where
  "injection_of f =
    (if fi_mode f \<in> {''worker_exit'', ''crash''} then Kill_after (fi_delay f)
     else if fi_mode f = ''latency'' then Hand_over_after (fi_delay f)
     else Mark_only)"

text \<open>A launch of a task whose worker started.\<close>

definition fault_launch :: "fault \<Rightarrow> string \<Rightarrow> fault_state \<Rightarrow> injection option \<times> fault_state" where
  "fault_launch f tid s =
    (let s1 = (if tid = fi_task f then s\<lparr>fs_launches := Suc (fs_launches s)\<rparr> else s) in
     if \<not> fs_injected s1 \<and> tid = fi_task f \<and> int (fs_launches s1) = fi_attempt f
     then (Some (injection_of f), s1\<lparr>fs_injected := True\<rparr>)
     else (None, s1))"

fun fault_launches :: "fault \<Rightarrow> string list \<Rightarrow> fault_state \<Rightarrow> injection option list" where
  "fault_launches f [] s = []"
| "fault_launches f (t # ts) s = (case fault_launch f t s of (i, s') \<Rightarrow> i # fault_launches f ts s')"

section \<open>The scheduler of a policy\<close>

datatype worker_kind = Fake_worker | Sdk_worker | Cli_worker

datatype supervisor_kind = Always_escalates | Asks_model json json

record policy_args =
  pa_policy :: string
  pa_max_concurrency :: json
  pa_worker_model :: json
  pa_supervisor_model :: json
  pa_worker_env :: "(string, string) dict"
  pa_fake_worker :: bool
  pa_fake_supervisor :: bool
  pa_isolated :: bool
  pa_trusted :: bool
  pa_verify_timeout :: json
  pa_stall :: json
  pa_worker_timeout :: json
  pa_sdk_timeout :: json
  pa_supervisor_timeout :: json
  pa_wait_ceiling :: json
  pa_base_branch :: string
  pa_crash :: json
  pa_adaptive :: json
  pa_protocol :: json
  pa_deterministic :: json
  pa_ladder :: json
  pa_fault :: json

text \<open>An absent argument is null; an empty environment is the absent one.\<close>

record run_setup =
  su_concurrency :: json
  su_worker :: worker_kind
  su_worker_env :: "(string, string) dict option"
  su_sdk_timeout :: json
  su_fault :: "fault option"
  su_worker_model :: json
  su_supervisor :: supervisor_kind
  su_max_nudges :: json
  su_base_branch :: string
  su_stall :: json
  su_worker_timeout :: json
  su_repeated :: json
  su_wait_ceiling :: json
  su_verify_timeout :: json
  su_tail_tokens :: json
  su_crash :: json
  su_adaptive :: json
  su_protocol :: json
  su_deterministic :: json
  su_ladder :: json

definition policy_names :: "string list" where
  "policy_names = [''sequential'', ''naive-parallel'', ''orchestrator'']"

definition unless_null :: "json \<Rightarrow> json \<Rightarrow> json" where
  "unless_null v w = (if v = JNull then w else v)"

text \<open>\<open>a and b\<close> for a Boolean \<open>a\<close>.\<close>

definition bool_and :: "bool \<Rightarrow> json \<Rightarrow> json" where
  "bool_and b v = (if b then v else JBool False)"

definition build_scheduler ::
    "(json \<Rightarrow> exc + int) \<Rightarrow> payload option \<Rightarrow> policy_args \<Rightarrow> exc + run_setup" where
  "build_scheduler seconds file a =
    (if pa_policy a \<notin> set policy_names then Inl (ValueError (''unsupported policy '' @ repr_str (pa_policy a) @ ''; choose one of ('' @
       join '', '' (map repr_str policy_names) @ '')''))
     else
     bindE (validate_worker_boundary (pa_fake_worker a) (pa_isolated a) (pa_trusted a)) (\<lambda>_.
     let cfg = (\<lambda>k. jget k (load_settings file));
         full = (pa_policy a = ''orchestrator'') in
     bindE (if pa_fault a = JNull then Inr None
            else bindE (parse_fault seconds (pa_fault a)) (\<lambda>f. Inr (Some f))) (\<lambda>fault.
     Inr \<lparr>su_concurrency = (if pa_policy a = ''sequential'' then JInt 1 else pa_max_concurrency a),
       su_worker = (if pa_fake_worker a then Fake_worker else Sdk_worker),
       su_worker_env = (if pa_worker_env a \<noteq> [] \<and> \<not> pa_fake_worker a then Some (pa_worker_env a) else None),
       su_sdk_timeout = (if pa_fake_worker a then JNull else unless_null (pa_sdk_timeout a) (cfg ''sdk_timeout_s'')),
       su_fault = fault,
       su_worker_model = json_or (pa_worker_model a) (cfg ''model_worker''),
       su_supervisor = (if pa_fake_supervisor a \<or> \<not> full then Always_escalates
         else Asks_model (json_or (pa_supervisor_model a) (cfg ''model_supervisor''))
           (unless_null (pa_supervisor_timeout a) (cfg ''supervisor_timeout_s''))),
       su_max_nudges = cfg ''max_nudges'', su_base_branch = pa_base_branch a,
       su_stall = json_or (pa_stall a) (cfg ''stall_threshold_s''),
       su_worker_timeout = json_or (pa_worker_timeout a) (cfg ''worker_timeout_s''),
       su_repeated = cfg ''repeated_failure_threshold'',
       su_wait_ceiling = json_or (pa_wait_ceiling a) (cfg ''wait_ceiling_s''),
       su_verify_timeout = json_or (pa_verify_timeout a) (cfg ''verify_timeout_s''),
       su_tail_tokens = cfg ''transcript_tail_tokens'',
       su_crash = unless_null (pa_crash a) (JBool full),
       su_adaptive = unless_null (pa_adaptive a) (bool_and full (cfg ''adaptive_scheduling'')),
       su_protocol = unless_null (pa_protocol a) (bool_and full (cfg ''protocol_recovery_v2'')),
       su_deterministic = unless_null (pa_deterministic a) (bool_and full (cfg ''deterministic_recovery'')),
       su_ladder = unless_null (pa_ladder a) (bool_and full (cfg ''evidence_ladder''))\<rparr>)))"

section \<open>The scheduler of the command line\<close>

record cli_args =
  ca_fake_worker :: bool
  ca_direct_cli :: bool
  ca_external :: bool
  ca_trusted :: bool
  ca_fake_supervisor :: bool
  ca_supervisor_model :: json
  ca_worker_model :: json

record cli_setup =
  cs_worker :: worker_kind
  cs_sdk_timeout :: json
  cs_worker_model :: json
  cs_supervisor :: supervisor_kind

text \<open>The thresholds are the settings themselves and not repeated here.\<close>

definition cli_scheduler :: "payload option \<Rightarrow> cli_args \<Rightarrow> exc + cli_setup" where
  "cli_scheduler file a =
    (let cfg = (\<lambda>k. jget k (load_settings file));
         worker = (if ca_fake_worker a then Fake_worker else if ca_direct_cli a then Cli_worker else Sdk_worker) in
     bindE (validate_worker_boundary (ca_fake_worker a) (ca_external a) (ca_trusted a)) (\<lambda>_.
     Inr \<lparr>cs_worker = worker,
       cs_sdk_timeout = (if worker = Sdk_worker then cfg ''sdk_timeout_s'' else JNull),
       cs_worker_model = json_or (ca_worker_model a) (cfg ''model_worker''),
       cs_supervisor = (if ca_fake_supervisor a then Always_escalates
         else Asks_model (json_or (ca_supervisor_model a) (cfg ''model_supervisor'')) (cfg ''supervisor_timeout_s''))\<rparr>))"

section \<open>Laws\<close>

text \<open>No worker that runs a model is set up without a declared boundary.\<close>

lemma setup_bounded:
  "build_scheduler seconds file a = Inr s \<Longrightarrow> su_worker s = Fake_worker \<or> pa_isolated a \<or> pa_trusted a"
  "cli_scheduler file c = Inr k \<Longrightarrow> cs_worker k = Fake_worker \<or> ca_external c \<or> ca_trusted c"
  by (auto simp: build_scheduler_def cli_scheduler_def validate_worker_boundary_def bindE_def Let_def split: if_splits sum.splits)

text \<open>The baselines decide nothing by themselves unless they are told to.\<close>

lemma baseline_defaults:
  assumes "build_scheduler seconds file a = Inr s" "pa_policy a \<noteq> ''orchestrator''"
  shows "su_supervisor s = Always_escalates" "su_crash s = unless_null (pa_crash a) (JBool False)"
    "su_deterministic s = unless_null (pa_deterministic a) (JBool False)"
proof -
  have "su_supervisor s = Always_escalates \<and> su_crash s = unless_null (pa_crash a) (JBool False) \<and>
      su_deterministic s = unless_null (pa_deterministic a) (JBool False)"
    using assms(1) unfolding build_scheduler_def Let_def
    by (simp only: if_distrib[of "\<lambda>x. x = Inr s"] bindE_Inr_iff if_bool_eq_conj) (use assms(2) in \<open>auto simp: bool_and_def\<close>)
  then show "su_supervisor s = Always_escalates" "su_crash s = unless_null (pa_crash a) (JBool False)"
    "su_deterministic s = unless_null (pa_deterministic a) (JBool False)" by simp_all
qed

text \<open>The count of earlier launches is what the state knows.\<close>

definition knows :: "fault \<Rightarrow> string list \<Rightarrow> fault_state \<Rightarrow> bool" where
  "knows f past s \<longleftrightarrow> fs_launches s = count_list past (fi_task f) \<and>
    (fs_injected s \<longleftrightarrow> fi_attempt f \<le> int (fs_launches s))"

lemma count_snoc: "count_list (xs @ ys) x = count_list xs x + count_list ys x"
  by (induction xs) auto

lemma fault_step:
  assumes "knows f past s" "1 \<le> fi_attempt f"
  shows "knows f (past @ [t]) (snd (fault_launch f t s))"
    "fst (fault_launch f t s) = (if t = fi_task f \<and> int (count_list (past @ [t]) (fi_task f)) = fi_attempt f
      then Some (injection_of f) else None)"
  using assms by (auto simp: knows_def fault_launch_def Let_def count_snoc)

lemma fault_run:
  assumes "knows f past s" "1 \<le> fi_attempt f" "i < length ts"
  shows "fault_launches f ts s ! i =
    (if ts ! i = fi_task f \<and> int (count_list (past @ take (Suc i) ts) (fi_task f)) = fi_attempt f
     then Some (injection_of f) else None)"
  using assms
proof (induction ts arbitrary: past s i)
  case (Cons t ts)
  obtain inj s' where step: "fault_launch f t s = (inj, s')" by fastforce
  note law = fault_step[OF Cons.prems(1,2), of t, unfolded step fst_conv snd_conv]
  show ?case
  proof (cases i)
    case 0
    then show ?thesis using law(2) by (simp add: step)
  next
    case (Suc j)
    then show ?thesis using Cons.IH[OF law(1) Cons.prems(2), of j] Cons.prems(3) by (simp add: step)
  qed
qed simp

lemma parsed_fault: "parse_fault seconds v = Inr f \<Longrightarrow> 1 \<le> fi_attempt f \<and> fi_mode f \<in> fault_modes \<and> fi_task f \<noteq> []"
  by (auto simp: parse_fault_def Let_def bindE_def split: json.splits if_splits option.splits sum.splits)

end
