(* ===== verification/Operator.thy ===== *)
theory Operator
  imports Policy
begin

text \<open>
  The commands of the operator on a database: \<open>add-task\<close>, \<open>answer\<close>, \<open>cancel\<close>, \<open>status\<close> and the
  notifications of \<open>run\<close> (\<open>cli.py\<close>), and \<open>dagent-verify-gate\<close> (\<open>verify/cli.py\<close>). A command yields its exit
  code and the lines it prints; those of its error output are not told apart.
\<close>

section \<open>Commands that write\<close>

text \<open>A short name of the registry stands for a path.\<close>

definition cmd_add_task :: "(string, string) dict \<Rightarrow> task_def \<Rightarrow> ('z, int \<times> string list) handler" where
  "cmd_add_task registry a =
    bind_io (create_task_io (a\<lparr>td_repo := (case map_of registry (td_repo a) of None \<Rightarrow> td_repo a | Some p \<Rightarrow> p)\<rparr>))
      (\<lambda>tid. ret_io (0, [tid]))"

definition unknown_task :: "string \<Rightarrow> string list" where
  "unknown_task tid = [''unknown task '' @ repr_str tid]"

definition answered_brief :: "string \<Rightarrow> string \<Rightarrow> string" where
  "answered_brief brief message =
    brief @ [CHR 0x0A, CHR 0x0A] @ ''Answer from the manager:'' @ [CHR 0x0A] @ message"

definition cmd_answer :: "string \<Rightarrow> string \<Rightarrow> ('z, int \<times> string list) handler" where
  "cmd_answer tid message =
    bind_io (read_db (find_task tid)) (\<lambda>row. case row of
      None \<Rightarrow> ret_io (2, unknown_task tid)
    | Some t \<Rightarrow>
        if t_state t \<noteq> NeedsHuman then
          ret_io (1, [''task '' @ tid @ '' is '' @ repr_str (state_name (t_state t)) @ '', not needs_human''])
        else
          bind_io (event_io Src_human ''human.messaged'' (Some tid) [(''message'', JStr message)]) (\<lambda>s.
          bind_io (transition_io tid Queued s [(''brief'', JStr (answered_brief (t_brief t) message))]) (\<lambda>_.
            ret_io (0, [tid @ '': needs_human -> queued (answer folded into brief)'']))))"

definition cmd_cancel :: "string \<Rightarrow> string \<Rightarrow> ('z, int \<times> string list) handler" where
  "cmd_cancel tid reason =
    bind_io (read_db (find_task tid)) (\<lambda>row. case row of
      None \<Rightarrow> ret_io (2, unknown_task tid)
    | Some t \<Rightarrow>
        if t_state t \<in> terminal then
          ret_io (1, [''task '' @ tid @ '' is already '' @ repr_str (state_name (t_state t))])
        else
          bind_io (event_io Src_human ''human.cancelled'' (Some tid) [(''reason'', JStr reason)]) (\<lambda>s.
          bind_io (transition_io tid Cancelled s []) (\<lambda>_.
            ret_io (0, [tid @ '': '' @ state_name (t_state t) @ '' -> cancelled'']))))"

text \<open>The stand-alone gate; \<open>run\<close> is \<open>run_verify\<close> on the task's own columns.\<close>

definition standalone_request :: "task_row \<Rightarrow> int \<Rightarrow> verify_request" where
  "standalone_request t timeout =
    \<lparr>v_task_id = t_id t, v_worktree = t_worktree t, v_base_sha = t_base_sha t,
     v_verify_cmd = the (text_or (t_verify_cmd t) (Some ''true'')), v_timeout = timeout, v_repo = t_repo t,
     v_candidate_sha = t_candidate_sha t, v_worker_dirty = None, v_artifact_root = None,
     v_allow_empty_diff = False, v_protocol_result = JNull, v_output_artifacts = None, v_output_schema = None,
     v_targeted = None\<rparr>"

definition recorded_result :: "verify_result \<Rightarrow> payload" where
  "recorded_result r = [(''cause'', jopt (vr_cause r)), (''exit_code'', jint_opt (vr_exit_code r)),
    (''duration_s'', JFloat (vr_duration r)), (''flaky'', JBool (vr_flaky r)), (''diff_stat'', JStr (vr_diff_stat r)),
    (''tests_modified'', vr_tests_modified r), (''output_path'', jopt (vr_output_path r)),
    (''patch_path'', jopt (vr_patch_path r)), (''failure_signature'', jopt (vr_failure_signature r))]"

definition result_json :: "verify_result \<Rightarrow> json" where
  "result_json r = JObj ([(''passed'', JBool (vr_passed r)), (''cause'', jopt (vr_cause r)),
    (''exit_code'', jint_opt (vr_exit_code r)), (''duration_s'', JFloat (vr_duration r)),
    (''flaky'', JBool (vr_flaky r)), (''output_tail'', JStr (vr_output_tail r)), (''diff_stat'', JStr (vr_diff_stat r)),
    (''tests_modified'', vr_tests_modified r), (''output_path'', jopt (vr_output_path r)),
    (''patch_path'', jopt (vr_patch_path r)), (''failure_signature'', jopt (vr_failure_signature r))] @
    (case vr_evidence r of None \<Rightarrow> [] | Some ev \<Rightarrow> [(''evidence'', JObj ev)]))"

definition record_verification :: "string \<Rightarrow> verify_result \<Rightarrow> ('z, unit) handler" where
  "record_verification tid r =
    bind_io (event_io Src_verifier (if vr_passed r then ''verify.passed'' else ''verify.failed'') (Some tid)
      (recorded_result r)) (\<lambda>s.
    bind_io (transition_io tid (if vr_passed r then Delivering else Triage) s []) (\<lambda>_. ret_io ()))"

definition verify_command ::
    "(nat \<Rightarrow> verify_request \<Rightarrow> exc + verify_result) \<Rightarrow> bool \<Rightarrow> bool \<Rightarrow> int \<Rightarrow> string \<Rightarrow> ('z, int \<times> string list) handler" where
  "verify_command run record_it as_json timeout tid =
    bind_io (read_db (find_task tid)) (\<lambda>row. case row of
      None \<Rightarrow> ret_io (2, unknown_task tid)
    | Some t \<Rightarrow>
        bind_io (try_call_io (\<lambda>i. run i (standalone_request t timeout))) (\<lambda>r.
        then_io (when_io record_it (record_verification tid r))
        (ret_io (if vr_passed r then 0 else 1,
          [if as_json then json_dumps (result_json r)
           else (if vr_passed r then ''PASS'' else ''FAIL'') @ '' ('' @ py_str (jopt (vr_cause r)) @ '') in ''
             @ vr_duration r @ ''s'']))))"

section \<open>Notifications\<close>

definition notify_states :: "string list" where
  "notify_states = [''needs_human'', ''delivered'', ''failed'', ''dependency_blocked'']"

definition notify_lines :: "db \<Rightarrow> event_row \<Rightarrow> exc + string list" where
  "notify_lines d e =
    bindE (jkey ''to'' (e_payload e)) (\<lambda>q.
      if q \<notin> set (map JStr notify_states) then Inr []
      else case Option.bind (e_task_id e) (\<lambda>tid. find_task tid d) of
        None \<Rightarrow> Inl (TypeError ''NoneType object is not subscriptable'')
      | Some t \<Rightarrow> Inr [''['' @ py_str q @ ''] '' @ t_id t @ ''  '' @ t_title t])"

text \<open>One poll: the new position in the log and the lines.\<close>

definition notify_poll :: "int \<Rightarrow> db \<Rightarrow> exc + int \<times> string list" where
  "notify_poll seen d =
    (let rows = filter (\<lambda>e. seen < e_seq e \<and> e_type e = ''task.state_changed'') (d_events d) in
     bindE (mapE (notify_lines d) rows) (\<lambda>ls. Inr (if rows = [] then seen else e_seq (last rows), concat ls)))"

section \<open>Status\<close>

definition pad_right :: "nat \<Rightarrow> string \<Rightarrow> string" where
  "pad_right k s = s @ replicate (k - length s) (CHR '' '')"

definition by_creation :: "task_row list \<Rightarrow> task_row list" where
  "by_creation ts = sort_key t_created_at ts"

definition status_table :: "db \<Rightarrow> string list" where
  "status_table d =
    (if d_tasks d = [] then [''no tasks'']
     else map (\<lambda>t. t_id t @ ''  '' @ pad_right 12 (state_name (t_state t)) @ ''  retries='' @ int_text (t_retries t)
       @ ''  '' @ t_title t) (by_creation (d_tasks d)))"

text \<open>The payload of the last event that the test accepts.\<close>

definition last_event_where :: "(event_row \<Rightarrow> bool) \<Rightarrow> db \<Rightarrow> event_row option" where
  "last_event_where P d = (case rev (filter P (d_events d)) of [] \<Rightarrow> None | e # _ \<Rightarrow> Some e)"

definition last_acted :: "string \<Rightarrow> db \<Rightarrow> event_row option" where
  "last_acted tid = last_event_where (\<lambda>e. e_task_id e = Some tid \<and> e_type e = ''supervisor.acted'')"

definition is_index :: "json \<Rightarrow> nat \<Rightarrow> bool" where
  "is_index v i = (case v of JInt j \<Rightarrow> j = int i | JBool b \<Rightarrow> (if b then 1 else 0) = i | _ \<Rightarrow> False)"

definition option_line :: "payload \<Rightarrow> nat \<times> json \<Rightarrow> string" where
  "option_line p = (\<lambda>(i, opt). ''    ['' @ nat_text i @ ''] '' @ py_str opt @
    (if is_index (jget ''recommended'' p) i then '' (recommended)'' else []))"

definition text_of :: "string \<Rightarrow> payload \<Rightarrow> string" where
  "text_of k p = py_str (jget_default k (JStr []) p)"

definition escalation_lines :: "string \<Rightarrow> payload \<Rightarrow> exc + string list" where
  "escalation_lines tid p =
    bindE (iterate (jget_default ''options'' (JList []) p)) (\<lambda>opts.
      Inr ([''  escalated:     '' @ text_of ''summary'' p, ''  question:      '' @ text_of ''question'' p]
        @ map (option_line p) (enumerate 0 opts)
        @ [''  resolve with:  dagent answer '' @ tid @ '' \"...\"'']))"

definition short_sha :: "json \<Rightarrow> exc + string" where
  "short_sha v = (case v of
      JStr s \<Rightarrow> Inr (take 12 s)
    | JList xs \<Rightarrow> Inr (py_repr (JList (take 12 xs)))
    | _ \<Rightarrow> Inl (TypeError ''object is not subscriptable''))"

definition delivery_types :: "string set" where
  "delivery_types = {''delivery.pr_opened'', ''delivery.merged_local'', ''delivery.report_written''}"

definition delivered_lines :: "task_row \<Rightarrow> event_row \<Rightarrow> exc + string list" where
  "delivered_lines t e =
    (let p = e_payload e;
         before = jget_default ''before_sha'' (JStr []) p;
         after = jget_default ''after_sha'' (JStr []) p;
         range = py_str before @ ''..'' @ py_str after in
     if e_type e = ''delivery.pr_opened'' then
       Inr [''  delivered:     PR opened at '' @ text_of ''url'' p, ''  branch:        '' @ text_of ''branch'' p,
         ''  commit:        '' @ text_of ''commit_sha'' p]
     else if e_type e = ''delivery.merged_local'' then
       bindE (short_sha before) (\<lambda>b. bindE (short_sha after) (\<lambda>a.
         Inr [''  delivered:     merged locally '' @ b @ ''..'' @ a,
           ''  review diff:   git -C '' @ t_repo t @ '' diff '' @ range,
           ''  review log:    git -C '' @ t_repo t @ '' log --oneline '' @ range]))
     else Inr [''  delivered:     report written to '' @ text_of ''path'' p])"

definition patch_lines :: "event_row option \<Rightarrow> string list" where
  "patch_lines v = (case v of
      None \<Rightarrow> []
    | Some e \<Rightarrow> if truthy (jget ''patch_path'' (e_payload e))
        then [''  patch:         '' @ py_str (jget ''patch_path'' (e_payload e))] else [])"

definition optE :: "('a \<Rightarrow> exc + 'b list) \<Rightarrow> 'a option \<Rightarrow> exc + 'b list" where
  "optE f v = (case v of None \<Rightarrow> Inr [] | Some x \<Rightarrow> f x)"

text \<open>
  The detail of a task: its exit code and lines. An exception leaves nothing to read here, although the
  first lines are already printed then.
\<close>

definition task_detail :: "string \<Rightarrow> db \<Rightarrow> exc + int \<times> string list" where
  "task_detail tid d = (case find_task tid d of
      None \<Rightarrow> Inr (2, unknown_task tid)
    | Some t \<Rightarrow>
        let head = [t_id t @ ''  '' @ t_title t,
          ''  state:         '' @ state_name (t_state t) @ '' (retries '' @ int_text (t_retries t) @ ''/''
            @ int_text (t_max_retries t) @ '')'',
          ''  repo:          '' @ t_repo t, ''  delivery_mode: '' @ t_delivery_mode t,
          ''  verify_cmd:    '' @ py_str (jopt (t_verify_cmd t))] in
        if t_state t = NeedsHuman then
          bindE (optE (\<lambda>e. escalation_lines tid (e_payload e)) (last_acted tid d)) (\<lambda>ls. Inr (0, head @ ls))
        else if t_state t = Delivered then
          bindE (optE (delivered_lines t) (last_event_where (\<lambda>e. e_task_id e = Some tid \<and>
            e_source e = Src_delivery \<and> e_type e \<in> delivery_types) d)) (\<lambda>ls.
          Inr (0, head @ ls @ patch_lines (last_event_where (\<lambda>e. e_task_id e = Some tid \<and>
            e_type e = ''verify.passed'') d)))
        else Inr (0, head))"

text \<open>\<open>Counter.most_common()\<close>: by falling count, equal counts in the order of first occurrence.\<close>

definition most_common :: "'a list \<Rightarrow> ('a \<times> nat) list" where
  "most_common xs = sort_key (\<lambda>(x, n). - int n) (map (\<lambda>x. (x, count_list xs x)) (rev (remdups (rev xs))))"

definition digest_lines :: "db \<Rightarrow> task_row \<Rightarrow> string list" where
  "digest_lines d t =
    (let question = (case last_acted (t_id t) d of None \<Rightarrow> JStr [] | Some e \<Rightarrow> jget_default ''question'' (JStr []) (e_payload e))
     in [''  '' @ t_id t @ ''  '' @ t_title t] @
       (if truthy question then [''    asking: '' @ py_str question] else []))"

definition status_digest :: "db \<Rightarrow> string list" where
  "status_digest d =
    (if d_tasks d = [] then [''no tasks'']
     else
       let waiting = by_creation (filter (\<lambda>t. t_state t = NeedsHuman) (d_tasks d)) in
       [nat_text (length (d_tasks d)) @ '' tasks: '' @
          join '', '' (map (\<lambda>(q, n). nat_text n @ '' '' @ state_name q) (most_common (map t_state (d_tasks d)))),
        ''worker sessions spawned: '' @ nat_text (card (set (List.map_filter t_session_id (d_tasks d))))] @
       (if waiting = [] then []
        else [[], ''needs_human ('' @ nat_text (length waiting) @ ''):''] @ concat (map (digest_lines d) waiting)))"

definition cmd_status :: "bool \<Rightarrow> string option \<Rightarrow> db \<Rightarrow> exc + int \<times> string list" where
  "cmd_status digest tid d =
    (if digest then Inr (0, status_digest d)
     else if given tid then task_detail (the tid) d
     else Inr (0, status_table d))"

section \<open>Running\<close>

text \<open>
  \<open>run\<close> drives the scheduler of a set-up; \<open>forever\<close> tells it whether to return when all tasks rest. A
  daemon returns only when it is interrupted.
\<close>

definition with_scheduler ::
    "payload option \<Rightarrow> cli_args \<Rightarrow> (cli_setup \<Rightarrow> ('z, int \<times> string list) handler) \<Rightarrow> ('z, int \<times> string list) handler" where
  "with_scheduler file a go = (case cli_scheduler file a of
      Inl (WorkerIsolationError m) \<Rightarrow> ret_io (2, [''error: '' @ m])
    | Inl e \<Rightarrow> raise_io e
    | Inr s \<Rightarrow> go s)"

definition cmd_run ::
    "(cli_setup \<Rightarrow> bool \<Rightarrow> ('z, unit) handler) \<Rightarrow> payload option \<Rightarrow> cli_args \<Rightarrow> ('z, int \<times> string list) handler" where
  "cmd_run run file a = with_scheduler file a (\<lambda>s.
    then_io (run s False) (bind_io (read_db status_table) (\<lambda>ls. ret_io (0, ls))))"

definition cmd_daemon ::
    "(cli_setup \<Rightarrow> bool \<Rightarrow> ('z, unit) handler) \<Rightarrow> string \<Rightarrow> payload option \<Rightarrow> cli_args \<Rightarrow> ('z, int \<times> string list) handler" where
  "cmd_daemon run path file a = with_scheduler file a (\<lambda>s.
    then_io (run s True)
      (ret_io (0, [''watching '' @ path @ '' for tasks (Ctrl-C to stop)...'', CHR 0x0A # ''shutting down...''])))"

text \<open>Without a declared boundary nothing of the scheduler runs.\<close>

lemma unbounded_run_refused:
  assumes "\<not> ca_fake_worker a" "\<not> ca_external a" "\<not> ca_trusted a"
  shows "\<exists>m. cmd_run run file a w = (Inr (2, [''error: '' @ m]), w)"
  using assms by (simp add: cmd_run_def with_scheduler_def cli_scheduler_def validate_worker_boundary_def bindE_def ret_io_def Let_def)

end
