(* ===== verification/Launcher.thy ===== *)
theory Launcher
  imports Launch
begin

text \<open>
  The start of a worker process (\<open>worker/sdk.py\<close>, \<open>worker/cli.py\<close>, \<open>worker/fake.py\<close>): its arguments, its
  environment, and the file with its brief.
\<close>

section \<open>Arguments and environment\<close>

definition safe_char :: "char \<Rightarrow> bool" where
  "safe_char c = (let n = of_char c :: nat in
    97 \<le> n \<and> n \<le> 122 \<or> 65 \<le> n \<and> n \<le> 90 \<or> 48 \<le> n \<and> n \<le> 57 \<or> c = CHR ''-'' \<or> c = CHR ''_'')"

definition safe_task_id :: "string \<Rightarrow> string" where
  "safe_task_id tid = map (\<lambda>c. if safe_char c then c else CHR ''_'') tid"

definition auth_env :: "string set" where
  "auth_env = {''ANTHROPIC_API_KEY'', ''ANTHROPIC_AUTH_TOKEN'', ''ANTHROPIC_BASE_URL'', ''CLAUDE_CODE_OAUTH_TOKEN'',
    ''CLAUDE_CODE_USE_BEDROCK'', ''AWS_ACCESS_KEY_ID'', ''AWS_SECRET_ACCESS_KEY'', ''AWS_SESSION_TOKEN'',
    ''AWS_REGION'', ''AWS_DEFAULT_REGION''}"

type_synonym process_env = "(string, string) dict"

definition env_get :: "string \<Rightarrow> process_env \<Rightarrow> string" where
  "env_get k e = (case map_of e k of None \<Rightarrow> [] | Some v \<Rightarrow> v)"

text \<open>\<open>own\<close> is the environment of the scheduler, \<open>given_env\<close> that of the caller for this worker.\<close>

definition inherited_env :: "process_env \<Rightarrow> process_env option \<Rightarrow> process_env" where
  "inherited_env own given_env = (case given_env of
      None \<Rightarrow> own
    | Some e \<Rightarrow> AList.merge (filter (\<lambda>(k, v). k \<notin> auth_env) own) e)"

definition worker_env :: "string \<Rightarrow> process_env \<Rightarrow> process_env option \<Rightarrow> json \<Rightarrow> process_env" where
  "worker_env src own given_env timeout =
    (let e = inherited_env own given_env;
         e1 = AList.update ''PYTHONPATH'' (join '':'' (filter (\<lambda>p. p \<noteq> []) [src, env_get ''PYTHONPATH'' e])) e
     in if timeout = JNull then e1 else AList.update ''ORCH_SDK_TIMEOUT_S'' (py_str timeout) e1)"

definition fake_env :: "string \<Rightarrow> process_env \<Rightarrow> process_env" where
  "fake_env src own = AList.update ''PYTHONPATH'' (join '':'' [src, env_get ''PYTHONPATH'' own]) own"

definition worker_command :: "string \<Rightarrow> string \<Rightarrow> string \<Rightarrow> string \<Rightarrow> string \<Rightarrow> string option \<Rightarrow> string list" where
  "worker_command python module tid wt brief model =
    [python, ''-m'', module, ''--task-id'', tid, ''--worktree'', wt, ''--brief-file'', brief] @
    (if given model then [''--model'', the model] else [])"

definition fake_command :: "string \<Rightarrow> string \<Rightarrow> string \<Rightarrow> string list" where
  "fake_command python scenario wt =
    [python, ''-m'', ''dagent.worker.fake_worker'', ''--scenario'', scenario, ''--worktree'', wt]"

section \<open>Starting\<close>

text \<open>The brief files that exist, and the processes that were started with command, environment and directory.\<close>

record launcher =
  la_files :: "(string, string) dict"
  la_started :: "(string list \<times> process_env \<times> string) list"

text \<open>
  \<open>tmp\<close> names the new file of \<open>mkstemp\<close> for a prefix, \<open>writes\<close> and \<open>starts\<close> are what the write of the brief and
  the start of the process do: raise, or succeed, the latter with a process id.
\<close>

record launch_host =
  lh_python :: string
  lh_src :: string
  lh_env :: process_env
  lh_tmp :: "string \<Rightarrow> string"
  lh_writes :: "exc + unit"
  lh_starts :: "exc + int"

definition lift_launch :: "exc + 'a \<Rightarrow> (launcher, 'a) io" where
  "lift_launch r s = (r, s)"

definition start_process :: "launch_host \<Rightarrow> string list \<Rightarrow> process_env \<Rightarrow> string \<Rightarrow> (launcher, int) io" where
  "start_process H args e cwd =
    bind_io (lift_launch (lh_starts H)) (\<lambda>pid.
    then_io (modify_io (\<lambda>s. s\<lparr>la_started := la_started s @ [(args, e, cwd)]\<rparr>)) (ret_io pid))"

definition unlink_brief :: "string \<Rightarrow> (launcher, unit) io" where
  "unlink_brief path = modify_io (\<lambda>s. s\<lparr>la_files := AList.delete path (la_files s)\<rparr>)"

definition spawn_worker ::
    "launch_host \<Rightarrow> string \<Rightarrow> json \<Rightarrow> task_row \<Rightarrow> string option \<Rightarrow> string option \<Rightarrow> string \<Rightarrow> string option \<Rightarrow> process_env option
      \<Rightarrow> (launcher, int) io" where
  "spawn_worker H module timeout t contract feedback wt model given_env =
    (let path = lh_tmp H (''orch-'' @ safe_task_id (t_id t) @ ''-'');
         brief = (if given contract then the contract else build_execution_contract t wt feedback) in
     then_io (modify_io (\<lambda>s. s\<lparr>la_files := AList.update path [] (la_files s)\<rparr>))
     (then_io (lift_launch (lh_writes H))
     (then_io (modify_io (\<lambda>s. s\<lparr>la_files := AList.update path brief (la_files s)\<rparr>))
     (catch_io
       (start_process H (worker_command (lh_python H) module (t_id t) wt path model)
         (worker_env (lh_src H) (lh_env H) given_env timeout) wt)
       (\<lambda>e. then_io (unlink_brief path) (raise_io e))))))"

definition spawn_sdk_worker ::
    "launch_host \<Rightarrow> json \<Rightarrow> task_row \<Rightarrow> string option \<Rightarrow> string option \<Rightarrow> string \<Rightarrow> string option \<Rightarrow> process_env option
      \<Rightarrow> (launcher, int) io" where
  "spawn_sdk_worker H timeout = spawn_worker H ''dagent.worker.sdk_worker'' timeout"

definition spawn_cli_worker ::
    "launch_host \<Rightarrow> task_row \<Rightarrow> string option \<Rightarrow> string option \<Rightarrow> string \<Rightarrow> string option \<Rightarrow> process_env option
      \<Rightarrow> (launcher, int) io" where
  "spawn_cli_worker H = spawn_worker H ''dagent.worker.cli_worker'' JNull"

text \<open>\<open>scenario\<close> is the task's own scenario; without it the brief names one.\<close>

definition spawn_fake_worker :: "launch_host \<Rightarrow> task_row \<Rightarrow> string option \<Rightarrow> string \<Rightarrow> (launcher, int) io" where
  "spawn_fake_worker H t scenario wt =
    start_process H (fake_command (lh_python H) (case scenario of None \<Rightarrow> t_brief t | Some s \<Rightarrow> s) wt)
      (fake_env (lh_src H) (lh_env H)) wt"

section \<open>Laws\<close>

lemma inherited_auth:
  "k \<in> auth_env \<Longrightarrow> map_of (inherited_env own (Some e)) k = map_of e k"
proof -
  assume k: "k \<in> auth_env"
  have "map_of (filter (\<lambda>(k, v). k \<notin> auth_env) own) k = None"
    using k by (auto simp: map_of_eq_None_iff)
  then show ?thesis by (simp add: inherited_env_def merge_conv' map_add_def split: option.split)
qed

lemma auth_plain: "''PYTHONPATH'' \<notin> auth_env" "''ORCH_SDK_TIMEOUT_S'' \<notin> auth_env"
  by (simp_all add: auth_env_def)

lemma spawn_effect:
  assumes "spawn_worker H module timeout t contract feedback wt model given_env s = (r, s')"
  defines "path \<equiv> lh_tmp H (''orch-'' @ safe_task_id (t_id t) @ ''-'')"
  shows "lh_writes H = Inr () \<Longrightarrow> r = lh_starts H"
    and "r = Inr pid \<Longrightarrow> la_started s' = la_started s @ [(worker_command (lh_python H) module (t_id t) wt path model,
      worker_env (lh_src H) (lh_env H) given_env timeout, wt)]"
    and "r = Inr pid \<Longrightarrow> map_of (la_files s') path =
      Some (if given contract then the contract else build_execution_contract t wt feedback)"
    and "r = Inl e \<Longrightarrow> la_started s' = la_started s"
    and "lh_writes H = Inr () \<Longrightarrow> r = Inl e \<Longrightarrow> map_of (la_files s') path = None"
  using assms(1)
  by (auto simp: spawn_worker_def start_process_def unlink_brief_def lift_launch_def io_defs path_def Let_def
      update_conv' delete_conv' split: sum.splits if_splits)

text \<open>When the brief cannot be written its empty file stays behind: the clean-up covers only the start.\<close>

lemma unwritten_brief_left:
  assumes "lh_writes H = Inl e"
  shows "\<exists>s'. spawn_worker H module timeout t contract feedback wt model given_env s = (Inl e, s') \<and>
    map_of (la_files s') (lh_tmp H (''orch-'' @ safe_task_id (t_id t) @ ''-'')) = Some []"
  using assms by (simp add: spawn_worker_def lift_launch_def io_defs Let_def update_conv')

end
