(* ===== verification/Metrics.thy ===== *)
theory Metrics
  imports Sched Preflight Recovery
begin

text \<open>
  The metrics of a run, computed from its database (\<open>metrics.py\<close>). Instants and durations are
  microseconds, a rounded duration is milliseconds. \<open>usd\<close> reads the stored cost of an event and
  \<open>seconds\<close> is \<open>float\<close> of a JSON value, in microseconds.
\<close>

section \<open>Durations\<close>

definition duration :: "int option \<Rightarrow> int option \<Rightarrow> int" where
  "duration start finish = (case (start, finish) of (Some a, Some b) \<Rightarrow> max (b - a) 0 | _ \<Rightarrow> 0)"

definition to_ms :: "int \<Rightarrow> int" where
  "to_ms us = round_div us 1000"

section \<open>Slots and triages\<close>

record slots =
  sl_queued :: "(string option, int list) dict"
  sl_acquired :: "(json, int) dict"
  sl_wait :: int
  sl_held :: int
  sl_peak :: int
  sl_limit :: int

definition slots_init :: slots where
  "slots_init = \<lparr>sl_queued = [], sl_acquired = [], sl_wait = 0, sl_held = 0, sl_peak = 0, sl_limit = 0\<rparr>"

definition the_queue :: "string option \<Rightarrow> slots \<Rightarrow> int list" where
  "the_queue k s = (case map_of (sl_queued s) k of None \<Rightarrow> [] | Some ts \<Rightarrow> ts)"

definition int_of :: "json \<Rightarrow> exc + int" where
  "int_of v = (case int_value v of
      Some n \<Rightarrow> Inr n
    | None \<Rightarrow> Inl (case v of JStr s \<Rightarrow> ValueError (''invalid literal for int() with base 10: '' @ repr_str s)
        | _ \<Rightarrow> TypeError ''int() argument must be a string or a number''))"

definition count_of :: "string \<Rightarrow> payload \<Rightarrow> exc + int" where
  "count_of k p = int_of (jget_default k (JInt 0) p)"

definition note_acquired :: "event_row \<Rightarrow> slots \<Rightarrow> slots" where
  "note_acquired e s =
    (let aid = jget ''attempt_id'' (e_payload e) in
     if truthy aid \<and> map_of (sl_acquired s) aid = None then
       let s1 = s\<lparr>sl_acquired := AList.update aid (e_ts e) (sl_acquired s)\<rparr> in
       (case the_queue (e_task_id e) s of
          [] \<Rightarrow> s1
        | t # ts \<Rightarrow> s1\<lparr>sl_queued := AList.update (e_task_id e) ts (sl_queued s),
            sl_wait := sl_wait s + duration (Some t) (Some (e_ts e))\<rparr>)
     else s)"

definition slot_event :: "event_row \<Rightarrow> slots \<Rightarrow> exc + slots" where
  "slot_event e s =
    (let p = e_payload e in
     if e_type e = ''task.state_changed'' \<and> jget ''to'' p = JStr ''queued'' then
       Inr (s\<lparr>sl_queued := AList.update (e_task_id e) (the_queue (e_task_id e) s @ [e_ts e]) (sl_queued s)\<rparr>)
     else if e_type e = ''worker.slot_acquired'' then
       bindE (count_of ''occupancy'' p) (\<lambda>n. bindE (count_of ''limit'' p) (\<lambda>l.
         let s1 = note_acquired e s in Inr (s1\<lparr>sl_peak := max (sl_peak s1) n, sl_limit := max (sl_limit s1) l\<rparr>)))
     else if e_type e = ''worker.slot_released'' then
       (case map_of (sl_acquired s) (jget ''attempt_id'' p) of
          None \<Rightarrow> Inr s
        | Some t \<Rightarrow> Inr (s\<lparr>sl_held := sl_held s + duration (Some t) (Some (e_ts e)),
            sl_acquired := AList.delete (jget ''attempt_id'' p) (sl_acquired s)\<rparr>))
     else Inr s)"

record triages =
  tr_open :: "(json, int) dict"
  tr_time :: int

definition triage_event :: "event_row \<Rightarrow> triages \<Rightarrow> triages" where
  "triage_event e s =
    (let cause = jget ''cause_seq'' (e_payload e) in
     if cause = JNull then s
     else if e_type e = ''triage.started'' then s\<lparr>tr_open := AList.update cause (e_ts e) (tr_open s)\<rparr>
     else if e_type e = ''triage.finished'' then
       (case map_of (tr_open s) cause of
          None \<Rightarrow> s
        | Some t \<Rightarrow> s\<lparr>tr_time := tr_time s + duration (Some t) (Some (e_ts e)), tr_open := AList.delete cause (tr_open s)\<rparr>)
     else s)"

definition triage_time :: "event_row list \<Rightarrow> int" where
  "triage_time es = tr_time (fold triage_event es \<lparr>tr_open = [], tr_time = 0\<rparr>)"

section \<open>Attempts\<close>

text \<open>From the end of an attempt to the start of the next one of its task.\<close>

definition retry_gaps :: "attempt_row list \<Rightarrow> int" where
  "retry_gaps as = sum_list (map (\<lambda>(p, c). duration (a_worker_ended_at p) (a_worker_started_at c)) (zip as (tl as)))"

definition candidate_to_retry :: "attempt_row list \<Rightarrow> int" where
  "candidate_to_retry as = sum_list (map (\<lambda>tid. retry_gaps (sort_key a_attempt_no (filter (\<lambda>a. a_task_id a = tid) as)))
    (remdups (map a_task_id as)))"

record timing =
  ti_queue_wait :: int
  ti_slot_occupancy :: int
  ti_worker :: int
  ti_verification :: int
  ti_supervisor :: int
  ti_triage :: int
  ti_retry :: int
  ti_peak :: int
  ti_limit :: int
  ti_attempts :: nat
  ti_verification_attempts :: nat

definition count_type :: "string \<Rightarrow> event_row list \<Rightarrow> nat" where
  "count_type typ es = length (filter (\<lambda>e. e_type e = typ) es)"

definition intervention_time :: "intervention_row list \<Rightarrow> int" where
  "intervention_time is = sum_list (map (\<lambda>i. duration (Some (i_started_at i)) (i_ended_at i)) is)"

definition timing_of :: "db \<Rightarrow> exc + timing" where
  "timing_of d =
    bindE (foldE slot_event (d_events d) slots_init) (\<lambda>s. Inr \<lparr>
      ti_queue_wait = to_ms (sl_wait s), ti_slot_occupancy = to_ms (sl_held s),
      ti_worker = to_ms (sum_list (map (\<lambda>a. duration (a_worker_started_at a) (a_worker_ended_at a)) (d_attempts d))),
      ti_verification = to_ms (sum_list (map (\<lambda>a. duration (a_verification_started_at a) (a_verification_ended_at a))
        (d_attempts d))),
      ti_supervisor = to_ms (intervention_time (d_interventions d)), ti_triage = to_ms (triage_time (d_events d)),
      ti_retry = to_ms (candidate_to_retry (d_attempts d)), ti_peak = sl_peak s, ti_limit = sl_limit s,
      ti_attempts = length (d_attempts d), ti_verification_attempts = count_type ''verify.started'' (d_events d)\<rparr>)"

section \<open>Evidence stages\<close>

text \<open>How often each stage ran, and its time, which is rounded at every addition.\<close>

type_synonym stage_times = "(string, nat \<times> int) dict"

definition record_stage :: "(json \<Rightarrow> exc + int) \<Rightarrow> json \<Rightarrow> json \<Rightarrow> stage_times \<Rightarrow> stage_times" where
  "record_stage seconds stage dur m =
    (if \<not> truthy stage then m
     else
       let name = py_str stage;
           us = (case seconds (json_or dur (JInt 0)) of Inl e \<Rightarrow> 0 | Inr t \<Rightarrow> max t 0);
           (n, t) = (case map_of m name of None \<Rightarrow> (0, 0) | Some v \<Rightarrow> v)
       in AList.update name (Suc n, to_ms (1000 * t + us)) m)"

definition stage_duration :: "payload \<Rightarrow> json" where
  "stage_duration p = jget_default ''duration_s'' (jget ''duration'' p) p"

definition embedded_stage :: "(json \<Rightarrow> exc + int) \<Rightarrow> json \<Rightarrow> stage_times \<Rightarrow> stage_times" where
  "embedded_stage seconds v m = (case v of
      JObj p \<Rightarrow> if truthy (jget_default ''applicable'' (JBool True) p)
        then record_stage seconds (jget ''stage'' p) (stage_duration p) m else m
    | _ \<Rightarrow> m)"

definition stage_types :: "string set" where
  "stage_types = {''verify.evidence_stage'', ''evidence.stage_completed'', ''verify.stage_completed''}"

definition evidence_event :: "(json \<Rightarrow> exc + int) \<Rightarrow> event_row \<Rightarrow> stage_times \<Rightarrow> exc + stage_times" where
  "evidence_event seconds e m =
    (let p = e_payload e;
         m1 = (if e_type e \<in> stage_types then record_stage seconds (jget ''stage'' p) (stage_duration p) m else m)
     in case jget ''evidence'' p of
          JObj ev \<Rightarrow> bindE (iterate (jget_default ''stages'' (JList []) ev)) (\<lambda>vs. Inr (fold (embedded_stage seconds) vs m1))
        | _ \<Rightarrow> Inr m1)"

section \<open>All metrics\<close>

definition failure_types :: "string set" where
  "failure_types = {''worker.exited'', ''worker.protocol_incomplete'', ''worker.stalled'', ''worker.timeout'',
    ''worker.sdk_timeout'', ''worker.startup_failed'', ''worker.sdk_failure'', ''verify.failed'',
    ''artifact.validation_failed'', ''interface.validation_failed'', ''delivery.failed''}"

definition failure_of :: "event_row \<Rightarrow> string" where
  "failure_of e = (if e_type e = ''worker.sdk_failure'' then ''sdk_failure''
    else class_value (classify_failure (e_type e) (e_payload e)))"

definition tally :: "'a list \<Rightarrow> ('a, nat) dict" where
  "tally xs = map (\<lambda>x. (x, count_list xs x)) (rev (remdups (rev xs)))"

record metrics =
  me_tasks :: nat
  me_executed :: nat
  me_state_counts :: "(tstate, nat) dict"
  me_tokens_in :: int
  me_tokens_out :: int
  me_cost :: int
  me_worker_cost :: int
  me_supervisor_cost :: int
  me_interventions :: nat
  me_verify_failed :: nat
  me_recovered :: nat
  me_timing :: timing
  me_fault_reached :: bool
  me_fault_target :: json
  me_recovery_attempts :: nat
  me_recovery_verified :: nat
  me_recovery_failed :: nat
  me_first_failure :: "(int \<times> string) option"
  me_failures :: "(string, nat) dict"
  me_terminal :: "(json, nat) dict"
  me_recovery_time :: int
  me_wall :: int
  me_stages :: stage_times

definition state_count :: "metrics \<Rightarrow> tstate \<Rightarrow> nat" where
  "state_count m q = (case map_of (me_state_counts m) q of None \<Rightarrow> 0 | Some n \<Rightarrow> n)"

definition terminal_state_counts :: "metrics \<Rightarrow> (tstate, nat) dict" where
  "terminal_state_counts m = filter (\<lambda>(q, n). n \<noteq> 0)
    (map (\<lambda>q. (q, state_count m q)) [Delivered, Failed, Cancelled, DependencyBlocked])"

definition sum_some :: "int option list \<Rightarrow> int" where
  "sum_some vs = sum_list (List.map_filter id vs)"

definition cost_sum :: "(string \<Rightarrow> int) \<Rightarrow> event_row list \<Rightarrow> int" where
  "cost_sum usd es = sum_some (map (\<lambda>e. map_option usd (e_cost_usd e)) es)"

definition metrics_for :: "(string \<Rightarrow> int) \<Rightarrow> (json \<Rightarrow> exc + int) \<Rightarrow> db \<Rightarrow> exc + metrics" where
  "metrics_for usd seconds d =
    (let es = d_events d;
         from_source = (\<lambda>src. filter (\<lambda>e. e_source e = src) es);
         failures = map (\<lambda>e. (e_seq e, failure_of e)) (filter (\<lambda>e. e_type e \<in> failure_types) es);
         classified = map (\<lambda>e. jget ''classification'' (e_payload e))
           (filter (\<lambda>e. e_type e = ''task.terminal_classified'') es);
         fault = find (\<lambda>e. e_type e = ''fault_injection.target_reached'') es in
     bindE (timing_of d) (\<lambda>ti.
     bindE (foldE (evidence_event seconds) es []) (\<lambda>stages. Inr \<lparr>
       me_tasks = length (d_tasks d),
       me_executed = length (remdups (List.map_filter e_task_id (filter (\<lambda>e. e_type e = ''worker.spawned'') es))),
       me_state_counts = tally (map t_state (d_tasks d)),
       me_tokens_in = sum_some (map e_tokens_in es), me_tokens_out = sum_some (map e_tokens_out es),
       me_cost = cost_sum usd es, me_worker_cost = cost_sum usd (from_source Src_worker),
       me_supervisor_cost = cost_sum usd (from_source Src_supervisor),
       me_interventions = length (d_interventions d), me_verify_failed = count_type ''verify.failed'' es,
       me_recovered = count_type ''verification.recovered'' es, me_timing = ti,
       me_fault_reached = (fault \<noteq> None),
       me_fault_target = (case fault of None \<Rightarrow> JNull | Some e \<Rightarrow> jget ''target'' (e_payload e)),
       me_recovery_attempts = count_type ''recovery.attempted'' es,
       me_recovery_verified = count_type ''recovery.verified'' es,
       me_recovery_failed = count_type ''recovery.failed'' es,
       me_first_failure = (case failures of [] \<Rightarrow> None | f # _ \<Rightarrow> Some f),
       me_failures = tally (map snd failures), me_terminal = tally (filter truthy classified),
       me_recovery_time = to_ms (intervention_time (d_interventions d)),
       me_wall = (if 1 < length es then to_ms (duration (Some (e_ts (hd es))) (Some (e_ts (last es)))) else 0),
       me_stages = stages\<rparr>)))"

section \<open>Laws\<close>

lemma tally_total: "sum_list (map snd (tally xs)) = length xs"
proof -
  have "sum_list (map snd (tally xs)) = sum_list (map (count_list xs) (rev (remdups (rev xs))))"
    by (simp add: tally_def comp_def)
  also have "\<dots> = (\<Sum>x\<in>set xs. count_list xs x)"
    by (simp add: sum_list_distinct_conv_sum_set)
  finally show ?thesis by (simp add: sum_count_set[of xs "set xs"])
qed

lemma duration_nonneg [simp]: "0 \<le> duration a b"
  by (simp add: duration_def split: option.split)

lemma to_ms_nonneg [simp]: "0 \<le> us \<Longrightarrow> 0 \<le> to_ms us"
  by (simp add: to_ms_def round_div_def Let_def pos_imp_zdiv_nonneg_iff)

definition slots_ok :: "slots \<Rightarrow> bool" where
  "slots_ok s \<longleftrightarrow> 0 \<le> sl_wait s \<and> 0 \<le> sl_held s \<and> 0 \<le> sl_peak s \<and> 0 \<le> sl_limit s"

lemma slot_event_ok: "slot_event e s = Inr s' \<Longrightarrow> slots_ok s \<Longrightarrow> slots_ok s'"
  by (auto simp: slot_event_def note_acquired_def slots_ok_def Let_def bindE_Inr_iff split: if_splits option.splits list.splits)

lemma slots_kept: "foldE slot_event es s = Inr s' \<Longrightarrow> slots_ok s \<Longrightarrow> slots_ok s'"
  by (induction es arbitrary: s) (auto split: sum.splits dest: slot_event_ok)

lemma triage_time_nonneg: "0 \<le> triage_time es"
proof -
  have "0 \<le> tr_time s \<Longrightarrow> 0 \<le> tr_time (fold triage_event es s)" for s
  proof (induction es arbitrary: s)
    case (Cons e es)
    have "0 \<le> tr_time (triage_event e s)" using Cons.prems by (auto simp: triage_event_def Let_def split: option.split)
    then show ?case using Cons.IH by simp
  qed simp
  then show ?thesis by (simp add: triage_time_def)
qed

lemma sum_nonneg_map: "(\<And>x. 0 \<le> (f x :: int)) \<Longrightarrow> 0 \<le> sum_list (map f xs)"
  by (induction xs) auto

lemma timing_nonneg:
  assumes "timing_of d = Inr t"
  shows "0 \<le> ti_queue_wait t" "0 \<le> ti_slot_occupancy t" "0 \<le> ti_worker t" "0 \<le> ti_verification t"
    "0 \<le> ti_supervisor t" "0 \<le> ti_triage t" "0 \<le> ti_retry t" "0 \<le> ti_peak t"
proof -
  obtain s where s: "foldE slot_event (d_events d) slots_init = Inr s" using assms by (auto simp: timing_of_def bindE_Inr_iff)
  have "slots_ok s" using slots_kept[OF s] by (simp add: slots_ok_def slots_init_def)
  then show "0 \<le> ti_queue_wait t" "0 \<le> ti_slot_occupancy t" "0 \<le> ti_worker t" "0 \<le> ti_verification t"
    "0 \<le> ti_supervisor t" "0 \<le> ti_triage t" "0 \<le> ti_retry t" "0 \<le> ti_peak t"
    using assms by (auto simp: timing_of_def s bindE_Inr_iff slots_ok_def triage_time_nonneg intervention_time_def
        candidate_to_retry_def retry_gaps_def intro!: to_ms_nonneg sum_nonneg_map)
qed

lemma metrics_Inr:
  assumes "metrics_for usd seconds d = Inr m"
  shows "timing_of d = Inr (me_timing m)" "me_tasks m = length (d_tasks d)"
    "me_state_counts m = tally (map t_state (d_tasks d))"
  using assms by (auto simp: metrics_for_def bindE_Inr_iff Let_def)

text \<open>Every task is counted once, in its state.\<close>

lemma states_counted:
  assumes "metrics_for usd seconds d = Inr m"
  shows "sum_list (map snd (me_state_counts m)) = me_tasks m"
    "state_count m q = length (filter (\<lambda>t. t_state t = q) (d_tasks d))"
proof -
  show "sum_list (map snd (me_state_counts m)) = me_tasks m"
    using metrics_Inr[OF assms] by (simp add: tally_total)
  have count: "count_list (map t_state ts) q = length (filter (\<lambda>t. t_state t = q) ts)" for ts
    by (induction ts) auto
  have look: "map_of (map (\<lambda>x. (x, f x)) xs) q = (if q \<in> set xs then Some (f q) else None)" for f :: "tstate \<Rightarrow> nat" and xs
    by (induction xs) auto
  show "state_count m q = length (filter (\<lambda>t. t_state t = q) (d_tasks d))"
    using metrics_Inr(3)[OF assms] count[of "d_tasks d"]
    by (auto simp: state_count_def tally_def look filter_empty_conv)
qed

end
