(* ===== verification/Operator_Properties.thy ===== *)
theory Operator_Properties
  imports Operator Policy Launcher Metrics Sample
begin

text \<open>
  What the operator's commands write, when a configured fault is injected, which credentials a worker
  sees, and what the metrics count.
\<close>

section \<open>Commands\<close>

text \<open>
  The database after a command that moved a task: the new row, one event of the operator and one of the
  change of state, which names it as its cause; no other row of any table changed.
\<close>

definition operator_moved :: "string \<Rightarrow> payload \<Rightarrow> string \<Rightarrow> task_row \<Rightarrow> db \<Rightarrow> db \<Rightarrow> bool" where
  "operator_moved typ p tid t' d d' \<longleftrightarrow>
    find_task tid d' = Some t' \<and> (\<forall>x. x \<noteq> tid \<longrightarrow> find_task x d' = find_task x d) \<and>
    d_deps d' = d_deps d \<and> d_attempts d' = d_attempts d \<and> d_leases d' = d_leases d \<and>
    d_interventions d' = d_interventions d \<and>
    (\<exists>e1 e2. d_events d' = d_events d @ [e1, e2] \<and>
      e_type e1 = typ \<and> e_source e1 = Src_human \<and> e_task_id e1 = Some tid \<and> e_payload e1 = p \<and>
      e_type e2 = ''task.state_changed'' \<and> e_task_id e2 = Some tid \<and>
      map_of (e_payload e2) ''to'' = Some (JStr (state_name (t_state t'))) \<and>
      map_of (e_payload e2) ''cause_seq'' = Some (JInt (e_seq e1)))"

lemma operator_step:
  assumes t: "find_task tid (w_db w) = Some t" and q: "legal (t_state t) q"
    and kw: "distinct (map fst kw)" "set (map fst kw) \<subseteq> set updatable"
    and cols: "\<And>ts. foldE set_task_col kw (t\<lparr>t_state := q, t_updated_at := ts\<rparr>) = Inr (f ts)"
  shows "\<exists>w' ts s. bind_io (event_io Src_human typ (Some tid) p) (\<lambda>s. transition_io tid q s kw) w = (Inr s, w') \<and>
    operator_moved typ p tid (f ts) (w_db w) (w_db w')"
proof -
  let ?d = "w_db w" and ?ts = "w_clock w (Suc (w_calls w))"
  let ?e1 = "new_event ?d (w_clock w (w_calls w)) Src_human typ (Some tid) p no_usage"
  let ?d1 = "?d\<lparr>d_events := d_events ?d @ [?e1]\<rparr>"
  let ?e2 = "new_event ?d1 ?ts Src_scheduler ''task.state_changed'' (Some tid)
    (transition_payload (t_state t) q (next_seq (d_events ?d)) kw) no_usage"
  let ?d2 = "?d1\<lparr>d_tasks := set_task tid (\<lambda>_. f ?ts) (d_tasks ?d), d_events := d_events ?d1 @ [?e2]\<rparr>"
  have same: "find_task x (?d\<lparr>d_events := es\<rparr>) = find_task x ?d" for x es by (simp add: find_task_def)
  have "transition ?ts tid (state_name q) (next_seq (d_events ?d)) Src_scheduler kw ?d1 = Inr (next_seq (d_events ?d1), ?d2)"
    using t q kw cols by (simp add: transition_def same insert_event_eq)
  then have run: "bind_io (event_io Src_human typ (Some tid) p) (\<lambda>s. transition_io tid q s kw) w =
      (Inr (next_seq (d_events ?d1)), w\<lparr>w_db := ?d2, w_calls := Suc (Suc (w_calls w))\<rparr>)"
    by (simp add: event_io_def transition_io_def now_io_def call_io_def commit_io_def bind_io_def append_event_def
        insert_event_eq)
  have t': "t_id (f ?ts) = tid" "t_state (f ?ts) = q"
    using set_task_cols_keep[OF cols[of ?ts]] find_task_Some[OF t] by auto
  have found: "find_task tid ?d2 = Some (f ?ts)"
    using find_map_hit[of t_id "f ?ts" tid "d_tasks ?d"] t t'(1) by (simp add: find_task_def set_task_def)
  have others: "x \<noteq> tid \<Longrightarrow> find_task x ?d2 = find_task x ?d" for x
    using find_map_other[of tid x t_id "f ?ts" "d_tasks ?d"] t'(1) by (simp add: find_task_def set_task_def)
  have "operator_moved typ p tid (f ?ts) ?d ?d2"
    unfolding operator_moved_def
    by (intro conjI exI[of _ ?e1] exI[of _ ?e2])
      (use found others t'(2) in \<open>auto simp: transition_payload_col(2-4)[OF kw]\<close>)
  then have "operator_moved typ p tid (f ?ts) ?d (w_db (w\<lparr>w_db := ?d2, w_calls := Suc (Suc (w_calls w))\<rparr>))" by simp
  with run show ?thesis by blast
qed

lemma read_bind: "bind_io (read_db g) k w = k (g (w_db w)) w"
  by (simp add: bind_io_def read_db_def gets_io_def)

lemma end_of_bind: "bind_io f (\<lambda>s. bind_io (g s) (\<lambda>_. ret_io x)) w = (case bind_io f g w of
    (Inl e, w') \<Rightarrow> (Inl e, w') | (Inr _, w') \<Rightarrow> (Inr x, w'))"
  by (simp add: bind_io_def ret_io_def split: prod.split sum.split)

text \<open>
  C37. The operator's \<open>answer\<close> and \<open>cancel\<close> never raise. An unknown task, an answer to a task that waits for
  none, and the cancellation of an ended task are refused and leave the world as it was. Otherwise the task is
  queued with the answer at the end of its brief, or cancelled; the operator's event is the recorded cause
  of the change, and nothing else in the database changes.
\<close>

theorem operator_writes_exact:
  "(case find_task tid (w_db w) of
      None \<Rightarrow> cmd_answer tid m w = (Inr (2, unknown_task tid), w) \<and> cmd_cancel tid m w = (Inr (2, unknown_task tid), w)
    | Some t \<Rightarrow>
        (if t_state t = NeedsHuman
         then \<exists>w' out ts. cmd_answer tid m w = (Inr (0, out), w') \<and>
           operator_moved ''human.messaged'' [(''message'', JStr m)] tid
             (t\<lparr>t_state := Queued, t_updated_at := ts, t_brief := answered_brief (t_brief t) m\<rparr>) (w_db w) (w_db w')
         else \<exists>out. cmd_answer tid m w = (Inr (1, out), w)) \<and>
        (if t_state t \<in> terminal then \<exists>out. cmd_cancel tid m w = (Inr (1, out), w)
         else \<exists>w' out ts. cmd_cancel tid m w = (Inr (0, out), w') \<and>
           operator_moved ''human.cancelled'' [(''reason'', JStr m)] tid
             (t\<lparr>t_state := Cancelled, t_updated_at := ts\<rparr>) (w_db w) (w_db w')))"
proof (cases "find_task tid (w_db w)")
  case None
  then show ?thesis by (simp add: cmd_answer_def cmd_cancel_def read_bind ret_io_def)
next
  case (Some t)
  let ?b = "answered_brief (t_brief t) m"
  have answer: "\<exists>w' out ts. cmd_answer tid m w = (Inr (0, out), w') \<and>
      operator_moved ''human.messaged'' [(''message'', JStr m)] tid
        (t\<lparr>t_state := Queued, t_updated_at := ts, t_brief := ?b\<rparr>) (w_db w) (w_db w')" if "t_state t = NeedsHuman"
  proof -
    have "legal (t_state t) Queued" using that by (simp add: legal_def transitions_def terminal_def)
    from operator_step[OF Some this, of "[(''brief'', JStr ?b)]" "\<lambda>ts. t\<lparr>t_state := Queued, t_updated_at := ts, t_brief := ?b\<rparr>"
      "''human.messaged''" "[(''message'', JStr m)]"]
    obtain w' ts s where "bind_io (event_io Src_human ''human.messaged'' (Some tid) [(''message'', JStr m)])
        (\<lambda>s. transition_io tid Queued s [(''brief'', JStr ?b)]) w = (Inr s, w')"
      and "operator_moved ''human.messaged'' [(''message'', JStr m)] tid
        (t\<lparr>t_state := Queued, t_updated_at := ts, t_brief := ?b\<rparr>) (w_db w) (w_db w')"
      by (auto simp: updatable_def set_task_col_def)
    then show ?thesis using that Some
      by (simp add: cmd_answer_def read_bind end_of_bind) blast
  qed
  have cancel: "\<exists>w' out ts. cmd_cancel tid m w = (Inr (0, out), w') \<and>
      operator_moved ''human.cancelled'' [(''reason'', JStr m)] tid
        (t\<lparr>t_state := Cancelled, t_updated_at := ts\<rparr>) (w_db w) (w_db w')" if "t_state t \<notin> terminal"
  proof -
    have "legal (t_state t) Cancelled" using that by (simp add: legal_def)
    from operator_step[OF Some this, of "[]" "\<lambda>ts. t\<lparr>t_state := Cancelled, t_updated_at := ts\<rparr>"
      "''human.cancelled''" "[(''reason'', JStr m)]"]
    obtain w' ts s where "bind_io (event_io Src_human ''human.cancelled'' (Some tid) [(''reason'', JStr m)])
        (\<lambda>s. transition_io tid Cancelled s []) w = (Inr s, w')"
      and "operator_moved ''human.cancelled'' [(''reason'', JStr m)] tid
        (t\<lparr>t_state := Cancelled, t_updated_at := ts\<rparr>) (w_db w) (w_db w')"
      by auto
    then show ?thesis using that Some
      by (simp add: cmd_cancel_def read_bind end_of_bind) blast
  qed
  show ?thesis using Some answer cancel
    by (auto simp: cmd_answer_def cmd_cancel_def read_bind ret_io_def)
qed

section \<open>The injected fault\<close>

text \<open>
  C40. A fault that a configuration describes is injected at the configured launch of its task and at
  no other launch, however the launches of the tasks interleave; launches are counted from one, over those
  whose worker started, and the delay is never below a tenth of a second.
\<close>

theorem fault_injected_exactly:
  assumes "parse_fault seconds v = Inr f" "i < length ts"
  shows "fault_launches f ts fault_init ! i =
      (if ts ! i = fi_task f \<and> int (count_list (take (Suc i) ts) (fi_task f)) = fi_attempt f
       then Some (injection_of f) else None) \<and> 1 \<le> fi_attempt f \<and> 100000 \<le> fi_delay f"
proof -
  have "100000 \<le> fi_delay f" using assms(1)
    by (auto simp: parse_fault_def Let_def bindE_def split: json.splits if_splits option.splits sum.splits)
  then show ?thesis using fault_run[of f "[]" fault_init i ts] parsed_fault[OF assms(1)] assms(2)
    by (simp add: knows_def fault_init_def)
qed

definition sample_fault :: fault where
  "sample_fault = \<lparr>fi_mode = ''crash'', fi_task = ''A'', fi_attempt = 2, fi_delay = 1000000\<rparr>"

theorem fault_injected_exactly_witness:
  "fault_launches sample_fault [''A'', ''B'', ''A'', ''A''] fault_init ! 2 = Some (Kill_after 1000000) \<and>
    fault_launches sample_fault [''A'', ''B'', ''A'', ''A''] fault_init ! 3 = None"
proof -
  have "parse_fault (\<lambda>_. Inr 1000000) (JObj [(''mode'', JStr ''crash''), (''task_id'', JStr ''A''), (''attempt'', JInt 2)]) =
    Inr sample_fault" by code_simp
  from fault_injected_exactly[OF this, of 2 "[''A'', ''B'', ''A'', ''A'']"]
    fault_injected_exactly[OF this, of 3 "[''A'', ''B'', ''A'', ''A'']"]
  show ?thesis by (simp add: sample_fault_def injection_of_def)
qed

section \<open>Credentials\<close>

lemma worker_env_auth: "k \<in> auth_env \<Longrightarrow> map_of (worker_env src own (Some e) timeout) k = map_of e k"
  using auth_plain by (auto simp: worker_env_def Let_def update_conv' inherited_auth)

text \<open>
  C39. A worker that is started with an environment of its caller sees exactly the caller's
  credentials, none of the scheduler's, and finds its brief in the file that its command names; a start that
  raises starts nothing.
\<close>

theorem worker_sees_given_credentials:
  assumes "spawn_worker H module timeout t contract feedback wt model (Some e) s = (r, s')"
  shows "case r of
      Inl x \<Rightarrow> la_started s' = la_started s
    | Inr pid \<Rightarrow> \<exists>path env. la_started s' = la_started s @ [(worker_command (lh_python H) module (t_id t) wt path model, env, wt)] \<and>
        (\<forall>k \<in> auth_env. map_of env k = map_of e k) \<and>
        map_of (la_files s') path = Some (if given contract then the contract else build_execution_contract t wt feedback)"
proof (cases r)
  case (Inl x)
  then show ?thesis using spawn_effect(4)[OF assms] by simp
next
  case (Inr pid)
  show ?thesis unfolding Inr sum.case
    by (intro exI conjI) (rule spawn_effect(2)[OF assms Inr], simp add: worker_env_auth, rule spawn_effect(3)[OF assms Inr])
qed

definition sample_launch_host :: launch_host where
  "sample_launch_host = \<lparr>lh_python = ''python'', lh_src = ''/src'', lh_env = [(''ANTHROPIC_API_KEY'', ''own''), (''HOME'', ''/h'')],
    lh_tmp = (\<lambda>p. ''/tmp/'' @ p), lh_writes = Inr (), lh_starts = Inr 7\<rparr>"

theorem worker_sees_given_credentials_witness:
  "\<exists>s' cmd env. spawn_worker sample_launch_host ''m'' JNull (new_task_row ''A'' 0 sample_def) (Some ''brief'') None ''/w'' None
      (Some [(''AWS_REGION'', ''r'')]) \<lparr>la_files = [], la_started = []\<rparr> = (Inr 7, s') \<and>
    la_started s' = [(cmd, env, ''/w'')] \<and> map_of env ''AWS_REGION'' = Some ''r'' \<and> map_of env ''ANTHROPIC_API_KEY'' = None"
proof -
  obtain r s' where run: "spawn_worker sample_launch_host ''m'' JNull (new_task_row ''A'' 0 sample_def) (Some ''brief'') None ''/w'' None
      (Some [(''AWS_REGION'', ''r'')]) \<lparr>la_files = [], la_started = []\<rparr> = (r, s')" by fastforce
  have r: "r = Inr 7" using spawn_effect(1)[OF run] by (simp add: sample_launch_host_def)
  obtain path env where "la_started s' = [(worker_command (lh_python sample_launch_host) ''m'' ''A'' ''/w'' path None, env, ''/w'')]"
    and env: "\<forall>k \<in> auth_env. map_of env k = map_of [(''AWS_REGION'', ''r'')] k"
    using worker_sees_given_credentials[OF run] unfolding r by (auto simp: new_task_row_def)
  moreover have "map_of env ''AWS_REGION'' = Some ''r''" "map_of env ''ANTHROPIC_API_KEY'' = None"
    using env by (simp_all add: auth_env_def)
  ultimately show ?thesis using run r by blast
qed

section \<open>Metrics\<close>

text \<open>
  The metrics count every task once and in its own state, every classified failure once, and report
  no negative duration, whatever the database and its clocks hold.
\<close>

theorem metrics_sound:
  assumes "metrics_for usd seconds d = Inr m"
  shows "state_count m q = length (filter (\<lambda>t. t_state t = q) (d_tasks d)) \<and>
    sum_list (map snd (me_state_counts m)) = length (d_tasks d) \<and>
    list_all (\<lambda>x. 0 \<le> x) [ti_queue_wait (me_timing m), ti_slot_occupancy (me_timing m), ti_worker (me_timing m),
      ti_verification (me_timing m), ti_supervisor (me_timing m), ti_triage (me_timing m), ti_retry (me_timing m),
      ti_peak (me_timing m)]"
  using states_counted[OF assms] metrics_Inr(2)[OF assms] timing_nonneg[OF metrics_Inr(1)[OF assms]] by simp

theorem metrics_sound_witness:
  "\<exists>m. metrics_for (\<lambda>_. 0) (\<lambda>_. Inr 0) (w_db sample0) = Inr m \<and> state_count m Blocked = 1 \<and> 0 \<le> ti_queue_wait (me_timing m)"
proof -
  have "\<not> isl (metrics_for (\<lambda>_. 0) (\<lambda>_. Inr 0) (w_db sample0))" by code_simp
  then obtain m where m: "metrics_for (\<lambda>_. 0) (\<lambda>_. Inr 0) (w_db sample0) = Inr m" by (cases "metrics_for (\<lambda>_. 0) (\<lambda>_. Inr 0) (w_db sample0)") auto
  have "length (filter (\<lambda>t. t_state t = Blocked) (d_tasks (w_db sample0))) = 1" by code_simp
  then show ?thesis using metrics_sound[OF m, of Blocked] m by simp
qed

end
