(* ===== verification/Harbor.thy ===== *)
theory Harbor
  imports Plan Policy Metrics
begin

text \<open>
  A run inside Harbor (\<open>harbor.py\<close>): the task graph is compiled, its tasks are created, the scheduler of
  the policy runs, and the outcome is read from the database.
\<close>

section \<open>Submission\<close>

definition text_json :: "json \<Rightarrow> string option" where
  "text_json v = (case v of JStr s \<Rightarrow> Some s | _ \<Rightarrow> None)"

text \<open>The commands of a compiled node are texts or null.\<close>

definition node_def :: "string \<Rightarrow> pnode \<Rightarrow> task_def" where
  "node_def repo n = \<lparr>td_title = pn_title n, td_brief = pn_brief n, td_repo = repo,
    td_delivery_mode = pn_delivery_mode n, td_verify_cmd = text_json (pn_verify_cmd n),
    td_max_retries = pn_max_retries n, td_depends_on = pn_depends_on n, td_task_id = Some (pn_id n),
    td_output_artifacts = spec_json (pn_outputs n), td_output_schema = pn_schema n,
    td_input_contract = contract_of n, td_dependency_input_contract = JNull,
    td_node_verify_cmd = text_json (pn_node_verify n), td_repair_policy = pn_repair n\<rparr>"

fun create_tasks :: "task_def list \<Rightarrow> ('z, string list) handler" where
  "create_tasks [] = ret_io []"
| "create_tasks (a # as) = bind_io (create_task_io a) (\<lambda>i. bind_io (create_tasks as) (\<lambda>is. ret_io (i # is)))"

definition submit_plan :: "string \<Rightarrow> plan \<Rightarrow> ('z, string list) handler" where
  "submit_plan repo p = create_tasks (map (\<lambda>e. node_def repo (snd e)) (pl_nodes p))"

record run_args =
  ra_instruction :: string
  ra_repo :: string
  ra_title :: string
  ra_verify_cmd :: "string option"
  ra_max_retries :: int
  ra_specs :: json
  ra_fault :: json
  ra_policy :: policy_args

definition single_task :: "run_args \<Rightarrow> task_def" where
  "single_task a = \<lparr>td_title = ra_title a, td_brief = ra_instruction a, td_repo = ra_repo a,
    td_delivery_mode = ''scout'', td_verify_cmd = ra_verify_cmd a, td_max_retries = ra_max_retries a,
    td_depends_on = [], td_task_id = None, td_output_artifacts = JNull, td_output_schema = JNull,
    td_input_contract = JNull, td_dependency_input_contract = JNull, td_node_verify_cmd = None, td_repair_policy = JNull\<rparr>"

definition target_reachable :: "json \<Rightarrow> bool" where
  "target_reachable v = (case v of JObj f \<Rightarrow> truthy (jget ''target_reachable'' f) | _ \<Rightarrow> False)"

definition checked_plan :: "run_args \<Rightarrow> exc + plan \<times> payload" where
  "checked_plan a =
    bindE (compile_plan (ra_specs a)) (\<lambda>p.
      let record = plan_json (Some (ra_repo a)) p in
      if target_reachable (ra_fault a) then
        bindE (validate_fault_target (ra_specs a) (ra_fault a)) (\<lambda>f.
          Inr (p, AList.update ''fault_target'' (case f of None \<Rightarrow> JNull | Some t \<Rightarrow> JObj t) record))
      else Inr (p, record))"

definition submit :: "run_args \<Rightarrow> ('z, string list \<times> payload option) handler" where
  "submit a =
    (if ra_specs a = JNull then
       if target_reachable (ra_fault a)
       then raise_io (ValueError ''target-reachable fault injection requires an explicit task graph'')
       else bind_io (create_task_io (single_task a)) (\<lambda>i. ret_io ([i], None))
     else bind_io (lift_exc (checked_plan a)) (\<lambda>(p, record).
       bind_io (submit_plan (ra_repo a) p) (\<lambda>is. ret_io (is, Some record))))"

section \<open>The outcome\<close>

definition aggregate_state :: "(string, string) dict \<Rightarrow> string" where
  "aggregate_state states =
    (let qs = map snd states in
     if list_all (\<lambda>q. q = ''delivered'') qs then ''delivered''
     else case find (\<lambda>q. q \<in> set qs) [''failed'', ''cancelled'', ''needs_human'', ''dependency_blocked''] of
       Some q \<Rightarrow> q
     | None \<Rightarrow> (case qs of [] \<Rightarrow> ''failed'' | q # _ \<Rightarrow> q))"

definition in_creation_order :: "db \<Rightarrow> task_row list" where
  "in_creation_order d = sort_key t_created_at (sort_key t_id (d_tasks d))"

definition states_of :: "string list \<Rightarrow> db \<Rightarrow> (string, string) dict" where
  "states_of ids d = map (\<lambda>t. (t_id t, state_name (t_state t))) (filter (\<lambda>t. t_id t \<in> set ids) (in_creation_order d))"

record harbor_run =
  hr_task_ids :: "string list"
  hr_state :: string
  hr_candidate :: "string option"
  hr_metrics :: metrics
  hr_base :: string
  hr_states :: "(string, string) dict"
  hr_plan :: "payload option"

text \<open>
  \<open>head\<close> is \<open>git rev-parse HEAD\<close> at a call, \<open>run\<close> is the scheduler of a set-up and a plan until all tasks
  have settled.
\<close>

record 'z harbor_host =
  hh_head :: "nat \<Rightarrow> exc + string"
  hh_run :: "run_setup \<Rightarrow> payload option \<Rightarrow> ('z, unit) handler"
  hh_settings :: "payload option"
  hh_usd :: "string \<Rightarrow> int"
  hh_seconds :: "json \<Rightarrow> exc + int"

definition final_sha :: "'z harbor_host \<Rightarrow> run_args \<Rightarrow> string list \<Rightarrow> (string, string) dict \<Rightarrow> ('z, string option) handler" where
  "final_sha H a ids states =
    (if ra_specs a = JNull then read_db (\<lambda>d. Option.bind (find (\<lambda>t. t_id t = hd ids) (in_creation_order d)) t_candidate_sha)
     else if list_ex (\<lambda>e. snd e = ''delivered'') states
       then bind_io (try_call_io (hh_head H)) (\<lambda>sha. ret_io (Some sha))
     else ret_io None)"

definition run_instruction :: "'z harbor_host \<Rightarrow> run_args \<Rightarrow> ('z, harbor_run) handler" where
  "run_instruction H a =
    bind_io (try_call_io (hh_head H)) (\<lambda>base.
    bind_io (submit a) (\<lambda>(ids, plan).
    bind_io (lift_exc (build_scheduler (hh_seconds H) (hh_settings H) (ra_policy a\<lparr>pa_fault := ra_fault a\<rparr>))) (\<lambda>s.
    bind_io (hh_run H s plan) (\<lambda>_.
    bind_io (read_db (states_of ids)) (\<lambda>states.
    bind_io (final_sha H a ids states) (\<lambda>sha.
    bind_io (read_db (metrics_for (hh_usd H) (hh_seconds H))) (\<lambda>m.
    bind_io (lift_exc m) (\<lambda>m.
      ret_io \<lparr>hr_task_ids = ids, hr_state = aggregate_state states, hr_candidate = sha, hr_metrics = m,
        hr_base = base, hr_states = states, hr_plan = plan\<rparr>))))))))"

section \<open>The summary\<close>

definition instant_json :: "(int \<Rightarrow> string) \<Rightarrow> int option \<Rightarrow> json" where
  "instant_json stamp v = (case v of None \<Rightarrow> JNull | Some t \<Rightarrow> JStr (stamp t))"

text \<open>\<open>stamp\<close> is the stored text of an instant.\<close>

definition attempt_summary :: "(int \<Rightarrow> string) \<Rightarrow> attempt_row \<Rightarrow> json" where
  "attempt_summary stamp a = JObj [(''attempt_no'', JInt (a_attempt_no a)), (''disposition'', JStr (a_disposition a)),
    (''candidate_sha'', jopt (a_candidate_sha a)), (''failure_cause'', jopt (a_failure_cause a)),
    (''failure_signature'', jopt (a_failure_signature a)), (''worker_ended_at'', instant_json stamp (a_worker_ended_at a)),
    (''verification_ended_at'', instant_json stamp (a_verification_ended_at a))]"

definition task_summary :: "(int \<Rightarrow> string) \<Rightarrow> db \<Rightarrow> json list" where
  "task_summary stamp d = map (\<lambda>t. JObj [(''id'', JStr (t_id t)), (''state'', JStr (state_name (t_state t))),
      (''retries'', JInt (t_retries t)), (''candidate_sha'', jopt (t_candidate_sha t)),
      (''current_attempt_id'', jopt (t_current_attempt_id t)),
      (''attempts'', JList (map (attempt_summary stamp) (sort_key a_attempt_no
        (filter (\<lambda>a. a_task_id a = t_id t) (d_attempts d)))))]) (in_creation_order d)"

end
