(* ===== verification/Harbor_Properties.thy ===== *)
theory Harbor_Properties
  imports Harbor Plan_Properties Sample
begin

text \<open>
  The submission of a task graph: what is rejected writes nothing, and when a compiled graph is created
  as a whole.
\<close>

section \<open>One task\<close>

lemma insert_deps_exact:
  assumes "distinct deps" "\<forall>dep \<in> set deps. (tid, dep) \<notin> set (d_deps d)" "find_task tid d \<noteq> None"
  shows "foldE (insert_dep tid) deps d =
    (if \<forall>dep \<in> set deps. find_task dep d \<noteq> None then Inr (d\<lparr>d_deps := d_deps d @ map (Pair tid) deps\<rparr>)
     else Inl (IntegrityError ''FOREIGN KEY constraint failed''))"
  using assms
proof (induction deps arbitrary: d)
  case (Cons dep deps)
  show ?case
  proof (cases "find_task dep d = None")
    case False
    let ?d = "d\<lparr>d_deps := d_deps d @ [(tid, dep)]\<rparr>"
    have same: "find_task x ?d = find_task x d" for x by (simp add: find_task_def)
    have "insert_dep tid dep d = Inr ?d" using Cons.prems False by (simp add: insert_dep_def)
    moreover have "foldE (insert_dep tid) deps ?d =
        (if \<forall>dep \<in> set deps. find_task dep ?d \<noteq> None then Inr (?d\<lparr>d_deps := d_deps ?d @ map (Pair tid) deps\<rparr>)
         else Inl (IntegrityError ''FOREIGN KEY constraint failed''))"
      by (rule Cons.IH) (use Cons.prems in \<open>auto simp: same\<close>)
    ultimately show ?thesis using False by (simp add: same)
  next
    case True
    then show ?thesis using Cons.prems by (simp add: insert_dep_def)
  qed
qed simp

definition created_row :: "string \<Rightarrow> pnode \<Rightarrow> int \<Rightarrow> task_row" where
  "created_row repo n ts = new_task_row (pn_id n) ts (node_def repo n)"

definition with_task :: "string \<Rightarrow> pnode \<Rightarrow> int \<Rightarrow> db \<Rightarrow> db" where
  "with_task repo n ts d = d\<lparr>d_tasks := d_tasks d @ [created_row repo n ts],
    d_deps := d_deps d @ map (Pair (pn_id n)) (pn_depends_on n),
    d_events := d_events d @ [new_event d ts Src_scheduler ''task.created'' (Some (pn_id n))
      (created_payload (node_def repo n)) no_usage]\<rparr>"

definition ids_of :: "db \<Rightarrow> string set" where
  "ids_of d = t_id ` set (d_tasks d)"

lemma find_task_ids: "find_task i d \<noteq> None \<longleftrightarrow> i \<in> ids_of d"
  by (auto simp: find_task_def ids_of_def find_None_iff)

definition deps_known :: "db \<Rightarrow> bool" where
  "deps_known d \<longleftrightarrow> (\<forall>(x, y) \<in> set (d_deps d). x \<in> ids_of d)"

lemma create_node:
  assumes "node_ok n" "pn_id n \<notin> ids_of d" "deps_known d"
  shows "create_task u ts (node_def repo n) d =
    (if set (pn_depends_on n) \<subseteq> ids_of d then Inr (pn_id n, with_task repo n ts d)
     else Inl (IntegrityError ''FOREIGN KEY constraint failed''))"
proof -
  let ?d = "d\<lparr>d_tasks := d_tasks d @ [created_row repo n ts]\<rparr>"
  have id: "chosen_id (td_task_id (node_def repo n)) u = pn_id n" and deps: "td_depends_on (node_def repo n) = pn_depends_on n"
    using assms(1) by (simp_all add: chosen_id_def node_def_def node_ok_def)
  have row: "t_id (created_row repo n ts) = pn_id n" "t_delivery_mode (created_row repo n ts) \<in> {''pr'', ''local'', ''scout''}"
    using assms(1) by (simp_all add: created_row_def new_task_row_def node_def_def node_ok_def)
  have absent: "find_task (pn_id n) d = None" using assms(2) find_task_ids by blast
  have ins: "insert_task (new_task_row (pn_id n) ts (node_def repo n)) d = Inr ?d"
    using row absent by (simp add: insert_task_def created_row_def)
  have ids: "ids_of ?d = insert (pn_id n) (ids_of d)" using row by (auto simp: ids_of_def)
  have "pn_id n \<notin> set (pn_depends_on n)" using assms(1) by (simp add: node_ok_def)
  moreover have known: "find_task dep ?d \<noteq> None \<longleftrightarrow> dep = pn_id n \<or> dep \<in> ids_of d" for dep
    using find_task_ids[of dep ?d] unfolding ids by (simp only: insert_iff)
  ultimately have new: "(\<forall>dep \<in> set (pn_depends_on n). find_task dep ?d \<noteq> None) \<longleftrightarrow> set (pn_depends_on n) \<subseteq> ids_of d"
    by (auto simp only: known)
  have other: "distinct (pn_depends_on n)" "\<forall>dep \<in> set (pn_depends_on n). (pn_id n, dep) \<notin> set (d_deps ?d)"
    using assms by (auto simp: node_ok_def deps_known_def)
  have "find_task (pn_id n) ?d \<noteq> None" unfolding known by simp
  note insert_deps_exact[OF other this]
  then show ?thesis unfolding new
    by (simp add: create_task_def Let_def id deps ins insert_event_eq with_task_def new_event_def)
qed

lemma with_task_ids: "ids_of (with_task repo n ts d) = insert (pn_id n) (ids_of d)"
  by (auto simp: ids_of_def with_task_def created_row_def new_task_row_def)

lemma with_task_known: "deps_known d \<Longrightarrow> deps_known (with_task repo n ts d)"
  unfolding deps_known_def with_task_ids by (auto simp: with_task_def)

lemma find_append_cases: "find P (xs @ ys) = (case find P xs of None \<Rightarrow> find P ys | Some x \<Rightarrow> Some x)"
  by (induction xs) auto

lemma with_task_find:
  "pn_id n \<notin> ids_of d \<Longrightarrow> find_task i (with_task repo n ts d) =
    (if i = pn_id n then Some (created_row repo n ts) else find_task i d)"
  using find_task_ids[of "pn_id n" d]
  by (auto simp: with_task_def find_task_def find_append_cases created_row_def new_task_row_def split: option.split)

lemma with_task_deps:
  "pn_id n \<notin> ids_of d \<Longrightarrow> deps_known d \<Longrightarrow> deps_of i (with_task repo n ts d) =
    (if i = pn_id n then pn_depends_on n else deps_of i d)"
  by (auto simp: deps_of_def with_task_def deps_known_def filter_empty_conv comp_def)

section \<open>The graph\<close>

text \<open>Every node is listed after its prerequisites.\<close>

definition listed :: "pnode list \<Rightarrow> string set \<Rightarrow> bool" where
  "listed ns known \<longleftrightarrow> (\<forall>k < length ns. set (pn_depends_on (ns ! k)) \<subseteq> known \<union> pn_id ` set (take k ns))"

lemma listed_Nil: "listed [] known"
  by (simp add: listed_def)

lemma listed_Cons:
  "listed (n # ns) known \<longleftrightarrow> set (pn_depends_on n) \<subseteq> known \<and> listed ns (insert (pn_id n) known)"
  by (auto simp: listed_def nth_Cons less_Suc_eq_0_disj split: nat.splits)

text \<open>What is in the database after the nodes were created.\<close>

definition holds_nodes :: "pnode list \<Rightarrow> db \<Rightarrow> bool" where
  "holds_nodes ns d \<longleftrightarrow> (\<forall>n \<in> set ns. deps_of (pn_id n) d = pn_depends_on n \<and>
    (\<exists>t. find_task (pn_id n) d = Some t \<and> t_state t = Blocked \<and> t_brief t = pn_brief n \<and>
      t_max_retries t = pn_max_retries n))"

lemma create_task_run:
  "\<exists>u ts w1. w_db w1 = w_db w \<and> create_task_io a w =
    (case create_task u ts a (w_db w) of Inl e \<Rightarrow> (Inl e, w1) | Inr (i, d) \<Rightarrow> (Inr i, w1\<lparr>w_db := d\<rparr>))"
  by (rule exI[of _ "w_ids w (w_calls w)"], rule exI[of _ "w_clock w (Suc (w_calls w))"],
    rule exI[of _ "w\<lparr>w_calls := Suc (Suc (w_calls w))\<rparr>"],
    simp add: create_task_io_def fresh_io_def now_io_def call_io_def commit_io_def bind_io_def split: sum.split prod.split)

definition created_as_listed :: "pnode list \<Rightarrow> db \<Rightarrow> exc + string list \<Rightarrow> db \<Rightarrow> bool" where
  "created_as_listed ns d r d' \<longleftrightarrow>
    r = (if listed ns (ids_of d) then Inr (map pn_id ns) else Inl (IntegrityError ''FOREIGN KEY constraint failed'')) \<and>
    (listed ns (ids_of d) \<longrightarrow> holds_nodes ns d') \<and>
    (\<forall>i. i \<notin> pn_id ` set ns \<longrightarrow> find_task i d' = find_task i d \<and> deps_of i d' = deps_of i d)"

definition fits :: "pnode list \<Rightarrow> db \<Rightarrow> bool" where
  "fits ns d \<longleftrightarrow> (\<forall>n \<in> set ns. node_ok n) \<and> distinct (map pn_id ns) \<and> pn_id ` set ns \<inter> ids_of d = {} \<and> deps_known d"

lemma fits_Cons:
  "fits (n # ns) d \<Longrightarrow> node_ok n \<and> pn_id n \<notin> ids_of d \<and> deps_known d \<and> pn_id n \<notin> pn_id ` set ns \<and>
    fits ns (with_task repo n ts d)"
  using with_task_known[of d repo n ts] by (auto simp: fits_def with_task_ids)

lemma created_Cons:
  assumes "created_as_listed ns (with_task repo n ts d) r d'" "fits (n # ns) d" "set (pn_depends_on n) \<subseteq> ids_of d"
  shows "created_as_listed (n # ns) d (map_sum id (Cons (pn_id n)) r) d'"
proof -
  from fits_Cons[OF assms(2), of repo ts] have fresh: "pn_id n \<notin> ids_of d" "deps_known d" "pn_id n \<notin> pn_id ` set ns" by simp_all
  have keep: "find_task i d' = find_task i (with_task repo n ts d) \<and> deps_of i d' = deps_of i (with_task repo n ts d)"
    if "i \<notin> pn_id ` set ns" for i using assms(1) that by (simp add: created_as_listed_def)
  have n: "find_task (pn_id n) d' = Some (created_row repo n ts) \<and> deps_of (pn_id n) d' = pn_depends_on n"
    using keep[OF fresh(3)] by (simp add: with_task_find[OF fresh(1)] with_task_deps[OF fresh(1,2)])
  have rest: "find_task i d' = find_task i d \<and> deps_of i d' = deps_of i d" if "i \<notin> pn_id ` set (n # ns)" for i
    using keep[of i] that by (simp add: with_task_find[OF fresh(1)] with_task_deps[OF fresh(1,2)])
  have l: "listed (n # ns) (ids_of d) = listed ns (ids_of (with_task repo n ts d))"
    using assms(3) by (simp add: listed_Cons with_task_ids)
  have "holds_nodes (n # ns) d'" if "holds_nodes ns d'"
    using that n by (simp add: holds_nodes_def created_row_def new_task_row_def node_def_def)
  with assms(1) rest show ?thesis unfolding created_as_listed_def l by simp
qed

lemma create_tasks_exact:
  "create_tasks (map (node_def repo) ns) w = (r, w') \<Longrightarrow> fits ns (w_db w) \<Longrightarrow> created_as_listed ns (w_db w) r (w_db w')"
proof (induction ns arbitrary: w r w')
  case Nil
  then show ?case by (simp add: ret_io_def created_as_listed_def listed_Nil holds_nodes_def)
next
  case (Cons n ns)
  let ?d = "w_db w"
  note ok = fits_Cons[OF Cons.prems(2)]
  have one: "create_task u ts (node_def repo n) ?d =
      (if set (pn_depends_on n) \<subseteq> ids_of ?d then Inr (pn_id n, with_task repo n ts ?d)
       else Inl (IntegrityError ''FOREIGN KEY constraint failed''))" for u ts
    by (rule create_node) (use ok in auto)
  obtain u ts w1 where w1: "w_db w1 = ?d" and run: "create_task_io (node_def repo n) w =
    (case create_task u ts (node_def repo n) ?d of Inl e \<Rightarrow> (Inl e, w1) | Inr (i, d) \<Rightarrow> (Inr i, w1\<lparr>w_db := d\<rparr>))"
    using create_task_run by blast
  show ?case
  proof (cases "set (pn_depends_on n) \<subseteq> ids_of ?d")
    case False
    then show ?thesis using Cons.prems(1) run one w1
      by (auto simp: bind_io_def created_as_listed_def listed_Cons)
  next
    case True
    let ?w = "w1\<lparr>w_db := with_task repo n ts ?d\<rparr>"
    have step: "create_task_io (node_def repo n) w = (Inr (pn_id n), ?w)" using run one True by simp
    obtain r1 w2 where r1: "create_tasks (map (node_def repo) ns) ?w = (r1, w2)" by fastforce
    have "r = map_sum id (Cons (pn_id n)) r1 \<and> w' = w2"
      using Cons.prems(1) step r1 by (auto simp: bind_io_def ret_io_def split: sum.splits)
    moreover have "created_as_listed ns (with_task repo n ts ?d) r1 (w_db w2)"
      using Cons.IH[OF r1] ok by simp
    ultimately show ?thesis using created_Cons[OF _ Cons.prems(2) True] by simp
  qed
qed

section \<open>The submission\<close>

lemma listed_disjoint:
  assumes "\<forall>n \<in> set ns. set (pn_depends_on n) \<inter> known = {}"
  shows "listed ns known = listed ns {}"
proof -
  have "set (pn_depends_on (ns ! k)) \<inter> known = {}" if "k < length ns" for k using assms that by auto
  then show ?thesis unfolding listed_def by blast
qed

lemma submit_specs:
  assumes "ra_specs a \<noteq> JNull"
  shows "submit a w = (case checked_plan a of Inl e \<Rightarrow> (Inl e, w) | Inr (p, record) \<Rightarrow>
    (case submit_plan (ra_repo a) p w of (Inl e, w') \<Rightarrow> (Inl e, w') | (Inr is, w') \<Rightarrow> (Inr (is, Some record), w')))"
  using assms by (simp add: submit_def bind_io_def lift_exc_def raise_io_def ret_io_def split: sum.split prod.split)

lemma checked_plan_compiled: "checked_plan a = Inr (p, record) \<Longrightarrow> compile_plan (ra_specs a) = Inr p"
  by (auto simp: checked_plan_def bindE_Inr_iff Let_def split: if_splits)

lemma compiled_fits:
  assumes "compile_plan specs = Inr p" "node_ids (pl_nodes p) \<inter> ids_of d = {}" "deps_known d"
  shows "fits (map snd (pl_nodes p)) d \<and> listed (map snd (pl_nodes p)) (ids_of d) = listed (map snd (pl_nodes p)) {} \<and>
    map pn_id (map snd (pl_nodes p)) = map fst (pl_nodes p)"
proof -
  obtain st where made: "plan_made p st" using compile_plan_made[OF assms(1)] by blast
  then have ok: "nodes_ok (pl_nodes p)" and linked: "well_linked (pl_nodes p)" by (simp_all add: plan_made_def)
  have ids: "map pn_id (map snd (pl_nodes p)) = map fst (pl_nodes p)" using ok by (auto simp: nodes_ok_def)
  have known: "set (pn_depends_on n) \<subseteq> node_ids (pl_nodes p)" if "n \<in> snd ` set (pl_nodes p)" for n
  proof -
    from that obtain i where i: "(i, n) \<in> set (pl_nodes p)" by auto
    then have "map_of (pl_nodes p) i = Some n" using linked by (simp add: well_linked_def map_of_is_SomeI)
    then show ?thesis using i linked by (force simp: well_linked_def node_ids_def prereqs_def)
  qed
  have "distinct (map pn_id (map snd (pl_nodes p)))" unfolding ids using linked by (simp add: well_linked_def)
  moreover have "pn_id ` set (map snd (pl_nodes p)) = node_ids (pl_nodes p)"
    using ids by (metis list.set_map node_ids_def)
  moreover have "\<forall>n \<in> set (map snd (pl_nodes p)). node_ok n" using ok by (auto simp: nodes_ok_def)
  ultimately have "fits (map snd (pl_nodes p)) d" using assms(2,3) by (simp add: fits_def)
  moreover have "listed (map snd (pl_nodes p)) (ids_of d) = listed (map snd (pl_nodes p)) {}"
    by (rule listed_disjoint) (use known assms(2) in force)
  ultimately show ?thesis using ids by blast
qed

text \<open>
  C36. A graph submission does all or, when the graph is rejected, nothing: a graph that does not
  compile, or whose fault target is not reachable, raises and leaves the world as it was. A compiled graph
  of new ids is created completely, every task blocked with its own prerequisites, when each task is
  listed after its prerequisites; otherwise the submission ends with a foreign key error. No other
  task of the database changes in any case. (Every edge of the database starts at a stored task.)
\<close>

theorem harbor_submission_exact:
  assumes "ra_specs a \<noteq> JNull" "submit a w = (r, w')" "deps_known (w_db w)"
    and "\<And>p record. checked_plan a = Inr (p, record) \<Longrightarrow> node_ids (pl_nodes p) \<inter> ids_of (w_db w) = {}"
  shows "case checked_plan a of
      Inl e \<Rightarrow> r = Inl e \<and> w' = w
    | Inr (p, record) \<Rightarrow> let ns = map snd (pl_nodes p) in
        (if listed ns {} then r = Inr (map fst (pl_nodes p), Some record) \<and> holds_nodes ns (w_db w')
         else r = Inl (IntegrityError ''FOREIGN KEY constraint failed'')) \<and>
        (\<forall>i. i \<notin> node_ids (pl_nodes p) \<longrightarrow> find_task i (w_db w') = find_task i (w_db w) \<and>
          deps_of i (w_db w') = deps_of i (w_db w))"
proof (cases "checked_plan a")
  case (Inl e)
  then show ?thesis using assms(2) submit_specs[OF assms(1), of w] by simp
next
  case (Inr pr)
  obtain p rec where pr: "pr = (p, rec)" by fastforce
  let ?ns = "map snd (pl_nodes p)"
  have plan: "checked_plan a = Inr (p, rec)" using Inr pr by simp
  note fit = compiled_fits[OF checked_plan_compiled[OF plan] assms(4)[OF plan] assms(3)]
  obtain r1 w1 where run: "submit_plan (ra_repo a) p w = (r1, w1)" by fastforce
  have "create_tasks (map (node_def (ra_repo a)) ?ns) w = (r1, w1)" using run by (simp add: submit_plan_def comp_def)
  from create_tasks_exact[OF this] fit have made: "created_as_listed ?ns (w_db w) r1 (w_db w1)" by blast
  have out: "w' = w1" "r = (case r1 of Inl e \<Rightarrow> Inl e | Inr is \<Rightarrow> Inr (is, Some rec))"
    using assms(2) run by (auto simp: submit_specs[OF assms(1)] plan split: sum.splits)
  have "pn_id ` set ?ns = node_ids (pl_nodes p)" using fit by (metis list.set_map node_ids_def)
  then show ?thesis using made fit out by (simp add: plan created_as_listed_def Let_def)
qed

text \<open>A valid graph that lists a task before its prerequisite is refused halfway.\<close>

definition late_specs :: json where
  "late_specs = JList [
    JObj [(''id'', JStr ''c''), (''brief'', JStr ''C'')],
    JObj [(''id'', JStr ''b''), (''brief'', JStr ''B''), (''depends_on'', JList [JStr ''a''])],
    JObj [(''id'', JStr ''a''), (''brief'', JStr ''A'')]]"

definition run_args_of :: "json \<Rightarrow> run_args" where
  "run_args_of specs = \<lparr>ra_instruction = ''i'', ra_repo = ''/r'', ra_title = ''t'', ra_verify_cmd = None,
    ra_max_retries = 2, ra_specs = specs, ra_fault = JNull, ra_policy = \<lparr>pa_policy = ''baseline'', pa_max_concurrency = JNull,
      pa_worker_model = JNull, pa_supervisor_model = JNull, pa_worker_env = [], pa_fake_worker = True,
      pa_fake_supervisor = True, pa_isolated = False, pa_trusted = False, pa_verify_timeout = JNull,
      pa_stall = JNull, pa_worker_timeout = JNull, pa_sdk_timeout = JNull, pa_supervisor_timeout = JNull,
      pa_wait_ceiling = JNull, pa_base_branch = ''main'', pa_crash = JNull, pa_adaptive = JNull,
      pa_protocol = JNull, pa_deterministic = JNull, pa_ladder = JNull, pa_fault = JNull\<rparr>\<rparr>"

definition late_plan :: plan where
  "late_plan = \<lparr>pl_nodes = [(''c'', sample_node ''c'' ''C''), (''b'', (sample_node ''b'' ''B'')\<lparr>pn_depends_on := [''a'']\<rparr>),
      (''a'', sample_node ''a'' ''A'')],
    pl_order = [''a'', ''b'', ''c''], pl_depths = [(''a'', 1), (''b'', 2), (''c'', 1)], pl_critical = [''a'', ''b''],
    pl_conflicts = []\<rparr>"

lemma late_compiled: "compile_plan late_specs = Inr late_plan"
  by code_simp

lemma checked_run_args:
  "compile_plan specs = Inr p \<Longrightarrow> checked_plan (run_args_of specs) = Inr (p, plan_json (Some ''/r'') p)"
  by (simp add: checked_plan_def run_args_of_def target_reachable_def)

lemma run_args_specs: "ra_specs (run_args_of specs) = specs" "ra_repo (run_args_of specs) = ''/r''"
  by (simp_all add: run_args_of_def)

lemma empty_deps_known: "deps_known empty_db" "ids_of empty_db = {}"
  by (simp_all add: deps_known_def empty_db_def ids_of_def)

theorem harbor_submission_exact_witness:
  "\<exists>w'. submit (run_args_of sample_specs) (sample_world empty_db) =
      (Inr ([''a'', ''b'', ''c''], Some (plan_json (Some ''/r'') sample_plan)), w') \<and>
    holds_nodes (map snd (pl_nodes sample_plan)) (w_db w')"
proof -
  obtain r w' where run: "submit (run_args_of sample_specs) (sample_world empty_db) = (r, w')" by fastforce
  have in_order: "listed (map snd (pl_nodes sample_plan)) {}"
    by (simp add: sample_plan_def sample_nodes_def sample_node_def listed_Cons listed_Nil)
  have "ra_specs (run_args_of sample_specs) \<noteq> JNull" by (simp add: run_args_specs sample_specs_def)
  moreover have w: "w_db (sample_world empty_db) = empty_db" by (simp add: sample_world_def)
  moreover have "deps_known (w_db (sample_world empty_db))" unfolding w by (rule empty_deps_known)
  moreover have "node_ids (pl_nodes p) \<inter> ids_of (w_db (sample_world empty_db)) = {}" for p
    unfolding w empty_deps_known by simp
  ultimately have "r = Inr (map fst (pl_nodes sample_plan), Some (plan_json (Some ''/r'') sample_plan)) \<and>
      holds_nodes (map snd (pl_nodes sample_plan)) (w_db w')"
    using harbor_submission_exact[of "run_args_of sample_specs" "sample_world empty_db" r w'] run in_order
    by (simp only: checked_run_args[OF sample_compiled] sum.case prod.case Let_def if_True) blast
  moreover have "map fst (pl_nodes sample_plan) = [''a'', ''b'', ''c'']" by (simp add: sample_plan_def sample_nodes_def)
  ultimately show ?thesis using run by metis
qed

lemma late_graph_half_written:
  "late_specs \<noteq> JNull \<and> compile_plan late_specs = Inr late_plan \<and>
    (\<exists>w'. submit (run_args_of late_specs) (sample_world empty_db) =
      (Inl (IntegrityError ''FOREIGN KEY constraint failed''), w') \<and> find_task ''c'' (w_db w') \<noteq> None)"
proof -
  let ?w = "sample_world empty_db"
  let ?d = "with_task ''/r'' (sample_node ''c'' ''C'') 1 empty_db"
  let ?n = "(sample_node ''b'' ''B'')\<lparr>pn_depends_on := [''a'']\<rparr>"
  have w: "w_db ?w = empty_db" "w_clock ?w = int" "w_calls ?w = 0" by (simp_all add: sample_world_def)
  have c: "create_task u ts (node_def ''/r'' (sample_node ''c'' ''C'')) empty_db =
      Inr (''c'', with_task ''/r'' (sample_node ''c'' ''C'') ts empty_db)" for u ts
    by (subst create_node) (auto simp: sample_node_def node_ok_def empty_deps_known)
  have b: "create_task u ts (node_def ''/r'' ?n) (with_task ''/r'' (sample_node ''c'' ''C'') s empty_db) =
      Inl (IntegrityError ''FOREIGN KEY constraint failed'')" for u ts s
    by (subst create_node) (auto simp: sample_node_def node_ok_def with_task_known empty_deps_known with_task_ids)
  have "find_task ''c'' (with_task ''/r'' (sample_node ''c'' ''C'') ts empty_db) \<noteq> None" for ts
    unfolding find_task_ids with_task_ids by (simp add: sample_node_def)
  moreover have "late_specs \<noteq> JNull" by (simp add: late_specs_def)
  moreover have "map (\<lambda>e. node_def ''/r'' (snd e)) (pl_nodes late_plan) =
      [node_def ''/r'' (sample_node ''c'' ''C''), node_def ''/r'' ?n, node_def ''/r'' (sample_node ''a'' ''A'')]"
    by (simp add: late_plan_def)
  ultimately show ?thesis
    by (simp add: late_compiled submit_specs run_args_specs checked_run_args[OF late_compiled] submit_plan_def
      create_task_io_def fresh_io_def now_io_def call_io_def commit_io_def bind_io_def w c b)
qed

end
