(* ===== verification/Cells.thy ===== *)
theory Cells
  imports Cli_Record Metrics
begin

text \<open>
  The cells of an experiment (\<open>experiment.py\<close>): the status of a finished run, the check that compared
  cells had the same inputs, and the configuration of a benchmark cell. Files are read elsewhere; what
  they hold is an argument.
\<close>

section \<open>The status of a cell\<close>

definition cell_settled :: "string set" where
  "cell_settled = {''delivered'', ''failed'', ''cancelled'', ''dependency_blocked'', ''needs_human''}"

definition required_fields :: "string list" where
  "required_fields = [''policy'', ''seed'', ''task_graph'', ''repository'', ''backend'', ''context_length'', ''limits'',
    ''authentication'']"

definition dict_or_empty :: "json \<Rightarrow> exc + payload" where
  "dict_or_empty v = (case json_or v (JObj []) of
      JObj p \<Rightarrow> Inr p | _ \<Rightarrow> Inl (AttributeError ''object has no attribute get''))"

definition counted_states :: "payload \<Rightarrow> payload \<Rightarrow> exc + (string, int) dict" where
  "counted_states result metrics =
    (case jget ''task_states'' result of
       JObj (x # xs) \<Rightarrow> Inr (map (\<lambda>(k, n). (k, int n)) (tally (map (\<lambda>kv. py_str (snd kv)) (x # xs))))
     | _ \<Rightarrow> bindE (dict_or_empty (jget ''state_counts'' metrics)) (\<lambda>p.
         mapE (\<lambda>(k, v). bindE (int_of v) (\<lambda>n. Inr (k, n))) p))"

definition manifest_error :: "payload \<Rightarrow> string option" where
  "manifest_error m =
    (let missing = filter (\<lambda>f. map_of m f = None) required_fields in
     if missing \<noteq> [] then Some (''manifest_missing:'' @ join '','' missing)
     else if (case jget ''repository'' m of JObj r \<Rightarrow> \<not> truthy (jget ''base_sha'' r) | _ \<Rightarrow> True)
       then Some ''manifest_missing:repository.base_sha''
     else if (case jget ''limits'' m of JObj l \<Rightarrow> jget ''max_concurrency'' l = JNull | _ \<Rightarrow> True)
       then Some ''manifest_missing:limits.max_concurrency''
     else None)"

definition dict_sum :: "(string, int) dict \<Rightarrow> int" where
  "dict_sum d = sum_list (map snd d)"

definition or_int :: "int \<Rightarrow> exc + int \<Rightarrow> exc + int" where
  "or_int n m = (if n \<noteq> 0 then Inr n else m)"

definition cell_status :: "string option \<Rightarrow> bool \<Rightarrow> bool \<Rightarrow> bool \<Rightarrow> int \<Rightarrow> int \<Rightarrow> (string, int) dict \<Rightarrow> string \<times> string option" where
  "cell_status malformed required reached completed tasks delivered states =
    (case malformed of
       Some reason \<Rightarrow> (''inconclusive'', Some reason)
     | None \<Rightarrow>
         if required \<and> \<not> reached then (''inconclusive'', Some ''fault_target_not_reached'')
         else if 0 < tasks \<and> delivered = tasks then (''success'', None)
         else if \<not> completed \<or> \<not> (0 < tasks \<and> dict_sum (filter (\<lambda>(q, n). q \<in> cell_settled) states) = tasks)
           then (''censored'', Some ''run_not_settled'')
         else (''failed'', Some ''terminal_task_failure''))"

text \<open>The rate is the exact quotient rounded to six decimals.\<close>

definition completion_rate :: "int \<Rightarrow> int \<Rightarrow> json" where
  "completion_rate delivered tasks =
    (if tasks = 0 then JFloat ''0.0''
     else JFloat (decimal_text 6 (if 0 < tasks then round_div (delivered * 1000000) tasks
       else round_div (- delivered * 1000000) (- tasks))))"

definition classify_cell :: "payload \<Rightarrow> payload \<Rightarrow> payload \<Rightarrow> bool \<Rightarrow> exc + payload" where
  "classify_cell manifest metrics result completed =
    bindE (counted_states result metrics) (\<lambda>states.
    bindE (or_int (dict_sum states) (int_of (jget_default ''tasks'' (JInt 0) metrics))) (\<lambda>tasks.
    bindE (int_of (jget_default ''delivered'' (JInt 0) metrics)) (\<lambda>fallback.
    bindE (dict_or_empty (jget ''fault_target_reachability'' manifest)) (\<lambda>reach.
    let delivered = (case map_of states ''delivered'' of None \<Rightarrow> fallback | Some n \<Rightarrow> n);
        reached = truthy (jget ''fault_target_reached'' metrics);
        (status, reason) = cell_status (manifest_error manifest) (truthy (jget ''enabled'' reach)) reached completed
          tasks delivered states in
    Inr [(''cell_status'', JStr status), (''cell_status_reason'', jopt reason),
      (''eligible_for_outcome'', JBool (status \<in> {''success'', ''failed''})),
      (''runtime_comparable'', JBool (status = ''success'')), (''task_count'', JInt tasks),
      (''verified_completion_rate'', completion_rate delivered tasks),
      (''state_counts'', JObj (map (\<lambda>(q, n). (q, JInt n)) states)),
      (''failure_class'', jget ''first_failure_class'' metrics),
      (''fault_profile'', json_or (jget ''fault_profile'' manifest) (jget ''fault_injection'' manifest)),
      (''fault_target'', json_or (jget ''fault_target'' metrics) (jget ''target'' reach)),
      (''fault_target_reached'', JBool reached)]))))"

section \<open>Comparable cells\<close>

text \<open>\<open>json.dumps(..., sort_keys=True)\<close>: the keys of every dictionary in order.\<close>

fun sort_json :: "json \<Rightarrow> json" where
  "sort_json (JList xs) = JList (map sort_json xs)"
| "sort_json (JObj kvs) = JObj (sort_key fst (map (\<lambda>(k, v). (k, sort_json v)) kvs))"
| "sort_json v = v"

text \<open>The tuple becomes an element of a set or a key: its parts must be hashable.\<close>

definition hashable :: "json list \<Rightarrow> exc + json list" where
  "hashable vs = (if list_ex (\<lambda>v. case v of JList xs \<Rightarrow> True | JObj p \<Rightarrow> True | _ \<Rightarrow> False) vs
    then Inl (TypeError ''unhashable type'') else Inr vs)"

definition comparison_signature :: "payload \<Rightarrow> exc + json list" where
  "comparison_signature c =
    bindE (dict_or_empty (jget ''model'' c)) (\<lambda>model.
    bindE (dict_or_empty (jget ''verifier'' c)) (\<lambda>verifier.
    bindE (dict_or_empty (jget ''authentication'' c)) (\<lambda>auth.
      hashable [jget ''backend'' c, jget ''worker'' model, jget ''supervisor'' model, jget ''context_length'' c,
        json_or (jget ''task_package_sha256'' c) (jget ''task_definition_sha256'' c),
        jget ''mode'' verifier, jget ''visible_command'' verifier, jget ''identity'' verifier,
        JStr (json_dumps (sort_json (json_or (jget ''limits'' c) (JObj [])))),
        jget ''mechanism'' auth,
        JStr (json_dumps (sort_json (json_or (jget ''resource_config'' c) (JObj []))))])))"

text \<open>Backend track, graph and fault profile are the factors of a comparison.\<close>

definition comparison_group :: "payload \<Rightarrow> exc + json list" where
  "comparison_group c =
    bindE (if truthy (jget ''fault_profile'' c) then Inr (jget ''fault_profile'' c)
           else bindE (dict_or_empty (jget ''fault_injection'' c)) (\<lambda>f. Inr (jget_default ''mode'' (JStr ''clean'') f)))
      (\<lambda>profile. hashable [jget_default ''backend_track'' (JStr ''unspecified'') c,
        jget_default ''graph_id'' (JStr ''unspecified'') c, profile])"

definition add_to_group :: "payload \<Rightarrow> (json list, payload list) dict \<Rightarrow> exc + (json list, payload list) dict" where
  "add_to_group c gs = bindE (comparison_group c) (\<lambda>k.
    Inr (AList.update k ((case map_of gs k of None \<Rightarrow> [] | Some rows \<Rightarrow> rows) @ [c]) gs))"

definition group_violation :: "json list \<times> payload list \<Rightarrow> exc + payload list" where
  "group_violation g = (case g of (k, rows) \<Rightarrow>
    bindE (mapE comparison_signature rows) (\<lambda>sigs.
      if 1 < length (remdups sigs) then
        Inr [[(''backend_track'', k ! 0), (''graph_id'', k ! 1), (''fault_profile'', k ! 2),
          (''cells'', JList (map (\<lambda>row. JObj [(''policy'', jget ''policy'' row), (''seed'', jget ''seed'' row),
            (''task_package_sha256'', jget ''task_package_sha256'' row)]) rows)),
          (''reason'', JStr ''comparison_inputs_changed'')]]
      else Inr []))"

text \<open>\<open>repr\<close> of the pair of a key and its rows, by which the groups are sorted.\<close>

definition group_repr :: "json list \<times> payload list \<Rightarrow> string" where
  "group_repr g = ''(('' @ join '', '' (map py_repr (fst g)) @ ''), '' @ py_repr (JList (map JObj (snd g))) @ '')''"

definition comparison_violations :: "payload list \<Rightarrow> exc + payload list" where
  "comparison_violations cells =
    bindE (foldE add_to_group cells []) (\<lambda>gs.
    bindE (mapE group_violation (sort_key group_repr gs)) (\<lambda>vs. Inr (concat vs)))"

section \<open>A benchmark cell\<close>

record package =
  bp_package :: payload
  bp_graphs :: "(string, payload list) dict"
  bp_profiles :: "(string, payload) dict"
  bp_tracks :: "(string, payload) dict"

definition cell_profiles :: "string list" where
  "cell_profiles = [''clean'', ''worker_crash'', ''worker_timeout'', ''no_candidate'', ''verification_failure'',
    ''dependency_failure'', ''worker_latency'']"

definition cell_tracks :: "string list" where
  "cell_tracks = [''cloud-claude'', ''local-ollama'']"

definition cell_policies :: "string list" where
  "cell_policies = [''sequential'', ''naive-parallel'', ''orchestrator'']"

definition check_graph :: "string \<times> payload list \<Rightarrow> unit \<Rightarrow> exc + unit" where
  "check_graph g u = (if length (snd g) \<noteq> 10
    then Inl (ValueError (''benchmark graph '' @ repr_str (fst g) @ '' must contain ten tasks'')) else Inr ())"

definition check_track :: "string \<times> payload \<Rightarrow> unit \<Rightarrow> exc + unit" where
  "check_track t u = (if jget ''comparison_group'' (snd t) \<noteq> JStr (fst t)
    then Inl (ValueError (''backend track '' @ repr_str (fst t) @ '' needs its own comparison_group'')) else Inr ())"

definition validate_package :: "package \<Rightarrow> exc + package" where
  "validate_package P =
    (if fst ` set (bp_graphs P) \<noteq> {''serial'', ''wide'', ''diamond'', ''mixed''} then
       Inl (ValueError (''benchmark graphs must be '' @
         py_repr (JList (map JStr [''diamond'', ''mixed'', ''serial'', ''wide'']))))
     else bindE (foldE check_graph (bp_graphs P) ()) (\<lambda>_.
       if fst ` set (bp_profiles P) \<noteq> set cell_profiles then Inl (ValueError ''benchmark profile set is incomplete'')
       else if fst ` set (bp_tracks P) \<noteq> set cell_tracks then Inl (ValueError ''benchmark backend tracks are incomplete'')
       else bindE (foldE check_track (bp_tracks P) ()) (\<lambda>_. Inr P)))"

definition canonical_hash :: "json \<Rightarrow> string" where
  "canonical_hash v = sha256_hex (utf8_bytes (json_compact (sort_json v)))"

definition root_task_id :: "payload list \<Rightarrow> exc + string" where
  "root_task_id tasks =
    bindE (mapE (\<lambda>t. bindE (jkey ''id'' t) (\<lambda>i. Inr (py_str i))) (filter (\<lambda>t. \<not> truthy (jget ''depends_on'' t)) tasks)) (\<lambda>roots.
      case sort roots of
        [] \<Rightarrow> Inl (ValueError ''benchmark graph has no root task'')
      | r # _ \<Rightarrow> Inr r)"

record cell_args =
  ce_graph :: string
  ce_policy :: string
  ce_seed :: int
  ce_profile :: string
  ce_track :: string
  ce_repo :: string
  ce_artifacts :: string
  ce_fake :: bool

definition cell_target :: "payload \<Rightarrow> payload list \<Rightarrow> exc + string" where
  "cell_target profile tasks =
    (if truthy (jget ''target'' profile) then Inr (py_str (jget ''target'' profile)) else root_task_id tasks)"

definition fault_task :: "string \<Rightarrow> payload \<Rightarrow> payload \<Rightarrow> exc + payload" where
  "fault_task target profile t =
    bindE (jkey ''id'' t) (\<lambda>i.
      if i \<noteq> JStr target then Inr t
      else bindE (jkey ''fake_scenario'' profile) (\<lambda>scenario.
        let t1 = AList.update ''brief'' (JStr (py_str scenario)) t in
        Inr (if jget ''verify_cmd'' profile = JNull then t1
          else AList.update ''verify_cmd'' (jget ''verify_cmd'' profile) t1)))"

definition cell_tasks :: "cell_args \<Rightarrow> string \<Rightarrow> payload \<Rightarrow> payload list \<Rightarrow> exc + payload list" where
  "cell_tasks a target profile tasks =
    (let ts = (if ce_fake a then map (AList.update ''brief'' (JStr ''clean'')) tasks else tasks) in
     if ce_profile a = ''clean'' then Inr ts
     else if ce_fake a then mapE (fault_task target profile) ts
     else Inl (ValueError ''fault profiles require --fake-worker in the local cell runner''))"

text \<open>The latency of a seed: the delays of the profile in turn.\<close>

definition latency_delay :: "int \<Rightarrow> payload \<Rightarrow> exc + json" where
  "latency_delay seed profile =
    (case jget_default ''delays_s'' (JList [JFloat ''0.05'', JFloat ''0.1'', JFloat ''0.2'']) profile of
       JList [] \<Rightarrow> Inl (RuntimeError ''integer modulo by zero'')
     | JList ds \<Rightarrow> Inr (ds ! nat (seed mod int (length ds)))
     | JStr s \<Rightarrow> if s = [] then Inl (RuntimeError ''integer modulo by zero'')
         else Inr (JStr [s ! nat (seed mod int (length s))])
     | JObj p \<Rightarrow> if p = [] then Inl (RuntimeError ''integer modulo by zero'')
         else Inl (KeyError (int_text (seed mod int (length p))))
     | _ \<Rightarrow> Inl (TypeError ''object of this type has no len()''))"

definition cell_fault :: "cell_args \<Rightarrow> string \<Rightarrow> payload \<Rightarrow> exc + json" where
  "cell_fault a target profile =
    (if ce_profile a = ''clean'' then Inr JNull
     else bindE (jkey ''mode'' profile) (\<lambda>mode.
       bindE (if ce_profile a = ''worker_latency'' then latency_delay (ce_seed a) profile
              else Inr (jget_default ''delay_s'' (JFloat ''0.1'') profile)) (\<lambda>delay.
       Inr (JObj [(''task_id'', JStr target), (''mode'', mode), (''attempt'', JInt 1), (''delay_s'', delay),
         (''target_reachable'', JBool True), (''seed'', JInt (ce_seed a))]))))"

definition cell_config :: "cell_args \<Rightarrow> package \<Rightarrow> payload \<Rightarrow> payload \<Rightarrow> payload list \<Rightarrow> json \<Rightarrow> exc + payload" where
  "cell_config a P track profile tasks fault =
    (let slow = (ce_profile a = ''worker_timeout'');
         out = ce_artifacts a;
         hash = canonical_hash (JObj [(''package'', JObj (bp_package P)), (''graph'', JList (map JObj tasks)),
           (''profile'', JObj profile)]) in
     bindE (mapE (\<lambda>k. jkey k track) [''backend'', ''worker_model'', ''supervisor_model'', ''context_length'',
       ''resource_config'', ''authentication_mechanism'']) (\<lambda>v.
     bindE (mapE (\<lambda>k. jkey k (bp_package P)) [''verifier_identity'', ''verify_cmd'']) (\<lambda>p.
     bindE (jkey ''max_concurrency'' track) (\<lambda>concurrency.
     bindE (if slow then Inr (JInt 1) else jkey ''stall_threshold_s'' track) (\<lambda>stall.
     bindE (if slow then Inr (JInt 1) else jkey ''worker_timeout_s'' track) (\<lambda>worker.
     bindE (mapE (\<lambda>k. jkey k track) [''sdk_timeout_s'', ''supervisor_timeout_s'']) (\<lambda>t.
     bindE (if slow then Inr (JInt 1) else jkey ''wait_ceiling_s'' track) (\<lambda>ceiling.
     Inr [(''repo_root'', JStr (ce_repo a)), (''artifact_root'', JStr out),
       (''run_artifact_root'', JStr (path_join out ''.run'')), (''db_path'', JStr (path_join out ''.state.db'')),
       (''worktree_root'', JStr (path_join out ''.worktrees'')),
       (''policy'', JStr (ce_policy a)), (''seed'', JInt (ce_seed a)), (''graph_id'', JStr (ce_graph a)),
       (''graph_shape'', JStr (ce_graph a)), (''backend_track'', JStr (ce_track a)),
       (''fault_profile'', JStr (ce_profile a)),
       (''backend'', v ! 0), (''worker_model'', v ! 1), (''supervisor_model'', v ! 2), (''context_length'', v ! 3),
       (''resource_config'', v ! 4), (''authentication_mechanism'', v ! 5),
       (''verifier_identity'', p ! 0), (''verify_cmd'', p ! 1), (''task_definition_sha256'', JStr hash),
       (''tasks'', JList (map JObj tasks)), (''fault_injection'', fault),
       (''fake_worker'', JBool (ce_fake a)), (''fake_supervisor'', JBool (ce_fake a)),
       (''external_isolation'', JBool (\<not> ce_fake a)), (''max_concurrency'', concurrency),
       (''max_retries'', JInt (if ce_profile a \<in> {''worker_timeout'', ''no_candidate'', ''verification_failure'',
         ''dependency_failure''} then 0 else 2)),
       (''stall_threshold_s'', stall), (''worker_timeout_s'', worker), (''sdk_timeout_s'', t ! 0),
       (''supervisor_timeout_s'', t ! 1), (''wait_ceiling_s'', ceiling)]))))))))"

definition choose_from :: "string \<Rightarrow> string \<Rightarrow> (string, 'v) dict \<Rightarrow> exc + 'v" where
  "choose_from what k d = (case map_of d k of
      None \<Rightarrow> Inl (ValueError (what @ '' '' @ repr_str k)) | Some v \<Rightarrow> Inr v)"

definition build_benchmark_cell :: "package \<Rightarrow> cell_args \<Rightarrow> exc + payload" where
  "build_benchmark_cell P0 a =
    bindE (validate_package P0) (\<lambda>P.
    if ce_policy a \<notin> set cell_policies then Inl (ValueError (''unsupported policy '' @ repr_str (ce_policy a)))
    else
    bindE (choose_from ''unknown graph'' (ce_graph a) (bp_graphs P)) (\<lambda>graph.
    bindE (choose_from ''unknown profile'' (ce_profile a) (bp_profiles P)) (\<lambda>profile.
    bindE (choose_from ''unknown backend track'' (ce_track a) (bp_tracks P)) (\<lambda>track.
    bindE (cell_target profile graph) (\<lambda>target.
    if target \<notin> set (map (\<lambda>t. py_str (jget ''id'' t)) graph) then
      Inl (ValueError (''profile '' @ repr_str (ce_profile a) @ '' target '' @ repr_str target @ '' is not in graph ''
        @ repr_str (ce_graph a)))
    else
    bindE (cell_tasks a target profile graph) (\<lambda>tasks.
    bindE (cell_fault a target profile) (\<lambda>fault.
      cell_config a P track profile tasks fault)))))))"

text \<open>The cells of \<open>prepare\<close>: every combination, the seeds innermost.\<close>

definition benchmark_matrix :: "package \<Rightarrow> string list \<Rightarrow> string list \<Rightarrow> int list \<Rightarrow> payload list" where
  "benchmark_matrix P tracks profiles seeds =
    concat (map (\<lambda>track. concat (map (\<lambda>graph. concat (map (\<lambda>profile. concat (map (\<lambda>policy. map (\<lambda>seed.
      [(''backend_track'', JStr track), (''graph'', JStr graph), (''profile'', JStr profile), (''policy'', JStr policy),
       (''seed'', JInt seed)]) seeds) cell_policies)) profiles)) (sort (map fst (bp_graphs P))))) tracks)"

section \<open>Laws\<close>

lemma matrix_size:
  "length (benchmark_matrix P tracks profiles seeds) =
    length tracks * length (bp_graphs P) * length profiles * 3 * length seeds"
  by (simp add: benchmark_matrix_def length_concat comp_def cell_policies_def sum_list_triv)

text \<open>A cell is a success exactly when its inputs are complete, its fault was reached and all was delivered.\<close>

lemma status_success:
  "fst (cell_status malformed required reached completed tasks delivered states) = ''success'' \<longleftrightarrow>
    malformed = None \<and> (required \<longrightarrow> reached) \<and> 0 < tasks \<and> delivered = tasks"
  by (simp add: cell_status_def split: option.split)

text \<open>
  The delivered tasks of the metrics stand in when no task of this run was delivered. The metrics count
  all tasks of the database, so with a database of an earlier run a failed task is a success.
\<close>

lemma delivered_fallback:
  assumes "counted_states result metrics = Inr states" "map_of states ''delivered'' = None" "0 < dict_sum states"
    and "jget_default ''delivered'' (JInt 0) metrics = JInt (dict_sum states)"
    and "manifest_error manifest = None" "jget ''fault_target_reachability'' manifest = JNull"
  shows "\<exists>c. classify_cell manifest metrics result completed = Inr c \<and> jget ''cell_status'' c = JStr ''success''"
proof -
  have "dict_or_empty (jget ''fault_target_reachability'' manifest) = Inr []"
    by (simp add: assms(6) dict_or_empty_def json_or_def)
  moreover have "int_of (jget_default ''delivered'' (JInt 0) metrics) = Inr (dict_sum states)"
    by (simp add: assms(4) int_of_def int_value_def)
  ultimately have "\<exists>c. classify_cell manifest metrics result completed = Inr ((''cell_status'', JStr ''success'') # c)"
    using assms(1,2,3,5) by (simp add: classify_cell_def bindE_def or_int_def cell_status_def Let_def jget_def)
  then show ?thesis by (auto simp: jget_def)
qed

definition reused_manifest :: payload where
  "reused_manifest = [(''policy'', JStr ''sequential''), (''seed'', JInt 0), (''task_graph'', JObj []),
    (''repository'', JObj [(''base_sha'', JStr ''abc'')]), (''backend'', JStr ''anthropic''),
    (''context_length'', JStr ''unknown''), (''limits'', JObj [(''max_concurrency'', JInt 1)]), (''authentication'', JObj [])]"

lemma failed_cell_success:
  "\<exists>c. classify_cell reused_manifest [(''tasks'', JInt 2), (''delivered'', JInt 1)]
      [(''task_states'', JObj [(''T'', JStr ''failed'')])] True = Inr c \<and> jget ''cell_status'' c = JStr ''success''"
  by (rule delivered_fallback[where states = "[(''failed'', 1)]"])
    (simp_all add: counted_states_def tally_def py_str_def jget_def jget_default_def dict_sum_def manifest_error_def
      required_fields_def reused_manifest_def)

end
