(* ===== verification/Runtime.thy ===== *)
theory Runtime
  imports Harbor Cells Launcher
begin

text \<open>
  The entry point inside a Harbor container (\<open>harbor_runtime.py\<close>): settings with their environment
  variables, the file of credentials, the manifest of the run, what the run is started with and what it
  leaves behind. Paths are given as resolved texts.
\<close>

section \<open>Settings\<close>

definition true_texts :: "string set" where
  "true_texts = {''1'', ''true'', ''yes'', ''on''}"

definition env_bool :: "json \<Rightarrow> bool \<Rightarrow> bool" where
  "env_bool v dflt = (if v = JNull then dflt else py_lower (strip (py_str v)) \<in> true_texts)"

text \<open>\<open>file\<close> is the parsed file, if one was named.\<close>

definition runtime_config :: "json option \<Rightarrow> exc + payload" where
  "runtime_config file = (case file of
      None \<Rightarrow> Inr []
    | Some (JObj p) \<Rightarrow> Inr (case jget ''orchestrator'' p of JObj q \<Rightarrow> q | _ \<Rightarrow> p)
    | Some _ \<Rightarrow> Inl (ValueError ''orchestrator configuration must be a JSON object''))"

definition env_json :: "string \<Rightarrow> process_env \<Rightarrow> json \<Rightarrow> json" where
  "env_json k e dflt = (case map_of e k of None \<Rightarrow> dflt | Some s \<Rightarrow> JStr s)"

definition env_value :: "payload \<Rightarrow> process_env \<Rightarrow> string \<Rightarrow> string \<Rightarrow> json \<Rightarrow> json" where
  "env_value settings e name k dflt =
    (if jget name settings \<noteq> JNull then jget name settings else env_json k e dflt)"

definition env_int :: "payload \<Rightarrow> process_env \<Rightarrow> string \<Rightarrow> string \<Rightarrow> int \<Rightarrow> exc + int" where
  "env_int settings e name k dflt = int_of (env_value settings e name k (JInt dflt))"

definition runtime_specs :: "payload \<Rightarrow> exc + json" where
  "runtime_specs settings =
    (case (if jget ''tasks'' settings \<noteq> JNull then jget ''tasks'' settings else jget ''task_graph'' settings) of
       JNull \<Rightarrow> Inr JNull
     | JList xs \<Rightarrow> Inr (JList xs)
     | _ \<Rightarrow> Inl (ValueError ''orchestrator tasks/task_graph must be a list''))"

definition graph_entry :: "json \<Rightarrow> exc + json" where
  "graph_entry v = (case v of
      JObj p \<Rightarrow> bindE (iterate (json_or (jget ''depends_on'' p) (JList []))) (\<lambda>ds.
        Inr (JObj [(''id'', JStr (py_str (jget ''id'' p))), (''depends_on'', JList ds)]))
    | _ \<Rightarrow> Inl (AttributeError ''object has no attribute get''))"

text \<open>Number of tasks, hash of the specifications, and the edges.\<close>

definition graph_metadata :: "json \<Rightarrow> exc + int \<times> string option \<times> json list" where
  "graph_metadata specs = (case specs of
      JList xs \<Rightarrow> bindE (mapE graph_entry xs) (\<lambda>ts. Inr (int (length xs), Some (canonical_hash specs), ts))
    | _ \<Rightarrow> Inr (1, None, []))"

definition runtime_fault :: "payload \<Rightarrow> exc + json" where
  "runtime_fault settings = (case jget ''fault_injection'' settings of
      JNull \<Rightarrow> Inr JNull
    | JObj p \<Rightarrow> Inr (JObj p)
    | _ \<Rightarrow> Inl (ValueError ''orchestrator fault_injection must be an object''))"

section \<open>Credentials\<close>

definition unquoted :: "string \<Rightarrow> string" where
  "unquoted v = (if 2 \<le> length v \<and> hd v = last v \<and> hd v \<in> {CHR 0x27, CHR 0x22} then butlast (tl v) else v)"

text \<open>A line of the file: the name and value that it sets, if any.\<close>

definition auth_line :: "string \<Rightarrow> (string \<times> string) option" where
  "auth_line raw =
    (let l0 = strip raw;
         l = (if starts_with ''export '' l0 then lstrip (drop 7 l0) else l0);
         name = strip (takeWhile (\<lambda>c. c \<noteq> CHR ''='') l) in
     if l0 = [] \<or> starts_with ''#'' l0 then None
     else if CHR ''='' \<notin> set l \<or> name \<notin> auth_env then None
     else Some (name, unquoted (strip (tl (dropWhile (\<lambda>c. c \<noteq> CHR ''='') l)))))"

definition env_setdefault :: "string \<times> string \<Rightarrow> process_env \<Rightarrow> process_env" where
  "env_setdefault kv e = (if map_of e (fst kv) = None then e @ [kv] else e)"

text \<open>\<open>file\<close> is the text of the file, if it can be read.\<close>

definition load_auth_file :: "string option \<Rightarrow> process_env \<Rightarrow> process_env" where
  "load_auth_file file e = (case file of
      None \<Rightarrow> e
    | Some text \<Rightarrow> fold env_setdefault (List.map_filter auth_line (split_lines text)) e)"

definition runtime_worker_env :: "process_env \<Rightarrow> process_env" where
  "runtime_worker_env e = filter (\<lambda>(k, v). k \<in> auth_env) e"

text \<open>\<open>names\<close> are the credentials in the order in which the set is enumerated.\<close>

definition hide_secret :: "process_env \<Rightarrow> string \<Rightarrow> string \<Rightarrow> string" where
  "hide_secret e k msg =
    (let secret = env_get k e in
     if secret = [] then msg
     else replace_by (\<lambda>prev s. if starts_with secret s then length secret else 0) ''[REDACTED_CREDENTIAL]'' None msg)"

definition safe_failure :: "string list \<Rightarrow> process_env \<Rightarrow> string \<Rightarrow> exc \<Rightarrow> json" where
  "safe_failure names e typ ex =
    JObj [(''type'', JStr typ), (''message'', JStr (take 1000 (fold (hide_secret e) names (exc_text ex))))]"

definition sensitive :: "string \<Rightarrow> bool" where
  "sensitive key = list_ex (\<lambda>word. has_text word (py_lower key)) [''key'', ''token'', ''secret'', ''password'', ''credential'']"

fun public_config :: "string \<Rightarrow> json \<Rightarrow> json" where
  "public_config key (JObj kvs) =
    (if sensitive key then JStr ''[REDACTED]'' else JObj (map (\<lambda>(k, v). (k, public_config k v)) kvs))"
| "public_config key (JList xs) =
    (if sensitive key then JStr ''[REDACTED]'' else JList (map (public_config key) xs))"
| "public_config key v = (if sensitive key then JStr ''[REDACTED]'' else v)"

section \<open>The manifest\<close>

record runtime_host =
  rh_env :: process_env
  rh_version :: string
  rh_repo :: string
  rh_artifacts :: string
  rh_base :: string
  rh_instruction :: string

record time_limits =
  tl_stall :: int
  tl_worker :: int
  tl_sdk :: int
  tl_supervisor :: int

definition runtime_limits :: "payload \<Rightarrow> process_env \<Rightarrow> exc + time_limits" where
  "runtime_limits settings e =
    bindE (env_int settings e ''stall_threshold_s'' ''ORCH_STALL_THRESHOLD_S'' 300) (\<lambda>st.
    bindE (env_int settings e ''worker_timeout_s'' ''ORCH_WORKER_TIMEOUT_S'' 1200) (\<lambda>w.
    bindE (env_int settings e ''sdk_timeout_s'' ''ORCH_SDK_TIMEOUT_S'' 300) (\<lambda>k.
    bindE (env_int settings e ''supervisor_timeout_s'' ''ORCH_SUPERVISOR_TIMEOUT_S'' 120) (\<lambda>v.
      Inr \<lparr>tl_stall = st, tl_worker = w, tl_sdk = k, tl_supervisor = v\<rparr>))))"

definition package_sha :: "json \<Rightarrow> string \<Rightarrow> string option \<Rightarrow> json" where
  "package_sha task_hash instruction_sha graph_sha = json_or task_hash (JStr (canonical_hash
    (JObj [(''instruction_sha256'', JStr instruction_sha), (''task_graph_sha256'', jopt graph_sha)])))"

definition reachability :: "json \<Rightarrow> json" where
  "reachability fault = JObj [(''enabled'', JBool (target_reachable fault)),
    (''target'', case fault of JObj p \<Rightarrow> jget ''task_id'' p | _ \<Rightarrow> JNull),
    (''requires_root'', JBool (target_reachable fault))]"

definition crash_recovery :: "payload \<Rightarrow> process_env \<Rightarrow> bool" where
  "crash_recovery settings e =
    env_bool (env_value settings e ''deterministic_crash_recovery'' ''ORCH_FAST_CRASH_RECOVERY'' (JBool True)) True"

definition env_switch :: "payload \<Rightarrow> process_env \<Rightarrow> string \<Rightarrow> string \<Rightarrow> bool \<Rightarrow> bool" where
  "env_switch settings e name k dflt = env_bool (env_value settings e name k (JBool dflt)) False"

definition limits_json :: "payload \<Rightarrow> process_env \<Rightarrow> time_limits \<Rightarrow> exc + json" where
  "limits_json settings e l =
    bindE (env_int settings e ''max_concurrency'' ''ORCH_MAX_CONCURRENCY'' 4) (\<lambda>c.
    bindE (env_int settings e ''max_retries'' ''ORCH_MAX_RETRIES'' 2) (\<lambda>r.
    bindE (env_int settings e ''verify_timeout_s'' ''ORCH_VERIFY_TIMEOUT_S'' 600) (\<lambda>v.
    bindE (env_int settings e ''wait_ceiling_s'' ''ORCH_WAIT_CEILING_S'' 1800) (\<lambda>w.
      Inr (JObj [(''max_concurrency'', JInt c), (''max_retries'', JInt r), (''stall_threshold_s'', JInt (tl_stall l)),
        (''worker_timeout_s'', JInt (tl_worker l)), (''sdk_timeout_s'', JInt (tl_sdk l)),
        (''supervisor_timeout_s'', JInt (tl_supervisor l)), (''verify_timeout_s'', JInt v), (''wait_ceiling_s'', JInt w)])))))"

definition switches_json :: "payload \<Rightarrow> process_env \<Rightarrow> payload" where
  "switches_json settings e =
    [(''deterministic_crash_recovery'', JBool (crash_recovery settings e)),
     (''protocol_recovery_v2'', JBool (env_switch settings e ''protocol_recovery_v2'' ''ORCH_PROTOCOL_RECOVERY_V2'' True)),
     (''deterministic_recovery'', JBool (env_switch settings e ''deterministic_recovery'' ''ORCH_DETERMINISTIC_RECOVERY'' True)),
     (''adaptive_scheduling'', JBool (env_switch settings e ''adaptive_scheduling'' ''ORCH_ADAPTIVE_SCHEDULING'' True)),
     (''evidence_ladder'', JBool (env_switch settings e ''evidence_ladder'' ''ORCH_EVIDENCE_LADDER'' True))]"

definition resource_config :: "payload \<Rightarrow> exc + json" where
  "resource_config settings = (case jget_default ''resource_config'' (JObj []) settings of
      JObj p \<Rightarrow> Inr (public_config [] (JObj p))
    | _ \<Rightarrow> Inl (ValueError ''resource_config must be an object''))"

definition run_policy :: "payload \<Rightarrow> process_env \<Rightarrow> string" where
  "run_policy settings e = py_str (env_value settings e ''policy'' ''ORCH_POLICY'' (JStr ''orchestrator''))"

definition verify_setting :: "payload \<Rightarrow> process_env \<Rightarrow> json" where
  "verify_setting settings e = env_value settings e ''verify_cmd'' ''ORCH_VERIFY_CMD'' (JStr ''true'')"

definition run_manifest ::
    "payload \<Rightarrow> runtime_host \<Rightarrow> int \<times> string option \<times> json list \<Rightarrow> json \<Rightarrow> time_limits \<Rightarrow> exc + payload" where
  "run_manifest settings H graph fault l =
    (let e = rh_env H;
         setting = env_value settings e;
         (count, graph_sha, tasks) = graph;
         instruction_sha = sha256_hex (utf8_bytes (rh_instruction H));
         task_hash = setting ''task_definition_sha256'' ''ORCH_TASK_DEFINITION_SHA256'' JNull;
         graph_id = py_str (setting ''graph_id'' ''ORCH_GRAPH_ID''
           (JStr (if given graph_sha then take 12 (the graph_sha) else ''single-task''))) in
     bindE (resource_config settings) (\<lambda>resources.
     bindE (limits_json settings e l) (\<lambda>limits.
     Inr ([(''schema_version'', JInt 1), (''orchestrator_version'', JStr (rh_version H)),
       (''harbor_version'', setting ''harbor_version'' ''HARBOR_VERSION'' (JStr ''unknown'')),
       (''trial_id'', setting ''trial_id'' ''HARBOR_TRIAL_ID'' (JStr ''unknown'')),
       (''seed'', setting ''seed'' ''HARBOR_TRIAL_SEED'' (JStr ''unknown'')),
       (''task_definition_sha256'', json_or task_hash (JStr ''not-provided'')),
       (''task_package_sha256'', package_sha task_hash instruction_sha graph_sha),
       (''graph_id'', JStr graph_id),
       (''graph_shape'', setting ''graph_shape'' ''ORCH_GRAPH_SHAPE'' (JStr graph_id)),
       (''backend_track'', setting ''backend_track'' ''ORCH_BACKEND_TRACK'' (JStr ''unspecified'')),
       (''fault_profile'', setting ''fault_profile'' ''ORCH_FAULT_PROFILE'' (JStr ''clean'')),
       (''task_graph'', JObj [(''count'', JInt count), (''sha256'', jopt graph_sha), (''tasks'', JList tasks)]),
       (''fault_injection'', fault), (''fault_target_reachability'', reachability fault)] @
       switches_json settings e @
      [(''instruction_sha256'', JStr instruction_sha),
       (''repository'', JObj [(''root'', JStr (rh_repo H)), (''base_sha'', JStr (rh_base H))]),
       (''policy'', JStr (run_policy settings e)),
       (''backend'', setting ''backend'' ''ORCH_BACKEND'' (JStr ''anthropic'')),
       (''context_length'', setting ''context_length'' ''ORCH_CONTEXT_LENGTH'' (JStr ''unknown'')),
       (''model'', JObj [(''worker'', setting ''worker_model'' ''ORCH_WORKER_MODEL'' (JStr ''claude-sonnet-5'')),
         (''supervisor'', setting ''supervisor_model'' ''ORCH_SUPERVISOR_MODEL'' (JStr ''claude-sonnet-5''))]),
       (''limits'', limits), (''resource_config'', resources),
       (''verifier'', JObj [(''mode'', setting ''verifier_mode'' ''ORCH_VERIFIER_MODE'' (JStr ''separate'')),
         (''visible_command'', verify_setting settings e),
         (''identity'', setting ''verifier_identity'' ''ORCH_VERIFIER_IDENTITY'' (JStr ''unspecified'')),
         (''artifact_root'', JStr (rh_artifacts H))]),
       (''authentication'', JObj [(''source'', JStr ''Harbor-injected environment''),
         (''mechanism'', setting ''authentication_mechanism'' ''ORCH_AUTH_MECHANISM'' (JStr ''environment'')),
         (''values_recorded'', JBool False)])]))))"

section \<open>The run\<close>

text \<open>The marker of the container, and the isolation that is declared to the scheduler.\<close>

definition harbor_marked :: "process_env \<Rightarrow> bool" where
  "harbor_marked e = env_bool (json_or (env_json ''ORCH_HARBOR_ISOLATED'' e JNull) (env_json ''HARBOR_ISOLATED'' e JNull)) False"

definition declared_isolation :: "payload \<Rightarrow> process_env \<Rightarrow> bool" where
  "declared_isolation settings e = (env_bool (jget ''external_isolation'' settings) (harbor_marked e) \<and> harbor_marked e)"

text \<open>A verification command is a text; other values do not occur here.\<close>

definition runtime_args :: "payload \<Rightarrow> runtime_host \<Rightarrow> json \<Rightarrow> json \<Rightarrow> time_limits \<Rightarrow> exc + run_args" where
  "runtime_args settings H specs fault l =
    (let e = rh_env H; setting = env_value settings e; switch = env_switch settings e in
     bindE (env_int settings e ''max_retries'' ''ORCH_MAX_RETRIES'' 2) (\<lambda>r.
     bindE (env_int settings e ''max_concurrency'' ''ORCH_MAX_CONCURRENCY'' 4) (\<lambda>c.
     bindE (env_int settings e ''verify_timeout_s'' ''ORCH_VERIFY_TIMEOUT_S'' 600) (\<lambda>v.
     bindE (env_int settings e ''wait_ceiling_s'' ''ORCH_WAIT_CEILING_S'' 1800) (\<lambda>ceiling.
     Inr \<lparr>ra_instruction = rh_instruction H, ra_repo = rh_repo H,
       ra_title = py_str (setting ''title'' ''ORCH_TITLE'' (JStr ''Harbor task'')),
       ra_verify_cmd = text_json (verify_setting settings e), ra_max_retries = r, ra_specs = specs, ra_fault = fault,
       ra_policy = \<lparr>pa_policy = run_policy settings e, pa_max_concurrency = JInt c,
         pa_worker_model = setting ''worker_model'' ''ORCH_WORKER_MODEL'' JNull,
         pa_supervisor_model = setting ''supervisor_model'' ''ORCH_SUPERVISOR_MODEL'' JNull,
         pa_worker_env = runtime_worker_env e,
         pa_fake_worker = switch ''fake_worker'' ''ORCH_FAKE_WORKER'' False,
         pa_fake_supervisor = switch ''fake_supervisor'' ''ORCH_FAKE_SUPERVISOR'' False,
         pa_isolated = declared_isolation settings e, pa_trusted = False,
         pa_verify_timeout = JInt v, pa_stall = JInt (tl_stall l), pa_worker_timeout = JInt (tl_worker l),
         pa_sdk_timeout = JInt (tl_sdk l), pa_supervisor_timeout = JInt (tl_supervisor l), pa_wait_ceiling = JInt ceiling,
         pa_base_branch = py_str (setting ''base_branch'' ''ORCH_BASE_BRANCH'' (JStr ''main'')),
         pa_crash = JBool (crash_recovery settings e),
         pa_adaptive = JBool (switch ''adaptive_scheduling'' ''ORCH_ADAPTIVE_SCHEDULING'' True),
         pa_protocol = JBool (switch ''protocol_recovery_v2'' ''ORCH_PROTOCOL_RECOVERY_V2'' True),
         pa_deterministic = JBool (switch ''deterministic_recovery'' ''ORCH_DETERMINISTIC_RECOVERY'' True),
         pa_ladder = JBool (switch ''evidence_ladder'' ''ORCH_EVIDENCE_LADDER'' True), pa_fault = fault\<rparr>\<rparr>)))))"

text \<open>
  What the run is started with: the manifest and the arguments. \<open>auth\<close> is the text of the file of credentials.
\<close>

definition runtime_plan :: "json option \<Rightarrow> string option \<Rightarrow> runtime_host \<Rightarrow> exc + payload \<times> run_args" where
  "runtime_plan file auth H0 =
    bindE (runtime_config file) (\<lambda>settings.
    let H = H0\<lparr>rh_env := load_auth_file auth (rh_env H0)\<rparr> in
    bindE (runtime_specs settings) (\<lambda>specs.
    bindE (graph_metadata specs) (\<lambda>graph.
    bindE (runtime_fault settings) (\<lambda>fault.
    bindE (runtime_limits settings (rh_env H)) (\<lambda>l.
    bindE (run_manifest settings H graph fault l) (\<lambda>m.
    bindE (runtime_args settings H specs fault l) (\<lambda>a. Inr (m, a))))))))"

section \<open>What the run leaves\<close>

definition ms_json :: "int \<Rightarrow> json" where
  "ms_json t = JFloat (decimal_text 3 t)"

text \<open>\<open>money\<close> is the number of a sum of costs.\<close>

definition metrics_json :: "(int \<Rightarrow> json) \<Rightarrow> metrics \<Rightarrow> payload" where
  "metrics_json money m =
    (let t = me_timing m; n = (\<lambda>k. JInt (int k)); counts = (\<lambda>d. JObj (map (\<lambda>(k, c). (k, n c)) d)) in
     [(''tasks'', n (me_tasks m)), (''executed'', n (me_executed m)), (''delivered'', n (state_count m Delivered)),
      (''failed'', n (state_count m Failed)), (''cancelled'', n (state_count m Cancelled)),
      (''needs_human'', n (state_count m NeedsHuman)), (''dependency_blocked'', n (state_count m DependencyBlocked)),
      (''tokens_in'', JInt (me_tokens_in m)), (''tokens_out'', JInt (me_tokens_out m)), (''cost_usd'', money (me_cost m)),
      (''worker_cost_usd'', money (me_worker_cost m)), (''supervisor_cost_usd'', money (me_supervisor_cost m)),
      (''interventions'', n (me_interventions m)), (''verify_failed'', n (me_verify_failed m)),
      (''verification_recoveries'', n (me_recovered m)),
      (''queue_wait_s'', ms_json (ti_queue_wait t)), (''slot_occupancy_s'', ms_json (ti_slot_occupancy t)),
      (''worker_execution_s'', ms_json (ti_worker t)), (''verification_s'', ms_json (ti_verification t)),
      (''supervisor_s'', ms_json (ti_supervisor t)), (''triage_s'', ms_json (ti_triage t)),
      (''candidate_to_retry_s'', ms_json (ti_retry t)),
      (''peak_live_workers'', JInt (ti_peak t)), (''worker_limit'', JInt (ti_limit t)), (''attempts'', n (ti_attempts t)),
      (''verification_attempts'', n (ti_verification_attempts t)),
      (''recovery_attempts'', n (me_recovery_attempts m)), (''recovery_verified'', n (me_recovery_verified m)),
      (''recovery_failed'', n (me_recovery_failed m)),
      (''first_failure_class'', jopt (map_option snd (me_first_failure m))),
      (''first_failure_event_seq'', jint_opt (map_option fst (me_first_failure m))),
      (''failure_classes'', counts (me_failures m)), (''terminal_classifications'', counts (map (\<lambda>(k, c). (py_str k, c)) (me_terminal m))),
      (''recovery_time_s'', ms_json (me_recovery_time m)),
      (''evidence_stage_counts'', counts (map (\<lambda>(k, v). (k, fst v)) (me_stages m))),
      (''evidence_stage_timing_s'', JObj (map (\<lambda>(k, v). (k, ms_json (snd v))) (me_stages m))),
      (''fault_target_reached'', JBool (me_fault_reached m)), (''fault_target'', me_fault_target m),
      (''state_counts'', counts (map (\<lambda>(k, c). (state_name k, c)) (me_state_counts m))),
      (''terminal_state_counts'', counts (map (\<lambda>(k, c). (state_name k, c)) (terminal_state_counts m))),
      (''wall_time_s'', ms_json (me_wall m))])"

definition initial_metadata :: "string \<Rightarrow> string \<Rightarrow> payload" where
  "initial_metadata policy base = [(''schema_version'', JInt 1), (''policy'', JStr policy), (''base_sha'', JStr base),
    (''candidate_sha'', JNull), (''state'', JStr ''failed''), (''metrics'', JObj [])]"

definition run_metadata :: "harbor_run \<Rightarrow> payload \<Rightarrow> payload \<Rightarrow> payload" where
  "run_metadata run m meta = dict_merge meta [(''task_id'', JStr (hd (hr_task_ids run))),
    (''task_ids'', JList (map JStr (hr_task_ids run))),
    (''task_states'', JObj (map (\<lambda>(k, q). (k, JStr q)) (hr_states run))), (''state'', JStr (hr_state run)),
    (''base_sha'', JStr (hr_base run)), (''candidate_sha'', jopt (hr_candidate run)), (''metrics'', JObj m)]"

text \<open>The published files: the result, the metrics, and the two commits of the patch, if there is one.\<close>

record published =
  pb_result :: payload
  pb_metrics :: payload
  pb_patch :: "(string \<times> string) option"

definition finish_run :: "(int \<Rightarrow> json) \<Rightarrow> payload \<Rightarrow> string \<Rightarrow> int \<Rightarrow> harbor_run \<Rightarrow> payload \<Rightarrow> (exc + published) \<times> payload" where
  "finish_run money manifest base wall run meta0 =
    (let m = AList.update ''wall_time_s'' (ms_json wall) (metrics_json money (hr_metrics run));
         meta = run_metadata run m meta0 in
     case classify_cell manifest m meta True of
       Inl e \<Rightarrow> (Inl e, meta)
     | Inr c \<Rightarrow>
         let m1 = dict_merge m c in
         (Inr \<lparr>pb_result = AList.update ''metrics'' (JObj m1) meta, pb_metrics = m1,
            pb_patch = (if given (hr_candidate run)
              then Some (if hr_base run \<noteq> [] then hr_base run else base, the (hr_candidate run)) else None)\<rparr>, meta))"

definition metadata_metrics :: "payload \<Rightarrow> payload" where
  "metadata_metrics meta = (case jget ''metrics'' meta of JObj p \<Rightarrow> p | _ \<Rightarrow> [])"

text \<open>\<open>exported\<close> are the metrics of the database after the failure, or the exception of reading them.\<close>

definition failure_metrics :: "payload \<Rightarrow> int \<Rightarrow> exc + payload \<Rightarrow> payload \<Rightarrow> payload" where
  "failure_metrics manifest wall exported meta = (case exported of
      Inl _ \<Rightarrow> metadata_metrics meta
    | Inr x \<Rightarrow>
        let m = AList.update ''wall_time_s'' (ms_json wall) x in
        (case classify_cell manifest m (AList.update ''metrics'' (JObj m) meta) False of
           Inl _ \<Rightarrow> m | Inr c \<Rightarrow> dict_merge m c))"

definition publish_failure :: "json \<Rightarrow> payload \<Rightarrow> payload \<Rightarrow> published" where
  "publish_failure failure m meta = \<lparr>pb_result = AList.update ''failure'' failure (AList.update ''metrics'' (JObj m) meta),
    pb_metrics = m, pb_patch = None\<rparr>"

text \<open>
  The outcome of a run: what it published, and its exit code or exception. \<open>walls\<close> are the two readings of
  the clock, \<open>describe\<close> is \<open>safe_failure\<close> in this environment.
\<close>

definition runtime_outcome ::
    "(int \<Rightarrow> json) \<Rightarrow> payload \<Rightarrow> string \<Rightarrow> string \<Rightarrow> int \<times> int \<Rightarrow> (exc \<Rightarrow> json) \<Rightarrow> exc + payload \<Rightarrow> exc + harbor_run
      \<Rightarrow> (exc + int) \<times> published" where
  "runtime_outcome money manifest policy base walls describe exported result =
    (let meta0 = initial_metadata policy base;
         fail = (\<lambda>e meta. (Inl e, publish_failure (describe e)
           (failure_metrics manifest (snd walls) exported meta) meta)) in
     case result of
       Inl e \<Rightarrow> fail e meta0
     | Inr run \<Rightarrow> (case finish_run money manifest base (fst walls) run meta0 of
           (Inl e, meta) \<Rightarrow> fail e meta
         | (Inr p, meta) \<Rightarrow> (Inr 0, p)))"

end
