(* ===== verification/Runtime_Properties.thy ===== *)
theory Runtime_Properties
  imports Runtime Sample
begin

text \<open>
  The boundary of a run inside a Harbor container, and what its files say.
\<close>

section \<open>Credentials\<close>








section \<open>The boundary\<close>













section \<open>The manifest\<close>

text \<open>
  A run with an injected fault whose settings name no profile is recorded and compared as a clean run; the
  mode of its fault is looked at only when there is no profile at all.
\<close>

lemma manifest_profile:
  assumes "run_manifest settings H graph fault l = Inr m"
    and "jget ''fault_profile'' settings = JNull" "map_of (rh_env H) ''ORCH_FAULT_PROFILE'' = None"
  shows "jget ''fault_profile'' m = JStr ''clean'' \<and> jget ''fault_injection'' m = fault"
  using assms by (auto simp: run_manifest_def Let_def bindE_Inr_iff jget_def switches_json_def env_value_def env_json_def
      split: prod.splits)

lemma faulty_run_compared_as_clean:
  assumes "run_manifest settings H graph fault l = Inr m"
    and "jget ''fault_profile'' settings = JNull" "map_of (rh_env H) ''ORCH_FAULT_PROFILE'' = None"
    and "comparison_group m = Inr k"
  shows "k ! 2 = JStr ''clean''"
  using assms(4) manifest_profile[OF assms(1-3)]
  by (auto simp: comparison_group_def hashable_def bindE_def split: if_splits)

section \<open>The files\<close>

lemma published_agree:
  "jget ''metrics'' (pb_result (snd (runtime_outcome money m p b walls describe exported result))) =
    JObj (pb_metrics (snd (runtime_outcome money m p b walls describe exported result)))"
  by (auto simp: runtime_outcome_def finish_run_def publish_failure_def Let_def jget_def update_conv' split: sum.splits prod.splits)

end
