(* ===== verification/Agent.thy ===== *)
theory Agent
  imports Runtime Evidence
begin

text \<open>
  The agent that Harbor installs (\<open>harbor_agent.py\<close>): the settings it passes on, the requests it makes to
  the container, and the context it fills from the files of the run. The container is a parameter.
\<close>

section \<open>Settings\<close>

text \<open>A file yields what the JSON parser reads, and what the TOML parser reads where that fails.\<close>

datatype config_source = No_config | Config_dict payload | Config_file "json option" "json option"

definition config_data :: "config_source \<Rightarrow> json" where
  "config_data src = (case src of
      No_config \<Rightarrow> JObj []
    | Config_dict p \<Rightarrow> JObj p
    | Config_file (Some v) t \<Rightarrow> v
    | Config_file None (Some v) \<Rightarrow> v
    | Config_file None None \<Rightarrow> JObj [])"

definition agent_settings :: "config_source \<Rightarrow> payload" where
  "agent_settings src = (case config_data src of
      JObj p \<Rightarrow> (case jget ''orchestrator'' p of JObj q \<Rightarrow> q | _ \<Rightarrow> p)
    | _ \<Rightarrow> [])"

section \<open>Requests\<close>

datatype request =
    Probe string
  | Upload_file string
  | Upload_text string string
  | As_root string "int option"
  | As_agent string string "int option"

text \<open>\<open>container\<close> answers the request of a number: an exit code, or an exception.\<close>

type_synonym container = "nat \<Rightarrow> request \<Rightarrow> exc + int"

definition ask_container :: "container \<Rightarrow> request \<Rightarrow> (request list, int) io" where
  "ask_container K r = bind_io (gets_io length) (\<lambda>n.
    then_io (modify_io (\<lambda>rs. rs @ [r])) (\<lambda>rs. (K n r, rs)))"

definition ensure_tools :: "container \<Rightarrow> (request list, unit) io" where
  "ensure_tools K =
    bind_io (ask_container K (Probe (''command -v git && command -v python3 && command -v tar && '' @
      ''python3 -m pip --version''))) (\<lambda>code.
    when_io (code \<noteq> 0) (then_io (ask_container K (As_root (''apt-get update && apt-get install -y --no-install-recommends '' @
      ''git python3 python3-pip tar ca-certificates'') (Some 600))) (ret_io ())))"

definition install_agent :: "container \<Rightarrow> (request list, unit) io" where
  "install_agent K =
    then_io (ensure_tools K)
    (then_io (ask_container K (Upload_file ''/tmp/dagent-source.tar.gz''))
    (then_io (ask_container K (As_root (''rm -rf /tmp/dagent-source && mkdir -p /tmp/dagent-source && '' @
      ''tar -xzf /tmp/dagent-source.tar.gz -C /tmp/dagent-source --strip-components=1 && '' @
      ''python3 -m pip install --no-cache-dir /tmp/dagent-source'') (Some 600))) (ret_io ())))"

definition upload_text :: "container \<Rightarrow> string \<Rightarrow> string \<Rightarrow> (request list, unit) io" where
  "upload_text K text path =
    then_io (ask_container K (Upload_text text path))
    (then_io (ask_container K (As_root (''chmod 0644 '' @ shell_quote path) None)) (ret_io ()))"

definition auth_mount :: string where
  "auth_mount = ''/run/secrets/dagent-claude-auth.env''"

definition auth_copy :: string where
  "auth_copy = ''/tmp/dagent-claude-auth.env''"

definition remote_file :: "int \<Rightarrow> string \<Rightarrow> string \<Rightarrow> string" where
  "remote_file pid name suffix = ''/tmp/'' @ name @ ''-'' @ int_text pid @ suffix"

definition copy_auth_command :: string where
  "copy_auth_command = ''if test -f '' @ shell_quote auth_mount @ ''; then install -m 0644 '' @ shell_quote auth_mount @
    '' '' @ shell_quote auth_copy @ ''; fi''"

definition runtime_command :: "string \<Rightarrow> string \<Rightarrow> string" where
  "runtime_command instruction config = ''ORCH_AUTH_ENV_FILE='' @ shell_quote auth_copy @
    '' python3 -m dagent.harbor_runtime --instruction-file '' @ shell_quote instruction @
    '' --config-file '' @ shell_quote config"

text \<open>\<open>e\<close> is what the agent reads of its environment.\<close>

definition agent_timeout :: "payload \<Rightarrow> process_env \<Rightarrow> exc + int option" where
  "agent_timeout settings e =
    (let v = json_or (jget ''agent_timeout_s'' settings) (env_json ''ORCH_AGENT_TIMEOUT_S'' e JNull) in
     if v = JNull then Inr None else bindE (int_of v) (\<lambda>n. Inr (Some n)))"

definition agent_repo :: "payload \<Rightarrow> process_env \<Rightarrow> string" where
  "agent_repo settings e = py_str (json_or (jget ''repo_root'' settings) (env_json ''ORCH_REPO_ROOT'' e (JStr ''/app'')))"

definition agent_run :: "container \<Rightarrow> config_source \<Rightarrow> process_env \<Rightarrow> int \<Rightarrow> string \<Rightarrow> (request list, unit) io" where
  "agent_run K src e pid instruction =
    (let settings = agent_settings src;
         instruction_path = remote_file pid ''dagent-instruction'' ''.md'';
         config_path = remote_file pid ''dagent-config'' ''.json'' in
     then_io (upload_text K instruction instruction_path)
     (then_io (upload_text K (json_dumps (JObj settings)) config_path)
     (then_io (ask_container K (As_root copy_auth_command None))
     (bind_io (\<lambda>rs. (agent_timeout settings e, rs)) (\<lambda>timeout.
      then_io (ask_container K (As_agent (runtime_command instruction_path config_path) (agent_repo settings e) timeout))
        (ret_io ()))))))"

section \<open>Context\<close>

text \<open>A file is missing, holds no JSON, or holds a value.\<close>

datatype read_file = Missing_file | Unreadable_file | Read_file json

definition result_of :: "read_file \<Rightarrow> payload" where
  "result_of f = (case f of
      Unreadable_file \<Rightarrow> [(''failure'', JObj [(''type'', JStr ''invalid_result_metadata'')])]
    | Read_file (JObj p) \<Rightarrow> p
    | _ \<Rightarrow> [])"

definition metrics_of :: "read_file \<Rightarrow> payload" where
  "metrics_of f = (case f of Read_file (JObj p) \<Rightarrow> p | _ \<Rightarrow> [])"

record agent_context =
  cx_metadata :: payload
  cx_input :: json
  cx_output :: json
  cx_cost :: json

definition keep_known :: "json \<Rightarrow> json \<Rightarrow> json" where
  "keep_known v old = (if v = JNull then old else v)"

definition populate_context :: "read_file \<Rightarrow> read_file \<Rightarrow> agent_context \<Rightarrow> agent_context" where
  "populate_context result_file metrics_file c =
    (let r = result_of result_file; m = metrics_of metrics_file in
     c\<lparr>cx_metadata := AList.update ''orchestrator'' (JObj [(''state'', jget ''state'' r), (''task_id'', jget ''task_id'' r),
         (''task_ids'', jget_default ''task_ids'' (JList []) r), (''task_states'', jget_default ''task_states'' (JObj []) r),
         (''base_sha'', jget ''base_sha'' r), (''candidate_sha'', jget ''candidate_sha'' r), (''policy'', jget ''policy'' r),
         (''metrics'', JObj m), (''failure'', jget ''failure'' r)]) (cx_metadata c),
       cx_input := keep_known (jget ''tokens_in'' m) (cx_input c), cx_output := keep_known (jget ''tokens_out'' m) (cx_output c),
       cx_cost := keep_known (jget ''cost_usd'' m) (cx_cost c)\<rparr>)"

section \<open>Laws\<close>

text \<open>The file of credentials is named and copied; no request depends on what is in it.\<close>

lemma paths_plain: "shell_quote auth_mount = auth_mount" "shell_quote auth_copy = auth_copy"
  by code_simp+

lemma asked_prefix: "ask_container K r rs = (x, rs') \<Longrightarrow> rs' = rs @ [r]"
  by (auto simp: ask_container_def io_defs)

text \<open>A run that returns made these requests, in this order.\<close>

lemma agent_requests:
  assumes "agent_run K src e pid instruction [] = (Inr u, rs)"
  shows "\<exists>t. agent_timeout (agent_settings src) e = Inr t \<and> rs =
    (let i = remote_file pid ''dagent-instruction'' ''.md''; c = remote_file pid ''dagent-config'' ''.json'' in
     [Upload_text instruction i, As_root (''chmod 0644 '' @ shell_quote i) None,
      Upload_text (json_dumps (JObj (agent_settings src))) c, As_root (''chmod 0644 '' @ shell_quote c) None,
      As_root copy_auth_command None, As_agent (runtime_command i c) (agent_repo (agent_settings src) e) t])"
  using assms
  by (auto simp: agent_run_def upload_text_def ask_container_def io_defs Let_def split: sum.splits)

end
