(* ===== verification/Report.thy ===== *)
theory Report
  imports Cells
begin

text \<open>
  The report over saved cells (\<open>load_cell\<close>, \<open>summarize_cells\<close> and \<open>render_markdown\<close> of \<open>experiment.py\<close>).
  The arithmetic of floats is an argument: \<open>to_float\<close> is \<open>float\<close>, \<open>mean\<close> the mean of a list rounded to six
  decimals, \<open>complete\<close> the comparison with one, and \<open>fixed k\<close> the text with \<open>k\<close> decimals.
\<close>

section \<open>Loading\<close>

text \<open>\<open>quality\<close> is what the quality file holds, if there is one.\<close>

definition load_cell :: "(json \<Rightarrow> exc + json) \<Rightarrow> payload \<Rightarrow> payload \<Rightarrow> payload \<Rightarrow> json option \<Rightarrow> exc + payload" where
  "load_cell to_float manifest metrics result quality =
    (let c0 = dict_merge (dict_merge manifest metrics) (filter (\<lambda>(k, v). k \<noteq> ''metrics'') result);
         finish = (\<lambda>c. if map_of c ''cell_status'' = None then c @ [(''cell_status'', jget ''cell_status'' metrics)] else c) in
     case quality of
       Some (JObj q) \<Rightarrow>
         bindE (to_float (jget_default ''quality_score'' (JFloat ''0.0'') q)) (\<lambda>score.
         bindE (int_of (jget_default ''tasks_passed'' (JInt 0) q)) (\<lambda>passed.
         bindE (int_of (jget_default ''tasks_total'' (JInt 0) q)) (\<lambda>total.
           Inr (finish (dict_merge c0 [(''quality'', JObj q), (''quality_score'', score),
             (''quality_tasks_passed'', JInt passed), (''quality_tasks_total'', JInt total)])))))
     | _ \<Rightarrow> Inr (finish c0))"

section \<open>Summary\<close>

definition policy_of :: "payload \<Rightarrow> string" where
  "policy_of c = py_str (jget_default ''policy'' (JStr ''unknown'') c)"

definition policies_of :: "payload list \<Rightarrow> string list" where
  "policies_of cells = sort (remdups (map policy_of cells))"

definition cells_of :: "string \<Rightarrow> payload list \<Rightarrow> payload list" where
  "cells_of policy cells = filter (\<lambda>c. policy_of c = policy) cells"

definition succeeded :: "payload \<Rightarrow> bool" where
  "succeeded c = (jget ''cell_status'' c = JStr ''success'')"

record outcome_row =
  or_policy :: string
  or_cells :: nat
  or_successes :: nat
  or_probability :: json
  or_rate :: json

definition column :: "string \<Rightarrow> payload list \<Rightarrow> json list" where
  "column k cells = map (jget_default k (JFloat ''0.0'')) cells"

definition outcome_of :: "(json list \<Rightarrow> exc + json) \<Rightarrow> payload list \<Rightarrow> string \<Rightarrow> exc + outcome_row" where
  "outcome_of mean cells policy =
    (let rows = cells_of policy cells; won = length (filter succeeded rows) in
     bindE (mean (column ''verified_completion_rate'' rows)) (\<lambda>rate.
       Inr \<lparr>or_policy = policy, or_cells = length rows, or_successes = won,
         or_probability = completion_rate (int won) (int (length rows)), or_rate = rate\<rparr>))"

definition overhead_columns :: "string list" where
  "overhead_columns = [''wall_time_s'', ''cost_usd'', ''queue_wait_s'', ''worker_execution_s'', ''verification_s'',
    ''supervisor_s'']"

record overhead_row =
  ov_policy :: string
  ov_cells :: nat
  ov_means :: "json list"

definition overhead_of :: "(json list \<Rightarrow> exc + json) \<Rightarrow> payload list \<Rightarrow> string \<Rightarrow> exc + overhead_row" where
  "overhead_of mean cells policy =
    (let rows = cells_of policy cells in
     bindE (mapE (\<lambda>k. mean (column k rows)) overhead_columns) (\<lambda>ms.
       Inr \<lparr>ov_policy = policy, ov_cells = length rows, ov_means = ms\<rparr>))"

record quality_row =
  qu_policy :: string
  qu_cells :: nat
  qu_complete :: nat
  qu_score :: json
  qu_passed :: int
  qu_total :: int

text \<open>A cell that was loaded has integer counts of tasks; an absent one counts as zero.\<close>

definition int_column :: "string \<Rightarrow> payload list \<Rightarrow> exc + int" where
  "int_column k cells = bindE (mapE (\<lambda>c. int_of (jget_default k (JInt 0) c)) cells) (\<lambda>ns. Inr (sum_list ns))"

definition quality_of ::
    "(json list \<Rightarrow> exc + json) \<Rightarrow> (json \<Rightarrow> bool) \<Rightarrow> payload list \<Rightarrow> string \<Rightarrow> exc + quality_row" where
  "quality_of mean complete cells policy =
    (let rows = cells_of policy cells in
     bindE (mean (column ''quality_score'' rows)) (\<lambda>score.
     bindE (int_column ''quality_tasks_passed'' rows) (\<lambda>passed.
     bindE (int_column ''quality_tasks_total'' rows) (\<lambda>total.
       Inr \<lparr>qu_policy = policy, qu_cells = length rows, qu_complete = length (filter complete (column ''quality_score'' rows)),
         qu_score = score, qu_passed = passed, qu_total = total\<rparr>))))"

record summary =
  sm_cells :: nat
  sm_outcome :: nat
  sm_runtime :: nat
  sm_excluded :: "payload list"
  sm_policies :: "outcome_row list"
  sm_quality :: "quality_row list"
  sm_overhead :: "overhead_row list"
  sm_violations :: "payload list"
  sm_detail :: "payload list"

definition eligible :: "payload \<Rightarrow> bool" where
  "eligible c = truthy (jget ''eligible_for_outcome'' c)"

definition excluded_cell :: "payload \<Rightarrow> payload" where
  "excluded_cell c = [(''policy'', jget ''policy'' c), (''seed'', jget ''seed'' c), (''status'', jget ''cell_status'' c),
    (''reason'', jget ''cell_status_reason'' c)]"

definition summarize_cells :: "(json list \<Rightarrow> exc + json) \<Rightarrow> (json \<Rightarrow> bool) \<Rightarrow> payload list \<Rightarrow> exc + summary" where
  "summarize_cells mean complete cells =
    bindE (comparison_violations cells) (\<lambda>violations.
    let outcome = filter eligible cells;
        runtime = filter (\<lambda>c. truthy (jget ''runtime_comparable'' c)) cells;
        scored = filter (\<lambda>c. map_of c ''quality_score'' \<noteq> None) cells in
    bindE (mapE (outcome_of mean outcome) (policies_of outcome)) (\<lambda>policies.
    bindE (mapE (overhead_of mean runtime) (policies_of runtime)) (\<lambda>overhead.
    bindE (mapE (quality_of mean complete scored) (policies_of scored)) (\<lambda>quality.
      Inr \<lparr>sm_cells = length cells, sm_outcome = length outcome, sm_runtime = length runtime,
        sm_excluded = map excluded_cell (filter (\<lambda>c. \<not> eligible c) cells), sm_policies = policies, sm_quality = quality,
        sm_overhead = overhead, sm_violations = violations, sm_detail = cells\<rparr>))))"

section \<open>Markdown\<close>

definition bar :: "string list \<Rightarrow> string" where
  "bar cells = ''| '' @ join '' | '' cells @ '' |''"

definition outcome_line :: "(nat \<Rightarrow> json \<Rightarrow> string) \<Rightarrow> outcome_row \<Rightarrow> string" where
  "outcome_line fixed r = bar [or_policy r, nat_text (or_cells r), nat_text (or_successes r), fixed 6 (or_probability r),
    fixed 6 (or_rate r)]"

definition quality_line :: "(nat \<Rightarrow> json \<Rightarrow> string) \<Rightarrow> quality_row \<Rightarrow> string" where
  "quality_line fixed r = bar [qu_policy r, nat_text (qu_cells r), nat_text (qu_complete r), fixed 6 (qu_score r),
    int_text (qu_passed r) @ ''/'' @ int_text (qu_total r)]"

definition overhead_line :: "(nat \<Rightarrow> json \<Rightarrow> string) \<Rightarrow> overhead_row \<Rightarrow> string" where
  "overhead_line fixed r = bar ([ov_policy r, nat_text (ov_cells r)] @
    map2 fixed [3, 6, 3, 3, 3, 3] (ov_means r))"

definition excluded_line :: "payload \<Rightarrow> string" where
  "excluded_line c = ''- `'' @ py_str (jget ''policy'' c) @ ''` seed `'' @ py_str (jget ''seed'' c) @ ''`: '' @
    py_str (jget ''status'' c) @ '' ('' @ py_str (jget ''reason'' c) @ '')''"

definition violation_line :: "payload \<Rightarrow> string" where
  "violation_line v = ''- `'' @ py_str (jget ''backend_track'' v) @ ''` / `'' @ py_str (jget ''graph_id'' v) @ ''`: '' @
    py_str (jget ''reason'' v)"

definition lines_or_none :: "string list \<Rightarrow> string list" where
  "lines_or_none ls = (if ls = [] then [''None.''] else ls)"

definition render_markdown :: "(nat \<Rightarrow> json \<Rightarrow> string) \<Rightarrow> summary \<Rightarrow> string" where
  "render_markdown fixed s = join [CHR 0x0A] (
    [''# Experiment summary'', [], ''Cells: '' @ nat_text (sm_cells s) @ ''  '',
     ''Outcome-eligible: '' @ nat_text (sm_outcome s) @ ''  '', ''Runtime-comparable: '' @ nat_text (sm_runtime s), [],
     ''## Outcome quality'', [],
     bar [''Policy'', ''Cells'', ''Successes'', ''Verified completion probability'', ''Mean completion rate''],
     ''|---|---:|---:|---:|---:|''] @ map (outcome_line fixed) (sm_policies s) @
    (if sm_quality s = [] then [] else
      [[], ''## Semantic quality (verifier hidden tests)'', [],
       bar [''Policy'', ''Cells'', ''Complete scores'', ''Mean quality score'', ''Hidden tests passed''],
       ''|---|---:|---:|---:|---:|''] @ map (quality_line fixed) (sm_quality s)) @
    [[], ''## Orchestration overhead (successful cells only)'', [],
     bar [''Policy'', ''Cells'', ''Mean wall s'', ''Mean cost USD'', ''Mean queue s'', ''Mean worker s'', ''Mean verify s'',
       ''Mean supervisor s''],
     ''|---|---:|---:|---:|---:|---:|---:|---:|''] @ map (overhead_line fixed) (sm_overhead s) @
    [[], ''## Excluded cells'', []] @ lines_or_none (map excluded_line (sm_excluded s)) @
    [[], ''## Comparison input violations'', []] @ lines_or_none (map violation_line (sm_violations s))) @ [CHR 0x0A]"

section \<open>Laws\<close>

lemma cells_by_policy:
  "sum_list (map (\<lambda>p. length (cells_of p cells)) (policies_of cells)) = length cells"
proof -
  have "sum_list (map (\<lambda>p. length (cells_of p cells)) (policies_of cells)) =
      (\<Sum>p\<in>policy_of ` set cells. length (filter (\<lambda>c. policy_of c = p) cells))"
    by (simp add: policies_of_def cells_of_def sum_list_distinct_conv_sum_set)
  also have "\<dots> = (\<Sum>p\<in>policy_of ` set cells. count_list (map policy_of cells) p)"
    by (rule sum.cong[OF refl]) (simp add: count_list_eq_length_filter filter_map comp_def eq_commute)
  also have "\<dots> = length cells" using sum_count_set[of "map policy_of cells" "policy_of ` set cells"] by simp
  finally show ?thesis .
qed

lemma mapE_rows:
  "mapE f xs = Inr ys \<Longrightarrow> (\<And>x y. f x = Inr y \<Longrightarrow> g y = h x) \<Longrightarrow> map g ys = map h xs"
  by (induction xs arbitrary: ys) (auto split: sum.splits)

text \<open>
  The summary counts every cell once: the rows of the outcome add up to the eligible cells, the others are
  listed as excluded, and no row has more successes than cells.
\<close>

lemma summary_partition:
  assumes "summarize_cells mean complete cells = Inr s"
  shows "sum_list (map or_cells (sm_policies s)) = sm_outcome s" "sm_outcome s + length (sm_excluded s) = sm_cells s"
    "sum_list (map ov_cells (sm_overhead s)) = sm_runtime s" "r \<in> set (sm_policies s) \<Longrightarrow> or_successes r \<le> or_cells r"
    "map or_policy (sm_policies s) = policies_of (filter eligible cells)"
proof -
  let ?o = "filter eligible cells" and ?r = "filter (\<lambda>c. truthy (jget ''runtime_comparable'' c)) cells"
  from assms obtain rows over where rows: "mapE (outcome_of mean ?o) (policies_of ?o) = Inr rows"
    and over: "mapE (overhead_of mean ?r) (policies_of ?r) = Inr over"
    and s: "sm_policies s = rows" "sm_overhead s = over" "sm_outcome s = length ?o" "sm_runtime s = length ?r"
      "sm_cells s = length cells" "sm_excluded s = map excluded_cell (filter (\<lambda>c. \<not> eligible c) cells)"
    by (auto simp: summarize_cells_def bindE_Inr_iff Let_def)
  have "map or_cells rows = map (\<lambda>p. length (cells_of p ?o)) (policies_of ?o)"
    by (rule mapE_rows[OF rows]) (auto simp: outcome_of_def Let_def bindE_Inr_iff)
  then show "sum_list (map or_cells (sm_policies s)) = sm_outcome s" by (simp only: s cells_by_policy)
  have "map ov_cells over = map (\<lambda>p. length (cells_of p ?r)) (policies_of ?r)"
    by (rule mapE_rows[OF over]) (auto simp: overhead_of_def Let_def bindE_Inr_iff)
  then show "sum_list (map ov_cells (sm_overhead s)) = sm_runtime s" by (simp only: s cells_by_policy)
  have "map or_policy rows = map (\<lambda>p. p) (policies_of ?o)"
    by (rule mapE_rows[OF rows]) (auto simp: outcome_of_def Let_def bindE_Inr_iff)
  then show "map or_policy (sm_policies s) = policies_of ?o" by (simp add: s)
  have "map (\<lambda>r. or_successes r \<le> or_cells r) rows = map (\<lambda>p. True) (policies_of ?o)"
    by (rule mapE_rows[OF rows]) (auto simp: outcome_of_def Let_def bindE_Inr_iff)
  then show "r \<in> set (sm_policies s) \<Longrightarrow> or_successes r \<le> or_cells r"
    by (auto simp: s map_eq_conv dest!: arg_cong[of _ _ set])
  show "sm_outcome s + length (sm_excluded s) = sm_cells s" by (simp add: s sum_length_filter_compl)
qed

end
