(* ===== verification/Spec2Isabelle.thy ===== *)
theory Spec2Isabelle
  imports Scheduler_Properties Plan_Properties Gate_Properties Pool_Properties Divergences Storage_Properties
    Sdk_Properties Operator_Properties Harbor_Properties Runtime_Properties Agent Report
begin

text \<open>
  A model of DAGent (\<open>src/src/dagent\<close>), an event-sourced scheduler that runs coding agents on the
  tasks of a dependency graph, each attempt in a git worktree under a lease.

  Parts and theories.

  Store. \<open>Prelude\<close> has exceptions, the state and exception monad and dictionaries, \<open>Json\<close> the JSON
  values with their printer and parser, \<open>Schema\<close> the rows of \<open>store/schema.sql\<close>. \<open>Store\<close> is
  \<open>store/events.py\<close>: identifiers, the state machine, the writes of tasks, attempts, interventions and
  events, and the two replays. \<open>Lease\<close> is \<open>execution_lease.py\<close>. \<open>Store_Laws\<close> and \<open>Lease_Laws\<close> hold the
  laws of each operation; \<open>Ledger\<close> is the step relation of all committed writes with its invariants,
  \<open>World\<close> the statements of the program on a database and a clock.

  Decisions. \<open>Recovery\<close> is \<open>recovery.py\<close>; \<open>Supervision\<close> is \<open>supervisor/\<close> (menu, packet, parsing of an
  answer, retries of the call); \<open>Interfaces\<close> is \<open>interfaces.py\<close>.

  Scheduler (\<open>scheduler/core.py\<close>, \<open>adaptive.py\<close>, \<open>reconcile.py\<close>, \<open>worker/contract.py\<close>). \<open>Graph\<close> is the
  startup check of the dependency graph, \<open>Deps\<close> the settling of blocked tasks, \<open>Sched\<close> the state,
  configuration and services of the scheduler, \<open>Launch\<close> teardown, launch and the choice of the next
  task, \<open>Triage\<close> and \<open>Dispatch\<close> the handling of a failure signal and of the supervisor's actions,
  \<open>Verify\<close> verification and delivery, \<open>Watch\<close> the stream of a worker and the watchdog, \<open>Reconcile\<close>
  the restart, \<open>Run\<close> the loop. A handler is a function from the state to an outcome and the state
  after it, also when it raises, because every statement commits on its own.

  Preflight (\<open>workflow_preflight.py\<close>). \<open>Preflight\<close> checks one specification, \<open>Conflicts\<close> overlapping
  scopes and their groups by union-find, \<open>Plan\<close> the order, depths, critical path and the plan;
  \<open>Plan_Laws\<close>, \<open>Plan_Order\<close> and \<open>Conflict_Groups\<close> hold their laws.

  Verification (\<open>verify/\<close>). \<open>Host\<close> has the commands, files and texts that git and the shell answer with,
  \<open>Signature\<close> the failure signature with its SHA-256, \<open>Gate\<close> is the plain gate of \<open>gate.py\<close>, \<open>Evidence\<close>
  and \<open>Ladder\<close> the plan and the five stages of \<open>evidence.py\<close>. \<open>Host_Laws\<close>, \<open>Gate_Laws\<close> and \<open>Ladder_Laws\<close>
  follow the registered worktrees and the branches through them.

  Checkouts and delivery. \<open>Pool\<close> is \<open>worker/worktree_pool.py\<close> and \<open>worker/worktree.py\<close>, \<open>Delivery\<close> is
  \<open>delivery/__init__.py\<close> with its three modes.

  Workers (\<open>worker/\<close>). \<open>Launcher\<close> starts a process (\<open>sdk.py\<close>, \<open>cli.py\<close>, \<open>fake.py\<close>). \<open>Cli_Record\<close> and
  \<open>Cli_Worker\<close> are \<open>cli_worker.py\<close>: the check of each line of the command and the run over its lines;
  \<open>Sdk_Worker\<close> and \<open>Sdk_Session\<close> are \<open>sdk_worker.py\<close>: redaction, tool checks, and the session.

  Operation. \<open>Operator\<close> has the commands of \<open>cli.py\<close> and \<open>verify/cli.py\<close>, \<open>Policy\<close> the settings, the boundary,
  the policies and the injected fault (\<open>config.py\<close>, \<open>worker/isolation.py\<close>, \<open>policies.py\<close>), \<open>Metrics\<close> is
  \<open>metrics.py\<close>, \<open>Cells\<close> and \<open>Report\<close> the cells and the report of \<open>experiment.py\<close>, \<open>Harbor\<close> the submission and
  outcome of \<open>harbor.py\<close>, \<open>Runtime\<close> the settings, credentials, manifest and files of \<open>harbor_runtime.py\<close>, and
  \<open>Agent\<close> the requests of \<open>harbor_agent.py\<close>.

  Contracts. \<open>Contract\<close> states what runs of the scheduler may do to the database, as locales over the
  statements of the store that are interpreted on a trace of writes, on retry counters (\<open>Budget\<close>), on
  the growth of the log (\<open>Progress\<close>); \<open>Frame\<close> does the same for the dictionaries of the scheduler, and
  computes what a clean-up reports from the answers of the services it calls,
  \<open>Launching\<close> for the slots of a launch round, \<open>Lineage\<close> for the ancestors of an attempt. \<open>Json_Laws\<close> has
  the round trip of printing and parsing.

  Properties: \<open>Ledger_Properties\<close> and the theories of the components hold the store, the decisions
  and the graph, \<open>Scheduler_Properties\<close> the scheduler on the sample runs of \<open>Sample\<close>,
  \<open>Plan_Properties\<close> the preflight, \<open>Gate_Properties\<close> the gate and the ladder on the host of \<open>Sample_Host\<close>,
  \<open>Pool_Properties\<close> and \<open>Delivery_Properties\<close> the checkouts, \<open>Storage_Properties\<close> the stored declarations,
  \<open>Cli_Properties\<close> and \<open>Sdk_Properties\<close> the streams of the workers, \<open>Operator_Properties\<close> the commands, the
  fault and the credentials, \<open>Harbor_Properties\<close> the submission, \<open>Runtime_Properties\<close> the boundary of a
  container. \<open>Divergences\<close> and the lemmas that the findings name show runs where the code differs from
  what it states.

  Bounds. Fuel is a number that the program itself bounds: one more than the blocked tasks for the
  settling, one more than the queued tasks for a launch round, the nodes of the workflow for its
  order and its union-find, the attempts for the lineage; that it is enough is proved.

  Parameters. Git, the shell, worker processes, the language model and its SDK, clocks and the file
  system are services or hosts that the definitions take and the theorems quantify over; what
  delivery and the pool rely on of git is stated as hypotheses of their theorems. Readers of
  floats (\<open>seconds\<close>, \<open>usd\<close>), stored instants (\<open>stamp\<close>) and parsed files are arguments too.
  Characters are those below 256, floats are their literals.

  Not modelled. The event loop of asyncio appears as the order of the steps: a handler, and a whole
  stream of a worker with the verification after it, runs to its end before the next one starts.
  Cancellation of a running coroutine, and the tasks and locks themselves (\<open>_exit_watchers\<close>,
  \<open>_watchers\<close>, \<open>_reap_locks\<close>, \<open>_teardown_tasks\<close>), do not appear. One process writes the database:
  \<open>transition\<close> reads the state in the same step in which it writes, where the code reads it just before
  its transaction. A value of another type than its column raises \<open>TypeError\<close> in \<open>set_task_col\<close> and
  \<open>usage_of\<close>, where SQLite would convert or store it; sets and sorted lists of mixed number types are
  taken apart by their JSON kind. The optional dump of supervisor calls (\<open>_dump\<close> of \<open>llm.py\<close>) is left
  out. Hooks that the SDK runs while it disconnects, and a timeout
  while a turn that already failed is closed, are not among the behaviours of \<open>sdk_close\<close> and
  \<open>turn_items\<close>. The hypothesis \<open>tidy\<close> of the gate asks of git that adding and removing a worktree
  registers and unregisters it, for every directory. Row order is insertion order where a query asks for
  none. Parsing of arguments and one-off tools (\<open>supervisor/replay.py\<close>) are left out: they only connect what
  is modelled. The report of an experiment takes means and formats of binary floats as arguments, since they
  have no exact counterpart here, and does not look for its files. \<open>store/db.py\<close> opens and migrates files of older
  versions: the model starts from a database with the present schema. \<open>worker/fake_worker.py\<close> is a set of test
  scripts, and \<open>diagnostics.py\<close> writes a journal that nothing reads back.
\<close>

end
